(* ===== verification/Cloudy_Prelude.thy ===== *)
theory Cloudy_Prelude
  imports Main "HOL-Library.Sublist" "HOL-Library.AList" "HOL-Library.Char_ord"
    "HOL-Library.List_Lexorder"
begin

text \<open>
  Shared vocabulary of the development: the two collections of hints the component theories
  extend, the model of a Go \<open>map[string]V\<close> as an association list with distinct keys, the
  generic contract of a keyed store, and the lifting of one-step facts to whole runs of a loop.
  Go strings are byte sequences, so the type \<open>string\<close> (a list of 8-bit characters) is exact.
\<close>

named_theorems go_simps \<open>unfolding rules of the modelled Go operations\<close>
named_theorems go_intros \<open>introduction rules for the invariants of the components\<close>

text \<open>A Go \<open>map[string]V\<close>: lookups by \<open>map_of\<close>, writes by \<open>AList.update\<close>, deletes by
  \<open>AList.delete\<close>. The order of the list is never observed by a result except through an explicit
  sort, as the order of a Go map is unspecified.\<close>

type_synonym 'v gomap = "(string \<times> 'v) list"

type_synonym gotime = int

abbreviation gm_get :: "'v gomap \<Rightarrow> string \<Rightarrow> 'v option" where
  "gm_get m k \<equiv> map_of m k"

abbreviation gm_put :: "string \<Rightarrow> 'v \<Rightarrow> 'v gomap \<Rightarrow> 'v gomap" where
  "gm_put k v m \<equiv> AList.update k v m"

abbreviation gm_del :: "string \<Rightarrow> 'v gomap \<Rightarrow> 'v gomap" where
  "gm_del k m \<equiv> AList.delete k m"

definition gm_wf :: "'v gomap \<Rightarrow> bool" where
  "gm_wf m \<longleftrightarrow> distinct (map fst m)"

definition gm_keys :: "'v gomap \<Rightarrow> string list" where
  "gm_keys m = sort (map fst m)"

definition gm_has :: "'v gomap \<Rightarrow> string \<Rightarrow> bool" where
  "gm_has m k \<longleftrightarrow> k \<in> fst ` set m"

lemma gm_has_iff [simp]: "gm_has m k \<longleftrightarrow> map_of m k \<noteq> None"
  by (simp add: gm_has_def map_of_eq_None_iff)

lemma gm_wf_Nil [simp]: "gm_wf []"
  by (simp add: gm_wf_def)

lemma gm_wf_put [simp]: "gm_wf m \<Longrightarrow> gm_wf (gm_put k v m)"
  by (simp add: gm_wf_def distinct_update)

lemma gm_wf_del [simp]: "gm_wf m \<Longrightarrow> gm_wf (gm_del k m)"
  by (simp add: gm_wf_def distinct_delete)

lemma gm_wf_filter [simp]: "gm_wf m \<Longrightarrow> gm_wf (filter P m)"
  by (simp add: gm_wf_def distinct_map_filter)

lemma gm_get_put: "map_of (AList.update k v m) k' = (if k' = k then Some v else map_of m k')"
  by (simp add: update_conv')

lemma gm_get_del: "map_of (AList.delete k m) k' = (if k' = k then None else map_of m k')"
  by (simp add: delete_conv')

lemma set_gm_keys [simp]: "set (gm_keys m) = fst ` set m"
  by (simp add: gm_keys_def)

lemma sorted_gm_keys [simp]: "sorted (gm_keys m)"
  by (simp add: gm_keys_def)

lemma distinct_gm_keys [simp]: "gm_wf m \<Longrightarrow> distinct (gm_keys m)"
  by (simp add: gm_keys_def gm_wf_def)

lemma gm_get_filter:
  "gm_wf m \<Longrightarrow> map_of (filter P m) k
     = (case map_of m k of None \<Rightarrow> None | Some v \<Rightarrow> if P (k, v) then Some v else None)"
  unfolding gm_wf_def
proof (induction m)
  case Nil
  then show ?case by simp
next
  case (Cons a m)
  obtain k' v' where a: "a = (k', v')" by fastforce
  from Cons have dist: "k' \<notin> fst ` set m" and IH:
    "map_of (filter P m) k
      = (case map_of m k of None \<Rightarrow> None | Some v \<Rightarrow> if P (k, v) then Some v else None)"
    by (auto simp: a)
  have "map_of (filter P m) k' = None"
    using dist by (force simp: map_of_eq_None_iff)
  then show ?case using IH by (auto simp: a)
qed

lemma set_gm_put_subset: "set (AList.update k v m) \<subseteq> insert (k, v) (set m)"
  by (induction m) auto

lemma length_gm_put: "length (AList.update k v m) = (if k \<in> fst ` set m then length m else Suc (length m))"
  by (induction m) auto

lemma gm_get_rev: "gm_wf m \<Longrightarrow> map_of (rev m) k = map_of m k"
proof (induction m)
  case Nil
  then show ?case by simp
next
  case (Cons a m)
  obtain k' v' where a: "a = (k', v')" by fastforce
  from Cons have IH: "map_of (rev m) k = map_of m k" and fresh: "map_of m k' = None"
    by (auto simp: a gm_wf_def map_of_eq_None_iff)
  then show ?case by (auto simp: a map_add_def split: option.splits)
qed

lemma distinct_map_sort_key: "distinct (map f (sort_key f xs)) \<longleftrightarrow> distinct (map f xs)"
  by (simp add: distinct_map)

text \<open>The contract of a keyed store, stated once for every map the program keeps.\<close>

locale keyed_store =
  fixes lookup :: "'s \<Rightarrow> 'k \<Rightarrow> 'v option"
    and insert_at :: "'k \<Rightarrow> 'v \<Rightarrow> 's \<Rightarrow> 's"
    and remove_at :: "'k \<Rightarrow> 's \<Rightarrow> 's"
  assumes lookup_insert: "lookup (insert_at k v s) k' = (if k' = k then Some v else lookup s k')"
    and lookup_remove: "lookup (remove_at k s) k' = (if k' = k then None else lookup s k')"
begin

lemma insert_dom: "{k'. lookup (insert_at k v s) k' \<noteq> None} = insert k {k'. lookup s k' \<noteq> None}"
  by (auto simp: lookup_insert)

lemma remove_dom: "{k'. lookup (remove_at k s) k' \<noteq> None} = {k'. lookup s k' \<noteq> None} - {k}"
  by (auto simp: lookup_remove)

lemma insert_then_remove: "lookup (remove_at k (insert_at k v s)) = lookup (remove_at k s)"
  by (rule ext) (simp add: lookup_insert lookup_remove)

lemma remove_fresh_insert:
  "lookup s k = None \<Longrightarrow> lookup (remove_at k (insert_at k v s)) = lookup s"
  by (rule ext) (simp add: lookup_insert lookup_remove)

end

interpretation gm: keyed_store "gm_get" "gm_put" "gm_del"
  by unfold_locales (simp_all add: gm_get_put gm_get_del)

text \<open>One step of a loop keeps an invariant; so does the loop.\<close>

locale step_invariant =
  fixes step :: "'a \<Rightarrow> 's \<Rightarrow> 's"
    and inv :: "'s \<Rightarrow> bool"
  assumes step_keeps: "inv s \<Longrightarrow> inv (step a s)"
begin

lemma fold_keeps: "inv s \<Longrightarrow> inv (fold step xs s)"
  by (induction xs arbitrary: s) (auto intro: step_keeps)

lemma foldr_keeps: "inv s \<Longrightarrow> inv (foldr step xs s)"
  by (induction xs) (auto intro: step_keeps)

end

interpretation gm_put_keeps: step_invariant "\<lambda>(k, v). gm_put k v" "gm_wf"
  by unfold_locales auto

lemma gm_wf_fold_put: "gm_wf m \<Longrightarrow> gm_wf (fold (\<lambda>(k, v). gm_put k v) xs m)"
  by (rule gm_put_keeps.fold_keeps)

lemma map_of_fold_put:
  "map_of (fold (\<lambda>(k, v). gm_put k v) xs m) k
     = (case map_of (rev xs) k of None \<Rightarrow> map_of m k | Some v \<Rightarrow> Some v)"
proof (induction xs arbitrary: m)
  case Nil
  then show ?case by simp
next
  case (Cons a xs)
  obtain k' v' where a: "a = (k', v')" by fastforce
  have "map_of (rev xs @ [(k', v')]) k
      = (case map_of (rev xs) k of None \<Rightarrow> (if k = k' then Some v' else None) | Some v \<Rightarrow> Some v)"
    by (simp add: map_add_def split: option.splits)
  then show ?case by (simp add: a Cons gm_get_put split: option.splits)
qed

lemma in_set_map_filter: "y \<in> set (List.map_filter f xs) \<longleftrightarrow> (\<exists>x \<in> set xs. f x = Some y)"
  by (induction xs) (auto simp: map_filter_simps split: option.splits)

text \<open>First element of a list with a property: the shape of every \<open>for ... return\<close> loop.\<close>

lemma case_option_id [simp]: "(case x of None \<Rightarrow> None | Some y \<Rightarrow> Some y) = x"
  by (cases x) simp_all

lemma find_SomeD: "List.find P xs = Some x \<Longrightarrow> x \<in> set xs \<and> P x"
  by (induction xs) (auto split: if_splits)

lemma find_None_filter: "List.find P xs = None \<longleftrightarrow> filter P xs = []"
  by (induction xs) auto

lemma find_append_case:
  "List.find P (xs @ ys) = (case List.find P xs of Some x \<Rightarrow> Some x | None \<Rightarrow> List.find P ys)"
  by (induction xs) auto

lemma sorted_le_last: "sorted xs \<Longrightarrow> x \<in> set xs \<Longrightarrow> x \<le> last xs"
  by (induction xs) auto

lemma take_length_bound: "length (take n xs) \<le> n"
  by simp

section \<open>Two sorts in a row\<close>

lemma insort_key_lex:
  assumes "sorted_wrt (\<lambda>a b. f a < f b \<or> f a = f b \<and> g a \<le> g b) ys" "\<forall>y \<in> set ys. g x \<le> g y"
  shows "sorted_wrt (\<lambda>a b. f a < f b \<or> f a = f b \<and> g a \<le> (g b :: 'b :: linorder)) (insort_key (f :: 'a \<Rightarrow> 'c :: linorder) x ys)"
  using assms
proof (induction ys)
  case (Cons y ys)
  show ?case
  proof (cases "f x \<le> f y")
    case True
    have "f x < f z \<or> f x = f z \<and> g x \<le> g z" if "z \<in> set (y # ys)" for z
    proof -
      have "f y \<le> f z" using Cons.prems(1) that by auto
      then show ?thesis using True Cons.prems(2) that by (auto simp: order.order_iff_strict)
    qed
    then show ?thesis using True Cons.prems(1) by simp
  next
    case False
    then show ?thesis using Cons by (auto simp: set_insort_key)
  qed
qed simp

lemma sort_key_lex:
  "sorted (map g xs) \<Longrightarrow> sorted_wrt (\<lambda>a b. f a < f b \<or> f a = f b \<and> g a \<le> g b) (sort_key f xs)"
  for f :: "'a \<Rightarrow> 'c :: linorder" and g :: "'a \<Rightarrow> 'b :: linorder"
proof (induction xs)
  case (Cons x xs)
  then show ?case using insort_key_lex [of f g "sort_key f xs" x] by simp
qed simp

section \<open>Machine integers\<close>

text \<open>An \<open>int64\<close>: the representative of a number in [-2^63, 2^63).\<close>

definition wrap64 :: "int \<Rightarrow> int" where
  "wrap64 x = (x + 9223372036854775808) mod 18446744073709551616 - 9223372036854775808"

lemma wrap64_small [simp]: "- 9223372036854775808 \<le> x \<Longrightarrow> x < 9223372036854775808 \<Longrightarrow> wrap64 x = x"
  by (simp add: wrap64_def)

lemma wrap64_range: "- 9223372036854775808 \<le> wrap64 x \<and> wrap64 x < 9223372036854775808"
  by (simp add: wrap64_def)

section \<open>The first error of a row of checks\<close>

fun first_error :: "'e option list \<Rightarrow> 'e option" where
  "first_error [] = None"
| "first_error (None # es) = first_error es"
| "first_error (Some e # es) = Some e"

lemma first_error_None: "first_error es = None \<longleftrightarrow> (\<forall>e \<in> set es. e = None)"
  by (induction es rule: first_error.induct) auto

end
