(* ===== verification/Go_Text.thy ===== *)
theory Go_Text
  imports Cloudy_Prelude
begin

text \<open>
  The string operations of Go's standard library the program uses, on byte strings: prefixes and
  suffixes, splitting and joining, trimming and fields by Unicode white space, UTF-8 decoding and
  encoding of runes, case mapping over the Unicode tables (a parameter, \<open>unicode\<close>, because the
  tables are data of the standard library), \<open>strings.NewReplacer\<close>, and decimal rendering.
\<close>

abbreviation newline :: char where "newline \<equiv> CHR 0x0A"

text \<open>The characters beyond ASCII that the rendered texts share.\<close>

abbreviation em_dash :: string where "em_dash \<equiv> [CHR 0xE2, CHR 0x80, CHR 0x94]"
abbreviation three_dots :: string where "three_dots \<equiv> [CHR 0xE2, CHR 0x80, CHR 0xA6]"
abbreviation arrow :: string where "arrow \<equiv> [CHR 0xE2, CHR 0x86, CHR 0x92]"
abbreviation times_sign :: string where "times_sign \<equiv> [CHR 0xC3, CHR 0x97]"
abbreviation warning_sign :: string where "warning_sign \<equiv> [CHR 0xE2, CHR 0x9A, CHR 0xA0]"

section \<open>Prefixes, suffixes, searching\<close>

definition has_prefix :: "string \<Rightarrow> string \<Rightarrow> bool" where
  "has_prefix s p = prefix p s"

definition has_suffix :: "string \<Rightarrow> string \<Rightarrow> bool" where
  "has_suffix s p = suffix p s"

definition trim_prefix :: "string \<Rightarrow> string \<Rightarrow> string" where
  "trim_prefix s p = (if prefix p s then drop (length p) s else s)"

definition trim_suffix :: "string \<Rightarrow> string \<Rightarrow> string" where
  "trim_suffix s p = (if suffix p s then take (length s - length p) s else s)"

fun contains :: "string \<Rightarrow> string \<Rightarrow> bool" where
  "contains [] sub = (sub = [])"
| "contains (c # s) sub = (prefix sub (c # s) \<or> contains s sub)"

fun index_byte :: "string \<Rightarrow> char \<Rightarrow> nat option" where
  "index_byte [] c = None"
| "index_byte (x # s) c = (if x = c then Some 0 else map_option Suc (index_byte s c))"

fun last_index_byte :: "string \<Rightarrow> char \<Rightarrow> nat option" where
  "last_index_byte [] c = None"
| "last_index_byte (x # s) c =
     (case last_index_byte s c of
        Some i \<Rightarrow> Some (Suc i)
      | None \<Rightarrow> if x = c then Some 0 else None)"

lemma contains_iff: "contains s sub \<longleftrightarrow> (\<exists>u v. s = u @ sub @ v)"
proof (induction s)
  case Nil
  then show ?case by simp
next
  case (Cons c s)
  show ?case
  proof
    assume "contains (c # s) sub"
    then consider "prefix sub (c # s)" | "contains s sub" by auto
    then show "\<exists>u v. c # s = u @ sub @ v"
    proof cases
      case 1
      then show ?thesis by (metis append_Nil prefixE)
    next
      case 2
      then obtain u v where "s = u @ sub @ v" using Cons by blast
      then have "c # s = (c # u) @ sub @ v" by simp
      then show ?thesis by blast
    qed
  next
    assume "\<exists>u v. c # s = u @ sub @ v"
    then obtain u v where uv: "c # s = u @ sub @ v" by blast
    show "contains (c # s) sub"
    proof (cases u)
      case Nil
      with uv have "prefix sub (c # s)" by (auto intro: prefixI)
      then show ?thesis by simp
    next
      case (Cons d u')
      with uv have "s = u' @ sub @ v" by simp
      then have "contains s sub" using Cons.IH by blast
      then show ?thesis by simp
    qed
  qed
qed

lemma index_byte_Some:
  "index_byte s c = Some i \<Longrightarrow> i < length s \<and> s ! i = c \<and> c \<notin> set (take i s)"
  by (induction s arbitrary: i) (auto split: if_splits)

lemma index_byte_None [simp]: "index_byte s c = None \<longleftrightarrow> c \<notin> set s"
  by (induction s) auto

lemma last_index_byte_Some:
  "last_index_byte s c = Some i \<Longrightarrow> i < length s \<and> s ! i = c \<and> c \<notin> set (drop (Suc i) s)"
proof (induction s arbitrary: i)
  case Nil
  then show ?case by simp
next
  case (Cons x s)
  show ?case
  proof (cases "last_index_byte s c")
    case None
    have "c \<notin> set s" using None
    proof (induction s)
      case (Cons y s)
      then show ?case by (auto split: option.splits if_splits)
    qed simp
    with None Cons.prems show ?thesis by (auto split: if_splits)
  next
    case (Some j)
    with Cons show ?thesis by auto
  qed
qed

lemma last_index_byte_None [simp]: "last_index_byte s c = None \<longleftrightarrow> c \<notin> set s"
  by (induction s) (auto split: option.splits)

section \<open>Splitting, joining, replacing\<close>

fun split_byte :: "char \<Rightarrow> string \<Rightarrow> string list" where
  "split_byte c [] = [[]]"
| "split_byte c (x # s) =
     (if x = c then [] # split_byte c s
      else (case split_byte c s of [] \<Rightarrow> [[x]] | w # ws \<Rightarrow> (x # w) # ws))"

fun join :: "string list \<Rightarrow> string \<Rightarrow> string" where
  "join [] sep = []"
| "join [w] sep = w"
| "join (w # v # ws) sep = w @ sep @ join (v # ws) sep"

definition replace_byte :: "string \<Rightarrow> char \<Rightarrow> string \<Rightarrow> string" where
  "replace_byte s old new = concat (map (\<lambda>x. if x = old then new else [x]) s)"

lemma replace_byte_Nil [simp]: "replace_byte [] old new = []"
  by (simp add: replace_byte_def)

lemma replace_byte_Cons [simp]:
  "replace_byte (x # s) old new = (if x = old then new else [x]) @ replace_byte s old new"
  by (simp add: replace_byte_def)

lemma split_byte_ne [simp]: "split_byte c s \<noteq> []"
  by (induction s) (auto split: list.splits)

lemma join_Cons: "ws \<noteq> [] \<Longrightarrow> join (w # ws) sep = w @ sep @ join ws sep"
  by (cases ws) auto

lemma join_split: "join (split_byte c s) [c] = s"
proof (induction s)
  case Nil
  then show ?case by simp
next
  case (Cons x s)
  obtain w ws where w: "split_byte c s = w # ws" by (cases "split_byte c s") auto
  with Cons have j: "join (w # ws) [c] = s" by simp
  show ?case
  proof (cases "x = c")
    case True
    then show ?thesis using w j by simp
  next
    case False
    have "join ((x # w) # ws) [c] = x # join (w # ws) [c]" by (cases ws) auto
    then show ?thesis using False w j by simp
  qed
qed

lemma replace_byte_absent: "old \<notin> set new \<Longrightarrow> old \<notin> set (replace_byte s old new)"
  by (induction s) auto

text \<open>\<open>strings.NewReplacer\<close>: at each position the first pair, in argument order, whose old string
  is a prefix of the rest is replaced; otherwise one byte is copied. (Every old string here is
  non-empty.)\<close>

fun replacer_match :: "(string \<times> string) list \<Rightarrow> string \<Rightarrow> (string \<times> string) option" where
  "replacer_match [] s = None"
| "replacer_match ((old, new) # ps) s =
     (if old \<noteq> [] \<and> prefix old s then Some (old, new) else replacer_match ps s)"

lemma replacer_match_Some:
  "replacer_match ps s = Some (old, new) \<Longrightarrow> (old, new) \<in> set ps \<and> old \<noteq> [] \<and> prefix old s"
  by (induction ps s rule: replacer_match.induct) (auto split: if_splits)

function replacer :: "(string \<times> string) list \<Rightarrow> string \<Rightarrow> string" where
  "replacer ps s =
     (case s of [] \<Rightarrow> []
      | c # cs \<Rightarrow>
          (case replacer_match ps s of
             None \<Rightarrow> c # replacer ps cs
           | Some (old, new) \<Rightarrow> new @ replacer ps (drop (length old) s)))"
  by pat_completeness auto
termination
  by (relation "measure (\<lambda>(ps, s). length s)") (auto dest!: replacer_match_Some)

declare replacer.simps [simp del]

lemma replacer_Nil [simp]: "replacer ps [] = []"
  by (subst replacer.simps) simp

lemma replacer_copy: "replacer_match ps (c # cs) = None \<Longrightarrow> replacer ps (c # cs) = c # replacer ps cs"
  by (subst replacer.simps) simp

lemma replacer_hit:
  "replacer_match ps (c # cs) = Some (old, new)
     \<Longrightarrow> replacer ps (c # cs) = new @ replacer ps (drop (length old) (c # cs))"
  by (subst replacer.simps) simp

section \<open>Decimal rendering\<close>

definition digit_char :: "nat \<Rightarrow> char" where
  "digit_char d = char_of (48 + d)"

fun show_nat :: "nat \<Rightarrow> string" where
  "show_nat n = (if n < 10 then [digit_char n] else show_nat (n div 10) @ [digit_char (n mod 10)])"

declare show_nat.simps [simp del]

definition show_int :: "int \<Rightarrow> string" where
  "show_int i = (if i < 0 then CHR ''-'' # show_nat (nat (- i)) else show_nat (nat i))"

lemma show_nat_ne [simp]: "show_nat n \<noteq> []"
  by (subst show_nat.simps) auto

definition digit_val :: "char \<Rightarrow> nat" where
  "digit_val c = of_char c - 48"

lemma digit_val_char: "d < 10 \<Longrightarrow> digit_val (digit_char d) = d"
  by (simp add: digit_val_def digit_char_def)

definition read_nat :: "string \<Rightarrow> nat" where
  "read_nat s = fold (\<lambda>c n. 10 * n + digit_val c) s 0"

lemma read_show_nat: "read_nat (show_nat n) = n"
proof (induction n rule: show_nat.induct)
  case (1 n)
  show ?case
  proof (cases "n < 10")
    case True
    then show ?thesis by (subst show_nat.simps) (simp add: read_nat_def digit_val_char)
  next
    case False
    then have "read_nat (show_nat (n div 10)) = n div 10" using 1 by simp
    with False show ?thesis
      by (subst show_nat.simps) (simp add: read_nat_def digit_val_char)
  qed
qed

lemma show_nat_inj: "show_nat m = show_nat n \<longleftrightarrow> m = n"
  by (metis read_show_nat)

end
