(* ===== verification/Go_Utf8.thy ===== *)
theory Go_Utf8
  imports Go_Text
begin

text \<open>
  UTF-8 as Go decodes it (package \<open>unicode/utf8\<close>): a rune and its width, with the replacement
  rune of width 1 on every ill-formed sequence; encoding; validity; \<open>strings.TrimSpace\<close> and
  \<open>strings.Fields\<close>, which cut at Unicode white space; \<open>strings.ToLower\<close> and
  \<open>strings.FieldsFunc\<close> over a parameter that holds the Unicode tables.
\<close>

section \<open>Runes\<close>

abbreviation byte :: "char \<Rightarrow> nat" where
  "byte c \<equiv> of_char c"

definition rune_error :: nat where
  "rune_error = 65533"

definition is_cont :: "char \<Rightarrow> bool" where
  "is_cont c \<longleftrightarrow> 128 \<le> byte c \<and> byte c < 192"

definition rune_start :: "char \<Rightarrow> bool" where
  "rune_start c \<longleftrightarrow> \<not> is_cont c"

definition second_ok :: "nat \<Rightarrow> nat \<Rightarrow> bool" where
  "second_ok lead b =
     (if lead = 224 then 160 \<le> b \<and> b < 192
      else if lead = 237 then 128 \<le> b \<and> b < 160
      else if lead = 240 then 144 \<le> b \<and> b < 192
      else if lead = 244 then 128 \<le> b \<and> b < 144
      else 128 \<le> b \<and> b < 192)"

fun decode_rune :: "string \<Rightarrow> nat \<times> nat" where
  "decode_rune [] = (rune_error, 0)"
| "decode_rune (c # s) =
     (let b0 = byte c in
      if b0 < 128 then (b0, 1)
      else if 194 \<le> b0 \<and> b0 < 224 then
        (case s of c1 # _ \<Rightarrow>
            if is_cont c1 then ((b0 - 192) * 64 + (byte c1 - 128), 2) else (rune_error, 1)
         | _ \<Rightarrow> (rune_error, 1))
      else if 224 \<le> b0 \<and> b0 < 240 then
        (case s of c1 # c2 # _ \<Rightarrow>
            if second_ok b0 (byte c1) \<and> is_cont c2
            then ((b0 - 224) * 4096 + (byte c1 - 128) * 64 + (byte c2 - 128), 3)
            else (rune_error, 1)
         | _ \<Rightarrow> (rune_error, 1))
      else if 240 \<le> b0 \<and> b0 < 245 then
        (case s of c1 # c2 # c3 # _ \<Rightarrow>
            if second_ok b0 (byte c1) \<and> is_cont c2 \<and> is_cont c3
            then ((b0 - 240) * 262144 + (byte c1 - 128) * 4096 + (byte c2 - 128) * 64
                    + (byte c3 - 128), 4)
            else (rune_error, 1)
         | _ \<Rightarrow> (rune_error, 1))
      else (rune_error, 1))"

definition encode_rune :: "nat \<Rightarrow> string" where
  "encode_rune r =
     (let bad = [char_of (239::nat), char_of (191::nat), char_of (189::nat)] in
      if r < 128 then [char_of r]
      else if r < 2048 then [char_of (192 + r div 64), char_of (128 + r mod 64)]
      else if 1114112 \<le> r \<or> (55296 \<le> r \<and> r < 57344) then bad
      else if r < 65536 then
        [char_of (224 + r div 4096), char_of (128 + r div 64 mod 64), char_of (128 + r mod 64)]
      else [char_of (240 + r div 262144), char_of (128 + r div 4096 mod 64),
            char_of (128 + r div 64 mod 64), char_of (128 + r mod 64)])"

lemma decode_width_pos: "0 < snd (decode_rune (c # s))"
  by (simp add: Let_def split: list.splits)

lemma decode_width_le: "snd (decode_rune s) \<le> length s"
  by (cases s) (auto simp: Let_def split: list.splits)

lemma decode_rune_ascii: "byte c < 128 \<Longrightarrow> decode_rune (c # s) = (byte c, 1)"
  by (simp add: Let_def)

declare decode_rune.simps [simp del]

text \<open>\<open>range\<close> over a string: the runes with the bytes each one came from.\<close>

function runes_of :: "string \<Rightarrow> (nat \<times> string) list" where
  "runes_of [] = []"
| "runes_of (c # cs) =
     (fst (decode_rune (c # cs)), take (snd (decode_rune (c # cs))) (c # cs))
       # runes_of (drop (snd (decode_rune (c # cs))) (c # cs))"
  by pat_completeness auto
termination
  by (relation "measure length") (simp_all add: decode_width_pos)

declare runes_of.simps(2) [simp del]

lemmas runes_of_Cons = runes_of.simps(2)

lemma runes_of_concat: "concat (map snd (runes_of s)) = s"
  by (induction s rule: runes_of.induct) (simp_all add: runes_of_Cons)

text \<open>\<open>utf8.ValidString\<close>: no rune comes from an ill-formed byte.\<close>

definition valid_utf8 :: "string \<Rightarrow> bool" where
  "valid_utf8 s \<longleftrightarrow> (\<forall>(r, bs) \<in> set (runes_of s). \<not> (r = rune_error \<and> length bs = 1))"

lemma valid_utf8_Nil [simp]: "valid_utf8 []"
  by (simp add: valid_utf8_def)

lemma valid_utf8_ascii: "\<forall>c \<in> set s. byte c < 128 \<Longrightarrow> valid_utf8 s"
proof (induction s)
  case Nil
  then show ?case by simp
next
  case (Cons c s)
  then have "decode_rune (c # s) = (byte c, 1)" by (simp add: decode_rune_ascii)
  with Cons show ?case
    by (auto simp: valid_utf8_def runes_of_Cons rune_error_def)
qed

section \<open>White space\<close>

text \<open>The encodings of the runes for which \<open>unicode.IsSpace\<close> holds. UTF-8 is self-synchronising,
  so cutting at these byte sequences is cutting at the runes.\<close>

definition space_codes :: "nat list" where
  "space_codes = [9, 10, 11, 12, 13, 32, 133, 160, 5760] @ [8192..<8203] @ [8232, 8233, 8239, 8287, 12288]"

definition space_seqs :: "string list" where
  "space_seqs = map encode_rune space_codes"

fun strip_one :: "string list \<Rightarrow> string \<Rightarrow> string option" where
  "strip_one [] s = None"
| "strip_one (p # ps) s = (if p \<noteq> [] \<and> prefix p s then Some (drop (length p) s) else strip_one ps s)"

lemma strip_one_shorter: "strip_one ps s = Some t \<Longrightarrow> length t < length s"
  by (induction ps s rule: strip_one.induct) (auto split: if_splits simp: prefix_def)

lemma strip_one_suffix: "strip_one ps s = Some t \<Longrightarrow> suffix t s"
  by (induction ps s rule: strip_one.induct) (auto split: if_splits intro: suffix_drop)

function strip_all :: "string list \<Rightarrow> string \<Rightarrow> string" where
  "strip_all ps s = (case strip_one ps s of None \<Rightarrow> s | Some t \<Rightarrow> strip_all ps t)"
  by pat_completeness auto
termination
  by (relation "measure (\<lambda>(ps, s). length s)") (auto dest: strip_one_shorter)

declare strip_all.simps [simp del]

definition trim_left_space :: "string \<Rightarrow> string" where
  "trim_left_space s = strip_all space_seqs s"

definition trim_right_space :: "string \<Rightarrow> string" where
  "trim_right_space s = rev (strip_all (map rev space_seqs) (rev s))"

definition trim_space :: "string \<Rightarrow> string" where
  "trim_space s = trim_right_space (trim_left_space s)"

lemma strip_all_suffix: "suffix (strip_all ps s) s"
proof (induction ps s rule: strip_all.induct)
  case (1 ps s)
  show ?case
  proof (cases "strip_one ps s")
    case None
    then show ?thesis by (simp add: strip_all.simps [of ps s])
  next
    case (Some t)
    then show ?thesis
      using 1 [OF Some] strip_one_suffix [OF Some]
      by (auto simp: strip_all.simps [of ps s] dest: suffix_order.trans)
  qed
qed

lemma strip_all_done: "strip_one ps (strip_all ps s) = None"
proof (induction ps s rule: strip_all.induct)
  case (1 ps s)
  then show ?case by (cases "strip_one ps s") (simp_all add: strip_all.simps [of ps s])
qed

lemma strip_all_idem: "strip_all ps (strip_all ps s) = strip_all ps s"
  by (subst strip_all.simps) (simp add: strip_all_done)

lemma trim_space_length: "length (trim_space s) \<le> length s"
proof -
  have "length (trim_left_space s) \<le> length s"
    unfolding trim_left_space_def by (rule suffix_length_le [OF strip_all_suffix])
  moreover have "length (trim_right_space t) \<le> length t" for t
    unfolding trim_right_space_def
    using suffix_length_le [OF strip_all_suffix [of "map rev space_seqs" "rev t"]] by simp
  ultimately show ?thesis unfolding trim_space_def by (meson le_trans)
qed

lemma trim_right_space_prefix: "prefix (trim_right_space s) s"
  unfolding trim_right_space_def
  using strip_all_suffix [of "map rev space_seqs" "rev s"] by (simp add: suffix_to_prefix)

lemma trim_space_sublist: "\<exists>u v. s = u @ trim_space s @ v"
proof -
  obtain u where u: "s = u @ trim_left_space s"
    using strip_all_suffix [of space_seqs s] by (auto simp: trim_left_space_def suffix_def)
  obtain v where "trim_left_space s = trim_space s @ v"
    using trim_right_space_prefix [of "trim_left_space s"] by (auto simp: trim_space_def prefix_def)
  with u show ?thesis by metis
qed

text \<open>\<open>strings.Fields\<close>: the maximal runs without white space.\<close>

function fields_acc :: "string \<Rightarrow> string \<Rightarrow> string list" where
  "fields_acc [] acc = (if acc = [] then [] else [rev acc])"
| "fields_acc (c # cs) acc =
     (case strip_one space_seqs (c # cs) of
        Some t \<Rightarrow> (if acc = [] then fields_acc t [] else rev acc # fields_acc t [])
      | None \<Rightarrow> fields_acc cs (c # acc))"
  by pat_completeness auto
termination
proof (relation "measure (\<lambda>(s, acc). length s)", goal_cases)
  case 1
  show ?case by simp
next
  case (2 c cs acc)
  then show ?case by simp
next
  case (3 c cs acc t)
  then show ?case using strip_one_shorter [of space_seqs "c # cs" t] by simp
next
  case (4 c cs acc t)
  then show ?case using strip_one_shorter [of space_seqs "c # cs" t] by simp
qed

declare fields_acc.simps(2) [simp del]

definition str_fields :: "string \<Rightarrow> string list" where
  "str_fields s = fields_acc s []"

lemma fields_acc_nonempty: "w \<in> set (fields_acc s acc) \<Longrightarrow> w \<noteq> []"
proof (induction s acc rule: fields_acc.induct)
  case (1 acc)
  then show ?case by (simp split: if_splits)
next
  case (2 c cs acc)
  show ?case
  proof (cases "strip_one space_seqs (c # cs)")
    case None
    have "fields_acc (c # cs) acc = fields_acc cs (c # acc)"
      by (subst fields_acc.simps(2)) (simp add: None)
    with 2 None show ?thesis by simp
  next
    case (Some t)
    have "fields_acc (c # cs) acc = (if acc = [] then fields_acc t [] else rev acc # fields_acc t [])"
      by (subst fields_acc.simps(2)) (simp add: Some)
    with 2 Some show ?thesis by (auto split: if_splits)
  qed
qed

lemma fields_nonempty: "w \<in> set (str_fields s) \<Longrightarrow> w \<noteq> []"
  unfolding str_fields_def by (rule fields_acc_nonempty)

section \<open>Case mapping and letter classes\<close>

text \<open>\<open>u_lower\<close> is \<open>unicode.ToLower\<close> and \<open>u_alnum\<close> is \<open>IsLetter || IsDigit\<close>, both used outside
  ASCII only; inside ASCII they are written out.\<close>

record unicode =
  u_lower :: "nat \<Rightarrow> nat"
  u_alnum :: "nat \<Rightarrow> bool"

definition ascii_unicode :: unicode where
  "ascii_unicode = \<lparr>u_lower = (\<lambda>r. r), u_alnum = (\<lambda>r. False)\<rparr>"

definition lower_byte :: "char \<Rightarrow> char" where
  "lower_byte c = (if 65 \<le> byte c \<and> byte c \<le> 90 then char_of (byte c + 32) else c)"

definition lower_rune :: "unicode \<Rightarrow> nat \<Rightarrow> nat" where
  "lower_rune u r = (if r < 128 then (if 65 \<le> r \<and> r \<le> 90 then r + 32 else r) else u_lower u r)"

definition is_ascii :: "string \<Rightarrow> bool" where
  "is_ascii s \<longleftrightarrow> (\<forall>c \<in> set s. byte c < 128)"

definition to_lower :: "unicode \<Rightarrow> string \<Rightarrow> string" where
  "to_lower u s =
     (if is_ascii s then map lower_byte s
      else concat (map (\<lambda>(r, bs). encode_rune (lower_rune u r)) (runes_of s)))"

definition alnum_rune :: "unicode \<Rightarrow> nat \<Rightarrow> bool" where
  "alnum_rune u r =
     (if r < 128 then (48 \<le> r \<and> r \<le> 57) \<or> (65 \<le> r \<and> r \<le> 90) \<or> (97 \<le> r \<and> r \<le> 122)
      else u_alnum u r)"

text \<open>\<open>strings.FieldsFunc\<close>: the maximal runs of runes that are not separators.\<close>

fun fields_func_acc :: "(nat \<Rightarrow> bool) \<Rightarrow> (nat \<times> string) list \<Rightarrow> string \<Rightarrow> string list" where
  "fields_func_acc sep [] acc = (if acc = [] then [] else [acc])"
| "fields_func_acc sep ((r, bs) # rs) acc =
     (if sep r
      then (if acc = [] then fields_func_acc sep rs [] else acc # fields_func_acc sep rs [])
      else fields_func_acc sep rs (acc @ bs))"

definition fields_func :: "(nat \<Rightarrow> bool) \<Rightarrow> string \<Rightarrow> string list" where
  "fields_func sep s = fields_func_acc sep (runes_of s) []"

lemma fields_func_nonempty: "w \<in> set (fields_func sep s) \<Longrightarrow> w \<noteq> []"
proof -
  have "w \<in> set (fields_func_acc sep rs acc) \<Longrightarrow> w \<noteq> []" for rs acc
    by (induction sep rs acc rule: fields_func_acc.induct) (auto split: if_splits)
  then show "w \<in> set (fields_func sep s) \<Longrightarrow> w \<noteq> []" unfolding fields_func_def .
qed

end
