(* ===== verification/Registry_Map.thy ===== *)
theory Registry_Map
  imports Go_Text
begin

text \<open>
  The generic name-keyed store (\<open>internal/registry/registry.go\<close>) behind the tool, skill and
  provider registries. A panic is a value \<open>Inl\<close> of the result. The mutex is not modelled: every
  operation takes it for its whole body, so operations are atomic steps.
\<close>

record 'a regmap =
  name_of :: "'a \<Rightarrow> string"
  items :: "'a gomap"

datatype reg_error = NameOfNil | AlreadyRegistered string

definition regmap_new :: "('a \<Rightarrow> string) option \<Rightarrow> reg_error + 'a regmap" where
  "regmap_new f = (case f of None \<Rightarrow> Inl NameOfNil | Some g \<Rightarrow> Inr \<lparr>name_of = g, items = []\<rparr>)"

definition regmap_register :: "'a regmap \<Rightarrow> 'a \<Rightarrow> reg_error + 'a regmap" where
  "regmap_register m it =
     (let name = name_of m it in
      if gm_has (items m) name then Inl (AlreadyRegistered name)
      else Inr (m\<lparr>items := gm_put name it (items m)\<rparr>))"

text \<open>\<open>MustRegister\<close> turns the error into a panic with the same text.\<close>

definition regmap_must_register :: "'a regmap \<Rightarrow> 'a \<Rightarrow> reg_error + 'a regmap" where
  "regmap_must_register m it =
     (case regmap_register m it of Inl err \<Rightarrow> Inl err | Inr m' \<Rightarrow> Inr m')"

definition regmap_replace :: "'a regmap \<Rightarrow> 'a \<Rightarrow> 'a regmap" where
  "regmap_replace m it = m\<lparr>items := gm_put (name_of m it) it (items m)\<rparr>"

definition regmap_get :: "'a regmap \<Rightarrow> string \<Rightarrow> 'a option" where
  "regmap_get m name = gm_get (items m) name"

definition regmap_all :: "'a regmap \<Rightarrow> 'a list" where
  "regmap_all m = List.map_filter (\<lambda>k. regmap_get m k) (gm_keys (items m))"

definition regmap_len :: "'a regmap \<Rightarrow> nat" where
  "regmap_len m = length (items m)"

section \<open>Invariant\<close>

definition regmap_inv :: "'a regmap \<Rightarrow> bool" where
  "regmap_inv m \<longleftrightarrow> gm_wf (items m) \<and> (\<forall>(k, it) \<in> set (items m). name_of m it = k)"

lemma regmap_new_inv: "regmap_new (Some f) = Inr m \<Longrightarrow> regmap_inv m"
  by (auto simp: regmap_new_def regmap_inv_def)

lemma regmap_put_inv:
  "regmap_inv m \<Longrightarrow> regmap_inv (m\<lparr>items := gm_put (name_of m it) it (items m)\<rparr>)"
  using set_gm_put_subset [of "name_of m it" it "items m"] by (auto simp: regmap_inv_def)

lemma regmap_replace_inv [go_intros]: "regmap_inv m \<Longrightarrow> regmap_inv (regmap_replace m it)"
  by (simp add: regmap_replace_def regmap_put_inv)

lemma regmap_register_inv [go_intros]:
  "regmap_inv m \<Longrightarrow> regmap_register m it = Inr m' \<Longrightarrow> regmap_inv m'"
  by (auto simp: regmap_register_def Let_def regmap_put_inv split: if_splits)

lemma regmap_must_register_eq [simp]: "regmap_must_register m it = regmap_register m it"
  by (simp add: regmap_must_register_def split: sum.splits)

lemma regmap_register_Inr:
  "regmap_register m it = Inr m' \<longleftrightarrow>
     regmap_get m (name_of m it) = None \<and> m' = regmap_replace m it"
  by (auto simp: regmap_register_def regmap_replace_def regmap_get_def Let_def)

lemma regmap_register_Inl:
  "regmap_register m it = Inl e \<longleftrightarrow>
     regmap_get m (name_of m it) \<noteq> None \<and> e = AlreadyRegistered (name_of m it)"
  by (auto simp: regmap_register_def regmap_get_def Let_def)

lemma regmap_get_replace:
  "regmap_get (regmap_replace m it) k = (if k = name_of m it then Some it else regmap_get m k)"
  by (simp add: regmap_replace_def regmap_get_def gm_get_put)

lemma regmap_replace_name_of [simp]: "name_of (regmap_replace m it) = name_of m"
  by (simp add: regmap_replace_def)

lemma regmap_get_name: "regmap_inv m \<Longrightarrow> regmap_get m k = Some it \<Longrightarrow> name_of m it = k"
  by (auto simp: regmap_inv_def regmap_get_def dest: map_of_SomeD)

section \<open>Listing\<close>

lemma regmap_all_map:
  "map (name_of m) (regmap_all m) = gm_keys (items m)" if "regmap_inv m"
proof -
  have "\<forall>k \<in> set ks. \<exists>it. regmap_get m k = Some it \<and> name_of m it = k
      \<Longrightarrow> map (name_of m) (List.map_filter (regmap_get m) ks) = ks" for ks
    by (induction ks) (auto simp: map_filter_def)
  moreover have "\<forall>k \<in> set (gm_keys (items m)). \<exists>it. regmap_get m k = Some it \<and> name_of m it = k"
  proof
    fix k assume "k \<in> set (gm_keys (items m))"
    then obtain it where "regmap_get m k = Some it"
      by (auto simp: regmap_get_def) (metis not_None_eq map_of_eq_None_iff image_eqI fst_conv)
    then show "\<exists>it. regmap_get m k = Some it \<and> name_of m it = k"
      using regmap_get_name [OF that] by blast
  qed
  ultimately show ?thesis by (simp add: regmap_all_def)
qed

lemma set_regmap_all: "set (regmap_all m) = {it. \<exists>k. regmap_get m k = Some it}"
proof -
  have "set (regmap_all m) = {it. \<exists>k \<in> set (gm_keys (items m)). regmap_get m k = Some it}"
    by (simp add: set_eq_iff in_set_map_filter regmap_all_def del: set_gm_keys)
  moreover have "regmap_get m k = Some it \<Longrightarrow> k \<in> set (gm_keys (items m))" for k it
    using map_of_SomeD [of "items m" k it] by (force simp: regmap_get_def)
  ultimately show ?thesis by blast
qed

lemma in_regmap_all:
  "regmap_inv m \<Longrightarrow> it \<in> set (regmap_all m) \<longleftrightarrow> regmap_get m (name_of m it) = Some it"
  using regmap_get_name [of m] by (auto simp: set_regmap_all)

lemma regmap_all_sorted: "regmap_inv m \<Longrightarrow> sorted (map (name_of m) (regmap_all m))"
  by (simp add: regmap_all_map)

lemma regmap_all_distinct: "regmap_inv m \<Longrightarrow> distinct (map (name_of m) (regmap_all m))"
  by (simp add: regmap_all_map regmap_inv_def)

lemma regmap_len_all: "regmap_inv m \<Longrightarrow> length (regmap_all m) = regmap_len m"
  using regmap_all_map [of m] by (metis length_map length_sort gm_keys_def regmap_len_def)

text \<open>The listing is the only list that is sorted by name and holds exactly the stored items.\<close>

lemma regmap_all_eqI:
  assumes inv: "regmap_inv m"
    and sorted: "sorted (map (name_of m) xs)" "distinct (map (name_of m) xs)"
    and same: "\<And>it. it \<in> set xs \<longleftrightarrow> regmap_get m (name_of m it) = Some it"
  shows "regmap_all m = xs"
proof (rule map_sorted_distinct_set_unique)
  show eq: "set (regmap_all m) = set xs" using same in_regmap_all [OF inv] by auto
  show "inj_on (name_of m) (set (regmap_all m) \<union> set xs)"
    using eq sorted(2) by (simp add: distinct_map)
qed (use regmap_all_sorted [OF inv] regmap_all_distinct [OF inv] sorted in auto)

text \<open>
  Registering a list of items whose names are new and distinct succeeds, and the resulting store
  holds exactly the old and the new items: what every registry built by a loop of \<open>MustRegister\<close>
  relies on.
\<close>

fun regmap_register_all :: "'a regmap \<Rightarrow> 'a list \<Rightarrow> reg_error + 'a regmap" where
  "regmap_register_all m [] = Inr m"
| "regmap_register_all m (it # its) =
     (case regmap_must_register m it of Inl e \<Rightarrow> Inl e | Inr m' \<Rightarrow> regmap_register_all m' its)"

lemma regmap_register_all_ok:
  assumes "regmap_inv m" "distinct (map (name_of m) its)"
    and "\<forall>it \<in> set its. regmap_get m (name_of m it) = None"
  shows "\<exists>m'. regmap_register_all m its = Inr m' \<and> regmap_inv m' \<and> name_of m' = name_of m \<and>
    (\<forall>k. regmap_get m' k =
       (case List.find (\<lambda>it. name_of m it = k) its of Some it \<Rightarrow> Some it | None \<Rightarrow> regmap_get m k))"
  using assms
proof (induction its arbitrary: m)
  case Nil
  then show ?case by simp
next
  case (Cons it its)
  let ?m = "regmap_replace m it"
  have reg: "regmap_register m it = Inr ?m"
    using Cons.prems(3) by (simp add: regmap_register_Inr)
  have other: "\<forall>i \<in> set its. name_of m i \<noteq> name_of m it"
    using Cons.prems(2) by (metis distinct.simps(2) image_eqI list.set_map list.simps(9))
  have "\<exists>m'. regmap_register_all ?m its = Inr m' \<and> regmap_inv m' \<and> name_of m' = name_of ?m \<and>
    (\<forall>k. regmap_get m' k =
       (case List.find (\<lambda>it. name_of ?m it = k) its of Some it \<Rightarrow> Some it | None \<Rightarrow> regmap_get ?m k))"
    using Cons.prems other by (intro Cons.IH) (auto simp: regmap_get_replace intro: go_intros)
  then obtain m' where m': "regmap_register_all ?m its = Inr m'" "regmap_inv m'"
      "name_of m' = name_of m"
      "\<forall>k. regmap_get m' k =
        (case List.find (\<lambda>it. name_of m it = k) its of Some it \<Rightarrow> Some it | None \<Rightarrow> regmap_get ?m k)"
    by auto
  have "List.find (\<lambda>i. name_of m i = name_of m it) its = None"
    using other by (auto simp: find_None_iff)
  then show ?case using reg m' by (auto simp: regmap_get_replace split: option.splits)
qed

end
