(* ===== verification/Llm_Types.thy ===== *)
theory Llm_Types
  imports Complex_Main Go_Utf8 Registry_Map
begin

text \<open>
  The provider-neutral conversation types (\<open>internal/core/llm/provider.go\<close>), the errors the agent
  stack returns, routing of a model string to a provider (\<open>Resolve\<close>), the context-window table
  (\<open>context_window.go\<close>) and argument normalisation (\<open>args.go\<close>). A \<open>json.RawMessage\<close> is a byte
  string. A float is a real number: IEEE rounding is not modelled.
\<close>

section \<open>Messages\<close>

abbreviation RoleSystem :: string where "RoleSystem \<equiv> ''system''"
abbreviation RoleUser :: string where "RoleUser \<equiv> ''user''"
abbreviation RoleAssistant :: string where "RoleAssistant \<equiv> ''assistant''"
abbreviation RoleTool :: string where "RoleTool \<equiv> ''tool''"

record tool_call =
  tc_id :: string
  tc_name :: string
  tc_args :: string

record message =
  m_role :: string
  m_content :: string
  m_calls :: "tool_call list"
  m_call_id :: string

record llm_tool =
  lt_name :: string
  lt_description :: string
  lt_schema :: string

record usage =
  in_tokens :: int
  out_tokens :: int
  cost_usd :: real

section \<open>Errors\<close>

text \<open>Errors the agent stack inspects with \<open>errors.Is\<close> are constructors; \<open>ErrWrap\<close> is
  \<open>fmt.Errorf("...: %w", err)\<close>, \<open>ErrOther\<close> any error of the environment.\<close>

datatype go_err =
    ErrOther string
  | ErrCancelled
  | ErrDeadlineExceeded
  | ErrWrap string go_err
  | ErrDuplicateCall
  | ErrTokenBudgetExceeded int int
  | ErrUSDBudgetExceeded real real
  | ErrLimitExceeded string string int string int
  | ErrApprovalDenied string "go_err option"
  | ErrToolUnavailable string
  | ErrMaxSteps
  | ErrConversationTimeout
  | ErrUnknownModel string
  | ErrNotRegistered string
  | ErrNoProvider

fun is_deadline :: "go_err \<Rightarrow> bool" where
  "is_deadline ErrDeadlineExceeded = True"
| "is_deadline (ErrWrap s e) = is_deadline e"
| "is_deadline e = False"

text \<open>The two \<open>fmt\<close> verbs whose output depends on tables or on floating point: \<open>%q\<close> and \<open>%.4f\<close>.\<close>

record gofmt =
  fmt_q :: "string \<Rightarrow> string"
  fmt_usd :: "real \<Rightarrow> string"

fun err_text :: "gofmt \<Rightarrow> go_err \<Rightarrow> string" where
  "err_text F (ErrOther s) = s"
| "err_text F ErrCancelled = ''context canceled''"
| "err_text F ErrDeadlineExceeded = ''context deadline exceeded''"
| "err_text F (ErrWrap s e) = s @ '': '' @ err_text F e"
| "err_text F ErrDuplicateCall = ''agent: duplicate tool call detected (model stuck in loop)''"
| "err_text F (ErrTokenBudgetExceeded used cap) =
     ''agent: token budget exceeded for session: '' @ show_int used @ '' > '' @ show_int cap"
| "err_text F (ErrUSDBudgetExceeded spent cap) =
     ''agent: daily USD budget exceeded: $'' @ fmt_usd F spent @ '' > $'' @ fmt_usd F cap"
| "err_text F (ErrLimitExceeded name arg v what cap) =
     ''agent: tool argument exceeds configured limit: '' @ name @ '' '' @ arg @ ''='' @ show_int v
       @ '' > '' @ what @ ''='' @ show_int cap"
| "err_text F (ErrApprovalDenied name None) = ''agent: high-risk tool call denied: '' @ name"
| "err_text F (ErrApprovalDenied name (Some e)) =
     ''agent: high-risk tool call denied: '' @ name @ '': '' @ err_text F e"
| "err_text F (ErrToolUnavailable name) = ''tool '' @ fmt_q F name @ '' is not available''"
| "err_text F ErrMaxSteps = ''agent: maximum steps reached without final response''"
| "err_text F ErrConversationTimeout = ''agent: conversation wall-clock deadline exceeded''"
| "err_text F (ErrUnknownModel m) = ''llm: unknown model prefix: '' @ fmt_q F m"
| "err_text F (ErrNotRegistered p) =
     ''llm: provider '' @ fmt_q F p @ '' not registered (did you import its package?)''"
| "err_text F ErrNoProvider = ''llm: no provider available (all circuit breakers open)''"

section \<open>Chunks\<close>

record chunk =
  delta_text :: string
  ch_tool :: "tool_call option"
  ch_usage :: "usage option"
  ch_done :: bool
  ch_err :: "go_err option"

record request =
  rq_model :: string
  rq_messages :: "message list"
  rq_tools :: "llm_tool list"

section \<open>Routing a model string\<close>

definition prefix_map :: "(string \<times> string) list" where
  "prefix_map =
    [(''codex/'', ''codex''),
     (''gpt-'', ''openai''),
     (''o1-'', ''openai''),
     (''o3'', ''openai''),
     (''o4'', ''openai''),
     (''claude-'', ''anthropic''),
     (''gemini-'', ''google''),
     (''kimi-'', ''moonshot''),
     (''moonshot-'', ''moonshot''),
     (''local/'', ''openai_compat'')]"

definition resolve :: "'p regmap \<Rightarrow> string \<Rightarrow> go_err + ('p \<times> string)" where
  "resolve providers model =
     (case List.find (\<lambda>(pre, prov). has_prefix model pre) prefix_map of
        None \<Rightarrow> Inl (ErrUnknownModel model)
      | Some (pre, prov) \<Rightarrow>
          (case regmap_get providers prov of
             None \<Rightarrow> Inl (ErrNotRegistered prov)
           | Some p \<Rightarrow>
               Inr (p, if pre = ''codex/'' \<or> pre = ''local/'' then trim_prefix model pre else model)))"

section \<open>Context windows\<close>

definition default_context_window :: nat where
  "default_context_window = 128000"

definition context_windows :: "(string \<times> nat) list" where
  "context_windows =
    [(''gpt-4.1'', 1000000),
     (''gpt-4o'', 128000),
     (''gpt-'', 128000),
     (''o1-'', 200000),
     (''o3'', 200000),
     (''o4'', 200000),
     (''claude-'', 200000),
     (''gemini-1.5'', 1000000),
     (''gemini-'', 1000000),
     (''kimi-'', 128000),
     (''moonshot-'', 128000),
     (''local/'', 32000)]"

text \<open>The recursion on \<open>codex/\<close> strips six bytes each time, so it stops.\<close>

function context_window :: "string \<Rightarrow> nat" where
  "context_window model =
     (if has_prefix model ''codex/'' then context_window (trim_prefix model ''codex/'')
      else (case List.find (\<lambda>(pre, w). has_prefix model pre) context_windows of
              Some (pre, w) \<Rightarrow> w
            | None \<Rightarrow> default_context_window))"
  by pat_completeness auto
termination
  by (relation "measure length") (auto simp: has_prefix_def trim_prefix_def prefix_def)

declare context_window.simps [simp del]

lemma context_window_codex: "context_window (''codex/'' @ m) = context_window m"
  by (subst context_window.simps) (simp add: has_prefix_def trim_prefix_def)

lemma context_window_pos: "32000 \<le> context_window m"
proof (induction m rule: context_window.induct)
  case (1 model)
  show ?case
  proof (cases "has_prefix model ''codex/''")
    case True
    then show ?thesis using 1 by (simp add: context_window.simps [of model])
  next
    case False
    have "\<forall>(pre, w) \<in> set context_windows. 32000 \<le> w"
      by (simp add: context_windows_def)
    moreover have "List.find (\<lambda>(pre, w). has_prefix model pre) context_windows = Some (pre, w)
        \<Longrightarrow> (pre, w) \<in> set context_windows" for pre w
      by (blast dest: find_SomeD)
    ultimately show ?thesis using False
      by (subst context_window.simps) (auto simp: default_context_window_def split: option.splits)
  qed
qed

text \<open>An entry is reachable only if no earlier prefix shadows it; here the first matching entry is
  always the longest matching prefix, as the table's comment asks.\<close>

definition longest_first :: "(string \<times> 'a) list \<Rightarrow> bool" where
  "longest_first tbl \<longleftrightarrow> sorted_wrt (\<lambda>(p, _) (q, _). \<not> strict_prefix p q) tbl"

lemma longest_first_find:
  assumes "longest_first tbl" "List.find (\<lambda>(pre, w). has_prefix m pre) tbl = Some (p, w)"
    and "(q, v) \<in> set tbl" "has_prefix m q"
  shows "length q \<le> length p"
  using assms
proof (induction tbl)
  case Nil
  then show ?case by simp
next
  case (Cons a tbl)
  obtain p0 w0 where a: "a = (p0, w0)" by fastforce
  show ?case
  proof (cases "has_prefix m p0")
    case True
    then have pw: "p = p0" using Cons.prems(2) by (simp add: a)
    show ?thesis
    proof (cases "(q, v) = a")
      case True
      then show ?thesis using pw a by simp
    next
      case False
      then have "\<not> strict_prefix p0 q" using Cons.prems(1,3) by (force simp: a longest_first_def)
      moreover have "prefix p0 q \<or> prefix q p0"
        using True Cons.prems(4) prefix_same_cases by (auto simp: has_prefix_def)
      ultimately have "prefix q p0" by (auto simp: strict_prefix_def)
      then show ?thesis using pw prefix_length_le by blast
    qed
  next
    case False
    then show ?thesis using Cons by (auto simp: a longest_first_def)
  qed
qed

lemma context_windows_longest_first: "longest_first context_windows"
  by (simp add: longest_first_def context_windows_def strict_prefix_def)

section \<open>Tool-call arguments\<close>

text \<open>\<open>json.Valid\<close> and \<open>bytes.TrimSpace\<close>: the validity check is a parameter.\<close>

definition empty_object :: string where
  "empty_object = ''{}''"

definition normalize_arguments :: "(string \<Rightarrow> bool) \<Rightarrow> string \<Rightarrow> string" where
  "normalize_arguments json_valid raw =
     (if raw = [] then empty_object
      else if \<not> json_valid raw then empty_object
      else (case trim_space raw of
              [] \<Rightarrow> empty_object
            | c # _ \<Rightarrow> if c \<noteq> CHR ''{'' then empty_object else raw))"

lemma normalize_arguments_cases:
  "normalize_arguments V raw = empty_object \<or>
   normalize_arguments V raw = raw \<and> V raw \<and> (\<exists>t. trim_space raw = CHR ''{'' # t)"
  by (auto simp: normalize_arguments_def split: list.splits)

end
