(* ===== verification/Tool_Catalog.thy ===== *)
theory Tool_Catalog
  imports Llm_Types
begin

text \<open>
  The tool registry (\<open>internal/core/tools/registry.go\<close>), tool risk (\<open>risk.go\<close>) and endpoint
  selection (\<open>helpers.go\<close>). A tool is its name, description, schema and declared risk; what a tool
  does when it runs is a parameter of the agent loop. A panic is an \<open>Inl\<close>. The read/write mutexes
  are taken for whole operations and are not modelled.
\<close>

section \<open>Risk\<close>

datatype risk_level = RiskUnknown | RiskLow | RiskMedium | RiskHigh

fun risk_rank :: "risk_level \<Rightarrow> nat" where
  "risk_rank RiskUnknown = 0"
| "risk_rank RiskLow = 1"
| "risk_rank RiskMedium = 2"
| "risk_rank RiskHigh = 3"

text \<open>The Go type is an integer, so its levels are ordered.\<close>

instantiation risk_level :: linorder
begin

definition less_eq_risk_level :: "risk_level \<Rightarrow> risk_level \<Rightarrow> bool" where
  "less_eq_risk_level a b \<longleftrightarrow> risk_rank a \<le> risk_rank b"

definition less_risk_level :: "risk_level \<Rightarrow> risk_level \<Rightarrow> bool" where
  "less_risk_level a b \<longleftrightarrow> risk_rank a < risk_rank b"

instance
proof
  fix a b c :: risk_level
  show "a < b \<longleftrightarrow> a \<le> b \<and> \<not> b \<le> a"
    by (auto simp: less_eq_risk_level_def less_risk_level_def)
  show "a \<le> a" by (simp add: less_eq_risk_level_def)
  show "a \<le> b \<Longrightarrow> b \<le> c \<Longrightarrow> a \<le> c" by (simp add: less_eq_risk_level_def)
  show "a \<le> b \<Longrightarrow> b \<le> a \<Longrightarrow> a = b"
    by (cases a; cases b) (auto simp: less_eq_risk_level_def)
  show "a \<le> b \<or> b \<le> a" by (auto simp: less_eq_risk_level_def)
qed

end

fun risk_string :: "risk_level \<Rightarrow> string" where
  "risk_string RiskHigh = ''high''"
| "risk_string RiskMedium = ''medium''"
| "risk_string RiskLow = ''low''"
| "risk_string RiskUnknown = ''unknown''"

record tool =
  t_name :: string
  t_description :: string
  t_schema :: string
  t_risk :: "risk_level option"

definition high_risk_names :: "string list" where
  "high_risk_names =
    [''jvm.async_profile'', ''memory.record'', ''jvm.jcmd_gc'', ''perf.linux_perf_record'',
     ''perf.v8_inspector_cpu_profile'', ''perf.go_pprof_cpu'', ''perf.rbspy_dump'',
     ''py.spy_top_snapshot'', ''py.spy_dump'', ''ebpf.biolatency'', ''ebpf.tcprtt'',
     ''ebpf.tcptop'', ''ebpf.execsnoop'', ''ebpf.bpftrace_oneliner'']"

definition risk_by_name :: "string \<Rightarrow> risk_level" where
  "risk_by_name name = (if name \<in> set high_risk_names then RiskHigh else RiskLow)"

definition risk_of :: "tool \<Rightarrow> risk_level" where
  "risk_of t =
     (case t_risk t of
        Some lvl \<Rightarrow> (if lvl \<noteq> RiskUnknown then lvl else risk_by_name (t_name t))
      | None \<Rightarrow> risk_by_name (t_name t))"

lemma risk_of_known: "RiskLow \<le> risk_of t"
proof -
  have "RiskLow \<le> risk_by_name n" for n
    by (simp add: risk_by_name_def less_eq_risk_level_def)
  moreover have "lvl \<noteq> RiskUnknown \<Longrightarrow> RiskLow \<le> lvl" for lvl
    by (cases lvl) (auto simp: less_eq_risk_level_def)
  ultimately show ?thesis by (auto simp: risk_of_def split: option.splits)
qed

section \<open>The registry\<close>

definition mutator_tokens :: "string list" where
  "mutator_tokens =
    [''create'', ''update'', ''delete'', ''patch'', ''apply'', ''replace'', ''drop'', ''alter'',
     ''insert'', ''kill'', ''restart'', ''scale'', ''rollout'', ''exec'', ''write'', ''post'',
     ''put'', ''recreate'', ''purge'', ''evict'', ''cordon'', ''drain'', ''taint'', ''truncate'',
     ''terminate'']"

datatype tool_panic = MutatorTool string string | DuplicateTool string

definition name_tokens :: "unicode \<Rightarrow> string \<Rightarrow> string list" where
  "name_tokens u name = fields_func (\<lambda>r. r = 46 \<or> r = 95) (to_lower u name)"

definition assert_read_only_name :: "unicode \<Rightarrow> string \<Rightarrow> tool_panic option" where
  "assert_read_only_name u name =
     (case List.find (\<lambda>p. p \<in> set mutator_tokens) (name_tokens u name) of
        Some p \<Rightarrow> Some (MutatorTool name p)
      | None \<Rightarrow> None)"

record tool_registry =
  r_items :: "tool regmap"
  r_skipped :: "string gomap"
  r_alias :: "string gomap"

definition registry_new :: tool_registry where
  "registry_new = \<lparr>r_items = \<lparr>name_of = t_name, items = []\<rparr>, r_skipped = [], r_alias = []\<rparr>"

definition items_must_register :: "tool_registry \<Rightarrow> tool \<Rightarrow> tool_panic + tool_registry" where
  "items_must_register r t =
     (case regmap_must_register (r_items r) t of
        Inl _ \<Rightarrow> Inl (DuplicateTool (t_name t))
      | Inr m \<Rightarrow> Inr (r\<lparr>r_items := m\<rparr>))"

definition register_tool :: "unicode \<Rightarrow> tool_registry \<Rightarrow> tool \<Rightarrow> tool_panic + tool_registry" where
  "register_tool u r t =
     (case assert_read_only_name u (t_name t) of
        Some p \<Rightarrow> Inl p
      | None \<Rightarrow> items_must_register r t)"

fun must_register :: "unicode \<Rightarrow> tool_registry \<Rightarrow> tool list \<Rightarrow> tool_panic + tool_registry" where
  "must_register u r [] = Inr r"
| "must_register u r (t # ts) =
     (case register_tool u r t of Inl p \<Rightarrow> Inl p | Inr r' \<Rightarrow> must_register u r' ts)"

definition get_tool :: "tool_registry \<Rightarrow> string \<Rightarrow> tool option" where
  "get_tool r name =
     (case regmap_get (r_items r) name of
        Some t \<Rightarrow> Some t
      | None \<Rightarrow>
          (case gm_get (r_alias r) name of
             None \<Rightarrow> None
           | Some orig \<Rightarrow> regmap_get (r_items r) orig))"

definition list_tools :: "tool_registry \<Rightarrow> tool list" where
  "list_tools r = regmap_all (r_items r)"

fun matches_any :: "string \<Rightarrow> string list \<Rightarrow> bool" where
  "matches_any name [] = False"
| "matches_any name (p # ps) =
     (if has_suffix p ''*''
      then (if has_prefix name (take (length p - 1) p) then True else matches_any name ps)
      else if name = p then True else matches_any name ps)"

text \<open>\<open>Filter\<close> registers into the fresh inner map, so the name check does not run again.\<close>

fun register_items :: "tool_registry \<Rightarrow> tool list \<Rightarrow> tool_panic + tool_registry" where
  "register_items r [] = Inr r"
| "register_items r (t # ts) =
     (case items_must_register r t of Inl p \<Rightarrow> Inl p | Inr r' \<Rightarrow> register_items r' ts)"

definition filter_tools :: "tool_registry \<Rightarrow> string list \<Rightarrow> tool_panic + tool_registry" where
  "filter_tools r allow =
     (case register_items registry_new (filter (\<lambda>t. matches_any (t_name t) allow) (list_tools r)) of
        Inl p \<Rightarrow> Inl p
      | Inr sub \<Rightarrow>
          Inr (sub\<lparr>r_skipped := fold (\<lambda>(g, reason). gm_put g reason) (r_skipped r) (r_skipped sub),
                   r_alias := fold (\<lambda>(safe, real). gm_put safe real) (r_alias r) (r_alias sub)\<rparr>))"

definition mark_skipped :: "string \<Rightarrow> string \<Rightarrow> tool_registry \<Rightarrow> tool_registry" where
  "mark_skipped g reason r =
     (if g = [] then r else r\<lparr>r_skipped := gm_put g reason (r_skipped r)\<rparr>)"

definition unmark_skipped :: "string \<Rightarrow> tool_registry \<Rightarrow> tool_registry" where
  "unmark_skipped g r = (if g = [] then r else r\<lparr>r_skipped := gm_del g (r_skipped r)\<rparr>)"

definition skipped :: "tool_registry \<Rightarrow> string gomap" where
  "skipped r = fold (\<lambda>(k, v). gm_put k v) (r_skipped r) []"

section \<open>Inventory\<close>

record group_report =
  gr_name :: string
  gr_tools :: "string list"
  gr_skipped :: bool
  gr_reason :: string

definition group_of :: "string \<Rightarrow> string" where
  "group_of name =
     (case index_byte name (CHR ''.'') of
        Some i \<Rightarrow> (if i > 0 then take i name else name)
      | None \<Rightarrow> name)"

definition by_group :: "tool_registry \<Rightarrow> string list gomap" where
  "by_group r =
     fold (\<lambda>t m. let g = group_of (t_name t) in
             gm_put g ((case gm_get m g of None \<Rightarrow> [] | Some ns \<Rightarrow> ns) @ [t_name t]) m)
       (list_tools r) []"

definition inventory :: "tool_registry \<Rightarrow> group_report list" where
  "inventory r =
     (let bg = by_group r;
          registered = map (\<lambda>(g, names).
            \<lparr>gr_name = g, gr_tools = sort names, gr_skipped = False, gr_reason = []\<rparr>) bg;
          missing = map (\<lambda>(g, reason).
            \<lparr>gr_name = g, gr_tools = [], gr_skipped = True, gr_reason = reason\<rparr>)
            (filter (\<lambda>(g, reason). \<not> gm_has bg g) (r_skipped r))
      in sort_key gr_name (registered @ missing))"

section \<open>Names on the wire\<close>

definition provider_needs_safe_names :: "string \<Rightarrow> bool" where
  "provider_needs_safe_names provider \<longleftrightarrow>
     provider \<in> {''anthropic'', ''openai'', ''codex'', ''google'', ''moonshot''}"

definition safe_name :: "string \<Rightarrow> string" where
  "safe_name name = replace_byte name (CHR ''.'') ''_''"

definition wire_tool :: "bool \<Rightarrow> tool \<Rightarrow> llm_tool" where
  "wire_tool sanitize t =
     \<lparr>lt_name = (if sanitize then safe_name (t_name t) else t_name t),
      lt_description = t_description t, lt_schema = t_schema t\<rparr>"

definition wire_aliases :: "tool list \<Rightarrow> string gomap" where
  "wire_aliases ts =
     fold (\<lambda>t m. let safe = safe_name (t_name t) in
             if safe \<noteq> t_name t then gm_put safe (t_name t) m else m) ts []"

definition tools_for :: "tool_registry \<Rightarrow> string \<Rightarrow> llm_tool list \<times> tool_registry" where
  "tools_for r provider =
     (let ts = list_tools r; sanitize = provider_needs_safe_names provider in
      (map (wire_tool sanitize) ts,
       if sanitize
       then r\<lparr>r_alias := fold (\<lambda>(k, v). gm_put k v) (wire_aliases ts) (r_alias r)\<rparr>
       else r))"

section \<open>Endpoint selection\<close>

definition join_keys :: "'v gomap \<Rightarrow> string" where
  "join_keys m = join (gm_keys m) '', ''"

datatype pick_error =
    NameRequired string string string
  | UnknownEndpoint string string string string
  | NoneConfigured string string

definition pick_endpoint :: "'v gomap \<Rightarrow> string \<Rightarrow> string \<Rightarrow> string \<Rightarrow> pick_error + 'v" where
  "pick_endpoint m name grp kind =
     (if name = []
      then (case m of
              [(k, v)] \<Rightarrow> Inr v
            | _ \<Rightarrow> Inl (NameRequired grp kind (join_keys m)))
      else (case gm_get m name of
              Some v \<Rightarrow> Inr v
            | None \<Rightarrow> Inl (UnknownEndpoint grp kind name (join_keys m))))"

definition pick_default_endpoint :: "'v gomap \<Rightarrow> string \<Rightarrow> string \<Rightarrow> pick_error + (string \<times> 'v)" where
  "pick_default_endpoint m grp kind =
     (case gm_keys m of
        [] \<Rightarrow> Inl (NoneConfigured grp kind)
      | key # _ \<Rightarrow>
          (case gm_get m key of
             Some v \<Rightarrow> Inr (key, v)
           | None \<Rightarrow> Inl (NoneConfigured grp kind)))"

end
