(* ===== verification/Tool_Catalog_Facts.thy ===== *)
theory Tool_Catalog_Facts
  imports Tool_Catalog
begin

text \<open>
  What the tool registry guarantees: no reachable registry holds a tool whose name has a mutating
  verb; a filtered registry is exactly the matching tools and resolves nothing outside the allow
  list, aliases included; the sanitised names sent to a provider resolve back to their tools; the
  inventory reports every tool once. The contract of a glob list is a locale, interpreted here on
  \<open>matches_any\<close> and in the permission layer on its own matcher.
\<close>

section \<open>Glob lists\<close>

locale glob_list =
  fixes matches :: "string list \<Rightarrow> string \<Rightarrow> bool"
  assumes matches_Nil: "\<not> matches [] n"
    and matches_Cons: "matches (p # ps) n \<longleftrightarrow> matches [p] n \<or> matches ps n"
    and matches_star: "matches [p @ ''*''] n \<longleftrightarrow> prefix p n"
    and matches_exact: "\<not> suffix ''*'' p \<Longrightarrow> matches [p] n \<longleftrightarrow> n = p"
begin

lemma matches_iff: "matches ps n \<longleftrightarrow> (\<exists>p \<in> set ps. matches [p] n)"
proof (induction ps)
  case Nil
  then show ?case by (simp add: matches_Nil)
next
  case (Cons p ps)
  have "matches (p # ps) n \<longleftrightarrow> matches [p] n \<or> matches ps n" by (rule matches_Cons)
  also have "\<dots> \<longleftrightarrow> (\<exists>q \<in> set (p # ps). matches [q] n)" unfolding Cons.IH by auto
  finally show ?case .
qed

lemma matches_mono: "set ps \<subseteq> set qs \<Longrightarrow> matches ps n \<Longrightarrow> matches qs n"
  by (subst (asm) matches_iff, subst matches_iff) blast

lemma matches_append: "matches (ps @ qs) n \<longleftrightarrow> matches ps n \<or> matches qs n"
  by (subst (1 2 3) matches_iff) auto

lemma matches_all: "''*'' \<in> set ps \<Longrightarrow> matches ps n"
  using matches_star [of "[]" n] by (subst matches_iff) auto

lemma matches_pattern:
  "matches [p] n \<longleftrightarrow> (if suffix ''*'' p then prefix (butlast p) n else n = p)"
proof (cases "suffix ''*'' p")
  case True
  then obtain q where "p = q @ ''*''" by (auto simp: suffix_def)
  then show ?thesis using matches_star [of q n] by simp
next
  case False
  then show ?thesis using matches_exact by simp
qed

text \<open>The contract determines the matcher: two matchers that keep it agree.\<close>

lemma matches_unique:
  assumes "glob_list other"
  shows "matches ps n = other ps n"
proof -
  have "matches [p] n = other [p] n" for p
    using matches_pattern glob_list.matches_pattern [OF assms] by simp
  then show ?thesis using matches_iff glob_list.matches_iff [OF assms] by blast
qed

lemma deny_narrows:
  "filter (\<lambda>n. \<not> matches (ds @ es) n) ns = filter (\<lambda>n. \<not> matches es n) (filter (\<lambda>n. \<not> matches ds n) ns)"
  by (simp add: matches_append conj_commute)

end

lemma matches_any_single:
  "matches_any n [p] \<longleftrightarrow> (if suffix ''*'' p then prefix (butlast p) n else n = p)"
  by (simp add: has_suffix_def has_prefix_def butlast_conv_take)

lemma matches_any_Cons: "matches_any n (p # ps) \<longleftrightarrow> matches_any n [p] \<or> matches_any n ps"
  by simp

declare matches_any.simps(2) [simp del]

interpretation tool_glob: glob_list "\<lambda>ps n. matches_any n ps"
proof unfold_locales
  show "matches_any n (p # ps) \<longleftrightarrow> matches_any n [p] \<or> matches_any n ps" for p ps n
    by (rule matches_any_Cons)
qed (auto simp: matches_any_single suffix_def)

section \<open>The invariant of a registry\<close>

definition catalog_inv :: "unicode \<Rightarrow> tool_registry \<Rightarrow> bool" where
  "catalog_inv u r \<longleftrightarrow>
     regmap_inv (r_items r) \<and> name_of (r_items r) = t_name \<and> gm_wf (r_skipped r) \<and> gm_wf (r_alias r) \<and>
     (\<forall>t \<in> set (list_tools r). assert_read_only_name u (t_name t) = None)"

lemma catalog_invD:
  assumes "catalog_inv u r"
  shows "regmap_inv (r_items r)" "name_of (r_items r) = t_name" "gm_wf (r_skipped r)" "gm_wf (r_alias r)"
    "t \<in> set (list_tools r) \<Longrightarrow> assert_read_only_name u (t_name t) = None"
  using assms by (auto simp: catalog_inv_def)

lemma catalog_new [go_intros]: "catalog_inv u registry_new"
  by (simp add: catalog_inv_def registry_new_def regmap_inv_def list_tools_def regmap_all_def
      gm_keys_def map_filter_def)

lemma in_list_tools:
  "catalog_inv u r \<Longrightarrow> t \<in> set (list_tools r) \<longleftrightarrow> regmap_get (r_items r) (t_name t) = Some t"
  using in_regmap_all [of "r_items r" t] by (simp add: catalog_inv_def list_tools_def)

lemma get_item_name: "catalog_inv u r \<Longrightarrow> regmap_get (r_items r) n = Some t \<Longrightarrow> t_name t = n"
  using regmap_get_name [of "r_items r" n t] by (simp add: catalog_inv_def)

lemma get_tool_listed: "catalog_inv u r \<Longrightarrow> get_tool r n = Some t \<Longrightarrow> t \<in> set (list_tools r)"
  by (auto simp: in_list_tools get_tool_def get_item_name split: option.splits)

lemma list_tools_names:
  "catalog_inv u r \<Longrightarrow> sorted (map t_name (list_tools r)) \<and> distinct (map t_name (list_tools r))"
  using regmap_all_sorted [of "r_items r"] regmap_all_distinct [of "r_items r"]
  by (simp add: catalog_inv_def list_tools_def)

lemma items_must_register_Inr:
  "items_must_register r t = Inr r' \<longleftrightarrow>
     regmap_get (r_items r) (name_of (r_items r) t) = None \<and>
     r' = r\<lparr>r_items := regmap_replace (r_items r) t\<rparr>"
  by (auto simp: items_must_register_def regmap_register_Inr regmap_register_Inl split: sum.splits)

lemma set_list_replace:
  assumes "catalog_inv u r" "regmap_get (r_items r) (t_name t) = None"
  shows "set (list_tools (r\<lparr>r_items := regmap_replace (r_items r) t\<rparr>)) = insert t (set (list_tools r))"
proof -
  have "name_of (r_items r) = t_name" using assms by (simp add: catalog_inv_def)
  then have "set (list_tools (r\<lparr>r_items := regmap_replace (r_items r) t\<rparr>))
      = {it. \<exists>k. (if k = t_name t then Some t else regmap_get (r_items r) k) = Some it}"
    by (simp add: list_tools_def set_regmap_all regmap_get_replace)
  also have "\<dots> = insert t {it. \<exists>k. regmap_get (r_items r) k = Some it}"
    using assms(2) by (auto split: if_splits) (metis option.distinct(1))
  finally show ?thesis by (simp add: list_tools_def set_regmap_all)
qed

lemma catalog_register [go_intros]:
  assumes "catalog_inv u r" "register_tool u r t = Inr r'"
  shows "catalog_inv u r'"
proof -
  from assms(2) have ok: "assert_read_only_name u (t_name t) = None"
    and reg: "items_must_register r t = Inr r'"
    by (auto simp: register_tool_def split: option.splits)
  have nm: "name_of (r_items r) = t_name" using assms(1) by (simp add: catalog_inv_def)
  then have none: "regmap_get (r_items r) (t_name t) = None"
    and r': "r' = r\<lparr>r_items := regmap_replace (r_items r) t\<rparr>"
    using reg by (simp_all add: items_must_register_Inr)
  have "regmap_inv (r_items r')" using assms(1) r' by (auto simp: catalog_inv_def intro: go_intros)
  then show ?thesis using set_list_replace [OF assms(1) none] assms(1) ok r'
    by (auto simp: catalog_inv_def)
qed

lemma catalog_must_register [go_intros]:
  "catalog_inv u r \<Longrightarrow> must_register u r ts = Inr r' \<Longrightarrow> catalog_inv u r'"
  by (induction u r ts rule: must_register.induct) (auto split: sum.splits intro: go_intros)

section \<open>Filtering\<close>

lemma register_items_all:
  "register_items r ts =
     (case regmap_register_all (r_items r) ts of
        Inl e \<Rightarrow> register_items r ts | Inr m \<Rightarrow> Inr (r\<lparr>r_items := m\<rparr>))"
proof (induction r ts rule: register_items.induct)
  case (1 r)
  then show ?case by simp
next
  case (2 r t ts)
  show ?case
  proof (cases "regmap_register (r_items r) t")
    case (Inl e)
    then show ?thesis by simp
  next
    case (Inr m)
    then have "items_must_register r t = Inr (r\<lparr>r_items := m\<rparr>)"
      by (simp add: items_must_register_def)
    then show ?thesis using 2 Inr by (auto split: sum.splits)
  qed
qed

lemma filter_tools_ok:
  assumes inv: "catalog_inv u r"
  shows "\<exists>sub. filter_tools r allow = Inr sub \<and> catalog_inv u sub \<and>
    list_tools sub = filter (\<lambda>t. matches_any (t_name t) allow) (list_tools r) \<and>
    (\<forall>k. gm_get (r_alias sub) k = gm_get (r_alias r) k) \<and>
    (\<forall>g. gm_get (r_skipped sub) g = gm_get (r_skipped r) g)"
proof -
  let ?keep = "filter (\<lambda>t. matches_any (t_name t) allow) (list_tools r)"
  let ?m0 = "r_items registry_new"
  have m0: "regmap_inv ?m0" "name_of ?m0 = t_name" "\<And>k. regmap_get ?m0 k = None"
    by (simp_all add: registry_new_def regmap_inv_def regmap_get_def)
  have names: "distinct (map t_name ?keep)" "sorted (map t_name ?keep)"
    using list_tools_names [OF inv] by (auto simp: distinct_map_filter sorted_filter)
  obtain m where m: "regmap_register_all ?m0 ?keep = Inr m" "regmap_inv m" "name_of m = t_name"
    "\<forall>k. regmap_get m k = List.find (\<lambda>it. t_name it = k) ?keep"
    using regmap_register_all_ok [of ?m0 ?keep] m0 names(1) by (auto cong: option.case_cong)
  let ?sub = "registry_new\<lparr>r_items := m,
      r_skipped := fold (\<lambda>(g, reason). gm_put g reason) (r_skipped r) [],
      r_alias := fold (\<lambda>(safe, real). gm_put safe real) (r_alias r) []\<rparr>"
  have eq: "filter_tools r allow = Inr ?sub"
    using m(1) register_items_all [of registry_new ?keep] by (simp add: filter_tools_def registry_new_def)
  have "regmap_get m (t_name t) = Some t \<longleftrightarrow> t \<in> set ?keep" for t
  proof
    assume "regmap_get m (t_name t) = Some t"
    then show "t \<in> set ?keep" using m(4) by (metis find_SomeD)
  next
    assume t: "t \<in> set ?keep"
    then obtain t' where t': "List.find (\<lambda>it. t_name it = t_name t) ?keep = Some t'"
      by (metis (mono_tags, lifting) find_None_iff not_None_eq)
    then have "t' \<in> set ?keep" "t_name t' = t_name t" using find_SomeD [OF t'] by auto
    then have "t' = t" using t names(1) by (metis distinct_map inj_onD)
    then show "regmap_get m (t_name t) = Some t" using m(4) t' by simp
  qed
  then have "regmap_all m = ?keep"
    using names m(2,3) by (intro regmap_all_eqI) simp_all
  then have list: "list_tools ?sub = ?keep" by (simp add: list_tools_def [of ?sub])
  have "catalog_inv u ?sub"
    unfolding catalog_inv_def using list m(2,3) catalog_invD(5) [OF inv]
    by (auto simp: gm_wf_fold_put)
  then show ?thesis using eq list inv
    by (auto simp: map_of_fold_put catalog_inv_def gm_get_rev split: option.splits)
qed

lemma catalog_filter [go_intros]:
  "catalog_inv u r \<Longrightarrow> filter_tools r allow = Inr sub \<Longrightarrow> catalog_inv u sub"
  using filter_tools_ok [of u r allow] by auto

lemma list_tools_skipped [simp]: "list_tools (r\<lparr>r_skipped := s\<rparr>) = list_tools r"
  and list_tools_alias [simp]: "list_tools (r\<lparr>r_alias := a\<rparr>) = list_tools r"
  by (simp_all add: list_tools_def)

lemma catalog_mark [go_intros]: "catalog_inv u r \<Longrightarrow> catalog_inv u (mark_skipped g reason r)"
  by (auto simp: mark_skipped_def catalog_inv_def)

lemma catalog_unmark [go_intros]: "catalog_inv u r \<Longrightarrow> catalog_inv u (unmark_skipped g r)"
  by (auto simp: unmark_skipped_def catalog_inv_def)

lemma catalog_tools_for [go_intros]: "catalog_inv u r \<Longrightarrow> catalog_inv u (snd (tools_for r provider))"
  by (auto simp: tools_for_def Let_def catalog_inv_def gm_wf_fold_put)

section \<open>Reachable registries\<close>

text \<open>Every way the program builds or changes a registry: fresh, registering, filtering by a skill,
  recording and clearing skips, and describing the tools to a provider (which records aliases).\<close>

inductive catalog_reach :: "unicode \<Rightarrow> tool_registry \<Rightarrow> bool" for u where
  fresh: "catalog_reach u registry_new"
| registered: "catalog_reach u r \<Longrightarrow> register_tool u r t = Inr r' \<Longrightarrow> catalog_reach u r'"
| filtered: "catalog_reach u r \<Longrightarrow> filter_tools r allow = Inr r' \<Longrightarrow> catalog_reach u r'"
| marked: "catalog_reach u r \<Longrightarrow> catalog_reach u (mark_skipped g reason r)"
| unmarked: "catalog_reach u r \<Longrightarrow> catalog_reach u (unmark_skipped g r)"
| described: "catalog_reach u r \<Longrightarrow> catalog_reach u (snd (tools_for r provider))"

lemma catalog_reach_inv: "catalog_reach u r \<Longrightarrow> catalog_inv u r"
  by (induction rule: catalog_reach.induct) (auto intro: go_intros)

lemma read_only_name_iff:
  "assert_read_only_name u n = None \<longleftrightarrow> set (name_tokens u n) \<inter> set mutator_tokens = {}"
  by (fastforce simp: assert_read_only_name_def find_None_iff split: option.splits dest: find_SomeD)

section \<open>Wire names\<close>

lemma safe_name_no_dot: "CHR ''.'' \<notin> set (safe_name n)"
  unfolding safe_name_def by (rule replace_byte_absent) simp

lemma wire_aliases_snoc:
  "wire_aliases (ts @ [t]) =
     (if safe_name (t_name t) \<noteq> t_name t
      then gm_put (safe_name (t_name t)) (t_name t) (wire_aliases ts) else wire_aliases ts)"
  by (simp add: wire_aliases_def Let_def)

lemma wire_aliases_wf: "gm_wf (wire_aliases ts)"
  by (induction ts rule: rev_induct) (simp_all add: wire_aliases_snoc, simp add: wire_aliases_def)

lemma wire_aliases_get:
  assumes "inj_on safe_name (t_name ` set ts)" "t \<in> set ts" "safe_name (t_name t) \<noteq> t_name t"
  shows "gm_get (wire_aliases ts) (safe_name (t_name t)) = Some (t_name t)"
  using assms
proof (induction ts rule: rev_induct)
  case Nil
  then show ?case by simp
next
  case (snoc x ts)
  have inj: "inj_on safe_name (t_name ` set ts)"
    using snoc.prems(1) by (rule inj_on_subset) auto
  have same: "t_name t = t_name x" if "safe_name (t_name t) = safe_name (t_name x)"
    using snoc.prems(1,2) that by (meson imageI in_set_conv_decomp inj_onD)
  show ?case
  proof (cases "t_name t = t_name x")
    case True
    then show ?thesis using snoc.prems(3) by (simp add: wire_aliases_snoc gm_get_put)
  next
    case False
    then have "t \<in> set ts" using snoc.prems(2) by auto
    then have "gm_get (wire_aliases ts) (safe_name (t_name t)) = Some (t_name t)"
      using snoc.IH inj snoc.prems(3) by blast
    then show ?thesis using False same by (auto simp: wire_aliases_snoc gm_get_put)
  qed
qed

lemma tools_for_wire_list:
  "fst (tools_for r provider) = map (wire_tool (provider_needs_safe_names provider)) (list_tools r)"
  by (simp add: tools_for_def Let_def)

lemma tools_for_items [simp]: "r_items (snd (tools_for r provider)) = r_items r"
  by (simp add: tools_for_def Let_def)

lemma tools_for_resolves:
  assumes inv: "catalog_inv u r"
    and inj: "inj_on safe_name (t_name ` set (list_tools r))"
    and t: "t \<in> set (list_tools r)"
  shows "get_tool (snd (tools_for r provider)) (lt_name (wire_tool (provider_needs_safe_names provider) t))
           = Some t"
proof (cases "provider_needs_safe_names provider \<and> safe_name (t_name t) \<noteq> t_name t")
  case False
  then show ?thesis using t inv
    by (auto simp: wire_tool_def get_tool_def in_list_tools [OF inv])
next
  case True
  let ?s = "safe_name (t_name t)"
  have none: "regmap_get (r_items r) ?s = None"
  proof (rule ccontr)
    assume "regmap_get (r_items r) ?s \<noteq> None"
    then obtain t' where t': "regmap_get (r_items r) ?s = Some t'" by auto
    then have nm: "t_name t' = ?s" by (rule get_item_name [OF inv])
    then have "t' \<in> set (list_tools r)" using t' by (simp add: in_list_tools [OF inv])
    moreover have "safe_name ?s = ?s"
    proof -
      have "CHR ''.'' \<notin> set x \<Longrightarrow> replace_byte x (CHR ''.'') ''_'' = x" for x
        by (induction x) auto
      then show ?thesis using safe_name_no_dot [of "t_name t"] by (simp add: safe_name_def)
    qed
    ultimately have "t_name t' = t_name t" using inj t nm by (metis imageI inj_onD)
    then show False using nm True by simp
  qed
  have "gm_get (wire_aliases (list_tools r)) ?s = Some (t_name t)"
    using wire_aliases_get [OF inj t] True by simp
  then have "gm_get (r_alias (snd (tools_for r provider))) ?s = Some (t_name t)"
    using True by (simp add: tools_for_def Let_def map_of_fold_put gm_get_rev wire_aliases_wf)
  then show ?thesis using True none t
    by (simp add: wire_tool_def get_tool_def in_list_tools [OF inv])
qed

section \<open>Groups\<close>

lemma by_group_get:
  "gm_get (by_group r) g =
     (let ns = filter (\<lambda>n. group_of n = g) (map t_name (list_tools r)) in if ns = [] then None else Some ns)"
proof -
  define step :: "tool \<Rightarrow> string list gomap \<Rightarrow> string list gomap" where "step = (\<lambda>t m. let g = group_of (t_name t) in
      gm_put g ((case gm_get m g of None \<Rightarrow> [] | Some ns \<Rightarrow> ns) @ [t_name t]) m)"
  have "gm_get (fold step ts []) g =
     (let ns = filter (\<lambda>n. group_of n = g) (map t_name ts) in if ns = [] then None else Some ns)" for ts
    by (induction ts rule: rev_induct)
      (auto simp: step_def Let_def gm_get_put split: option.splits if_splits)
  then show ?thesis by (simp add: by_group_def step_def)
qed

lemma by_group_wf: "gm_wf (by_group r)"
proof -
  define step :: "tool \<Rightarrow> string list gomap \<Rightarrow> string list gomap" where "step = (\<lambda>t m. let g = group_of (t_name t) in
      gm_put g ((case gm_get m g of None \<Rightarrow> [] | Some ns \<Rightarrow> ns) @ [t_name t]) m)"
  have "gm_wf (fold step ts [])" for ts
    by (induction ts rule: rev_induct) (auto simp: step_def Let_def)
  then show ?thesis by (simp add: by_group_def step_def)
qed

lemma inventory_mem:
  "rep \<in> set (inventory r) \<longleftrightarrow>
     (\<exists>g names. (g, names) \<in> set (by_group r) \<and>
        rep = \<lparr>gr_name = g, gr_tools = sort names, gr_skipped = False, gr_reason = []\<rparr>) \<or>
     (\<exists>g reason. (g, reason) \<in> set (r_skipped r) \<and> gm_get (by_group r) g = None \<and>
        rep = \<lparr>gr_name = g, gr_tools = [], gr_skipped = True, gr_reason = reason\<rparr>)"
  by (auto simp: inventory_def Let_def)

lemma inventory_names_distinct:
  assumes "gm_wf (r_skipped r)"
  shows "distinct (map gr_name (inventory r))"
proof -
  let ?bg = "by_group r"
  let ?miss = "filter (\<lambda>(g, reason). \<not> gm_has ?bg g) (r_skipped r)"
  have "map gr_name (map (\<lambda>(g, names).
      \<lparr>gr_name = g, gr_tools = sort names, gr_skipped = False, gr_reason = []\<rparr>) ?bg
      @ map (\<lambda>(g, reason).
      \<lparr>gr_name = g, gr_tools = [], gr_skipped = True, gr_reason = reason\<rparr>) ?miss)
      = map fst ?bg @ map fst ?miss"
    by (simp add: case_prod_beta o_def)
  moreover have "distinct (map fst ?bg @ map fst ?miss)"
    using by_group_wf [of r] assms by (force simp: gm_wf_def distinct_map_filter map_of_eq_None_iff)
  ultimately show ?thesis by (simp only: inventory_def Let_def distinct_map_sort_key)
qed

end
