(* ===== verification/Agent_Text.thy ===== *)
theory Agent_Text
  imports Tool_Catalog_Facts
begin

text \<open>
  The text a tool result becomes (\<open>internal/core/agent/agent.go\<close>: \<open>observationText\<close>,
  \<open>renderMarkdownTable\<close>, \<open>escapeMarkdownCell\<close>, \<open>truncateMiddle\<close>) and the log summary
  (\<open>hook_log_summary.go\<close>). The lemmas show that no cell can break a table row, that truncation
  respects its budget and keeps both ends, and what the log summary keeps.
\<close>

section \<open>Observations\<close>

datatype align = AlignLeft | AlignRight | AlignCenter

record table =
  tb_headers :: "string list"
  tb_rows :: "string list list"
  tb_aligns :: "align list"

text \<open>\<open>Raw\<close> is a Go \<open>any\<close>; only its byte-slice form is ever inspected.\<close>

datatype raw = RawNil | RawBytes string | RawValue

record observation =
  ob_text :: string
  ob_table :: "table option"
  ob_raw :: raw

section \<open>Markdown tables\<close>

abbreviation backslash :: char where "backslash \<equiv> CHR 0x5C"
abbreviation pipe :: char where "pipe \<equiv> CHR 0x7C"

definition escape_markdown_cell :: "string \<Rightarrow> string" where
  "escape_markdown_cell s =
     replace_byte
       (replace_byte (replace_byte s backslash [backslash, backslash]) newline '' '')
       pipe [backslash, pipe]"

definition table_cell :: "string \<Rightarrow> string" where
  "table_cell c = '' '' @ escape_markdown_cell c @ '' |''"

definition table_sep :: "align list \<Rightarrow> nat \<Rightarrow> string" where
  "table_sep aligns i =
     (if i < length aligns
      then (case aligns ! i of
              AlignRight \<Rightarrow> '' ---: |''
            | AlignCenter \<Rightarrow> '' :---: |''
            | AlignLeft \<Rightarrow> '' --- |'')
      else '' --- |'')"

definition table_row :: "nat \<Rightarrow> string list \<Rightarrow> string" where
  "table_row n row =
     [pipe] @ concat (map (\<lambda>i. table_cell (if i < length row then row ! i else [])) [0..<n])"

definition table_lines :: "table \<Rightarrow> string list" where
  "table_lines t =
     (let n = length (tb_headers t) in
      ([pipe] @ concat (map table_cell (tb_headers t)))
      # ([pipe] @ concat (map (table_sep (tb_aligns t)) [0..<n]))
      # map (table_row n) (tb_rows t))"

definition render_markdown_table :: "table option \<Rightarrow> string" where
  "render_markdown_table t =
     (case t of
        None \<Rightarrow> []
      | Some tb \<Rightarrow>
          if tb_headers tb = [] then []
          else concat (map (\<lambda>l. l @ [newline]) (table_lines tb)))"

fun trim_right_byte :: "char \<Rightarrow> string \<Rightarrow> string" where
  "trim_right_byte c s = rev (dropWhile (\<lambda>x. x = c) (rev s))"

definition observation_text :: "observation \<Rightarrow> string" where
  "observation_text obs =
     (let txt = ob_text obs in
      case ob_table obs of
        None \<Rightarrow> txt
      | Some t \<Rightarrow>
          if tb_rows t = [] then txt
          else (let tbl = render_markdown_table (Some t) in
                if txt = [] then tbl
                else trim_right_byte newline txt @ [newline, newline] @ tbl))"

section \<open>Truncation\<close>

text \<open>The bytes of the ellipsis character.\<close>

definition ellipsis :: string where
  "ellipsis = [CHR 0xE2, CHR 0x80, CHR 0xA6]"

definition truncation_marker :: "int \<Rightarrow> string" where
  "truncation_marker dropped =
     [newline] @ ellipsis @ ''[truncated '' @ show_int dropped @ '' chars]'' @ ellipsis @ [newline]"

definition truncate_middle :: "string \<Rightarrow> int \<Rightarrow> string" where
  "truncate_middle s mx =
     (if mx \<le> 0 \<or> int (length s) \<le> mx then s
      else (let marker = truncation_marker (int (length s) - mx) in
            if mx \<le> int (length marker) then take (nat mx) s
            else (let keep = nat mx - length marker; hd_len = keep div 3; tl_len = keep - hd_len
                  in take hd_len s @ marker @ drop (length s - tl_len) s)))"

section \<open>Log summary\<close>

definition clip_head :: "string \<Rightarrow> int \<Rightarrow> string" where
  "clip_head txt mx =
     (if mx \<le> 0 \<or> txt = [] then []
      else if int (length txt) \<le> mx then txt
      else (let cut = take (nat mx) txt in
            case last_index_byte cut newline of
              Some i \<Rightarrow> (if i > 0 then take i cut else cut)
            | None \<Rightarrow> cut))"

definition clip_tail :: "string \<Rightarrow> int \<Rightarrow> string" where
  "clip_tail txt mx =
     (if mx \<le> 0 \<or> txt = [] then []
      else if int (length txt) \<le> mx then txt
      else (let cut = drop (length txt - nat mx) txt in
            case index_byte cut newline of
              Some i \<Rightarrow> (if i > 0 \<and> i < length cut - 1 then drop (i + 1) cut else cut)
            | None \<Rightarrow> cut))"

text \<open>The marking loop, and the loop that collapses consecutive duplicates; the exception pattern
  is a parameter (the regular-expression engine).\<close>

function mark_range :: "nat \<Rightarrow> nat \<Rightarrow> bool list \<Rightarrow> bool list" where
  "mark_range k stop keep = (if k < stop then mark_range (k + 1) stop (keep[k := True]) else keep)"

  by pat_completeness auto
termination
  by (relation "measure (\<lambda>(k, stop, keep). stop - k)") auto

declare mark_range.simps [simp del]

definition mark_step :: "(string \<Rightarrow> bool) \<Rightarrow> string list \<Rightarrow> nat \<Rightarrow> nat \<Rightarrow> bool list \<Rightarrow> bool list" where
  "mark_step exc ls lookahead i keep =
     (if exc (ls ! i) then mark_range i (min (i + lookahead) (length ls)) keep else keep)"

definition marked :: "(string \<Rightarrow> bool) \<Rightarrow> string list \<Rightarrow> nat \<Rightarrow> bool list" where
  "marked exc ls lookahead =
     fold (mark_step exc ls lookahead) [0..<length ls] (replicate (length ls) False)"

fun collapse :: "string \<Rightarrow> (string \<times> bool) list \<Rightarrow> string list" where
  "collapse prev [] = []"
| "collapse prev ((l, ok) # rest) =
     (if \<not> ok then collapse prev rest
      else if l = prev then collapse prev rest
      else l # collapse l rest)"

definition extract_exception_context :: "(string \<Rightarrow> bool) \<Rightarrow> string list \<Rightarrow> nat \<Rightarrow> string list" where
  "extract_exception_context exc ls lookahead = collapse [] (zip ls (marked exc ls lookahead))"

definition summarize_log :: "(string \<Rightarrow> bool) \<Rightarrow> string \<Rightarrow> int \<Rightarrow> string" where
  "summarize_log exc txt max_bytes =
     (if max_bytes \<le> 0 \<or> int (length txt) \<le> max_bytes then txt
      else (let ls = split_byte newline txt;
                head_budget = max_bytes div 4;
                tail_budget = max_bytes div 2;
                exc_budget = (let b = max_bytes - head_budget - tail_budget in if b < 0 then 0 else b);
                hd_part = clip_head txt head_budget;
                tl_part = clip_tail txt tail_budget;
                ex_part = clip_head (join (extract_exception_context exc ls 5) [newline]) exc_budget
            in ''=== log summary: '' @ show_nat (length txt)
               @ '' bytes total, head/tail with exceptions ==='' @ [newline]
               @ ''--- head ---'' @ [newline] @ hd_part
               @ (if ex_part \<noteq> []
                  then [newline] @ ''--- exceptions / errors ---'' @ [newline] @ ex_part else [])
               @ [newline] @ ''--- tail ---'' @ [newline] @ tl_part))"

section \<open>A cell cannot break its row\<close>

text \<open>A Markdown reader: a backslash hides the next byte, every other pipe separates cells. The
  scan returns the number of separators and whether a backslash is pending at the end.\<close>

fun md_scan :: "bool \<Rightarrow> string \<Rightarrow> nat \<times> bool" where
  "md_scan esc [] = (0, esc)"
| "md_scan esc (c # s) =
     (if esc then md_scan False s
      else if c = backslash then md_scan True s
      else (let (n, e) = md_scan False s in ((if c = pipe then Suc n else n), e)))"

lemma md_scan_append:
  "md_scan e (s @ t) = (let (n, e') = md_scan e s; (m, e'') = md_scan e' t in (n + m, e''))"
  by (induction e s rule: md_scan.induct) (auto simp: Let_def split: prod.splits)

lemma escape_Cons:
  "escape_markdown_cell (c # s) =
     (if c = backslash then [backslash, backslash] else if c = newline then '' ''
      else if c = pipe then [backslash, pipe] else [c]) @ escape_markdown_cell s"
  by (simp add: escape_markdown_cell_def)

lemma escape_Nil [simp]: "escape_markdown_cell [] = []"
  by (simp add: escape_markdown_cell_def)

lemma escape_scan: "md_scan False (escape_markdown_cell s) = (0, False)"
  by (induction s) (auto simp: escape_Cons)

lemma escape_no_newline: "newline \<notin> set (escape_markdown_cell s)"
  by (induction s) (auto simp: escape_Cons)

lemma table_cell_scan: "md_scan False (table_cell c) = (1, False)"
  by (simp add: table_cell_def md_scan_append escape_scan Let_def)

lemma cells_scan: "(\<And>x. x \<in> set xs \<Longrightarrow> md_scan False (f x) = (1, False)) \<Longrightarrow>
   md_scan False (concat (map f xs)) = (length xs, False)"
  by (induction xs) (auto simp: md_scan_append Let_def)

lemma table_sep_scan: "md_scan False (table_sep as i) = (1, False)"
  by (auto simp: table_sep_def Let_def split: align.splits)

lemma table_cell_no_newline: "newline \<notin> set (table_cell c)"
  by (auto simp: table_cell_def escape_no_newline)

lemma table_line_scan:
  assumes "l \<in> set (table_lines t)"
  shows "md_scan False l = (Suc (length (tb_headers t)), False) \<and> newline \<notin> set l"
proof -
  have sep: "newline \<notin> set (table_sep as i)" for as i
    by (auto simp: table_sep_def split: align.splits)
  show ?thesis
    using assms sep
    by (auto simp: table_lines_def table_row_def Let_def cells_scan table_cell_scan table_sep_scan
        table_cell_no_newline)
qed

lemma split_lines: "(\<And>l. l \<in> set ls \<Longrightarrow> newline \<notin> set l) \<Longrightarrow>
   split_byte newline (concat (map (\<lambda>l. l @ [newline]) ls)) = ls @ [[]]"
proof (induction ls)
  case (Cons l ls)
  have "split_byte newline (l @ newline # r) = l # split_byte newline r" if "newline \<notin> set l" for r
    using that by (induction l) auto
  then show ?case using Cons by simp
qed simp

section \<open>Truncation facts\<close>

lemma truncate_middle_length: "0 < mx \<Longrightarrow> int (length (truncate_middle s mx)) \<le> mx"
  by (auto simp: truncate_middle_def Let_def)

lemma truncate_middle_id: "int (length s) \<le> mx \<Longrightarrow> truncate_middle s mx = s"
  by (simp add: truncate_middle_def)

lemma truncate_middle_ends:
  assumes "0 < mx" "mx < int (length s)"
    and "int (length (truncation_marker (int (length s) - mx))) < mx"
  shows "\<exists>h t. truncate_middle s mx = h @ truncation_marker (int (length s) - mx) @ t \<and>
     prefix h s \<and> suffix t s \<and> length h \<le> length t \<and>
     int (length h + length (truncation_marker (int (length s) - mx)) + length t) = mx"
proof -
  define mk where "mk = truncation_marker (int (length s) - mx)"
  define keep where "keep = nat mx - length mk"
  let ?h = "take (keep div 3) s" and ?t = "drop (length s - (keep - keep div 3)) s"
  have keep: "keep < length s" "0 < nat mx" "length mk < nat mx"
    using assms by (auto simp: keep_def mk_def)
  have "truncate_middle s mx = ?h @ mk @ ?t"
    using assms by (simp add: truncate_middle_def Let_def mk_def keep_def ac_simps)
  moreover have "length ?h = keep div 3" "length ?t = keep - keep div 3"
    using keep by auto
  moreover have "keep div 3 + length mk + (keep - keep div 3) = nat mx"
    using keep by (simp add: keep_def)
  ultimately show ?thesis
    unfolding mk_def [symmetric]
    by (intro exI [of _ ?h] exI [of _ ?t])
       (use keep assms in \<open>auto simp: take_is_prefix suffix_drop\<close>)
qed

section \<open>Log summary facts\<close>

lemma clip_head_prefix: "prefix (clip_head txt mx) txt"
  by (auto simp: clip_head_def Let_def take_is_prefix split: option.splits
      intro: prefix_order.trans [OF take_is_prefix])

lemma clip_head_length: "int (length (clip_head txt mx)) \<le> max 0 mx"
  by (auto simp: clip_head_def Let_def split: option.splits)

text \<open>A cut head ends at a line end unless the text has no newline to cut at.\<close>

lemma clip_head_line:
  assumes "0 < mx" "mx < int (length txt)" "last_index_byte (take (nat mx) txt) newline = Some i" "0 < i"
  shows "\<exists>rest. txt = clip_head txt mx @ [newline] @ rest"
proof -
  have i: "i < length (take (nat mx) txt)" "take (nat mx) txt ! i = newline"
    using last_index_byte_Some [OF assms(3)] by auto
  from i(1) have "i < nat mx" by simp
  then have "clip_head txt mx = take i txt"
    using assms by (auto simp: clip_head_def Let_def)
  moreover have "txt = take i txt @ [newline] @ drop (Suc i) txt"
    using i by (metis append_Cons append_Nil id_take_nth_drop length_take min_less_iff_conj nth_take)
  ultimately show ?thesis by metis
qed

lemma clip_tail_suffix: "suffix (clip_tail txt mx) txt"
  by (auto simp: clip_tail_def Let_def suffix_drop split: option.splits)

lemma clip_tail_length: "int (length (clip_tail txt mx)) \<le> max 0 mx"
  by (auto simp: clip_tail_def Let_def split: option.splits)

lemma length_mark_range [simp]: "length (mark_range k stop keep) = length keep"
  by (induction k stop keep rule: mark_range.induct) (subst mark_range.simps, simp)

lemma nth_mark_range:
  "i < length keep \<Longrightarrow> mark_range k stop keep ! i \<longleftrightarrow> keep ! i \<or> k \<le> i \<and> i < stop"
proof (induction k stop keep rule: mark_range.induct)
  case (1 k stop keep)
  show ?case
    using 1 by (subst mark_range.simps) (cases "i = k"; auto)
qed

lemma length_mark_step [simp]: "length (mark_step exc ls n i keep) = length keep"
  by (simp add: mark_step_def)

lemma length_fold_mark [simp]: "length (fold (mark_step exc ls n) xs keep) = length keep"
  by (induction xs arbitrary: keep) auto

lemma length_marked [simp]: "length (marked exc ls n) = length ls"
  by (simp add: marked_def)

lemma nth_fold_mark:
  assumes "i < length keep" "length keep = length ls"
  shows "fold (mark_step exc ls n) xs keep ! i \<longleftrightarrow>
     keep ! i \<or> (\<exists>j \<in> set xs. exc (ls ! j) \<and> j \<le> i \<and> i < j + n)"
  using assms
proof (induction xs arbitrary: keep)
  case (Cons x xs)
  then show ?case by (auto simp: mark_step_def nth_mark_range)
qed simp

lemma marked_iff:
  "i < length ls \<Longrightarrow> marked exc ls n ! i \<longleftrightarrow> (\<exists>j \<le> i. i < j + n \<and> exc (ls ! j))"
  by (auto simp: marked_def nth_fold_mark)

lemma collapse_set: "insert p (set (collapse p zs)) = insert p {l. (l, True) \<in> set zs}"
  by (induction p zs rule: collapse.induct) auto

lemma collapse_no_repeat: "distinct_adj (p # collapse p zs)"
  by (induction p zs rule: collapse.induct) auto

lemma extract_mem:
  "l \<noteq> [] \<Longrightarrow> l \<in> set (extract_exception_context exc ls n) \<longleftrightarrow>
     (\<exists>i < length ls. l = ls ! i \<and> (\<exists>j \<le> i. i < j + n \<and> exc (ls ! j)))"
proof -
  assume "l \<noteq> []"
  then have "l \<in> set (extract_exception_context exc ls n) \<longleftrightarrow> (l, True) \<in> set (zip ls (marked exc ls n))"
    using collapse_set [of "[]" "zip ls (marked exc ls n)"]
    unfolding extract_exception_context_def by blast
  also have "\<dots> \<longleftrightarrow> (\<exists>i < length ls. l = ls ! i \<and> marked exc ls n ! i)"
    by (auto simp: in_set_zip)
  finally show ?thesis by (auto simp: marked_iff)
qed

lemma summarize_log_length:
  assumes "0 < mx"
  shows "int (length (summarize_log exc txt mx)) \<le> mx + 117 + int (length (show_nat (length txt)))"
proof -
  define a where "a = clip_head txt (mx div 4)"
  define b where "b = clip_tail txt (mx div 2)"
  define c where "c = clip_head (join (extract_exception_context exc (split_byte newline txt) 5) [newline])
    (mx - mx div 4 - mx div 2)"
  have budget: "max 0 (mx - mx div 4 - mx div 2) = mx - mx div 4 - mx div 2"
    using assms by linarith
  have parts: "int (length a) \<le> mx div 4" "int (length b) \<le> mx div 2"
    "int (length c) \<le> mx - mx div 4 - mx div 2"
    using clip_head_length [of "txt" "mx div 4"] clip_tail_length [of "txt" "mx div 2"]
      clip_head_length [of _ "mx - mx div 4 - mx div 2", unfolded budget] assms
    by (simp_all add: a_def b_def c_def)
  show ?thesis
  proof (cases "int (length txt) \<le> mx")
    case False
    have "\<not> mx - mx div 4 - mx div 2 < 0" using assms by simp
    then have "length (summarize_log exc txt mx)
        = 88 + length (show_nat (length txt)) + length a + length b
          + (if c = [] then 0 else 29 + length c)"
      using False assms unfolding summarize_log_def Let_def a_def [symmetric] b_def [symmetric]
      by (simp add: c_def [symmetric])
    then show ?thesis using parts by auto
  qed (use assms in \<open>simp add: summarize_log_def\<close>)
qed

end
