(* ===== verification/Perm_Filter.thy ===== *)
theory Perm_Filter
  imports Tool_Catalog_Facts
begin

text \<open>
  Permission profiles (\<open>internal/permission\<close>): the profile schema and its limits
  (\<open>profile.go\<close>), the tool filter (\<open>filter.go\<close>), the namespace check (\<open>namespace.go\<close>) and
  \<open>Apply\<close> (\<open>apply.go\<close>). The lemmas show that a profile only ever narrows: deny wins over allow,
  the filtered registry is the permitted part of the given one, and effective limits never exceed
  a configured one.
\<close>

section \<open>The profile\<close>

record ns_rule =
  ns_allow :: "string list"
  ns_deny :: "string list"

record tools_rule =
  tl_allow :: "string list"
  tl_deny :: "string list"

record masking =
  key_regex :: "string list"
  value_regex :: "string list"

record limits =
  max_log_lines :: int
  max_profile_seconds :: int
  max_tokens_per_session :: int
  max_usd_per_day :: real

record profile =
  p_name :: string
  p_description :: string
  p_contexts :: "string list"
  p_namespaces :: ns_rule
  p_tools :: tools_rule
  p_limits :: limits
  p_masking :: masking

definition effective_int :: "int \<Rightarrow> int \<Rightarrow> int" where
  "effective_int profile_val fallback =
     (if profile_val > 0
      then (if fallback > 0 \<and> fallback < profile_val then fallback else profile_val)
      else fallback)"

definition effective_log_lines :: "profile option \<Rightarrow> int \<Rightarrow> int" where
  "effective_log_lines p fallback =
     (case p of None \<Rightarrow> fallback | Some q \<Rightarrow> effective_int (max_log_lines (p_limits q)) fallback)"

definition effective_profile_seconds :: "profile option \<Rightarrow> int \<Rightarrow> int" where
  "effective_profile_seconds p fallback =
     (case p of None \<Rightarrow> fallback | Some q \<Rightarrow> effective_int (max_profile_seconds (p_limits q)) fallback)"

section \<open>Globs\<close>

definition match_glob :: "string \<Rightarrow> string \<Rightarrow> bool" where
  "match_glob pattern name =
     (if pattern = ''*'' then True
      else if has_suffix pattern ''*'' then has_prefix name (trim_suffix pattern ''*'')
      else pattern = name)"

fun match_any :: "string list \<Rightarrow> string \<Rightarrow> bool" where
  "match_any [] name = False"
| "match_any (p # ps) name = (if match_glob p name then True else match_any ps name)"

lemma match_glob_pattern:
  "match_glob p n \<longleftrightarrow> (if suffix ''*'' p then prefix (butlast p) n else n = p)"
  by (auto simp: match_glob_def has_suffix_def has_prefix_def trim_suffix_def butlast_conv_take)

interpretation perm_glob: glob_list match_any
  by unfold_locales (auto simp: match_glob_pattern suffix_def)

lemma perm_glob_is_tool_glob: "match_any ps n = matches_any n ps"
  by (rule perm_glob.matches_unique [OF tool_glob.glob_list_axioms])

section \<open>Tools and namespaces\<close>

definition tool_permitted :: "profile \<Rightarrow> string \<Rightarrow> bool" where
  "tool_permitted p name \<longleftrightarrow>
     \<not> match_any (tl_deny (p_tools p)) name \<and>
     (tl_allow (p_tools p) = [] \<or> match_any (tl_allow (p_tools p)) name)"

text \<open>The loop of \<open>FilterRegistry\<close>: a denied tool is skipped, a tool outside a non-empty allow list
  is skipped, any other is registered through \<open>MustRegister\<close>, name check included.\<close>

fun filter_loop :: "unicode \<Rightarrow> string list \<Rightarrow> string list \<Rightarrow> tool_registry \<Rightarrow> tool list
    \<Rightarrow> tool_panic + tool_registry" where
  "filter_loop u allow deny out [] = Inr out"
| "filter_loop u allow deny out (t # ts) =
     (if match_any deny (t_name t) then filter_loop u allow deny out ts
      else if allow \<noteq> [] \<and> \<not> match_any allow (t_name t) then filter_loop u allow deny out ts
      else (case must_register u out [t] of
              Inl p \<Rightarrow> Inl p
            | Inr out' \<Rightarrow> filter_loop u allow deny out' ts))"

definition filter_registry :: "unicode \<Rightarrow> tool_registry option \<Rightarrow> profile option
    \<Rightarrow> tool_panic + tool_registry option" where
  "filter_registry u reg p =
     (case reg of
        None \<Rightarrow> Inr None
      | Some r \<Rightarrow>
          (case p of
             None \<Rightarrow> Inr (Some r)
           | Some q \<Rightarrow>
               (let allow = tl_allow (p_tools q); deny = tl_deny (p_tools q) in
                if allow = [] \<and> deny = [] then Inr (Some r)
                else map_sum id Some (filter_loop u allow deny registry_new (list_tools r)))))"

datatype ns_error = NamespaceDenied | NamespaceNotAllowed

definition match_namespace :: "profile option \<Rightarrow> string \<Rightarrow> ns_error option" where
  "match_namespace p ns =
     (case p of
        None \<Rightarrow> None
      | Some q \<Rightarrow>
          if ns = [] then None
          else if match_any (ns_deny (p_namespaces q)) ns then Some NamespaceDenied
          else if ns_allow (p_namespaces q) \<noteq> [] \<and> \<not> match_any (ns_allow (p_namespaces q)) ns
            then Some NamespaceNotAllowed
          else None)"

text \<open>\<open>Apply\<close>: the second result is the namespace check handed to \<open>installNS\<close>, if it was called.\<close>

definition apply_profile :: "unicode \<Rightarrow> tool_registry option \<Rightarrow> profile option \<Rightarrow> bool
    \<Rightarrow> (tool_panic + tool_registry option) \<times> (string \<Rightarrow> ns_error option) option" where
  "apply_profile u reg p has_installer =
     (case p of
        None \<Rightarrow> (Inr reg, None)
      | Some q \<Rightarrow>
          (filter_registry u reg p,
           if has_installer then Some (\<lambda>ns. match_namespace (Some q) ns) else None))"

section \<open>Facts\<close>

lemma effective_int_bounds:
  "(0 < p \<longrightarrow> effective_int p f \<le> p) \<and> (0 < f \<longrightarrow> effective_int p f \<le> f) \<and>
   (effective_int p f = p \<or> effective_int p f = f)"
  by (auto simp: effective_int_def)

lemma filter_loop_ok:
  assumes "catalog_inv u out" "\<forall>t \<in> set ts. assert_read_only_name u (t_name t) = None"
    and "distinct (map t_name ts)"
    and "\<forall>t \<in> set ts. regmap_get (r_items out) (t_name t) = None"
  shows "\<exists>out'. filter_loop u allow deny out ts = Inr out' \<and> catalog_inv u out' \<and>
    set (list_tools out') = set (list_tools out) \<union>
      {t \<in> set ts. \<not> match_any deny (t_name t) \<and> (allow = [] \<or> match_any allow (t_name t))}"
  using assms
proof (induction ts arbitrary: out)
  case Nil
  then show ?case by simp
next
  case (Cons t ts)
  show ?case
  proof (cases "match_any deny (t_name t) \<or> (allow \<noteq> [] \<and> \<not> match_any allow (t_name t))")
    case True
    then have "filter_loop u allow deny out (t # ts) = filter_loop u allow deny out ts" by auto
    moreover have "{s \<in> set (t # ts). \<not> match_any deny (t_name s) \<and> (allow = [] \<or> match_any allow (t_name s))}
        = {s \<in> set ts. \<not> match_any deny (t_name s) \<and> (allow = [] \<or> match_any allow (t_name s))}"
      using True by auto
    ultimately show ?thesis using Cons.IH [of out] Cons.prems by simp
  next
    case False
    let ?out = "out\<lparr>r_items := regmap_replace (r_items out) t\<rparr>"
    have nm: "name_of (r_items out) = t_name" using Cons.prems(1) by (simp add: catalog_inv_def)
    have reg: "register_tool u out t = Inr ?out"
      using Cons.prems(2,4) nm by (simp add: register_tool_def items_must_register_Inr)
    then have loop: "filter_loop u allow deny out (t # ts) = filter_loop u allow deny ?out ts"
      using False by auto
    have inv: "catalog_inv u ?out" using Cons.prems(1) reg by (rule catalog_register)
    have fresh: "\<forall>s \<in> set ts. regmap_get (r_items ?out) (t_name s) = None"
      using Cons.prems(3,4) nm by (auto simp: regmap_get_replace image_iff)
    have lst: "set (list_tools ?out) = insert t (set (list_tools out))"
      using Cons.prems(1,4) by (intro set_list_replace) auto
    obtain out' where "filter_loop u allow deny ?out ts = Inr out'" "catalog_inv u out'"
      "set (list_tools out') = set (list_tools ?out) \<union>
        {s \<in> set ts. \<not> match_any deny (t_name s) \<and> (allow = [] \<or> match_any allow (t_name s))}"
      using Cons.IH [OF inv _ _ fresh] Cons.prems(2,3) by auto
    then show ?thesis using loop lst False by auto
  qed
qed

text \<open>A registry is its sorted list of tools, so the set of tools fixes the list.\<close>

lemma list_tools_eqI:
  assumes "catalog_inv u r" "sorted (map t_name ts)" "distinct (map t_name ts)"
    and "set ts = set (list_tools r)"
  shows "list_tools r = ts"
  using assms list_tools_names [OF assms(1)]
  by (intro map_sorted_distinct_set_unique [of t_name]) (auto simp: distinct_map)

lemma registry_new_empty: "list_tools registry_new = []" "regmap_get (r_items registry_new) k = None"
  by (simp_all add: registry_new_def list_tools_def regmap_all_def gm_keys_def map_filter_def regmap_get_def)

lemma filter_registry_ok:
  assumes inv: "catalog_inv u r"
  shows "\<exists>out. filter_registry u (Some r) (Some p) = Inr (Some out) \<and> catalog_inv u out \<and>
    list_tools out = filter (\<lambda>t. tool_permitted p (t_name t)) (list_tools r)"
proof (cases "tl_allow (p_tools p) = [] \<and> tl_deny (p_tools p) = []")
  case True
  then show ?thesis using inv by (auto simp: filter_registry_def tool_permitted_def)
next
  case False
  let ?allow = "tl_allow (p_tools p)" and ?deny = "tl_deny (p_tools p)"
  obtain out where out: "filter_loop u ?allow ?deny registry_new (list_tools r) = Inr out"
    "catalog_inv u out"
    "set (list_tools out) = {t \<in> set (list_tools r). tool_permitted p (t_name t)}"
    using filter_loop_ok [OF catalog_new, of "list_tools r" u ?allow ?deny]
      catalog_invD(5) [OF inv] list_tools_names [OF inv]
    by (auto simp: registry_new_empty tool_permitted_def)
  have "list_tools out = filter (\<lambda>t. tool_permitted p (t_name t)) (list_tools r)"
    using list_tools_names [OF inv] out(3)
    by (intro list_tools_eqI [OF out(2)]) (auto simp: sorted_filter distinct_map_filter)
  then show ?thesis using False out by (auto simp: filter_registry_def Let_def)
qed

end
