(* ===== verification/Perm_Mask.thy ===== *)
theory Perm_Mask
  imports Perm_Filter
begin

text \<open>
  Redaction (\<open>internal/permission/mask.go\<close>, \<open>maskhistory.go\<close>). The regular-expression engine and
  the JSON codec are parameters; the code's own part is which patterns are compiled, in which order
  they are applied, and the recursive walk over a document. \<open>MaskHistory\<close> is modelled over an
  explicit store of tool-call slices, because its contract (the input is never mutated) is about
  aliasing.
\<close>

section \<open>Parameters\<close>

datatype json =
    JNull
  | JBool bool
  | JNum string
  | JStr string
  | JArr "json list"
  | JObj "(string \<times> json) list"

record 're codec =
  re_compile :: "string \<Rightarrow> 're option"
  re_match :: "'re \<Rightarrow> string \<Rightarrow> bool"
  re_replace :: "'re \<Rightarrow> string \<Rightarrow> string \<Rightarrow> string"
  json_unmarshal :: "string \<Rightarrow> json option"
  json_marshal :: "json \<Rightarrow> string option"

section \<open>The masker\<close>

definition redacted :: string where
  "redacted = ''[REDACTED]''"

record 're masker =
  key_res :: "'re list"
  value_res :: "'re list"

datatype mask_error = BadKeyRegex string | BadValueRegex string | ReencodeFailed

fun compile_all :: "'re codec \<Rightarrow> (string \<Rightarrow> mask_error) \<Rightarrow> (string \<Rightarrow> string) \<Rightarrow> string list
    \<Rightarrow> mask_error + 're list" where
  "compile_all C err pre [] = Inr []"
| "compile_all C err pre (p # ps) =
     (case re_compile C (pre p) of
        None \<Rightarrow> Inl (err p)
      | Some re \<Rightarrow>
          (case compile_all C err pre ps of Inl e \<Rightarrow> Inl e | Inr res \<Rightarrow> Inr (re # res)))"

definition new_masker :: "'re codec \<Rightarrow> profile option \<Rightarrow> mask_error + 're masker option" where
  "new_masker C p =
     (case p of
        None \<Rightarrow> Inr None
      | Some q \<Rightarrow>
          (let m = p_masking q in
           if key_regex m = [] \<and> value_regex m = [] then Inr None
           else (case compile_all C BadKeyRegex (\<lambda>p. ''(?i)'' @ p) (key_regex m) of
                   Inl e \<Rightarrow> Inl e
                 | Inr ks \<Rightarrow>
                     (case compile_all C BadValueRegex (\<lambda>p. p) (value_regex m) of
                        Inl e \<Rightarrow> Inl e
                      | Inr vs \<Rightarrow> Inr (Some \<lparr>key_res = ks, value_res = vs\<rparr>)))))"

definition mask_string :: "'re codec \<Rightarrow> 're masker option \<Rightarrow> string \<Rightarrow> string" where
  "mask_string C m s =
     (case m of None \<Rightarrow> s | Some k \<Rightarrow> fold (\<lambda>re s. re_replace C re s redacted) (value_res k) s)"

definition mask_bytes :: "'re codec \<Rightarrow> 're masker option \<Rightarrow> string \<Rightarrow> string" where
  "mask_bytes C m b =
     (case m of None \<Rightarrow> b | Some k \<Rightarrow> fold (\<lambda>re b. re_replace C re b redacted) (value_res k) b)"

definition key_matches :: "'re codec \<Rightarrow> 're masker \<Rightarrow> string \<Rightarrow> bool" where
  "key_matches C m key \<longleftrightarrow> (\<exists>re \<in> set (key_res m). re_match C re key)"

fun mask_value :: "'re codec \<Rightarrow> 're masker \<Rightarrow> string \<Rightarrow> json \<Rightarrow> json" where
  "mask_value C m key v =
     (if key \<noteq> [] \<and> key_matches C m key then JStr redacted
      else (case v of
              JObj fs \<Rightarrow> JObj (map (\<lambda>(k, child). (k, mask_value C m k child)) fs)
            | JArr vs \<Rightarrow> JArr (map (\<lambda>elem. mask_value C m [] elem) vs)
            | JStr s \<Rightarrow> JStr (mask_string C (Some m) s)
            | _ \<Rightarrow> v))"

declare mask_value.simps [simp del]

definition mask_json :: "'re codec \<Rightarrow> 're masker option \<Rightarrow> string \<Rightarrow> string \<times> mask_error option" where
  "mask_json C m b =
     (case m of
        None \<Rightarrow> (b, None)
      | Some k \<Rightarrow>
          (case json_unmarshal C b of
             None \<Rightarrow> (b, None)
           | Some doc \<Rightarrow>
               (case json_marshal C (mask_value C k [] doc) of
                  None \<Rightarrow> (b, Some ReencodeFailed)
                | Some out \<Rightarrow> (out, None))))"

definition mask_map :: "'re codec \<Rightarrow> 're masker option \<Rightarrow> (string \<times> json) list \<Rightarrow> (string \<times> json) list" where
  "mask_map C m v =
     (case m of None \<Rightarrow> v | Some k \<Rightarrow> map (\<lambda>(key, val). (key, mask_value C k key val)) v)"

section \<open>The default patterns\<close>

abbreviation bs :: string where "bs \<equiv> [CHR 0x5C]"

definition default_masking :: masking where
  "default_masking =
    \<lparr>key_regex =
       [''password'', ''passwd'', ''secret'', ''token'', ''api[_-]?key'', ''private[_-]?key'',
        ''access[_-]?key'', ''client[_-]?secret'', ''routing[_-]?key'', ''pagerduty'',
        ''credential'', ''auth''],
     value_regex =
       [''AKIA[0-9A-Z]{16}'',
        ''ASIA[0-9A-Z]{16}'',
        ''eyJ[A-Za-z0-9_=-]{20,}'' @ bs @ ''.'',
        ''gh[opsur]_[A-Za-z0-9]{36,}'',
        ''github_pat_[A-Za-z0-9_]{22,}'',
        ''glpat-[A-Za-z0-9_-]{20,}'',
        ''sk-[A-Za-z0-9_-]{20,}'',
        ''AIza[0-9A-Za-z_-]{35}'',
        ''xox[baprse]-[0-9A-Za-z-]{10,}'',
        ''xapp-[0-9]-[0-9A-Za-z-]{10,}'',
        ''[0-9]{17,20}'' @ bs @ ''.[A-Za-z0-9_-]{6}'' @ bs @ ''.[A-Za-z0-9_-]{20,}'',
        ''[0-9]{6,}:[A-Za-z0-9_-]{20,}'',
        ''(?s)-----BEGIN [A-Z0-9 ]*PRIVATE KEY-----.*?-----END [A-Z0-9 ]*PRIVATE KEY-----'',
        ''(?i)bearer'' @ bs @ ''s+[0-9A-Za-z._~+/=-]{10,}'',
        ''(?i)[a-z][a-z0-9+.-]*://[^/'' @ bs @ ''s:@]+:[^/'' @ bs @ ''s@]+@'']\<rparr>"

definition default_profile :: profile where
  "default_profile =
    \<lparr>p_name = [], p_description = [], p_contexts = [], p_namespaces = \<lparr>ns_allow = [], ns_deny = []\<rparr>,
     p_tools = \<lparr>tl_allow = [], tl_deny = []\<rparr>,
     p_limits = \<lparr>max_log_lines = 0, max_profile_seconds = 0, max_tokens_per_session = 0, max_usd_per_day = 0\<rparr>,
     p_masking = default_masking\<rparr>"

text \<open>\<open>MaskerOrDefault\<close>: the error of the second \<open>NewMasker\<close> is discarded, so a pattern that does
  not compile would leave a nil masker.\<close>

definition masker_or_default :: "'re codec \<Rightarrow> profile option \<Rightarrow> 're masker option" where
  "masker_or_default C p =
     (case new_masker C p of
        Inr (Some m) \<Rightarrow> Some m
      | _ \<Rightarrow> (case new_masker C (Some default_profile) of Inr m \<Rightarrow> m | Inl _ \<Rightarrow> None))"

section \<open>Masking a conversation\<close>

text \<open>A message holds a reference to its slice of tool calls.\<close>

record msg_ref =
  mr_role :: string
  mr_content :: string
  mr_calls :: nat
  mr_call_id :: string

type_synonym call_store = "tool_call list list"

definition msg_view :: "call_store \<Rightarrow> msg_ref \<Rightarrow> message" where
  "msg_view h m =
     \<lparr>m_role = mr_role m, m_content = mr_content m, m_calls = h ! mr_calls m, m_call_id = mr_call_id m\<rparr>"

fun clone_history :: "call_store \<Rightarrow> msg_ref list \<Rightarrow> call_store \<times> msg_ref list" where
  "clone_history h [] = (h, [])"
| "clone_history h (m # ms) =
     (if h ! mr_calls m \<noteq> []
      then (let (h', out) = clone_history (h @ [h ! mr_calls m]) ms
            in (h', m\<lparr>mr_calls := length h\<rparr> # out))
      else (let (h', out) = clone_history h ms in (h', m # out)))"

definition mask_call :: "'re codec \<Rightarrow> 're masker option \<Rightarrow> tool_call \<Rightarrow> tool_call" where
  "mask_call C k tc =
     (case mask_json C k (tc_args tc) of (masked, None) \<Rightarrow> tc\<lparr>tc_args := masked\<rparr> | _ \<Rightarrow> tc)"

definition mask_content :: "'re codec \<Rightarrow> 're masker option \<Rightarrow> string \<Rightarrow> string \<Rightarrow> string" where
  "mask_content C k role content =
     mask_string C k
       (if role = RoleTool
        then (case mask_json C k content of (masked, None) \<Rightarrow> masked | _ \<Rightarrow> content)
        else content)"

fun mask_pass :: "'re codec \<Rightarrow> 're masker option \<Rightarrow> call_store \<Rightarrow> msg_ref list \<Rightarrow> call_store \<times> msg_ref list" where
  "mask_pass C k h [] = (h, [])"
| "mask_pass C k h (m # ms) =
     (let m' = m\<lparr>mr_content := mask_content C k (mr_role m) (mr_content m)\<rparr>;
          h' = (if h ! mr_calls m = [] then h
                else h[mr_calls m := map (mask_call C k) (h ! mr_calls m)]);
          (h'', out) = mask_pass C k h' ms
      in (h'', m' # out))"

definition mask_history :: "'re codec \<Rightarrow> profile option \<Rightarrow> call_store \<Rightarrow> msg_ref list
    \<Rightarrow> call_store \<times> msg_ref list" where
  "mask_history C p h msgs =
     (let k = masker_or_default C p; (h1, out) = clone_history h msgs in mask_pass C k h1 out)"

text \<open>What the result should be, on message values.\<close>

definition mask_message :: "'re codec \<Rightarrow> 're masker option \<Rightarrow> message \<Rightarrow> message" where
  "mask_message C k m =
     m\<lparr>m_content := mask_content C k (m_role m) (m_content m),
       m_calls := map (mask_call C k) (m_calls m)\<rparr>"

section \<open>The walk redacts every named field\<close>

text \<open>In a clean document every field whose key matches holds the placeholder.\<close>

fun keys_clean :: "'re codec \<Rightarrow> 're masker \<Rightarrow> json \<Rightarrow> bool" where
  "keys_clean C m (JObj fs) \<longleftrightarrow>
     (\<forall>(k, v) \<in> set fs. (k \<noteq> [] \<and> key_matches C m k \<longrightarrow> v = JStr redacted) \<and> keys_clean C m v)"
| "keys_clean C m (JArr vs) \<longleftrightarrow> (\<forall>v \<in> set vs. keys_clean C m v)"
| "keys_clean C m _ \<longleftrightarrow> True"

text \<open>The walk changes string leaves and matched fields only: same keys, same nesting.\<close>

fun same_shape :: "'re codec \<Rightarrow> 're masker \<Rightarrow> string \<Rightarrow> json \<Rightarrow> json \<Rightarrow> bool" where
  "same_shape C m key v w \<longleftrightarrow>
     (key \<noteq> [] \<and> key_matches C m key \<and> w = JStr redacted) \<or>
     (case (v, w) of
        (JObj fs, JObj gs) \<Rightarrow> list_all2 (\<lambda>(k, a) (k', b). k = k' \<and> same_shape C m k a b) fs gs
      | (JArr vs, JArr ws) \<Rightarrow> list_all2 (same_shape C m []) vs ws
      | (JStr s, JStr t) \<Rightarrow> t = mask_string C (Some m) s
      | _ \<Rightarrow> v = w)"

lemma mask_value_clean: "keys_clean C m (mask_value C m key v)"
proof (induction C m key v rule: mask_value.induct)
  case (1 C m key v)
  show ?case
  proof (cases "key \<noteq> [] \<and> key_matches C m key")
    case True
    then show ?thesis by (simp add: mask_value.simps [of C m key v])
  next
    case no: False
    show ?thesis
    proof (cases v)
      case (JObj fs)
      have "keys_clean C m (mask_value C m k w)" if "(k, w) \<in> set fs" for k w
        using 1(2) no JObj that by fastforce
      moreover have "mask_value C m k w = JStr redacted" if "k \<noteq> []" "key_matches C m k" for k w
        using that by (subst mask_value.simps) simp
      ultimately show ?thesis using no JObj by (subst mask_value.simps) auto
    next
      case (JArr vs)
      have "keys_clean C m (mask_value C m [] w)" if "w \<in> set vs" for w
        using 1(1) no JArr that by fastforce
      then show ?thesis using no JArr by (subst mask_value.simps) auto
    qed (use no in \<open>(subst mask_value.simps, simp)+\<close>)
  qed
qed

lemma mask_value_shape: "same_shape C m key v (mask_value C m key v)"
proof (induction C m key v rule: mask_value.induct)
  case (1 C m key v)
  show ?case
  proof (cases "key \<noteq> [] \<and> key_matches C m key")
    case True
    then show ?thesis by (simp add: mask_value.simps [of C m key v])
  next
    case no: False
    show ?thesis
    proof (cases v)
      case (JObj fs)
      have "same_shape C m k w (mask_value C m k w)" if "(k, w) \<in> set fs" for k w
        using 1(2) no JObj that by fastforce
      then show ?thesis using no JObj
        by (subst mask_value.simps) (auto simp: list_all2_map2 list.rel_refl_strong intro!: list.rel_refl_strong)
    next
      case (JArr vs)
      have "same_shape C m [] w (mask_value C m [] w)" if "w \<in> set vs" for w
        using 1(1) no JArr that by fastforce
      then show ?thesis using no JArr
        by (subst mask_value.simps) (auto simp: list_all2_map2 intro!: list.rel_refl_strong)
    qed (use no in \<open>(subst mask_value.simps, simp)+\<close>)
  qed
qed

text \<open>Masking a history refines masking each message value, and nothing the caller can reach
  changes: after cloning, a nonempty slice of the output lives at its own address above the input
  store.\<close>

definition refs_ok :: "call_store \<Rightarrow> msg_ref list \<Rightarrow> bool" where
  "refs_ok h ms \<longleftrightarrow> list_all (\<lambda>m. mr_calls m < length h) ms"

lemma refs_ok_simps [simp]:
  "refs_ok h []"
  "refs_ok h (m # ms) \<longleftrightarrow> mr_calls m < length h \<and> refs_ok h ms"
  by (simp_all add: refs_ok_def)

lemma refs_ok_append: "refs_ok h ms \<Longrightarrow> refs_ok (h @ h') ms"
  by (induction ms) auto

lemma msg_view_append: "mr_calls m < length h \<Longrightarrow> msg_view (h @ h') m = msg_view h m"
  by (simp add: msg_view_def nth_append)

lemma map_msg_view_append: "refs_ok h ms \<Longrightarrow> map (msg_view (h @ h')) ms = map (msg_view h) ms"
  by (induction ms) (auto simp: msg_view_append)

lemma mask_json_none [simp]: "mask_json C None b = (b, None)"
  by (simp add: mask_json_def)

fun fresh_from :: "nat \<Rightarrow> call_store \<Rightarrow> msg_ref list \<Rightarrow> bool" where
  "fresh_from n h [] \<longleftrightarrow> True"
| "fresh_from n h (m # ms) \<longleftrightarrow>
     mr_calls m < length h \<and>
     (h ! mr_calls m = [] \<or> n \<le> mr_calls m \<and> mr_calls m \<notin> mr_calls ` set ms) \<and> fresh_from n h ms"

lemma clone_history_extends: "\<exists>ext. fst (clone_history h ms) = h @ ext"
proof (induction ms arbitrary: h)
  case (Cons m ms)
  show ?case
    using Cons [of h] Cons [of "h @ [h ! mr_calls m]"] by (auto split: prod.splits)
qed simp

lemma clone_history_view:
  "refs_ok h ms \<Longrightarrow> clone_history h ms = (h', out) \<Longrightarrow> map (msg_view h') out = map (msg_view h) ms"
proof (induction ms arbitrary: h h' out)
  case (Cons m ms)
  show ?case
  proof (cases "h ! mr_calls m = []")
    case True
    obtain h1 o1 where c: "clone_history h ms = (h1, o1)" by fastforce
    then obtain ext where "h1 = h @ ext" using clone_history_extends [of h ms] by auto
    then show ?thesis using Cons True c by (auto simp: msg_view_append)
  next
    case False
    let ?h = "h @ [h ! mr_calls m]"
    obtain h1 o1 where c: "clone_history ?h ms = (h1, o1)" by fastforce
    then obtain ext where e: "h1 = ?h @ ext" using clone_history_extends [of ?h ms] by auto
    have "map (msg_view h1) o1 = map (msg_view h) ms"
      using Cons.IH [OF _ c] Cons.prems by (simp add: refs_ok_append map_msg_view_append)
    moreover have "msg_view h1 (m\<lparr>mr_calls := length h\<rparr>) = msg_view h m"
      using Cons.prems by (simp add: e msg_view_def nth_append)
    ultimately show ?thesis using Cons.prems False c by auto
  qed
qed simp

lemma clone_history_refs:
  assumes "refs_ok h ms" "clone_history h ms = (h', out)"
  shows "\<forall>r \<in> mr_calls ` set out. r < length h' \<and> (h' ! r \<noteq> [] \<longrightarrow> length h \<le> r)"
  using assms
proof (induction ms arbitrary: h h' out)
  case (Cons m ms)
  show ?case
  proof (cases "h ! mr_calls m = []")
    case True
    obtain h1 o1 where c: "clone_history h ms = (h1, o1)" by fastforce
    then obtain ext where "h1 = h @ ext" using clone_history_extends [of h ms] by auto
    then show ?thesis using Cons.IH [OF _ c] Cons.prems True c by (auto simp: nth_append)
  next
    case False
    let ?h = "h @ [h ! mr_calls m]"
    obtain h1 o1 where c: "clone_history ?h ms = (h1, o1)" by fastforce
    then obtain ext where "h1 = ?h @ ext" using clone_history_extends [of ?h ms] by auto
    moreover have "\<forall>r \<in> mr_calls ` set o1. r < length h1 \<and> (h1 ! r \<noteq> [] \<longrightarrow> length ?h \<le> r)"
      using Cons.IH [OF _ c] Cons.prems by (simp add: refs_ok_append)
    ultimately show ?thesis using Cons.prems False c by fastforce
  qed
qed simp

lemma clone_history_fresh:
  assumes "refs_ok h ms" "clone_history h ms = (h', out)"
  shows "fresh_from (length h) h' out"
  using assms
proof (induction ms arbitrary: h h' out)
  case (Cons m ms)
  have mono: "fresh_from n g xs \<Longrightarrow> n' \<le> n \<Longrightarrow> fresh_from n' g xs" for n n' g xs
    by (induction xs) auto
  show ?case
  proof (cases "h ! mr_calls m = []")
    case True
    obtain h1 o1 where c: "clone_history h ms = (h1, o1)" by fastforce
    then obtain ext where "h1 = h @ ext" using clone_history_extends [of h ms] by auto
    then show ?thesis using Cons.IH [OF _ c] Cons.prems True c by (auto simp: nth_append)
  next
    case False
    let ?h = "h @ [h ! mr_calls m]"
    obtain h1 o1 where c: "clone_history ?h ms = (h1, o1)" by fastforce
    then obtain ext where e: "h1 = ?h @ ext" using clone_history_extends [of ?h ms] by auto
    have ok: "refs_ok ?h ms" using Cons.prems by (simp add: refs_ok_append)
    have fr: "fresh_from (length h) h1 o1"
      using Cons.IH [OF ok c] by (rule mono) simp
    have "length h \<notin> mr_calls ` set o1"
      using clone_history_refs [OF ok c] False by (auto simp: e nth_append)
    then show ?thesis using fr Cons.prems False c e by auto
  qed
qed simp

lemma mask_pass_frame:
  "h ! a = [] \<or> a \<notin> mr_calls ` set ms \<Longrightarrow> fst (mask_pass C k h ms) ! a = h ! a"
proof (induction ms arbitrary: h)
  case (Cons m ms)
  let ?h = "if h ! mr_calls m = [] then h else h[mr_calls m := map (mask_call C k) (h ! mr_calls m)]"
  have "?h ! a = h ! a" using Cons.prems by (cases "a = mr_calls m") auto
  moreover from this have "fst (mask_pass C k ?h ms) ! a = ?h ! a"
    using Cons.prems by (intro Cons.IH) auto
  ultimately show ?case by (auto simp: Let_def split: prod.splits)
qed simp

lemma mask_pass_view:
  "fresh_from n h ms \<Longrightarrow> mask_pass C k h ms = (h', out) \<Longrightarrow>
     map (msg_view h') out = map (\<lambda>m. mask_message C k (msg_view h m)) ms"
proof (induction ms arbitrary: h h' out)
  case (Cons m ms)
  let ?a = "mr_calls m"
  define g where "g = (if h ! ?a = [] then h else h[?a := map (mask_call C k) (h ! ?a)])"
  obtain h1 o1 where c: "mask_pass C k g ms = (h1, o1)" by fastforce
  have len: "length g = length h" by (simp add: g_def)
  have same: "\<And>r. r \<in> mr_calls ` set ms \<Longrightarrow> g ! r = h ! r"
    using Cons.prems(1) by (auto simp: g_def nth_list_update)
  have fr: "fresh_from n g xs" if "fresh_from n h xs" "set xs \<subseteq> set ms" for xs
    using that by (induction xs) (auto simp: len same)
  have ih: "map (msg_view h1) o1 = map (\<lambda>m. mask_message C k (msg_view g m)) ms"
    using Cons.IH [OF _ c] fr [of ms] Cons.prems(1) by simp
  have rest: "map (\<lambda>m. mask_message C k (msg_view g m)) ms = map (\<lambda>m. mask_message C k (msg_view h m)) ms"
    using same by (simp add: msg_view_def)
  have ga: "g ! ?a = map (mask_call C k) (h ! ?a)"
    using Cons.prems(1) by (auto simp: g_def)
  have "h1 ! ?a = g ! ?a"
    using mask_pass_frame [of g ?a ms C k] Cons.prems(1) c ga by auto
  then have "msg_view h1 (m\<lparr>mr_content := mask_content C k (mr_role m) (mr_content m)\<rparr>)
      = mask_message C k (msg_view h m)"
    by (simp add: msg_view_def mask_message_def ga)
  moreover have "h' = h1"
    "out = m\<lparr>mr_content := mask_content C k (mr_role m) (mr_content m)\<rparr> # o1"
    using Cons.prems(2) c by (simp_all add: Let_def g_def [symmetric])
  ultimately show ?case using ih rest by simp
qed simp

lemma mask_pass_length: "length (fst (mask_pass C k h ms)) = length h"
  by (induction ms arbitrary: h) (auto simp: Let_def case_prod_unfold)

lemma mask_pass_refs: "map mr_calls (snd (mask_pass C k h ms)) = map mr_calls ms"
  by (induction ms arbitrary: h) (simp_all add: Let_def case_prod_unfold)

lemma fresh_from_low: "fresh_from n h ms \<Longrightarrow> a < n \<Longrightarrow> h ! a = [] \<or> a \<notin> mr_calls ` set ms"
  by (induction ms) auto

lemma default_masker_some:
  "\<forall>p. re_compile C p \<noteq> None \<Longrightarrow> new_masker C (Some default_profile) \<noteq> Inr None"
  by (simp add: new_masker_def default_profile_def default_masking_def Let_def split: sum.splits option.splits)

lemma mask_history_refines:
  assumes "refs_ok h ms"
    and "mask_history C p h ms = (h', out)"
  shows "map (msg_view h') out = map (mask_message C (masker_or_default C p)) (map (msg_view h) ms)"
    and "a < length h \<Longrightarrow> h' ! a = h ! a"
proof -
  let ?k = "masker_or_default C p"
  obtain h1 o1 where c: "clone_history h ms = (h1, o1)" by fastforce
  then have p: "mask_pass C ?k h1 o1 = (h', out)" using assms(2) by (simp add: mask_history_def)
  have fr: "fresh_from (length h) h1 o1" by (rule clone_history_fresh [OF assms(1) c])
  show "map (msg_view h') out = map (mask_message C ?k) (map (msg_view h) ms)"
    unfolding mask_pass_view [OF fr p] clone_history_view [OF assms(1) c, symmetric] by simp
  show "h' ! a = h ! a" if "a < length h"
  proof -
    have "h' ! a = h1 ! a"
      using mask_pass_frame [OF fresh_from_low [OF fr that], of C ?k] p by simp
    also have "\<dots> = h ! a"
      using clone_history_extends [of h ms] c that by (auto simp: nth_append)
    finally show ?thesis .
  qed
qed

end
