(* ===== verification/Agent_Hooks.thy ===== *)
theory Agent_Hooks
  imports Agent_Text Perm_Mask
begin

text \<open>
  The policy hooks of the agent loop (\<open>internal/core/agent/hook*.go\<close>): duplicate-call detection,
  the cost guard, the argument limits, the log summary, masking and approval, each with the state
  it keeps and its three active methods. What the hooks call outside the repository (clock, hash,
  regular expressions, JSON) is gathered in two parameter records; the approver and the registry
  getter are functions of the environment.
\<close>

section \<open>Parameters\<close>

record 're agent_lib =
  al_fmt :: gofmt
  al_sha :: "string \<Rightarrow> string"
  al_limit_args :: "string \<Rightarrow> (int \<times> int) option"
  al_exception_line :: "string \<Rightarrow> bool"
  al_codec :: "'re codec"

text \<open>The environment acts on a world of any type; a registry is an address of the registry store,
  because \<open>ToolsFor\<close> writes through the pointer the approval hook also holds. The skill provider
  returns its prompt and its allowed tools.\<close>

record 'w env =
  ev_now :: "'w \<Rightarrow> gotime \<times> 'w"
  ev_registry :: "'w \<Rightarrow> nat option \<times> 'w"
  ev_skill :: "'w \<Rightarrow> (go_err + (string \<times> string list)) \<times> 'w"
  ev_approve :: "tool_call \<Rightarrow> 'w \<Rightarrow> (bool \<times> go_err option) \<times> 'w"
  ev_stream :: "request \<Rightarrow> 'w \<Rightarrow> (go_err + chunk list) \<times> 'w"
  ev_tool :: "string \<Rightarrow> string \<Rightarrow> 'w \<Rightarrow> (observation \<times> go_err option) \<times> 'w"

text \<open>What happens, in order. \<open>EvAsk\<close> and \<open>EvRun\<close> record the two calls out of the program a policy
  is about; the others are the calls on the sink.\<close>

datatype event =
    EvToken string
  | EvUsage usage
  | EvBegin string string
  | EvEnd string "go_err option"
  | EvAsk tool_call bool
  | EvRun string string

record 'w rt =
  rt_world :: 'w
  rt_regs :: "tool_registry list"
  rt_trace :: "event list"

definition emit :: "event \<Rightarrow> 'w rt \<Rightarrow> 'w rt" where
  "emit e s = s\<lparr>rt_trace := rt_trace s @ [e]\<rparr>"

definition now :: "'w env \<Rightarrow> 'w rt \<Rightarrow> gotime \<times> 'w rt" where
  "now E s = (let (t, w) = ev_now E (rt_world s) in (t, s\<lparr>rt_world := w\<rparr>))"

section \<open>The hooks\<close>

record cost_guard =
  cg_max_tokens :: int
  cg_max_usd :: real
  cg_in :: int
  cg_out :: int
  cg_usd :: real
  cg_day :: gotime

datatype reg_source = StaticReg nat | RegistryFn

datatype 're hook =
    DupCall string nat
  | CostGuard cost_guard
  | LimitGuard int int
  | LogSummary int
  | Masking "'re masker option"
  | Approval reg_source

text \<open>Midnight of the UTC day of an instant given in nanoseconds since year 1.\<close>

definition day_ns :: int where
  "day_ns = 86400000000000"

definition utc_day_start :: "gotime \<Rightarrow> gotime" where
  "utc_day_start t = t - t mod day_ns"

definition new_cost_guard :: "int \<Rightarrow> real \<Rightarrow> gotime \<Rightarrow> cost_guard" where
  "new_cost_guard max_tok max_usd t =
     \<lparr>cg_max_tokens = max_tok, cg_max_usd = max_usd, cg_in = 0, cg_out = 0, cg_usd = 0,
      cg_day = utc_day_start t\<rparr>"

definition cost_on_usage :: "gotime \<Rightarrow> usage \<Rightarrow> cost_guard \<Rightarrow> cost_guard \<times> go_err option" where
  "cost_on_usage t u h =
     (let today = utc_day_start t;
          h1 = (if today > cg_day h then h\<lparr>cg_usd := 0, cg_day := today\<rparr> else h);
          h2 = h1\<lparr>cg_in := cg_in h1 + in_tokens u, cg_out := cg_out h1 + out_tokens u,
                  cg_usd := cg_usd h1 + cost_usd u\<rparr>;
          total = cg_in h2 + cg_out h2
      in (h2,
          if cg_max_tokens h2 > 0 \<and> total > cg_max_tokens h2
          then Some (ErrTokenBudgetExceeded total (cg_max_tokens h2))
          else if cg_max_usd h2 > 0 \<and> cg_usd h2 > cg_max_usd h2
          then Some (ErrUSDBudgetExceeded (cg_usd h2) (cg_max_usd h2))
          else None))"

definition cost_totals :: "cost_guard \<Rightarrow> int \<times> int \<times> real" where
  "cost_totals h = (cg_in h, cg_out h, cg_usd h)"

definition hash_call :: "(string \<Rightarrow> string) \<Rightarrow> string \<Rightarrow> string \<Rightarrow> string" where
  "hash_call sha name args = sha (name @ args)"

definition dup_before :: "(string \<Rightarrow> string) \<Rightarrow> tool_call \<Rightarrow> string \<times> nat \<Rightarrow> (string \<times> nat) \<times> go_err option" where
  "dup_before sha call h =
     (let (prev, count) = h; hash = hash_call sha (tc_name call) (tc_args call) in
      if hash = prev
      then ((prev, count + 1), if count + 1 \<ge> 3 then Some ErrDuplicateCall else None)
      else ((hash, 1), None))"

definition is_log_tool :: "string \<Rightarrow> bool" where
  "is_log_tool name = has_prefix name ''log.''"

definition profile_tools :: "string list" where
  "profile_tools =
    [''jvm.async_profile'', ''perf.linux_perf_record'', ''perf.v8_inspector_cpu_profile'',
     ''perf.go_pprof_cpu'', ''py.spy_top_snapshot'', ''py.spy_dump'', ''ebpf.biolatency'',
     ''ebpf.tcprtt'', ''ebpf.tcptop'', ''ebpf.execsnoop'', ''ebpf.bpftrace_oneliner'']"

definition is_profile_tool :: "string \<Rightarrow> bool" where
  "is_profile_tool name \<longleftrightarrow> name \<in> set profile_tools"

definition limit_before :: "(string \<Rightarrow> (int \<times> int) option) \<Rightarrow> int \<Rightarrow> int \<Rightarrow> tool_call \<Rightarrow> go_err option" where
  "limit_before parse max_log max_prof call =
     (if max_log = 0 \<and> max_prof = 0 then None
      else if tc_args call = [] then None
      else (case parse (tc_args call) of
              None \<Rightarrow> None
            | Some (lmt, dur) \<Rightarrow>
                if max_log > 0 \<and> is_log_tool (tc_name call) \<and> lmt > max_log
                then Some (ErrLimitExceeded (tc_name call) ''limit'' lmt ''max_log_lines'' max_log)
                else if max_prof > 0 \<and> is_profile_tool (tc_name call) \<and> dur > max_prof
                then Some (ErrLimitExceeded (tc_name call) ''duration_seconds'' dur
                             ''max_profile_seconds'' max_prof)
                else None))"

definition source_registry :: "'w env \<Rightarrow> reg_source \<Rightarrow> 'w rt \<Rightarrow> nat option \<times> 'w rt" where
  "source_registry E src s =
     (case src of
        StaticReg a \<Rightarrow> (Some a, s)
      | RegistryFn \<Rightarrow> (let (a, w) = ev_registry E (rt_world s) in (a, s\<lparr>rt_world := w\<rparr>)))"

definition approval_before :: "'w env \<Rightarrow> reg_source \<Rightarrow> tool_call \<Rightarrow> 'w rt \<Rightarrow> 'w rt \<times> go_err option" where
  "approval_before E src call s =
     (let (addr, s1) = source_registry E src s in
      case addr of
        None \<Rightarrow> (s1, None)
      | Some a \<Rightarrow>
          (case get_tool (rt_regs s1 ! a) (tc_name call) of
             None \<Rightarrow> (s1, None)
           | Some t \<Rightarrow>
               if risk_of t \<noteq> RiskHigh then (s1, None)
               else (let ((approved, err), w) = ev_approve E call (rt_world s1);
                         s2 = emit (EvAsk call (approved \<and> err = None)) (s1\<lparr>rt_world := w\<rparr>)
                     in (s2, case err of
                               Some e \<Rightarrow> Some (ErrApprovalDenied (tc_name call) (Some e))
                             | None \<Rightarrow> if approved then None
                                       else Some (ErrApprovalDenied (tc_name call) None)))))"

text \<open>\<open>DenyApprover\<close>, the approver of non-interactive entry points.\<close>

definition deny_approver :: "tool_call \<Rightarrow> 'w \<Rightarrow> (bool \<times> go_err option) \<times> 'w" where
  "deny_approver call w =
     ((False, Some (ErrOther (''tool '' @ tc_name call
         @ '' is rated RiskHigh and requires an interactive operator decision; ''
         @ ''run `cloudy` (TUI) to approve, or choose a lower-risk tool''))), w)"

definition mask_after :: "'re codec \<Rightarrow> 're masker option \<Rightarrow> observation \<Rightarrow> observation" where
  "mask_after C m obs =
     (case m of
        None \<Rightarrow> obs
      | Some k \<Rightarrow>
          (let obs1 = obs\<lparr>ob_text := mask_string C (Some k) (ob_text obs)\<rparr> in
           case ob_raw obs1 of
             RawBytes b \<Rightarrow>
               (if b = [] then obs1
                else (case mask_json C (Some k) b of
                        (masked, None) \<Rightarrow> obs1\<lparr>ob_raw := RawBytes masked\<rparr>
                      | _ \<Rightarrow> obs1))
           | _ \<Rightarrow> obs1))"

definition log_summary_after :: "(string \<Rightarrow> bool) \<Rightarrow> int \<Rightarrow> tool_call \<Rightarrow> observation \<Rightarrow> go_err option \<Rightarrow> observation" where
  "log_summary_after exc max_bytes call obs err =
     (if max_bytes \<le> 0 \<or> err \<noteq> None then obs
      else if \<not> has_prefix (tc_name call) ''log.'' then obs
      else if int (length (ob_text obs)) \<le> max_bytes then obs
      else obs\<lparr>ob_text := summarize_log exc (ob_text obs) max_bytes\<rparr>)"

section \<open>Dispatch over the hook chain\<close>

fun before_hook :: "'re agent_lib \<Rightarrow> 'w env \<Rightarrow> tool_call \<Rightarrow> 're hook \<Rightarrow> 'w rt
    \<Rightarrow> 're hook \<times> 'w rt \<times> go_err option" where
  "before_hook L E call (DupCall prev count) s =
     (let ((prev', count'), err) = dup_before (al_sha L) call (prev, count)
      in (DupCall prev' count', s, err))"
| "before_hook L E call (LimitGuard max_log max_prof) s =
     (LimitGuard max_log max_prof, s, limit_before (al_limit_args L) max_log max_prof call)"
| "before_hook L E call (Approval src) s =
     (let (s', err) = approval_before E src call s in (Approval src, s', err))"
| "before_hook L E call h s = (h, s, None)"

fun after_hook :: "'re agent_lib \<Rightarrow> tool_call \<Rightarrow> 're hook \<Rightarrow> observation \<Rightarrow> go_err option
    \<Rightarrow> observation \<times> go_err option" where
  "after_hook L call (LogSummary max_bytes) obs err =
     (log_summary_after (al_exception_line L) max_bytes call obs err, None)"
| "after_hook L call (Masking m) obs err = (mask_after (al_codec L) m obs, None)"
| "after_hook L call h obs err = (obs, None)"

fun usage_hook :: "'w env \<Rightarrow> usage \<Rightarrow> 're hook \<Rightarrow> 'w rt \<Rightarrow> 're hook \<times> 'w rt \<times> go_err option" where
  "usage_hook E u (CostGuard g) s =
     (let (t, s') = now E s; (g', err) = cost_on_usage t u g in (CostGuard g', s', err))"
| "usage_hook E u h s = (h, s, None)"

fun before_all :: "'re agent_lib \<Rightarrow> 'w env \<Rightarrow> tool_call \<Rightarrow> 're hook list \<Rightarrow> 'w rt
    \<Rightarrow> 're hook list \<times> 'w rt \<times> go_err option" where
  "before_all L E call [] s = ([], s, None)"
| "before_all L E call (h # hs) s =
     (case before_hook L E call h s of
        (h', s', Some e) \<Rightarrow> (h' # hs, s', Some e)
      | (h', s', None) \<Rightarrow>
          (let (hs', s'', err) = before_all L E call hs s' in (h' # hs', s'', err)))"

fun after_all :: "'re agent_lib \<Rightarrow> tool_call \<Rightarrow> 're hook list \<Rightarrow> observation \<Rightarrow> go_err option
    \<Rightarrow> observation \<times> go_err option" where
  "after_all L call [] obs err = (obs, None)"
| "after_all L call (h # hs) obs err =
     (case after_hook L call h obs err of
        (obs', Some e) \<Rightarrow> (obs', Some e)
      | (obs', None) \<Rightarrow> after_all L call hs obs' err)"

fun fire_on_usage :: "'w env \<Rightarrow> usage \<Rightarrow> 're hook list \<Rightarrow> 'w rt
    \<Rightarrow> 're hook list \<times> 'w rt \<times> go_err option" where
  "fire_on_usage E u [] s = ([], s, None)"
| "fire_on_usage E u (h # hs) s =
     (case usage_hook E u h s of
        (h', s', Some e) \<Rightarrow> (h' # hs, s', Some e)
      | (h', s', None) \<Rightarrow>
          (let (hs', s'', err) = fire_on_usage E u hs s' in (h' # hs', s'', err)))"

text \<open>
  What each hook guarantees: the duplicate detector stops exactly at the third equal call in a row,
  the cost guard's counters are the sums of what was reported, the argument limits reject exactly
  the calls over a ceiling, approval never lets a high-risk tool of its registry through without a
  yes, and the observation hooks leave what they do not own.
\<close>

section \<open>Duplicate detection\<close>

fun dup_run :: "(string \<Rightarrow> string) \<Rightarrow> tool_call list \<Rightarrow> string \<times> nat \<Rightarrow> (string \<times> nat) \<times> go_err option" where
  "dup_run sha [] h = (h, None)"
| "dup_run sha (c # cs) h =
     (case dup_before sha c h of (h', Some e) \<Rightarrow> (h', Some e) | (h', None) \<Rightarrow> dup_run sha cs h')"

definition call_hash :: "(string \<Rightarrow> string) \<Rightarrow> tool_call \<Rightarrow> string" where
  "call_hash sha c = hash_call sha (tc_name c) (tc_args c)"

lemma dup_run_append:
  "dup_run sha (xs @ ys) h =
     (case dup_run sha xs h of (h', Some e) \<Rightarrow> (h', Some e) | (h', None) \<Rightarrow> dup_run sha ys h')"
  by (induction sha xs h rule: dup_run.induct) (auto split: prod.splits option.splits)

text \<open>The state is the hash of the previous call and the length of the run of equal hashes that
  ends the sequence.\<close>

definition run_length :: "(string \<Rightarrow> string) \<Rightarrow> tool_call list \<Rightarrow> string \<Rightarrow> nat" where
  "run_length sha cs h = length (takeWhile (\<lambda>c. call_hash sha c = h) (rev cs))"

lemma dup_run_state:
  assumes "\<forall>c \<in> set cs. call_hash sha c \<noteq> []"
    and "dup_run sha cs ([], 0) = ((p, n), None)" "cs \<noteq> []"
  shows "p = call_hash sha (last cs) \<and> n = run_length sha cs p \<and> 1 \<le> n \<and> n \<le> 2"
  using assms
proof (induction cs arbitrary: p n rule: rev_induct)
  case (snoc c cs)
  obtain p' n' where prev: "dup_run sha cs ([], 0) = ((p', n'), None)"
    and step: "dup_before sha c (p', n') = ((p, n), None)"
    using snoc.prems(2) by (auto simp: dup_run_append split: prod.splits option.splits)
  show ?case
  proof (cases "cs = []")
    case True
    then show ?thesis
      using prev step snoc.prems(1)
      by (auto simp: dup_before_def call_hash_def run_length_def Let_def split: if_splits)
  next
    case False
    then have prev_st: "p' = call_hash sha (last cs) \<and> n' = run_length sha cs p' \<and> 1 \<le> n' \<and> n' \<le> 2"
      by (intro snoc.IH [OF _ prev]) (use snoc.prems(1) in auto)
    have cur: "p = call_hash sha c" "n = (if call_hash sha c = p' then n' + 1 else 1)" "n \<le> 2"
      using step prev_st
      by (auto simp: dup_before_def call_hash_def Let_def split: if_splits)
    have snoc_len: "run_length sha (cs @ [c]) p = Suc (run_length sha cs p)"
      by (simp add: run_length_def cur(1))
    have "run_length sha cs p = 0" if "p \<noteq> p'"
      using that prev_st False by (cases cs rule: rev_cases) (auto simp: run_length_def)
    then show ?thesis using snoc_len cur prev_st by auto
  qed
qed simp

lemma dup_rejects_iff:
  assumes "\<forall>x \<in> set (cs @ [c]). call_hash sha x \<noteq> []"
    and "dup_run sha cs ([], 0) = (h, None)"
  shows "snd (dup_run sha (cs @ [c]) ([], 0)) =
     (if length cs \<ge> 2 \<and> call_hash sha (cs ! (length cs - 1)) = call_hash sha c
         \<and> call_hash sha (cs ! (length cs - 2)) = call_hash sha c
      then Some ErrDuplicateCall else None)"
proof (cases cs rule: rev_cases)
  case Nil
  then show ?thesis using assms by (auto simp: dup_before_def call_hash_def Let_def)
next
  case (snoc ds d)
  obtain p n where h: "h = (p, n)" by fastforce
  have st: "p = call_hash sha d" "n = run_length sha cs p" "1 \<le> n" "n \<le> 2"
    using dup_run_state [of cs sha p n] assms snoc h by auto
  have res: "snd (dup_run sha (cs @ [c]) ([], 0))
      = (if call_hash sha c = p \<and> 3 \<le> n + 1 then Some ErrDuplicateCall else None)"
    using assms(2) h
    by (auto simp: dup_run_append dup_before_def call_hash_def Let_def split: prod.splits option.splits if_splits)
  have "3 \<le> n + 1 \<longleftrightarrow> 2 \<le> length cs \<and> call_hash sha (cs ! (length cs - 2)) = p"
  proof (cases ds rule: rev_cases)
    case (snoc es e)
    then show ?thesis
      using st \<open>cs = ds @ [d]\<close> by (auto simp: run_length_def nth_append)
  qed (use st snoc in \<open>auto simp: run_length_def\<close>)
  then show ?thesis using res snoc st(1) by (auto simp: nth_append)
qed

section \<open>The cost guard\<close>

fun cost_run :: "(gotime \<times> usage) list \<Rightarrow> cost_guard \<Rightarrow> cost_guard" where
  "cost_run [] g = g"
| "cost_run ((t, u) # us) g = cost_run us (fst (cost_on_usage t u g))"

lemma cost_run_append: "cost_run (us @ vs) g = cost_run vs (cost_run us g)"
  by (induction us g rule: cost_run.induct) auto

lemma cost_on_usage_simps [simp]:
  "cg_in (fst (cost_on_usage t u g)) = cg_in g + in_tokens u"
  "cg_out (fst (cost_on_usage t u g)) = cg_out g + out_tokens u"
  "cg_max_tokens (fst (cost_on_usage t u g)) = cg_max_tokens g"
  "cg_max_usd (fst (cost_on_usage t u g)) = cg_max_usd g"
  "cg_day (fst (cost_on_usage t u g)) = max (cg_day g) (utc_day_start t)"
  "cg_usd (fst (cost_on_usage t u g))
     = (if utc_day_start t > cg_day g then 0 else cg_usd g) + cost_usd u"
  by (auto simp: cost_on_usage_def Let_def)

lemma cost_run_tokens:
  "cg_in (cost_run us g) = cg_in g + (\<Sum>(t, u) \<leftarrow> us. in_tokens u)"
  "cg_out (cost_run us g) = cg_out g + (\<Sum>(t, u) \<leftarrow> us. out_tokens u)"
  "cg_max_tokens (cost_run us g) = cg_max_tokens g"
  "cg_max_usd (cost_run us g) = cg_max_usd g"
  by (induction us g rule: cost_run.induct) auto

lemma utc_day_mono: "s \<le> t \<Longrightarrow> utc_day_start s \<le> utc_day_start t"
proof -
  assume "s \<le> t"
  then have "s div day_ns * day_ns \<le> t div day_ns * day_ns"
    by (intro mult_right_mono zdiv_mono1) (simp_all add: day_ns_def)
  then show ?thesis by (simp add: utc_day_start_def minus_mod_eq_div_mult)
qed

text \<open>When the clock does not go backwards, the daily counter is the cost of the calls reported on
  the current day.\<close>

lemma cost_run_day:
  assumes "sorted (t0 # map fst us)"
  shows "cg_day (cost_run us (new_cost_guard a b t0)) = utc_day_start (last (t0 # map fst us)) \<and>
     cg_usd (cost_run us (new_cost_guard a b t0))
       = (\<Sum>(t, u) \<leftarrow> filter (\<lambda>(t, u). utc_day_start t = utc_day_start (last (t0 # map fst us))) us. cost_usd u)"
  using assms
proof (induction us rule: rev_induct)
  case (snoc x us)
  obtain t u where x: "x = (t, u)" by fastforce
  define d where "d = utc_day_start (last (t0 # map fst us))"
  define g where "g = cost_run us (new_cost_guard a b t0)"
  have srt: "sorted (t0 # map fst us)" "last (t0 # map fst us) \<le> t" "\<forall>s \<in> set (map fst us). s \<le> last (t0 # map fst us)"
  proof -
    have s: "sorted ((t0 # map fst us) @ [t])" using snoc.prems by (simp add: x)
    then show "sorted (t0 # map fst us)" by (simp add: sorted_append del: append.simps)
    then show "\<forall>s \<in> set (map fst us). s \<le> last (t0 # map fst us)"
      using sorted_le_last by (metis list.set_intros(2))
    show "last (t0 # map fst us) \<le> t"
      using s last_in_set [of "t0 # map fst us"] unfolding sorted_append by auto
  qed
  then have IH: "cg_day g = d" "cg_usd g = (\<Sum>(t, u) \<leftarrow> filter (\<lambda>(t, u). utc_day_start t = d) us. cost_usd u)"
    using snoc.IH by (simp_all add: d_def g_def)
  have le: "d \<le> utc_day_start t" using utc_day_mono [OF srt(2)] by (simp add: d_def)
  have run: "cost_run (us @ [x]) (new_cost_guard a b t0) = fst (cost_on_usage t u g)"
    by (simp add: cost_run_append x g_def)
  have none: "filter (\<lambda>(s, v). utc_day_start s = utc_day_start t) us = []" if "d < utc_day_start t"
    using srt(3) that utc_day_mono unfolding d_def by (fastforce simp: filter_empty_conv)
  show ?case
    using IH le none unfolding run by (auto simp: x max_def)
qed (simp add: new_cost_guard_def)

lemma cost_aborts_iff:
  "snd (cost_on_usage t u g) = None \<longleftrightarrow>
     (let g' = fst (cost_on_usage t u g) in
      (cg_max_tokens g > 0 \<longrightarrow> cg_in g' + cg_out g' \<le> cg_max_tokens g) \<and>
      (cg_max_usd g > 0 \<longrightarrow> cg_usd g' \<le> cg_max_usd g))"
  by (auto simp: cost_on_usage_def Let_def)

section \<open>Argument limits\<close>

lemma limit_before_iff:
  "limit_before parse a b call \<noteq> None \<longleftrightarrow>
     (\<exists>n d. tc_args call \<noteq> [] \<and> parse (tc_args call) = Some (n, d) \<and>
        (0 < a \<and> is_log_tool (tc_name call) \<and> a < n \<or>
         0 < b \<and> is_profile_tool (tc_name call) \<and> b < d))"
  by (auto simp: limit_before_def split: option.splits)

text \<open>A name in its wire spelling has no dot, so no limit applies to it.\<close>

lemma wire_name_unlimited: "CHR ''.'' \<notin> set n \<Longrightarrow> \<not> is_log_tool n \<and> \<not> is_profile_tool n"
  by (auto simp: is_log_tool_def has_prefix_def prefix_def is_profile_tool_def profile_tools_def)

section \<open>Approval\<close>

lemma approval_before_static:
  assumes "get_tool (rt_regs s ! a) (tc_name call) = Some t" "risk_of t = RiskHigh"
    and "approval_before E (StaticReg a) call s = (s', None)"
  shows "rt_trace s' = rt_trace s @ [EvAsk call True]"
  using assms
  by (auto simp: approval_before_def source_registry_def emit_def Let_def
      split: prod.splits option.splits if_splits)

section \<open>Observation hooks\<close>

lemma log_summary_after_keeps:
  "ob_table (log_summary_after exc m call obs err) = ob_table obs"
  "ob_raw (log_summary_after exc m call obs err) = ob_raw obs"
  by (auto simp: log_summary_after_def)

lemma mask_after_text: "ob_text (mask_after C m obs) = mask_string C m (ob_text obs)"
  by (auto simp: mask_after_def mask_string_def Let_def split: option.splits raw.splits prod.splits)

lemma mask_after_table: "ob_table (mask_after C m obs) = ob_table obs"
  by (auto simp: mask_after_def Let_def split: option.splits raw.splits prod.splits)

lemma after_hook_no_error [simp]: "snd (after_hook L call h obs err) = None"
  by (cases h) auto

lemma after_all_no_error [simp]: "snd (after_all L call hs obs err) = None"
proof (induction hs arbitrary: obs)
  case (Cons h hs)
  obtain obs' where "after_hook L call h obs err = (obs', None)"
    using after_hook_no_error by (metis prod.collapse)
  then show ?case using Cons by simp
qed simp

end
