(* ===== verification/Skills.thy ===== *)
theory Skills
  imports Llm_Types
begin

text \<open>
  Skills (\<open>internal/core/skills\<close>): parsing a playbook file (\<open>skill.go\<close>), loading and merging
  directories (\<open>loader.go\<close>), the registry with its trigger ranking and validation
  (\<open>registry.go\<close>) and the static provider (\<open>provider.go\<close>). The YAML decoder and the file
  system's listing are parameters.
\<close>

section \<open>Parsing\<close>

record skill =
  sk_name :: string
  sk_description :: string
  sk_triggers :: "string list"
  sk_allowed :: "string list"
  sk_models :: "string list"
  sk_examples :: "string list"
  sk_requires :: "string list"
  sk_prompt :: string
  sk_source :: string

record frontmatter =
  fm_name :: string
  fm_description :: string
  fm_triggers :: "string list"
  fm_allowed :: "string list"
  fm_models :: "string list"
  fm_examples :: "string list"
  fm_requires :: "string list"

datatype skill_error =
    NoOpening
  | NoClosing
  | BadYaml
  | NameRequired
  | NameMismatch string string
  | DescriptionRequired
  | AllowedRequired
  | BodyRequired

fun index_str :: "string \<Rightarrow> string \<Rightarrow> nat option" where
  "index_str [] sub = (if sub = [] then Some 0 else None)"
| "index_str (c # s) sub = (if prefix sub (c # s) then Some 0 else map_option Suc (index_str s sub))"

lemma index_str_Some: "index_str s sub = Some i \<Longrightarrow> \<exists>v. s = take i s @ sub @ v \<and> i \<le> length s"
proof (induction s arbitrary: i)
  case (Cons c s)
  show ?case
  proof (cases "prefix sub (c # s)")
    case False
    then obtain j where "index_str s sub = Some j" "i = Suc j" using Cons.prems by auto
    then show ?thesis using Cons.IH by fastforce
  qed (use Cons.prems in \<open>auto simp: prefix_def\<close>)
qed (auto split: if_splits)

lemma index_str_None: "index_str s sub = None \<longleftrightarrow> \<not> contains s sub"
  by (induction s) auto

definition parse_skill :: "(string \<Rightarrow> frontmatter option) \<Rightarrow> string \<Rightarrow> string \<Rightarrow> skill_error + skill" where
  "parse_skill yaml name content =
     (if \<not> has_prefix content (''---'' @ [CHR 0x0A]) then Inl NoOpening
      else (let rest = drop 4 content in
            case index_str rest (CHR 0x0A # ''---'') of
              None \<Rightarrow> Inl NoClosing
            | Some i \<Rightarrow>
                (let block = take i rest; body = drop (i + 4) rest in
                 case yaml block of
                   None \<Rightarrow> Inl BadYaml
                 | Some fm \<Rightarrow>
                     if fm_name fm = [] then Inl NameRequired
                     else if fm_name fm \<noteq> name then Inl (NameMismatch (fm_name fm) name)
                     else if fm_description fm = [] then Inl DescriptionRequired
                     else if fm_allowed fm = [] then Inl AllowedRequired
                     else if trim_space body = [] then Inl BodyRequired
                     else Inr \<lparr>sk_name = fm_name fm, sk_description = fm_description fm,
                               sk_triggers = fm_triggers fm, sk_allowed = fm_allowed fm,
                               sk_models = fm_models fm, sk_examples = fm_examples fm,
                               sk_requires = fm_requires fm, sk_prompt = trim_space body,
                               sk_source = []\<rparr>)))"

section \<open>Loading\<close>

text \<open>A directory entry: its name, whether it is a directory, and the result of reading it.\<close>

record dir_entry =
  de_name :: string
  de_is_dir :: bool
  de_read :: "string option"

datatype load_error = ReadDirFailed string | ReadFailed string | ParseFailed string skill_error

definition file_ext :: "string \<Rightarrow> string" where
  "file_ext name = (case last_index_byte name (CHR ''.'') of None \<Rightarrow> [] | Some i \<Rightarrow> drop i name)"

fun load_entries :: "(string \<Rightarrow> frontmatter option) \<Rightarrow> bool \<Rightarrow> string \<Rightarrow> dir_entry list
    \<Rightarrow> load_error + skill list" where
  "load_entries yaml skip_hidden dir [] = Inr []"
| "load_entries yaml skip_hidden dir (e # es) =
     (if de_is_dir e then load_entries yaml skip_hidden dir es
      else if skip_hidden \<and> has_prefix (de_name e) ''.'' then load_entries yaml skip_hidden dir es
      else if file_ext (de_name e) \<noteq> ''.md'' then load_entries yaml skip_hidden dir es
      else (let path = dir @ ''/'' @ de_name e in
            case de_read e of
              None \<Rightarrow> Inl (ReadFailed path)
            | Some content \<Rightarrow>
                (case parse_skill yaml (trim_suffix (de_name e) ''.md'') content of
                   Inl err \<Rightarrow> Inl (ParseFailed path err)
                 | Inr s \<Rightarrow>
                     map_sum id (\<lambda>out. s\<lparr>sk_source := path\<rparr> # out)
                       (load_entries yaml skip_hidden dir es))))"

text \<open>A missing user directory is no error; the embedded directory always lists.\<close>

definition load_user :: "(string \<Rightarrow> frontmatter option) \<Rightarrow> bool \<Rightarrow> string \<Rightarrow> dir_entry list option
    \<Rightarrow> load_error + skill list" where
  "load_user yaml dir_exists dir listing =
     (if \<not> dir_exists then Inr []
      else (case listing of None \<Rightarrow> Inl (ReadDirFailed dir) | Some es \<Rightarrow> load_entries yaml True dir es))"

definition load_from_fs :: "(string \<Rightarrow> frontmatter option) \<Rightarrow> string \<Rightarrow> dir_entry list option
    \<Rightarrow> load_error + skill list" where
  "load_from_fs yaml dir listing =
     (case listing of None \<Rightarrow> Inl (ReadDirFailed dir) | Some es \<Rightarrow> load_entries yaml False dir es)"

text \<open>The output order of \<open>Merge\<close> is that of a Go map, so only its content is observed.\<close>

definition merge_skills :: "skill list \<Rightarrow> skill list \<Rightarrow> skill list" where
  "merge_skills builtin user =
     (let m1 = fold (\<lambda>s. gm_put (sk_name s) s) builtin [];
          m2 = fold (\<lambda>s. gm_put (sk_name s) s) user m1
      in map snd m2)"

section \<open>The registry\<close>

definition skills_new :: "skill list \<Rightarrow> skill regmap" where
  "skills_new ss = fold (\<lambda>s r. regmap_replace r s) ss \<lparr>name_of = sk_name, items = []\<rparr>"

definition skill_get :: "skill regmap \<Rightarrow> string \<Rightarrow> skill option" where
  "skill_get r name = regmap_get r name"

definition skill_list :: "skill regmap \<Rightarrow> skill list" where
  "skill_list r = regmap_all r"

definition is_trigger_boundary :: "unicode \<Rightarrow> nat \<Rightarrow> bool" where
  "is_trigger_boundary u r \<longleftrightarrow> \<not> alnum_rune u r"

text \<open>\<open>utf8.DecodeLastRuneInString\<close>: step back at most four bytes to a rune start; a rune that does
  not reach the end is an error.\<close>

definition decode_last_rune :: "string \<Rightarrow> nat \<times> nat" where
  "decode_last_rune s =
     (let n = length s in
      if n = 0 then (rune_error, 0)
      else if byte (s ! (n - 1)) < 128 then (byte (s ! (n - 1)), 1)
      else (let lower = n - 4;
                start = (case List.find (\<lambda>j. rune_start (s ! j)) (rev [lower..<n - 1]) of
                           Some j \<Rightarrow> j
                         | None \<Rightarrow> lower - 1);
                (r, size) = decode_rune (drop start s)
            in if start + size \<noteq> n then (rune_error, 1) else (r, size)))"

definition rune_before :: "string \<Rightarrow> nat \<Rightarrow> nat" where
  "rune_before s i = fst (decode_last_rune (take i s))"

definition rune_after :: "string \<Rightarrow> nat \<Rightarrow> nat" where
  "rune_after s i = fst (decode_rune (drop i s))"

definition has_trigger_separator :: "unicode \<Rightarrow> string \<Rightarrow> bool" where
  "has_trigger_separator u s \<longleftrightarrow> (\<exists>(r, bs) \<in> set (runes_of s). is_trigger_boundary u r)"

text \<open>The scan advances by the trigger's length, so it takes fewer steps than the input has bytes;
  with an empty trigger it may not end, which is the value \<open>None\<close>.\<close>

fun trigger_scan :: "nat \<Rightarrow> unicode \<Rightarrow> string \<Rightarrow> string \<Rightarrow> nat \<Rightarrow> bool option" where
  "trigger_scan 0 u input trigger idx = None"
| "trigger_scan (Suc fuel) u input trigger idx =
     (let before_ok = (idx = 0 \<or> is_trigger_boundary u (rune_before input idx));
          after = idx + length trigger;
          after_ok = (after = length input \<or> length (runes_of trigger) > 2 \<or>
                      is_trigger_boundary u (rune_after input after))
      in if before_ok \<and> after_ok then Some True
         else (let nxt = idx + length trigger in
               if nxt \<ge> length input then Some False
               else (case index_str (drop nxt input) trigger of
                       None \<Rightarrow> Some False
                     | Some rel \<Rightarrow> trigger_scan fuel u input trigger (nxt + rel))))"

definition contains_trigger :: "unicode \<Rightarrow> string \<Rightarrow> string \<Rightarrow> bool option" where
  "contains_trigger u input trigger =
     (if has_trigger_separator u trigger then Some (contains input trigger)
      else (case index_str input trigger of
              None \<Rightarrow> Some False
            | Some idx \<Rightarrow> trigger_scan (Suc (length input)) u input trigger idx))"

definition score_trigger :: "unicode \<Rightarrow> string \<Rightarrow> string \<Rightarrow> int \<Rightarrow> int" where
  "score_trigger u lower t best =
     (let lt = trim_space (to_lower u t) in
      if lt = [] then best
      else if lt = lower then 3
      else if best < 2 \<and> contains_trigger u lower lt = Some True then 2
      else if best < 1 \<and> contains lt lower then 1
      else best)"

definition skill_score :: "unicode \<Rightarrow> string \<Rightarrow> skill \<Rightarrow> int" where
  "skill_score u lower s = fold (score_trigger u lower) (sk_triggers s) 0"

definition ranked_skills :: "unicode \<Rightarrow> skill regmap \<Rightarrow> string \<Rightarrow> skill list" where
  "ranked_skills u r lower =
     sort_key (\<lambda>s. - skill_score u lower s) (filter (\<lambda>s. skill_score u lower s > 0) (regmap_all r))"

definition suggest :: "unicode \<Rightarrow> skill regmap \<Rightarrow> string \<Rightarrow> skill list" where
  "suggest u r input =
     (let lower = trim_space (to_lower u input) in
      if lower = [] then [] else take 3 (ranked_skills u r lower))"

definition unknown_tools :: "skill regmap \<Rightarrow> string list \<Rightarrow> (string \<times> string) list" where
  "unknown_tools r known =
     concat (map (\<lambda>s. map (\<lambda>t. (sk_name s, t)) (filter (\<lambda>t. t \<notin> set known) (sk_allowed s))) (regmap_all r))"

definition validate_skills :: "skill regmap \<Rightarrow> string list option \<Rightarrow> (string \<times> string) list option" where
  "validate_skills r known =
     (case known of
        None \<Rightarrow> None
      | Some ks \<Rightarrow> (let errs = unknown_tools r ks in if errs = [] then None else Some errs))"

section \<open>The static provider\<close>

definition static_resolve :: "skill \<Rightarrow> string \<times> string list" where
  "static_resolve s = (sk_prompt s, sk_allowed s)"

section \<open>Facts\<close>

lemma parse_skill_ok:
  assumes "parse_skill yaml name content = Inr s"
  shows "sk_name s = name" "name \<noteq> []" "sk_description s \<noteq> []" "sk_allowed s \<noteq> []"
    "sk_prompt s \<noteq> []" "prefix (''---'' @ [CHR 0x0A]) content"
  using assms by (auto simp: parse_skill_def Let_def has_prefix_def split: if_splits option.splits)

lemma load_entries_names:
  "load_entries yaml hid dir es = Inr ss \<Longrightarrow> s \<in> set ss \<Longrightarrow>
     \<exists>e \<in> set es. \<not> de_is_dir e \<and> sk_source s = dir @ ''/'' @ de_name e \<and>
       sk_name s = trim_suffix (de_name e) ''.md'' \<and> (hid \<longrightarrow> \<not> has_prefix (de_name e) ''.'')"
proof (induction es arbitrary: ss)
  case (Cons e es)
  show ?case
  proof (cases "de_is_dir e \<or> hid \<and> has_prefix (de_name e) ''.'' \<or> file_ext (de_name e) \<noteq> ''.md''")
    case True
    then have "load_entries yaml hid dir es = Inr ss" using Cons.prems(1) by (auto split: if_splits)
    then show ?thesis using Cons.IH Cons.prems(2) by auto
  next
    case False
    then obtain content s0 out where
      "parse_skill yaml (trim_suffix (de_name e) ''.md'') content = Inr s0"
      "load_entries yaml hid dir es = Inr out" "ss = s0\<lparr>sk_source := dir @ ''/'' @ de_name e\<rparr> # out"
      using Cons.prems(1)
      by (cases "load_entries yaml hid dir es") (auto simp: Let_def split: option.splits sum.splits if_splits)
    then show ?thesis
      using Cons.IH [of out] Cons.prems(2) False parse_skill_ok(1) by fastforce
  qed
qed simp

lemma skills_new_inv: "regmap_inv (skills_new ss) \<and> name_of (skills_new ss) = sk_name"
proof -
  have "regmap_inv r \<Longrightarrow> name_of r = sk_name \<Longrightarrow>
      regmap_inv (fold (\<lambda>s r. regmap_replace r s) ss r) \<and> name_of (fold (\<lambda>s r. regmap_replace r s) ss r) = sk_name" for r
    by (induction ss arbitrary: r) (simp_all add: regmap_replace_inv)
  from this [of "\<lparr>name_of = sk_name, items = []\<rparr>"] show ?thesis
    unfolding skills_new_def by (simp add: regmap_inv_def [of "\<lparr>name_of = sk_name, items = []\<rparr>"])
qed

lemma get_skills_new: "skill_get (skills_new ss) k = List.find (\<lambda>s. sk_name s = k) (rev ss)"
proof -
  have "name_of r = sk_name \<Longrightarrow> regmap_get (fold (\<lambda>s r. regmap_replace r s) ss r) k
      = (case List.find (\<lambda>s. sk_name s = k) (rev ss) of None \<Rightarrow> regmap_get r k | Some s \<Rightarrow> Some s)" for r
  proof (induction ss rule: rev_induct)
    case (snoc x xs)
    have "name_of (fold (\<lambda>s r. regmap_replace r s) ys r) = sk_name" for ys
      using snoc.prems by (induction ys rule: rev_induct) auto
    then show ?case using snoc by (simp add: regmap_get_replace)
  qed simp
  then show ?thesis
    by (simp add: skill_get_def skills_new_def regmap_get_def cong: option.case_cong)
qed

lemma find_distinct_name:
  "distinct (map sk_name ss) \<Longrightarrow>
     List.find (\<lambda>s. sk_name s = k) ss = map_of (map (\<lambda>s. (sk_name s, s)) ss) k"
  by (induction ss) auto

text \<open>User skills win over builtin ones of the same name; later entries win within a list.\<close>

lemma items_fold_replace:
  "name_of r = sk_name \<Longrightarrow>
     items (fold (\<lambda>s r. regmap_replace r s) ss r) = fold (\<lambda>s. gm_put (sk_name s) s) ss (items r)"
  by (induction ss arbitrary: r) (simp_all add: regmap_replace_def)

lemma merge_items: "merge_skills builtin user = map snd (items (skills_new (builtin @ user)))"
  by (simp add: merge_skills_def Let_def skills_new_def items_fold_replace del: fold_append)
     (simp add: items_fold_replace)

lemma merge_get:
  "skill_get (skills_new (merge_skills builtin user)) k =
     (case List.find (\<lambda>s. sk_name s = k) (rev user) of
        Some s \<Rightarrow> Some s
      | None \<Rightarrow> List.find (\<lambda>s. sk_name s = k) (rev builtin))"
proof -
  define m where "m = items (skills_new (builtin @ user))"
  have inv: "gm_wf m" "\<forall>(n, s) \<in> set m. sk_name s = n"
    using skills_new_inv [of "builtin @ user"] by (auto simp: m_def regmap_inv_def)
  have "map (\<lambda>s. (sk_name s, s)) (map snd m) = m" "map sk_name (map snd m) = map fst m"
    using inv(2) by (auto intro!: map_idI)
  then have "List.find (\<lambda>s. sk_name s = k) (rev (map snd m)) = map_of (rev m) k"
    using find_distinct_name [of "rev (map snd m)" k] inv(1)
    by (metis (no_types, lifting) distinct_rev gm_wf_def rev_map)
  then have "List.find (\<lambda>s. sk_name s = k) (rev (map snd m)) = map_of m k"
    using inv(1) by (simp only: gm_get_rev)
  then have "skill_get (skills_new (merge_skills builtin user)) k = skill_get (skills_new (builtin @ user)) k"
    unfolding merge_items m_def get_skills_new [of "map snd _"] by (simp add: skill_get_def regmap_get_def)
  also have "\<dots> = List.find (\<lambda>s. sk_name s = k) (rev user @ rev builtin)"
    by (simp add: get_skills_new)
  also have "\<dots> = (case List.find (\<lambda>s. sk_name s = k) (rev user) of
        Some s \<Rightarrow> Some s | None \<Rightarrow> List.find (\<lambda>s. sk_name s = k) (rev builtin))"
    by (rule find_append_case)
  finally show ?thesis .
qed

text \<open>A trigger without a separator is found only where it occurs, and the scan always answers.\<close>

lemma trigger_scan_total:
  "trigger \<noteq> [] \<Longrightarrow> length input < fuel + idx \<Longrightarrow> trigger_scan fuel u input trigger idx \<noteq> None \<or> fuel = 0"
proof (induction fuel arbitrary: idx)
  case (Suc fuel)
  have "length input < fuel + (idx + length trigger + rel)" for rel
    using Suc.prems by (cases trigger) auto
  then have "trigger_scan fuel u input trigger (idx + length trigger + rel) \<noteq> None \<or> fuel = 0" for rel
    using Suc by blast
  moreover have "fuel \<noteq> 0" if "idx + length trigger < length input"
    using that Suc.prems by auto
  ultimately show ?case by (auto simp: Let_def not_le split: option.splits)
qed simp

lemma contains_trigger_total:
  assumes "trigger \<noteq> []"
  shows "contains_trigger u input trigger \<noteq> None"
proof -
  have "trigger_scan (Suc (length input)) u input trigger idx \<noteq> None" for idx
    using trigger_scan_total [OF assms, of input "Suc (length input)" idx u] by simp
  then show ?thesis by (auto simp: contains_trigger_def simp del: trigger_scan.simps split: option.splits)
qed

lemma contains_trigger_sound:
  "contains_trigger u input trigger = Some True \<Longrightarrow> contains input trigger"
  using index_str_None [of input trigger]
  by (auto simp: contains_trigger_def split: if_splits option.splits)

text \<open>The score of a skill is the best class among its triggers.\<close>

definition trigger_class :: "unicode \<Rightarrow> string \<Rightarrow> string \<Rightarrow> int" where
  "trigger_class u lower t = score_trigger u lower t 0"

lemma trigger_class_range: "trigger_class u lower t \<in> {0, 1, 2, 3}"
  by (simp add: trigger_class_def score_trigger_def Let_def)

lemma score_trigger_max:
  "0 \<le> best \<Longrightarrow> best \<le> 3 \<Longrightarrow> score_trigger u lower t best = max best (trigger_class u lower t)"
  by (auto simp: trigger_class_def score_trigger_def Let_def)

lemma fold_score_max:
  "0 \<le> b \<Longrightarrow> b \<le> 3 \<Longrightarrow>
     fold (score_trigger u lower) ts b = fold (\<lambda>t m. max m (trigger_class u lower t)) ts b"
proof (induction ts arbitrary: b)
  case (Cons t ts)
  have "0 \<le> max b (trigger_class u lower t)" "max b (trigger_class u lower t) \<le> 3"
    using Cons.prems trigger_class_range [of u lower t] by auto
  then show ?case using Cons by (simp add: score_trigger_max)
qed simp

lemma fold_max_ge: "(\<forall>t \<in> set ts. f t \<le> fold (\<lambda>t m. max m (f t)) ts b) \<and> b \<le> fold (\<lambda>t m. max m (f t)) ts (b :: int)"
proof (induction ts arbitrary: b)
  case (Cons t ts)
  define r where "r = fold (\<lambda>t m. max m (f t)) ts (max b (f t))"
  have "\<forall>t \<in> set ts. f t \<le> r" "max b (f t) \<le> r" unfolding r_def using Cons by blast+
  then show ?case by (simp add: r_def [symmetric])
qed simp

lemma fold_max_mem: "fold (\<lambda>t m. max m (f t)) ts b \<in> insert (b :: int) (f ` set ts)"
proof (induction ts arbitrary: b)
  case (Cons t ts)
  then show ?case using Cons [of "max b (f t)"] by (auto simp: max_def split: if_splits)
qed simp

lemma skill_score_max:
  "skill_score u lower s = Max (insert 0 (trigger_class u lower ` set (sk_triggers s)))"
  using fold_max_ge [of "sk_triggers s" "trigger_class u lower" 0]
    fold_max_mem [of "trigger_class u lower" "sk_triggers s" 0]
  unfolding skill_score_def by (subst fold_score_max) (auto intro!: Max_eqI [symmetric])

lemma suggest_mem: "s \<in> set (suggest u r input) \<Longrightarrow>
    s \<in> set (regmap_all r) \<and> 0 < skill_score u (trim_space (to_lower u input)) s"
  by (auto simp: suggest_def Let_def ranked_skills_def split: if_splits dest: in_set_takeD)

lemma sorted_take_best:
  assumes "sorted (map f xs)" "x \<in> set (take n xs)" "y \<in> set xs" "f y < (f x :: int)"
  shows "y \<in> set (take n xs)"
proof (rule ccontr)
  assume "y \<notin> set (take n xs)"
  then have "y \<in> set (drop n xs)" using assms(3) by (metis UnE append_take_drop_id set_append)
  moreover have "sorted (map f (take n xs) @ map f (drop n xs))"
    using assms(1) by (metis append_take_drop_id map_append)
  ultimately have "f x \<le> f y" using assms(2) by (auto simp: sorted_append)
  then show False using assms(4) by simp
qed

lemma suggest_best:
  assumes "s \<in> set (suggest u r input)" "s' \<in> set (regmap_all r)"
    and "skill_score u (trim_space (to_lower u input)) s < skill_score u (trim_space (to_lower u input)) s'"
  shows "s' \<in> set (suggest u r input)"
proof -
  let ?l = "trim_space (to_lower u input)"
  let ?f = "\<lambda>s. - skill_score u ?l s"
  have ne: "?l \<noteq> []" using assms(1) by (auto simp: suggest_def Let_def)
  have "0 < skill_score u ?l s'" using suggest_mem [OF assms(1)] assms(3) by simp
  then have mem: "s' \<in> set (ranked_skills u r ?l)" using assms(2) by (simp add: ranked_skills_def)
  have srt: "sorted (map ?f (ranked_skills u r ?l))" by (simp add: ranked_skills_def)
  have "s \<in> set (take 3 (ranked_skills u r ?l))"
    using assms(1) ne by (simp add: suggest_def Let_def)
  from sorted_take_best [OF srt this mem] have "s' \<in> set (take 3 (ranked_skills u r ?l))"
    using assms(3) by simp
  then show ?thesis using ne by (simp add: suggest_def Let_def)
qed

lemma suggest_length: "length (suggest u r input) \<le> 3"
  by (simp add: suggest_def Let_def)

lemma validate_skills_ok:
  "validate_skills r (Some known) = None \<longleftrightarrow>
     (\<forall>s \<in> set (regmap_all r). set (sk_allowed s) \<subseteq> set known)"
  by (auto simp: validate_skills_def Let_def unknown_tools_def filter_empty_conv subset_iff)

end
