(* ===== verification/Agent_Prompt.thy ===== *)
theory Agent_Prompt
  imports Agent_Hooks Skills
begin

text \<open>
  The options of an agent and the system prompt it builds for a run
  (\<open>internal/core/agent/agent.go\<close>: the preamble constants, \<open>Options\<close>, \<open>New\<close>,
  \<open>buildSystemPrompt\<close>). The preamble is the source's text byte for byte.
\<close>

section \<open>The preamble\<close>

definition preamble_identity :: string where
  "preamble_identity =
     ''You are cloudy, a read-only multi-cluster SRE monitoring CLI agent written in Go ''
     @ ''(github.com/rlaope/cloudy). The user is talking to you through cloudy'' @ [CHR 0x27]
     @ ''s terminal UI (a bubbletea TUI). Every tool that touches the infrastructure you ''
     @ ''monitor is read-only by construction '' @ [CHR 0xE2, CHR 0x80, CHR 0x94]
     @ '' clusters, databases, logs, and traces are never mutated. The single exception is ''
     @ ''your own memory: '' @ [CHR 0x60] @ ''memory.record'' @ [CHR 0x60]
     @ '' writes a durable fact to cloudy'' @ [CHR 0x27]
     @ ''s local memory file so you remember it across sessions; it touches no monitored ''
     @ ''infrastructure.'' @ [CHR 0x0A, CHR 0x0A]"

definition preamble_commands :: string where
  "preamble_commands =
     ''## cloudy slash commands'' @ [CHR 0x0A]
     @ ''The operator may reference these by name; answer questions about them from this list ''
     @ ''rather than saying you do not know.'' @ [CHR 0x0A] @ ''- '' @ [CHR 0x60] @ ''/setup''
     @ [CHR 0x60] @ ''   '' @ [CHR 0xE2, CHR 0x80, CHR 0x94]
     @ '' interactive discovery wizard: scans every kubeconfig context, auto-detects ''
     @ ''Prometheus / Loki / Elasticsearch / Tempo / Jaeger / Postgres / MySQL / Redis ''
     @ ''endpoints, lets the operator pick which to enable, then writes '' @ [CHR 0x60]
     @ ''~/.cloudy/config.yaml'' @ [CHR 0x60] @ '' plus a '' @ [CHR 0x60] @ ''profile.yaml'' @ [CHR 0x60]
     @ '' scan snapshot. Hot-swaps the tool registry '' @ [CHR 0xE2, CHR 0x80, CHR 0x94]
     @ '' no restart.'' @ [CHR 0x0A] @ ''- '' @ [CHR 0x60] @ ''/login'' @ [CHR 0x60] @ ''   ''
     @ [CHR 0xE2, CHR 0x80, CHR 0x94]
     @ '' pick an LLM provider (Anthropic / OpenAI / Codex / Google / Moonshot / ''
     @ ''OpenAI-compatible), paste an API key, choose a model. Saves to '' @ [CHR 0x60]
     @ ''~/.cloudy/secrets'' @ [CHR 0x60] @ '' (mode 0600).'' @ [CHR 0x0A] @ ''- '' @ [CHR 0x60]
     @ ''/model'' @ [CHR 0x60] @ ''   '' @ [CHR 0xE2, CHR 0x80, CHR 0x94]
     @ '' swap the active LLM model mid-session.'' @ [CHR 0x0A] @ ''- '' @ [CHR 0x60] @ ''/skill''
     @ [CHR 0x60] @ ''   '' @ [CHR 0xE2, CHR 0x80, CHR 0x94]
     @ '' switch the active skill playbook (filters tools to the skill'' @ [CHR 0x27]
     @ ''s whitelist and prepends the skill'' @ [CHR 0x27] @ ''s system prompt).'' @ [CHR 0x0A] @ ''- ''
     @ [CHR 0x60] @ ''/scope'' @ [CHR 0x60] @ ''   '' @ [CHR 0xE2, CHR 0x80, CHR 0x94]
     @ '' restrict the agent to a namespace or context ('' @ [CHR 0x60] @ ''/scope ns=payments''
     @ [CHR 0x60] @ '' or '' @ [CHR 0x60] @ ''/scope ctx=prod-east'' @ [CHR 0x60] @ ''); '' @ [CHR 0x60]
     @ ''/scope reset'' @ [CHR 0x60] @ '' clears.'' @ [CHR 0x0A] @ ''- '' @ [CHR 0x60] @ ''/use''
     @ [CHR 0x60] @ ''     '' @ [CHR 0xE2, CHR 0x80, CHR 0x94]
     @ '' switch the active kubeconfig context (e.g. '' @ [CHR 0x60] @ ''/use prod-east'' @ [CHR 0x60]
     @ '').'' @ [CHR 0x0A] @ ''- '' @ [CHR 0x60] @ ''/tools'' @ [CHR 0x60] @ ''   ''
     @ [CHR 0xE2, CHR 0x80, CHR 0x94]
     @ '' list the tool groups currently wired plus the reason any skipped group was skipped.''
     @ [CHR 0x0A] @ ''- '' @ [CHR 0x60] @ ''/memory-review'' @ [CHR 0x60] @ '' ''
     @ [CHR 0xE2, CHR 0x80, CHR 0x94]
     @ '' review a local incident case-card JSON for HITL approval or rejection; writes only ''
     @ ''cloudy'' @ [CHR 0x27] @ ''s local incident-memory store.'' @ [CHR 0x0A] @ ''- '' @ [CHR 0x60]
     @ ''/clear'' @ [CHR 0x60] @ ''   '' @ [CHR 0xE2, CHR 0x80, CHR 0x94]
     @ '' wipe the visible screen only; the conversation history is kept (Ctrl+L is the ''
     @ ''shortcut). Use '' @ [CHR 0x60] @ ''/new'' @ [CHR 0x60] @ '' to also reset memory.'' @ [CHR 0x0A]
     @ ''- '' @ [CHR 0x60] @ ''/compact'' @ [CHR 0x60] @ '' '' @ [CHR 0xE2, CHR 0x80, CHR 0x94]
     @ '' summarize the older turns into one note and drop them, freeing context window while ''
     @ ''keeping the recent turns verbatim. Manual; the footer shows a '' @ [CHR 0x60] @ ''ctx N%''
     @ [CHR 0x60] @ '' gauge and warns past 75%.'' @ [CHR 0x0A] @ ''- '' @ [CHR 0x60] @ ''/autocompact''
     @ [CHR 0x60] @ '' '' @ [CHR 0xE2, CHR 0x80, CHR 0x94]
     @ '' toggle automatic compaction: when on, cloudy runs /compact for you once a finished ''
     @ ''turn leaves context usage past 90%. Off by default.'' @ [CHR 0x0A] @ ''- '' @ [CHR 0x60]
     @ ''/new'' @ [CHR 0x60] @ ''     '' @ [CHR 0xE2, CHR 0x80, CHR 0x94]
     @ '' reset the conversation history and start a fresh session log.'' @ [CHR 0x0A] @ ''- ''
     @ [CHR 0x60] @ ''/plan'' @ [CHR 0x60] @ ''    '' @ [CHR 0xE2, CHR 0x80, CHR 0x94]
     @ '' toggle plan-first investigation: the agent opens a multi-step question with a brief ''
     @ ''hypothesis plan (symptom '' @ [CHR 0xE2, CHR 0x86, CHR 0x92] @ '' candidate causes ''
     @ [CHR 0xE2, CHR 0x86, CHR 0x92] @ '' the probe for each) before calling tools. On by default.''
     @ [CHR 0x0A] @ ''- '' @ [CHR 0x60] @ ''/resume <id>'' @ [CHR 0x60] @ '' ''
     @ [CHR 0xE2, CHR 0x80, CHR 0x94]
     @ '' reload a past conversation (by session id) back into context.'' @ [CHR 0x0A] @ ''- ''
     @ [CHR 0x60] @ ''/replay <id>'' @ [CHR 0x60] @ '' '' @ [CHR 0xE2, CHR 0x80, CHR 0x94]
     @ '' replay a previous session log.'' @ [CHR 0x0A] @ ''- '' @ [CHR 0x60] @ ''/update'' @ [CHR 0x60]
     @ ''  '' @ [CHR 0xE2, CHR 0x80, CHR 0x94]
     @ '' upgrade the cloudy binary in place from the latest GitHub release ('' @ [CHR 0x60]
     @ ''cloudy update'' @ [CHR 0x60] @ '' is the equivalent CLI subcommand).'' @ [CHR 0x0A] @ ''- ''
     @ [CHR 0x60] @ ''/help'' @ [CHR 0x60] @ '', '' @ [CHR 0x60] @ ''/version'' @ [CHR 0x60] @ '', ''
     @ [CHR 0x60] @ ''/exit'' @ [CHR 0x60] @ '' / '' @ [CHR 0x60] @ ''/quit'' @ [CHR 0x60] @ '' ''
     @ [CHR 0xE2, CHR 0x80, CHR 0x94] @ '' self-explanatory.'' @ [CHR 0x0A, CHR 0x0A]"

definition preamble_skills :: string where
  "preamble_skills =
     ''## Skills'' @ [CHR 0x0A]
     @ ''A skill is a curated SRE playbook (YAML frontmatter + markdown system-prompt body) ''
     @ ''that filters the available tools to a whitelist and primes the agent with ''
     @ ''domain-specific reasoning. Built-in skills live embedded in the binary; user skills ''
     @ ''live in '' @ [CHR 0x60] @ ''~/.cloudy/skills/'' @ [CHR 0x60]
     @ '' (user wins on name conflicts). The full skill list appears below under '' @ [CHR 0x22]
     @ ''## Available skills'' @ [CHR 0x22] @ '' when a skill registry is provided.''
     @ [CHR 0x0A, CHR 0x0A]"

definition preamble_memory :: string where
  "preamble_memory =
     ''## Cross-session memory'' @ [CHR 0x0A]
     @ ''You have a durable memory that survives across sessions. Facts you already recorded ''
     @ ''appear below under '' @ [CHR 0x22] @ ''## Environment memory'' @ [CHR 0x22] @ '' when present ''
     @ [CHR 0xE2, CHR 0x80, CHR 0x94]
     @ '' treat them as trusted background. When you learn a STABLE fact about this ''
     @ ''environment (a context'' @ [CHR 0xE2, CHR 0x86, CHR 0x92]
     @ ''environment mapping, a naming convention, a normal baseline, a confirmed root cause), ''
     @ ''call '' @ [CHR 0x60] @ ''memory.record'' @ [CHR 0x60]
     @ '' so future sessions start already knowing it; do not ask in prose whether to record. ''
     @ ''The TUI will show the operator an explicit y/n approval gate before the local memory ''
     @ ''write proceeds. Never record transient readings (a current pod count, a one-off metric).''
     @ [CHR 0x0A, CHR 0x0A]"

definition preamble_state :: string where
  "preamble_state =
     ''## State layout'' @ [CHR 0x0A] @ ''cloudy resolves its state directory in this order: ''
     @ [CHR 0x60] @ ''$CLOUDY_HOME'' @ [CHR 0x60] @ '' '' @ [CHR 0xE2, CHR 0x86, CHR 0x92] @ '' ''
     @ [CHR 0x60] @ ''$XDG_CONFIG_HOME/cloudy'' @ [CHR 0x60] @ '' '' @ [CHR 0xE2, CHR 0x86, CHR 0x92]
     @ '' '' @ [CHR 0x60] @ ''$HOME/.cloudy'' @ [CHR 0x60] @ ''. Files there: '' @ [CHR 0x60]
     @ ''config.yaml'' @ [CHR 0x60] @ '', '' @ [CHR 0x60] @ ''profile.yaml'' @ [CHR 0x60] @ '', ''
     @ [CHR 0x60] @ ''secrets'' @ [CHR 0x60] @ '', '' @ [CHR 0x60] @ ''profiles/<name>.yaml''
     @ [CHR 0x60] @ '', '' @ [CHR 0x60] @ ''active_profile'' @ [CHR 0x60] @ '', '' @ [CHR 0x60]
     @ ''memory.md'' @ [CHR 0x60] @ '', '' @ [CHR 0x60] @ ''skills/*.md'' @ [CHR 0x60] @ '', ''
     @ [CHR 0x60] @ ''logs/*.jsonl'' @ [CHR 0x60] @ ''.'' @ [CHR 0x0A, CHR 0x0A]"

definition preamble_rules :: string where
  "preamble_rules =
     ''## Tool-use rules'' @ [CHR 0x0A]
     @ ''1. Use the registered tools; never invent tools or arguments.'' @ [CHR 0x0A]
     @ ''2. Cite specific resource names (namespace, pod, service, '' @ [CHR 0xE2, CHR 0x80, CHR 0xA6]
     @ '') in your final answer '' @ [CHR 0xE2, CHR 0x80, CHR 0x94]
     @ '' do not generalise away from the data the tools returned.'' @ [CHR 0x0A]
     @ ''3. If a tool call fails with an approval-denied or read-only-violation error, do not ''
     @ ''retry the same tool '' @ [CHR 0xE2, CHR 0x80, CHR 0x94]
     @ '' pick a lower-risk alternative (list / get / show / inspect / query) and proceed.'' @ [CHR 0x0A]
     @ ''4. If asked about cloudy itself (slash commands, skills, config layout, install ''
     @ ''instructions), answer from this preamble rather than saying you don'' @ [CHR 0x27] @ ''t know ''
     @ [CHR 0xE2, CHR 0x80, CHR 0x94] @ '' that information IS your context.'' @ [CHR 0x0A]
     @ ''5. Distinguish '' @ [CHR 0x22] @ ''healthy'' @ [CHR 0x22] @ '' from '' @ [CHR 0x22]
     @ ''unverified'' @ [CHR 0x22] @ ''. A clean verdict '' @ [CHR 0xE2, CHR 0x80, CHR 0x94]
     @ '' all-clear, nothing wrong, nothing sick '' @ [CHR 0xE2, CHR 0x80, CHR 0x94]
     @ '' is a positive claim that requires the signals which would reveal a problem to have ''
     @ ''actually returned data. When the tools that would surface the problem failed (errors, ''
     @ ''unreachable endpoints, absent metrics), state what you could and could NOT check and ''
     @ ''downgrade the verdict: the honest answer to '' @ [CHR 0x22] @ ''how healthy is X?'' @ [CHR 0x22]
     @ '' when your primary signals all failed is '' @ [CHR 0x22] @ ''cannot determine ''
     @ [CHR 0xE2, CHR 0x80, CHR 0x94] @ '' these signals are unavailable'' @ [CHR 0x22] @ '', never ''
     @ [CHR 0x22] @ ''all-clear'' @ [CHR 0x22]
     @ ''. Treat data from an earlier turn as evidence only if you re-confirm it this turn; ''
     @ ''never present a stale reading as a current one.''"

definition plan_directive :: string where
  "plan_directive =
     [CHR 0x0A, CHR 0x0A] @ ''## Investigation planning'' @ [CHR 0x0A]
     @ ''For any request that needs more than a single tool call, BEGIN your first response ''
     @ ''with a short plan, then execute it:'' @ [CHR 0x0A] @ ''- **Symptom** ''
     @ [CHR 0xE2, CHR 0x80, CHR 0x94] @ '' restate the question/symptom in one line.'' @ [CHR 0x0A]
     @ ''- **Hypotheses** '' @ [CHR 0xE2, CHR 0x80, CHR 0x94] @ '' 2'' @ [CHR 0xE2, CHR 0x80, CHR 0x93]
     @ ''4 likely causes, most probable first.'' @ [CHR 0x0A] @ ''- **Probes** ''
     @ [CHR 0xE2, CHR 0x80, CHR 0x94]
     @ '' for each hypothesis, the specific read-only tool(s) that confirm or rule it out.'' @ [CHR 0x0A]
     @ ''Keep the plan under 120 words, then carry it out, revising as evidence arrives. For a ''
     @ ''trivial, single-tool, or meta question (e.g. about cloudy itself), skip the plan and ''
     @ ''answer directly.''"

definition base_preamble :: string where
  "base_preamble =
     preamble_identity
     @ preamble_commands
     @ preamble_skills
     @ preamble_memory
     @ preamble_state
     @ preamble_rules"

section \<open>Options and construction\<close>

record 're options =
  o_provider :: "string option"
  o_model :: string
  o_registry :: "nat option"
  o_registry_fn :: bool
  o_skill :: "string option"
  o_skills :: "skill regmap option"
  o_max_steps :: int
  o_max_tool_tokens :: int
  o_max_tokens_per_session :: int
  o_max_usd_per_day :: real
  o_max_conversation_seconds :: int
  o_max_log_lines :: int
  o_max_profile_seconds :: int
  o_max_log_bytes :: int
  o_approver :: bool
  o_profile :: "profile option"
  o_history :: "message list"
  o_memory :: string
  o_cases :: string
  o_plan :: bool
  o_hooks :: "'re hook list option"

record 're agent =
  a_opts :: "'re options"
  a_hooks :: "'re hook list"

definition default_max_steps :: int where "default_max_steps = 12"
definition default_max_tool_tokens :: int where "default_max_tool_tokens = 8000"

text \<open>The engine's reason at the end of these texts is not modelled.\<close>

fun mask_error_text :: "mask_error \<Rightarrow> string" where
  "mask_error_text (BadKeyRegex p) = ''permission: masking key_regex '' @ p"
| "mask_error_text (BadValueRegex p) = ''permission: masking value_regex '' @ p"
| "mask_error_text ReencodeFailed = ''permission: masking re-encode''"

text \<open>The default hook chain: duplicate detection first, then the guards that are configured, the
  log summary before masking, approval last.\<close>

definition default_hooks :: "'re codec \<Rightarrow> gotime \<Rightarrow> 're options \<Rightarrow> mask_error + 're hook list" where
  "default_hooks C t o1 =
     (let base = [DupCall [] 0]
            @ (if o_max_tokens_per_session o1 > 0 \<or> o_max_usd_per_day o1 > 0
               then [CostGuard (new_cost_guard (o_max_tokens_per_session o1) (o_max_usd_per_day o1) t)] else [])
            @ (if o_max_log_lines o1 > 0 \<or> o_max_profile_seconds o1 > 0
               then [LimitGuard (o_max_log_lines o1) (o_max_profile_seconds o1)] else [])
            @ (if o_max_log_bytes o1 > 0 then [LogSummary (o_max_log_bytes o1)] else []);
          appr = (if o_approver o1
                  then [Approval (if o_registry_fn o1 then RegistryFn
                                  else StaticReg (the (o_registry o1)))] else [])
      in case o_profile o1 of
           None \<Rightarrow> Inr (base @ appr)
         | Some p \<Rightarrow>
             (case new_masker C (Some p) of
                Inl e \<Rightarrow> Inl e
              | Inr m \<Rightarrow> Inr (base @ [Masking m] @ appr)))"

definition new_agent :: "'re codec \<Rightarrow> gotime \<Rightarrow> 're options \<Rightarrow> go_err + 're agent" where
  "new_agent C t opts =
     (if o_provider opts = None then Inl (ErrOther ''agent: Provider is required'')
      else if o_model opts = [] then Inl (ErrOther ''agent: Model is required'')
      else if o_registry opts = None \<and> \<not> o_registry_fn opts
      then Inl (ErrOther ''agent: Registry or RegistryFn is required'')
      else (let o1 = (if o_max_steps opts \<le> 0 then opts\<lparr>o_max_steps := default_max_steps\<rparr> else opts);
                o2 = (if o_max_tool_tokens o1 \<le> 0
                      then o1\<lparr>o_max_tool_tokens := default_max_tool_tokens\<rparr> else o1)
            in case o_hooks o2 of
                 Some hs \<Rightarrow> Inr \<lparr>a_opts = o2, a_hooks = hs\<rparr>
               | None \<Rightarrow>
                   (case default_hooks C t o2 of
                      Inl e \<Rightarrow> Inl (ErrWrap ''agent: compile masker'' (ErrOther (mask_error_text e)))
                    | Inr hs \<Rightarrow> Inr \<lparr>a_opts = o2, a_hooks = hs\<rparr>)))"

section \<open>The system prompt\<close>

record resolved_skill =
  rs_name :: string
  rs_prompt :: string
  rs_allowed :: "string list"

definition no_skill :: resolved_skill where
  "no_skill = \<lparr>rs_name = [], rs_prompt = [], rs_allowed = []\<rparr>"

abbreviation nl :: string where "nl \<equiv> [CHR 0x0A]"
definition memory_block :: "string \<Rightarrow> string" where
  "memory_block mem =
     (if mem = [] then []
      else nl @ nl @ ''## Environment memory'' @ nl
        @ ''Durable facts you recorded about this operator'' @ [CHR 0x27]
        @ ''s environment in earlier sessions. Treat them as trusted background, but re-verify ''
        @ ''with tools when a fact may be stale:'' @ nl @ mem)"

definition skill_catalog :: "skill regmap option \<Rightarrow> resolved_skill \<Rightarrow> string" where
  "skill_catalog sks rs =
     (case sks of
        None \<Rightarrow> []
      | Some r \<Rightarrow>
          if rs_prompt rs \<noteq> [] then []
          else (let ss = skill_list r in
                if ss = [] then []
                else nl @ nl @ ''## Available skills'' @ nl
                  @ concat (map (\<lambda>s. ''- **'' @ sk_name s @ ''** '' @ em_dash @ '' '' @ sk_description s @ nl) ss)))"

definition tool_catalog :: "tool_registry \<Rightarrow> string" where
  "tool_catalog reg =
     (let ts = list_tools reg in
      if ts = [] then []
      else nl @ nl @ ''## Available Tools'' @ nl
        @ concat (map (\<lambda>t. ''- **'' @ t_name t @ ''**: '' @ t_description t @ nl) ts))"

definition build_system_prompt :: "'re options \<Rightarrow> tool_registry \<Rightarrow> resolved_skill \<Rightarrow> string" where
  "build_system_prompt opts reg rs =
     base_preamble
     @ (if o_plan opts then plan_directive else [])
     @ memory_block (o_memory opts)
     @ (if o_cases opts \<noteq> [] then nl @ nl @ o_cases opts else [])
     @ skill_catalog (o_skills opts) rs
     @ (if rs_prompt rs \<noteq> []
        then nl @ nl @ ''## Active skill: '' @ rs_name rs @ nl @ rs_prompt rs else [])
     @ tool_catalog reg"

lemma new_agent_limits:
  "new_agent C t opts = Inr ag \<Longrightarrow>
     0 < o_max_steps (a_opts ag) \<and> 0 < o_max_tool_tokens (a_opts ag) \<and> o_model (a_opts ag) \<noteq> [] \<and>
     (o_registry (a_opts ag) \<noteq> None \<or> o_registry_fn (a_opts ag)) \<and>
     o_approver (a_opts ag) = o_approver opts \<and> o_registry (a_opts ag) = o_registry opts \<and>
     o_registry_fn (a_opts ag) = o_registry_fn opts \<and> o_skill (a_opts ag) = o_skill opts"
  by (auto simp: new_agent_def Let_def default_max_steps_def default_max_tool_tokens_def
      split: if_splits option.splits sum.splits)

lemma default_hooks_approval:
  "default_hooks C t opts = Inr hs \<Longrightarrow> o_approver opts \<Longrightarrow> \<not> o_registry_fn opts \<Longrightarrow>
     o_registry opts = Some a \<Longrightarrow> Approval (StaticReg a) \<in> set hs"
  by (auto simp: default_hooks_def Let_def split: option.splits sum.splits)

end
