(* ===== verification/Agent_Loop.thy ===== *)
theory Agent_Loop
  imports Agent_Prompt Agent_Hooks
begin

text \<open>
  The ReAct loop (\<open>internal/core/agent/agent.go\<close>: \<open>resolveSkill\<close>, \<open>resolveRegistry\<close>,
  \<open>streamAssistantTurn\<close>, \<open>dispatchTool\<close>, \<open>runTool\<close>, \<open>formatObservation\<close>, \<open>Run\<close>). The step
  counter makes the loop structural. A registry is an address of \<open>rt_regs\<close>: the skill filter
  allocates a new one, \<open>ToolsFor\<close> writes the aliases of the one the run uses, and the approval hook
  reads the one its getter names. The chunks of one stream are the list the channel delivers.
\<close>

section \<open>Start of a run\<close>

definition resolve_skill :: "'w env \<Rightarrow> 're options \<Rightarrow> 'w rt \<Rightarrow> (go_err + resolved_skill) \<times> 'w rt" where
  "resolve_skill E opts s =
     (case o_skill opts of
        None \<Rightarrow> (Inr no_skill, s)
      | Some name \<Rightarrow>
          (case ev_skill E (rt_world s) of
             (Inl e, w) \<Rightarrow> (Inl (ErrWrap ''agent: resolve skill'' e), s\<lparr>rt_world := w\<rparr>)
           | (Inr (prompt, allowed), w) \<Rightarrow>
               (Inr \<lparr>rs_name = name, rs_prompt = prompt, rs_allowed = allowed\<rparr>, s\<lparr>rt_world := w\<rparr>)))"

text \<open>\<open>Inl\<close> is the panic of a registration, \<open>Inr None\<close> the nil registry.\<close>

definition resolve_registry :: "'w env \<Rightarrow> 're options \<Rightarrow> resolved_skill \<Rightarrow> 'w rt
    \<Rightarrow> (tool_panic + nat option) \<times> 'w rt" where
  "resolve_registry E opts rs s =
     (let (addr, s1) = (if o_registry_fn opts then source_registry E RegistryFn s
                        else (o_registry opts, s))
      in case addr of
           None \<Rightarrow> (Inr None, s1)
         | Some a \<Rightarrow>
             if rs_allowed rs \<noteq> []
             then (case filter_tools (rt_regs s1 ! a) (rs_allowed rs) of
                     Inl p \<Rightarrow> (Inl p, s1)
                   | Inr sub \<Rightarrow>
                       (Inr (Some (length (rt_regs s1))), s1\<lparr>rt_regs := rt_regs s1 @ [sub]\<rparr>))
             else (Inr (Some a), s1))"

definition system_message :: "string \<Rightarrow> message" where
  "system_message p = \<lparr>m_role = RoleSystem, m_content = p, m_calls = [], m_call_id = []\<rparr>"

definition user_message :: "string \<Rightarrow> message" where
  "user_message p = \<lparr>m_role = RoleUser, m_content = p, m_calls = [], m_call_id = []\<rparr>"

definition initial_messages :: "string \<Rightarrow> message list \<Rightarrow> string \<Rightarrow> message list" where
  "initial_messages sys hist input =
     system_message sys # filter (\<lambda>m. m_role m \<noteq> RoleSystem) hist @ [user_message input]"

section \<open>One assistant turn\<close>

fun merge_tool_call :: "tool_call list \<Rightarrow> tool_call option \<Rightarrow> tool_call \<Rightarrow> tool_call list \<times> tool_call option" where
  "merge_tool_call calls None tc = (calls, Some tc)"
| "merge_tool_call calls (Some c) tc =
     (if tc_id c \<noteq> tc_id tc then (calls @ [c], Some tc)
      else (calls, Some (c\<lparr>tc_args := tc_args c @ tc_args tc,
                           tc_name := (if tc_name tc \<noteq> [] then tc_name tc else tc_name c)\<rparr>)))"

fun finish_calls :: "tool_call list \<Rightarrow> tool_call option \<Rightarrow> tool_call list" where
  "finish_calls calls None = calls"
| "finish_calls calls (Some c) = calls @ [c]"

fun consume :: "'w env \<Rightarrow> bool \<Rightarrow> chunk list \<Rightarrow> string \<Rightarrow> tool_call list \<Rightarrow> tool_call option
    \<Rightarrow> 're hook list \<Rightarrow> 'w rt \<Rightarrow> (go_err + (string \<times> tool_call list)) \<times> 're hook list \<times> 'w rt" where
  "consume E sink [] buf calls cur hs s = (Inr (buf, finish_calls calls cur), hs, s)"
| "consume E sink (ch # chs) buf calls cur hs s =
     (case ch_err ch of
        Some e \<Rightarrow> (Inl (ErrWrap ''agent: stream chunk error'' e), hs, s)
      | None \<Rightarrow>
          if ch_done ch then (Inr (buf, finish_calls calls cur), hs, s)
          else
            (let s1 = (if delta_text ch \<noteq> [] \<and> sink then emit (EvToken (delta_text ch)) s else s);
                 (hs2, s2, uerr) =
                   (case ch_usage ch of
                      None \<Rightarrow> (hs, s1, None)
                    | Some u \<Rightarrow> fire_on_usage E u hs (if sink then emit (EvUsage u) s1 else s1));
                 (calls', cur') =
                   (case ch_tool ch of
                      None \<Rightarrow> (calls, cur)
                    | Some tc \<Rightarrow> merge_tool_call calls cur tc)
             in case uerr of
                  Some e \<Rightarrow> (Inl e, hs2, s2)
                | None \<Rightarrow> consume E sink chs (buf @ delta_text ch) calls' cur' hs2 s2))"

definition assistant_message :: "string \<Rightarrow> tool_call list \<Rightarrow> message" where
  "assistant_message txt calls =
     \<lparr>m_role = RoleAssistant, m_content = txt, m_calls = calls, m_call_id = []\<rparr>"

definition stream_assistant_turn :: "'w env \<Rightarrow> bool \<Rightarrow> 're options \<Rightarrow> message list \<Rightarrow> llm_tool list
    \<Rightarrow> 're hook list \<Rightarrow> 'w rt \<Rightarrow> (go_err + message) \<times> 're hook list \<times> 'w rt" where
  "stream_assistant_turn E sink opts msgs tls hs s =
     (case ev_stream E \<lparr>rq_model = o_model opts, rq_messages = msgs, rq_tools = tls\<rparr> (rt_world s) of
        (Inl e, w) \<Rightarrow> (Inl (ErrWrap ''agent: provider stream error'' e), hs, s\<lparr>rt_world := w\<rparr>)
      | (Inr chs, w) \<Rightarrow>
          (case consume E sink chs [] [] None hs (s\<lparr>rt_world := w\<rparr>) of
             (Inl e, hs', s') \<Rightarrow> (Inl e, hs', s')
           | (Inr (txt, calls), hs', s') \<Rightarrow> (Inr (assistant_message txt calls), hs', s')))"

section \<open>One tool call\<close>

definition run_tool :: "'re agent_lib \<Rightarrow> 'w env \<Rightarrow> bool \<Rightarrow> tool_call \<Rightarrow> nat \<Rightarrow> 'w rt
    \<Rightarrow> (observation \<times> go_err option) \<times> 'w rt" where
  "run_tool L E sink tc reg s =
     (let s1 = (if sink then emit (EvBegin (tc_name tc) (tc_args tc)) s else s) in
      case get_tool (rt_regs s1 ! reg) (tc_name tc) of
        None \<Rightarrow>
          (let err = ErrToolUnavailable (tc_name tc)
           in ((\<lparr>ob_text = err_text (al_fmt L) err, ob_table = None, ob_raw = RawNil\<rparr>, Some err),
               if sink then emit (EvEnd [] (Some err)) s1 else s1))
      | Some t \<Rightarrow>
          (let ((obs, err), w) = ev_tool E (t_name t) (tc_args tc) (rt_world s1);
               s2 = emit (EvRun (t_name t) (tc_args tc)) (s1\<lparr>rt_world := w\<rparr>)
           in ((obs, err),
               if sink
               then (case err of
                       Some e \<Rightarrow> emit (EvEnd [] (Some e)) s2
                     | None \<Rightarrow> emit (EvEnd (observation_text obs) None) s2)
               else s2)))"

definition format_observation :: "gofmt \<Rightarrow> int \<Rightarrow> observation \<Rightarrow> go_err option \<Rightarrow> string" where
  "format_observation F max_tok obs err =
     (case err of
        Some e \<Rightarrow> ''error: '' @ err_text F e
      | None \<Rightarrow> truncate_middle (observation_text obs) max_tok)"

definition tool_message :: "string \<Rightarrow> string \<Rightarrow> message" where
  "tool_message txt cid = \<lparr>m_role = RoleTool, m_content = txt, m_calls = [], m_call_id = cid\<rparr>"

definition dispatch_tool :: "'re agent_lib \<Rightarrow> 'w env \<Rightarrow> bool \<Rightarrow> int \<Rightarrow> tool_call \<Rightarrow> nat \<Rightarrow> 're hook list \<Rightarrow> 'w rt
    \<Rightarrow> message \<times> go_err option \<times> 're hook list \<times> 'w rt" where
  "dispatch_tool L E sink max_tok tc reg hs s =
     (case before_all L E tc hs s of
        (hs1, s1, Some e) \<Rightarrow>
          (tool_message (''error: '' @ err_text (al_fmt L) e) (tc_id tc), Some e, hs1, s1)
      | (hs1, s1, None) \<Rightarrow>
          (let ((obs, run_err), s2) = run_tool L E sink tc reg s1 in
           case after_all L tc hs1 obs run_err of
             (obs', Some e) \<Rightarrow>
               (tool_message (''error: '' @ err_text (al_fmt L) e) (tc_id tc), Some e, hs1, s2)
           | (obs', None) \<Rightarrow>
               (tool_message (format_observation (al_fmt L) max_tok obs' run_err) (tc_id tc), None, hs1, s2)))"

fun dispatch_calls :: "'re agent_lib \<Rightarrow> 'w env \<Rightarrow> bool \<Rightarrow> int \<Rightarrow> nat \<Rightarrow> tool_call list \<Rightarrow> message list
    \<Rightarrow> 're hook list \<Rightarrow> 'w rt \<Rightarrow> message list \<times> go_err option \<times> 're hook list \<times> 'w rt" where
  "dispatch_calls L E sink max_tok reg [] msgs hs s = (msgs, None, hs, s)"
| "dispatch_calls L E sink max_tok reg (tc # tcs) msgs hs s =
     (case dispatch_tool L E sink max_tok tc reg hs s of
        (m, Some e, hs', s') \<Rightarrow> (msgs @ [m], Some e, hs', s')
      | (m, None, hs', s') \<Rightarrow> dispatch_calls L E sink max_tok reg tcs (msgs @ [m]) hs' s')"

section \<open>The loop\<close>

definition past_deadline :: "'w env \<Rightarrow> gotime option \<Rightarrow> 'w rt \<Rightarrow> bool \<times> 'w rt" where
  "past_deadline E deadline s =
     (case deadline of
        None \<Rightarrow> (False, s)
      | Some d \<Rightarrow> (let (t, s') = now E s in (t > d, s')))"

fun run_loop :: "'re agent_lib \<Rightarrow> 'w env \<Rightarrow> bool \<Rightarrow> 're options \<Rightarrow> gotime option \<Rightarrow> llm_tool list \<Rightarrow> nat
    \<Rightarrow> nat \<Rightarrow> message list \<Rightarrow> 're hook list \<Rightarrow> 'w rt
    \<Rightarrow> message list \<times> go_err option \<times> 're hook list \<times> 'w rt" where
  "run_loop L E sink opts dl tls reg 0 msgs hs s = (msgs, Some ErrMaxSteps, hs, s)"
| "run_loop L E sink opts dl tls reg (Suc n) msgs hs s =
     (let (late, s1) = past_deadline E dl s in
      if late then (msgs, Some ErrConversationTimeout, hs, s1)
      else (case stream_assistant_turn E sink opts msgs tls hs s1 of
              (Inl e, hs2, s2) \<Rightarrow>
                if dl \<noteq> None \<and> is_deadline e then (msgs, Some ErrConversationTimeout, hs2, s2)
                else (msgs, Some e, hs2, s2)
            | (Inr asst, hs2, s2) \<Rightarrow>
                (let msgs2 = msgs @ [asst] in
                 if m_calls asst = [] then (msgs2, None, hs2, s2)
                 else (case dispatch_calls L E sink (o_max_tool_tokens opts) reg (m_calls asst) msgs2 hs2 s2 of
                         (msgs3, Some e, hs3, s3) \<Rightarrow> (msgs3, Some e, hs3, s3)
                       | (msgs3, None, hs3, s3) \<Rightarrow>
                           run_loop L E sink opts dl tls reg n msgs3 hs3 s3))))"

definition start_deadline :: "'w env \<Rightarrow> 're options \<Rightarrow> 'w rt \<Rightarrow> gotime option \<times> 'w rt" where
  "start_deadline E opts s =
     (if o_max_conversation_seconds opts > 0
      then (let (t, s') = now E s in (Some (t + o_max_conversation_seconds opts * 1000000000), s'))
      else (None, s))"

datatype run_result = RunPanic tool_panic | Returned "message list" "go_err option"

definition no_registry_error :: go_err where
  "no_registry_error = ErrOther ''agent: no registry available''"

definition agent_run :: "'re agent_lib \<Rightarrow> 'w env \<Rightarrow> bool \<Rightarrow> string \<Rightarrow> 're agent \<Rightarrow> 'w rt
    \<Rightarrow> run_result \<times> 're agent \<times> 'w rt" where
  "agent_run L E sink input ag s =
     (let opts = a_opts ag in
      case resolve_skill E opts s of
        (Inl e, s1) \<Rightarrow> (Returned [] (Some e), ag, s1)
      | (Inr rs, s1) \<Rightarrow>
          (case resolve_registry E opts rs s1 of
             (Inl p, s2) \<Rightarrow> (RunPanic p, ag, s2)
           | (Inr None, s2) \<Rightarrow> (Returned [] (Some no_registry_error), ag, s2)
           | (Inr (Some reg), s2) \<Rightarrow>
               (let (dl, s3) = start_deadline E opts s2;
                    sys = build_system_prompt opts (rt_regs s3 ! reg) rs;
                    msgs = initial_messages sys (o_history opts) input;
                    (tls, reg') = tools_for (rt_regs s3 ! reg) (the (o_provider opts));
                    s4 = s3\<lparr>rt_regs := (rt_regs s3)[reg := reg']\<rparr>;
                    (out, err, hs, s5) =
                      run_loop L E sink opts dl tls reg (nat (o_max_steps opts)) msgs (a_hooks ag) s4
                in (Returned out err, ag\<lparr>a_hooks := hs\<rparr>, s5))))"

end
