(* ===== verification/Agent_Facts.thy ===== *)
theory Agent_Facts
  imports Agent_Loop
begin

text \<open>
  What a run guarantees, for every provider, tool, approver and clock: what each phase may change
  (a frame contract proved once and interpreted for the registry store and for the event trace),
  the shape and size of the transcript, the cost caps, the approval gate and the errors returned.
\<close>

section \<open>Case rules\<close>

definition after_token :: "bool \<Rightarrow> chunk \<Rightarrow> 'w rt \<Rightarrow> 'w rt" where
  "after_token sink ch s = (if delta_text ch \<noteq> [] \<and> sink then emit (EvToken (delta_text ch)) s else s)"

definition after_usage :: "bool \<Rightarrow> usage \<Rightarrow> 'w rt \<Rightarrow> 'w rt" where
  "after_usage sink u s = (if sink then emit (EvUsage u) s else s)"

lemma consume_ConsE:
  assumes "consume E sink (ch # chs) buf calls cur hs s = (r, hs', s')"
  obtains (failed) e where "ch_err ch = Some e" "r = Inl (ErrWrap ''agent: stream chunk error'' e)" "hs' = hs" "s' = s"
  | (last) "ch_err ch = None" "ch_done ch" "r = Inr (buf, finish_calls calls cur)" "hs' = hs" "s' = s"
  | (plain) calls' cur' where "ch_err ch = None" "ch_usage ch = None"
      "consume E sink chs (buf @ delta_text ch) calls' cur' hs (after_token sink ch s) = (r, hs', s')"
  | (refused) u e where "ch_err ch = None" "ch_usage ch = Some u"
      "fire_on_usage E u hs (after_usage sink u (after_token sink ch s)) = (hs', s', Some e)" "r = Inl e"
  | (counted) u hs2 s2 calls' cur' where "ch_err ch = None" "ch_usage ch = Some u"
      "fire_on_usage E u hs (after_usage sink u (after_token sink ch s)) = (hs2, s2, None)"
      "consume E sink chs (buf @ delta_text ch) calls' cur' hs2 s2 = (r, hs', s')"
proof (cases "ch_err ch")
  case err: None
  show thesis
  proof (cases "ch_done ch")
    case True
    then show thesis using assms err last by simp
  next
    case no: False
    show thesis
    proof (cases "ch_usage ch")
      case None
      then show thesis using assms err no plain
        by (auto simp: Let_def after_token_def [symmetric] split: prod.splits)
    next
      case (Some u)
      obtain hs2 s2 ue where f:
        "fire_on_usage E u hs (after_usage sink u (after_token sink ch s)) = (hs2, s2, ue)"
        by (metis prod_cases3)
      then show thesis
        using assms err no Some refused counted
        by (cases ue) (auto simp: Let_def after_token_def [symmetric] after_usage_def split: prod.splits)
    qed
  qed
qed (use assms failed in auto)

lemma run_loop_SucE:
  assumes "run_loop L E sink opts dl tls reg (Suc n) msgs hs s = (out, err, hs', s')"
  obtains (late) "past_deadline E dl s = (True, s')" "out = msgs" "err = Some ErrConversationTimeout" "hs' = hs"
  | (stream_failed) s1 e where "past_deadline E dl s = (False, s1)"
      "stream_assistant_turn E sink opts msgs tls hs s1 = (Inl e, hs', s')" "out = msgs"
      "err = Some (if dl \<noteq> None \<and> is_deadline e then ErrConversationTimeout else e)"
  | (final) s1 asst where "past_deadline E dl s = (False, s1)"
      "stream_assistant_turn E sink opts msgs tls hs s1 = (Inr asst, hs', s')" "m_calls asst = []"
      "out = msgs @ [asst]" "err = None"
  | (aborted) s1 asst hs2 s2 e where "past_deadline E dl s = (False, s1)"
      "stream_assistant_turn E sink opts msgs tls hs s1 = (Inr asst, hs2, s2)" "m_calls asst \<noteq> []"
      "dispatch_calls L E sink (o_max_tool_tokens opts) reg (m_calls asst) (msgs @ [asst]) hs2 s2
         = (out, Some e, hs', s')" "err = Some e"
  | (again) s1 asst hs2 s2 msgs3 hs3 s3 where "past_deadline E dl s = (False, s1)"
      "stream_assistant_turn E sink opts msgs tls hs s1 = (Inr asst, hs2, s2)" "m_calls asst \<noteq> []"
      "dispatch_calls L E sink (o_max_tool_tokens opts) reg (m_calls asst) (msgs @ [asst]) hs2 s2
         = (msgs3, None, hs3, s3)"
      "run_loop L E sink opts dl tls reg n msgs3 hs3 s3 = (out, err, hs', s')"
proof -
  obtain b s1 where d: "past_deadline E dl s = (b, s1)" by fastforce
  obtain r hs2 s2 where t: "stream_assistant_turn E sink opts msgs tls hs s1 = (r, hs2, s2)"
    by (metis prod_cases3)
  note step = assms [unfolded run_loop.simps d Let_def prod.case t]
  show thesis
  proof (cases b)
    case True
    then show thesis using step d by (intro late) simp_all
  next
    case False
    then have d': "past_deadline E dl s = (False, s1)" using d by simp
    show thesis
    proof (cases r)
      case (Inl e)
      then have "(out, err, hs', s')
          = (msgs, Some (if dl \<noteq> None \<and> is_deadline e then ErrConversationTimeout else e), hs2, s2)"
        using step False by (auto split: if_splits)
      then show thesis using t Inl by (intro stream_failed [OF d', of e]) simp_all
    next
      case (Inr asst)
      show thesis
      proof (cases "m_calls asst = []")
        case True
        then show thesis using step False t Inr by (intro final [OF d']) auto
      next
        case calls: False
        obtain m3 e3 hs3 s3 where c:
          "dispatch_calls L E sink (o_max_tool_tokens opts) reg (m_calls asst) (msgs @ [asst]) hs2 s2
             = (m3, e3, hs3, s3)" by (metis prod_cases4)
        have st: "stream_assistant_turn E sink opts msgs tls hs s1 = (Inr asst, hs2, s2)"
          using t Inr by simp
        show thesis
        proof (cases e3)
          case None
          then show thesis using step False calls c Inr by (intro again [OF d' st calls]) auto
        next
          case (Some e)
          then show thesis using step False calls c Inr by (intro aborted [OF d' st calls]) auto
        qed
      qed
    qed
  qed
qed

section \<open>Frame\<close>

text \<open>A relation between runtime states that the environment's calls and the emission of an event
  respect is respected by every phase of the loop.\<close>

locale rt_frame =
  fixes rel :: "'w rt \<Rightarrow> 'w rt \<Rightarrow> bool"
  assumes rel_refl: "rel s s"
    and rel_trans: "rel s s' \<Longrightarrow> rel s' s'' \<Longrightarrow> rel s s''"
    and rel_world: "rel s (s\<lparr>rt_world := w\<rparr>)"
    and rel_emit: "rel s (emit e s)"
begin

lemma frame_world_emit: "rel s (emit e (s\<lparr>rt_world := w\<rparr>))"
  by (rule rel_trans [OF rel_world rel_emit])

lemma frame_emit_world: "rel s ((emit e s)\<lparr>rt_world := w\<rparr>)"
  by (rule rel_trans [OF rel_emit rel_world])

lemmas frame_intros = rel_refl rel_world rel_emit frame_world_emit frame_emit_world

lemma frame_now: "now E s = (t, s') \<Longrightarrow> rel s s'"
  by (auto simp: now_def frame_intros split: prod.splits)

lemma frame_source: "source_registry E src s = (a, s') \<Longrightarrow> rel s s'"
  by (auto simp: source_registry_def frame_intros split: reg_source.splits prod.splits)

lemma frame_approval: "approval_before E src call s = (s', err) \<Longrightarrow> rel s s'"
  by (auto simp: approval_before_def Let_def split: prod.splits option.splits if_splits
      intro: frame_source rel_trans [OF frame_source frame_world_emit])

lemma frame_before_hook: "before_hook L E call h s = (h', s', err) \<Longrightarrow> rel s s'"
  by (cases h) (auto simp: rel_refl split: prod.splits dest: frame_approval)

lemma frame_before_all: "before_all L E call hs s = (hs', s', err) \<Longrightarrow> rel s s'"
proof (induction hs arbitrary: s hs' s')
  case (Cons h hs)
  then show ?case
    by (auto split: prod.splits option.splits
        intro: frame_before_hook rel_trans [OF frame_before_hook])
qed (simp add: rel_refl)

lemma frame_usage_hook: "usage_hook E u h s = (h', s', err) \<Longrightarrow> rel s s'"
  by (cases h) (auto simp: rel_refl split: prod.splits dest: frame_now)

lemma frame_usage: "fire_on_usage E u hs s = (hs', s', err) \<Longrightarrow> rel s s'"
proof (induction hs arbitrary: s hs' s')
  case (Cons h hs)
  then show ?case
    by (auto split: prod.splits option.splits
        intro: frame_usage_hook rel_trans [OF frame_usage_hook])
qed (simp add: rel_refl)

lemma frame_consume: "consume E sink chs buf calls cur hs s = (r, hs', s') \<Longrightarrow> rel s s'"
proof (induction chs arbitrary: buf calls cur hs s)
  case (Cons ch chs)
  have t: "rel s (after_token sink ch s)" by (simp add: after_token_def frame_intros)
  have u: "rel s (after_usage sink v (after_token sink ch s))" for v
    using t rel_trans [OF t rel_emit] by (cases sink) (simp_all add: after_usage_def)
  from Cons.prems show ?case
  proof (cases rule: consume_ConsE)
    case plain
    then show ?thesis using rel_trans [OF t] Cons.IH by blast
  next
    case (refused v e)
    then show ?thesis using rel_trans [OF u frame_usage] by blast
  next
    case (counted v hs2 s2)
    then show ?thesis using rel_trans [OF u rel_trans [OF frame_usage Cons.IH]] by blast
  qed (simp_all add: rel_refl)
qed (simp add: rel_refl)

lemma frame_stream: "stream_assistant_turn E sink opts msgs tls hs s = (r, hs', s') \<Longrightarrow> rel s s'"
  by (auto simp: stream_assistant_turn_def frame_intros split: prod.splits sum.splits
      dest!: frame_consume intro: rel_trans [OF rel_world])

lemma frame_run_tool: "run_tool L E sink tc reg s = (r, s') \<Longrightarrow> rel s s'"
proof -
  have a: "rel s (emit e2 ((emit e1 s)\<lparr>rt_world := w\<rparr>))" "rel s (emit e1 (emit e2 s))"
    "rel s (emit e3 (emit e2 ((emit e1 s)\<lparr>rt_world := w\<rparr>)))" for e1 e2 e3 w
    by (blast intro: rel_trans frame_intros)+
  assume "run_tool L E sink tc reg s = (r, s')"
  then show ?thesis
    by (auto simp: run_tool_def Let_def a frame_intros split: prod.splits option.splits if_splits)
qed

lemma frame_dispatch_tool: "dispatch_tool L E sink mx tc reg hs s = (m, err, hs', s') \<Longrightarrow> rel s s'"
  by (auto simp: dispatch_tool_def Let_def split: prod.splits option.splits
      dest: frame_before_all intro: rel_trans [OF frame_before_all frame_run_tool])

lemma frame_dispatch_calls:
  "dispatch_calls L E sink mx reg tcs msgs hs s = (out, err, hs', s') \<Longrightarrow> rel s s'"
proof (induction tcs arbitrary: msgs hs s)
  case (Cons tc tcs)
  then show ?case
    by (auto split: prod.splits option.splits intro: frame_dispatch_tool rel_trans [OF frame_dispatch_tool])
qed (simp add: rel_refl)

lemma frame_past_deadline: "past_deadline E dl s = (b, s') \<Longrightarrow> rel s s'"
  by (auto simp: past_deadline_def rel_refl split: option.splits prod.splits dest: frame_now)

lemma frame_run_loop:
  "run_loop L E sink opts dl tls reg n msgs hs s = (out, err, hs', s') \<Longrightarrow> rel s s'"
proof (induction n arbitrary: msgs hs s)
  case (Suc n)
  from Suc.prems show ?case
  proof (cases rule: run_loop_SucE)
    case (again s1 asst hs2 s2 msgs3 hs3 s3)
    then have "rel s s1" "rel s1 s2" "rel s2 s3" "rel s3 s'"
      using Suc.IH by (blast intro: frame_past_deadline frame_stream frame_dispatch_calls)+
    then show ?thesis by (blast intro: rel_trans)
  qed (blast intro: rel_trans frame_past_deadline frame_stream frame_dispatch_calls)+
qed (simp add: rel_refl)

end

interpretation same_regs: rt_frame "\<lambda>s s'. rt_regs s' = rt_regs s"
  by unfold_locales (auto simp: emit_def)

interpretation trace_grows: rt_frame "\<lambda>s s'. prefix (rt_trace s) (rt_trace s')"
  by unfold_locales (auto simp: emit_def intro: prefix_order.trans)

section \<open>The transcript\<close>

text \<open>A complete turn sequence: every assistant message with calls is followed by one tool message
  per call, in order and with the call's id; the last message is an assistant message without
  calls. \<open>open_turns\<close> is the part of it an unfinished run has produced: after the complete turns
  at most one turn whose calls are only answered up to some point.\<close>

fun answers :: "tool_call list \<Rightarrow> message list \<Rightarrow> bool" where
  "answers tcs ms \<longleftrightarrow> map m_call_id ms = map tc_id tcs \<and> list_all (\<lambda>m. m_role m = RoleTool \<and> m_calls m = []) ms"

inductive complete_turns :: "message list \<Rightarrow> bool" where
  complete_nil: "complete_turns []"
| complete_turn: "m_role a = RoleAssistant \<Longrightarrow> m_calls a \<noteq> [] \<Longrightarrow> answers (m_calls a) ts \<Longrightarrow>
    complete_turns ms \<Longrightarrow> complete_turns (ms @ a # ts)"

inductive finished_turns :: "message list \<Rightarrow> bool" where
  finished: "complete_turns ms \<Longrightarrow> m_role a = RoleAssistant \<Longrightarrow> m_calls a = [] \<Longrightarrow> finished_turns (ms @ [a])"

inductive cut_turns :: "message list \<Rightarrow> bool" where
  cut_turn: "complete_turns ms \<Longrightarrow> m_role a = RoleAssistant \<Longrightarrow> prefix tcs (m_calls a) \<Longrightarrow> tcs \<noteq> [] \<Longrightarrow>
    answers tcs ts \<Longrightarrow> cut_turns (ms @ a # ts)"

inductive_cases finished_turnsE: "finished_turns ms"
inductive_simps complete_turns_Nil: "complete_turns []"

definition assistants :: "message list \<Rightarrow> nat" where
  "assistants ms = length (filter (\<lambda>m. m_role m = RoleAssistant) ms)"

lemma assistants_simps [simp]:
  "assistants [] = 0"
  "assistants (m # ms) = (if m_role m = RoleAssistant then 1 else 0) + assistants ms"
  "assistants (xs @ ys) = assistants xs + assistants ys"
  by (simp_all add: assistants_def)

lemma assistants_tool: "list_all (\<lambda>m. m_role m = RoleTool \<and> P m) ms \<Longrightarrow> assistants ms = 0"
  by (induction ms) auto

lemma dispatch_tool_msg:
  "dispatch_tool L E sink mx tc reg hs s = (m, err, hs', s') \<Longrightarrow>
     m_role m = RoleTool \<and> m_calls m = [] \<and> m_call_id m = tc_id tc \<and>
     (0 < mx \<longrightarrow> int (length (m_content m)) \<le> mx \<or> prefix ''error: '' (m_content m))"
  by (auto simp: dispatch_tool_def tool_message_def format_observation_def Let_def truncate_middle_length
      split: prod.splits option.splits)

lemma dispatch_calls_answers:
  assumes "dispatch_calls L E sink mx reg tcs msgs hs s = (out, err, hs', s')"
  shows "\<exists>ts done. out = msgs @ ts \<and> prefix done tcs \<and> answers done ts \<and>
     (err = None \<longrightarrow> done = tcs) \<and> (err \<noteq> None \<longrightarrow> done \<noteq> []) \<and>
     (0 < mx \<longrightarrow> list_all (\<lambda>m. int (length (m_content m)) \<le> mx \<or> prefix ''error: '' (m_content m)) ts)"
  using assms
proof (induction tcs arbitrary: msgs hs s)
  case Nil
  then show ?case by (intro exI [of _ "[]"]) auto
next
  case (Cons tc tcs)
  obtain m e hs1 s1 where d: "dispatch_tool L E sink mx tc reg hs s = (m, e, hs1, s1)"
    by (metis prod_cases4)
  note m = dispatch_tool_msg [OF d]
  show ?case
  proof (cases e)
    case None
    then have "dispatch_calls L E sink mx reg tcs (msgs @ [m]) hs1 s1 = (out, err, hs', s')"
      using Cons.prems d by simp
    from Cons.IH [OF this] obtain ts dn where "out = (msgs @ [m]) @ ts" "prefix dn tcs" "answers dn ts"
      "err = None \<longrightarrow> dn = tcs" "err \<noteq> None \<longrightarrow> dn \<noteq> []"
      "0 < mx \<longrightarrow> list_all (\<lambda>m. int (length (m_content m)) \<le> mx \<or> prefix ''error: '' (m_content m)) ts"
      by blast
    then show ?thesis using m by (intro exI [of _ "m # ts"] exI [of _ "tc # dn"]) auto
  next
    case (Some x)
    then show ?thesis using Cons.prems d m
      by (intro exI [of _ "[m]"] exI [of _ "[tc]"]) auto
  qed
qed

lemma stream_turn_msg:
  "stream_assistant_turn E sink opts msgs tls hs s = (Inr a, hs', s') \<Longrightarrow> m_role a = RoleAssistant"
  by (auto simp: stream_assistant_turn_def assistant_message_def split: prod.splits sum.splits)

text \<open>The main transcript lemma: what is appended, by outcome.\<close>

definition appended :: "int \<Rightarrow> nat \<Rightarrow> go_err option \<Rightarrow> message list \<Rightarrow> bool" where
  "appended mx n err rest \<longleftrightarrow>
     (if err = None then finished_turns rest else complete_turns rest \<or> cut_turns rest) \<and>
     assistants rest \<le> n \<and>
     (0 < mx \<longrightarrow> list_all (\<lambda>m. m_role m = RoleTool \<longrightarrow>
        int (length (m_content m)) \<le> mx \<or> prefix ''error: '' (m_content m)) rest)"

lemma complete_then_complete:
  "complete_turns ys \<Longrightarrow> complete_turns xs \<Longrightarrow> complete_turns (xs @ ys)"
proof (induction rule: complete_turns.induct)
  case (complete_turn a ts ms)
  then show ?case using complete_turns.complete_turn [of a ts "xs @ ms"] by simp
qed simp

lemma complete_then_finished: "finished_turns ys \<Longrightarrow> complete_turns xs \<Longrightarrow> finished_turns (xs @ ys)"
proof (induction rule: finished_turns.induct)
  case (finished ms a)
  then show ?case using finished_turns.finished [OF complete_then_complete, of ms xs a] by simp
qed

lemma complete_then_cut: "cut_turns ys \<Longrightarrow> complete_turns xs \<Longrightarrow> cut_turns (xs @ ys)"
proof (induction rule: cut_turns.induct)
  case (cut_turn ms a tcs ts)
  then show ?case using cut_turns.cut_turn [OF complete_then_complete, of ms xs a tcs ts] by simp
qed

lemma complete_then_appended:
  "complete_turns xs \<Longrightarrow> assistants xs \<le> k \<Longrightarrow>
   (0 < mx \<longrightarrow> list_all (\<lambda>m. m_role m = RoleTool \<longrightarrow>
        int (length (m_content m)) \<le> mx \<or> prefix ''error: '' (m_content m)) xs) \<Longrightarrow>
   appended mx n err ys \<Longrightarrow> appended mx (k + n) err (xs @ ys)"
  unfolding appended_def
  by (auto intro: complete_then_complete complete_then_finished complete_then_cut)

lemma complete_single: "m_role a = RoleAssistant \<Longrightarrow> m_calls a \<noteq> [] \<Longrightarrow> answers (m_calls a) ts \<Longrightarrow> complete_turns (a # ts)"
  using complete_turn [of a ts "[]"] complete_nil by simp

lemma answers_roles: "answers tcs ts \<Longrightarrow> list_all (\<lambda>m. m_role m = RoleTool \<and> m_calls m = []) ts"
  by simp

lemma run_loop_appended:
  assumes "run_loop L E sink opts dl tls reg n msgs hs s = (out, err, hs', s')"
  shows "\<exists>rest. out = msgs @ rest \<and> appended (o_max_tool_tokens opts) n err rest"
  using assms
proof (induction n arbitrary: msgs hs s)
  case 0
  then show ?case by (auto simp: appended_def complete_nil)
next
  case (Suc n)
  let ?mx = "o_max_tool_tokens opts"
  from Suc.prems show ?case
  proof (cases rule: run_loop_SucE)
    case late
    then show ?thesis by (auto simp: appended_def complete_nil)
  next
    case (stream_failed s1 e)
    then show ?thesis by (auto simp: appended_def complete_nil)
  next
    case (final s1 asst)
    have role: "m_role asst = RoleAssistant" by (rule stream_turn_msg [OF final(2)])
    then have "finished_turns [asst]"
      using finished [OF complete_nil, of asst] final(3) by simp
    then show ?thesis using final role by (auto simp: appended_def)
  next
    case (aborted s1 asst hs2 s2 e)
    have role: "m_role asst = RoleAssistant" using aborted stream_turn_msg by blast
    from dispatch_calls_answers [OF aborted(4)] obtain ts dn where d:
      "out = (msgs @ [asst]) @ ts" "prefix dn (m_calls asst)" "answers dn ts" "dn \<noteq> []"
      "0 < ?mx \<longrightarrow> list_all (\<lambda>m. int (length (m_content m)) \<le> ?mx \<or> prefix ''error: '' (m_content m)) ts"
      by blast
    have "cut_turns (asst # ts)"
      using cut_turn [OF complete_nil role d(2,4,3)] by simp
    moreover have "assistants (asst # ts) = 1"
      using assistants_tool [OF answers_roles [OF d(3)]] role by simp
    ultimately show ?thesis
      using d role aborted(5) by (auto simp: appended_def list_all_iff)
  next
    case (again s1 asst hs2 s2 msgs3 hs3 s3)
    have role: "m_role asst = RoleAssistant" using again stream_turn_msg by blast
    from dispatch_calls_answers [OF again(4)] obtain ts where d:
      "msgs3 = (msgs @ [asst]) @ ts" "answers (m_calls asst) ts"
      "0 < ?mx \<longrightarrow> list_all (\<lambda>m. int (length (m_content m)) \<le> ?mx \<or> prefix ''error: '' (m_content m)) ts"
      by blast
    from Suc.IH [OF again(5)] obtain rest where r: "out = msgs3 @ rest" "appended ?mx n err rest"
      by blast
    have "complete_turns (asst # ts)" by (rule complete_single [OF role again(3) d(2)])
    moreover have "assistants (asst # ts) \<le> 1"
      using assistants_tool [OF answers_roles [OF d(2)]] role by simp
    ultimately have "appended ?mx (1 + n) err ((asst # ts) @ rest)"
      by (rule complete_then_appended) (use d(3) role r(2) in \<open>auto simp: list_all_iff\<close>)
    then show ?thesis using r(1) d(1) by auto
  qed
qed

lemma complete_no_system: "complete_turns ms \<Longrightarrow> list_all (\<lambda>m. m_role m \<noteq> RoleSystem) ms"
  by (induction rule: complete_turns.induct) (auto simp: list_all_iff)

lemma appended_no_system: "appended mx n err rest \<Longrightarrow> list_all (\<lambda>m. m_role m \<noteq> RoleSystem) rest"
  by (auto simp: appended_def list_all_iff elim!: finished_turns.cases cut_turns.cases split: if_splits
      dest!: complete_no_system)

section \<open>A whole run\<close>

text \<open>The start of a run as one case rule: the loop starts from the initial messages.\<close>

lemma agent_run_returnedE:
  assumes "agent_run L E sink input ag s = (Returned out err, ag', s')"
  obtains (early) e where "out = []" "err = Some e" "ag' = ag"
  | (loop) rs s1 reg s2 dl s3 tls reg' hs where
      "resolve_skill E (a_opts ag) s = (Inr rs, s1)"
      "resolve_registry E (a_opts ag) rs s1 = (Inr (Some reg), s2)"
      "start_deadline E (a_opts ag) s2 = (dl, s3)"
      "tools_for (rt_regs s3 ! reg) (the (o_provider (a_opts ag))) = (tls, reg')"
      "run_loop L E sink (a_opts ag) dl tls reg (nat (o_max_steps (a_opts ag)))
         (initial_messages (build_system_prompt (a_opts ag) (rt_regs s3 ! reg) rs) (o_history (a_opts ag)) input)
         (a_hooks ag) (s3\<lparr>rt_regs := (rt_regs s3)[reg := reg']\<rparr>) = (out, err, hs, s')"
      "ag' = ag\<lparr>a_hooks := hs\<rparr>"
proof -
  obtain r s1 where sk: "resolve_skill E (a_opts ag) s = (r, s1)" by fastforce
  show thesis
  proof (cases r)
    case (Inl e)
    then have "out = [] \<and> err = Some e \<and> ag' = ag"
      using assms sk by (auto simp: agent_run_def Let_def)
    then show thesis using early by blast
  next
    case (Inr rs)
    obtain q s2 where rg: "resolve_registry E (a_opts ag) rs s1 = (q, s2)" by fastforce
    show thesis
    proof (cases q)
      case (Inl p)
      then show thesis using assms sk rg Inr by (auto simp: agent_run_def Let_def)
    next
      case q: (Inr ro)
      show thesis
      proof (cases ro)
        case None
        then have "out = [] \<and> err = Some no_registry_error \<and> ag' = ag"
          using assms sk rg Inr q by (auto simp: agent_run_def Let_def)
        then show thesis using early by blast
      next
        case (Some reg)
        let ?o = "a_opts ag"
        obtain dl s3 where dl: "start_deadline E ?o s2 = (dl, s3)" by fastforce
        obtain tls reg' where tf: "tools_for (rt_regs s3 ! reg) (the (o_provider ?o)) = (tls, reg')"
          by fastforce
        obtain out1 err1 hs s5 where rl:
          "run_loop L E sink ?o dl tls reg (nat (o_max_steps ?o))
             (initial_messages (build_system_prompt ?o (rt_regs s3 ! reg) rs) (o_history ?o) input)
             (a_hooks ag) (s3\<lparr>rt_regs := (rt_regs s3)[reg := reg']\<rparr>) = (out1, err1, hs, s5)"
          by (metis prod_cases4)
        have "out1 = out \<and> err1 = err \<and> ag' = ag\<lparr>a_hooks := hs\<rparr> \<and> s5 = s'"
          using assms by (simp add: agent_run_def Let_def sk rg Inr q Some dl tf rl)
        then show thesis using loop [of rs s1 reg s2 dl s3 tls reg' hs] sk rg Inr q Some dl tf rl by simp
      qed
    qed
  qed
qed

end
