(* ===== verification/Agent_Policy.thy ===== *)
theory Agent_Policy
  imports Agent_Facts
begin

text \<open>
  The policies of a run: the cost caps hold when a run goes on or ends well, no high-risk tool of
  the registry the approval hook reads runs without a yes to that very call, an expired budget is
  reported as such, and the case the approval hook misses (a registry whose aliases it does not
  hold).
\<close>

section \<open>Cost caps\<close>

definition within_caps :: "cost_guard \<Rightarrow> bool" where
  "within_caps g \<longleftrightarrow>
     (cg_max_tokens g > 0 \<longrightarrow> cg_in g + cg_out g \<le> cg_max_tokens g) \<and>
     (cg_max_usd g > 0 \<longrightarrow> cg_usd g \<le> cg_max_usd g)"

definition guards_within :: "'re hook list \<Rightarrow> bool" where
  "guards_within hs \<longleftrightarrow> list_all (\<lambda>h. case h of CostGuard g \<Rightarrow> within_caps g | _ \<Rightarrow> True) hs"

lemma guards_within_simps [simp]:
  "guards_within []"
  "guards_within (h # hs) \<longleftrightarrow> (case h of CostGuard g \<Rightarrow> within_caps g | _ \<Rightarrow> True) \<and> guards_within hs"
  by (simp_all add: guards_within_def)

lemma before_all_guards:
  "before_all L E call hs s = (hs', s', err) \<Longrightarrow> guards_within hs \<Longrightarrow> guards_within hs'"
proof (induction hs arbitrary: s hs')
  case (Cons h hs)
  then show ?case
    by (cases h) (auto simp: Let_def split: prod.splits option.splits)
qed simp

lemma usage_guards: "fire_on_usage E u hs s = (hs', s', None) \<Longrightarrow> guards_within hs'"
proof (induction hs arbitrary: s hs')
  case (Cons h hs)
  then show ?case
    by (cases h) (auto simp: Let_def within_caps_def cost_on_usage_def split: prod.splits option.splits if_splits)
qed simp

lemma consume_guards:
  "consume E sink chs buf calls cur hs s = (Inr r, hs', s') \<Longrightarrow> guards_within hs \<Longrightarrow> guards_within hs'"
proof (induction chs arbitrary: buf calls cur hs s)
  case (Cons ch chs)
  from Cons.prems(1) show ?case
  proof (cases rule: consume_ConsE)
    case (counted u hs2 s2 calls' cur')
    then show ?thesis using Cons.IH usage_guards by blast
  qed (use Cons in auto)
qed simp

lemma stream_guards:
  "stream_assistant_turn E sink opts msgs tls hs s = (Inr a, hs', s') \<Longrightarrow> guards_within hs \<Longrightarrow> guards_within hs'"
  by (auto simp: stream_assistant_turn_def split: prod.splits sum.splits dest: consume_guards)

lemma dispatch_tool_guards:
  "dispatch_tool L E sink mx tc reg hs s = (m, err, hs', s') \<Longrightarrow> guards_within hs \<Longrightarrow> guards_within hs'"
  by (auto simp: dispatch_tool_def Let_def split: prod.splits option.splits dest: before_all_guards)

lemma dispatch_calls_guards:
  "dispatch_calls L E sink mx reg tcs msgs hs s = (out, err, hs', s') \<Longrightarrow> guards_within hs \<Longrightarrow> guards_within hs'"
proof (induction tcs arbitrary: msgs hs s)
  case (Cons tc tcs)
  then show ?case by (auto split: prod.splits option.splits dest: dispatch_tool_guards)
qed simp

section \<open>Errors\<close>

fun budget_error :: "go_err \<Rightarrow> bool" where
  "budget_error (ErrTokenBudgetExceeded a b) = True"
| "budget_error (ErrUSDBudgetExceeded a b) = True"
| "budget_error e = False"

fun policy_error :: "go_err \<Rightarrow> bool" where
  "policy_error ErrDuplicateCall = True"
| "policy_error (ErrLimitExceeded a b c d e) = True"
| "policy_error (ErrApprovalDenied a b) = True"
| "policy_error e = False"

fun stream_error :: "go_err \<Rightarrow> bool" where
  "stream_error (ErrWrap t e) = (t = ''agent: provider stream error'' \<or> t = ''agent: stream chunk error'')"
| "stream_error e = False"

lemma usage_hook_kind: "usage_hook E u h s = (h', s', Some e) \<Longrightarrow> budget_error e"
  by (cases h) (auto simp: cost_on_usage_def Let_def split: prod.splits if_splits)

lemma usage_kind: "fire_on_usage E u hs s = (hs', s', Some e) \<Longrightarrow> budget_error e"
proof (induction hs arbitrary: s hs')
  case (Cons h hs)
  then show ?case by (auto split: prod.splits option.splits dest: usage_hook_kind)
qed simp

lemma before_hook_kind: "before_hook L E call h s = (h', s', Some e) \<Longrightarrow> policy_error e"
  by (cases h) (auto simp: dup_before_def limit_before_def approval_before_def Let_def
      split: prod.splits option.splits if_splits)

lemma before_kind: "before_all L E call hs s = (hs', s', Some e) \<Longrightarrow> policy_error e"
proof (induction hs arbitrary: s hs')
  case (Cons h hs)
  then show ?case by (auto split: prod.splits option.splits dest: before_hook_kind)
qed simp

lemma consume_kind:
  "consume E sink chs buf calls cur hs s = (Inl e, hs', s') \<Longrightarrow> stream_error e \<or> budget_error e"
proof (induction chs arbitrary: buf calls cur hs s)
  case (Cons ch chs)
  from Cons.prems show ?case
  proof (cases rule: consume_ConsE)
    case (refused u e')
    then show ?thesis using usage_kind [OF refused(3)] by simp
  qed (use Cons.IH in auto)
qed simp

lemma stream_kind:
  "stream_assistant_turn E sink opts msgs tls hs s = (Inl e, hs', s') \<Longrightarrow> stream_error e \<or> budget_error e"
  by (auto simp: stream_assistant_turn_def split: prod.splits sum.splits dest: consume_kind)

lemma dispatch_toolE:
  assumes "dispatch_tool L E sink mx tc reg hs s = (m, err, hs', s')"
  obtains (refused) e where "before_all L E tc hs s = (hs', s', Some e)" "err = Some e"
  | (ran) s1 obs run_err obs' where "before_all L E tc hs s = (hs', s1, None)"
      "run_tool L E sink tc reg s1 = ((obs, run_err), s')"
      "after_all L tc hs' obs run_err = (obs', None)" "err = None"
      "m = tool_message (format_observation (al_fmt L) mx obs' run_err) (tc_id tc)"
proof -
  obtain hs1 s1 e1 where b: "before_all L E tc hs s = (hs1, s1, e1)" by (metis prod_cases3)
  show thesis
  proof (cases e1)
    case None
    obtain obs run_err s2 where r: "run_tool L E sink tc reg s1 = ((obs, run_err), s2)"
      by (metis prod.collapse)
    obtain obs' where a: "after_all L tc hs1 obs run_err = (obs', None)"
      by (metis after_all_no_error prod.collapse)
    have "m = tool_message (format_observation (al_fmt L) mx obs' run_err) (tc_id tc) \<and> err = None \<and> hs1 = hs' \<and> s2 = s'"
      using assms by (simp add: dispatch_tool_def b None r a)
    then show thesis using b None r a by (intro ran) simp_all
  next
    case (Some e)
    have "err = Some e \<and> hs1 = hs' \<and> s1 = s'" using assms by (simp add: dispatch_tool_def b Some)
    then show thesis using b Some by (intro refused) simp_all
  qed
qed

lemma dispatch_tool_kind:
  "dispatch_tool L E sink mx tc reg hs s = (m, Some e, hs', s') \<Longrightarrow> policy_error e"
  by (erule dispatch_toolE) (auto dest: before_kind)

lemma dispatch_calls_kind:
  "dispatch_calls L E sink mx reg tcs msgs hs s = (out, Some e, hs', s') \<Longrightarrow> policy_error e"
proof (induction tcs arbitrary: msgs hs s)
  case (Cons tc tcs)
  then show ?case by (auto split: prod.splits option.splits dest: dispatch_tool_kind)
qed simp

lemma run_loop_kind:
  "run_loop L E sink opts dl tls reg n msgs hs s = (out, Some e, hs', s') \<Longrightarrow>
     e = ErrMaxSteps \<or> dl \<noteq> None \<and> e = ErrConversationTimeout \<or> stream_error e \<or> budget_error e \<or> policy_error e"
proof (induction n arbitrary: msgs hs s)
  case (Suc n)
  from Suc.prems show ?case
  proof (cases rule: run_loop_SucE)
    case late
    then show ?thesis by (auto simp: past_deadline_def split: option.splits)
  next
    case (stream_failed s1 e')
    then show ?thesis using stream_kind [OF stream_failed(2)] by (auto split: if_splits)
  next
    case (aborted s1 asst hs2 s2 e')
    then show ?thesis using dispatch_calls_kind [OF aborted(4)] by simp
  next
    case (again s1 asst hs2 s2 msgs3 hs3 s3)
    then show ?thesis using Suc.IH by blast
  qed auto
qed simp

lemma policy_not_deadline: "policy_error e \<or> budget_error e \<Longrightarrow> \<not> is_deadline e"
  by (cases e) auto

lemma run_loop_deadline:
  "run_loop L E sink opts (Some d) tls reg n msgs hs s = (out, Some e, hs', s') \<Longrightarrow> \<not> is_deadline e"
proof (induction n arbitrary: msgs hs s)
  case (Suc n)
  from Suc.prems show ?case
  proof (cases rule: run_loop_SucE)
    case (aborted s1 asst hs2 s2 e')
    then show ?thesis using dispatch_calls_kind [OF aborted(4)] policy_not_deadline by auto
  next
    case (again s1 asst hs2 s2 msgs3 hs3 s3)
    then show ?thesis using Suc.IH by blast
  qed (auto split: if_splits)
qed auto

lemma run_loop_guards:
  "run_loop L E sink opts dl tls reg n msgs hs s = (out, err, hs', s') \<Longrightarrow> guards_within hs \<Longrightarrow>
     err = None \<or> err = Some ErrMaxSteps \<Longrightarrow> guards_within hs'"
proof (induction n arbitrary: msgs hs s)
  case (Suc n)
  from Suc.prems(1) show ?case
  proof (cases rule: run_loop_SucE)
    case (final s1 asst)
    then show ?thesis using stream_guards [OF final(2)] Suc.prems(2) by simp
  next
    case (again s1 asst hs2 s2 msgs3 hs3 s3)
    have "guards_within hs3"
      by (rule dispatch_calls_guards [OF again(4) stream_guards [OF again(2) Suc.prems(2)]])
    then show ?thesis using Suc.IH [OF again(5)] Suc.prems(3) by blast
  next
    case (aborted s1 asst hs2 s2 e)
    then show ?thesis using dispatch_calls_guards [OF aborted(4) stream_guards [OF aborted(2) Suc.prems(2)]]
      by simp
  next
    case (stream_failed s1 e)
    then show ?thesis using stream_kind [OF stream_failed(2)] Suc.prems(3) by (auto split: if_splits)
  qed (use Suc.prems in auto)
qed simp

section \<open>Approval\<close>

text \<open>A run of events is gated when every run of a high-risk tool directly follows (asks and runs
  only) a yes to a call with these arguments whose name resolves to that tool; a yes is spent by
  the run it allows.\<close>

definition high_risk_in :: "tool_registry \<Rightarrow> string \<Rightarrow> bool" where
  "high_risk_in R n =
     (case regmap_get (r_items R) n of None \<Rightarrow> False | Some t \<Rightarrow> risk_of t = RiskHigh)"

definition resolves_to :: "tool_registry \<Rightarrow> string \<Rightarrow> string \<Rightarrow> bool" where
  "resolves_to R name n = (case get_tool R name of None \<Rightarrow> False | Some t \<Rightarrow> t_name t = n)"

fun pend_after :: "tool_call option \<Rightarrow> event list \<Rightarrow> tool_call option" where
  "pend_after p [] = p"
| "pend_after p (EvAsk c ok # es) = pend_after (if ok then Some c else None) es"
| "pend_after p (EvRun n args # es) = pend_after None es"
| "pend_after p (_ # es) = pend_after p es"

fun gated :: "tool_registry \<Rightarrow> tool_call option \<Rightarrow> event list \<Rightarrow> bool" where
  "gated R p [] = True"
| "gated R p (EvAsk c ok # es) = gated R (if ok then Some c else None) es"
| "gated R p (EvRun n args # es) =
     ((high_risk_in R n \<longrightarrow>
        (case p of None \<Rightarrow> False | Some c \<Rightarrow> tc_args c = args \<and> resolves_to R (tc_name c) n)) \<and>
      gated R None es)"
| "gated R p (_ # es) = gated R p es"

lemma gated_append: "gated R p (xs @ ys) \<longleftrightarrow> gated R p xs \<and> gated R (pend_after p xs) ys"
  by (induction R p xs rule: gated.induct) auto

definition quiet :: "event list \<Rightarrow> bool" where
  "quiet es \<longleftrightarrow> list_all (\<lambda>e. case e of EvAsk c b \<Rightarrow> False | EvRun n a \<Rightarrow> False | _ \<Rightarrow> True) es"

lemma quiet_gated: "quiet es \<Longrightarrow> gated R p es \<and> pend_after p es = p"
  unfolding quiet_def by (induction es) (auto split: event.splits)

lemma asks_gated: "set es \<subseteq> range (EvAsk c) \<Longrightarrow> gated R p es"
  by (induction es arbitrary: p) auto

lemma asks_pend: "set es \<subseteq> {EvAsk c True} \<Longrightarrow> pend_after p es = (if es = [] then p else Some c)"
  by (induction es arbitrary: p) auto

definition adds :: "'w rt \<Rightarrow> 'w rt \<Rightarrow> event list \<Rightarrow> bool" where
  "adds s s' es \<longleftrightarrow> rt_trace s' = rt_trace s @ es"

lemma adds_trans: "adds s s' es \<Longrightarrow> adds s' s'' es' \<Longrightarrow> adds s s'' (es @ es')"
  by (simp add: adds_def)

lemma adds_refl: "adds s s []"
  by (simp add: adds_def)

text \<open>The approval hook reads the registry the run uses.\<close>

definition reads_run :: "'w env \<Rightarrow> reg_source \<Rightarrow> nat \<Rightarrow> bool" where
  "reads_run E src reg \<longleftrightarrow>
     (case src of StaticReg a \<Rightarrow> a = reg | RegistryFn \<Rightarrow> (\<forall>w. fst (ev_registry E w) = Some reg))"

lemma source_adds: "source_registry E src s = (a, s') \<Longrightarrow> adds s s' []"
  by (auto simp: source_registry_def adds_def split: reg_source.splits prod.splits)

lemma source_reads: "source_registry E src s = (a, s') \<Longrightarrow> reads_run E src reg \<Longrightarrow> a = Some reg"
  by (auto simp: source_registry_def reads_run_def split: reg_source.splits prod.splits) (metis fst_conv)

lemma approval_asks:
  assumes "approval_before E src call s = (s', err)"
  shows "\<exists>es. adds s s' es \<and> set es \<subseteq> range (EvAsk call) \<and> (err = None \<longrightarrow> set es \<subseteq> {EvAsk call True}) \<and>
     (err = None \<longrightarrow> reads_run E src reg \<longrightarrow>
       (case get_tool (rt_regs s ! reg) (tc_name call) of None \<Rightarrow> True | Some t \<Rightarrow> risk_of t = RiskHigh \<longrightarrow> es \<noteq> []))"
proof -
  obtain a s1 where src: "source_registry E src s = (a, s1)" by fastforce
  have t1: "rt_trace s1 = rt_trace s" using source_adds [OF src] by (simp add: adds_def)
  have r1: "rt_regs s1 = rt_regs s" by (rule same_regs.frame_source [OF src])
  show ?thesis
  proof (cases "\<exists>x t. a = Some x \<and> get_tool (rt_regs s ! x) (tc_name call) = Some t \<and> risk_of t = RiskHigh")
    case True
    then obtain x t where x: "a = Some x" "get_tool (rt_regs s ! x) (tc_name call) = Some t" "risk_of t = RiskHigh"
      by blast
    obtain ok e w where ap: "ev_approve E call (rt_world s1) = ((ok, e), w)" by (metis prod.collapse)
    have "rt_trace s' = rt_trace s @ [EvAsk call (ok \<and> e = None)]"
      "err = None \<Longrightarrow> ok \<and> e = None"
      using assms by (auto simp: approval_before_def src x r1 t1 ap emit_def Let_def split: option.splits if_splits)
    then show ?thesis
      by (intro exI [of _ "[EvAsk call (ok \<and> e = None)]"]) (auto simp: adds_def split: option.splits)
  next
    case False
    then have "s' = s1"
      using assms by (auto simp: approval_before_def src r1 Let_def split: option.splits if_splits)
    moreover have "case get_tool (rt_regs s ! reg) (tc_name call) of None \<Rightarrow> True | Some t \<Rightarrow> risk_of t \<noteq> RiskHigh"
      if "reads_run E src reg"
      using False source_reads [OF src that] by (auto split: option.splits)
    ultimately show ?thesis
      using t1 by (intro exI [of _ "[]"]) (auto simp: adds_def split: option.splits)
  qed
qed

lemma before_hook_asks:
  assumes "before_hook L E call h s = (h', s', err)"
  shows "\<exists>es. adds s s' es \<and> set es \<subseteq> range (EvAsk call) \<and> (err = None \<longrightarrow> set es \<subseteq> {EvAsk call True}) \<and>
     (err = None \<longrightarrow> h = Approval src \<longrightarrow> reads_run E src reg \<longrightarrow>
       (case get_tool (rt_regs s ! reg) (tc_name call) of None \<Rightarrow> True | Some t \<Rightarrow> risk_of t = RiskHigh \<longrightarrow> es \<noteq> []))"
proof (cases "\<exists>src'. h = Approval src'")
  case True
  then obtain src' where h: "h = Approval src'" by blast
  then have "approval_before E src' call s = (s', err)" using assms by (auto split: prod.splits)
  from approval_asks [OF this, of reg] show ?thesis using h by (cases "src' = src") blast+
next
  case False
  then have "s' = s" using assms by (cases h) (auto split: prod.splits)
  then show ?thesis using False by (intro exI [of _ "[]"]) (auto simp: adds_refl)
qed

lemma before_hook_approval: "before_hook L E call (Approval src) s = (h', s', err) \<Longrightarrow> h' = Approval src"
  by (auto split: prod.splits)

lemma before_all_asks:
  assumes "before_all L E call hs s = (hs', s', err)"
  shows "\<exists>es. adds s s' es \<and> set es \<subseteq> range (EvAsk call) \<and> (err = None \<longrightarrow> set es \<subseteq> {EvAsk call True}) \<and>
     (err = None \<longrightarrow> Approval src \<in> set hs \<longrightarrow> reads_run E src reg \<longrightarrow>
       (case get_tool (rt_regs s ! reg) (tc_name call) of None \<Rightarrow> True | Some t \<Rightarrow> risk_of t = RiskHigh \<longrightarrow> es \<noteq> []))"
  using assms
proof (induction hs arbitrary: s hs')
  case (Cons h hs)
  obtain h1 s1 e1 where b: "before_hook L E call h s = (h1, s1, e1)" by (metis prod_cases3)
  note regs = same_regs.frame_before_hook [OF b]
  from before_hook_asks [OF b, of src reg] obtain es1 where e1:
    "adds s s1 es1" "set es1 \<subseteq> range (EvAsk call)" "e1 = None \<longrightarrow> set es1 \<subseteq> {EvAsk call True}"
    "e1 = None \<longrightarrow> h = Approval src \<longrightarrow> reads_run E src reg \<longrightarrow>
       (case get_tool (rt_regs s ! reg) (tc_name call) of None \<Rightarrow> True | Some t \<Rightarrow> risk_of t = RiskHigh \<longrightarrow> es1 \<noteq> [])"
    by blast
  show ?case
  proof (cases e1)
    case (Some e)
    then show ?thesis using Cons.prems b e1 by auto
  next
    case None
    obtain hs2 where "before_all L E call hs s1 = (hs2, s', err)"
      using Cons.prems b None by (auto simp: Let_def split: prod.splits)
    from Cons.IH [OF this] obtain es2 where e2:
      "adds s1 s' es2" "set es2 \<subseteq> range (EvAsk call)" "err = None \<longrightarrow> set es2 \<subseteq> {EvAsk call True}"
      "err = None \<longrightarrow> Approval src \<in> set hs \<longrightarrow> reads_run E src reg \<longrightarrow>
         (case get_tool (rt_regs s1 ! reg) (tc_name call) of None \<Rightarrow> True | Some t \<Rightarrow> risk_of t = RiskHigh \<longrightarrow> es2 \<noteq> [])"
      by blast
    show ?thesis
      using adds_trans [OF e1(1) e2(1)] e1 e2 None regs
      by (intro exI [of _ "es1 @ es2"]) (auto split: option.splits)
  qed
qed (auto intro: adds_refl)

lemma usage_hook_adds: "usage_hook E u h s = (h', s', err) \<Longrightarrow> adds s s' [] \<and> (h = Approval src \<longrightarrow> h' = h)"
  by (cases h) (auto simp: adds_def now_def split: prod.splits)

lemma usage_adds:
  "fire_on_usage E u hs s = (hs', s', err) \<Longrightarrow> adds s s' [] \<and> (Approval src \<in> set hs \<longrightarrow> Approval src \<in> set hs')"
proof (induction hs arbitrary: s hs')
  case (Cons h hs)
  obtain h1 s1 e1 where u: "usage_hook E u h s = (h1, s1, e1)" by (metis prod_cases3)
  note h = usage_hook_adds [OF u, of src]
  show ?case
  proof (cases e1)
    case None
    obtain hs2 where "fire_on_usage E u hs s1 = (hs2, s', err)" "hs' = h1 # hs2"
      using Cons.prems u None by (auto simp: Let_def split: prod.splits)
    then show ?thesis using Cons.IH h by (fastforce simp: adds_def)
  qed (use Cons.prems u h in auto)
qed (simp add: adds_refl)

lemma before_all_approval:
  "before_all L E call hs s = (hs', s', err) \<Longrightarrow> Approval src \<in> set hs \<Longrightarrow> Approval src \<in> set hs'"
proof (induction hs arbitrary: s hs')
  case (Cons h hs)
  obtain h1 s1 e1 where b: "before_hook L E call h s = (h1, s1, e1)" by (metis prod_cases3)
  then have "h = Approval src \<longrightarrow> h1 = Approval src" using before_hook_approval by blast
  then show ?case using Cons b by (cases e1) (auto simp: Let_def split: prod.splits)
qed simp

lemma consume_adds:
  "consume E sink chs buf calls cur hs s = (r, hs', s') \<Longrightarrow>
     \<exists>es. adds s s' es \<and> quiet es \<and> (Approval src \<in> set hs \<longrightarrow> Approval src \<in> set hs')"
proof (induction chs arbitrary: buf calls cur hs s)
  case Nil
  then show ?case by (intro exI [of _ "[]"]) (auto simp: adds_def quiet_def)
next
  case (Cons ch chs)
  obtain e1 where t: "adds s (after_token sink ch s) e1" "quiet e1"
    by (cases "delta_text ch \<noteq> [] \<and> sink") (auto simp: after_token_def adds_def emit_def quiet_def)
  obtain e2 where u: "\<And>v. adds s (after_usage sink v (after_token sink ch s)) (e1 @ e2 v)" "\<And>v. quiet (e1 @ e2 v)"
    using t by (cases sink) (auto simp: after_usage_def adds_def emit_def quiet_def
        intro: that [of "\<lambda>v. [EvUsage v]"] that [of "\<lambda>v. []"])
  from Cons.prems show ?case
  proof (cases rule: consume_ConsE)
    case (plain calls' cur')
    from Cons.IH [OF plain(3)] obtain es where "adds (after_token sink ch s) s' es" "quiet es"
      "Approval src \<in> set hs \<longrightarrow> Approval src \<in> set hs'" by blast
    then show ?thesis using adds_trans [OF t(1)] t(2) by (intro exI [of _ "e1 @ es"]) (auto simp: quiet_def)
  next
    case (refused v e)
    then show ?thesis using usage_adds [OF refused(3), of src] u [of v]
      by (intro exI [of _ "e1 @ e2 v"]) (auto simp: adds_def)
  next
    case (counted v hs2 s2 calls' cur')
    from Cons.IH [OF counted(4)] obtain es where "adds s2 s' es" "quiet es"
      "Approval src \<in> set hs2 \<longrightarrow> Approval src \<in> set hs'" by blast
    then show ?thesis using usage_adds [OF counted(3), of src] u [of v]
      by (intro exI [of _ "(e1 @ e2 v) @ es"]) (auto simp: adds_def quiet_def)
  qed (auto simp: adds_def quiet_def)
qed

lemma stream_adds:
  assumes "stream_assistant_turn E sink opts msgs tls hs s = (r, hs', s')"
  shows "\<exists>es. adds s s' es \<and> quiet es \<and> (Approval src \<in> set hs \<longrightarrow> Approval src \<in> set hs')"
proof -
  obtain q w where st: "ev_stream E \<lparr>rq_model = o_model opts, rq_messages = msgs, rq_tools = tls\<rparr> (rt_world s) = (q, w)"
    by fastforce
  show ?thesis
  proof (cases q)
    case (Inl e)
    then show ?thesis using assms st
      by (intro exI [of _ "[]"]) (auto simp: stream_assistant_turn_def adds_def quiet_def)
  next
    case (Inr chs)
    obtain r2 where "consume E sink chs [] [] None hs (s\<lparr>rt_world := w\<rparr>) = (r2, hs', s')"
      using assms st Inr by (auto simp: stream_assistant_turn_def split: prod.splits sum.splits)
    from consume_adds [OF this, of src] show ?thesis by (auto simp: adds_def)
  qed
qed

lemma past_deadline_adds: "past_deadline E dl s = (b, s') \<Longrightarrow> adds s s' []"
  by (auto simp: past_deadline_def adds_def now_def split: option.splits prod.splits)

text \<open>The run of a tool: one \<open>EvRun\<close>, of the tool the name resolves to, or none.\<close>

lemma run_tool_adds:
  assumes "run_tool L E sink tc reg s = (r, s')"
  shows "\<exists>pre post. quiet pre \<and> quiet post \<and>
     (case get_tool (rt_regs s ! reg) (tc_name tc) of
        None \<Rightarrow> adds s s' (pre @ post)
      | Some t \<Rightarrow> adds s s' (pre @ [EvRun (t_name t) (tc_args tc)] @ post))"
proof -
  define pre where "pre = (if sink then [EvBegin (tc_name tc) (tc_args tc)] else [])"
  have pre: "quiet pre" by (simp add: pre_def quiet_def)
  show ?thesis
  proof (cases "get_tool (rt_regs s ! reg) (tc_name tc)")
    case None
    then show ?thesis using assms pre
      by (intro exI [of _ pre] exI [of _ "if sink then [EvEnd [] (Some (ErrToolUnavailable (tc_name tc)))] else []"])
         (auto simp: run_tool_def Let_def emit_def adds_def pre_def quiet_def)
  next
    case (Some t)
    obtain obs err w where tl: "ev_tool E (t_name t) (tc_args tc) (rt_world s) = ((obs, err), w)"
      by (metis prod.collapse)
    then show ?thesis using assms pre Some
      by (intro exI [of _ pre] exI [of _ "if sink then [case err of Some e \<Rightarrow> EvEnd [] (Some e)
            | None \<Rightarrow> EvEnd (observation_text obs) None] else []"])
         (auto simp: run_tool_def Let_def emit_def adds_def pre_def quiet_def split: option.splits)
  qed
qed

lemma dispatch_tool_gated:
  assumes d: "dispatch_tool L E sink mx tc reg hs s = (m, err, hs', s')"
    and appr: "Approval src \<in> set hs" "reads_run E src reg"
    and inv: "catalog_inv u (rt_regs s ! reg)"
  shows "\<exists>es. adds s s' es \<and> gated (rt_regs s ! reg) p es \<and> Approval src \<in> set hs'"
  using d
proof (cases rule: dispatch_toolE)
  case (refused e)
  from before_all_asks [OF refused(1)] obtain es where "adds s s' es" "set es \<subseteq> range (EvAsk tc)" by blast
  then show ?thesis using asks_gated before_all_approval [OF refused(1) appr(1)] by blast
next
  case (ran s1 obs run_err obs')
  let ?R = "rt_regs s ! reg"
  from before_all_asks [OF ran(1), of src reg] appr obtain es where es:
    "adds s s1 es" "set es \<subseteq> {EvAsk tc True}"
    "case get_tool ?R (tc_name tc) of None \<Rightarrow> True | Some t \<Rightarrow> risk_of t = RiskHigh \<longrightarrow> es \<noteq> []"
    by blast
  have regs: "rt_regs s1 = rt_regs s" by (rule same_regs.frame_before_all [OF ran(1)])
  have g: "gated ?R p es" using es(2) by (intro asks_gated [of _ tc]) auto
  have ap: "Approval src \<in> set hs'" by (rule before_all_approval [OF ran(1) appr(1)])
  from run_tool_adds [OF ran(2)] obtain pre post where pp: "quiet pre" "quiet post"
    "case get_tool ?R (tc_name tc) of
        None \<Rightarrow> adds s1 s' (pre @ post)
      | Some t \<Rightarrow> adds s1 s' (pre @ [EvRun (t_name t) (tc_args tc)] @ post)"
    unfolding regs by blast
  show ?thesis
  proof (cases "get_tool ?R (tc_name tc)")
    case None
    then have "adds s s' (es @ pre @ post)" using pp(3) adds_trans [OF es(1)] by simp
    moreover have "gated ?R p (es @ pre @ post)"
      using g quiet_gated [OF pp(1)] quiet_gated [OF pp(2)] by (simp add: gated_append)
    ultimately show ?thesis using ap by blast
  next
    case (Some t)
    have "regmap_get (r_items ?R) (t_name t) = Some t"
      using get_tool_listed [OF inv Some] in_list_tools [OF inv] by blast
    then have risk: "high_risk_in ?R (t_name t) \<Longrightarrow> es \<noteq> []"
      using es(3) Some by (simp add: high_risk_in_def)
    have "gated ?R (pend_after p es) (pre @ [EvRun (t_name t) (tc_args tc)] @ post)"
      using quiet_gated [OF pp(1)] quiet_gated [OF pp(2)] risk asks_pend [OF es(2), of p] Some
      by (auto simp: gated_append resolves_to_def)
    then have "gated ?R p (es @ pre @ [EvRun (t_name t) (tc_args tc)] @ post)"
      using g by (simp add: gated_append)
    moreover have "adds s s' (es @ pre @ [EvRun (t_name t) (tc_args tc)] @ post)"
      using pp(3) Some adds_trans [OF es(1)] by simp
    ultimately show ?thesis using ap by blast
  qed
qed

lemma dispatch_calls_gated:
  assumes "dispatch_calls L E sink mx reg tcs msgs hs s = (out, err, hs', s')"
    and "Approval src \<in> set hs" "reads_run E src reg" "catalog_inv u (rt_regs s ! reg)"
  shows "\<exists>es. adds s s' es \<and> (\<forall>p. gated (rt_regs s ! reg) p es) \<and> Approval src \<in> set hs'"
  using assms
proof (induction tcs arbitrary: msgs hs s)
  case Nil
  then show ?case by (intro exI [of _ "[]"]) (auto simp: adds_refl)
next
  case (Cons tc tcs)
  obtain m e hs1 s1 where d: "dispatch_tool L E sink mx tc reg hs s = (m, e, hs1, s1)"
    by (metis prod_cases4)
  have "\<exists>es. adds s s1 es \<and> gated (rt_regs s ! reg) p es \<and> Approval src \<in> set hs1" for p
    by (rule dispatch_tool_gated [OF d Cons.prems(2,3,4)])
  then obtain es where es: "adds s s1 es" "\<forall>p. gated (rt_regs s ! reg) p es" "Approval src \<in> set hs1"
    unfolding adds_def by (metis same_append_eq)
  have regs: "rt_regs s1 = rt_regs s" by (rule same_regs.frame_dispatch_tool [OF d])
  show ?case
  proof (cases e)
    case None
    then have "dispatch_calls L E sink mx reg tcs (msgs @ [m]) hs1 s1 = (out, err, hs', s')"
      using Cons.prems(1) d by simp
    from Cons.IH [OF this es(3) Cons.prems(3)] Cons.prems(4) regs obtain es2 where
      "adds s1 s' es2" "\<forall>p. gated (rt_regs s ! reg) p es2" "Approval src \<in> set hs'" by auto
    then show ?thesis using adds_trans [OF es(1)] es(2)
      by (intro exI [of _ "es @ es2"]) (auto simp: gated_append)
  next
    case (Some x)
    then show ?thesis using Cons.prems(1) d es by auto
  qed
qed

lemma run_loop_gated:
  assumes "run_loop L E sink opts dl tls reg n msgs hs s = (out, err, hs', s')"
    and "Approval src \<in> set hs" "reads_run E src reg" "catalog_inv u (rt_regs s ! reg)"
  shows "\<exists>es. adds s s' es \<and> (\<forall>p. gated (rt_regs s ! reg) p es)"
  using assms
proof (induction n arbitrary: msgs hs s)
  case 0
  then show ?case by (intro exI [of _ "[]"]) (auto simp: adds_refl)
next
  case (Suc n)
  have quiet_part: "\<exists>es. adds s s2 es \<and> (\<forall>p. gated (rt_regs s ! reg) p es) \<and> Approval src \<in> set hs2
      \<and> rt_regs s2 = rt_regs s"
    if "past_deadline E dl s = (b, s1)" "stream_assistant_turn E sink opts msgs tls hs s1 = (r, hs2, s2)"
    for b s1 r hs2 s2
    using past_deadline_adds [OF that(1)] stream_adds [OF that(2), of src] quiet_gated Suc.prems(2)
      same_regs.frame_past_deadline [OF that(1)] same_regs.frame_stream [OF that(2)]
    by (auto simp: adds_def)
  from Suc.prems(1) show ?case
  proof (cases rule: run_loop_SucE)
    case late
    then show ?thesis using past_deadline_adds [OF late(1)] by (intro exI [of _ "[]"]) auto
  next
    case (stream_failed s1 e)
    then show ?thesis using quiet_part by blast
  next
    case (final s1 asst)
    then show ?thesis using quiet_part by blast
  next
    case (aborted s1 asst hs2 s2 e)
    from quiet_part [OF aborted(1,2)] obtain e1 where e1: "adds s s2 e1" "\<forall>p. gated (rt_regs s ! reg) p e1"
      "Approval src \<in> set hs2" "rt_regs s2 = rt_regs s" by blast
    from dispatch_calls_gated [OF aborted(4) e1(3) Suc.prems(3)] Suc.prems(4) e1(4) obtain e2 where
      "adds s2 s' e2" "\<forall>p. gated (rt_regs s ! reg) p e2" by auto
    then show ?thesis using adds_trans [OF e1(1)] e1(2)
      by (intro exI [of _ "e1 @ e2"]) (auto simp: gated_append)
  next
    case (again s1 asst hs2 s2 msgs3 hs3 s3)
    from quiet_part [OF again(1,2)] obtain e1 where e1: "adds s s2 e1" "\<forall>p. gated (rt_regs s ! reg) p e1"
      "Approval src \<in> set hs2" "rt_regs s2 = rt_regs s" by blast
    from dispatch_calls_gated [OF again(4) e1(3) Suc.prems(3)] Suc.prems(4) e1(4) obtain e2 where e2:
      "adds s2 s3 e2" "\<forall>p. gated (rt_regs s ! reg) p e2" "Approval src \<in> set hs3" by auto
    have regs: "rt_regs s3 = rt_regs s" using same_regs.frame_dispatch_calls [OF again(4)] e1(4) by simp
    from Suc.IH [OF again(5) e2(3) Suc.prems(3)] Suc.prems(4) regs obtain e3 where
      "adds s3 s' e3" "\<forall>p. gated (rt_regs s ! reg) p e3" by auto
    then show ?thesis using adds_trans [OF adds_trans [OF e1(1) e2(1)]] e1(2) e2(2)
      by (intro exI [of _ "(e1 @ e2) @ e3"]) (auto simp: gated_append)
  qed
qed

end
