(* ===== verification/Agent_Claims.thy ===== *)
theory Agent_Claims
  imports Agent_Policy
begin

text \<open>
  The statements about whole runs of the agent, over \<open>new_agent\<close> and \<open>agent_run\<close>.
\<close>

lemma initial_system:
  "filter (\<lambda>m. m_role m = RoleSystem) (initial_messages sys hist input) = [system_message sys]"
  by (simp add: initial_messages_def system_message_def user_message_def filter_empty_conv)

lemma run_transcript_general:
  assumes "agent_run L E sink input ag s = (Returned out err, ag', s')"
  shows "out = [] \<and> err \<noteq> None \<or>
     (\<exists>sys rest. out = initial_messages sys (o_history (a_opts ag)) input @ rest \<and>
        appended (o_max_tool_tokens (a_opts ag)) (nat (o_max_steps (a_opts ag))) err rest)"
  using assms
proof (cases rule: agent_run_returnedE)
  case (loop rs s1 reg s2 dl s3 tls reg' hs)
  then show ?thesis using run_loop_appended by blast
qed simp

lemma run_one_system:
  assumes "agent_run L E sink input ag s = (Returned out err, ag', s')" "out \<noteq> []"
  shows "\<exists>sys rest. out = system_message sys # rest \<and> list_all (\<lambda>m. m_role m \<noteq> RoleSystem) rest"
proof -
  from run_transcript_general [OF assms(1)] assms(2) obtain sys rest where r:
    "out = initial_messages sys (o_history (a_opts ag)) input @ rest"
    "appended (o_max_tool_tokens (a_opts ag)) (nat (o_max_steps (a_opts ag))) err rest" by blast
  then show ?thesis
    using appended_no_system [OF r(2)]
    by (auto simp: initial_messages_def user_message_def list_all_iff)
qed

lemma run_tool_bound:
  assumes "new_agent C t opts = Inr ag" "agent_run L E sink input ag s = (Returned out err, ag', s')"
  shows "\<exists>start. prefix start out \<and> set start \<subseteq> insert (user_message input) (set (o_history opts)) \<union> range system_message \<and>
     list_all (\<lambda>m. m_role m = RoleTool \<longrightarrow>
        int (length (m_content m)) \<le> o_max_tool_tokens (a_opts ag) \<or> prefix ''error: '' (m_content m))
      (drop (length start) out)"
proof -
  have pos: "0 < o_max_tool_tokens (a_opts ag)" using new_agent_limits [OF assms(1)] by simp
  have hist: "o_history (a_opts ag) = o_history opts"
    using assms(1) by (auto simp: new_agent_def Let_def split: if_splits option.splits sum.splits)
  show ?thesis
  proof (cases "out = []")
    case False
    with run_transcript_general [OF assms(2)] obtain sys rest where r:
      "out = initial_messages sys (o_history (a_opts ag)) input @ rest"
      "appended (o_max_tool_tokens (a_opts ag)) (nat (o_max_steps (a_opts ag))) err rest" by blast
    then show ?thesis using pos hist
      by (intro exI [of _ "initial_messages sys (o_history (a_opts ag)) input"])
         (auto simp: appended_def initial_messages_def)
  qed auto
qed

lemma run_budget:
  assumes "agent_run L E sink input ag s = (Returned out err, ag', s')"
    and "guards_within (a_hooks ag)" "err = None \<or> err = Some ErrMaxSteps"
  shows "guards_within (a_hooks ag')"
  using assms(1)
proof (cases rule: agent_run_returnedE)
  case (loop rs s1 reg s2 dl s3 tls reg' hs)
  show ?thesis using run_loop_guards [OF loop(5) assms(2,3)] loop(6) by simp
qed (use assms in auto)

lemma run_timeout:
  assumes "agent_run L E sink input ag s = (Returned out (Some e), ag', s')"
    and "o_max_conversation_seconds (a_opts ag) > 0" "o_skill (a_opts ag) = None"
  shows "\<not> is_deadline e"
  using assms(1)
proof (cases rule: agent_run_returnedE)
  case (early e')
  from assms(1) show ?thesis
    using assms(3)
    by (auto simp: agent_run_def Let_def resolve_skill_def no_registry_error_def early(1)
        split: prod.splits sum.splits option.splits)
       (use early in \<open>auto dest!: run_loop_appended simp: initial_messages_def\<close>)
next
  case (loop rs s1 reg s2 dl s3 tls reg' hs)
  then obtain d where "dl = Some d" using assms(2) by (auto simp: start_deadline_def split: prod.splits)
  then show ?thesis using run_loop_deadline loop(5) by blast
qed

text \<open>With no active skill, the registry of a run is the one the approval hook reads.\<close>

lemma run_approval:
  assumes ag: "new_agent C t opts = Inr ag" "o_approver opts" "o_hooks opts = None" "o_skill opts = None"
    and reg: "\<not> o_registry_fn opts" "o_registry opts = Some a" "a < length (rt_regs s)" "catalog_inv u (rt_regs s ! a)"
    and run: "agent_run L E sink input ag s = (Returned out err, ag', s')"
  shows "\<exists>es. rt_trace s' = rt_trace s @ es \<and> gated (rt_regs s' ! a) None es"
proof -
  have o: "o_skill (a_opts ag) = None" "o_registry (a_opts ag) = Some a" "\<not> o_registry_fn (a_opts ag)"
    using new_agent_limits [OF ag(1)] ag reg by auto
  obtain hs0 o2 where "default_hooks C t o2 = Inr hs0" "a_hooks ag = hs0" "o_approver o2" "\<not> o_registry_fn o2"
    "o_registry o2 = Some a"
    using ag reg by (auto simp: new_agent_def Let_def split: if_splits option.splits sum.splits)
  then have hook: "Approval (StaticReg a) \<in> set (a_hooks ag)" using default_hooks_approval by blast
  from run show ?thesis
  proof (cases rule: agent_run_returnedE)
    case (early e)
    have "rt_trace s' = rt_trace s" if "agent_run L E sink input ag s = (Returned [] (Some e), ag, s')"
      using that o
      by (auto simp: agent_run_def Let_def resolve_skill_def no_skill_def resolve_registry_def
          split: prod.splits dest!: run_loop_appended)
         (auto simp: initial_messages_def)
    then show ?thesis using run early by (intro exI [of _ "[]"]) simp
  next
    case (loop rs s1 rg s2 dl s3 tls reg' hs)
    have s1: "s1 = s" "rs = no_skill" using loop(1) o by (simp_all add: resolve_skill_def)
    have s2: "s2 = s" "rg = a" using loop(2) o s1 by (auto simp: resolve_registry_def no_skill_def)
    have s3: "rt_regs s3 = rt_regs s" "rt_trace s3 = rt_trace s"
      using loop(3) s2 by (auto simp: start_deadline_def now_def split: if_splits prod.splits)
    let ?s4 = "s3\<lparr>rt_regs := (rt_regs s3)[rg := reg']\<rparr>"
    have at: "rt_regs ?s4 ! a = reg'" using s2 s3 reg(3) by simp
    have inv: "catalog_inv u reg'"
      using catalog_tools_for [OF reg(4), of "the (o_provider (a_opts ag))"] loop(4) s2 s3 by simp
    have rr: "reads_run E (StaticReg a) rg" by (simp add: reads_run_def s2)
    from run_loop_gated [OF loop(5) hook rr, of u] at inv s2 obtain es where
      "adds ?s4 s' es" "\<forall>p. gated reg' p es" by auto
    moreover have "rt_regs s' = rt_regs ?s4" by (rule same_regs.frame_run_loop [OF loop(5)])
    ultimately show ?thesis using s3 at by (auto simp: adds_def)
  qed
qed

text \<open>With a skill that filters tools, the approval hook's registry has no aliases: a high-risk tool
  called by its wire name is found by the run and missed by the hook.\<close>

lemma approval_missed:
  assumes inv: "catalog_inv u R" and fresh: "r_alias R = []"
    and t: "t \<in> set (list_tools R)" "risk_of t = RiskHigh" "matches_any (t_name t) allowed"
    and wire: "provider_needs_safe_names prov" "regmap_get (r_items R) (safe_name (t_name t)) = None"
    and inj: "inj_on safe_name (t_name ` set (list_tools R))"
    and sub: "filter_tools R allowed = Inr sub"
    and regs: "rt_regs s ! a = R" "rt_regs s ! reg = snd (tools_for sub prov)"
    and call: "tc_name call = safe_name (t_name t)"
  shows "\<exists>m hs' s'. dispatch_tool L E False mx call reg [Approval (StaticReg a)] s = (m, None, hs', s') \<and>
     rt_trace s' = rt_trace s @ [EvRun (t_name t) (tc_args call)]"
proof -
  from filter_tools_ok [OF inv, of allowed] sub have sub_inv: "catalog_inv u sub"
    and sub_list: "list_tools sub = filter (\<lambda>t. matches_any (t_name t) allowed) (list_tools R)" by auto
  have "t \<in> set (list_tools sub)" using sub_list t by simp
  moreover have "inj_on safe_name (t_name ` set (list_tools sub))"
    using inj by (rule inj_on_subset) (auto simp: sub_list)
  ultimately have got: "get_tool (rt_regs s ! reg) (tc_name call) = Some t"
    using tools_for_resolves [OF sub_inv, of t prov] wire(1) by (simp add: regs call wire_tool_def)
  have miss: "get_tool R (tc_name call) = None"
    using fresh wire(2) by (simp add: get_tool_def call)
  have "before_all L E call [Approval (StaticReg a)] s = ([Approval (StaticReg a)], s, None)"
    by (simp add: approval_before_def source_registry_def regs miss)
  moreover obtain obs err w where "ev_tool E (t_name t) (tc_args call) (rt_world s) = ((obs, err), w)"
    by (metis prod.collapse)
  ultimately show ?thesis
    using got by (auto simp: dispatch_tool_def run_tool_def emit_def Let_def)
qed

text \<open>A run that exhausts its steps has answered every call of every turn.\<close>

lemma run_loop_max_steps:
  "run_loop L E sink opts dl tls reg n msgs hs s = (out, Some ErrMaxSteps, hs', s') \<Longrightarrow>
     \<exists>rest. out = msgs @ rest \<and> complete_turns rest \<and> assistants rest = n"
proof (induction n arbitrary: msgs hs s)
  case 0
  then show ?case by (simp add: complete_nil)
next
  case (Suc n)
  from Suc.prems show ?case
  proof (cases rule: run_loop_SucE)
    case (stream_failed s1 e)
    then show ?thesis using stream_kind [OF stream_failed(2)] by (auto split: if_splits)
  next
    case (aborted s1 asst hs2 s2 e)
    then show ?thesis using dispatch_calls_kind [OF aborted(4)] by simp
  next
    case (again s1 asst hs2 s2 msgs3 hs3 s3)
    have role: "m_role asst = RoleAssistant" by (rule stream_turn_msg [OF again(2)])
    from dispatch_calls_answers [OF again(4)] obtain ts where d:
      "msgs3 = (msgs @ [asst]) @ ts" "answers (m_calls asst) ts" by blast
    from Suc.IH [OF again(5)] obtain rest where r: "out = msgs3 @ rest" "complete_turns rest" "assistants rest = n"
      by blast
    have "complete_turns ((asst # ts) @ rest)"
      by (rule complete_then_complete [OF r(2) complete_single [OF role again(3) d(2)]])
    then show ?thesis
      using d r role assistants_tool [OF answers_roles [OF d(2)]] by (intro exI [of _ "asst # ts @ rest"]) simp
  qed simp_all
qed

definition step_cap :: "'re options \<Rightarrow> nat" where
  "step_cap opts = (if o_max_steps opts \<le> 0 then 12 else nat (o_max_steps opts))"

definition token_cap :: "'re options \<Rightarrow> int" where
  "token_cap opts = (if o_max_tool_tokens opts \<le> 0 then 8000 else o_max_tool_tokens opts)"

lemma new_agent_caps:
  "new_agent C t opts = Inr ag \<Longrightarrow>
     nat (o_max_steps (a_opts ag)) = step_cap opts \<and> o_max_tool_tokens (a_opts ag) = token_cap opts \<and>
     o_history (a_opts ag) = o_history opts \<and>
     o_max_conversation_seconds (a_opts ag) = o_max_conversation_seconds opts"
  by (auto simp: new_agent_def Let_def default_max_steps_def default_max_tool_tokens_def step_cap_def
      token_cap_def split: if_splits option.splits sum.splits)

text \<open>What a run returns, by the error it ends with.\<close>

definition ends_as :: "nat \<Rightarrow> go_err option \<Rightarrow> message list \<Rightarrow> bool" where
  "ends_as cap err rest \<longleftrightarrow>
     (case err of
        None \<Rightarrow> finished_turns rest \<and> assistants rest \<le> cap
      | Some e \<Rightarrow>
          if e = ErrMaxSteps then complete_turns rest \<and> assistants rest = cap
          else (complete_turns rest \<or> cut_turns rest) \<and> assistants rest \<le> cap)"

lemma run_ends_as:
  assumes new: "new_agent C t opts = Inr ag"
    and run: "agent_run L E sink input ag s = (Returned out err, ag', s')" "out \<noteq> []"
  shows "\<exists>sys rest. out = initial_messages sys (o_history opts) input @ rest \<and> ends_as (step_cap opts) err rest"
  using run(1)
proof (cases rule: agent_run_returnedE)
  case (loop rs s1 reg s2 dl s3 tls reg' hs)
  note caps = new_agent_caps [OF new]
  from run_loop_appended [OF loop(5)] obtain rest where r:
    "out = initial_messages (build_system_prompt (a_opts ag) (rt_regs s3 ! reg) rs) (o_history opts) input @ rest"
    "appended (token_cap opts) (step_cap opts) err rest" using caps by auto
  show ?thesis
  proof (cases "err = Some ErrMaxSteps")
    case True
    from run_loop_max_steps [OF loop(5) [unfolded True]] r(1) caps
    have "complete_turns rest \<and> assistants rest = step_cap opts" by auto
    then show ?thesis using r(1) True by (auto simp: ends_as_def)
  next
    case False
    then have "ends_as (step_cap opts) err rest"
      using r(2) by (auto simp: ends_as_def appended_def split: option.splits if_splits)
    then show ?thesis using r(1) by blast
  qed
qed (use run(2) in simp)

text \<open>The errors a run without an active skill can end with.\<close>

definition run_error :: "'re options \<Rightarrow> go_err \<Rightarrow> bool" where
  "run_error opts e \<longleftrightarrow>
     e = no_registry_error \<or> e = ErrMaxSteps \<or>
     e = ErrConversationTimeout \<and> 0 < o_max_conversation_seconds opts \<or>
     (stream_error e \<or> budget_error e \<or> policy_error e) \<and>
       (is_deadline e \<longrightarrow> o_max_conversation_seconds opts \<le> 0)"

lemma run_ends_error:
  assumes new: "new_agent C t opts = Inr ag" "o_skill opts = None"
    and run: "agent_run L E sink input ag s = (Returned out (Some e), ag', s')"
  shows "run_error opts e"
  using run
proof (cases rule: agent_run_returnedE)
  case (early e')
  have "o_skill (a_opts ag) = None" using new_agent_limits [OF new(1)] new(2) by simp
  then show ?thesis
    using run early
    by (auto simp: agent_run_def Let_def resolve_skill_def run_error_def
        split: prod.splits sum.splits option.splits)
       (auto dest!: run_loop_appended simp: initial_messages_def)
next
  case (loop rs s1 reg s2 dl s3 tls reg' hs)
  note caps = new_agent_caps [OF new(1)]
  have dl: "dl \<noteq> None \<longleftrightarrow> 0 < o_max_conversation_seconds opts"
    using loop(3) caps by (auto simp: start_deadline_def split: prod.splits if_splits)
  have "\<not> is_deadline e" if "dl \<noteq> None" using that run_loop_deadline loop(5) by blast
  then show ?thesis using run_loop_kind [OF loop(5)] dl unfolding run_error_def by auto
qed

section \<open>The policy chain of a run\<close>

text \<open>A hook without what it counts: a run never adds, drops or reconfigures a hook.\<close>

fun hook_config :: "'re hook \<Rightarrow> 're hook" where
  "hook_config (DupCall p n) = DupCall [] 0"
| "hook_config (CostGuard g) = CostGuard (g\<lparr>cg_in := 0, cg_out := 0, cg_usd := 0, cg_day := 0\<rparr>)"
| "hook_config h = h"

lemma before_hook_config: "before_hook L E call h s = (h', s', err) \<Longrightarrow> hook_config h' = hook_config h"
  by (cases h) (auto split: prod.splits)

lemma before_all_config:
  "before_all L E call hs s = (hs', s', err) \<Longrightarrow> map hook_config hs' = map hook_config hs"
proof (induction hs arbitrary: s hs')
  case (Cons h hs)
  then show ?case by (auto split: prod.splits option.splits dest: before_hook_config)
qed simp

lemma usage_hook_config: "usage_hook E u h s = (h', s', err) \<Longrightarrow> hook_config h' = hook_config h"
  by (cases h) (auto simp: cost_on_usage_def Let_def split: prod.splits)

lemma usage_config: "fire_on_usage E u hs s = (hs', s', err) \<Longrightarrow> map hook_config hs' = map hook_config hs"
proof (induction hs arbitrary: s hs')
  case (Cons h hs)
  then show ?case by (auto split: prod.splits option.splits dest: usage_hook_config)
qed simp

lemma consume_config:
  "consume E sink chs buf calls cur hs s = (r, hs', s') \<Longrightarrow> map hook_config hs' = map hook_config hs"
proof (induction chs arbitrary: buf calls cur hs s)
  case (Cons ch chs)
  from Cons.prems show ?case
  proof (cases rule: consume_ConsE)
    case (plain calls' cur')
    then show ?thesis using Cons.IH by blast
  next
    case (refused u e)
    then show ?thesis using usage_config by blast
  next
    case (counted u hs2 s2 calls' cur')
    then show ?thesis using Cons.IH [OF counted(4)] usage_config [OF counted(3)] by simp
  qed simp_all
qed simp

lemma stream_config:
  "stream_assistant_turn E sink opts msgs tls hs s = (r, hs', s') \<Longrightarrow> map hook_config hs' = map hook_config hs"
  by (auto simp: stream_assistant_turn_def split: prod.splits sum.splits dest: consume_config)

lemma dispatch_tool_config:
  "dispatch_tool L E sink mx tc reg hs s = (m, err, hs', s') \<Longrightarrow> map hook_config hs' = map hook_config hs"
  by (erule dispatch_toolE) (auto dest: before_all_config)

lemma dispatch_calls_config:
  "dispatch_calls L E sink mx reg tcs msgs hs s = (out, err, hs', s') \<Longrightarrow> map hook_config hs' = map hook_config hs"
proof (induction tcs arbitrary: msgs hs s)
  case (Cons tc tcs)
  then show ?case by (fastforce split: prod.splits option.splits dest: dispatch_tool_config)
qed simp

lemma run_loop_config:
  "run_loop L E sink opts dl tls reg n msgs hs s = (out, err, hs', s') \<Longrightarrow> map hook_config hs' = map hook_config hs"
proof (induction n arbitrary: msgs hs s)
  case (Suc n)
  from Suc.prems show ?case
  proof (cases rule: run_loop_SucE)
    case (aborted s1 asst hs2 s2 e)
    then show ?thesis using stream_config dispatch_calls_config by metis
  next
    case (again s1 asst hs2 s2 msgs3 hs3 s3)
    then show ?thesis using Suc.IH [OF again(5)] stream_config [OF again(2)] dispatch_calls_config [OF again(4)]
      by simp
  qed (auto dest: stream_config)
qed simp

lemma agent_run_config:
  assumes "agent_run L E sink input ag s = (Returned out err, ag', s')"
  shows "map hook_config (a_hooks ag') = map hook_config (a_hooks ag)"
  using assms
proof (cases rule: agent_run_returnedE)
  case (loop rs s1 reg s2 dl s3 tls reg' hs)
  then show ?thesis using run_loop_config [OF loop(5)] by simp
qed simp

lemma hook_config_guard:
  "hook_config h = hook_config (CostGuard g) \<Longrightarrow>
     \<exists>g'. h = CostGuard g' \<and> cg_max_tokens g' = cg_max_tokens g \<and> cg_max_usd g' = cg_max_usd g"
  by (cases h) (auto dest: arg_cong [where f = cg_max_tokens] arg_cong [where f = cg_max_usd])

lemma config_guard:
  assumes "map hook_config hs' = map hook_config hs" "CostGuard g \<in> set hs"
  shows "\<exists>g'. CostGuard g' \<in> set hs' \<and> cg_max_tokens g' = cg_max_tokens g \<and> cg_max_usd g' = cg_max_usd g"
proof -
  have "hook_config (CostGuard g) \<in> set (map hook_config hs)"
    using imageI [OF assms(2), of hook_config] by simp
  then have "hook_config (CostGuard g) \<in> set (map hook_config hs')" using assms(1) by simp
  then obtain h where "h \<in> set hs'" "hook_config h = hook_config (CostGuard g)" by auto
  then show ?thesis using hook_config_guard by blast
qed

text \<open>A fresh agent with a cap keeps its counters within it over any run that is not aborted.\<close>

lemma default_hooks_guard:
  assumes "default_hooks C t o1 = Inr hs"
  shows "guards_within hs \<and>
    (0 < o_max_tokens_per_session o1 \<or> 0 < o_max_usd_per_day o1 \<longrightarrow>
      CostGuard (new_cost_guard (o_max_tokens_per_session o1) (o_max_usd_per_day o1) t) \<in> set hs)"
  using assms
  by (auto simp: default_hooks_def Let_def guards_within_def list_all_iff within_caps_def new_cost_guard_def
      split: option.splits sum.splits if_splits)

lemma run_keeps_caps:
  assumes new: "new_agent C t opts = Inr ag" "o_hooks opts = None"
    and caps: "0 < o_max_tokens_per_session opts \<or> 0 < o_max_usd_per_day opts"
    and run: "agent_run L E sink input ag s = (Returned out err, ag', s')" "err = None \<or> err = Some ErrMaxSteps"
  shows "\<exists>g. CostGuard g \<in> set (a_hooks ag') \<and> within_caps g \<and>
     cg_max_tokens g = o_max_tokens_per_session opts \<and> cg_max_usd g = o_max_usd_per_day opts"
proof -
  obtain o2 where d: "default_hooks C t o2 = Inr (a_hooks ag)"
    "o_max_tokens_per_session o2 = o_max_tokens_per_session opts" "o_max_usd_per_day o2 = o_max_usd_per_day opts"
    using new by (auto simp: new_agent_def Let_def split: if_splits option.splits sum.splits)
  note g = default_hooks_guard [OF d(1), unfolded d(2,3)]
  from config_guard [OF agent_run_config [OF run(1)]] g caps obtain g where
    "CostGuard g \<in> set (a_hooks ag')" "cg_max_tokens g = o_max_tokens_per_session opts"
    "cg_max_usd g = o_max_usd_per_day opts" by (fastforce simp: new_cost_guard_def)
  moreover have "guards_within (a_hooks ag')" using run_budget [OF run(1)] g run(2) by blast
  ultimately show ?thesis by (fastforce simp: guards_within_def list_all_iff)
qed

end
