(* ===== verification/Agent_Scenario.thy ===== *)
theory Agent_Scenario
  imports Agent_Claims
begin

text \<open>
  A concrete run of the agent, at which the theorems about whole runs are instantiated: an
  Anthropic-style provider that first asks for the high-risk tool \<open>memory.record\<close> under its wire
  name, gets the operator's yes, reads the observation and answers. The history still holds an old
  system message.
\<close>

definition sc_fmt :: gofmt where
  "sc_fmt = \<lparr>fmt_q = (\<lambda>s. s), fmt_usd = (\<lambda>r. ''usd'')\<rparr>"

definition sc_codec :: "string codec" where
  "sc_codec = \<lparr>re_compile = Some, re_match = (\<lambda>p s. p = s), re_replace = (\<lambda>p s r. s),
     json_unmarshal = (\<lambda>s. None), json_marshal = (\<lambda>j. None)\<rparr>"

definition sc_lib :: "string agent_lib" where
  "sc_lib = \<lparr>al_fmt = sc_fmt, al_sha = (\<lambda>s. ''h'' @ s), al_limit_args = (\<lambda>s. None),
     al_exception_line = (\<lambda>s. False), al_codec = sc_codec\<rparr>"

definition sc_call :: tool_call where
  "sc_call = \<lparr>tc_id = ''c1'', tc_name = ''memory_record'', tc_args = ''{}''\<rparr>"

definition sc_first :: "chunk list" where
  "sc_first =
     [\<lparr>delta_text = [], ch_tool = Some sc_call, ch_usage = None, ch_done = False, ch_err = None\<rparr>,
      \<lparr>delta_text = [], ch_tool = None, ch_usage = Some \<lparr>in_tokens = 100, out_tokens = 5, cost_usd = 0\<rparr>,
       ch_done = False, ch_err = None\<rparr>,
      \<lparr>delta_text = [], ch_tool = None, ch_usage = None, ch_done = True, ch_err = None\<rparr>]"

definition sc_second :: "chunk list" where
  "sc_second =
     [\<lparr>delta_text = ''noted'', ch_tool = None, ch_usage = None, ch_done = False, ch_err = None\<rparr>,
      \<lparr>delta_text = [], ch_tool = None, ch_usage = None, ch_done = True, ch_err = None\<rparr>]"

definition sc_env :: "unit env" where
  "sc_env = \<lparr>ev_now = (\<lambda>w. (0, w)), ev_registry = (\<lambda>w. (None, w)),
     ev_skill = (\<lambda>w. (Inr ([], []), w)),
     ev_approve = (\<lambda>c w. ((True, None), w)),
     ev_stream = (\<lambda>r w. (Inr (if m_role (last (rq_messages r)) = RoleUser then sc_first else sc_second), w)),
     ev_tool = (\<lambda>n a w. ((\<lparr>ob_text = ''saved'', ob_table = None, ob_raw = RawNil\<rparr>, None), w))\<rparr>"

definition sc_tool :: tool where
  "sc_tool = \<lparr>t_name = ''memory.record'', t_description = ''save a fact'', t_schema = ''{}'', t_risk = None\<rparr>"

definition sc_registry :: tool_registry where
  "sc_registry = registry_new\<lparr>r_items := \<lparr>name_of = t_name, items = [(''memory.record'', sc_tool)]\<rparr>\<rparr>"

definition sc_options :: "string options" where
  "sc_options =
     \<lparr>o_provider = Some ''anthropic'', o_model = ''claude-opus'', o_registry = Some 0, o_registry_fn = False,
      o_skill = None, o_skills = None, o_max_steps = 2, o_max_tool_tokens = 0,
      o_max_tokens_per_session = 1000, o_max_usd_per_day = 0, o_max_conversation_seconds = 60,
      o_max_log_lines = 0, o_max_profile_seconds = 0, o_max_log_bytes = 0, o_approver = True,
      o_profile = None, o_history = [system_message ''old'', user_message ''hello''], o_memory = [],
      o_cases = [], o_plan = False, o_hooks = None\<rparr>"

definition sc_guard :: "int \<Rightarrow> int \<Rightarrow> cost_guard" where
  "sc_guard i out = \<lparr>cg_max_tokens = 1000, cg_max_usd = 0, cg_in = i, cg_out = out, cg_usd = 0, cg_day = 0\<rparr>"

definition sc_agent :: "string agent" where
  "sc_agent = \<lparr>a_opts = sc_options\<lparr>o_max_tool_tokens := 8000\<rparr>,
     a_hooks = [DupCall [] 0, CostGuard (sc_guard 0 0), Approval (StaticReg 0)]\<rparr>"

definition sc_agent_after :: "string agent" where
  "sc_agent_after = sc_agent\<lparr>a_hooks :=
     [DupCall ''hmemory_record{}'' 1, CostGuard (sc_guard 100 5), Approval (StaticReg 0)]\<rparr>"

definition sc_state :: "unit rt" where
  "sc_state = \<lparr>rt_world = (), rt_regs = [sc_registry], rt_trace = []\<rparr>"

definition sc_streamed :: "event list" where
  "sc_streamed = [EvUsage \<lparr>in_tokens = 100, out_tokens = 5, cost_usd = 0\<rparr>]"

definition sc_dispatched :: "event list" where
  "sc_dispatched = sc_streamed @ [EvAsk sc_call True, EvBegin ''memory_record'' ''{}'',
     EvRun ''memory.record'' ''{}'', EvEnd ''saved'' None]"

definition sc_trace :: "event list" where
  "sc_trace = sc_dispatched @ [EvToken ''noted'']"

definition sc_rest :: "message list" where
  "sc_rest = [assistant_message [] [sc_call], tool_message ''saved'' ''c1'', assistant_message ''noted'' []]"

lemma sc_new: "new_agent sc_codec 5 sc_options = Inr sc_agent"
  by (simp add: new_agent_def sc_options_def sc_agent_def default_hooks_def new_cost_guard_def sc_guard_def
      default_max_tool_tokens_def utc_day_start_def day_ns_def)

lemma sc_registry_inv: "catalog_inv ascii_unicode sc_registry"
  by (simp add: catalog_inv_def sc_registry_def registry_new_def regmap_inv_def list_tools_def
      regmap_all_def sc_tool_def) code_simp


text \<open>The run itself, one part at a time.\<close>

definition sc_reg' :: tool_registry where
  "sc_reg' = sc_registry\<lparr>r_alias := [(''memory_record'', ''memory.record'')]\<rparr>"

definition sc_wire :: "llm_tool list" where
  "sc_wire = [\<lparr>lt_name = ''memory_record'', lt_description = ''save a fact'', lt_schema = ''{}''\<rparr>]"

definition sc_started :: "event list \<Rightarrow> unit rt" where
  "sc_started es = \<lparr>rt_world = (), rt_regs = [sc_reg'], rt_trace = es\<rparr>"

lemma sc_tools_for: "tools_for sc_registry ''anthropic'' = (sc_wire, sc_reg')"
  by (simp add: tools_for_def sc_wire_def sc_reg'_def sc_registry_def registry_new_def list_tools_def
      regmap_all_def regmap_get_def gm_keys_def sc_tool_def wire_tool_def wire_aliases_def safe_name_def
      provider_needs_safe_names_def)

lemma sc_turn_one: "m_role (last msgs) = RoleUser \<Longrightarrow>
    stream_assistant_turn sc_env True (a_opts sc_agent) msgs sc_wire (a_hooks sc_agent) (sc_started [])
    = (Inr (assistant_message [] [sc_call]),
       [DupCall [] 0, CostGuard (sc_guard 100 5), Approval (StaticReg 0)], sc_started sc_streamed)"
  by (simp add: stream_assistant_turn_def sc_env_def sc_first_def sc_agent_def sc_started_def emit_def now_def
      cost_on_usage_def sc_guard_def utc_day_start_def sc_streamed_def)

lemma sc_turn_two: "m_role (last msgs) = RoleTool \<Longrightarrow>
    stream_assistant_turn sc_env True (a_opts sc_agent) msgs sc_wire hs (sc_started es)
    = (Inr (assistant_message ''noted'' []), hs, sc_started (es @ [EvToken ''noted'']))"
  by (simp add: stream_assistant_turn_def sc_env_def sc_second_def sc_started_def emit_def)

lemma sc_dispatch:
  "dispatch_calls sc_lib sc_env True 8000 0 [sc_call] msgs
      [DupCall [] 0, CostGuard (sc_guard 100 5), Approval (StaticReg 0)] (sc_started sc_streamed)
    = (msgs @ [tool_message ''saved'' ''c1''], None, a_hooks sc_agent_after, sc_started sc_dispatched)"
proof -
  have got: "get_tool sc_reg' ''memory_record'' = Some sc_tool"
    by (simp add: get_tool_def sc_reg'_def sc_registry_def regmap_get_def)
  have risk: "risk_of sc_tool = RiskHigh"
    by (simp add: risk_of_def sc_tool_def risk_by_name_def high_risk_names_def)
  have name: "t_name sc_tool = ''memory.record''" by (simp add: sc_tool_def)
  show ?thesis
    by (simp add: dispatch_tool_def run_tool_def sc_started_def sc_call_def dup_before_def hash_call_def
        approval_before_def source_registry_def got risk name emit_def sc_env_def sc_lib_def
        format_observation_def observation_text_def truncate_middle_id sc_dispatched_def sc_agent_after_def
        sc_agent_def)
qed

lemma sc_run: "\<exists>p. agent_run sc_lib sc_env True ''why'' sc_agent sc_state
    = (Returned ([system_message p, user_message ''hello'', user_message ''why''] @ sc_rest) None,
       sc_agent_after, sc_started sc_trace)"
proof -
  let ?p = "build_system_prompt (a_opts sc_agent) sc_registry no_skill"
  have opts: "o_skill (a_opts sc_agent) = None" "o_registry_fn (a_opts sc_agent) = False"
    "o_registry (a_opts sc_agent) = Some 0" "o_max_conversation_seconds (a_opts sc_agent) = 60"
    "o_history (a_opts sc_agent) = [system_message ''old'', user_message ''hello'']"
    "o_provider (a_opts sc_agent) = Some ''anthropic''" "nat (o_max_steps (a_opts sc_agent)) = Suc (Suc 0)"
    "o_max_tool_tokens (a_opts sc_agent) = 8000"
    by (simp_all add: sc_agent_def sc_options_def)
  have st: "rt_regs sc_state ! 0 = sc_registry" "now sc_env sc_state = (0, sc_state)"
    "sc_state\<lparr>rt_regs := (rt_regs sc_state)[0 := sc_reg']\<rparr> = sc_started []"
    by (simp_all add: sc_state_def now_def sc_env_def sc_started_def)
  have late: "past_deadline sc_env (Some 60000000000) (sc_started es) = (False, sc_started es)" for es
    by (simp add: past_deadline_def now_def sc_env_def sc_started_def)
  have msgs: "initial_messages ?p [system_message ''old'', user_message ''hello''] ''why''
      = [system_message ?p, user_message ''hello'', user_message ''why'']"
    by (simp add: initial_messages_def system_message_def user_message_def)
  have rs_none: "rs_allowed no_skill = []" by (simp add: no_skill_def)
  have roles: "m_role (user_message x) = RoleUser" "m_role (tool_message x y) = RoleTool"
    "m_calls (assistant_message x cs) = cs" for x y cs
    by (simp_all add: user_message_def tool_message_def assistant_message_def)
  have loop: "run_loop sc_lib sc_env True (a_opts sc_agent) (Some 60000000000) sc_wire 0 (Suc (Suc 0))
      [system_message ?p, user_message ''hello'', user_message ''why''] (a_hooks sc_agent) (sc_started [])
    = ([system_message ?p, user_message ''hello'', user_message ''why''] @ sc_rest, None,
       a_hooks sc_agent_after, sc_started sc_trace)"
    by (simp add: late sc_turn_one sc_turn_two sc_dispatch roles opts sc_rest_def Let_def
        del: dispatch_calls.simps)
       (simp add: sc_trace_def)
  show ?thesis
    by (intro exI [of _ ?p])
       (simp add: agent_run_def resolve_skill_def opts resolve_registry_def start_deadline_def st
         sc_tools_for msgs loop Let_def rs_none sc_agent_after_def
         del: run_loop.simps)
qed

end
