(* ===== verification/Agent_Tools.thy ===== *)
theory Agent_Tools
  imports Agent_Claims
begin

text \<open>
  Which tools a run can execute: only those listed in the registry it resolved, whatever the model
  asks for and whatever the hooks answer. With a permission filter before the run and a skill filter
  in it, every executed tool passed both.
\<close>

definition runs_in :: "string set \<Rightarrow> event list \<Rightarrow> bool" where
  "runs_in N es \<longleftrightarrow> list_all (\<lambda>e. case e of EvRun n a \<Rightarrow> n \<in> N | _ \<Rightarrow> True) es"

definition tool_names :: "tool_registry \<Rightarrow> string set" where
  "tool_names R = t_name ` set (list_tools R)"

lemma runs_in_append [simp]: "runs_in N (xs @ ys) \<longleftrightarrow> runs_in N xs \<and> runs_in N ys"
  by (simp add: runs_in_def)

lemma runs_in_Nil [simp]: "runs_in N []"
  by (simp add: runs_in_def)

lemma quiet_runs_in: "quiet es \<Longrightarrow> runs_in N es"
  unfolding quiet_def runs_in_def by (induction es) (auto split: event.splits)

lemma asks_runs_in: "set es \<subseteq> range (EvAsk c) \<Longrightarrow> runs_in N es"
  unfolding runs_in_def by (induction es) auto

lemma runs_in_mono: "runs_in N es \<Longrightarrow> N \<subseteq> M \<Longrightarrow> runs_in M es"
  unfolding runs_in_def by (induction es) (auto split: event.splits)

lemma dispatch_tool_runs:
  assumes d: "dispatch_tool L E sink mx tc reg hs s = (m, err, hs', s')"
    and inv: "catalog_inv u (rt_regs s ! reg)"
  shows "\<exists>es. adds s s' es \<and> runs_in (tool_names (rt_regs s ! reg)) es"
  using d
proof (cases rule: dispatch_toolE)
  case (refused e)
  from before_all_asks [OF refused(1)] obtain es where "adds s s' es" "set es \<subseteq> range (EvAsk tc)" by blast
  then show ?thesis using asks_runs_in by blast
next
  case (ran s1 obs run_err obs')
  let ?R = "rt_regs s ! reg"
  from before_all_asks [OF ran(1)] obtain es where es: "adds s s1 es" "set es \<subseteq> range (EvAsk tc)" by blast
  have regs: "rt_regs s1 = rt_regs s" by (rule same_regs.frame_before_all [OF ran(1)])
  from run_tool_adds [OF ran(2)] obtain pre post where pp: "quiet pre" "quiet post"
    "case get_tool ?R (tc_name tc) of
        None \<Rightarrow> adds s1 s' (pre @ post)
      | Some t \<Rightarrow> adds s1 s' (pre @ [EvRun (t_name t) (tc_args tc)] @ post)"
    unfolding regs by blast
  note q = quiet_runs_in [OF pp(1)] quiet_runs_in [OF pp(2)] asks_runs_in [OF es(2)]
  show ?thesis
  proof (cases "get_tool ?R (tc_name tc)")
    case None
    then show ?thesis using pp(3) adds_trans [OF es(1)] q by (intro exI [of _ "es @ pre @ post"]) simp
  next
    case (Some t)
    then have "t_name t \<in> tool_names ?R" using get_tool_listed [OF inv] by (auto simp: tool_names_def)
    then show ?thesis
      using Some pp(3) adds_trans [OF es(1)] q
      by (intro exI [of _ "es @ pre @ [EvRun (t_name t) (tc_args tc)] @ post"]) (simp add: runs_in_def)
  qed
qed

lemma dispatch_calls_runs:
  assumes "dispatch_calls L E sink mx reg tcs msgs hs s = (out, err, hs', s')" "catalog_inv u (rt_regs s ! reg)"
  shows "\<exists>es. adds s s' es \<and> runs_in (tool_names (rt_regs s ! reg)) es"
  using assms
proof (induction tcs arbitrary: msgs hs s)
  case Nil
  then show ?case by (intro exI [of _ "[]"]) (auto simp: adds_refl)
next
  case (Cons tc tcs)
  obtain m e hs1 s1 where d: "dispatch_tool L E sink mx tc reg hs s = (m, e, hs1, s1)"
    by (metis prod_cases4)
  obtain es where es: "adds s s1 es" "runs_in (tool_names (rt_regs s ! reg)) es"
    using dispatch_tool_runs [OF d Cons.prems(2)] by blast
  have regs: "rt_regs s1 = rt_regs s" by (rule same_regs.frame_dispatch_tool [OF d])
  show ?case
  proof (cases e)
    case None
    then have "dispatch_calls L E sink mx reg tcs (msgs @ [m]) hs1 s1 = (out, err, hs', s')"
      using Cons.prems(1) d by simp
    from Cons.IH [OF this] Cons.prems(2) regs obtain es2 where
      "adds s1 s' es2" "runs_in (tool_names (rt_regs s ! reg)) es2" by auto
    then show ?thesis using adds_trans [OF es(1)] es(2) by (intro exI [of _ "es @ es2"]) simp
  next
    case (Some x)
    then show ?thesis using Cons.prems(1) d es by auto
  qed
qed

lemma run_loop_runs:
  assumes "run_loop L E sink opts dl tls reg n msgs hs s = (out, err, hs', s')" "catalog_inv u (rt_regs s ! reg)"
  shows "\<exists>es. adds s s' es \<and> runs_in (tool_names (rt_regs s ! reg)) es"
  using assms
proof (induction n arbitrary: msgs hs s)
  case 0
  then show ?case by (intro exI [of _ "[]"]) (auto simp: adds_refl)
next
  case (Suc n)
  let ?N = "tool_names (rt_regs s ! reg)"
  have turn: "\<exists>es. adds s s2 es \<and> runs_in ?N es \<and> rt_regs s2 = rt_regs s"
    if "past_deadline E dl s = (b, s1)" "stream_assistant_turn E sink opts msgs tls hs s1 = (r, hs2, s2)"
    for b s1 r hs2 s2
    using past_deadline_adds [OF that(1)] stream_adds [OF that(2)] quiet_runs_in
      same_regs.frame_past_deadline [OF that(1)] same_regs.frame_stream [OF that(2)]
    by (fastforce simp: adds_def)
  from Suc.prems(1) show ?case
  proof (cases rule: run_loop_SucE)
    case late
    then show ?thesis using past_deadline_adds [OF late(1)] by (intro exI [of _ "[]"]) auto
  next
    case (stream_failed s1 e)
    then show ?thesis using turn by blast
  next
    case (final s1 asst)
    then show ?thesis using turn by blast
  next
    case (aborted s1 asst hs2 s2 e)
    from turn [OF aborted(1,2)] obtain e1 where e1: "adds s s2 e1" "runs_in ?N e1" "rt_regs s2 = rt_regs s"
      by blast
    from dispatch_calls_runs [OF aborted(4)] Suc.prems(2) e1(3) obtain e2 where
      "adds s2 s' e2" "runs_in ?N e2" by auto
    then show ?thesis using adds_trans [OF e1(1)] e1(2) by (intro exI [of _ "e1 @ e2"]) simp
  next
    case (again s1 asst hs2 s2 msgs3 hs3 s3)
    from turn [OF again(1,2)] obtain e1 where e1: "adds s s2 e1" "runs_in ?N e1" "rt_regs s2 = rt_regs s"
      by blast
    from dispatch_calls_runs [OF again(4)] Suc.prems(2) e1(3) obtain e2 where
      e2: "adds s2 s3 e2" "runs_in ?N e2" by auto
    have regs: "rt_regs s3 = rt_regs s" using same_regs.frame_dispatch_calls [OF again(4)] e1(3) by simp
    from Suc.IH [OF again(5)] Suc.prems(2) regs obtain e3 where "adds s3 s' e3" "runs_in ?N e3" by auto
    then show ?thesis using adds_trans [OF adds_trans [OF e1(1) e2(1)]] e1(2) e2(2)
      by (intro exI [of _ "(e1 @ e2) @ e3"]) simp
  qed
qed

text \<open>The tools of one run: the ones of the registry it was given that its skill allows.\<close>

definition skill_allows :: "'w env \<Rightarrow> 're options \<Rightarrow> 'w rt \<Rightarrow> string \<Rightarrow> bool" where
  "skill_allows E opts s n \<longleftrightarrow>
     (case fst (resolve_skill E opts s) of
        Inl _ \<Rightarrow> False | Inr rs \<Rightarrow> rs_allowed rs = [] \<or> matches_any n (rs_allowed rs))"

definition run_names :: "'w env \<Rightarrow> 're options \<Rightarrow> 'w rt \<Rightarrow> tool_registry \<Rightarrow> string set" where
  "run_names E opts s R = {n \<in> tool_names R. skill_allows E opts s n}"

lemma resolve_skill_same: "resolve_skill E opts s = (r, s1) \<Longrightarrow> rt_regs s1 = rt_regs s \<and> rt_trace s1 = rt_trace s"
  by (auto simp: resolve_skill_def split: option.splits sum.splits prod.splits)

lemma start_deadline_same: "start_deadline E opts s = (d, s1) \<Longrightarrow> rt_regs s1 = rt_regs s \<and> rt_trace s1 = rt_trace s"
  by (auto simp: start_deadline_def now_def split: if_splits prod.splits)

lemma resolved_names:
  assumes "resolve_skill E opts s = (Inr rs, s1)" "resolve_registry E opts rs s1 = (Inr (Some reg), s2)"
    and "\<not> o_registry_fn opts" "o_registry opts = Some a" "a < length (rt_regs s)" "catalog_inv u (rt_regs s ! a)"
  shows "reg < length (rt_regs s2)" "catalog_inv u (rt_regs s2 ! reg)"
    "tool_names (rt_regs s2 ! reg) = run_names E opts s (rt_regs s ! a)" "rt_trace s2 = rt_trace s"
proof -
  have same: "rt_regs s1 = rt_regs s" "rt_trace s1 = rt_trace s" using resolve_skill_same [OF assms(1)] by simp_all
  have "reg < length (rt_regs s2) \<and> catalog_inv u (rt_regs s2 ! reg) \<and>
    tool_names (rt_regs s2 ! reg) = run_names E opts s (rt_regs s ! a) \<and> rt_trace s2 = rt_trace s"
  proof (cases "rs_allowed rs = []")
    case True
    then have "reg = a" "s2 = s1" using assms(2-4) by (auto simp: resolve_registry_def)
    then show ?thesis using same assms True by (simp add: run_names_def skill_allows_def)
  next
    case False
    obtain sub where sub: "filter_tools (rt_regs s ! a) (rs_allowed rs) = Inr sub" "catalog_inv u sub"
        "list_tools sub = filter (\<lambda>t. matches_any (t_name t) (rs_allowed rs)) (list_tools (rt_regs s ! a))"
      using filter_tools_ok [OF assms(6)] by blast
    then have "reg = length (rt_regs s1)" "s2 = s1\<lparr>rt_regs := rt_regs s1 @ [sub]\<rparr>"
      using assms(2-4) same False by (auto simp: resolve_registry_def)
    then show ?thesis using same False sub assms(1) by (auto simp: run_names_def skill_allows_def tool_names_def)
  qed
  then show "reg < length (rt_regs s2)" "catalog_inv u (rt_regs s2 ! reg)"
    "tool_names (rt_regs s2 ! reg) = run_names E opts s (rt_regs s ! a)" "rt_trace s2 = rt_trace s"
    by blast+
qed

lemma adds_Nil_same: "rt_trace s' = rt_trace s \<Longrightarrow> \<exists>es. rt_trace s' = rt_trace s @ es \<and> runs_in N es"
  by (intro exI [of _ "[]"]) simp

lemma agent_run_runs:
  assumes run: "agent_run L E sink input ag s = (Returned out err, ag', s')"
    and o: "\<not> o_registry_fn (a_opts ag)" "o_registry (a_opts ag) = Some a"
    and reg: "a < length (rt_regs s)" "catalog_inv u (rt_regs s ! a)"
  shows "\<exists>es. rt_trace s' = rt_trace s @ es \<and> runs_in (run_names E (a_opts ag) s (rt_regs s ! a)) es"
proof -
  let ?N = "run_names E (a_opts ag) s (rt_regs s ! a)"
  obtain r s1 where sk: "resolve_skill E (a_opts ag) s = (r, s1)" by fastforce
  show ?thesis
  proof (cases r)
    case (Inl e)
    then have "s' = s1" using run sk by (simp add: agent_run_def Let_def)
    then show ?thesis using resolve_skill_same [OF sk] by (simp add: adds_Nil_same)
  next
    case (Inr rs)
    obtain q s2 where rg: "resolve_registry E (a_opts ag) rs s1 = (q, s2)" by fastforce
    obtain reg where q: "q = Inr (Some reg)"
      using run sk rg Inr o filter_tools_ok [OF reg(2), of "rs_allowed rs"] resolve_skill_same [OF sk]
      by (auto simp: agent_run_def Let_def resolve_registry_def split: if_splits)
    note names = resolved_names [OF sk [unfolded Inr] rg [unfolded q] o reg]
    obtain dl s3 where dl: "start_deadline E (a_opts ag) s2 = (dl, s3)" by fastforce
    have s3: "rt_regs s3 = rt_regs s2" "rt_trace s3 = rt_trace s2" using start_deadline_same [OF dl] by simp_all
    let ?R = "rt_regs s3 ! reg" and ?p = "the (o_provider (a_opts ag))"
    obtain tls reg' where tf: "tools_for ?R ?p = (tls, reg')" by fastforce
    let ?s4 = "s3\<lparr>rt_regs := (rt_regs s3)[reg := reg']\<rparr>"
    obtain o' e' hs s5 where loop: "run_loop L E sink (a_opts ag) dl tls reg (nat (o_max_steps (a_opts ag)))
        (initial_messages (build_system_prompt (a_opts ag) ?R rs) (o_history (a_opts ag)) input) (a_hooks ag) ?s4
        = (o', e', hs, s5)" by (metis prod_cases4)
    have s5: "s5 = s'" using run sk rg Inr q dl tf loop by (simp add: agent_run_def Let_def)
    have at: "rt_regs ?s4 ! reg = reg'" using names(1) s3 by simp
    have "catalog_inv u ?R" using names(2) s3(1) by simp
    then have r': "catalog_inv u reg'" using catalog_tools_for [of u ?R ?p] unfolding tf snd_conv by blast
    have "list_tools reg' = list_tools ?R" using tools_for_items [of ?R ?p] unfolding tf snd_conv by (simp add: list_tools_def)
    then have "tool_names reg' = ?N" using names(3) s3 by (simp add: tool_names_def)
    then obtain es where "adds ?s4 s' es" "runs_in ?N es"
      using run_loop_runs [OF loop, of u] at r' s5 by auto
    then show ?thesis using s3 names(4) by (auto simp: adds_def)
  qed
qed

end
