(* ===== verification/Agent_Properties.thy ===== *)
theory Agent_Properties
  imports Agent_Scenario Agent_Tools
begin

text \<open>
  The properties of whole agent runs and of the hooks, each with the instance at the run of
  \<open>Agent_Scenario\<close> or at a small input that shows its hypotheses can hold.
\<close>

text \<open>C1. A run that returns a transcript returns the initial messages (a fresh system prompt, the
  prior history without its system messages, the user's input) followed by turns, and the error says
  which: without error the turns end with an assistant message that has no calls, every earlier
  assistant message has calls and is followed by exactly one tool message per call, in order and
  with its id; on \<open>ErrMaxSteps\<close> every turn is answered and there are exactly as many as the step
  budget (12 by default); on any other error the last turn may be answered only in part, and there
  are at most that many.\<close>

theorem run_transcript:
  assumes "new_agent C t opts = Inr ag"
    and "agent_run L E sink input ag s = (Returned out err, ag', s')" "out \<noteq> []"
  shows "\<exists>sys rest. out = initial_messages sys (o_history opts) input @ rest \<and>
    ends_as (step_cap opts) err rest"
  using assms by (rule run_ends_as)

theorem run_transcript_witness:
  "\<exists>out err ag' s'. agent_run sc_lib sc_env True ''why'' sc_agent sc_state = (Returned out err, ag', s') \<and>
     length out = 6 \<and>
     (\<exists>sys rest. out = initial_messages sys (o_history sc_options) ''why'' @ rest \<and> ends_as 2 err rest)"
proof -
  obtain p where r: "agent_run sc_lib sc_env True ''why'' sc_agent sc_state
      = (Returned ([system_message p, user_message ''hello'', user_message ''why''] @ sc_rest) None,
         sc_agent_after, sc_started sc_trace)" using sc_run by blast
  have "step_cap sc_options = 2" by (simp add: step_cap_def sc_options_def)
  then show ?thesis using run_transcript [OF sc_new r] r by (force simp: sc_rest_def)
qed





text \<open>A returned transcript has exactly one system message, the fresh one at its head, however many
  system messages the history held.\<close>

theorem run_fresh_system_message:
  assumes "agent_run L E sink input ag s = (Returned out err, ag', s')" "out \<noteq> []"
  shows "\<exists>sys rest. out = system_message sys # rest \<and> list_all (\<lambda>m. m_role m \<noteq> RoleSystem) rest"
  using assms by (rule run_one_system)

theorem run_fresh_system_message_witness:
  "\<exists>out err ag' s' sys rest.
     agent_run sc_lib sc_env True ''why'' sc_agent sc_state = (Returned out err, ag', s') \<and>
     out = system_message sys # rest \<and> list_all (\<lambda>m. m_role m \<noteq> RoleSystem) rest"
proof -
  obtain p where r: "agent_run sc_lib sc_env True ''why'' sc_agent sc_state
      = (Returned ([system_message p, user_message ''hello'', user_message ''why''] @ sc_rest) None,
         sc_agent_after, sc_started sc_trace)" using sc_run by blast
  show ?thesis using run_fresh_system_message [OF r] r by auto
qed

text \<open>C4. A run executes only tools that the permission profile permits and the active skill allows,
  whatever calls the model makes and whatever the hooks answer, when its registry is the one the
  profile filtered.\<close>

theorem run_stays_permitted:
  assumes "catalog_inv u R" "filter_registry u (Some R) (Some p) = Inr (Some R')" "rt_regs s ! a = R'"
    and "a < length (rt_regs s)" "\<not> o_registry_fn (a_opts ag)" "o_registry (a_opts ag) = Some a"
    and "agent_run L E sink input ag s = (Returned out err, ag', s')"
  shows "\<exists>es. rt_trace s' = rt_trace s @ es \<and>
     runs_in {n \<in> tool_names R. tool_permitted p n \<and> skill_allows E (a_opts ag) s n} es"
proof -
  have r: "catalog_inv u R'" "list_tools R' = filter (\<lambda>t. tool_permitted p (t_name t)) (list_tools R)"
    using filter_registry_ok [OF assms(1), of p] assms(2) by auto
  then have "run_names E (a_opts ag) s R' = {n \<in> tool_names R. tool_permitted p n \<and> skill_allows E (a_opts ag) s n}"
    by (auto simp: run_names_def tool_names_def)
  then show ?thesis using agent_run_runs [OF assms(7,5,6,4), of u] r(1) assms(3) by simp
qed

theorem run_stays_permitted_witness:
  "\<exists>out err ag' s' es. agent_run sc_lib sc_env True ''why'' sc_agent sc_state = (Returned out err, ag', s') \<and>
     rt_trace s' = es \<and> EvRun ''memory.record'' ''{}'' \<in> set es \<and>
     runs_in {n \<in> tool_names sc_registry. \<not> match_any [''k8s.*''] n} es"
proof -
  obtain p where r: "agent_run sc_lib sc_env True ''why'' sc_agent sc_state
      = (Returned ([system_message p, user_message ''hello'', user_message ''why''] @ sc_rest) None,
         sc_agent_after, sc_started sc_trace)" using sc_run by blast
  let ?p = "default_profile\<lparr>p_tools := \<lparr>tl_allow = [], tl_deny = [''k8s.*'']\<rparr>\<rparr>"
  have m: "\<not> match_any [''k8s.*''] ''memory.record''" by code_simp
  have a: "assert_read_only_name ascii_unicode ''memory.record'' = None" by code_simp
  have l: "list_tools sc_registry = [sc_tool]"
    by (simp add: sc_registry_def list_tools_def regmap_all_def regmap_get_def gm_keys_def)
  have n: "t_name sc_tool = ''memory.record''" by (simp add: sc_tool_def)
  have f: "filter_registry ascii_unicode (Some sc_registry) (Some ?p) = Inr (Some sc_registry)"
    using m a
    by (simp add: filter_registry_def l n register_tool_def items_must_register_def regmap_must_register_def
        regmap_register_def registry_new_def regmap_get_def Let_def del: match_any.simps)
      (simp add: sc_registry_def registry_new_def)
  have t: "tool_permitted ?p k \<longleftrightarrow> \<not> match_any [''k8s.*''] k" for k by (simp add: tool_permitted_def)
  have st: "rt_regs sc_state ! 0 = sc_registry" "0 < length (rt_regs sc_state)" "\<not> o_registry_fn (a_opts sc_agent)"
      "o_registry (a_opts sc_agent) = Some 0" "rt_trace sc_state = []" "rt_trace (sc_started sc_trace) = sc_trace"
    by (simp_all add: sc_state_def sc_agent_def sc_options_def sc_started_def)
  have "runs_in {n \<in> tool_names sc_registry. tool_permitted ?p n \<and> skill_allows sc_env (a_opts sc_agent) sc_state n} sc_trace"
    using run_stays_permitted [OF sc_registry_inv f st(1-4) r] st(5,6) by auto
  then have "runs_in {n \<in> tool_names sc_registry. \<not> match_any [''k8s.*''] n} sc_trace"
    by (rule runs_in_mono) (auto simp: t)
  moreover have "EvRun ''memory.record'' ''{}'' \<in> set sc_trace" by (simp add: sc_trace_def sc_dispatched_def)
  ultimately show ?thesis using r st(6) by blast
qed

text \<open>C7. With a token or a USD cap and the default hooks, a run that is not aborted (it ends with a
  final response or on the step budget) leaves a cost guard configured with exactly the caps of the
  options and counters within them.\<close>

theorem run_within_caps:
  assumes "new_agent C t opts = Inr ag" "o_hooks opts = None"
    and "0 < o_max_tokens_per_session opts \<or> 0 < o_max_usd_per_day opts"
    and "agent_run L E sink input ag s = (Returned out err, ag', s')" "err = None \<or> err = Some ErrMaxSteps"
  shows "\<exists>g. CostGuard g \<in> set (a_hooks ag') \<and> within_caps g \<and>
     cg_max_tokens g = o_max_tokens_per_session opts \<and> cg_max_usd g = o_max_usd_per_day opts"
  using assms by (rule run_keeps_caps)

theorem run_within_caps_witness:
  "\<exists>out ag' s' g. agent_run sc_lib sc_env True ''why'' sc_agent sc_state = (Returned out None, ag', s') \<and>
     CostGuard g \<in> set (a_hooks ag') \<and> within_caps g \<and> cg_max_tokens g = 1000"
proof -
  obtain p where r: "agent_run sc_lib sc_env True ''why'' sc_agent sc_state
      = (Returned ([system_message p, user_message ''hello'', user_message ''why''] @ sc_rest) None,
         sc_agent_after, sc_started sc_trace)" using sc_run by blast
  have o: "o_hooks sc_options = None" "o_max_tokens_per_session sc_options = 1000" by (simp_all add: sc_options_def)
  show ?thesis using run_within_caps [OF sc_new o(1) _ r] r o(2) by auto
qed

text \<open>C8. Without an active skill a run ends with no error or one of: no registry, the step budget, the
  wall-clock limit (only when one is set), a stream error, a cost cap, or a policy refusal
  (duplicate call, argument limit, approval denied). No tool failure aborts a run, and with a
  wall-clock limit no bare deadline error is returned.\<close>

theorem run_error_kinds:
  assumes "new_agent C t opts = Inr ag" "o_skill opts = None"
    and "agent_run L E sink input ag s = (Returned out (Some e), ag', s')"
  shows "run_error opts e"
  using assms by (rule run_ends_error)

theorem run_error_kinds_witness:
  "\<exists>ag out e ag' s'. agent_run sc_lib sc_env True ''why'' ag sc_state = (Returned out (Some e), ag', s') \<and>
     run_error (sc_options\<lparr>o_registry := None, o_registry_fn := True\<rparr>) e"
proof -
  let ?o = "sc_options\<lparr>o_registry := None, o_registry_fn := True\<rparr>"
  let ?ag = "\<lparr>a_opts = ?o\<lparr>o_max_tool_tokens := 8000\<rparr>,
     a_hooks = [DupCall [] 0, CostGuard (sc_guard 0 0), Approval RegistryFn]\<rparr> :: string agent"
  have n: "new_agent sc_codec 5 ?o = Inr ?ag" "o_skill ?o = None"
    by (simp_all add: new_agent_def sc_options_def default_hooks_def new_cost_guard_def sc_guard_def
        default_max_tool_tokens_def utc_day_start_def day_ns_def)
  have r: "agent_run sc_lib sc_env True ''why'' ?ag sc_state = (Returned [] (Some no_registry_error), ?ag, sc_state)"
    by (simp add: agent_run_def sc_options_def resolve_skill_def resolve_registry_def source_registry_def sc_env_def
        no_skill_def)
  show ?thesis using run_error_kinds [OF n r] r by blast
qed

text \<open>C9. The content of every tool message a run appends is at most the tool-token budget long (8000
  bytes by default), or it is an error text.\<close>

theorem run_tool_content:
  assumes "new_agent C t opts = Inr ag" "agent_run L E sink input ag s = (Returned out err, ag', s')"
  shows "\<exists>start. prefix start out \<and>
     set start \<subseteq> insert (user_message input) (set (o_history opts)) \<union> range system_message \<and>
     list_all (\<lambda>m. m_role m = RoleTool \<longrightarrow>
        int (length (m_content m)) \<le> token_cap opts \<or> prefix ''error: '' (m_content m))
      (drop (length start) out)"
proof -
  have "o_max_tool_tokens (a_opts ag) = token_cap opts" using new_agent_caps [OF assms(1)] by simp
  then show ?thesis using run_tool_bound [OF assms] by simp
qed

theorem run_tool_content_witness:
  "\<exists>out err ag' s' start.
     agent_run sc_lib sc_env True ''why'' sc_agent sc_state = (Returned out err, ag', s') \<and> prefix start out \<and>
     list_all (\<lambda>m. int (length (m_content m)) \<le> 8000 \<or> prefix ''error: '' (m_content m))
       (filter (\<lambda>m. m_role m = RoleTool) (drop (length start) out))"
proof -
  obtain p where r: "agent_run sc_lib sc_env True ''why'' sc_agent sc_state
      = (Returned ([system_message p, user_message ''hello'', user_message ''why''] @ sc_rest) None,
         sc_agent_after, sc_started sc_trace)" using sc_run by blast
  have "token_cap sc_options = 8000" by (simp add: token_cap_def sc_options_def)
  then show ?thesis using run_tool_content [OF sc_new r] r by (fastforce simp: list_all_iff)
qed

text \<open>The duplicate detector rejects a call exactly when it and the two calls before it have the
  same fingerprint, after any sequence it let through.\<close>

theorem duplicate_third_in_a_row:
  assumes "\<forall>x \<in> set (cs @ [c]). call_hash sha x \<noteq> []" "dup_run sha cs ([], 0) = (h, None)"
  shows "snd (dup_run sha (cs @ [c]) ([], 0)) =
     (if length cs \<ge> 2 \<and> call_hash sha (cs ! (length cs - 1)) = call_hash sha c
         \<and> call_hash sha (cs ! (length cs - 2)) = call_hash sha c
      then Some ErrDuplicateCall else None)"
  using assms by (rule dup_rejects_iff)

theorem duplicate_third_in_a_row_witness:
  "snd (dup_run (\<lambda>s. ''h'' @ s) [sc_call, sc_call, sc_call] ([], 0)) = Some ErrDuplicateCall"
proof -
  have "\<forall>x \<in> set ([sc_call, sc_call] @ [sc_call]). call_hash (\<lambda>s. ''h'' @ s) x \<noteq> []"
    "dup_run (\<lambda>s. ''h'' @ s) [sc_call, sc_call] ([], 0) = ((''hmemory_record{}'', 2), None)"
    by (simp_all add: call_hash_def hash_call_def dup_before_def sc_call_def)
  from duplicate_third_in_a_row [OF this] show ?thesis by simp
qed

text \<open>While the clock does not go backwards, the cost guard's daily counter is the cost of the
  calls reported on the UTC day of the last one, and its day is that day.\<close>

theorem daily_cost:
  assumes "sorted (t0 # map fst us)"
  shows "cg_day (cost_run us (new_cost_guard a b t0)) = utc_day_start (last (t0 # map fst us)) \<and>
     cg_usd (cost_run us (new_cost_guard a b t0))
       = (\<Sum>(t, u) \<leftarrow> filter (\<lambda>(t, u). utc_day_start t = utc_day_start (last (t0 # map fst us))) us. cost_usd u)"
  using assms by (rule cost_run_day)

theorem daily_cost_witness:
  "cg_usd (cost_run [(5, \<lparr>in_tokens = 1, out_tokens = 1, cost_usd = 2\<rparr>),
     (day_ns + 7, \<lparr>in_tokens = 1, out_tokens = 1, cost_usd = 3\<rparr>)] (new_cost_guard 0 0 1)) = 3"
proof -
  let ?us = "[(5, \<lparr>in_tokens = 1, out_tokens = 1, cost_usd = 2\<rparr>),
     (day_ns + 7, \<lparr>in_tokens = 1, out_tokens = 1, cost_usd = 3\<rparr>)]"
  have "sorted (1 # map fst ?us)" by (simp add: day_ns_def)
  from daily_cost [OF this, of 0 0] show ?thesis by (simp add: utc_day_start_def day_ns_def)
qed

text \<open>Under a provider whose wire names have no dots, the argument limits and the log summary
  never apply: both match dotted names, and the calls echo the names the provider was given.\<close>

theorem limits_miss_wire_names:
  assumes "provider_needs_safe_names prov" "d \<in> set (fst (tools_for r prov))" "tc_name call = lt_name d"
  shows "limit_before parse a b call = None \<and> log_summary_after exc mx call obs err = obs"
proof -
  have "CHR ''.'' \<notin> set (tc_name call)"
    using assms safe_name_no_dot by (auto simp: tools_for_def Let_def wire_tool_def)
  from wire_name_unlimited [OF this] this show ?thesis
    by (auto simp: limit_before_def log_summary_after_def has_prefix_def prefix_def split: option.splits)
qed

theorem limits_miss_wire_names_witness:
  "limit_before (\<lambda>s. Some (999999, 0)) 100 0 \<lparr>tc_id = [], tc_name = ''log_query'', tc_args = ''{}''\<rparr> = None \<and>
   limit_before (\<lambda>s. Some (999999, 0)) 100 0 \<lparr>tc_id = [], tc_name = ''log.query'', tc_args = ''{}''\<rparr> \<noteq> None"
proof -
  let ?t = "\<lparr>t_name = ''log.query'', t_description = [], t_schema = [], t_risk = None\<rparr>"
  let ?r = "registry_new\<lparr>r_items := \<lparr>name_of = t_name, items = [(''log.query'', ?t)]\<rparr>\<rparr>"
  let ?d = "\<lparr>lt_name = ''log_query'', lt_description = [], lt_schema = []\<rparr>"
  let ?c = "\<lparr>tc_id = [], tc_name = ''log_query'', tc_args = ''{}''\<rparr>"
  have p: "provider_needs_safe_names ''anthropic''" by (simp add: provider_needs_safe_names_def)
  have d: "?d \<in> set (fst (tools_for ?r ''anthropic''))" "tc_name ?c = lt_name ?d"
    by (simp_all add: tools_for_def p list_tools_def regmap_all_def regmap_get_def gm_keys_def wire_tool_def
        safe_name_def)
  have "limit_before (\<lambda>s. Some (999999, 0)) 100 0 \<lparr>tc_id = [], tc_name = ''log.query'', tc_args = ''{}''\<rparr> \<noteq> None"
    by (simp add: limit_before_def is_log_tool_def has_prefix_def)
  then show ?thesis using limits_miss_wire_names [OF p d, of "\<lambda>s. Some (999999, 0)" 100 0] by blast
qed

end
