(* ===== verification/Transport_Guard.thy ===== *)
theory Transport_Guard
  imports Llm_Types
begin

text \<open>
  The read-only transport (\<open>internal/transport/readonly.go\<close>), the Kubernetes verbs
  (\<open>k8s.go\<close>) and the services/proxy URL (\<open>k8sproxy.go\<close>). The wrapped round tripper is a
  parameter acting on a world, so that not calling it is visible as an unchanged world.
\<close>

section \<open>The method whitelist\<close>

record http_request =
  hr_method :: string
  hr_url :: string
  hr_headers :: "string gomap"

datatype transport_error =
    NilRequest
  | ReadOnlyViolation string string string
  | Inner string

definition allowed_methods :: "string list" where
  "allowed_methods = [''GET'', ''HEAD'', ''OPTIONS'']"

definition read_only_alternative :: "string \<Rightarrow> string" where
  "read_only_alternative meth =
     (if meth = ''POST'' \<or> meth = ''PUT'' \<or> meth = ''PATCH''
      then ''cloudy is read-only by design; use a GET-based inspect/list/get tool instead of writing''
      else if meth = ''DELETE''
      then ''cloudy cannot delete resources; use a list/get tool to inspect what you would have removed''
      else ''cloudy permits only GET/HEAD/OPTIONS; switch to a read-only verb'')"

type_synonym ('w, 'r) tripper = "http_request \<Rightarrow> 'w \<Rightarrow> (transport_error + 'r) \<times> 'w"

definition round_trip :: "('w, 'r) tripper \<Rightarrow> http_request option \<Rightarrow> 'w \<Rightarrow> (transport_error + 'r) \<times> 'w" where
  "round_trip inner req w =
     (case req of
        None \<Rightarrow> (Inl NilRequest, w)
      | Some r \<Rightarrow>
          if hr_method r \<notin> set allowed_methods
          then (Inl (ReadOnlyViolation (hr_method r) (hr_url r) (read_only_alternative (hr_method r))), w)
          else inner r w)"

text \<open>\<open>New\<close>: a nil inner tripper is the default transport.\<close>

definition new_tripper :: "('w, 'r) tripper \<Rightarrow> ('w, 'r) tripper option \<Rightarrow> ('w, 'r) tripper" where
  "new_tripper default_transport inner =
     (let t = (case inner of None \<Rightarrow> default_transport | Some t \<Rightarrow> t) in (\<lambda>r. round_trip t (Some r)))"

definition wrap :: "('w, 'r) tripper \<Rightarrow> ('w, 'r) tripper option \<Rightarrow> ('w, 'r) tripper" where
  "wrap default_transport inner = new_tripper default_transport inner"

definition allowed_kube_verbs :: "string list" where
  "allowed_kube_verbs = [''get'', ''list'', ''watch'']"

text \<open>A client sends any sequence of requests through one tripper.\<close>

fun send_all :: "('w, 'r) tripper \<Rightarrow> http_request list \<Rightarrow> 'w \<Rightarrow> (transport_error + 'r) list \<times> 'w" where
  "send_all t [] w = ([], w)"
| "send_all t (r # rs) w =
     (let (x, w1) = t r w; (xs, w2) = send_all t rs w1 in (x # xs, w2))"

lemma round_trip_blocked:
  "hr_method r \<notin> set allowed_methods \<Longrightarrow> round_trip inner (Some r) w =
     (Inl (ReadOnlyViolation (hr_method r) (hr_url r) (read_only_alternative (hr_method r))), w)"
  by (simp add: round_trip_def)

lemma round_trip_passed: "hr_method r \<in> set allowed_methods \<Longrightarrow> round_trip inner (Some r) w = inner r w"
  by (simp add: round_trip_def)

text \<open>Whatever is sent, the wrapped tripper sees exactly the allowed requests, in order.\<close>

lemma send_all_filtered:
  "snd (send_all (new_tripper d inner) rs w)
     = snd (send_all (case inner of None \<Rightarrow> d | Some t \<Rightarrow> t)
         (filter (\<lambda>r. hr_method r \<in> set allowed_methods) rs) w)"
proof (induction rs arbitrary: w)
  case (Cons r rs)
  then show ?case
    by (cases "hr_method r \<in> set allowed_methods")
       (auto simp: new_tripper_def Let_def round_trip_blocked round_trip_passed case_prod_unfold)
qed simp

section \<open>The services/proxy URL\<close>

text \<open>\<open>url.PathEscape\<close>: the bytes a path segment may hold unescaped; every other byte becomes a
  percent sign and two uppercase hexadecimal digits.\<close>

definition path_safe :: "char \<Rightarrow> bool" where
  "path_safe c \<longleftrightarrow>
     (let b = of_char c :: nat in
      97 \<le> b \<and> b \<le> 122 \<or> 65 \<le> b \<and> b \<le> 90 \<or> 48 \<le> b \<and> b \<le> 57 \<or> c \<in> set ''-_.~$&+:=@'')"

definition hex_digit :: "nat \<Rightarrow> char" where
  "hex_digit n = (if n < 10 then char_of (48 + n) else char_of (55 + n))"

definition path_escape :: "string \<Rightarrow> string" where
  "path_escape s =
     concat (map (\<lambda>c. if path_safe c then [c]
       else [CHR ''%'', hex_digit (of_char c div 16), hex_digit (of_char c mod 16)]) s)"

fun trim_right_char :: "char \<Rightarrow> string \<Rightarrow> string" where
  "trim_right_char c s = rev (dropWhile (\<lambda>x. x = c) (rev s))"

definition new_api_host :: "string \<Rightarrow> string" where
  "new_api_host host = trim_right_char (CHR ''/'') host"

definition proxy_url :: "string \<Rightarrow> string \<Rightarrow> string \<Rightarrow> string \<Rightarrow> string \<Rightarrow> string \<Rightarrow> string" where
  "proxy_url api_host ns svc scheme port path =
     (if \<exists>seg \<in> set [ns, svc, scheme, port]. contains seg ''/'' then []
      else (let spec = (if scheme \<noteq> []
                        then path_escape scheme @ '':'' @ path_escape svc @ '':'' @ path_escape port
                        else path_escape svc @ '':'' @ path_escape port);
                base = api_host @ ''/api/v1/namespaces/'' @ path_escape ns @ ''/services/'' @ spec @ ''/proxy''
            in if path = [] then base
               else base @ (if has_prefix path ''/'' then path else ''/'' @ path)))"

lemma hex_digit_not: "n < 16 \<Longrightarrow> hex_digit n \<noteq> CHR ''/''"
proof -
  assume "n < 16"
  then have "of_char (hex_digit n) \<noteq> (47 :: nat)" by (auto simp: hex_digit_def)
  then show ?thesis by auto
qed

lemma path_escape_no_slash: "CHR ''/'' \<notin> set (path_escape s)"
proof -
  have "CHR ''/'' \<notin> set (if path_safe c then [c]
      else [CHR ''%'', hex_digit (of_char c div 16), hex_digit (of_char c mod 16)])" for c
  proof -
    have "of_char c < (256 :: nat)" by simp
    then have "of_char c div 16 < (16 :: nat)" "of_char c mod 16 < (16 :: nat)"
      by (simp_all add: less_mult_imp_div_less)
    then have "hex_digit (of_char c div 16) \<noteq> CHR ''/''" "hex_digit (of_char c mod 16) \<noteq> CHR ''/''"
      by (simp_all add: hex_digit_not)
    moreover have "\<not> path_safe (CHR ''/'')" by (simp add: path_safe_def)
    ultimately show ?thesis by (cases "path_safe c") fastforce+
  qed
  then show ?thesis unfolding path_escape_def set_concat set_map by blast
qed

lemma split_byte_append:
  "c \<notin> set w \<Longrightarrow> split_byte c (w @ c # s) = w # split_byte c s"
  by (induction w) auto

lemma split_byte_plain: "c \<notin> set w \<Longrightarrow> split_byte c w = [w]"
  by (induction w) auto

definition proxy_spec :: "string \<Rightarrow> string \<Rightarrow> string \<Rightarrow> string" where
  "proxy_spec svc scheme port =
     (if scheme \<noteq> [] then path_escape scheme @ '':'' else []) @ path_escape svc @ '':'' @ path_escape port"

text \<open>Whatever the namespace, service, scheme and port hold, they stay in their own path segments.\<close>

lemma proxy_url_segments:
  assumes "proxy_url h ns svc scheme port path \<noteq> []"
  shows "\<exists>rest. proxy_url h ns svc scheme port path = h @ rest \<and>
     take 8 (split_byte (CHR ''/'') rest)
       = [[], ''api'', ''v1'', ''namespaces'', path_escape ns, ''services'', proxy_spec svc scheme port, ''proxy'']"
proof -
  define tl where "tl = (if path = [] then [] else if has_prefix path ''/'' then path else ''/'' @ path)"
  have tl: "tl = [] \<or> (\<exists>t. tl = CHR ''/'' # t)" by (auto simp: tl_def has_prefix_def prefix_def)
  have spec: "CHR ''/'' \<notin> set (proxy_spec svc scheme port)"
    using path_escape_no_slash by (auto simp: proxy_spec_def)
  let ?rest = "''/api/v1/namespaces/'' @ path_escape ns @ ''/services/'' @ proxy_spec svc scheme port @ ''/proxy'' @ tl"
  have url: "proxy_url h ns svc scheme port path = h @ ?rest"
    using assms by (auto simp: proxy_url_def proxy_spec_def tl_def Let_def split: if_splits)
  have s1: "split_byte (CHR ''/'') ?rest = [] # ''api'' # ''v1'' # ''namespaces'' #
      split_byte (CHR ''/'') (path_escape ns @ CHR ''/'' # ''services/'' @ proxy_spec svc scheme port @ ''/proxy'' @ tl)"
    by simp
  have s2: "split_byte (CHR ''/'') (''services/'' @ proxy_spec svc scheme port @ ''/proxy'' @ tl)
      = ''services'' # split_byte (CHR ''/'') (proxy_spec svc scheme port @ CHR ''/'' # ''proxy'' @ tl)"
    by simp
  have s3: "take 1 (split_byte (CHR ''/'') (''proxy'' @ tl)) = [''proxy'']"
    using tl by auto
  show ?thesis
    unfolding url
    using s1 split_byte_append [OF path_escape_no_slash [of ns]] s2 split_byte_append [OF spec] s3
    by (auto simp: numeral_eq_Suc)
qed

end
