(* ===== verification/Llm_Breaker.thy ===== *)
theory Llm_Breaker
  imports Tool_Catalog_Facts
begin

text \<open>
  The circuit breaker (\<open>internal/core/llm/circuit.go\<close>) and the fallback provider
  (\<open>fallback.go\<close>). The candidates, the clock and the context are parameters acting on a world; the
  candidates a call tries are returned beside its result.
\<close>

section \<open>The breaker\<close>

record breaker =
  br_failures :: "gotime list"
  br_threshold :: int
  br_window :: int

definition new_breaker :: "int \<Rightarrow> int \<Rightarrow> breaker" where
  "new_breaker threshold window = \<lparr>br_failures = [], br_threshold = threshold, br_window = window\<rparr>"

definition prune :: "gotime \<Rightarrow> breaker \<Rightarrow> breaker" where
  "prune t b = b\<lparr>br_failures := dropWhile (\<lambda>f. \<not> f > t - br_window b) (br_failures b)\<rparr>"

definition record_failure :: "gotime \<Rightarrow> breaker \<Rightarrow> breaker" where
  "record_failure t b = prune t (b\<lparr>br_failures := br_failures b @ [t]\<rparr>)"

definition is_open :: "gotime \<Rightarrow> breaker \<Rightarrow> bool \<times> breaker" where
  "is_open t b = (let b' = prune t b in (int (length (br_failures b')) \<ge> br_threshold b', b'))"

section \<open>The fallback provider\<close>

record fallback =
  fb_chain :: "string list"
  fb_models :: "string list"
  fb_breakers :: "breaker list"

datatype fallback_panic = EmptyChain | LengthMismatch

definition new_fallback :: "string list \<Rightarrow> string list \<Rightarrow> int \<Rightarrow> int \<Rightarrow> fallback_panic + fallback" where
  "new_fallback chain models threshold window =
     (if chain = [] then Inl EmptyChain
      else if length chain \<noteq> length models then Inl LengthMismatch
      else (let th = (if threshold \<le> 0 then 3 else threshold);
                wd = (if window \<le> 0 then 60000000000 else window)
            in Inr \<lparr>fb_chain = chain, fb_models = models,
                    fb_breakers = replicate (length chain) (new_breaker th wd)\<rparr>))"

definition fallback_name :: "fallback \<Rightarrow> string" where
  "fallback_name p =
     (if length (fb_chain p) = 1 then hd (fb_chain p)
      else ''fallback('' @ hd (fb_chain p) @ ''+'' @ show_nat (length (fb_chain p) - 1) @ '')'')"

record 'w fb_env =
  fe_now :: "'w \<Rightarrow> gotime \<times> 'w"
  fe_ctx_err :: "'w \<Rightarrow> go_err option"
  fe_stream :: "nat \<Rightarrow> request \<Rightarrow> 'w \<Rightarrow> (go_err + chunk list) \<times> 'w"

text \<open>Chunks are forwarded as they are; each error chunk is one failure of the candidate.\<close>

fun wrap_chunks :: "'w fb_env \<Rightarrow> chunk list \<Rightarrow> breaker \<Rightarrow> 'w \<Rightarrow> chunk list \<times> breaker \<times> 'w" where
  "wrap_chunks E [] b w = ([], b, w)"
| "wrap_chunks E (c # cs) b w =
     (let (b1, w1) = (if ch_err c \<noteq> None then (let (t, w') = fe_now E w in (record_failure t b, w')) else (b, w));
          (out, b2, w2) = wrap_chunks E cs b1 w1
      in (c # out, b2, w2))"

text \<open>The loop over the chain from candidate \<open>i\<close> on, with the first error so far.\<close>

function fallback_try :: "'w fb_env \<Rightarrow> request \<Rightarrow> nat \<Rightarrow> go_err option \<Rightarrow> fallback \<Rightarrow> 'w
    \<Rightarrow> (go_err + (nat \<times> chunk list)) \<times> fallback \<times> 'w \<times> nat list" where
  "fallback_try E req i first p w =
     (if i \<ge> length (fb_chain p)
      then (case first of
              Some e \<Rightarrow>
                (Inl (ErrWrap (''llm: all '' @ show_nat (length (fb_chain p)) @ '' providers failed; first error'') e),
                 p, w, [])
            | None \<Rightarrow> (Inl ErrNoProvider, p, w, []))
      else (case fe_ctx_err E w of
              Some e \<Rightarrow> (Inl e, p, w, [])
            | None \<Rightarrow>
                (let (t, w1) = fe_now E w;
                     (opened, b) = is_open t (fb_breakers p ! i);
                     p1 = p\<lparr>fb_breakers := (fb_breakers p)[i := b]\<rparr>
                 in if opened then fallback_try E req (i + 1) first p1 w1
                    else (case fe_stream E i (req\<lparr>rq_model := fb_models p ! i\<rparr>) w1 of
                            (Inr chs, w2) \<Rightarrow> (Inr (i, chs), p1, w2, [i])
                          | (Inl e, w2) \<Rightarrow>
                              (let (p2, w3) =
                                     (if fe_ctx_err E w2 = None
                                      then (let (t2, w') = fe_now E w2
                                            in (p1\<lparr>fb_breakers := (fb_breakers p1)[i := record_failure t2 b]\<rparr>, w'))
                                      else (p1, w2));
                                   first' = (case first of None \<Rightarrow> Some (ErrWrap (fb_chain p ! i) e) | Some f \<Rightarrow> Some f);
                                   (r, p3, w4, tried) = fallback_try E req (i + 1) first' p2 w3
                               in (r, p3, w4, i # tried))))))"
  by pat_completeness auto
termination
  by (relation "measure (\<lambda>(E, req, i, first, p, w). length (fb_chain p) - i)")
     (auto split: if_splits prod.splits)

declare fallback_try.simps [simp del]

definition fallback_stream :: "'w fb_env \<Rightarrow> request \<Rightarrow> fallback \<Rightarrow> 'w
    \<Rightarrow> (go_err + (nat \<times> chunk list)) \<times> fallback \<times> 'w \<times> nat list" where
  "fallback_stream E req p w = fallback_try E req 0 None p w"

text \<open>\<open>WrapWithCompatFallback\<close>: the two environment variables and whether \<open>openai_compat\<close> is
  registered are arguments; \<open>None\<close> is the unwrapped primary.\<close>

definition wrap_with_compat_fallback :: "string \<Rightarrow> string \<Rightarrow> bool \<Rightarrow> string \<Rightarrow> string \<Rightarrow> fallback_panic + fallback option" where
  "wrap_with_compat_fallback base_url model_env compat_registered primary primary_model =
     (if trim_space base_url = [] then Inr None
      else if primary = ''openai_compat'' then Inr None
      else if \<not> compat_registered then Inr None
      else (let m = (if trim_space model_env = [] then ''llama3'' else trim_space model_env)
            in map_sum id Some (new_fallback [primary, ''openai_compat''] [primary_model, m] 0 0)))"

section \<open>The breaker counts the failures of its window\<close>

lemma dropWhile_sorted_filter:
  "sorted xs \<Longrightarrow> dropWhile (\<lambda>f. \<not> f > (c :: int)) xs = filter (\<lambda>f. f > c) xs"
proof (induction xs)
  case (Cons x xs)
  then show ?case by (auto simp: filter_id_conv intro!: filter_True [symmetric])
qed simp

lemma prune_filter:
  "sorted (br_failures b) \<Longrightarrow> br_failures (prune t b) = filter (\<lambda>f. f > t - br_window b) (br_failures b)"
  by (simp add: prune_def dropWhile_sorted_filter)

lemma prune_simps [simp]:
  "br_threshold (prune t b) = br_threshold b" "br_window (prune t b) = br_window b"
  "br_threshold (record_failure t b) = br_threshold b" "br_window (record_failure t b) = br_window b"
  by (simp_all add: prune_def record_failure_def)

text \<open>The operations of a breaker in any order, at times that do not decrease, keep exactly the
  failures that are still in the window.\<close>

datatype breaker_op = Fail gotime | Query gotime

fun op_time :: "breaker_op \<Rightarrow> gotime" where
  "op_time (Fail t) = t"
| "op_time (Query t) = t"

fun breaker_step :: "breaker \<Rightarrow> breaker_op \<Rightarrow> breaker" where
  "breaker_step b (Fail t) = record_failure t b"
| "breaker_step b (Query t) = snd (is_open t b)"

definition failure_times :: "breaker_op list \<Rightarrow> gotime list" where
  "failure_times ops = List.map_filter (\<lambda>op. case op of Fail t \<Rightarrow> Some t | Query t \<Rightarrow> None) ops"

lemma failure_times_simps [simp]:
  "failure_times [] = []"
  "failure_times (ops @ [Fail t]) = failure_times ops @ [t]"
  "failure_times (ops @ [Query t]) = failure_times ops"
  by (simp_all add: failure_times_def map_filter_def)

lemma failure_times_le: "f \<in> set (failure_times ops) \<Longrightarrow> f \<in> op_time ` set ops"
  by (auto simp: failure_times_def in_set_map_filter split: breaker_op.splits)
     (metis breaker_op.exhaust image_eqI op_time.simps(1))

lemma breaker_run:
  assumes "sorted (map op_time ops)" "0 < window"
  shows "sorted (br_failures (foldl breaker_step (new_breaker th window) ops)) \<and>
     br_threshold (foldl breaker_step (new_breaker th window) ops) = th \<and>
     br_window (foldl breaker_step (new_breaker th window) ops) = window \<and>
     (\<forall>t. (\<forall>op \<in> set ops. op_time op \<le> t) \<longrightarrow>
        filter (\<lambda>f. f > t - window) (br_failures (foldl breaker_step (new_breaker th window) ops))
          = filter (\<lambda>f. f > t - window) (failure_times ops)) \<and>
     set (br_failures (foldl breaker_step (new_breaker th window) ops)) \<subseteq> set (failure_times ops)"
  using assms(1)
proof (induction ops rule: rev_induct)
  case Nil
  then show ?case by (simp add: new_breaker_def)
next
  case (snoc op ops)
  let ?b = "foldl breaker_step (new_breaker th window) ops"
  from snoc have srt: "sorted (map op_time ops)" "\<forall>x \<in> set ops. op_time x \<le> op_time op"
    by (auto simp: sorted_append)
  from snoc.IH [OF srt(1)] have IH: "sorted (br_failures ?b)" "br_threshold ?b = th" "br_window ?b = window"
    "\<And>t. \<forall>x \<in> set ops. op_time x \<le> t \<Longrightarrow>
       filter (\<lambda>f. f > t - window) (br_failures ?b) = filter (\<lambda>f. f > t - window) (failure_times ops)"
    "set (br_failures ?b) \<subseteq> set (failure_times ops)" by auto
  have old: "\<forall>f \<in> set (br_failures ?b). f \<le> op_time op"
    using IH(5) srt(2) failure_times_le by fastforce
  show ?case
  proof (cases op)
    case (Fail t)
    have srt2: "sorted (br_failures ?b @ [t])" using IH(1) old Fail by (simp add: sorted_append)
    then have f: "br_failures (record_failure t ?b)
        = filter (\<lambda>f. f > t - window) (br_failures ?b) @ [t]"
      using prune_filter [of "?b\<lparr>br_failures := br_failures ?b @ [t]\<rparr>" t] assms(2)
      by (simp add: record_failure_def IH(3))
    have later: "filter (\<lambda>f. f > t' - window) (filter (\<lambda>f. f > t - window) xs) = filter (\<lambda>f. f > t' - window) xs"
      if "t \<le> t'" for t' xs using that by (auto intro: filter_cong)
    show ?thesis
      using Fail f IH old srt2 later by (auto simp: sorted_append sorted_wrt_filter)
  next
    case (Query t)
    have f: "br_failures (snd (is_open t ?b)) = filter (\<lambda>f. f > t - window) (br_failures ?b)"
      using prune_filter [OF IH(1)] by (simp add: is_open_def Let_def IH(3))
    have later: "filter (\<lambda>f. f > t' - window) (filter (\<lambda>f. f > t - window) xs) = filter (\<lambda>f. f > t' - window) xs"
      if "t \<le> t'" for t' xs using that by (auto intro: filter_cong)
    show ?thesis
      using Query f IH later by (auto simp: sorted_wrt_filter is_open_def Let_def)
  qed
qed

lemma breaker_open_iff:
  assumes "sorted (map op_time ops @ [t])" "0 < window"
  shows "fst (is_open t (foldl breaker_step (new_breaker th window) ops))
     \<longleftrightarrow> th \<le> int (length (filter (\<lambda>f. t - window < f) (failure_times ops)))"
proof -
  from assms have s: "sorted (map op_time ops)" "\<forall>op \<in> set ops. op_time op \<le> t"
    by (auto simp: sorted_append)
  note r = breaker_run [OF s(1) assms(2), of th]
  then show ?thesis using s(2) by (simp add: is_open_def Let_def prune_filter)
qed

section \<open>Which candidate answers\<close>

lemma fallback_try_shape:
  assumes "fallback_try E req i first p w = (r, p', w', tried)"
    and "length (fb_breakers p) = length (fb_chain p)"
  shows "fb_chain p' = fb_chain p \<and> fb_models p' = fb_models p \<and>
     length (fb_breakers p') = length (fb_breakers p) \<and>
     sorted_wrt (<) tried \<and> (\<forall>j \<in> set tried. i \<le> j \<and> j < length (fb_chain p)) \<and>
     (\<forall>j chs. r = Inr (j, chs) \<longrightarrow> tried \<noteq> [] \<and> last tried = j \<and>
        (\<exists>v v'. fe_stream E j (req\<lparr>rq_model := fb_models p ! j\<rparr>) v = (Inr chs, v')))"
  using assms
proof (induction "length (fb_chain p) - i" arbitrary: i first p w r p' w' tried rule: less_induct)
  case less
  show ?case
  proof (cases "i \<ge> length (fb_chain p) \<or> fe_ctx_err E w \<noteq> None")
    case True
    then show ?thesis using less.prems(1) by (subst (asm) fallback_try.simps) (auto split: if_splits option.splits)
  next
    case False
    then have go: "\<not> length (fb_chain p) \<le> i" "fe_ctx_err E w = None" by auto
    obtain t w1 where t: "fe_now E w = (t, w1)" by fastforce
    obtain op b where o: "is_open t (fb_breakers p ! i) = (op, b)" by fastforce
    let ?p1 = "p\<lparr>fb_breakers := (fb_breakers p)[i := b]\<rparr>"
    show ?thesis
    proof (cases op)
      case True
      have rec: "fallback_try E req (i + 1) first ?p1 w1 = (r, p', w', tried)"
        using less.prems(1) go t o True by (subst (asm) fallback_try.simps) simp
      have "length (fb_chain ?p1) - (i + 1) < length (fb_chain p) - i" using go by simp
      from less.hyps [OF this rec] less.prems(2) show ?thesis by (auto dest: Suc_leD)
    next
      case False
      obtain q w2 where q: "fe_stream E i (req\<lparr>rq_model := fb_models p ! i\<rparr>) w1 = (q, w2)" by fastforce
      show ?thesis
      proof (cases q)
        case (Inr chs)
        then have "(r, p', w', tried) = (Inr (i, chs), ?p1, w2, [i])"
          using less.prems(1) go t o False q by (subst (asm) fallback_try.simps) simp
        then show ?thesis using go q Inr by auto
      next
        case (Inl e)
        define first' where "first' = (case first of None \<Rightarrow> Some (ErrWrap (fb_chain p ! i) e) | Some f \<Rightarrow> Some f)"
        obtain p2 w3 where pw: "(if fe_ctx_err E w2 = None
            then (let (t2, w') = fe_now E w2
                  in (?p1\<lparr>fb_breakers := (fb_breakers ?p1)[i := record_failure t2 b]\<rparr>, w'))
            else (?p1, w2)) = (p2, w3)" by fastforce
        obtain r2 p3 w4 tr where rec: "fallback_try E req (i + 1) first' p2 w3 = (r2, p3, w4, tr)"
          by (metis prod_cases4)
        have p2: "fb_chain p2 = fb_chain p" "fb_models p2 = fb_models p" "length (fb_breakers p2) = length (fb_breakers p)"
          using pw by (auto split: if_splits prod.splits)
        have "(r, p', w', tried) = (r2, p3, w4, i # tr)"
          using less.prems(1) go t o False q Inl pw rec
          by (subst (asm) fallback_try.simps) (simp add: first'_def [symmetric])
        moreover from less.hyps [OF _ rec] p2 less.prems(2) go(1)
        have "fb_chain p3 = fb_chain p2 \<and> fb_models p3 = fb_models p2 \<and>
            length (fb_breakers p3) = length (fb_breakers p2) \<and>
            sorted_wrt (<) tr \<and> (\<forall>j \<in> set tr. i + 1 \<le> j \<and> j < length (fb_chain p2)) \<and>
            (\<forall>j chs. r2 = Inr (j, chs) \<longrightarrow> tr \<noteq> [] \<and> last tr = j \<and>
              (\<exists>v v'. fe_stream E j (req\<lparr>rq_model := fb_models p2 ! j\<rparr>) v = (Inr chs, v')))"
          by simp
        ultimately show ?thesis using p2 go by (auto simp: Suc_le_eq)
      qed
    qed
  qed
qed

lemma wrap_chunks_forwards: "fst (wrap_chunks E cs b w) = cs"
  by (induction E cs b w rule: wrap_chunks.induct) (auto simp: Let_def split: prod.splits)

text \<open>Behind the fallback wrapper a hosted provider is no longer recognised, so the tool names keep
  their dots.\<close>

lemma fallback_name_unsafe:
  "1 < length (fb_chain p) \<Longrightarrow> \<not> provider_needs_safe_names (fallback_name p)"
  by (auto simp: provider_needs_safe_names_def fallback_name_def)

lemma fallback_keeps_dots:
  "1 < length (fb_chain p) \<Longrightarrow> map lt_name (fst (tools_for r (fallback_name p))) = map t_name (list_tools r)"
  by (simp add: tools_for_wire_list fallback_name_unsafe wire_tool_def)

end
