(* ===== verification/Tool_Properties.thy ===== *)
theory Tool_Properties
  imports Transport_Guard Llm_Breaker Skills Perm_Mask Agent_Text
begin

text \<open>
  The properties of the tool catalog, permissions, redaction, observation text, skills, the read-only
  transport and the provider fallback.
\<close>

text \<open>A registry of two tools, for the instances.\<close>

definition ex_tool :: "string \<Rightarrow> tool" where
  "ex_tool n = \<lparr>t_name = n, t_description = [], t_schema = [], t_risk = None\<rparr>"

definition ex_registry :: tool_registry where
  "ex_registry = registry_new\<lparr>r_items := \<lparr>name_of = t_name,
     items = [(''log.query'', ex_tool ''log.query''), (''k8s.pods'', ex_tool ''k8s.pods'')]\<rparr>\<rparr>"

lemma ex_list: "list_tools ex_registry = [ex_tool ''k8s.pods'', ex_tool ''log.query'']"
  by code_simp

lemma ex_built: "must_register ascii_unicode registry_new [ex_tool ''log.query'', ex_tool ''k8s.pods''] = Inr ex_registry"
proof -
  have "assert_read_only_name ascii_unicode ''k8s.pods'' = None" "assert_read_only_name ascii_unicode ''log.query'' = None"
    by code_simp+
  then show ?thesis
    by (simp add: ex_registry_def register_tool_def items_must_register_def registry_new_def
        regmap_must_register_def regmap_register_def regmap_get_def ex_tool_def Let_def)
qed

lemma ex_inv: "catalog_inv ascii_unicode ex_registry"
  by (rule catalog_must_register [OF catalog_new ex_built])

text \<open>C10. Every registry reachable by registering, filtering, marking groups and describing the tools
  to a provider is well formed: keyed by the tools' own names, listed sorted without duplicates, and
  without any tool whose name has a mutating word as a dot- or underscore-separated token; a lookup
  by any name, alias included, yields a listed tool.\<close>

theorem catalog_read_only:
  assumes "catalog_reach u r"
  shows "sorted (map t_name (list_tools r)) \<and> distinct (map t_name (list_tools r)) \<and>
    (\<forall>t \<in> set (list_tools r). set (name_tokens u (t_name t)) \<inter> set mutator_tokens = {}) \<and>
    (\<forall>n t. get_tool r n = Some t \<longrightarrow> t \<in> set (list_tools r))"
proof -
  have inv: "catalog_inv u r" by (rule catalog_reach_inv [OF assms])
  note d = catalog_invD [OF inv]
  show ?thesis
    using regmap_all_sorted [OF d(1)] regmap_all_distinct [OF d(1)] d(2,5) get_tool_listed [OF inv]
    by (simp add: list_tools_def read_only_name_iff [symmetric])
qed

theorem catalog_read_only_witness:
  "\<exists>r. register_tool ascii_unicode registry_new (ex_tool ''k8s.pods'') = Inr r \<and> sorted (map t_name (list_tools r))"
proof -
  have "assert_read_only_name ascii_unicode ''k8s.pods'' = None" by code_simp
  then obtain r where r: "register_tool ascii_unicode registry_new (ex_tool ''k8s.pods'') = Inr r"
    by (simp add: register_tool_def items_must_register_def registry_new_def regmap_must_register_def
        regmap_register_def regmap_get_def ex_tool_def)
  then have "catalog_reach ascii_unicode r" using catalog_reach.registered [OF catalog_reach.fresh] by blast
  then show ?thesis using catalog_read_only r by blast
qed

text \<open>Filtering a well-formed registry by an allow list never panics; the result holds exactly the
  tools whose name matches a pattern, and every alias and every skipped-group entry.\<close>

theorem filter_selects:
  assumes "catalog_inv u r"
  shows "\<exists>sub. filter_tools r allow = Inr sub \<and> catalog_inv u sub \<and>
    list_tools sub = filter (\<lambda>t. matches_any (t_name t) allow) (list_tools r) \<and>
    (\<forall>k. gm_get (r_alias sub) k = gm_get (r_alias r) k) \<and>
    (\<forall>g. gm_get (r_skipped sub) g = gm_get (r_skipped r) g)"
  using assms by (rule filter_tools_ok)

theorem filter_selects_witness:
  "\<exists>sub. filter_tools ex_registry [''k8s.*''] = Inr sub \<and> list_tools sub = [ex_tool ''k8s.pods'']"
proof -
  have "filter (\<lambda>t. matches_any (t_name t) [''k8s.*'']) (list_tools ex_registry) = [ex_tool ''k8s.pods'']"
    unfolding ex_list by code_simp
  then show ?thesis using filter_selects [OF ex_inv, of "[''k8s.*'']"] by auto
qed

text \<open>C20. Applying a permission profile keeps exactly the tools no deny pattern matches and, when the
  allow list is not empty, some allow pattern matches; it never panics on a well-formed registry.\<close>

theorem profile_filters:
  assumes "catalog_inv u r"
  shows "\<exists>out. filter_registry u (Some r) (Some p) = Inr (Some out) \<and> catalog_inv u out \<and>
    list_tools out = filter (\<lambda>t. tool_permitted p (t_name t)) (list_tools r)"
  using assms by (rule filter_registry_ok)

theorem profile_filters_witness:
  "\<exists>out. filter_registry ascii_unicode (Some ex_registry)
      (Some (default_profile\<lparr>p_tools := \<lparr>tl_allow = [''*''], tl_deny = [''log.*'']\<rparr>\<rparr>)) = Inr (Some out) \<and>
     list_tools out = [ex_tool ''k8s.pods'']"
proof -
  let ?p = "default_profile\<lparr>p_tools := \<lparr>tl_allow = [''*''], tl_deny = [''log.*'']\<rparr>\<rparr>"
  have "filter (\<lambda>t. tool_permitted ?p (t_name t)) (list_tools ex_registry) = [ex_tool ''k8s.pods'']"
    unfolding ex_list by (simp add: tool_permitted_def) code_simp
  then show ?thesis using profile_filters [OF ex_inv, of ?p] by auto
qed

text \<open>C36. As long as the safe spelling keeps the listed names apart, every tool of a registry is found
  under the name the provider was given for it.\<close>

theorem wire_names_resolve:
  assumes "catalog_inv u r" "inj_on safe_name (t_name ` set (list_tools r))" "t \<in> set (list_tools r)"
  shows "get_tool (snd (tools_for r provider)) (lt_name (wire_tool (provider_needs_safe_names provider) t)) = Some t"
  using assms by (rule tools_for_resolves)

theorem wire_names_resolve_witness:
  "get_tool (snd (tools_for ex_registry ''openai'')) ''k8s_pods'' = Some (ex_tool ''k8s.pods'')"
proof -
  have n: "t_name (ex_tool n) = n" for n by (simp add: ex_tool_def)
  have "inj_on safe_name (t_name ` set (list_tools ex_registry))"
    "ex_tool ''k8s.pods'' \<in> set (list_tools ex_registry)"
    by (simp_all add: ex_list n safe_name_def)
  from wire_names_resolve [OF ex_inv this, of "''openai''"] show ?thesis
    by (simp add: wire_tool_def provider_needs_safe_names_def safe_name_def n)
qed

text \<open>The inventory has one report per group, sorted by name: a group with tools lists exactly the
  sorted names of its tools and is not skipped, even when it was also marked; a group without tools is
  reported as skipped with its reason.\<close>

theorem inventory_reports:
  assumes "catalog_reach u r"
  shows "sorted (map gr_name (inventory r)) \<and> distinct (map gr_name (inventory r)) \<and>
    (\<forall>rep. rep \<in> set (inventory r) \<longleftrightarrow>
       (if gr_skipped rep
        then gr_tools rep = [] \<and> (gr_name rep, gr_reason rep) \<in> set (r_skipped r) \<and>
          (\<forall>t \<in> set (list_tools r). group_of (t_name t) \<noteq> gr_name rep)
        else gr_reason rep = [] \<and> gr_tools rep \<noteq> [] \<and>
          gr_tools rep = sort (filter (\<lambda>n. group_of n = gr_name rep) (map t_name (list_tools r)))))"
proof (intro conjI allI)
  have inv: "catalog_inv u r" by (rule catalog_reach_inv [OF assms])
  show "sorted (map gr_name (inventory r))" by (simp add: inventory_def Let_def)
  show "distinct (map gr_name (inventory r))"
    by (rule inventory_names_distinct) (rule catalog_invD(3) [OF inv])
  fix rep :: group_report
  have mem: "(g, ns) \<in> set (by_group r) \<longleftrightarrow>
      ns = filter (\<lambda>n. group_of n = g) (map t_name (list_tools r)) \<and> ns \<noteq> []" for g ns
    using by_group_wf [of r] by (auto simp: gm_wf_def by_group_get Let_def split: if_splits
        simp flip: map_of_eq_Some_iff)
  have none: "gm_get (by_group r) g = None \<longleftrightarrow> (\<forall>t \<in> set (list_tools r). group_of (t_name t) \<noteq> g)" for g
    by (auto simp: by_group_get Let_def filter_empty_conv)
  have sort_empty: "sort xs = [] \<longleftrightarrow> xs = []" for xs :: "string list"
    by (metis length_0_conv length_sort)
  obtain g ts sk rs where rep: "rep = \<lparr>gr_name = g, gr_tools = ts, gr_skipped = sk, gr_reason = rs\<rparr>"
    by (cases rep) auto
  show "rep \<in> set (inventory r) \<longleftrightarrow>
       (if gr_skipped rep
        then gr_tools rep = [] \<and> (gr_name rep, gr_reason rep) \<in> set (r_skipped r) \<and>
          (\<forall>t \<in> set (list_tools r). group_of (t_name t) \<noteq> gr_name rep)
        else gr_reason rep = [] \<and> gr_tools rep \<noteq> [] \<and>
          gr_tools rep = sort (filter (\<lambda>n. group_of n = gr_name rep) (map t_name (list_tools r))))"
    unfolding inventory_mem mem none rep by (auto simp: sort_empty)
qed

theorem inventory_reports_witness: "sorted (map gr_name (inventory (mark_skipped ''trace'' ''no endpoint'' ex_registry)))"
proof -
  have step: "catalog_reach u r \<Longrightarrow> must_register u r ts = Inr r' \<Longrightarrow> catalog_reach u r'" for u r ts r'
    by (induction ts arbitrary: r) (auto split: sum.splits intro: catalog_reach.registered)
  show ?thesis
    using inventory_reports [OF catalog_reach.marked [OF step [OF catalog_reach.fresh ex_built]]] by blast
qed

text \<open>C21. Masking a conversation is masking each of its messages with the profile's masker (or the
  default one), and nothing the caller can reach changes: every slice of tool calls that existed
  before still holds what it held.\<close>

theorem masked_history:
  assumes "refs_ok h ms" "mask_history C p h ms = (h', out)"
  shows "map (msg_view h') out = map (mask_message C (masker_or_default C p)) (map (msg_view h) ms) \<and>
    take (length h) h' = h"
proof -
  have len: "length h \<le> length h'"
  proof -
    obtain h1 o1 where c: "clone_history h ms = (h1, o1)" by fastforce
    have "length h1 = length h'"
      using assms(2) mask_pass_length [of C "masker_or_default C p" h1 o1] by (simp add: mask_history_def c)
    then show ?thesis using clone_history_extends [of h ms] c by auto
  qed
  have "take (length h) h' = h"
    using len mask_history_refines(2) [OF assms] by (intro nth_equalityI) simp_all
  then show ?thesis using mask_history_refines(1) [OF assms] by simp
qed

definition ex_codec :: "string codec" where
  "ex_codec = \<lparr>re_compile = Some, re_match = (\<lambda>p s. p = ''(?i)'' @ s), re_replace = (\<lambda>p s r. if s = p then r else s),
     json_unmarshal = (\<lambda>s. None), json_marshal = (\<lambda>j. None)\<rparr>"

theorem masked_history_witness:
  "\<exists>h' out. mask_history ex_codec None [[\<lparr>tc_id = ''1'', tc_name = ''n'', tc_args = ''{}''\<rparr>]]
       [\<lparr>mr_role = RoleAssistant, mr_content = ''hi'', mr_calls = 0, mr_call_id = []\<rparr>] = (h', out) \<and>
     h' ! 0 = [\<lparr>tc_id = ''1'', tc_name = ''n'', tc_args = ''{}''\<rparr>]"
proof -
  let ?h = "[[\<lparr>tc_id = ''1'', tc_name = ''n'', tc_args = ''{}''\<rparr>]]"
  let ?m = "[\<lparr>mr_role = RoleAssistant, mr_content = ''hi'', mr_calls = 0, mr_call_id = []\<rparr>]"
  obtain h' out where r: "mask_history ex_codec None ?h ?m = (h', out)" by fastforce
  have "refs_ok ?h ?m" by simp
  from masked_history [OF this r] have "take 1 h' = ?h" by simp
  then have "h' ! 0 = ?h ! 0" by (metis nth_take zero_less_one)
  then show ?thesis using r by auto
qed

text \<open>C22. Redacting a document leaves no field whose name matches a key pattern with anything but the
  placeholder, and changes nothing else than such fields and string leaves: same keys in the same
  order, same nesting, every string replaced by its masked form, every other leaf kept.\<close>

theorem masked_document:
  "keys_clean C m (mask_value C m key v) \<and> same_shape C m key v (mask_value C m key v)"
  using mask_value_clean mask_value_shape by blast

text \<open>An observation over the budget keeps a prefix and a suffix of the text around a marker that
  names the number of dropped bytes, the suffix at least as long as the prefix, and has exactly the
  budget's length.\<close>

theorem truncation_keeps_ends:
  assumes "0 < mx" "mx < int (length s)"
    and "int (length (truncation_marker (int (length s) - mx))) < mx"
  shows "\<exists>h t. truncate_middle s mx = h @ truncation_marker (int (length s) - mx) @ t \<and>
     prefix h s \<and> suffix t s \<and> length h \<le> length t \<and>
     int (length h + length (truncation_marker (int (length s) - mx)) + length t) = mx"
  using assms by (rule truncate_middle_ends)

theorem truncation_keeps_ends_witness:
  "length (truncate_middle (replicate 200 (CHR ''a'')) 100) = 100"
proof -
  have "length (show_nat 100) = 3" by code_simp
  then have m: "length (truncation_marker (int (length (replicate 200 (CHR ''a''))) - 100)) = 29"
    by (simp add: truncation_marker_def ellipsis_def show_int_def)
  have "(0 :: int) < 100" "(100 :: int) < int (length (replicate 200 (CHR ''a'')))"
    "int (length (truncation_marker (int (length (replicate 200 (CHR ''a''))) - 100))) < 100"
    by (simp_all add: m del: length_replicate) simp
  from truncation_keeps_ends [OF this] show ?thesis by auto
qed

text \<open>However many cells the rows have and whatever bytes they hold, a rendered table is one line
  per header, rule and row, and a Markdown reader finds in each line exactly one unescaped separator
  more than there are headers, so no cell can break out of its row or column.\<close>

theorem table_is_rectangular:
  assumes "tb_headers t \<noteq> []"
  shows "split_byte newline (render_markdown_table (Some t)) = table_lines t @ [[]] \<and>
    length (table_lines t) = 2 + length (tb_rows t) \<and>
    (\<forall>l \<in> set (table_lines t). md_scan False l = (Suc (length (tb_headers t)), False))"
  using assms table_line_scan [of _ t] split_lines [of "table_lines t"]
  by (auto simp: render_markdown_table_def) (simp add: table_lines_def Let_def)

theorem table_is_rectangular_witness:
  "list_all (\<lambda>l. md_scan False l = (3, False))
     (table_lines \<lparr>tb_headers = [''a'', ''b''], tb_rows = [[''x|y'', [newline]], [''1'']], tb_aligns = []\<rparr>)"
  using table_is_rectangular [of "\<lparr>tb_headers = [''a'', ''b''], tb_rows = [[''x|y'', [newline]], [''1'']], tb_aligns = []\<rparr>"]
  by (simp add: numeral_3_eq_3 list_all_iff)

text \<open>The lines a log summary may show as exception context are exactly the non-empty lines at or
  up to four lines after a line the exception pattern matches, and the summary is at most the byte
  limit plus its fixed frame long.\<close>

theorem log_summary_shape:
  assumes "0 < mx"
  shows "int (length (summarize_log exc txt mx)) \<le> mx + 117 + int (length (show_nat (length txt))) \<and>
    (\<forall>l. l \<noteq> [] \<longrightarrow> (l \<in> set (extract_exception_context exc (split_byte newline txt) 5) \<longleftrightarrow>
       (\<exists>i < length (split_byte newline txt). l = split_byte newline txt ! i \<and>
          (\<exists>j \<le> i. i < j + 5 \<and> exc (split_byte newline txt ! j)))))"
  using summarize_log_length [OF assms] extract_mem [of _ exc "split_byte newline txt" 5] by blast

theorem log_summary_shape_witness:
  "''panic'' \<in> set (extract_exception_context (\<lambda>l. l = ''panic'') (split_byte newline (''ok'' @ [newline] @ ''panic'')) 5)"
proof -
  let ?t = "''ok'' @ [newline] @ ''panic''"
  have s: "split_byte newline ?t = [''ok'', ''panic'']" by simp
  have "\<exists>i < length (split_byte newline ?t). ''panic'' = split_byte newline ?t ! i \<and>
      (\<exists>j \<le> i. i < j + 5 \<and> (\<lambda>l. l = ''panic'') (split_byte newline ?t ! j))"
    unfolding s by (intro exI [of _ 1]) (auto intro: exI [of _ 1])
  moreover have "\<forall>l. l \<noteq> [] \<longrightarrow> (l \<in> set (extract_exception_context (\<lambda>l. l = ''panic'') (split_byte newline ?t) 5) \<longleftrightarrow>
       (\<exists>i < length (split_byte newline ?t). l = split_byte newline ?t ! i \<and>
          (\<exists>j \<le> i. i < j + 5 \<and> split_byte newline ?t ! j = ''panic'')))"
    by (rule log_summary_shape [where mx = 10, THEN conjunct2]) simp
  ultimately show ?thesis by blast
qed

end
