(* ===== verification/Go_Space.thy ===== *)
theory Go_Space
  imports Go_Utf8
begin

text \<open>
  White space twice: trimming and field splitting reach a fixed point after one application. The
  stores that normalise what they read (incident cards, skills, profiles) rest on these facts.
\<close>

lemma strip_one_None: "strip_one ps s = None \<longleftrightarrow> (\<forall>p \<in> set ps. p \<noteq> [] \<longrightarrow> \<not> prefix p s)"
  by (induction ps s rule: strip_one.induct) auto

lemma strip_one_None_prefix: "strip_one ps s = None \<Longrightarrow> prefix t s \<Longrightarrow> strip_one ps t = None"
  by (auto simp: strip_one_None dest: prefix_order.trans)

lemma strip_all_None: "strip_one ps s = None \<Longrightarrow> strip_all ps s = s"
  by (simp add: strip_all.simps)

lemma trim_space_idem [simp]: "trim_space (trim_space s) = trim_space s"
proof -
  let ?l = "trim_left_space s"
  have "strip_one space_seqs ?l = None" by (simp add: trim_left_space_def strip_all_done)
  then have "strip_one space_seqs (trim_right_space ?l) = None"
    by (rule strip_one_None_prefix) (rule trim_right_space_prefix)
  then have "trim_left_space (trim_space s) = trim_space s"
    by (simp add: trim_space_def trim_left_space_def strip_all_None)
  then show ?thesis
    by (simp add: trim_space_def [of "trim_space s"])
       (simp add: trim_space_def trim_right_space_def strip_all_idem)
qed

section \<open>Printable ASCII is never space\<close>

definition solid :: "char \<Rightarrow> bool" where
  "solid c \<longleftrightarrow> 33 \<le> byte c \<and> byte c < 128"

lemma encode_rune_high: "128 \<le> r \<Longrightarrow> c \<in> set (encode_rune r) \<Longrightarrow> 128 \<le> byte c"
proof -
  assume r: "128 \<le> r" and c: "c \<in> set (encode_rune r)"
  have b: "x mod 64 < 64" "r < 2048 \<Longrightarrow> r div 64 < 32" "r < 65536 \<Longrightarrow> r div 4096 < 16"
    "r < 1114112 \<Longrightarrow> r div 262144 < 5" for x :: nat by auto
  have cont: "128 \<le> (128 + x mod 64) mod (256 :: nat)" for x using b(1) [of x] by simp
  from c show ?thesis
    using r b cont [of r] cont [of "r div 64"] cont [of "r div 4096"]
    by (auto simp: encode_rune_def Let_def split: if_splits)
qed

lemma space_seq_not_solid: "p \<in> set space_seqs \<Longrightarrow> c \<in> set p \<Longrightarrow> \<not> solid c"
proof -
  assume "p \<in> set space_seqs" "c \<in> set p"
  then obtain r where r: "r \<in> set space_codes" "c \<in> set (encode_rune r)" by (auto simp: space_seqs_def)
  have "r \<le> 32 \<or> 128 \<le> r" using r(1) by (auto simp: space_codes_def)
  then show "\<not> solid c"
  proof
    assume "r \<le> 32"
    then have "byte c = r" using r(2) by (simp add: encode_rune_def)
    then show ?thesis using \<open>r \<le> 32\<close> by (simp add: solid_def)
  next
    assume "128 \<le> r"
    then show ?thesis using encode_rune_high [OF _ r(2)] by (simp add: solid_def)
  qed
qed

lemma strip_one_solid: "solid c \<Longrightarrow> strip_one space_seqs (c # s) = None"
  unfolding strip_one_None by (auto simp: prefix_Cons dest: space_seq_not_solid)

lemma strip_one_rev_solid: "solid c \<Longrightarrow> strip_one (map rev space_seqs) (c # s) = None"
  unfolding strip_one_None by (auto simp: prefix_Cons Cons_eq_rev_iff dest: space_seq_not_solid)

lemma trim_space_solid: "s \<noteq> [] \<Longrightarrow> solid (hd s) \<Longrightarrow> solid (last s) \<Longrightarrow> trim_space s = s"
proof -
  assume s: "s \<noteq> []" "solid (hd s)" "solid (last s)"
  then have "trim_left_space s = s"
    by (cases s) (simp_all add: trim_left_space_def strip_all_None strip_one_solid)
  moreover have "trim_right_space s = s"
    using s by (cases s rule: rev_cases) (simp_all add: trim_right_space_def strip_all_None strip_one_rev_solid)
  ultimately show ?thesis by (simp add: trim_space_def)
qed

lemma strip_one_Some: "strip_one ps s = Some t \<Longrightarrow> \<exists>p \<in> set ps. p \<noteq> [] \<and> prefix p s \<and> t = drop (length p) s"
  by (induction ps s rule: strip_one.induct) (auto split: if_splits)

lemma space_seq_ascii: "p \<in> set space_seqs \<Longrightarrow> c \<in> set p \<Longrightarrow> byte c < 128 \<Longrightarrow> p = [c]"
proof -
  assume p: "p \<in> set space_seqs" "c \<in> set p" "byte c < 128"
  then obtain r where r: "p = encode_rune r" by (auto simp: space_seqs_def)
  then have "r < 128" using encode_rune_high [of r c] p by (meson leD leI)
  then show "p = [c]" using p(2) r by (simp add: encode_rune_def)
qed

lemma strip_one_ascii_space: "byte c \<in> {9, 10, 11, 12, 13, 32} \<Longrightarrow> strip_one space_seqs (c # s) = Some s"
proof -
  assume c: "byte c \<in> {9, 10, 11, 12, 13, 32}"
  have m: "encode_rune (byte c) \<in> set space_seqs"
    unfolding space_seqs_def set_map by (rule imageI) (use c in \<open>auto simp: space_codes_def\<close>)
  have "encode_rune (byte c) = [c]" using c by (auto simp: encode_rune_def)
  with m have "[c] \<in> set space_seqs" by simp
  then have "strip_one space_seqs (c # s) \<noteq> None"
    unfolding strip_one_None by (auto intro!: bexI [of _ "[c]"])
  then obtain t where t: "strip_one space_seqs (c # s) = Some t" by blast
  from strip_one_Some [OF this] obtain p where p: "p \<in> set space_seqs" "p \<noteq> []" "prefix p (c # s)"
    "t = drop (length p) (c # s)" by blast
  have "c \<in> set p" using p(2,3) by (cases p) auto
  then have "p = [c]" using space_seq_ascii [OF p(1)] c by auto
  then show ?thesis using t p by simp
qed

section \<open>Words\<close>

text \<open>A word as \<open>Fields\<close> cuts it: no white space begins anywhere in it.\<close>

definition tight :: "string \<Rightarrow> bool" where
  "tight w \<longleftrightarrow> w \<noteq> [] \<and> (\<forall>u v. w = u @ v \<longrightarrow> v \<noteq> [] \<longrightarrow> strip_one space_seqs v = None)"

lemma fields_acc_tight:
  assumes "\<forall>u v. rev acc = u @ v \<longrightarrow> v \<noteq> [] \<longrightarrow> strip_one space_seqs (v @ s) = None"
    and "w \<in> set (fields_acc s acc)"
  shows "tight w"
  using assms
proof (induction s acc rule: fields_acc.induct)
  case (1 acc)
  then show ?case by (auto simp: tight_def split: if_splits)
next
  case (2 c cs acc)
  show ?case
  proof (cases "strip_one space_seqs (c # cs)")
    case None
    have "strip_one space_seqs (v @ cs) = None" if "rev (c # acc) = u @ v" "v \<noteq> []" for u v
    proof -
      note uv = that
      obtain v' where v: "v = v' @ [c]" "rev acc = u @ v'"
        using uv by (cases v rule: rev_cases) auto
      then show ?thesis using "2.prems"(1) [rule_format, OF v(2)] None by (cases "v' = []") auto
    qed
    moreover have "w \<in> set (fields_acc cs (c # acc))"
      using "2.prems"(2) None by (simp add: fields_acc.simps(2))
    ultimately show ?thesis using "2.IH"(1) [OF None] by blast
  next
    case (Some t)
    have "strip_one space_seqs v = None" if "rev acc = u @ v" "v \<noteq> []" for u v
      using "2.prems"(1) that by (meson prefixI strip_one_None_prefix)
    then have "tight (rev acc)" if "acc \<noteq> []" using that by (simp add: tight_def)
    then show ?thesis using "2.prems"(2) Some "2.IH"(2,3) [OF Some]
      by (auto simp: fields_acc.simps(2) split: if_splits)
  qed
qed

lemma fields_tight: "w \<in> set (str_fields s) \<Longrightarrow> tight w"
  unfolding str_fields_def by (rule fields_acc_tight) auto

lemma fields_acc_word:
  "(\<And>u v. w = u @ v \<Longrightarrow> v \<noteq> [] \<Longrightarrow> strip_one space_seqs (v @ r) = None) \<Longrightarrow>
     fields_acc (w @ r) acc = fields_acc r (rev w @ acc)"
proof (induction w arbitrary: acc)
  case (Cons c w)
  have "strip_one space_seqs (c # w @ r) = None" using Cons.prems [of "[]" "c # w"] by simp
  moreover have "fields_acc (w @ r) (c # acc) = fields_acc r (rev w @ c # acc)"
    by (rule Cons.IH) (use Cons.prems [of "c # _"] in simp)
  ultimately show ?case by (simp add: fields_acc.simps(2))
qed simp

lemma strip_one_before_space:
  assumes "strip_one space_seqs v = None" "v \<noteq> []"
  shows "strip_one space_seqs (v @ CHR '' '' # r) = None"
  unfolding strip_one_None
proof (intro ballI impI notI)
  fix p assume p: "p \<in> set space_seqs" "p \<noteq> []" "prefix p (v @ CHR '' '' # r)"
  then have "\<not> prefix p v" using assms(1) by (simp add: strip_one_None)
  then obtain q where q: "p = v @ CHR '' '' # q"
    using p(3) by (auto simp: prefix_append prefix_Cons)
  then have "p = [CHR '' '']" using space_seq_ascii [OF p(1), of "CHR '' ''"] by simp
  then show False using q assms(2) by (cases v) auto
qed

lemma fields_join: "(\<And>w. w \<in> set ws \<Longrightarrow> tight w) \<Longrightarrow> str_fields (join ws '' '') = ws"
proof (induction ws)
  case (Cons w ws)
  have w: "tight w" using Cons.prems by simp
  show ?case
  proof (cases "ws = []")
    case True
    have "fields_acc (w @ []) [] = fields_acc [] (rev w @ [])"
      by (rule fields_acc_word) (use w in \<open>auto simp: tight_def\<close>)
    then show ?thesis using True w by (simp add: str_fields_def tight_def)
  next
    case False
    have "fields_acc (w @ CHR '' '' # join ws '' '') [] = fields_acc (CHR '' '' # join ws '' '') (rev w @ [])"
      by (rule fields_acc_word) (use w in \<open>auto simp: tight_def strip_one_before_space\<close>)
    then have "str_fields (join (w # ws) '' '') = w # str_fields (join ws '' '')"
      using False w strip_one_ascii_space [of "CHR '' ''" "join ws '' ''"]
      by (simp add: join_Cons str_fields_def fields_acc.simps(2) tight_def)
    then show ?thesis using Cons.IH Cons.prems by simp
  qed
qed (simp add: str_fields_def)

definition clean_text :: "string \<Rightarrow> string" where
  "clean_text s = join (str_fields s) '' ''"

lemma fields_clean [simp]: "str_fields (clean_text s) = str_fields s"
  unfolding clean_text_def by (rule fields_join) (rule fields_tight)

lemma clean_text_idem [simp]: "clean_text (clean_text s) = clean_text s"
  by (simp add: clean_text_def [of "clean_text s"]) (simp add: clean_text_def)

lemma tight_no_space: "tight w \<Longrightarrow> c \<in> set w \<Longrightarrow> byte c \<notin> {9, 10, 11, 12, 13, 32}"
proof
  assume w: "tight w" "c \<in> set w" "byte c \<in> {9, 10, 11, 12, 13, 32}"
  then obtain u v where "w = u @ c # v" by (auto simp: in_set_conv_decomp)
  then have "strip_one space_seqs (c # v) = None" using w(1) unfolding tight_def by blast
  then show False using strip_one_ascii_space [OF w(3)] by simp
qed

lemma set_join: "set (join ws sep) \<subseteq> \<Union> (set ` set ws) \<union> set sep"
  by (induction ws sep rule: join.induct) auto

lemma clean_text_one_line: "CHR 0x0A \<notin> set (clean_text s)"
proof
  assume "CHR 0x0A \<in> set (clean_text s)"
  then obtain w where "w \<in> set (str_fields s)" "CHR 0x0A \<in> set w"
    using set_join [of "str_fields s" "'' ''"] by (auto simp: clean_text_def)
  then show False using tight_no_space [OF fields_tight] by force
qed

lemma join_ne: "ws \<noteq> [] \<Longrightarrow> (\<And>w. w \<in> set ws \<Longrightarrow> w \<noteq> []) \<Longrightarrow> join ws sep \<noteq> []"
  by (induction ws sep rule: join.induct) auto

lemma clean_text_Nil: "clean_text s = [] \<longleftrightarrow> str_fields s = []"
  using join_ne [of "str_fields s" "'' ''"] fields_nonempty by (auto simp: clean_text_def)

end
