(* ===== verification/Provider_Properties.thy ===== *)
theory Provider_Properties
  imports Transport_Guard Llm_Breaker Skills Go_Space
begin

text \<open>
  The properties of the read-only transport, model routing, the circuit breaker, the provider
  fallback and the skills.
\<close>

text \<open>C11. Whatever sequence of requests a client sends through the read-only transport, the wrapped
  transport is in the state it would have reached had it been sent only the GET, HEAD and OPTIONS
  requests, in that order; every other request comes back as a read-only violation.\<close>

theorem transport_read_only:
  "snd (send_all (new_tripper d inner) rs w)
     = snd (send_all (case inner of None \<Rightarrow> d | Some t \<Rightarrow> t)
         (filter (\<lambda>r. hr_method r \<in> set [''GET'', ''HEAD'', ''OPTIONS'']) rs) w) \<and>
   (\<forall>i < length rs. hr_method (rs ! i) \<notin> set [''GET'', ''HEAD'', ''OPTIONS''] \<longrightarrow>
      fst (send_all (new_tripper d inner) rs w) ! i
        = Inl (ReadOnlyViolation (hr_method (rs ! i)) (hr_url (rs ! i)) (read_only_alternative (hr_method (rs ! i)))))"
proof -
  have "fst (send_all (new_tripper d inner) rs w) ! i
      = Inl (ReadOnlyViolation (hr_method (rs ! i)) (hr_url (rs ! i)) (read_only_alternative (hr_method (rs ! i))))"
    if "i < length rs" "hr_method (rs ! i) \<notin> set allowed_methods" for i
    using that
  proof (induction rs arbitrary: w i)
    case (Cons r rs)
    then show ?case
      by (cases i) (auto simp: new_tripper_def round_trip_blocked Let_def case_prod_unfold)
  qed simp
  then show ?thesis using send_all_filtered [of d inner rs w] by (simp add: allowed_methods_def)
qed

theorem transport_read_only_witness:
  "fst (send_all (new_tripper (\<lambda>r w. (Inr (), Suc w)) None) [\<lparr>hr_method = ''GET'', hr_url = ''u'', hr_headers = []\<rparr>,
      \<lparr>hr_method = ''DELETE'', hr_url = ''u'', hr_headers = []\<rparr>] 0) ! 1
     = Inl (ReadOnlyViolation ''DELETE'' ''u'' (read_only_alternative ''DELETE''))"
  using transport_read_only [of "\<lambda>r w. (Inr (), Suc w)" None
      "[\<lparr>hr_method = ''GET'', hr_url = ''u'', hr_headers = []\<rparr>, \<lparr>hr_method = ''DELETE'', hr_url = ''u'', hr_headers = []\<rparr>]" 0]
  by (auto dest: spec [where x = 1])

text \<open>A services/proxy URL is the API host followed by a path whose first segments are fixed: the
  namespace, the service reference and the port stay within their own segments whatever bytes they
  hold, and a name with a slash gives no URL.\<close>

theorem proxy_url_stays_in_service:
  assumes "proxy_url h ns svc scheme port path \<noteq> []"
  shows "\<exists>rest. proxy_url h ns svc scheme port path = h @ rest \<and>
     take 8 (split_byte (CHR ''/'') rest)
       = [[], ''api'', ''v1'', ''namespaces'', path_escape ns, ''services'', proxy_spec svc scheme port, ''proxy'']"
  using assms by (rule proxy_url_segments)

theorem proxy_url_stays_in_service_witness:
  "\<exists>rest. proxy_url ''https://api'' ''prod'' ''prom ?'' [] ''9090'' ''/api/v1/query'' = ''https://api'' @ rest \<and>
     take 8 (split_byte (CHR ''/'') rest)
       = [[], ''api'', ''v1'', ''namespaces'', ''prod'', ''services'', ''prom%20%3F:9090'', ''proxy'']"
proof -
  have n: "proxy_url ''https://api'' ''prod'' ''prom ?'' [] ''9090'' ''/api/v1/query'' \<noteq> []"
    by (simp add: proxy_url_def)
  have e: "path_escape ''prod'' = ''prod''" "proxy_spec ''prom ?'' [] ''9090'' = ''prom%20%3F:9090''" by code_simp+
  show ?thesis using proxy_url_stays_in_service [OF n] unfolding e .
qed

text \<open>C35. After any sequence of failures and queries at non-decreasing times, the breaker is open at a
  time exactly when at least the threshold of failures lie in the window before it.\<close>

theorem breaker_opens_iff:
  assumes "sorted (map op_time ops @ [t])" "0 < window"
  shows "fst (is_open t (foldl breaker_step (new_breaker th window) ops))
     \<longleftrightarrow> th \<le> int (length (filter (\<lambda>f. t - window < f) (failure_times ops)))"
  using assms by (rule breaker_open_iff)

theorem breaker_opens_iff_witness:
  "fst (is_open 12 (foldl breaker_step (new_breaker 2 10) [Fail 1, Fail 5, Query 9, Fail 11])) \<and>
   \<not> fst (is_open 17 (foldl breaker_step (new_breaker 2 10) [Fail 1, Fail 5, Query 9, Fail 11]))"
proof -
  let ?ops = "[Fail 1, Fail 5, Query 9, Fail 11]"
  have f: "failure_times ?ops = [1, 5, 11]" by (simp add: failure_times_def map_filter_def)
  have "sorted (map op_time ?ops @ [12])" "sorted (map op_time ?ops @ [17])" "(0 :: int) < 10" by simp_all
  then show ?thesis
    using breaker_opens_iff [of ?ops 12 10 2] breaker_opens_iff [of ?ops 17 10 2] f by simp
qed

text \<open>The fallback provider tries candidates in chain order, each at most once; on success the
  stream is the last one tried, opened with that candidate's own model, and the chain, its models and
  the number of breakers are unchanged.\<close>

theorem fallback_order:
  assumes "fallback_stream E req p w = (r, p', w', tried)" "length (fb_breakers p) = length (fb_chain p)"
  shows "fb_chain p' = fb_chain p \<and> fb_models p' = fb_models p \<and>
     length (fb_breakers p') = length (fb_breakers p) \<and>
     sorted_wrt (<) tried \<and> (\<forall>j \<in> set tried. j < length (fb_chain p)) \<and>
     (\<forall>j chs. r = Inr (j, chs) \<longrightarrow> tried \<noteq> [] \<and> last tried = j \<and>
        (\<exists>v v'. fe_stream E j (req\<lparr>rq_model := fb_models p ! j\<rparr>) v = (Inr chs, v')))"
  using fallback_try_shape [OF assms(1) [unfolded fallback_stream_def] assms(2)] by blast

theorem fallback_order_witness:
  "\<exists>r p' w' tried. fallback_stream
      \<lparr>fe_now = (\<lambda>w. (0, w)), fe_ctx_err = (\<lambda>w. None),
       fe_stream = (\<lambda>i r w. (if i = 0 then Inl (ErrOther ''down'') else Inr [], w))\<rparr>
      \<lparr>rq_model = [], rq_messages = [], rq_tools = []\<rparr>
      \<lparr>fb_chain = [''anthropic'', ''openai_compat''], fb_models = [''claude'', ''llama3''],
       fb_breakers = [new_breaker 3 10, new_breaker 3 10]\<rparr> () = (r, p', w', tried) \<and>
     r = Inr (1, []) \<and> tried = [0, 1] \<and> fb_chain p' = [''anthropic'', ''openai_compat'']"
proof -
  let ?E = "\<lparr>fe_now = (\<lambda>w. (0, w)), fe_ctx_err = (\<lambda>w. None),
       fe_stream = (\<lambda>i r w. (if i = 0 then Inl (ErrOther ''down'') else Inr [], w))\<rparr> :: unit fb_env"
  let ?q = "\<lparr>rq_model = [], rq_messages = [], rq_tools = []\<rparr>"
  let ?p = "\<lparr>fb_chain = [''anthropic'', ''openai_compat''], fb_models = [''claude'', ''llama3''],
       fb_breakers = [new_breaker 3 10, new_breaker 3 10]\<rparr>"
  obtain r p' w' tried where r: "fallback_stream ?E ?q ?p () = (r, p', w', tried)" by (metis prod_cases4)
  have "r = Inr (1, [])" "tried = [0, 1]"
    using r by (auto simp: fallback_stream_def fallback_try.simps [of _ _ 0] fallback_try.simps [of _ _ "Suc 0"]
        is_open_def prune_def new_breaker_def record_failure_def)
  then show ?thesis using fallback_order [OF r] r by auto
qed

text \<open>Behind a fallback chain of two or more providers, tools are offered under their dotted names,
  whatever the providers of the chain need: the chain's own name is not one of those that ask for
  safe names.\<close>

theorem fallback_offers_dotted_names:
  assumes "1 < length (fb_chain p)"
  shows "map lt_name (fst (tools_for r (fallback_name p))) = map t_name (list_tools r)"
  using assms by (rule fallback_keeps_dots)

theorem fallback_offers_dotted_names_witness:
  "map lt_name (fst (tools_for (registry_new\<lparr>r_items := \<lparr>name_of = t_name,
      items = [(''k8s.pods'', \<lparr>t_name = ''k8s.pods'', t_description = [], t_schema = [], t_risk = None\<rparr>)]\<rparr>\<rparr>)
      (fallback_name \<lparr>fb_chain = [''anthropic'', ''openai_compat''], fb_models = [], fb_breakers = []\<rparr>))) = [''k8s.pods'']"
  by (subst fallback_offers_dotted_names)
     (simp_all add: list_tools_def regmap_all_def regmap_get_def gm_keys_def)

text \<open>Skill suggestions are at most three registered skills with a positive trigger score, best
  first, and no registered skill with a better score than a suggested one is left out.\<close>

theorem suggestions_are_best:
  assumes "s \<in> set (suggest u r input)"
  shows "length (suggest u r input) \<le> 3 \<and> s \<in> set (regmap_all r) \<and>
     0 < skill_score u (trim_space (to_lower u input)) s \<and>
     sorted (map (\<lambda>s. - skill_score u (trim_space (to_lower u input)) s) (suggest u r input)) \<and>
     (\<forall>s' \<in> set (regmap_all r).
        skill_score u (trim_space (to_lower u input)) s < skill_score u (trim_space (to_lower u input)) s' \<longrightarrow>
        s' \<in> set (suggest u r input))"
proof -
  have "sorted (map (\<lambda>s. - skill_score u (trim_space (to_lower u input)) s) (suggest u r input))"
    by (auto simp: suggest_def ranked_skills_def Let_def take_map [symmetric] intro!: sorted_wrt_take)
  then show ?thesis
    using suggest_mem [OF assms] suggest_best [OF assms] suggest_length by blast
qed

definition ex_skills :: "skill regmap" where
  "ex_skills = skills_new
     [\<lparr>sk_name = ''latency'', sk_description = ''d'', sk_triggers = [''slow'', ''p99''], sk_allowed = [''prom.*''],
       sk_models = [], sk_examples = [], sk_requires = [], sk_prompt = ''p'', sk_source = []\<rparr>]"

theorem suggestions_are_best_witness:
  "\<exists>s. suggest ascii_unicode ex_skills ''slow'' = [s] \<and> sk_name s = ''latency'' \<and>
     0 < skill_score ascii_unicode (trim_space (to_lower ascii_unicode ''slow'')) s"
proof -
  let ?s = "\<lparr>sk_name = ''latency'', sk_description = ''d'', sk_triggers = [''slow'', ''p99''], sk_allowed = [''prom.*''],
       sk_models = [], sk_examples = [], sk_requires = [], sk_prompt = ''p'', sk_source = []\<rparr>"
  have l: "to_lower ascii_unicode ''slow'' = ''slow''" "to_lower ascii_unicode ''p99'' = ''p99''"
    by (simp_all add: to_lower_def is_ascii_def lower_byte_def)
  have t: "trim_space ''slow'' = ''slow''" "trim_space ''p99'' = ''p99''"
    by (rule trim_space_solid; simp add: solid_def)+
  have sc: "skill_score ascii_unicode ''slow'' ?s = 3"
    by (simp add: skill_score_def score_trigger_def l t)
  have r: "regmap_all ex_skills = [?s]"
    by (simp add: ex_skills_def skills_new_def regmap_all_def regmap_replace_def regmap_get_def gm_keys_def)
  have e: "suggest ascii_unicode ex_skills ''slow'' = [?s]"
    by (simp add: suggest_def ranked_skills_def l t sc r)
  then show ?thesis using suggestions_are_best [of ?s ascii_unicode ex_skills "''slow''"] by simp
qed

text \<open>A skill file that parses opens with a frontmatter fence, is named after its file, and has a
  description, at least one allowed tool and a prompt.\<close>

theorem parsed_skill_valid:
  assumes "parse_skill yaml name content = Inr s"
  shows "sk_name s = name \<and> name \<noteq> [] \<and> sk_description s \<noteq> [] \<and> sk_allowed s \<noteq> [] \<and> sk_prompt s \<noteq> [] \<and>
    trim_space (sk_prompt s) = sk_prompt s \<and> prefix (''---'' @ [CHR 0x0A]) content"
proof -
  have "sk_prompt s = trim_space x \<Longrightarrow> trim_space (sk_prompt s) = sk_prompt s" for x
    by (simp add: trim_space_idem)
  moreover have "\<exists>x. sk_prompt s = trim_space x"
    using assms by (auto simp: parse_skill_def Let_def split: if_splits option.splits)
  ultimately show ?thesis using parse_skill_ok [OF assms] by blast
qed

theorem parsed_skill_valid_witness:
  "\<exists>s. parse_skill (\<lambda>y. Some \<lparr>fm_name = ''a'', fm_description = ''d'', fm_triggers = [], fm_allowed = [''k8s.*''],
        fm_models = [], fm_examples = [], fm_requires = []\<rparr>) ''a''
      (''---'' @ [CHR 0x0A] @ ''name: a'' @ [CHR 0x0A] @ ''---'' @ [CHR 0x0A] @ ''Do it.'') = Inr s \<and> sk_prompt s \<noteq> []"
proof -
  let ?y = "\<lambda>y. Some \<lparr>fm_name = ''a'', fm_description = ''d'', fm_triggers = [], fm_allowed = [''k8s.*''],
        fm_models = [], fm_examples = [], fm_requires = []\<rparr>"
  let ?c = "''---'' @ [CHR 0x0A] @ ''name: a'' @ [CHR 0x0A] @ ''---'' @ [CHR 0x0A] @ ''Do it.''"
  have "parse_skill ?y ''a'' ?c = Inr \<lparr>sk_name = ''a'', sk_description = ''d'', sk_triggers = [], sk_allowed = [''k8s.*''],
       sk_models = [], sk_examples = [], sk_requires = [], sk_prompt = ''Do it.'', sk_source = []\<rparr>"
  proof -
    have "strip_one space_seqs (CHR 0x0A # x) = Some x" for x
      by (rule strip_one_ascii_space) simp
    then have "trim_left_space (CHR 0x0A # ''Do it.'') = trim_left_space ''Do it.''"
      by (simp add: trim_left_space_def strip_all.simps [of _ "_ # _"])
    then have "trim_space (CHR 0x0A # ''Do it.'') = ''Do it.''"
      using trim_space_solid [of "''Do it.''"] by (simp add: trim_space_def solid_def)
    then show ?thesis by (simp add: parse_skill_def has_prefix_def Let_def)
  qed
  then show ?thesis using parsed_skill_valid by blast
qed

text \<open>A model name resolves by the first prefix of the routing table that fits, and no context
  window is smaller than 32,000 tokens; the context-window table is ordered so that its first match
  is its longest.\<close>

theorem longest_window_wins:
  assumes "List.find (\<lambda>(pre, w). has_prefix m pre) context_windows = Some (p, w)"
    and "(q, v) \<in> set context_windows" "has_prefix m q"
  shows "length q \<le> length p \<and> 32000 \<le> context_window m"
  using longest_first_find [OF context_windows_longest_first assms] context_window_pos by blast

theorem longest_window_wins_witness: "length ''gpt-'' \<le> length ''gpt-4o'' \<and> 32000 \<le> context_window ''gpt-4o-mini''"
proof -
  have "List.find (\<lambda>(pre, w). has_prefix ''gpt-4o-mini'' pre) context_windows = Some (''gpt-4o'', 128000)"
    by (simp add: context_windows_def has_prefix_def)
  moreover have "(''gpt-'', 128000) \<in> set context_windows" by (simp add: context_windows_def)
  moreover have "has_prefix ''gpt-4o-mini'' ''gpt-''" by (simp add: has_prefix_def)
  ultimately show ?thesis by (rule longest_window_wins)
qed

end
