(* ===== verification/Chat_Policy.thy ===== *)
theory Chat_Policy
  imports Go_Utf8
begin

text \<open>
  Admission of chat events (\<open>internal/chatops/types.go\<close>, \<open>policy.go\<close>): the platform allowlists, the
  per-source rate windows and the routing of an event to a profile, a skill and a visibility. The
  order in which Go iterates a map when it has to evict an entry is a parameter.
\<close>

section \<open>Events and configuration\<close>

record reply_target =
  rp_platform :: string
  rp_workspace :: string
  rp_guild :: string
  rp_chat :: string
  rp_channel :: string
  rp_thread :: string
  rp_user :: string
  rp_response_url :: string
  rp_token :: string
  rp_application :: string
  rp_message :: string

record chat_event =
  ce_platform :: string
  ce_transport :: string
  ce_authenticated :: bool
  ce_workspace :: string
  ce_guild :: string
  ce_chat :: string
  ce_channel :: string
  ce_thread :: string
  ce_user :: string
  ce_command :: string
  ce_text :: string
  ce_visibility :: string
  ce_reply :: reply_target
  ce_key :: string
  ce_received :: gotime

record slack_config =
  sc_enabled :: bool
  sc_mode :: string
  sc_signing_env :: string
  sc_bot_env :: string
  sc_teams :: "string list"
  sc_channels :: "string list"
  sc_users :: "string list"

record discord_config =
  dc_enabled :: bool
  dc_application :: string
  dc_key_env :: string
  dc_guilds :: "string list"
  dc_channels :: "string list"
  dc_users :: "string list"

record telegram_config =
  tg_enabled :: bool
  tg_mode :: string
  tg_bot_env :: string
  tg_secret_env :: string
  tg_chats :: "string list"
  tg_users :: "string list"

record chat_route =
  ro_platform :: string
  ro_workspace :: string
  ro_guild :: string
  ro_chat :: string
  ro_channel :: string
  ro_user :: string
  ro_profile :: string
  ro_skill :: string
  ro_visibility :: string

record chat_config =
  cf_enabled :: bool
  cf_listen :: string
  cf_public_url :: string
  cf_default_visibility :: string
  cf_default_profile :: string
  cf_slack :: slack_config
  cf_discord :: discord_config
  cf_telegram :: telegram_config
  cf_routes :: "chat_route list"
  cf_per_minute :: int
  cf_workers :: int
  cf_depth :: int
  cf_timeout :: int
  cf_discord_timeout :: int
  cf_delivery_timeout :: int
  cf_session_path :: string

datatype chat_error =
    Unauthenticated
  | EmptyPrompt
  | Unauthorized
  | RateLimited
  | QueueFull
  | QueueClosed
  | Duplicate
  | ContextDone

record decision =
  dn_profile :: string
  dn_skill :: string
  dn_visibility :: string

record rate_window =
  rw_start :: gotime
  rw_count :: int

section \<open>Allowlists\<close>

definition allowed :: "string list \<Rightarrow> string \<Rightarrow> bool" where
  "allowed xs v \<longleftrightarrow> xs = [] \<or> v \<in> set xs"

definition check_allowlist :: "chat_config \<Rightarrow> chat_event \<Rightarrow> chat_error option" where
  "check_allowlist cfg ev =
     (if ce_platform ev = ''slack'' then
        (let c = cf_slack cfg in
         if \<not> sc_enabled c then Some Unauthorized
         else if sc_teams c = [] \<or> (sc_channels c = [] \<and> sc_users c = []) then Some Unauthorized
         else if \<not> allowed (sc_teams c) (ce_workspace ev) \<or> \<not> allowed (sc_channels c) (ce_channel ev)
                 \<or> \<not> allowed (sc_users c) (ce_user ev) then Some Unauthorized
         else None)
      else if ce_platform ev = ''discord'' then
        (let c = cf_discord cfg in
         if \<not> dc_enabled c then Some Unauthorized
         else if dc_guilds c = [] \<or> (dc_channels c = [] \<and> dc_users c = []) then Some Unauthorized
         else if \<not> allowed (dc_guilds c) (ce_guild ev) \<or> \<not> allowed (dc_channels c) (ce_channel ev)
                 \<or> \<not> allowed (dc_users c) (ce_user ev) then Some Unauthorized
         else None)
      else if ce_platform ev = ''telegram'' then
        (let c = cf_telegram cfg in
         if \<not> tg_enabled c then Some Unauthorized
         else if tg_chats c = [] then Some Unauthorized
         else if \<not> allowed (tg_chats c) (ce_chat ev) \<or> \<not> allowed (tg_users c) (ce_user ev)
         then Some Unauthorized
         else None)
      else Some Unauthorized)"

section \<open>Rate windows\<close>

definition minute_ns :: int where "minute_ns = 60000000000"
definition max_rate_windows :: nat where "max_rate_windows = 10000"

fun first_non_empty :: "string list \<Rightarrow> string" where
  "first_non_empty [] = []"
| "first_non_empty (v # vs) = (if v \<noteq> [] then v else first_non_empty vs)"

definition source_key :: "chat_event \<Rightarrow> string" where
  "source_key ev =
     join [ce_platform ev, first_non_empty [ce_workspace ev, ce_guild ev, ce_chat ev],
           ce_channel ev, ce_user ev] ''|''"

definition prune_rate_windows :: "gotime \<Rightarrow> rate_window gomap \<Rightarrow> rate_window gomap" where
  "prune_rate_windows t ws = filter (\<lambda>(k, w). \<not> (rw_start w \<noteq> 0 \<and> t - rw_start w \<ge> minute_ns)) ws"

text \<open>The eviction loop over the keys in iteration order: delete until below the bound.\<close>

fun evict_until :: "nat \<Rightarrow> string list \<Rightarrow> 'v gomap \<Rightarrow> 'v gomap" where
  "evict_until bound [] m = m"
| "evict_until bound (k # ks) m =
     (let m' = gm_del k m in if length m' < bound then m' else evict_until bound ks m')"

definition check_rate :: "(rate_window gomap \<Rightarrow> string list) \<Rightarrow> int \<Rightarrow> gotime \<Rightarrow> string
    \<Rightarrow> rate_window gomap \<Rightarrow> chat_error option \<times> rate_window gomap" where
  "check_rate order limit t key ws =
     (if limit \<le> 0 then (None, ws)
      else (let ws1 = prune_rate_windows t ws;
                ws2 = (if length ws1 \<ge> max_rate_windows then evict_until max_rate_windows (order ws1) ws1 else ws1);
                w = (case gm_get ws2 key of None \<Rightarrow> \<lparr>rw_start = 0, rw_count = 0\<rparr> | Some w \<Rightarrow> w)
            in if rw_start w = 0 \<or> t - rw_start w \<ge> minute_ns
               then (None, gm_put key \<lparr>rw_start = t, rw_count = 1\<rparr> ws2)
               else if rw_count w \<ge> limit then (Some RateLimited, ws2)
               else (None, gm_put key (w\<lparr>rw_count := rw_count w + 1\<rparr>) ws2)))"

section \<open>Routing\<close>

definition match_field :: "string \<Rightarrow> string \<Rightarrow> bool" where
  "match_field want got \<longleftrightarrow> want = [] \<or> want = got"

definition route_matches :: "chat_route \<Rightarrow> chat_event \<Rightarrow> bool" where
  "route_matches r ev \<longleftrightarrow>
     match_field (ro_platform r) (ce_platform ev) \<and> match_field (ro_workspace r) (ce_workspace ev) \<and>
     match_field (ro_guild r) (ce_guild ev) \<and> match_field (ro_chat r) (ce_chat ev) \<and>
     match_field (ro_channel r) (ce_channel ev) \<and> match_field (ro_user r) (ce_user ev)"

fun default_string :: "string list \<Rightarrow> string" where
  "default_string [] = []"
| "default_string (v # vs) = (if trim_space v \<noteq> [] then v else default_string vs)"

definition route_decision :: "chat_config \<Rightarrow> chat_event \<Rightarrow> decision" where
  "route_decision cfg ev =
     (let d = \<lparr>dn_profile = cf_default_profile cfg, dn_skill = [],
               dn_visibility = default_string [ce_visibility ev, cf_default_visibility cfg, ''private'']\<rparr>
      in case List.find (\<lambda>r. route_matches r ev) (cf_routes cfg) of
           None \<Rightarrow> d
         | Some r \<Rightarrow>
             \<lparr>dn_profile = (if ro_profile r \<noteq> [] then ro_profile r else dn_profile d),
              dn_skill = (if ro_skill r \<noteq> [] then ro_skill r else dn_skill d),
              dn_visibility = (if ro_visibility r \<noteq> [] then ro_visibility r else dn_visibility d)\<rparr>)"

definition authorize :: "(rate_window gomap \<Rightarrow> string list) \<Rightarrow> chat_config \<Rightarrow> gotime \<Rightarrow> chat_event
    \<Rightarrow> rate_window gomap \<Rightarrow> (chat_error + decision) \<times> rate_window gomap" where
  "authorize order cfg t ev ws =
     (if \<not> ce_authenticated ev then (Inl Unauthenticated, ws)
      else if trim_space (ce_text ev) = [] then (Inl EmptyPrompt, ws)
      else (case check_allowlist cfg ev of
              Some e \<Rightarrow> (Inl e, ws)
            | None \<Rightarrow>
                (case check_rate order (cf_per_minute cfg) t (source_key ev) ws of
                   (Some e, ws') \<Rightarrow> (Inl e, ws')
                 | (None, ws') \<Rightarrow> (Inr (route_decision cfg ev), ws'))))"

section \<open>Who gets in\<close>

text \<open>An accepted source is named by its platform's lists; an empty scope list admits nobody.\<close>

definition listed :: "chat_config \<Rightarrow> chat_event \<Rightarrow> bool" where
  "listed cfg ev \<longleftrightarrow>
     (ce_platform ev = ''slack'' \<and> sc_enabled (cf_slack cfg) \<and> ce_workspace ev \<in> set (sc_teams (cf_slack cfg)) \<and>
        (ce_channel ev \<in> set (sc_channels (cf_slack cfg)) \<or> ce_user ev \<in> set (sc_users (cf_slack cfg)))) \<or>
     (ce_platform ev = ''discord'' \<and> dc_enabled (cf_discord cfg) \<and> ce_guild ev \<in> set (dc_guilds (cf_discord cfg)) \<and>
        (ce_channel ev \<in> set (dc_channels (cf_discord cfg)) \<or> ce_user ev \<in> set (dc_users (cf_discord cfg)))) \<or>
     (ce_platform ev = ''telegram'' \<and> tg_enabled (cf_telegram cfg) \<and> ce_chat ev \<in> set (tg_chats (cf_telegram cfg)))"

lemma check_allowlist_listed: "check_allowlist cfg ev = None \<Longrightarrow> listed cfg ev"
  by (auto simp: check_allowlist_def listed_def allowed_def Let_def split: if_splits)

lemma authorize_ok:
  "authorize order cfg t ev ws = (Inr d, ws') \<Longrightarrow>
     ce_authenticated ev \<and> trim_space (ce_text ev) \<noteq> [] \<and> listed cfg ev \<and> d = route_decision cfg ev"
  by (auto simp: authorize_def dest: check_allowlist_listed split: if_splits option.splits prod.splits)

text \<open>A rejected stranger costs nothing: only listed sources touch the rate windows.\<close>

lemma authorize_frame: "\<not> (ce_authenticated ev \<and> listed cfg ev) \<Longrightarrow> snd (authorize order cfg t ev ws) = ws"
  using check_allowlist_listed by (auto simp: authorize_def split: option.splits prod.splits)

section \<open>The rate bound\<close>

definition cnt :: "('a \<Rightarrow> bool) \<Rightarrow> 'a list \<Rightarrow> nat" where
  "cnt P xs = length (filter P xs)"

lemma cnt_simps [simp]:
  "cnt P [] = 0"
  "cnt P (xs @ ys) = cnt P xs + cnt P ys"
  "cnt P [x] = (if P x then 1 else 0)"
  by (simp_all add: cnt_def)

lemma cnt_mono: "(\<And>x. x \<in> set xs \<Longrightarrow> P x \<Longrightarrow> Q x) \<Longrightarrow> cnt P xs \<le> cnt Q xs"
  unfolding cnt_def by (induction xs) auto

lemma cnt_split: "(\<And>x. x \<in> set xs \<Longrightarrow> P x \<Longrightarrow> Q x \<or> R x) \<Longrightarrow> cnt P xs \<le> cnt Q xs + cnt R xs"
  unfolding cnt_def by (induction xs) (auto simp: le_Suc_eq)

lemma cnt_none: "(\<And>x. x \<in> set xs \<Longrightarrow> \<not> P x) \<Longrightarrow> cnt P xs = 0"
  unfolding cnt_def by (induction xs) auto

text \<open>The accepted times of one source against its window, at a time no earlier than any of them.\<close>

definition window_ok :: "nat \<Rightarrow> gotime \<Rightarrow> gotime list \<Rightarrow> rate_window option \<Rightarrow> bool" where
  "window_ok L T A wo \<longleftrightarrow>
     (\<forall>a \<in> set A. a \<le> T) \<and> (\<forall>x. cnt (\<lambda>a. x \<le> a \<and> a < x + minute_ns) A \<le> 2 * L) \<and>
     (case wo of
        None \<Rightarrow> (\<forall>a \<in> set A. a < T) \<and> cnt (\<lambda>a. T - minute_ns < a) A \<le> L
      | Some w \<Rightarrow>
          0 < rw_start w \<and> rw_start w \<le> T \<and> (\<forall>a \<in> set A. a < rw_start w + minute_ns) \<and>
          rw_count w = int (cnt (\<lambda>a. rw_start w \<le> a) A) \<and> rw_count w \<le> int L \<and>
          cnt (\<lambda>a. rw_start w - minute_ns < a \<and> a < rw_start w) A \<le> L)"

definition expire :: "gotime \<Rightarrow> rate_window option \<Rightarrow> rate_window option" where
  "expire t wo = (case wo of None \<Rightarrow> None
     | Some w \<Rightarrow> if rw_start w \<noteq> 0 \<and> t - rw_start w \<ge> minute_ns then None else Some w)"

lemma window_expire:
  assumes "window_ok L T A wo" "T \<le> t"
  shows "window_ok L t A (expire t wo) \<and> (\<forall>w. expire t wo = Some w \<longrightarrow> t - rw_start w < minute_ns)"
proof (cases wo)
  case None
  have "cnt (\<lambda>a. t - minute_ns < a) A \<le> cnt (\<lambda>a. T - minute_ns < a) A"
    using assms(2) by (intro cnt_mono) simp
  then show ?thesis using assms None by (auto simp: window_ok_def expire_def)
next
  case (Some w)
  show ?thesis
  proof (cases "t - rw_start w \<ge> minute_ns")
    case True
    have "cnt (\<lambda>a. t - minute_ns < a) A \<le> cnt (\<lambda>a. rw_start w \<le> a) A"
      using True by (intro cnt_mono) simp
    then show ?thesis using assms Some True by (fastforce simp: window_ok_def expire_def)
  next
    case False
    then show ?thesis using assms Some by (auto simp: window_ok_def expire_def)
  qed
qed

lemma window_open:
  assumes "window_ok L t A None" "1 \<le> L" "0 < t"
  shows "window_ok L t (A @ [t]) (Some \<lparr>rw_start = t, rw_count = 1\<rparr>)"
proof -
  have lt: "\<And>a. a \<in> set A \<Longrightarrow> a < t" and recent: "cnt (\<lambda>a. t - minute_ns < a) A \<le> L"
    and old: "\<And>x. cnt (\<lambda>a. x \<le> a \<and> a < x + minute_ns) A \<le> 2 * L"
    using assms(1) by (auto simp: window_ok_def)
  have "cnt (\<lambda>a. x \<le> a \<and> a < x + minute_ns) A \<le> L" if "t < x + minute_ns" for x
    using that recent cnt_mono [of A "\<lambda>a. x \<le> a \<and> a < x + minute_ns" "\<lambda>a. t - minute_ns < a"] by force
  then have "cnt (\<lambda>a. x \<le> a \<and> a < x + minute_ns) (A @ [t]) \<le> 2 * L" for x
    using old [of x] assms(2) by (cases "t < x + minute_ns") fastforce+
  moreover have "cnt (\<lambda>a. t \<le> a) A = 0" using lt by (intro cnt_none) force
  moreover have "cnt (\<lambda>a. t - minute_ns < a \<and> a < t) A \<le> L"
    using recent cnt_mono [of A "\<lambda>a. t - minute_ns < a \<and> a < t" "\<lambda>a. t - minute_ns < a"] by simp
  ultimately show ?thesis
    using assms lt by (fastforce simp: window_ok_def minute_ns_def)
qed

lemma window_count:
  assumes "window_ok L t A (Some w)" "t - rw_start w < minute_ns" "rw_count w < int L"
  shows "window_ok L t (A @ [t]) (Some (w\<lparr>rw_count := rw_count w + 1\<rparr>))"
proof -
  let ?s = "rw_start w"
  have st: "0 < ?s" "?s \<le> t" "rw_count w = int (cnt (\<lambda>a. ?s \<le> a) A)"
    "cnt (\<lambda>a. ?s - minute_ns < a \<and> a < ?s) A \<le> L" "\<And>x. cnt (\<lambda>a. x \<le> a \<and> a < x + minute_ns) A \<le> 2 * L"
    using assms(1) by (auto simp: window_ok_def)
  have "cnt (\<lambda>a. x \<le> a \<and> a < x + minute_ns) A < 2 * L" if "t < x + minute_ns" for x
  proof -
    have "cnt (\<lambda>a. x \<le> a \<and> a < x + minute_ns) A
        \<le> cnt (\<lambda>a. ?s - minute_ns < a \<and> a < ?s) A + cnt (\<lambda>a. ?s \<le> a) A"
      using that st(2) by (intro cnt_split) auto
    then show ?thesis using st(3,4) assms(3) by linarith
  qed
  then have "cnt (\<lambda>a. x \<le> a \<and> a < x + minute_ns) (A @ [t]) \<le> 2 * L" for x
    using st(5) [of x] by (cases "t < x + minute_ns") (fastforce simp: Suc_le_eq)+
  then show ?thesis
    using assms st by (auto simp: window_ok_def)
qed

text \<open>A history of rate checks; fewer sources than the eviction bound.\<close>

fun rate_run :: "(rate_window gomap \<Rightarrow> string list) \<Rightarrow> int \<Rightarrow> (gotime \<times> string) list \<Rightarrow> rate_window gomap
    \<Rightarrow> (gotime \<times> string) list \<times> rate_window gomap" where
  "rate_run order limit [] ws = ([], ws)"
| "rate_run order limit ((t, key) # evs) ws =
     (let (e, ws1) = check_rate order limit t key ws;
          (acc, ws2) = rate_run order limit evs ws1
      in ((if e = None then [(t, key)] else []) @ acc, ws2))"

lemma rate_run_append:
  "rate_run order limit (xs @ ys) ws =
     (let (a, ws1) = rate_run order limit xs ws; (b, ws2) = rate_run order limit ys ws1 in (a @ b, ws2))"
  by (induction order limit xs ws rule: rate_run.induct) (auto simp: Let_def split: prod.splits)

definition times_of :: "string \<Rightarrow> (gotime \<times> string) list \<Rightarrow> gotime list" where
  "times_of k acc = map fst (filter (\<lambda>(t, k'). k' = k) acc)"

lemma times_of_simps [simp]:
  "times_of k [] = []"
  "times_of k (xs @ ys) = times_of k xs @ times_of k ys"
  "times_of k [(t, k')] = (if k' = k then [t] else [])"
  by (auto simp: times_of_def)

lemma prune_get: "gm_wf ws \<Longrightarrow> gm_get (prune_rate_windows t ws) k = expire t (gm_get ws k)"
  by (auto simp: prune_rate_windows_def gm_get_filter expire_def split: option.splits)

lemma check_rate_small:
  assumes "gm_wf ws" "length ws < max_rate_windows" "0 < limit"
  shows "check_rate order limit t key ws =
     (let ws1 = prune_rate_windows t ws in
      case expire t (gm_get ws key) of
        None \<Rightarrow> (None, gm_put key \<lparr>rw_start = t, rw_count = 1\<rparr> ws1)
      | Some w \<Rightarrow>
          if rw_start w = 0 \<or> t - rw_start w \<ge> minute_ns then (None, gm_put key \<lparr>rw_start = t, rw_count = 1\<rparr> ws1)
          else if rw_count w \<ge> limit then (Some RateLimited, ws1)
          else (None, gm_put key (w\<lparr>rw_count := rw_count w + 1\<rparr>) ws1))"
proof -
  have "length (prune_rate_windows t ws) < max_rate_windows"
    using assms(2) length_filter_le [of _ ws] by (metis prune_rate_windows_def le_less_trans)
  then have room: "\<not> max_rate_windows \<le> length (prune_rate_windows t ws)" by simp
  have get: "gm_get (prune_rate_windows t ws) key = expire t (gm_get ws key)" using assms(1) by (rule prune_get)
  show ?thesis
    using assms(3) by (cases "expire t (gm_get ws key)") (simp_all add: check_rate_def Let_def room get)
qed

definition last_time :: "(gotime \<times> 'k) list \<Rightarrow> gotime" where
  "last_time evs = (if evs = [] then 0 else fst (last evs))"

lemma window_expire_key:
  assumes "window_ok L T A wo" "T \<le> t" "0 < t" "1 \<le> L"
  shows "case expire t wo of
      None \<Rightarrow> window_ok L t (A @ [t]) (Some \<lparr>rw_start = t, rw_count = 1\<rparr>)
    | Some w \<Rightarrow> rw_start w \<noteq> 0 \<and> t - rw_start w < minute_ns \<and>
        (if rw_count w \<ge> int L then window_ok L t A (Some w)
         else window_ok L t (A @ [t]) (Some (w\<lparr>rw_count := rw_count w + 1\<rparr>)))"
proof (cases "expire t wo")
  case None
  then show ?thesis using window_expire [OF assms(1,2)] window_open assms(3,4) by simp
next
  case (Some w)
  then have "window_ok L t A (Some w)" "t - rw_start w < minute_ns"
    using window_expire [OF assms(1,2)] by auto
  moreover from this have "rw_start w \<noteq> 0" by (auto simp: window_ok_def)
  ultimately show ?thesis using window_count [of L t A w] Some by simp
qed

lemma rate_run_inv:
  assumes "sorted (map fst evs)" "\<forall>(t, k) \<in> set evs. 0 < t" "length evs < max_rate_windows" "1 \<le> L"
    and "rate_run order (int L) evs [] = (acc, ws)"
  shows "gm_wf ws \<and> length ws \<le> length evs \<and>
     (\<forall>k. window_ok L (last_time evs) (times_of k acc) (gm_get ws k))"
  using assms
proof (induction evs arbitrary: acc ws rule: rev_induct)
  case Nil
  then show ?case by (auto simp: window_ok_def)
next
  case (snoc ev evs)
  obtain t key where ev: "ev = (t, key)" by fastforce
  obtain acc0 ws0 where r0: "rate_run order (int L) evs [] = (acc0, ws0)" by fastforce
  have t: "0 < t" "last_time evs \<le> t"
    using snoc.prems(1,2) by (auto simp: ev sorted_append last_time_def)
  from snoc.IH [OF _ _ _ snoc.prems(4) r0] snoc.prems(1-3) have IH:
    "gm_wf ws0" "length ws0 \<le> length evs" "\<And>k. window_ok L (last_time evs) (times_of k acc0) (gm_get ws0 k)"
    by (auto simp: sorted_append)
  let ?p = "prune_rate_windows t ws0"
  have small: "length ws0 < max_rate_windows" using IH(2) snoc.prems(3) by simp
  have wfp: "gm_wf ?p" using IH(1) by (simp add: prune_rate_windows_def)
  have lenp: "length ?p \<le> length evs"
    using IH(2) by (simp add: prune_rate_windows_def) (metis le_trans length_filter_le)
  obtain e ws1 where c: "check_rate order (int L) t key ws0 = (e, ws1)" by fastforce
  have run: "acc = acc0 @ (if e = None then [(t, key)] else [])" "ws = ws1"
    using snoc.prems(5) c by (auto simp: rate_run_append r0 ev Let_def)
  note k = window_expire_key [OF IH(3) [of key] t(2,1) snoc.prems(4)]
  have c': "(e, ws1) = (case expire t (gm_get ws0 key) of
        None \<Rightarrow> (None, gm_put key \<lparr>rw_start = t, rw_count = 1\<rparr> ?p)
      | Some w \<Rightarrow>
          if rw_count w \<ge> int L then (Some RateLimited, ?p)
          else (None, gm_put key (w\<lparr>rw_count := rw_count w + 1\<rparr>) ?p))"
    using c check_rate_small [OF IH(1) small, of "int L" order t key] snoc.prems(4) k
    by (auto simp: Let_def split: option.splits)
  have get: "gm_get ?p k = expire t (gm_get ws0 k)" for k using IH(1) by (rule prune_get)
  have other: "window_ok L t (times_of k acc0) (expire t (gm_get ws0 k))" for k
    using window_expire [OF IH(3) t(2)] by blast
  have "gm_wf ws1 \<and> length ws1 \<le> Suc (length evs)"
    using c' wfp lenp by (auto simp: length_gm_put split: option.splits if_splits)
  moreover have "window_ok L t (times_of k acc) (gm_get ws k)" for k
    using c' k other get run by (cases "k = key") (auto simp: gm_get_put split: option.splits if_splits)
  ultimately show ?case using run by (simp add: last_time_def ev)
qed

lemma rate_bound:
  assumes "sorted (map fst evs)" "\<forall>(t, k) \<in> set evs. 0 < t" "length evs < max_rate_windows" "1 \<le> L"
  shows "length (filter (\<lambda>(t, k'). k' = k \<and> x \<le> t \<and> t < x + minute_ns) (fst (rate_run order (int L) evs []))) \<le> 2 * L"
proof -
  obtain acc ws where r: "rate_run order (int L) evs [] = (acc, ws)" by fastforce
  have "length (filter (\<lambda>(t, k'). k' = k \<and> x \<le> t \<and> t < x + minute_ns) acc)
      = cnt (\<lambda>a. x \<le> a \<and> a < x + minute_ns) (times_of k acc)"
    by (induction acc) (auto simp: times_of_def cnt_def)
  then show ?thesis using rate_run_inv [OF assms r] r by (auto simp: window_ok_def)
qed

end
