(* ===== verification/Atomic_File.thy ===== *)
theory Atomic_File
  imports Cloudy_Prelude
begin

text \<open>
  Files that are replaced by writing a temporary file and renaming it: permission profiles
  (\<open>permission/profile.go\<close>, \<open>Save\<close>), the chat session map (\<open>chatops/session_map.go\<close>,
  \<open>write\<close>), the resume snapshot (\<open>session/resume.go\<close>, \<open>SaveHistory\<close>) and the incident store
  (\<open>incidentmemory/store.go\<close>, \<open>rewrite\<close>). Every system call may fail; a failing write may leave
  any prefix. The contract they share is a locale.
\<close>

text \<open>Which calls fail: \<open>fl_write = Some n\<close> is a write error after \<open>n\<close> bytes.\<close>

record faults =
  fl_mkdir :: bool
  fl_chmod_dir :: bool
  fl_create :: bool
  fl_write :: "nat option"
  fl_chmod :: bool
  fl_close :: bool
  fl_rename :: bool
  fl_remove :: bool

datatype io_step = IoMkdir | IoChmodDir | IoCreate | IoWrite | IoChmod | IoClose | IoRename

type_synonym files = "string gomap"

definition rename_file :: "string \<Rightarrow> string \<Rightarrow> files \<Rightarrow> files" where
  "rename_file src dst fs =
     (case gm_get fs src of None \<Rightarrow> fs | Some b \<Rightarrow> gm_put dst b (gm_del src fs))"

definition discard :: "faults \<Rightarrow> string \<Rightarrow> files \<Rightarrow> files" where
  "discard f tmp fs = (if fl_remove f then fs else gm_del tmp fs)"

text \<open>\<open>permission.Save\<close> after the name check, for the encoded profile.\<close>

definition save_profile_file :: "faults \<Rightarrow> string \<Rightarrow> string \<Rightarrow> string \<Rightarrow> files \<Rightarrow> io_step option \<times> files" where
  "save_profile_file f tmp path b fs =
     (if fl_mkdir f then (Some IoMkdir, fs)
      else if fl_create f then (Some IoCreate, fs)
      else (case fl_write f of
              Some n \<Rightarrow> (Some IoWrite, discard f tmp (gm_put tmp (take n b) fs))
            | None \<Rightarrow>
                (let fs1 = gm_put tmp b fs in
                 if fl_chmod f then (Some IoChmod, discard f tmp fs1)
                 else if fl_close f then (Some IoClose, discard f tmp fs1)
                 else if fl_rename f then (Some IoRename, discard f tmp fs1)
                 else (None, rename_file tmp path fs1))))"

text \<open>\<open>SessionMap.write\<close> for the marshalled map.\<close>

definition session_map_write :: "faults \<Rightarrow> string \<Rightarrow> string \<Rightarrow> string \<Rightarrow> files \<Rightarrow> io_step option \<times> files" where
  "session_map_write f tmp path b fs =
     (if fl_mkdir f then (Some IoMkdir, fs)
      else if fl_create f then (Some IoCreate, fs)
      else (case fl_write f of
              Some n \<Rightarrow> (Some IoWrite, discard f tmp (gm_put tmp (take n b) fs))
            | None \<Rightarrow>
                (let fs1 = gm_put tmp b fs in
                 if fl_chmod f then (Some IoChmod, discard f tmp fs1)
                 else if fl_close f then (Some IoClose, discard f tmp fs1)
                 else if fl_rename f then (Some IoRename, discard f tmp fs1)
                 else (None, rename_file tmp path fs1))))"

text \<open>\<open>SaveHistory\<close> for the marshalled snapshot: no chmod, the temporary file is created 0600.\<close>

definition save_history_file :: "faults \<Rightarrow> string \<Rightarrow> string \<Rightarrow> string \<Rightarrow> files \<Rightarrow> io_step option \<times> files" where
  "save_history_file f tmp path b fs =
     (if fl_mkdir f then (Some IoMkdir, fs)
      else if fl_create f then (Some IoCreate, fs)
      else (case fl_write f of
              Some n \<Rightarrow> (Some IoWrite, discard f tmp (gm_put tmp (take n b) fs))
            | None \<Rightarrow>
                (let fs1 = gm_put tmp b fs in
                 if fl_close f then (Some IoClose, discard f tmp fs1)
                 else if fl_rename f then (Some IoRename, discard f tmp fs1)
                 else (None, rename_file tmp path fs1))))"

text \<open>\<open>Store.rewrite\<close>: a fixed temporary name, truncated on open, and left behind on failure.\<close>

definition store_rewrite_file :: "faults \<Rightarrow> string \<Rightarrow> string \<Rightarrow> string \<Rightarrow> files \<Rightarrow> io_step option \<times> files" where
  "store_rewrite_file f tmp path b fs =
     (if fl_mkdir f then (Some IoMkdir, fs)
      else if fl_chmod_dir f then (Some IoChmodDir, fs)
      else if fl_create f then (Some IoCreate, fs)
      else (case fl_write f of
              Some n \<Rightarrow> (Some IoWrite, gm_put tmp (take n b) fs)
            | None \<Rightarrow>
                (let fs1 = gm_put tmp b fs in
                 if fl_close f then (Some IoClose, fs1)
                 else if fl_chmod f then (Some IoChmod, fs1)
                 else if fl_rename f then (Some IoRename, fs1)
                 else (None, rename_file tmp path fs1))))"

section \<open>The contract\<close>

locale atomic_writer =
  fixes wr :: "faults \<Rightarrow> string \<Rightarrow> string \<Rightarrow> string \<Rightarrow> files \<Rightarrow> io_step option \<times> files"
  assumes target: "tmp \<noteq> path \<Longrightarrow> gm_get (snd (wr f tmp path b fs)) path
      = (if fst (wr f tmp path b fs) = None then Some b else gm_get fs path)"
    and others: "q \<noteq> path \<Longrightarrow> q \<noteq> tmp \<Longrightarrow> gm_get (snd (wr f tmp path b fs)) q = gm_get fs q"
    and no_temp: "tmp \<noteq> path \<Longrightarrow> fst (wr f tmp path b fs) = None \<Longrightarrow> gm_get (snd (wr f tmp path b fs)) tmp = None"
begin

fun writes :: "string \<Rightarrow> (faults \<times> string \<times> string) list \<Rightarrow> files \<Rightarrow> files" where
  "writes path [] fs = fs"
| "writes path ((f, tmp, b) # ws) fs = writes path ws (snd (wr f tmp path b fs))"

fun committed :: "string \<Rightarrow> (faults \<times> string \<times> string) list \<Rightarrow> files \<Rightarrow> string list" where
  "committed path [] fs = []"
| "committed path ((f, tmp, b) # ws) fs =
     (if fst (wr f tmp path b fs) = None then [b] else []) @ committed path ws (snd (wr f tmp path b fs))"

text \<open>After any sequence of writes with any faults, the file holds the last committed content.\<close>

lemma writes_last:
  "\<forall>(f, tmp, b) \<in> set ws. tmp \<noteq> path \<Longrightarrow>
     gm_get (writes path ws fs) path
       = (if committed path ws fs = [] then gm_get fs path else Some (last (committed path ws fs)))"
proof (induction ws arbitrary: fs)
  case (Cons w ws)
  obtain f tmp b where w: "w = (f, tmp, b)" by (metis prod_cases3)
  then have "tmp \<noteq> path" using Cons.prems by auto
  then show ?case using Cons target [of tmp path f b fs] by (auto simp: w)
qed simp

lemma writes_others:
  "q \<noteq> path \<Longrightarrow> \<forall>(f, tmp, b) \<in> set ws. q \<noteq> tmp \<Longrightarrow> gm_get (writes path ws fs) q = gm_get fs q"
proof (induction ws arbitrary: fs)
  case (Cons w ws)
  obtain f tmp b where w: "w = (f, tmp, b)" by (metis prod_cases3)
  then have "q \<noteq> tmp" using Cons.prems by auto
  then show ?case using Cons others [of q path tmp f b fs] by (auto simp: w)
qed simp

end

lemmas file_simps = rename_file_def discard_def gm_get_put gm_get_del Let_def

interpretation profile_file: atomic_writer save_profile_file
  by unfold_locales (auto simp: save_profile_file_def file_simps split: option.splits if_splits)

interpretation session_file: atomic_writer session_map_write
  by unfold_locales (auto simp: session_map_write_def file_simps split: option.splits if_splits)

interpretation history_file: atomic_writer save_history_file
  by unfold_locales (auto simp: save_history_file_def file_simps split: option.splits if_splits)

interpretation incident_file: atomic_writer store_rewrite_file
  by unfold_locales (auto simp: store_rewrite_file_def file_simps split: option.splits if_splits)

end
