(* ===== verification/Chat_Service.thy ===== *)
theory Chat_Service
  imports Chat_Policy Atomic_File "HOL-Library.Multiset"
begin

text \<open>
  The chat service (\<open>internal/chatops/service.go\<close>): idempotency, the bounded queue and its workers,
  and the run of one job; with the session map (\<open>session_map.go\<close>) a job resumes from. Handling an
  event, a worker taking a job, a worker finishing one and the shutdown are the steps of a
  transition relation. What the source leaves to the runtime is a parameter of the step: the map
  iteration order, and which case of the \<open>select\<close> runs when both are ready.
\<close>

section \<open>The session map\<close>

definition conversation_key :: "chat_event \<Rightarrow> string" where
  "conversation_key ev =
     (let scope = first_non_empty [ce_workspace ev, ce_guild ev, ce_chat ev];
          thread = first_non_empty [ce_thread ev, ce_channel ev, ce_user ev]
      in join [ce_platform ev, scope, ce_channel ev, thread, ce_user ev] ''|'')"

text \<open>The JSON codec of the map: \<open>sm_parse\<close> gives \<open>None\<close> on a syntax error; \<open>null\<close> is the empty map.\<close>

record map_codec =
  sm_parse :: "string \<Rightarrow> string gomap option"
  sm_show :: "string gomap \<Rightarrow> string"

datatype map_error = MapParse | MapIo io_step

definition session_read :: "map_codec \<Rightarrow> string \<Rightarrow> files \<Rightarrow> map_error + string gomap" where
  "session_read C path fs =
     (case gm_get fs path of
        None \<Rightarrow> Inr []
      | Some b \<Rightarrow> (case sm_parse C b of None \<Rightarrow> Inl MapParse | Some m \<Rightarrow> Inr m))"

definition session_lookup :: "map_codec \<Rightarrow> string \<Rightarrow> chat_event \<Rightarrow> files \<Rightarrow> string" where
  "session_lookup C path ev fs =
     (case session_read C path fs of
        Inl _ \<Rightarrow> []
      | Inr m \<Rightarrow> (case gm_get m (conversation_key ev) of None \<Rightarrow> [] | Some sid \<Rightarrow> sid))"

definition session_remember :: "map_codec \<Rightarrow> faults \<Rightarrow> string \<Rightarrow> string \<Rightarrow> chat_event \<Rightarrow> string \<Rightarrow> files
    \<Rightarrow> map_error option \<times> files" where
  "session_remember C f tmp path ev sid fs =
     (if sid = [] then (None, fs)
      else (case session_read C path fs of
              Inl e \<Rightarrow> (Some e, fs)
            | Inr m \<Rightarrow>
                (case session_map_write f tmp path (sm_show C (gm_put (conversation_key ev) sid m)) fs of
                   (None, fs') \<Rightarrow> (None, fs')
                 | (Some st, fs') \<Rightarrow> (Some (MapIo st), fs'))))"

section \<open>Running one job\<close>

record job =
  jb_event :: chat_event
  jb_decision :: decision

record run_request =
  rr_prompt :: string
  rr_skill :: string
  rr_profile :: string
  rr_resume :: string
  rr_platform :: string
  rr_source :: string

record run_outcome =
  ro_text :: string
  ro_session :: string

record chat_message =
  cm_text :: string
  cm_visibility :: string
  cm_session :: string
  cm_error :: bool

definition job_request :: "string \<Rightarrow> job \<Rightarrow> run_request" where
  "job_request resume j =
     \<lparr>rr_prompt = ce_text (jb_event j), rr_skill = dn_skill (jb_decision j),
      rr_profile = dn_profile (jb_decision j), rr_resume = resume,
      rr_platform = ce_platform (jb_event j), rr_source = source_key (jb_event j)\<rparr>"

text \<open>\<open>None\<close> is the error of the runner.\<close>

definition job_message :: "job \<Rightarrow> run_outcome option \<Rightarrow> chat_message" where
  "job_message j r =
     (case r of
        None \<Rightarrow> \<lparr>cm_text = ''Cloudy failed to answer this request safely.'',
                cm_visibility = dn_visibility (jb_decision j), cm_session = [], cm_error = True\<rparr>
      | Some out \<Rightarrow> \<lparr>cm_text = ro_text out, cm_visibility = dn_visibility (jb_decision j),
                   cm_session = ro_session out, cm_error = False\<rparr>)"

record queue_env =
  qe_runner :: "run_request \<Rightarrow> run_outcome option"
  qe_delivers :: "reply_target \<Rightarrow> chat_message \<Rightarrow> bool"
  qe_faults :: faults
  qe_tmp :: string

text \<open>The third component: the session whose log gets a delivery-failure event, if any.\<close>

definition run_job :: "map_codec \<Rightarrow> queue_env \<Rightarrow> string \<Rightarrow> job \<Rightarrow> files
    \<Rightarrow> chat_message \<times> files \<times> string option" where
  "run_job C Q path j fs =
     (let ev = jb_event j;
          resume = session_lookup C path ev fs;
          r = qe_runner Q (job_request resume j);
          msg = job_message j r;
          fs' = (case r of
                   None \<Rightarrow> fs
                 | Some out \<Rightarrow>
                     if ro_session out \<noteq> []
                     then snd (session_remember C (qe_faults Q) (qe_tmp Q) path ev (ro_session out) fs)
                     else fs)
      in (msg, fs',
          if qe_delivers Q (ce_reply ev) msg then None
          else if cm_session msg = [] then None else Some (cm_session msg)))"

definition timeout_for :: "chat_config \<Rightarrow> string \<Rightarrow> int" where
  "timeout_for cfg platform =
     (let secs = (if cf_timeout cfg \<le> 0 then 300 else cf_timeout cfg);
          dsecs = (if cf_discord_timeout cfg \<le> 0 then secs else cf_discord_timeout cfg)
      in (if platform = ''discord'' \<and> dsecs > 0 then dsecs else secs) * 1000000000)"

section \<open>The service state\<close>

definition idempotency_ttl :: int where "idempotency_ttl = 86400000000000"
definition max_idempotency :: nat where "max_idempotency = 10000"

definition queue_workers :: "chat_config \<Rightarrow> nat" where
  "queue_workers cfg = (if cf_workers cfg \<le> 0 then 1 else nat (cf_workers cfg))"

definition queue_depth :: "chat_config \<Rightarrow> nat" where
  "queue_depth cfg = (if cf_depth cfg \<le> 0 then 64 else nat (cf_depth cfg))"

record service =
  sv_windows :: "rate_window gomap"
  sv_seen :: "gotime gomap"
  sv_jobs :: "job list"
  sv_closed :: bool

definition new_service :: service where
  "new_service = \<lparr>sv_windows = [], sv_seen = [], sv_jobs = [], sv_closed = False\<rparr>"

definition prune_seen :: "gotime \<Rightarrow> gotime gomap \<Rightarrow> gotime gomap" where
  "prune_seen t seen = filter (\<lambda>(k, s). \<not> s < t - idempotency_ttl) seen"

text \<open>A zero time is replaced by the clock's, given as \<open>clock\<close>.\<close>

definition mark_seen :: "(gotime gomap \<Rightarrow> string list) \<Rightarrow> gotime \<Rightarrow> string \<Rightarrow> gotime \<Rightarrow> gotime gomap
    \<Rightarrow> bool \<times> gotime gomap" where
  "mark_seen order clock key t seen =
     (let t' = (if t = 0 then clock else t);
          s1 = prune_seen t' seen
      in if gm_has s1 key then (False, s1)
         else (let s2 = (if length s1 \<ge> max_idempotency then evict_until max_idempotency (order s1) s1 else s1)
               in (True, gm_put key t' s2)))"

definition unmark_seen :: "string \<Rightarrow> gotime gomap \<Rightarrow> gotime gomap" where
  "unmark_seen key seen = gm_del key seen"

text \<open>\<open>Enqueue\<close>: sending is possible while the buffer has room; when the context is done as well,
  the \<open>select\<close> may take either case (\<open>pick_send\<close>).\<close>

definition enqueue :: "nat \<Rightarrow> bool \<Rightarrow> bool \<Rightarrow> job \<Rightarrow> service \<Rightarrow> chat_error option \<times> service" where
  "enqueue depth ctx_done pick_send j sv =
     (if sv_closed sv then (Some QueueClosed, sv)
      else if length (sv_jobs sv) < depth \<and> (\<not> ctx_done \<or> pick_send)
      then (None, sv\<lparr>sv_jobs := sv_jobs sv @ [j]\<rparr>)
      else if ctx_done then (Some ContextDone, sv)
      else (Some QueueFull, sv))"

record handle_env =
  he_rate_order :: "rate_window gomap \<Rightarrow> string list"
  he_seen_order :: "gotime gomap \<Rightarrow> string list"
  he_clock :: gotime
  he_ctx_done :: bool
  he_pick_send :: bool

definition handle_event :: "chat_config \<Rightarrow> handle_env \<Rightarrow> chat_event \<Rightarrow> service \<Rightarrow> chat_error option \<times> service" where
  "handle_event cfg H ev0 sv =
     (let ev = (if ce_received ev0 = 0 then ev0\<lparr>ce_received := he_clock H\<rparr> else ev0) in
      case authorize (he_rate_order H) cfg (he_clock H) ev (sv_windows sv) of
        (Inl e, ws) \<Rightarrow> (Some e, sv\<lparr>sv_windows := ws\<rparr>)
      | (Inr d, ws) \<Rightarrow>
          (let sv1 = sv\<lparr>sv_windows := ws\<rparr>; j = \<lparr>jb_event = ev, jb_decision = d\<rparr> in
           if ce_key ev \<noteq> []
           then (case mark_seen (he_seen_order H) (he_clock H) (ce_key ev) (ce_received ev) (sv_seen sv1) of
                   (False, seen) \<Rightarrow> (Some Duplicate, sv1\<lparr>sv_seen := seen\<rparr>)
                 | (True, seen) \<Rightarrow>
                     (case enqueue (queue_depth cfg) (he_ctx_done H) (he_pick_send H) j (sv1\<lparr>sv_seen := seen\<rparr>) of
                        (None, sv2) \<Rightarrow> (None, sv2)
                      | (Some e, sv2) \<Rightarrow> (Some e, sv2\<lparr>sv_seen := unmark_seen (ce_key ev) (sv_seen sv2)\<rparr>)))
           else enqueue (queue_depth cfg) (he_ctx_done H) (he_pick_send H) j sv1))"

definition shutdown :: "service \<Rightarrow> service" where
  "shutdown sv = sv\<lparr>sv_closed := True\<rparr>"

section \<open>The transition system\<close>

text \<open>The whole system: the service, the jobs the workers hold, and the history of accepted and
  finished jobs.\<close>

record chat_system =
  cs_service :: service
  cs_running :: "job list"
  cs_accepted :: "job list"
  cs_finished :: "job list"

definition new_system :: chat_system where
  "new_system = \<lparr>cs_service = new_service, cs_running = [], cs_accepted = [], cs_finished = []\<rparr>"

inductive chat_step :: "chat_config \<Rightarrow> chat_system \<Rightarrow> chat_system \<Rightarrow> bool" for cfg where
  step_reject: "handle_event cfg H ev (cs_service c) = (Some e, sv) \<Longrightarrow>
     chat_step cfg c (c\<lparr>cs_service := sv\<rparr>)"
| step_accept: "handle_event cfg H ev (cs_service c) = (None, sv) \<Longrightarrow>
     chat_step cfg c (c\<lparr>cs_service := sv, cs_accepted := cs_accepted c @ [last (sv_jobs sv)]\<rparr>)"
| step_take: "sv_jobs (cs_service c) = j # js \<Longrightarrow> length (cs_running c) < queue_workers cfg \<Longrightarrow>
     chat_step cfg c (c\<lparr>cs_service := (cs_service c)\<lparr>sv_jobs := js\<rparr>, cs_running := cs_running c @ [j]\<rparr>)"
| step_finish: "j \<in> set (cs_running c) \<Longrightarrow>
     chat_step cfg c (c\<lparr>cs_running := remove1 j (cs_running c), cs_finished := cs_finished c @ [j]\<rparr>)"
| step_shutdown: "chat_step cfg c (c\<lparr>cs_service := shutdown (cs_service c)\<rparr>)"

inductive chat_reach :: "chat_config \<Rightarrow> chat_system \<Rightarrow> bool" for cfg where
  reach_start: "chat_reach cfg new_system"
| reach_step: "chat_reach cfg c \<Longrightarrow> chat_step cfg c c' \<Longrightarrow> chat_reach cfg c'"

inductive_cases chat_stepE: "chat_step cfg c c'"

lemma enqueue_cases:
  "enqueue depth ctx pick j sv = (None, sv') \<Longrightarrow>
     \<not> sv_closed sv \<and> length (sv_jobs sv) < depth \<and> sv' = sv\<lparr>sv_jobs := sv_jobs sv @ [j]\<rparr>"
  "enqueue depth ctx pick j sv = (Some e, sv') \<Longrightarrow> sv' = sv"
  by (auto simp: enqueue_def split: if_splits)

lemma handle_accepts:
  assumes "handle_event cfg H ev sv = (None, sv')"
  shows "\<exists>j. sv_jobs sv' = sv_jobs sv @ [j] \<and> length (sv_jobs sv') \<le> queue_depth cfg \<and> \<not> sv_closed sv \<and>
     sv_closed sv' = sv_closed sv \<and> ce_authenticated (jb_event j) \<and> listed cfg (jb_event j) \<and>
     jb_decision j = route_decision cfg (jb_event j)"
  using assms
  by (auto simp: handle_event_def Let_def dest!: enqueue_cases authorize_ok split: prod.splits sum.splits option.splits if_splits bool.splits)

lemma handle_rejects:
  assumes "handle_event cfg H ev sv = (Some e, sv')"
  shows "sv_jobs sv' = sv_jobs sv \<and> sv_closed sv' = sv_closed sv"
  using assms
  by (auto simp: handle_event_def Let_def dest!: enqueue_cases split: prod.splits sum.splits option.splits if_splits bool.splits)

definition chat_inv :: "chat_config \<Rightarrow> chat_system \<Rightarrow> bool" where
  "chat_inv cfg c \<longleftrightarrow>
     length (sv_jobs (cs_service c)) \<le> queue_depth cfg \<and>
     length (cs_running c) \<le> queue_workers cfg \<and>
     mset (cs_accepted c) = mset (sv_jobs (cs_service c)) + mset (cs_running c) + mset (cs_finished c) \<and>
     (\<forall>j \<in> set (cs_accepted c). ce_authenticated (jb_event j) \<and> listed cfg (jb_event j) \<and>
        jb_decision j = route_decision cfg (jb_event j))"

lemma chat_inv_start: "chat_inv cfg new_system"
  by (simp add: chat_inv_def new_system_def new_service_def)

lemma chat_inv_step: "chat_step cfg c c' \<Longrightarrow> chat_inv cfg c \<Longrightarrow> chat_inv cfg c'"
proof (induction rule: chat_step.induct)
  case (step_reject H ev c e sv)
  then show ?case using handle_rejects [OF step_reject.hyps] by (simp add: chat_inv_def)
next
  case (step_accept H ev c sv)
  then show ?case using handle_accepts [OF step_accept.hyps] by (auto simp: chat_inv_def)
next
  case (step_take c j js)
  then show ?case by (auto simp: chat_inv_def)
next
  case (step_finish j c)
  then show ?case by (auto simp: chat_inv_def length_remove1)
next
  case (step_shutdown c)
  then show ?case by (simp add: chat_inv_def shutdown_def)
qed

lemma chat_reach_inv: "chat_reach cfg c \<Longrightarrow> chat_inv cfg c"
  by (induction rule: chat_reach.induct) (auto intro: chat_inv_start chat_inv_step)

section \<open>Idempotency\<close>

fun seen_run :: "(gotime gomap \<Rightarrow> string list) \<Rightarrow> (gotime \<times> string) list \<Rightarrow> gotime gomap
    \<Rightarrow> (gotime \<times> string) list \<times> gotime gomap" where
  "seen_run order [] seen = ([], seen)"
| "seen_run order ((t, key) # evs) seen =
     (let (fresh, seen1) = mark_seen order t key t seen;
          (acc, seen2) = seen_run order evs seen1
      in ((if fresh then [(t, key)] else []) @ acc, seen2))"

lemma seen_run_append:
  "seen_run order (xs @ ys) seen =
     (let (a, s1) = seen_run order xs seen; (b, s2) = seen_run order ys s1 in (a @ b, s2))"
  by (induction order xs seen rule: seen_run.induct) (auto simp: Let_def split: prod.splits)

definition far_apart :: "gotime \<times> string \<Rightarrow> gotime \<times> string \<Rightarrow> bool" where
  "far_apart x y \<longleftrightarrow> (snd x = snd y \<longrightarrow> fst y - fst x > idempotency_ttl)"

lemma mark_seen_small:
  assumes "gm_wf seen" "length seen < max_idempotency" "t \<noteq> 0"
  shows "mark_seen order c key t seen =
     (let s1 = prune_seen t seen in if gm_has s1 key then (False, s1) else (True, gm_put key t s1))"
proof -
  have "length (prune_seen t seen) < max_idempotency"
    using assms(2) length_filter_le [of _ seen] by (metis prune_seen_def le_less_trans)
  then show ?thesis using assms by (auto simp: mark_seen_def Let_def)
qed

lemma prune_seen_get: "gm_wf seen \<Longrightarrow> gm_get (prune_seen t seen) k
    = (case gm_get seen k of None \<Rightarrow> None | Some s \<Rightarrow> if s < t - idempotency_ttl then None else Some s)"
  by (auto simp: prune_seen_def gm_get_filter split: option.splits)

lemma seen_run_inv:
  assumes "sorted (map fst evs)" "\<forall>(t, k) \<in> set evs. 0 < t" "length evs < max_idempotency"
    and "seen_run order evs [] = (acc, seen)"
  shows "gm_wf seen \<and> length seen \<le> length evs \<and> sorted_wrt far_apart acc \<and>
     (\<forall>(t, k) \<in> set acc. t \<le> last_time evs \<and>
        (last_time evs - idempotency_ttl \<le> t \<longrightarrow> (\<exists>s. gm_get seen k = Some s \<and> t \<le> s)))"
  using assms
proof (induction evs arbitrary: acc seen rule: rev_induct)
  case (snoc ev evs)
  obtain t key where ev: "ev = (t, key)" by fastforce
  obtain acc0 seen0 where r0: "seen_run order evs [] = (acc0, seen0)" by fastforce
  have t: "0 < t" "last_time evs \<le> t"
    using snoc.prems(1,2) by (auto simp: ev sorted_append last_time_def)
  from snoc.IH [OF _ _ _ r0] snoc.prems(1-3) have IH:
    "gm_wf seen0" "length seen0 \<le> length evs" "sorted_wrt far_apart acc0"
    "\<And>t' k. (t', k) \<in> set acc0 \<Longrightarrow> t' \<le> last_time evs"
    "\<And>t' k. (t', k) \<in> set acc0 \<Longrightarrow> last_time evs - idempotency_ttl \<le> t' \<Longrightarrow> \<exists>s. gm_get seen0 k = Some s \<and> t' \<le> s"
    by (auto simp: sorted_append)
  let ?p = "prune_seen t seen0"
  have wfp: "gm_wf ?p" using IH(1) by (simp add: prune_seen_def)
  have lenp: "length ?p \<le> length evs"
    using IH(2) by (simp add: prune_seen_def) (metis le_trans length_filter_le)
  have kept: "\<exists>s. gm_get ?p k = Some s \<and> t' \<le> s" if "(t', k) \<in> set acc0" "t - idempotency_ttl \<le> t'" for t' k
    using IH(5) [OF that(1)] that(2) t(2) by (auto simp: prune_seen_get [OF IH(1)] split: option.splits)
  have m: "mark_seen order t key t seen0 = (if gm_has ?p key then (False, ?p) else (True, gm_put key t ?p))"
    using mark_seen_small [OF IH(1), of t order t key] IH(2) snoc.prems(3) t(1) by (simp add: Let_def)
  have le: "t' \<le> t" if "(t', k) \<in> set acc0" for t' k using IH(4) [OF that] t(2) by simp
  show ?case
  proof (cases "gm_has ?p key")
    case True
    then have "acc = acc0" "seen = ?p" using snoc.prems(4) m by (simp_all add: seen_run_append r0 ev)
    then show ?thesis using wfp lenp IH(3) kept le by (fastforce simp: last_time_def ev)
  next
    case False
    then have run: "acc = acc0 @ [(t, key)]" "seen = gm_put key t ?p"
      using snoc.prems(4) m by (simp_all add: seen_run_append r0 ev)
    have "far_apart (t', k) (t, key)" if "(t', k) \<in> set acc0" for t' k
      using kept [OF that] False by (auto simp: far_apart_def not_le [symmetric])
    then show ?thesis
      using wfp lenp IH(3) kept le run
      by (fastforce simp: last_time_def ev sorted_wrt_append gm_get_put length_gm_put)
  qed
qed simp

section \<open>The session map remembers\<close>

lemma remember_lookup:
  assumes "\<And>m. sm_parse C (sm_show C m) = Some m" "tmp \<noteq> path" "sid \<noteq> []"
    and "session_remember C f tmp path ev sid fs = (None, fs')"
  shows "session_lookup C path ev' fs' =
     (if conversation_key ev' = conversation_key ev then sid else session_lookup C path ev' fs)"
proof -
  obtain m where m: "session_read C path fs = Inr m"
    using assms(3,4) by (auto simp: session_remember_def split: sum.splits)
  let ?b = "sm_show C (gm_put (conversation_key ev) sid m)"
  have w: "session_map_write f tmp path ?b fs = (None, fs')"
    using assms(3,4) m by (auto simp: session_remember_def split: prod.splits option.splits)
  then have "gm_get fs' path = Some ?b"
    using session_file.target [OF assms(2), of f ?b fs] by simp
  then show ?thesis
    using m assms(1) by (simp add: session_lookup_def session_read_def gm_get_put)
qed

lemma remember_failure:
  assumes "tmp \<noteq> path" "session_remember C f tmp path ev sid fs = (Some e, fs')"
  shows "gm_get fs' path = gm_get fs path"
proof -
  have "gm_get (snd (session_map_write f tmp path b fs)) path = gm_get fs path"
    if "fst (session_map_write f tmp path b fs) \<noteq> None" for b
    using session_file.target [OF assms(1), of f b fs] that by simp
  then show ?thesis
    using assms(2)
    by (auto simp: session_remember_def split: sum.splits prod.splits option.splits if_splits)
       (metis fst_conv option.distinct(1) snd_conv)
qed

end
