(* ===== verification/Chat_Format.thy ===== *)
theory Chat_Format
  imports Chat_Service Llm_Types
begin

text \<open>
  Chat replies (\<open>internal/chatops/format.go\<close>, \<open>sink.go\<close>, \<open>delivery.go\<close>): splitting into
  chunks, platform escaping, and the sink that collects a run's answer. The mention guards of Slack
  and Discord share a contract, stated as a locale over the replacement table.
\<close>

section \<open>Chunks\<close>

text \<open>\<open>range\<close> over the text yields runes; \<open>WriteRune\<close> writes them back, so an invalid byte becomes
  the replacement character.\<close>

fun chunk_loop :: "nat \<Rightarrow> nat list \<Rightarrow> string \<Rightarrow> nat \<Rightarrow> string list \<Rightarrow> string list" where
  "chunk_loop mx [] b ct chunks = (if b \<noteq> [] \<or> chunks = [] then chunks @ [b] else chunks)"
| "chunk_loop mx (r # rs) b ct chunks =
     (if ct \<ge> mx then chunk_loop mx rs (encode_rune r) 1 (chunks @ [b])
      else chunk_loop mx rs (b @ encode_rune r) (ct + 1) chunks)"

definition chunk_text :: "string \<Rightarrow> int \<Rightarrow> string list" where
  "chunk_text txt mx =
     (if mx \<le> 0 then [txt] else chunk_loop (nat mx) (map fst (runes_of txt)) [] 0 [])"

section \<open>Platform escaping\<close>

abbreviation zwsp :: string where "zwsp \<equiv> [CHR 0xE2, CHR 0x80, CHR 0x8B]"

definition discord_table :: "(string \<times> string) list" where
  "discord_table = [(''@everyone'', ''@'' @ zwsp @ ''everyone''), (''@here'', ''@'' @ zwsp @ ''here'')]"

definition slack_table :: "(string \<times> string) list" where
  "slack_table =
     [(''<!here'', ''<!'' @ zwsp @ ''here''),
      (''<!channel'', ''<!'' @ zwsp @ ''channel''),
      (''<!everyone'', ''<!'' @ zwsp @ ''everyone''),
      (''<!subteam'', ''<!'' @ zwsp @ ''subteam''),
      (''<@'', ''<@'' @ zwsp)]"

definition telegram_specials :: string where
  "telegram_specials = ''_*[]()~'' @ [CHR 0x60] @ ''>#+-=|{}.!''"

definition telegram_table :: "(string \<times> string) list" where
  "telegram_table = map (\<lambda>c. ([c], [CHR 0x5C, c])) telegram_specials"

definition suppress_discord_mentions :: "string \<Rightarrow> string" where
  "suppress_discord_mentions s = replacer discord_table s"

definition suppress_slack_mentions :: "string \<Rightarrow> string" where
  "suppress_slack_mentions s = replacer slack_table s"

definition escape_telegram :: "string \<Rightarrow> string" where
  "escape_telegram s = replacer telegram_table s"

definition format_message :: "string \<Rightarrow> chat_message \<Rightarrow> string" where
  "format_message platform msg =
     (let t0 = trim_space (cm_text msg);
          t1 = (if t0 = [] then ''Cloudy returned no text.'' else t0);
          t2 = (if cm_session msg \<noteq> []
                then t1 @ [CHR 0x0A, CHR 0x0A] @ ''session: '' @ [CHR 0x60] @ cm_session msg @ [CHR 0x60]
                else t1)
      in if platform = ''slack'' then suppress_slack_mentions t2
         else if platform = ''discord'' then suppress_discord_mentions t2
         else if platform = ''telegram'' then escape_telegram t2
         else t2)"

section \<open>The sink and delivery\<close>

record chat_sink =
  cz_text :: string
  cz_tools :: "string list"
  cz_usages :: "usage list"
  cz_max_tool :: nat

definition new_chat_sink :: chat_sink where
  "new_chat_sink = \<lparr>cz_text = [], cz_tools = [], cz_usages = [], cz_max_tool = 20\<rparr>"

definition sink_token :: "string \<Rightarrow> chat_sink \<Rightarrow> chat_sink" where
  "sink_token t s = s\<lparr>cz_text := cz_text s @ t\<rparr>"

definition sink_begin :: "string \<Rightarrow> chat_sink \<Rightarrow> chat_sink" where
  "sink_begin name s = (if length (cz_tools s) < cz_max_tool s then s\<lparr>cz_tools := cz_tools s @ [name]\<rparr> else s)"

definition sink_usage :: "usage \<Rightarrow> chat_sink \<Rightarrow> chat_sink" where
  "sink_usage u s = s\<lparr>cz_usages := cz_usages s @ [u]\<rparr>"

text \<open>\<open>MultiDelivery\<close>: a platform without a client delivers nothing and reports success.\<close>

definition multi_deliver :: "(reply_target \<Rightarrow> chat_message \<Rightarrow> bool) gomap \<Rightarrow> reply_target \<Rightarrow> chat_message \<Rightarrow> bool" where
  "multi_deliver m target msg =
     (case gm_get m (rp_platform target) of None \<Rightarrow> True | Some d \<Rightarrow> d target msg)"

section \<open>Chunk facts\<close>

lemma encode_rune_ne [simp]: "encode_rune r \<noteq> []"
  by (simp add: encode_rune_def Let_def)

lemma chunk_loop_concat:
  "concat (chunk_loop mx rs b n chunks) = concat chunks @ b @ concat (map encode_rune rs)"
  by (induction mx rs b n chunks rule: chunk_loop.induct) auto

text \<open>The text of exactly \<open>n\<close> runes.\<close>

definition has_runes :: "nat \<Rightarrow> string \<Rightarrow> bool" where
  "has_runes n c \<longleftrightarrow> (\<exists>qs. c = concat (map encode_rune qs) \<and> length qs = n)"

lemma has_runes_simps: "has_runes 0 []" "has_runes 1 (encode_rune r)"
  "has_runes n b \<Longrightarrow> has_runes (n + 1) (b @ encode_rune r)"
proof -
  show "has_runes 0 []" by (simp add: has_runes_def)
  show "has_runes 1 (encode_rune r)" unfolding has_runes_def by (intro exI [of _ "[r]"]) simp
  assume "has_runes n b"
  then obtain qs where "b = concat (map encode_rune qs)" "length qs = n" by (auto simp: has_runes_def)
  then show "has_runes (n + 1) (b @ encode_rune r)"
    unfolding has_runes_def by (intro exI [of _ "qs @ [r]"]) simp
qed

lemma chunk_loop_bound:
  assumes "1 \<le> mx" "has_runes n b" "n \<le> mx" "\<forall>c \<in> set chunks. \<exists>k \<le> mx. has_runes k c"
  shows "\<forall>c \<in> set (chunk_loop mx rs b n chunks). \<exists>k \<le> mx. has_runes k c"
  using assms
proof (induction mx rs b n chunks rule: chunk_loop.induct)
  case (1 mx b ct chunks)
  then show ?case by auto
next
  case (2 mx r rs b n chunks)
  show ?case
  proof (cases "n \<ge> mx")
    case True
    have c: "\<forall>c \<in> set (chunks @ [b]). \<exists>k \<le> mx. has_runes k c" using 2(4,5,6) by auto
    have eq: "chunk_loop mx (r # rs) b n chunks = chunk_loop mx rs (encode_rune r) 1 (chunks @ [b])"
      using True by simp
    show ?thesis unfolding eq by (rule 2(1) [OF True 2(3) has_runes_simps(2) 2(3) c])
  next
    case False
    have eq: "chunk_loop mx (r # rs) b n chunks = chunk_loop mx rs (b @ encode_rune r) (n + 1) chunks"
      using False by simp
    have "n + 1 \<le> mx" using False by simp
    show ?thesis unfolding eq by (rule 2(2) [OF False 2(3) has_runes_simps(3) [OF 2(4)] \<open>n + 1 \<le> mx\<close> 2(6)])
  qed
qed

lemma chunk_text_concat:
  "0 < mx \<Longrightarrow> concat (chunk_text txt mx) = concat (map (encode_rune \<circ> fst) (runes_of txt))"
  by (simp add: chunk_text_def chunk_loop_concat)

lemma chunk_text_bound:
  "0 < mx \<Longrightarrow> c \<in> set (chunk_text txt mx) \<Longrightarrow> \<exists>k. has_runes k c \<and> int k \<le> mx"
  using chunk_loop_bound [of "nat mx" 0 "[]" "[]" "map fst (runes_of txt)"]
  by (fastforce simp: chunk_text_def has_runes_simps(1))

lemma chunk_text_nonempty: "chunk_text txt mx \<noteq> []"
proof -
  have "chunk_loop m rs b n chunks \<noteq> []" for m rs b n chunks
    by (induction m rs b n chunks rule: chunk_loop.induct) auto
  then show ?thesis by (simp add: chunk_text_def)
qed

section \<open>Mention guards\<close>

lemma replacer_match_None:
  "replacer_match ps s = None \<Longrightarrow> (old, new) \<in> set ps \<Longrightarrow> old \<noteq> [] \<Longrightarrow> \<not> prefix old s"
  by (induction ps s rule: replacer_match.induct) (auto split: if_splits)

text \<open>Every pattern and every replacement starts with the mark and has it nowhere else.\<close>

locale mention_guard =
  fixes mark :: char and tbl :: "(string \<times> string) list"
  assumes olds: "(old, new) \<in> set tbl \<Longrightarrow> \<exists>w. old = mark # w \<and> mark \<notin> set w"
    and news: "(old, new) \<in> set tbl \<Longrightarrow> \<exists>w. new = mark # w \<and> mark \<notin> set w"
begin

lemma unmarked_prefix:
  "mark \<notin> set w \<Longrightarrow> prefix w (replacer tbl s) \<Longrightarrow> prefix w s"
proof (induction w arbitrary: s)
  case (Cons x w)
  show ?case
  proof (cases s)
    case (Cons c cs)
    show ?thesis
    proof (cases "replacer_match tbl s")
      case None
      then have "replacer tbl s = c # replacer tbl cs" using Cons replacer_copy by simp
      then show ?thesis using Cons.IH [of cs] Cons.prems \<open>s = c # cs\<close> by auto
    next
      case (Some p)
      obtain old new where p: "p = (old, new)" by fastforce
      then obtain v where "new = mark # v" using news replacer_match_Some Some by blast
      then have "\<exists>r. replacer tbl s = mark # r"
        using replacer_hit [of tbl c cs old new] Some p Cons by simp
      then show ?thesis using Cons.prems by auto
    qed
  qed (use Cons.prems in simp)
qed simp

text \<open>A marked string that some pattern starts and no replacement can begin never appears.\<close>

lemma guarded:
  assumes bad: "bad = mark # w" "mark \<notin> set w"
    and hit: "(olda, newa) \<in> set tbl" "prefix olda bad" "olda \<noteq> []"
    and safe: "\<And>old new r. (old, new) \<in> set tbl \<Longrightarrow> \<not> prefix bad (new @ r)"
  shows "\<not> contains (replacer tbl s) bad"
proof (induction s rule: length_induct)
  case (1 s)
  have skip: "contains (v @ t) bad = contains t bad" if "mark \<notin> set v" for v t
    using that bad(1) by (induction v) auto
  show ?case
  proof (cases s)
    case Nil
    then show ?thesis by (simp add: bad(1))
  next
    case (Cons c cs)
    show ?thesis
    proof (cases "replacer_match tbl s")
      case None
      then have out: "replacer tbl s = c # replacer tbl cs" using Cons replacer_copy by simp
      have "\<not> prefix bad (c # replacer tbl cs)"
      proof
        assume "prefix bad (c # replacer tbl cs)"
        then have "c = mark" "prefix w cs" using bad unmarked_prefix by auto
        then have "prefix olda s" using hit(2) bad(1) Cons by (auto intro: prefix_order.trans)
        then show False using None hit replacer_match_None by blast
      qed
      moreover have "\<not> contains (replacer tbl cs) bad" using 1 Cons by simp
      ultimately show ?thesis by (simp add: out)
    next
      case (Some p)
      obtain old new where p: "p = (old, new)" by fastforce
      have mem: "(old, new) \<in> set tbl" "old \<noteq> []" using replacer_match_Some Some p by blast+
      obtain v where v: "new = mark # v" "mark \<notin> set v" using news [OF mem(1)] by blast
      have out: "replacer tbl s = new @ replacer tbl (drop (length old) s)"
        using replacer_hit [of tbl c cs old new] Some p Cons by simp
      have "length (drop (length old) s) < length s" using mem(2) Cons by (cases old) auto
      then have "\<not> contains (replacer tbl (drop (length old) s)) bad" using 1 by blast
      moreover have "\<not> prefix bad (new @ replacer tbl (drop (length old) s))" by (rule safe [OF mem(1)])
      ultimately show ?thesis using skip [OF v(2)] by (simp add: out v(1))
    qed
  qed
qed

end

interpretation discord_guard: mention_guard "CHR ''@''" discord_table
  by unfold_locales (auto simp: discord_table_def)

interpretation slack_guard: mention_guard "CHR ''<''" slack_table
  by unfold_locales (auto simp: slack_table_def)

lemma discord_no_everyone: "\<not> contains (suppress_discord_mentions s) ''@everyone''"
  unfolding suppress_discord_mentions_def
  by (rule discord_guard.guarded [where olda = "''@everyone''", OF refl]) (auto simp: discord_table_def)

lemma discord_no_here: "\<not> contains (suppress_discord_mentions s) ''@here''"
  unfolding suppress_discord_mentions_def
  by (rule discord_guard.guarded [where olda = "''@here''", OF refl]) (auto simp: discord_table_def)

lemma slack_no_here: "\<not> contains (suppress_slack_mentions s) ''<!here''"
  unfolding suppress_slack_mentions_def
  by (rule slack_guard.guarded [where olda = "''<!here''", OF refl]) (auto simp: slack_table_def)

lemma slack_no_channel: "\<not> contains (suppress_slack_mentions s) ''<!channel''"
  unfolding suppress_slack_mentions_def
  by (rule slack_guard.guarded [where olda = "''<!channel''", OF refl]) (auto simp: slack_table_def)

lemma slack_no_everyone: "\<not> contains (suppress_slack_mentions s) ''<!everyone''"
  unfolding suppress_slack_mentions_def
  by (rule slack_guard.guarded [where olda = "''<!everyone''", OF refl]) (auto simp: slack_table_def)

lemma slack_no_subteam: "\<not> contains (suppress_slack_mentions s) ''<!subteam''"
  unfolding suppress_slack_mentions_def
  by (rule slack_guard.guarded [where olda = "''<!subteam''", OF refl]) (auto simp: slack_table_def)

text \<open>A user mention is always broken by a zero-width space.\<close>

lemma slack_no_user:
  assumes "x \<noteq> CHR 0xE2" "x \<noteq> CHR ''<''"
  shows "\<not> contains (suppress_slack_mentions s) (''<@'' @ [x])"
  unfolding suppress_slack_mentions_def append.simps
  by (rule slack_guard.guarded [where olda = "''<@''", OF refl]) (use assms in \<open>auto simp: slack_table_def\<close>)

section \<open>Telegram\<close>

text \<open>A reader of MarkdownV2: a backslash quotes the next byte; \<open>True\<close> when no special byte is left
  unquoted.\<close>

fun telegram_safe :: "string \<Rightarrow> bool" where
  "telegram_safe [] = True"
| "telegram_safe (c # s) =
     (if c = CHR 0x5C then (case s of [] \<Rightarrow> True | d # s' \<Rightarrow> telegram_safe s')
      else c \<notin> set telegram_specials \<and> telegram_safe s)"

lemma replacer_single:
  "\<forall>(old, new) \<in> set tbl. length old = 1 \<Longrightarrow> replacer tbl s
     = concat (map (\<lambda>c. case map_of tbl [c] of None \<Rightarrow> [c] | Some new \<Rightarrow> new) s)"
proof (induction s)
  case (Cons c cs)
  have m: "\<forall>(old, new) \<in> set ps. length old = 1 \<Longrightarrow>
      replacer_match ps (c # cs) = map_option (\<lambda>new. ([c], new)) (map_of ps [c])" for ps :: "(string \<times> string) list"
  proof (induction ps)
    case (Cons p ps)
    then show ?case by (cases p; cases "fst p") (auto split: if_splits)
  qed simp
  show ?case
    using Cons m [OF Cons.prems] replacer_copy [of tbl c cs] replacer_hit [of tbl c cs "[c]"]
    by (cases "map_of tbl [c]") auto
qed simp

lemma telegram_char:
  "map_of telegram_table [c] = (if c \<in> set telegram_specials then Some [CHR 0x5C, c] else None)"
proof -
  have "map_of (map (\<lambda>c. ([c], [CHR 0x5C, c])) xs) [c] = (if c \<in> set xs then Some [CHR 0x5C, c] else None)" for xs
    by (induction xs) auto
  then show ?thesis by (simp add: telegram_table_def)
qed

lemma escape_telegram_concat:
  "escape_telegram s = concat (map (\<lambda>c. if c \<in> set telegram_specials then [CHR 0x5C, c] else [c]) s)"
  unfolding escape_telegram_def
  by (subst replacer_single) (auto simp: telegram_table_def telegram_char [unfolded telegram_table_def] if_distrib cong: if_cong)

lemma telegram_escaped: "CHR 0x5C \<notin> set s \<Longrightarrow> telegram_safe (escape_telegram s)"
proof -
  have "CHR 0x5C \<notin> set telegram_specials" by (simp add: telegram_specials_def)
  then show "CHR 0x5C \<notin> set s \<Longrightarrow> telegram_safe (escape_telegram s)"
    unfolding escape_telegram_concat by (induction s) auto
qed

lemma telegram_backslash_breaks: "\<not> telegram_safe (escape_telegram ([CHR 0x5C] @ ''*bold*''))"
  by (simp add: escape_telegram_concat telegram_specials_def)

end
