(* ===== verification/Chat_Properties.thy ===== *)
theory Chat_Properties
  imports Chat_Format Go_Space
begin

text \<open>
  The properties of the chat service and of the files the program replaces, with small instances.
\<close>

definition ex_slack :: chat_config where
  "ex_slack = \<lparr>cf_enabled = True, cf_listen = [], cf_public_url = [], cf_default_visibility = [], cf_default_profile = ''ro'',
     cf_slack = \<lparr>sc_enabled = True, sc_mode = [], sc_signing_env = ''S'', sc_bot_env = ''B'', sc_teams = [''T1''], sc_channels = [''C1''], sc_users = []\<rparr>,
     cf_discord = \<lparr>dc_enabled = False, dc_application = [], dc_key_env = [], dc_guilds = [], dc_channels = [], dc_users = []\<rparr>,
     cf_telegram = \<lparr>tg_enabled = False, tg_mode = [], tg_bot_env = [], tg_secret_env = [],
       tg_chats = [], tg_users = []\<rparr>,
     cf_routes = [], cf_per_minute = 2, cf_workers = 1, cf_depth = 4, cf_timeout = 0,
     cf_discord_timeout = 0, cf_delivery_timeout = 0, cf_session_path = []\<rparr>"

definition ex_event :: chat_event where
  "ex_event = \<lparr>ce_platform = ''slack'', ce_transport = ''http'', ce_authenticated = True,
     ce_workspace = ''T1'', ce_guild = [], ce_chat = [], ce_channel = ''C1'', ce_thread = [],
     ce_user = ''U1'', ce_command = [], ce_text = ''why'', ce_visibility = [],
     ce_reply = \<lparr>rp_platform = ''slack'', rp_workspace = ''T1'', rp_guild = [], rp_chat = [],
       rp_channel = ''C1'', rp_thread = [], rp_user = ''U1'', rp_response_url = [], rp_token = [],
       rp_application = [], rp_message = []\<rparr>,
     ce_key = ''k1'', ce_received = 7\<rparr>"

definition ex_handle :: handle_env where
  "ex_handle = \<lparr>he_rate_order = map fst, he_seen_order = map fst, he_clock = 7, he_ctx_done = False,
     he_pick_send = True\<rparr>"



text \<open>C29. As long as fewer events than the table holds arrive, with times that do not go backwards, an
  idempotency key that was accepted is not accepted again for a day.\<close>

theorem accepted_once_a_day:
  assumes "sorted (map fst evs)" "\<forall>(t, k) \<in> set evs. 0 < t" "length evs < max_idempotency"
  shows "sorted_wrt (\<lambda>(s, j) (t, k). j = k \<longrightarrow> t - s > idempotency_ttl) (fst (seen_run order evs []))"
proof -
  obtain acc seen where r: "seen_run order evs [] = (acc, seen)" by fastforce
  have "(\<lambda>(s, j) (t, k). j = k \<longrightarrow> t - s > idempotency_ttl) = far_apart"
    by (intro ext) (auto simp: far_apart_def)
  then show ?thesis using seen_run_inv [OF assms r] r by simp
qed

theorem accepted_once_a_day_witness:
  "fst (seen_run (map fst) [(1, ''a''), (2, ''a''), (2 + idempotency_ttl, ''a'')] []) = [(1, ''a''), (2 + idempotency_ttl, ''a'')] \<and>
   sorted_wrt far_apart (fst (seen_run (map fst) [(1, ''a''), (2, ''a''), (2 + idempotency_ttl, ''a'')] []))"
proof
  show "fst (seen_run (map fst) [(1, ''a''), (2, ''a''), (2 + idempotency_ttl, ''a'')] []) = [(1, ''a''), (2 + idempotency_ttl, ''a'')]"
    by (simp add: mark_seen_def prune_seen_def idempotency_ttl_def max_idempotency_def)
  have e: "far_apart = (\<lambda>(s, j) (t, k). j = k \<longrightarrow> t - s > idempotency_ttl)"
    by (intro ext) (auto simp: far_apart_def)
  show "sorted_wrt far_apart (fst (seen_run (map fst) [(1, ''a''), (2, ''a''), (2 + idempotency_ttl, ''a'')] []))"
    unfolding e by (rule accepted_once_a_day) (simp_all add: idempotency_ttl_def max_idempotency_def)
qed

text \<open>C30. With fewer than 10,000 events and times that do not go backwards, a source with a limit of
  \<open>L\<close> per minute gets at most \<open>2 L\<close> requests through in any minute, wherever the minute starts.\<close>

theorem rate_limited:
  assumes "sorted (map fst evs)" "\<forall>(t, k) \<in> set evs. 0 < t" "length evs < max_rate_windows" "1 \<le> L"
  shows "length (filter (\<lambda>(t, k'). k' = k \<and> x \<le> t \<and> t < x + minute_ns) (fst (rate_run order (int L) evs []))) \<le> 2 * L"
  using assms by (rule rate_bound)

theorem rate_limited_witness:
  "length (filter (\<lambda>(t, k'). k' = ''a'' \<and> 1 \<le> t \<and> t < 1 + minute_ns)
     (fst (rate_run (map fst) (int 1) [(1, ''a''), (2, ''a''), (3, ''a'')] []))) \<le> 2 * 1"
  by (rule rate_limited) (simp_all add: max_rate_windows_def)

text \<open>A concrete codec for session maps, for the instance of the next property: every byte of a key or
  value is preceded by a one, and each string ends with a zero.\<close>

definition flat_show :: "string gomap \<Rightarrow> string" where
  "flat_show m = concat (map (\<lambda>(k, v).
     concat (map (\<lambda>c. [CHR ''1'', c]) k) @ ''0'' @ concat (map (\<lambda>c. [CHR ''1'', c]) v) @ ''0'') m)"

fun flat_strings :: "string \<Rightarrow> string \<Rightarrow> string list" where
  "flat_strings acc [] = []"
| "flat_strings acc [c] = [acc]"
| "flat_strings acc (c # d # s) =
     (if c = CHR ''1'' then flat_strings (acc @ [d]) s else acc # flat_strings [] (d # s))"

fun flat_pairs :: "string list \<Rightarrow> string gomap" where
  "flat_pairs (k # v # r) = (k, v) # flat_pairs r"
| "flat_pairs _ = []"

lemma flat_strings_step:
  "flat_strings acc (concat (map (\<lambda>c. [CHR ''1'', c]) s) @ CHR ''0'' # r) = (acc @ s) # flat_strings [] r"
  by (induction s arbitrary: acc) (cases r; simp)+

lemma flat_roundtrip: "flat_pairs (flat_strings [] (flat_show m)) = m"
  by (induction m) (auto simp: flat_show_def flat_strings_step)

text \<open>After a session id is remembered without error, every later lookup finds it for events of the
  same conversation and finds what it found before for all others; a failed write leaves the map
  file as it was. The JSON codec is assumed to read back what it wrote.\<close>

theorem session_remembered:
  assumes "\<forall>m. sm_parse C (sm_show C m) = Some m" "tmp \<noteq> path" "sid \<noteq> []"
  shows "case session_remember C f tmp path ev sid fs of
       (None, fs') \<Rightarrow> (\<forall>ev'. session_lookup C path ev' fs' =
          (if conversation_key ev' = conversation_key ev then sid else session_lookup C path ev' fs))
     | (Some e, fs') \<Rightarrow> gm_get fs' path = gm_get fs path"
proof -
  obtain e fs' where r: "session_remember C f tmp path ev sid fs = (e, fs')" by fastforce
  show ?thesis
    using r remember_lookup [of C tmp path sid f ev fs fs'] remember_failure [of tmp path C f ev sid fs _ fs'] assms
    by (cases e) auto
qed

theorem session_remembered_witness:
  "\<exists>C fs'. session_remember C
      \<lparr>fl_mkdir = False, fl_chmod_dir = False, fl_create = False, fl_write = None, fl_chmod = False,
       fl_close = False, fl_rename = False, fl_remove = False\<rparr> ''tmp'' ''map'' ex_event ''s1'' [] = (None, fs') \<and>
     session_lookup C ''map'' ex_event fs' = ''s1''"
proof -
  let ?C = "\<lparr>sm_parse = (\<lambda>s. Some (flat_pairs (flat_strings [] s))), sm_show = flat_show\<rparr>"
  let ?f = "\<lparr>fl_mkdir = False, fl_chmod_dir = False, fl_create = False, fl_write = None, fl_chmod = False,
       fl_close = False, fl_rename = False, fl_remove = False\<rparr>"
  have c: "\<forall>m. sm_parse ?C (sm_show ?C m) = Some m" by (simp add: flat_roundtrip)
  obtain fs' where r: "session_remember ?C ?f ''tmp'' ''map'' ex_event ''s1'' [] = (None, fs')"
    by (simp add: session_remember_def session_read_def session_map_write_def Let_def)
  have "session_lookup ?C ''map'' ex_event fs' = ''s1''"
    using session_remembered [OF c, where tmp = "''tmp''" and path = "''map''" and sid = "''s1''" and f = ?f
        and ev = ex_event and fs = "[]"] r by auto
  then show ?thesis using r by blast
qed

text \<open>C34. Each of the four writers that replace a file (permission profiles, the chat session map,
  resume snapshots, incident cards) is atomic under any fault: the target holds the new bytes exactly
  when no error is returned and the old ones otherwise, no other file but the temporary one is
  touched, and on success the temporary file is gone.\<close>

theorem replaced_files_atomic:
  assumes "wr \<in> {save_profile_file, session_map_write, save_history_file, store_rewrite_file}" "tmp \<noteq> path"
  shows "gm_get (snd (wr f tmp path b fs)) path
       = (if fst (wr f tmp path b fs) = None then Some b else gm_get fs path) \<and>
     (\<forall>q. q \<noteq> path \<longrightarrow> q \<noteq> tmp \<longrightarrow> gm_get (snd (wr f tmp path b fs)) q = gm_get fs q) \<and>
     (fst (wr f tmp path b fs) = None \<longrightarrow> gm_get (snd (wr f tmp path b fs)) tmp = None)"
proof -
  have "atomic_writer wr"
    using assms(1) profile_file.atomic_writer_axioms session_file.atomic_writer_axioms
      history_file.atomic_writer_axioms incident_file.atomic_writer_axioms by blast
  from atomic_writer.target [OF this assms(2)] atomic_writer.others [OF this] atomic_writer.no_temp [OF this assms(2)]
  show ?thesis by simp
qed

theorem replaced_files_atomic_witness:
  "gm_get (snd (save_profile_file
      \<lparr>fl_mkdir = False, fl_chmod_dir = False, fl_create = False, fl_write = Some 3, fl_chmod = False,
       fl_close = False, fl_rename = False, fl_remove = True\<rparr> ''p.tmp'' ''p'' ''new text'' [(''p'', ''old'')])) ''p'' = Some ''old''"
  using replaced_files_atomic [of save_profile_file "''p.tmp''" "''p''"
      "\<lparr>fl_mkdir = False, fl_chmod_dir = False, fl_create = False, fl_write = Some 3, fl_chmod = False,
       fl_close = False, fl_rename = False, fl_remove = True\<rparr>" "''new text''" "[(''p'', ''old'')]"]
  by (simp add: save_profile_file_def)

text \<open>Splitting a reply loses nothing and exceeds nothing: the chunks joined are the text with
  invalid bytes replaced, every chunk has at most the limit's number of characters, and there is
  always at least one.\<close>

theorem chunks_cover_text:
  assumes "0 < mx"
  shows "concat (chunk_text s mx) = concat (map (encode_rune \<circ> fst) (runes_of s)) \<and> chunk_text s mx \<noteq> [] \<and>
     (\<forall>c \<in> set (chunk_text s mx). \<exists>k. has_runes k c \<and> int k \<le> mx)"
  using chunk_text_concat [OF assms] chunk_text_nonempty chunk_text_bound [OF assms] by blast

theorem chunks_cover_text_witness: "chunk_text ''abcde'' 2 = [''ab'', ''cd'', ''e''] \<and> concat (chunk_text ''abcde'' 2) = ''abcde''"
proof -
  have r: "map (encode_rune \<circ> fst) (runes_of ''abcde'') = [''a'', ''b'', ''c'', ''d'', ''e'']" by code_simp
  have "concat (chunk_text ''abcde'' 2) = ''abcde''" using chunks_cover_text [of 2 "''abcde''"] unfolding r by simp
  moreover have "chunk_text ''abcde'' 2 = [''ab'', ''cd'', ''e'']" by code_simp
  ultimately show ?thesis by blast
qed

text \<open>A reply formatted for Discord or Slack never holds a broadcast mention, and for Slack never an
  unbroken user mention, whatever the model wrote.\<close>

theorem mentions_suppressed:
  "\<not> contains (format_message ''discord'' msg) ''@everyone'' \<and> \<not> contains (format_message ''discord'' msg) ''@here'' \<and>
   \<not> contains (format_message ''slack'' msg) ''<!here'' \<and> \<not> contains (format_message ''slack'' msg) ''<!channel'' \<and>
   \<not> contains (format_message ''slack'' msg) ''<!everyone'' \<and> \<not> contains (format_message ''slack'' msg) ''<!subteam'' \<and>
   \<not> contains (format_message ''slack'' msg) ''<@U''"
  using slack_no_user [of "CHR ''U''"] discord_no_everyone discord_no_here slack_no_here slack_no_channel slack_no_everyone slack_no_subteam
  by (simp add: format_message_def Let_def)

text \<open>Telegram escaping leaves no reserved byte unquoted in a text without backslashes; a backslash
  of the text itself is not escaped, so one before a reserved byte swallows the quote and lets that
  byte through.\<close>

theorem telegram_quoting:
  "(CHR 0x5C \<notin> set s \<longrightarrow> telegram_safe (escape_telegram s)) \<and>
   \<not> telegram_safe (escape_telegram ([CHR 0x5C] @ ''*bold*''))"
  using telegram_escaped telegram_backslash_breaks by blast

theorem telegram_quoting_witness: "telegram_safe (escape_telegram ''1.5 * 2'')"
  using telegram_quoting [of "''1.5 * 2''"] by simp

end
