(* ===== verification/Go_Path.thy ===== *)
theory Go_Path
  imports Go_Space
begin

text \<open>
  The parts of \<open>path/filepath\<close> the stores use (\<open>Clean\<close>, \<open>Join\<close>, \<open>Dir\<close>, \<open>Base\<close>, \<open>Ext\<close>, for Unix) and
  the environment they read their directories from. The facts say that a name without a separator,
  other than a dot name, stays inside the directory it is joined to. Then facts on trimmed lines, and
  hexadecimal digits.
\<close>

definition slash :: char where
  "slash = CHR 0x2F"

fun clean_step :: "bool \<Rightarrow> string \<Rightarrow> string list \<Rightarrow> string list" where
  "clean_step rooted c st =
     (if c = [] \<or> c = ''.'' then st
      else if c = ''..''
           then (if st \<noteq> [] \<and> last st \<noteq> ''..'' then butlast st else if rooted then st else st @ [c])
           else st @ [c])"

definition rooted :: "string \<Rightarrow> bool" where
  "rooted p \<longleftrightarrow> p \<noteq> [] \<and> hd p = slash"

definition clean_elems :: "string \<Rightarrow> string list" where
  "clean_elems p = fold (clean_step (rooted p)) (split_byte slash p) []"

definition path_clean :: "string \<Rightarrow> string" where
  "path_clean p =
     (let out = (if rooted p then [slash] else []) @ join (clean_elems p) [slash]
      in if out = [] then ''.'' else out)"

fun path_join :: "string list \<Rightarrow> string" where
  "path_join [] = []"
| "path_join (e # es) = (if e = [] then path_join es else path_clean (join (e # es) [slash]))"

definition path_dir :: "string \<Rightarrow> string" where
  "path_dir p =
     path_clean (case last_index_byte p slash of None \<Rightarrow> [] | Some i \<Rightarrow> take (Suc i) p)"

definition path_base :: "string \<Rightarrow> string" where
  "path_base p =
     (if p = [] then ''.''
      else (let q = rev (dropWhile (\<lambda>c. c = slash) (rev p));
                b = (case last_index_byte q slash of None \<Rightarrow> q | Some i \<Rightarrow> drop (Suc i) q)
            in if b = [] then [slash] else b))"

text \<open>\<open>Ext\<close>: the suffix from the last dot of the last element.\<close>

definition path_ext :: "string \<Rightarrow> string" where
  "path_ext p =
     (let e = (case last_index_byte p slash of None \<Rightarrow> p | Some i \<Rightarrow> drop (Suc i) p) in
      case last_index_byte e (CHR ''.'') of None \<Rightarrow> [] | Some i \<Rightarrow> drop i e)"

record dirs_env =
  cloudy_home :: string
  xdg_config_home :: string
  cloudy_profile :: string
  user_home :: "string option"

section \<open>A plain element stays in its directory\<close>

definition plain_name :: "string \<Rightarrow> bool" where
  "plain_name n \<longleftrightarrow> n \<noteq> [] \<and> n \<noteq> ''.'' \<and> n \<noteq> ''..'' \<and> slash \<notin> set n"

lemma split_byte_absent: "c \<notin> set s \<Longrightarrow> split_byte c s = [s]"
  by (induction s) auto

lemma split_byte_snoc: "split_byte c (s @ c # t) = split_byte c s @ split_byte c t"
proof (induction s)
  case (Cons x s)
  then show ?case by (cases "split_byte c s") auto
qed simp

lemma join_append: "xs \<noteq> [] \<Longrightarrow> ys \<noteq> [] \<Longrightarrow> join (xs @ ys) sep = join xs sep @ sep @ join ys sep"
proof (induction xs)
  case (Cons x xs)
  then show ?case by (cases "xs = []") (simp_all add: join_Cons)
qed simp

lemma clean_step_plain: "plain_name n \<Longrightarrow> clean_step r n st = st @ [n]"
  by (simp add: plain_name_def)

lemma split_byte_elems: "w \<in> set (split_byte c s) \<Longrightarrow> c \<notin> set w"
proof (induction s arbitrary: w)
  case (Cons x s)
  obtain v vs where v: "split_byte c s = v # vs" by (cases "split_byte c s") auto
  then have "c \<notin> set v" "w \<in> set vs \<Longrightarrow> c \<notin> set w" using Cons.IH by auto
  then show ?case using Cons.prems v by (cases "x = c") auto
qed simp

lemma clean_step_keeps:
  "\<lbrakk>slash \<notin> set c; \<forall>w \<in> set st. w \<noteq> [] \<and> slash \<notin> set w\<rbrakk>
     \<Longrightarrow> \<forall>w \<in> set (clean_step r c st). w \<noteq> [] \<and> slash \<notin> set w"
  by (auto dest: in_set_butlastD)

lemma clean_fold_keeps:
  "\<lbrakk>\<forall>c \<in> set cs. slash \<notin> set c; \<forall>w \<in> set st. w \<noteq> [] \<and> slash \<notin> set w\<rbrakk>
     \<Longrightarrow> \<forall>w \<in> set (fold (clean_step r) cs st). w \<noteq> [] \<and> slash \<notin> set w"
proof (induction cs arbitrary: st)
  case (Cons c cs)
  have c: "slash \<notin> set c" and cs: "\<forall>c \<in> set cs. slash \<notin> set c" using Cons.prems(1) by simp_all
  show ?case unfolding fold_simps by (rule Cons.IH [OF cs clean_step_keeps [OF c Cons.prems(2)]])
qed simp

lemma clean_elems_elem: "w \<in> set (clean_elems p) \<Longrightarrow> w \<noteq> [] \<and> slash \<notin> set w"
  using clean_fold_keeps [of "split_byte slash p" "[]" "rooted p"] split_byte_elems
  unfolding clean_elems_def by fastforce

lemma clean_elems_plain: "d \<noteq> [] \<Longrightarrow> plain_name n \<Longrightarrow> clean_elems (d @ slash # n) = clean_elems d @ [n]"
  by (simp add: clean_elems_def rooted_def split_byte_snoc plain_name_def split_byte_absent)

lemma rooted_append: "d \<noteq> [] \<Longrightarrow> rooted (d @ e) = rooted d"
  by (simp add: rooted_def)

lemma join_elems_ne: "clean_elems d \<noteq> [] \<Longrightarrow> join (clean_elems d) [slash] \<noteq> []"
  by (rule join_ne) (auto dest: clean_elems_elem)

declare clean_step.simps [simp del]

text \<open>What \<open>Clean\<close> leaves of a directory decides how a plain element is joined to it.\<close>

definition dir_prefix :: "string \<Rightarrow> string" where
  "dir_prefix d =
     (if rooted d then [slash] else []) @
     (if clean_elems d = [] then [] else join (clean_elems d) [slash] @ [slash])"

lemma path_clean_plain:
  assumes "d \<noteq> []" "plain_name n"
  shows "path_clean (d @ slash # n) = dir_prefix d @ n"
proof -
  have "n \<noteq> []" using assms(2) by (simp add: plain_name_def)
  then show ?thesis
    using assms by (simp add: path_clean_def Let_def rooted_append clean_elems_plain dir_prefix_def join_append)
qed

lemma path_join_plain: "d \<noteq> [] \<Longrightarrow> plain_name n \<Longrightarrow> path_join [d, n] = dir_prefix d @ n"
  by (simp add: path_clean_plain)

lemma path_join_plain_inj:
  "\<lbrakk>d \<noteq> []; plain_name n; plain_name m; path_join [d, n] = path_join [d, m]\<rbrakk> \<Longrightarrow> n = m"
  by (simp add: path_clean_plain)

lemma last_index_byte_suffix:
  "c \<notin> set t \<Longrightarrow> last_index_byte (s @ c # t) c = Some (length s)"
  by (induction s) (auto split: option.splits)

lemma path_clean_last:
  assumes "plain_name n"
  shows "suffix n (path_clean (d @ slash # n))"
proof (cases "d = []")
  case True
  have "clean_elems (slash # n) = [n]"
    using clean_step_plain [OF assms, of "rooted (slash # n)" "[]"] assms
    by (simp add: clean_elems_def plain_name_def split_byte_absent clean_step.simps)
  then show ?thesis using True by (simp add: path_clean_def rooted_def suffix_def)
next
  case False
  then show ?thesis using assms by (simp add: path_clean_plain suffix_def)
qed

lemma path_clean_ne [simp]: "path_clean p \<noteq> []"
  by (simp add: path_clean_def Let_def)

lemma path_dir_ne [simp]: "path_dir p \<noteq> []"
  by (simp add: path_dir_def)

lemma path_join_ne: "\<exists>e \<in> set es. e \<noteq> [] \<Longrightarrow> path_join es \<noteq> []"
  by (induction es) auto

lemma suffix_last: "suffix t s \<Longrightarrow> t \<noteq> [] \<Longrightarrow> last s = last t"
  by (auto simp: suffix_def)

section \<open>Cleaning twice\<close>

definition tidy :: "bool \<Rightarrow> string list \<Rightarrow> bool" where
  "tidy r st \<longleftrightarrow> (\<exists>k ps. st = replicate k ''..'' @ ps \<and> list_all plain_name ps \<and> (r \<longrightarrow> k = 0))"

lemma clean_step_up: "\<not> r \<Longrightarrow> clean_step r ''..'' (replicate j ''..'') = replicate (Suc j) ''..''"
  by (cases j) (simp_all add: clean_step.simps replicate_append_same)

lemma clean_step_tidy:
  assumes "slash \<notin> set c" "tidy r st"
  shows "tidy r (clean_step r c st)"
proof -
  obtain k ps where st: "st = replicate k ''..'' @ ps" "list_all plain_name ps" "r \<longrightarrow> k = 0"
    using assms(2) unfolding tidy_def by blast
  consider "c = [] \<or> c = ''.''" | "c = ''..''" | "plain_name c" using assms(1) by (auto simp: plain_name_def)
  then show ?thesis
  proof cases
    case 1
    then show ?thesis using assms(2) by (auto simp: clean_step.simps)
  next
    case 2
    show ?thesis
    proof (cases ps rule: rev_cases)
      case Nil
      show ?thesis
      proof (cases r)
        case True
        then show ?thesis using Nil 2 st by (simp add: clean_step.simps tidy_def)
      next
        case False
        then have "clean_step r c st = replicate (Suc k) ''..'' @ []"
          using Nil 2 st(1) clean_step_up by simp
        then show ?thesis using False unfolding tidy_def by (metis list.pred_inject(1))
      qed
    next
      case (snoc qs q)
      then have "q \<noteq> ''..''" "list_all plain_name qs" using st(2) by (auto simp: plain_name_def)
      then show ?thesis using 2 st snoc by (auto simp: clean_step.simps tidy_def butlast_append)
    qed
  next
    case 3
    then show ?thesis
      using st by (auto simp: clean_step_plain tidy_def intro!: exI [of _ k] exI [of _ "ps @ [c]"])
  qed
qed

lemma clean_elems_tidy: "tidy (rooted p) (clean_elems p)"
proof -
  have "tidy r (fold (clean_step r) cs st)" if "\<forall>c \<in> set cs. slash \<notin> set c" "tidy r st" for r cs st
    using that
  proof (induction cs arbitrary: st)
    case (Cons c cs)
    then show ?case using clean_step_tidy [of c r st] by simp
  qed simp
  moreover have "tidy (rooted p) []" by (auto simp: tidy_def)
  ultimately show ?thesis unfolding clean_elems_def using split_byte_elems by blast
qed

lemma fold_tidy: "tidy r st \<Longrightarrow> fold (clean_step r) st [] = st"
proof -
  assume "tidy r st"
  then obtain k ps where st: "st = replicate k ''..'' @ ps" "list_all plain_name ps" "r \<longrightarrow> k = 0"
    unfolding tidy_def by blast
  have plain: "list_all plain_name ps \<Longrightarrow> fold (clean_step r) ps acc = acc @ ps" for acc
    by (induction ps arbitrary: acc) (simp_all add: clean_step_plain)
  have "\<not> r \<Longrightarrow> fold (clean_step r) (replicate k ''..'') (replicate j ''..'') = replicate (j + k) ''..''" for j
  proof (induction k arbitrary: j)
    case (Suc k)
    have "clean_step r ''..'' (replicate j ''..'') = replicate (Suc j) ''..''"
      using Suc.prems by (rule clean_step_up)
    then show ?case using Suc.IH [OF Suc.prems, of "Suc j"] by simp
  qed simp
  from this [of 0] show ?thesis using st plain by (cases r) auto
qed

lemma split_join:
  "ws \<noteq> [] \<Longrightarrow> \<forall>w \<in> set ws. c \<notin> set w \<Longrightarrow> split_byte c (join ws [c]) = ws"
proof (induction ws)
  case (Cons w ws)
  then show ?case
    by (cases "ws = []") (simp_all add: split_byte_absent join_Cons split_byte_snoc)
qed simp

lemma path_clean_parts:
  "rooted (path_clean p) = rooted p \<and> clean_elems (path_clean p) = clean_elems p"
proof -
  let ?es = "clean_elems p"
  have ns: "\<forall>w \<in> set ?es. slash \<notin> set w" "\<forall>w \<in> set ?es. w \<noteq> []" using clean_elems_elem by blast+
  have fold: "fold (clean_step (rooted p)) ?es [] = ?es" by (rule fold_tidy) (rule clean_elems_tidy)
  have skip: "clean_step r [] st = st" "clean_step r ''.'' st = st" for r st by (simp_all add: clean_step.simps)
  show ?thesis
  proof (cases "?es = []")
    case True
    then show ?thesis
      by (cases "rooted p")
        (simp_all add: path_clean_def rooted_def clean_elems_def [of "''/''"] clean_elems_def [of "''.''"]
          skip slash_def)
  next
    case False
    then have j: "split_byte slash (join ?es [slash]) = ?es" "join ?es [slash] \<noteq> []"
      using split_join [OF False ns(1)] join_elems_ne [OF False] by simp_all
    show ?thesis
    proof (cases "rooted p")
      case True
      then have "path_clean p = slash # join ?es [slash]" by (simp add: path_clean_def)
      then show ?thesis using True j fold
        by (simp add: rooted_def clean_elems_def [of "slash # _"] skip)
    next
      case False
      then have c: "path_clean p = join ?es [slash]" using j by (simp add: path_clean_def Let_def)
      obtain w ws where w: "?es = w # ws" using \<open>?es \<noteq> []\<close> by (cases ?es) auto
      then have "hd (join ?es [slash]) \<noteq> slash"
        using ns by (cases w; cases "ws = []") (auto simp: join_Cons)
      then have "\<not> rooted (join ?es [slash])" by (simp add: rooted_def)
      then show ?thesis using False c j fold by (simp add: clean_elems_def [of "join _ _"])
    qed
  qed
qed

lemma path_clean_idem [simp]: "path_clean (path_clean p) = path_clean p"
  by (simp add: path_clean_def [of "path_clean p"] path_clean_parts) (simp add: path_clean_def)

lemma dir_prefix_clean [simp]: "dir_prefix (path_clean d) = dir_prefix d"
  by (simp add: dir_prefix_def path_clean_parts)

section \<open>Trimming a line\<close>

text \<open>
  Trimming a line: a final newline is trimmed and nothing else is when the line starts with a
  printable character and ends in a word. The line-oriented stores (environment memory, active
  profile marker, logs) rest on these facts.
\<close>

lemma strip_one_rev_newline: "strip_one (map rev space_seqs) (newline # s) = Some s"
proof -
  have m: "[newline] \<in> set space_seqs"
    unfolding space_seqs_def set_map
    by (rule rev_image_eqI [of 10]) (simp_all add: space_codes_def encode_rune_def char_of_def bit_iff_odd)
  then have "strip_one (map rev space_seqs) (newline # s) \<noteq> None"
    unfolding strip_one_None by (force intro!: bexI [of _ "[newline]"])
  then obtain t where t: "strip_one (map rev space_seqs) (newline # s) = Some t" by blast
  from strip_one_Some [OF this] obtain p where p: "p \<in> set space_seqs" "p \<noteq> []"
    "prefix (rev p) (newline # s)" "t = drop (length p) (newline # s)" by auto
  have "newline \<in> set (rev p)" using p(2,3) by (cases "rev p") auto
  then have "p = [newline]" using space_seq_ascii [OF p(1)] by simp
  then show ?thesis using t p by simp
qed

lemma trim_right_newline: "trim_right_space (s @ [newline]) = trim_right_space s"
  by (simp add: trim_right_space_def strip_all.simps [of _ "newline # rev s"] strip_one_rev_newline)

lemma strip_one_snoc_newline:
  "s \<noteq> [] \<Longrightarrow> set ps \<subseteq> set space_seqs \<Longrightarrow>
     strip_one ps (s @ [newline]) = map_option (\<lambda>t. t @ [newline]) (strip_one ps s)"
proof (induction ps)
  case (Cons p ps)
  have "prefix p (s @ [newline]) = prefix p s"
  proof (cases "newline \<in> set p")
    case True
    then have "p = [newline]" using space_seq_ascii [of p newline] Cons.prems(2) by simp
    then show ?thesis using Cons.prems(1) by (cases s) auto
  next
    case False
    then show ?thesis by (auto simp: prefix_snoc)
  qed
  moreover have "length p \<le> length s" if "prefix p s" using that by (rule prefix_length_le)
  ultimately show ?case using Cons by auto
qed simp

lemma strip_all_snoc_newline:
  "strip_all space_seqs (s @ [newline])
     = (if strip_all space_seqs s = [] then [] else strip_all space_seqs s @ [newline])"
proof (induction "length s" arbitrary: s rule: less_induct)
  case less
  show ?case
  proof (cases "s = []")
    case True
    then show ?thesis
      using strip_one_ascii_space [of newline "[]"]
      by (simp add: strip_all.simps [of _ "[newline]"] strip_all_None strip_one_None)
  next
    case False
    show ?thesis
    proof (cases "strip_one space_seqs s")
      case None
      then show ?thesis using False
        by (simp add: strip_all.simps [of _ "s @ [newline]"] strip_all.simps [of _ s] strip_one_snoc_newline)
    next
      case (Some t)
      then show ?thesis using False less [OF strip_one_shorter [OF Some]]
        by (simp add: strip_all.simps [of _ "s @ [newline]"] strip_all.simps [of _ s] strip_one_snoc_newline)
    qed
  qed
qed

lemma trim_space_newline [simp]: "trim_space (s @ [newline]) = trim_space s"
  by (simp add: trim_space_def trim_left_space_def strip_all_snoc_newline trim_right_newline)

section \<open>A line that starts with a printable character and ends in a word\<close>

lemma strip_all_stops: "solid c \<Longrightarrow> \<exists>x'. strip_all space_seqs (x @ c # y) = x' @ c # y \<and> suffix x' x"
proof (induction "length x" arbitrary: x rule: less_induct)
  case less
  show ?case
  proof (cases "strip_one space_seqs (x @ c # y)")
    case None
    then show ?thesis by (auto simp: strip_all_None)
  next
    case (Some t)
    from strip_one_Some [OF this] obtain p where p: "p \<in> set space_seqs" "p \<noteq> []"
      "prefix p (x @ c # y)" "t = drop (length p) (x @ c # y)" by blast
    have "c \<notin> set p" using space_seq_not_solid p(1) less.prems by blast
    then have px: "prefix p x" using p(3) by (auto simp: prefix_append prefix_Cons)
    then have t: "t = drop (length p) x @ c # y" using p(4) prefix_length_le [of p x] by simp
    have "length (drop (length p) x) < length x" using p(2) px by (cases x) auto
    from less.hyps [OF this less.prems] obtain x' where
      "strip_all space_seqs t = x' @ c # y" "suffix x' (drop (length p) x)" using t by blast
    then show ?thesis using Some by (auto simp: strip_all.simps [of _ "x @ c # y"]
        intro: suffix_order.trans [OF _ suffix_drop])
  qed
qed

lemma trim_right_word:
  assumes "tight w"
  shows "trim_right_space (x @ CHR '' '' # w) = x @ CHR '' '' # w"
proof -
  have "strip_one (map rev space_seqs) (rev (x @ CHR '' '' # w)) = None"
    unfolding strip_one_None
  proof (intro ballI impI notI)
    fix q assume "q \<in> set (map rev space_seqs)" "q \<noteq> []" "prefix q (rev (x @ CHR '' '' # w))"
    then obtain p where p: "p \<in> set space_seqs" "p \<noteq> []" "suffix p (x @ CHR '' '' # w)"
      by (auto simp: suffix_to_prefix)
    show False
    proof (cases "length p \<le> length w")
      case True
      then have "suffix p w" using p(3)
        by (metis suffix_append suffix_length_le suffix_Cons append_Nil not_less_eq_eq
            suffix_length_suffix suffix_def)
      then obtain u where "w = u @ p" by (auto simp: suffix_def)
      then have "strip_one space_seqs p = None" using assms p(2) unfolding tight_def by blast
      then show False using p(1,2) by (auto simp: strip_one_None)
    next
      case False
      then have "suffix (CHR '' '' # w) p" using p(3)
        by (metis suffix_length_suffix suffixI length_Cons not_less_eq_eq)
      then have "CHR '' '' \<in> set p" by (auto simp: suffix_def)
      then have "p = [CHR '' '']" using space_seq_ascii [OF p(1)] by simp
      then show False using False assms by (cases w) (simp_all add: tight_def)
    qed
  qed
  then show ?thesis by (simp add: trim_right_space_def strip_all_None del: rev_append rev.simps)
qed

lemma trim_space_line:
  assumes "solid c" "tight w"
  shows "\<exists>x'. trim_space (x @ c # y @ CHR '' '' # w @ [newline]) = x' @ c # y @ CHR '' '' # w \<and> suffix x' x"
proof -
  obtain x' where x': "strip_all space_seqs (x @ c # y @ CHR '' '' # w) = x' @ c # y @ CHR '' '' # w"
      "suffix x' x"
    using strip_all_stops [OF assms(1)] by blast
  have "trim_space ((x @ c # y @ CHR '' '' # w) @ [newline]) = x' @ c # y @ CHR '' '' # w"
    unfolding trim_space_newline
    using trim_right_word [OF assms(2), of "x' @ c # y"] x'(1) by (simp add: trim_space_def trim_left_space_def)
  then show ?thesis using x'(2) by auto
qed

lemma clean_text_last_word:
  assumes "clean_text s \<noteq> []"
  shows "\<exists>u w. CHR '' '' # clean_text s = u @ CHR '' '' # w \<and> tight w"
proof -
  obtain ws w where ws: "str_fields s = ws @ [w]"
    using assms by (cases "str_fields s" rule: rev_cases) (auto simp: clean_text_Nil)
  then have w: "tight w" using fields_tight [of w s] by simp
  show ?thesis
  proof (cases "ws = []")
    case True
    then have "CHR '' '' # clean_text s = [] @ CHR '' '' # w" using ws by (simp add: clean_text_def)
    then show ?thesis using w by blast
  next
    case False
    then have "CHR '' '' # clean_text s = (CHR '' '' # join ws '' '') @ CHR '' '' # w"
      using ws by (simp add: clean_text_def join_append)
    then show ?thesis using w by blast
  qed
qed

lemma tight_solid: "w \<noteq> [] \<Longrightarrow> list_all solid w \<Longrightarrow> tight w"
  unfolding tight_def
proof (intro conjI allI impI)
  fix u v
  assume w: "list_all solid w" "w = u @ v" "v \<noteq> []"
  then show "strip_one space_seqs v = None" by (cases v) (simp_all add: strip_one_solid)
qed

lemma clean_text_words:
  "list_all (\<lambda>w. w \<noteq> [] \<and> list_all solid w) ws \<Longrightarrow> clean_text (join ws '' '') = join ws '' ''"
  using fields_join [of ws] tight_solid by (auto simp: clean_text_def list_all_iff)

section \<open>Hexadecimal digits\<close>

text \<open>
  Hexadecimal rendering (\<open>%0wx\<close>, \<open>encoding/hex\<close>) and the character classes of the identifier
  patterns.
\<close>

definition hex_char :: "nat \<Rightarrow> char" where
  "hex_char n = char_of (if n < 10 then 48 + n else 87 + n)"

fun hex :: "nat \<Rightarrow> string" where
  "hex n = (if n < 16 then [hex_char n] else hex (n div 16) @ [hex_char (n mod 16)])"

declare hex.simps [simp del]

definition hex_pad :: "nat \<Rightarrow> nat \<Rightarrow> string" where
  "hex_pad w n = replicate (w - length (hex n)) (CHR ''0'') @ hex n"

definition is_digit :: "char \<Rightarrow> bool" where
  "is_digit c \<longleftrightarrow> 48 \<le> byte c \<and> byte c \<le> 57"

definition is_hex :: "char \<Rightarrow> bool" where
  "is_hex c \<longleftrightarrow> is_digit c \<or> 97 \<le> byte c \<and> byte c \<le> 102"

lemma hex_char_is_hex: "n < 16 \<Longrightarrow> is_hex (hex_char n)"
  by (auto simp: hex_char_def is_hex_def is_digit_def)

lemma hex_is_hex: "list_all is_hex (hex n)"
proof (induction n rule: hex.induct)
  case (1 n)
  then show ?case by (subst hex.simps) (simp add: hex_char_is_hex)
qed

lemma hex_pad_is_hex: "list_all is_hex (hex_pad w n)"
  using hex_is_hex [of n] by (auto simp: hex_pad_def list_all_iff is_hex_def is_digit_def)

lemma hex_length: "n < 16 ^ w \<Longrightarrow> 0 < w \<Longrightarrow> length (hex n) \<le> w"
proof (induction w arbitrary: n)
  case (Suc w)
  show ?case
  proof (cases "n < 16")
    case False
    then have "n div 16 < 16 ^ w" "0 < w" using Suc.prems by (cases w; auto simp: less_mult_imp_div_less)+
    then show ?thesis using False Suc.IH [of "n div 16"] by (subst hex.simps) simp
  qed (subst hex.simps, simp)
qed simp

lemma hex_pad_length: "n < 16 ^ w \<Longrightarrow> 0 < w \<Longrightarrow> length (hex_pad w n) = w"
  using hex_length [of n w] by (simp add: hex_pad_def)

lemma show_nat_digits: "list_all is_digit (show_nat n)"
proof (induction n rule: show_nat.induct)
  case (1 n)
  have "is_digit (digit_char (n mod 10))" "n < 10 \<Longrightarrow> is_digit (digit_char n)"
    by (simp_all add: is_digit_def digit_char_def)
  then show ?case using 1 by (subst show_nat.simps) simp
qed

end
