(* ===== verification/Profile_Files.thy ===== *)
theory Profile_Files
  imports Atomic_File Go_Path Perm_Mask
begin

text \<open>
  Permission profiles on disk (\<open>internal/permission/profile.go\<close>): \<open>Load\<close>, \<open>Save\<close>, \<open>List\<close>, the active
  marker (\<open>Active\<close>, \<open>SetActive\<close>, \<open>ClearActive\<close>, \<open>LoadActive\<close>). The files are the map of
  \<open>Atomic_File\<close>, the YAML codec is a parameter, and \<open>rf\<close> says which existing files cannot be read.
\<close>

record yaml_codec =
  yaml_enc :: "profile \<Rightarrow> string option"
  yaml_dec :: "string \<Rightarrow> profile option"

datatype profile_error =
    EmptyName | ProfileNotFound | ProfileRead | ProfileParse | NameMismatch string string
  | NameRequired | SaveStep io_step | ListRead | ActiveRead | MarkerMkdir | MarkerWrite | MarkerRemove

definition profiles_dir :: "dirs_env \<Rightarrow> string" where
  "profiles_dir e =
     (if cloudy_home e \<noteq> [] then path_join [cloudy_home e, ''profiles'']
      else if xdg_config_home e \<noteq> [] then path_join [xdg_config_home e, ''cloudy'', ''profiles'']
      else (case user_home e of
              None \<Rightarrow> path_join [''.cloudy'', ''profiles'']
            | Some h \<Rightarrow> path_join [h, ''.cloudy'', ''profiles'']))"

definition active_file :: "dirs_env \<Rightarrow> string" where
  "active_file e = path_join [path_dir (profiles_dir e), ''active_profile'']"

definition profile_path :: "dirs_env \<Rightarrow> string \<Rightarrow> string" where
  "profile_path e name = path_join [profiles_dir e, name @ ''.yaml'']"

definition load_profile ::
    "yaml_codec \<Rightarrow> (string \<Rightarrow> bool) \<Rightarrow> dirs_env \<Rightarrow> string \<Rightarrow> files \<Rightarrow> profile_error + profile" where
  "load_profile Y rf e name fs =
     (if name = [] then Inl EmptyName
      else (case gm_get fs (profile_path e name) of
              None \<Rightarrow> Inl ProfileNotFound
            | Some b \<Rightarrow>
                if rf (profile_path e name) then Inl ProfileRead
                else (case yaml_dec Y b of
                        None \<Rightarrow> Inl ProfileParse
                      | Some p0 \<Rightarrow>
                          (let p = (if p_name p0 = [] then p0\<lparr>p_name := name\<rparr> else p0) in
                           if p_name p \<noteq> name then Inl (NameMismatch (p_name p) name) else Inr p))))"

text \<open>An encoder error has written some bytes; like a write error it removes the temporary file.\<close>

definition save_profile ::
    "yaml_codec \<Rightarrow> faults \<Rightarrow> string \<Rightarrow> dirs_env \<Rightarrow> profile option \<Rightarrow> files \<Rightarrow> profile_error option \<times> files" where
  "save_profile Y f tmp e po fs =
     (case po of
        None \<Rightarrow> (Some NameRequired, fs)
      | Some p \<Rightarrow>
          if p_name p = [] then (Some NameRequired, fs)
          else (let path = profile_path e (p_name p) in
                case (case yaml_enc Y p of
                        Some b \<Rightarrow> save_profile_file f tmp path b fs
                      | None \<Rightarrow> save_profile_file (f\<lparr>fl_write := Some 0\<rparr>) tmp path [] fs) of
                  (None, fs') \<Rightarrow> (None, fs')
                | (Some st, fs') \<Rightarrow> (Some (SaveStep st), fs')))"

datatype dir_listing = DirMissing | DirFails | DirEntries "(string \<times> bool) list"

text \<open>An entry is its name and whether it is a directory.\<close>

definition list_profiles :: "dir_listing \<Rightarrow> profile_error + string list" where
  "list_profiles d =
     (case d of
        DirMissing \<Rightarrow> Inr []
      | DirFails \<Rightarrow> Inl ListRead
      | DirEntries es \<Rightarrow>
          Inr (sort (map (\<lambda>(n, dir). trim_suffix n ''.yaml'')
            (filter (\<lambda>(n, dir). \<not> (dir \<or> \<not> has_suffix n ''.yaml'' \<or> has_prefix n ''.'')) es))))"

definition active_name :: "(string \<Rightarrow> bool) \<Rightarrow> dirs_env \<Rightarrow> files \<Rightarrow> profile_error + string" where
  "active_name rf e fs =
     (if cloudy_profile e \<noteq> [] then Inr (trim_space (cloudy_profile e))
      else (case gm_get fs (active_file e) of
              None \<Rightarrow> Inl ProfileNotFound
            | Some b \<Rightarrow>
                if rf (active_file e) then Inl ActiveRead
                else (let name = trim_space b in if name = [] then Inl ProfileNotFound else Inr name)))"

text \<open>\<open>os.WriteFile\<close> truncates the marker and writes it in place.\<close>

definition set_active ::
    "yaml_codec \<Rightarrow> (string \<Rightarrow> bool) \<Rightarrow> faults \<Rightarrow> dirs_env \<Rightarrow> string \<Rightarrow> files \<Rightarrow> profile_error option \<times> files" where
  "set_active Y rf f e name fs =
     (case load_profile Y rf e name fs of
        Inl err \<Rightarrow> (Some err, fs)
      | Inr _ \<Rightarrow>
          if fl_mkdir f then (Some MarkerMkdir, fs)
          else if fl_create f then (Some MarkerWrite, fs)
          else (let line = name @ [newline] in
                case fl_write f of
                  Some n \<Rightarrow> (Some MarkerWrite, gm_put (active_file e) (take n line) fs)
                | None \<Rightarrow> (if fl_close f then Some MarkerWrite else None, gm_put (active_file e) line fs)))"

definition clear_active :: "faults \<Rightarrow> dirs_env \<Rightarrow> files \<Rightarrow> profile_error option \<times> files" where
  "clear_active f e fs =
     (if gm_get fs (active_file e) = None then (None, fs)
      else if fl_remove f then (Some MarkerRemove, fs)
      else (None, gm_del (active_file e) fs))"

definition load_active :: "yaml_codec \<Rightarrow> (string \<Rightarrow> bool) \<Rightarrow> dirs_env \<Rightarrow> files \<Rightarrow> profile_error + profile" where
  "load_active Y rf e fs =
     (case active_name rf e fs of Inl err \<Rightarrow> Inl err | Inr name \<Rightarrow> load_profile Y rf e name fs)"

section \<open>The paths\<close>

lemma profiles_dir_ne: "profiles_dir e \<noteq> []"
  by (auto simp: profiles_dir_def path_join_ne split: option.splits)

lemma profile_path_suffix: "suffix ''.yaml'' (profile_path e name)"
proof -
  obtain a b where n: "name = b \<or> name = a @ slash # b" "slash \<notin> set b"
    by (metis split_list_last)
  have y: "slash \<notin> set (b @ ''.yaml'')" "plain_name (b @ ''.yaml'')"
    using n(2) by (auto simp: plain_name_def slash_def append_eq_Cons_conv)
  have "suffix (b @ ''.yaml'') (path_join [profiles_dir e, name @ ''.yaml''])"
    using n(1) path_clean_last [OF y(2), of "profiles_dir e"]
      path_clean_last [OF y(2), of "profiles_dir e @ slash # a"] profiles_dir_ne [of e]
    by auto
  then show ?thesis unfolding profile_path_def by (meson suffix_order.trans suffixI)
qed

lemma active_file_suffix: "suffix ''active_profile'' (active_file e)"
proof -
  have "plain_name ''active_profile''" by (simp add: plain_name_def slash_def)
  then show ?thesis
    using path_clean_last [of "''active_profile''" "path_dir (profiles_dir e)"]
    by (simp add: active_file_def path_dir_ne)
qed

lemma active_file_no_profile: "active_file e \<noteq> profile_path e name"
proof
  assume "active_file e = profile_path e name"
  then have "suffix ''.yaml'' (active_file e)" using profile_path_suffix by simp
  then have "last (active_file e) = last ''.yaml''" by (rule suffix_last) simp
  moreover have "last (active_file e) = last ''active_profile''"
    by (rule suffix_last [OF active_file_suffix]) simp
  ultimately show False by simp
qed

section \<open>What is loaded\<close>

lemma load_profile_name: "load_profile Y rf e name fs = Inr p \<Longrightarrow> p_name p = name \<and> name \<noteq> []"
  by (auto simp: load_profile_def Let_def split: if_splits option.splits)

lemma save_profile_None:
  assumes "save_profile Y f tmp e (Some p) fs = (None, fs')" "tmp \<noteq> profile_path e (p_name p)"
  shows "\<exists>b. yaml_enc Y p = Some b \<and> p_name p \<noteq> [] \<and> gm_get fs' (profile_path e (p_name p)) = Some b
    \<and> (\<forall>q. q \<noteq> tmp \<longrightarrow> q \<noteq> profile_path e (p_name p) \<longrightarrow> gm_get fs' q = gm_get fs q)"
proof (cases "yaml_enc Y p")
  case None
  then show ?thesis using assms(1)
    by (auto simp: save_profile_def save_profile_file_def Let_def split: if_splits)
next
  case (Some b)
  let ?r = "save_profile_file f tmp (profile_path e (p_name p)) b fs"
  have "fst ?r = None" "fs' = snd ?r" "p_name p \<noteq> []"
    using assms(1) Some by (auto simp: save_profile_def Let_def split: if_splits prod.splits option.splits)
  then show ?thesis
    using profile_file.target [OF assms(2), of f b fs] profile_file.others [of _ "profile_path e (p_name p)" tmp f b fs]
      Some by auto
qed

lemma save_profile_target:
  assumes "tmp \<noteq> profile_path e (p_name p)" "fst (save_profile Y f tmp e (Some p) fs) \<noteq> None"
  shows "gm_get (snd (save_profile Y f tmp e (Some p) fs)) (profile_path e (p_name p))
    = gm_get fs (profile_path e (p_name p))"
proof (cases "yaml_enc Y p")
  case None
  then show ?thesis using assms
      profile_file.target [OF assms(1), of "f\<lparr>fl_write := Some 0\<rparr>" "[]" fs]
    by (auto simp: save_profile_def Let_def split: prod.splits option.splits)
next
  case (Some b)
  then show ?thesis using assms profile_file.target [OF assms(1), of f b fs]
    by (auto simp: save_profile_def Let_def split: prod.splits option.splits)
qed

lemma load_saved:
  assumes "save_profile Y f tmp e (Some p) fs = (None, fs')" "tmp \<noteq> profile_path e (p_name p)"
    and "\<And>q b. yaml_enc Y q = Some b \<Longrightarrow> yaml_dec Y b = Some q" "\<not> rf (profile_path e (p_name p))"
  shows "load_profile Y rf e (p_name p) fs' = Inr p"
  using save_profile_None [OF assms(1,2)] assms(3,4) by (auto simp: load_profile_def Let_def)

section \<open>The marker\<close>

lemma set_active_None:
  assumes "set_active Y rf f e name fs = (None, fs')"
  shows "\<exists>p. load_profile Y rf e name fs = Inr p \<and> fs' = gm_put (active_file e) (name @ [newline]) fs"
  using assms by (auto simp: set_active_def Let_def split: sum.splits if_splits option.splits)

lemma active_after_set:
  assumes "set_active Y rf f e name fs = (None, fs')" "cloudy_profile e = []"
    and "trim_space name = name" "\<not> rf (active_file e)"
  shows "active_name rf e fs' = Inr name"
  using set_active_None [OF assms(1)] assms(2-)
  by (auto simp: active_name_def gm_get_put Let_def dest: load_profile_name)

lemma load_active_after_set:
  assumes "set_active Y rf f e name fs = (None, fs')" "cloudy_profile e = []"
    and "trim_space name = name" "\<not> rf (active_file e)"
  shows "load_active Y rf e fs' = load_profile Y rf e name fs"
proof -
  obtain p where p: "load_profile Y rf e name fs = Inr p" "fs' = gm_put (active_file e) (name @ [newline]) fs"
    using set_active_None [OF assms(1)] by blast
  have "load_profile Y rf e name fs' = load_profile Y rf e name fs"
    using active_file_no_profile [of e name] by (simp add: load_profile_def p(2) gm_get_put)
  then show ?thesis using active_after_set [OF assms(1-4)] by (simp add: load_active_def)
qed

lemma clear_active_none:
  "clear_active f e fs = (None, fs') \<Longrightarrow> cloudy_profile e = [] \<Longrightarrow>
     active_name rf e fs' = Inl ProfileNotFound \<and> clear_active f' e fs' = (None, fs')"
  by (auto simp: clear_active_def active_name_def gm_get_del split: if_splits)

lemma list_profiles_sorted: "list_profiles d = Inr ns \<Longrightarrow> sorted ns"
  by (auto simp: list_profiles_def split: dir_listing.splits)

lemma list_profiles_entries:
  "list_profiles (DirEntries es) = Inr ns \<Longrightarrow>
     n \<in> set ns \<longleftrightarrow> (n @ ''.yaml'', False) \<in> set es \<and> \<not> prefix ''.'' (n @ ''.yaml'')"
proof -
  assume ns: "list_profiles (DirEntries es) = Inr ns"
  have t: "has_suffix m y \<Longrightarrow> trim_suffix m y = n \<longleftrightarrow> m = n @ y" for m y
    by (auto simp: trim_suffix_def has_suffix_def suffix_def)
  have "set ns = (\<lambda>(m, dir). trim_suffix m ''.yaml'') `
      {(m, dir). (m, dir) \<in> set es \<and> \<not> dir \<and> has_suffix m ''.yaml'' \<and> \<not> prefix ''.'' m}"
    using ns by (auto simp: list_profiles_def has_prefix_def)
  then have "n \<in> set ns \<longleftrightarrow> (\<exists>m. (m, False) \<in> set es \<and> has_suffix m ''.yaml'' \<and> \<not> prefix ''.'' m
      \<and> trim_suffix m ''.yaml'' = n)"
    by (auto simp: image_iff)
  also have "\<dots> \<longleftrightarrow> (n @ ''.yaml'', False) \<in> set es \<and> \<not> prefix ''.'' (n @ ''.yaml'')"
  proof -
    have "has_suffix (n @ y) y" for y by (simp add: has_suffix_def suffix_def)
    then show ?thesis using t by metis
  qed
  finally show ?thesis .
qed

end
