(* ===== verification/Incident_Card.thy ===== *)
theory Incident_Card
  imports Complex_Main Go_Path
begin

text \<open>
  The card of a prior incident (\<open>internal/incidentmemory/types.go\<close>): schema, validation and
  normalisation, and the shape of a stored identifier (\<open>storedIDPattern\<close>, \<open>cleanStoredID\<close>,
  \<open>makeID\<close> of \<open>store.go\<close>). The lemmas show that normalising is idempotent and that every identifier
  the store hands out matches its own pattern.
\<close>

abbreviation StatusCandidate :: string where "StatusCandidate \<equiv> ''candidate''"
abbreviation StatusApproved :: string where "StatusApproved \<equiv> ''approved''"
abbreviation StatusRejected :: string where "StatusRejected \<equiv> ''rejected''"
abbreviation CauseSuspected :: string where "CauseSuspected \<equiv> ''suspected''"
abbreviation CauseConfirmed :: string where "CauseConfirmed \<equiv> ''confirmed''"

record source =
  src_type :: string
  src_id :: string
  src_path :: string
  src_ref :: string

record card =
  cd_id :: string
  cd_created :: gotime
  cd_updated :: gotime
  cd_status :: string
  cd_symptoms :: "string list"
  cd_service :: string
  cd_signals :: "string list"
  cd_cause_status :: string
  cd_cause :: string
  cd_fix :: string
  cd_different :: string
  cd_source :: source
  cd_confidence :: real
  cd_tags :: "string list"

section \<open>Normalisation and validation\<close>

fun clean_list_acc :: "unicode \<Rightarrow> string list \<Rightarrow> string list \<Rightarrow> string list" where
  "clean_list_acc u seen [] = []"
| "clean_list_acc u seen (v # vs) =
     (let w = clean_text v in
      if w = [] then clean_list_acc u seen vs
      else if to_lower u w \<in> set seen then clean_list_acc u seen vs
      else w # clean_list_acc u (to_lower u w # seen) vs)"

definition clean_list :: "unicode \<Rightarrow> string list \<Rightarrow> string list" where
  "clean_list u vs = clean_list_acc u [] vs"

definition validate_card :: "unicode \<Rightarrow> card \<Rightarrow> string list" where
  "validate_card u c =
     (if clean_list u (cd_symptoms c) = [] then [''symptoms required''] else []) @
     (if trim_space (cd_service c) = [] then [''affected_service required''] else []) @
     (if trim_space (src_type (cd_source c)) = [] \<or>
         trim_space (src_id (cd_source c)) = [] \<and> trim_space (src_path (cd_source c)) = [] \<and>
         trim_space (src_ref (cd_source c)) = []
      then [''source required''] else []) @
     (if cd_cause_status c = CauseSuspected \<or> cd_cause_status c = CauseConfirmed then []
      else if cd_cause_status c = [] then [''cause_status required'']
      else [''cause_status must be suspected or confirmed'']) @
     (if cd_confidence c \<le> 0 \<or> cd_confidence c > 1 then [''confidence must be between 0 and 1''] else [])"

definition normalize_source :: "source \<Rightarrow> source" where
  "normalize_source s =
     \<lparr>src_type = clean_text (src_type s), src_id = clean_text (src_id s),
      src_path = clean_text (src_path s), src_ref = clean_text (src_ref s)\<rparr>"

definition normalize_card :: "unicode \<Rightarrow> card \<Rightarrow> card" where
  "normalize_card u c =
     c\<lparr>cd_status := (if trim_space (cd_status c) = [] then StatusCandidate else trim_space (cd_status c)),
       cd_symptoms := clean_list u (cd_symptoms c),
       cd_service := clean_text (cd_service c),
       cd_signals := clean_list u (cd_signals c),
       cd_cause_status := clean_text (cd_cause_status c),
       cd_cause := clean_text (cd_cause c),
       cd_fix := clean_text (cd_fix c),
       cd_different := clean_text (cd_different c),
       cd_source := normalize_source (cd_source c),
       cd_tags := clean_list u (cd_tags c)\<rparr>"

definition valid_status :: "string \<Rightarrow> bool" where
  "valid_status s \<longleftrightarrow> s = StatusCandidate \<or> s = StatusApproved \<or> s = StatusRejected"

section \<open>Identifiers\<close>

definition shaped :: "(char \<Rightarrow> bool) list \<Rightarrow> string \<Rightarrow> bool" where
  "shaped ps s \<longleftrightarrow> list_all2 (\<lambda>p c. p c) ps s"

definition literal_shape :: "string \<Rightarrow> (char \<Rightarrow> bool) list" where
  "literal_shape s = map (\<lambda>c d. d = c) s"

definition random_shape :: "(char \<Rightarrow> bool) list" where
  "random_shape =
     literal_shape ''case-'' @ replicate 8 is_digit @ literal_shape ''T'' @ replicate 6 is_digit @
     literal_shape ''Z-'' @ replicate 12 is_hex"

definition nano_shape :: "(char \<Rightarrow> bool) list" where
  "nano_shape =
     literal_shape ''case-'' @ replicate 8 is_digit @ literal_shape ''T'' @ replicate 6 is_digit @
     literal_shape ''.'' @ replicate 9 is_digit @ literal_shape ''Z''"

abbreviation imported_prefix :: string where
  "imported_prefix \<equiv> ''imported-line-''"

definition stored_id :: "string \<Rightarrow> bool" where
  "stored_id s \<longleftrightarrow>
     shaped random_shape s \<or> shaped nano_shape s \<or>
     prefix imported_prefix s \<and> drop (length imported_prefix) s \<noteq> [] \<and>
       list_all is_digit (drop (length imported_prefix) s)"

definition clean_stored_id :: "string \<Rightarrow> nat \<Rightarrow> string" where
  "clean_stored_id raw line_no =
     (if stored_id (clean_text raw) then clean_text raw else imported_prefix @ show_nat line_no)"

text \<open>\<open>day\<close>, \<open>clock\<close> and \<open>nanos\<close> are the digits \<open>time.Format\<close> renders; \<open>rnd\<close> is the six random bytes, if
  the source of randomness answers.\<close>

definition make_id :: "string \<Rightarrow> string \<Rightarrow> string \<Rightarrow> nat list option \<Rightarrow> string" where
  "make_id day clock nanos rnd =
     (case rnd of
        None \<Rightarrow> ''case-'' @ day @ ''T'' @ clock @ ''.'' @ nanos @ ''Z''
      | Some bs \<Rightarrow> ''case-'' @ day @ ''T'' @ clock @ ''Z'' @ ''-'' @ concat (map (hex_pad 2) bs))"

section \<open>Facts\<close>

lemma clean_list_acc_skip:
  "clean_text v = [] \<or> to_lower u (clean_text v) \<in> set seen \<Longrightarrow>
     clean_list_acc u seen (v # vs) = clean_list_acc u seen vs"
  by (auto simp: Let_def)

lemma clean_list_acc_keep:
  "\<not> (clean_text v = [] \<or> to_lower u (clean_text v) \<in> set seen) \<Longrightarrow>
     clean_list_acc u seen (v # vs) = clean_text v # clean_list_acc u (to_lower u (clean_text v) # seen) vs"
  by (simp add: Let_def)

declare clean_list_acc.simps(2) [simp del]

lemma clean_list_acc_clean: "w \<in> set (clean_list_acc u seen vs) \<Longrightarrow> clean_text w = w \<and> w \<noteq> []"
proof (induction vs arbitrary: seen)
  case (Cons v vs)
  then show ?case
    by (cases "clean_text v = [] \<or> to_lower u (clean_text v) \<in> set seen")
      (auto simp: clean_list_acc_skip clean_list_acc_keep simp del: clean_text_Nil)
qed simp

lemma clean_list_acc_idem:
  "set seen' \<subseteq> set seen \<Longrightarrow> clean_list_acc u seen' (clean_list_acc u seen vs) = clean_list_acc u seen vs"
proof (induction vs arbitrary: seen seen')
  case (Cons v vs)
  show ?case
  proof (cases "clean_text v = [] \<or> to_lower u (clean_text v) \<in> set seen")
    case True
    then show ?thesis using Cons by (simp only: clean_list_acc_skip)
  next
    case False
    let ?k = "to_lower u (clean_text v)"
    have "clean_list_acc u (?k # seen') (clean_list_acc u (?k # seen) vs) = clean_list_acc u (?k # seen) vs"
      by (rule Cons.IH) (use Cons.prems in auto)
    moreover have keep: "\<not> (clean_text (clean_text v) = [] \<or> to_lower u (clean_text (clean_text v)) \<in> set seen')"
      using False Cons.prems unfolding clean_text_idem by blast
    ultimately show ?thesis
      unfolding clean_list_acc_keep [OF False] clean_list_acc_keep [OF keep] clean_text_idem by simp
  qed
qed simp

lemma clean_list_idem [simp]: "clean_list u (clean_list u vs) = clean_list u vs"
  by (simp add: clean_list_def clean_list_acc_idem)

lemma clean_list_acc_distinct:
  "distinct (map (to_lower u) (clean_list_acc u seen vs)) \<and>
     (\<forall>w \<in> set (clean_list_acc u seen vs). to_lower u w \<notin> set seen)"
proof (induction vs arbitrary: seen)
  case (Cons v vs)
  show ?case
  proof (cases "clean_text v = [] \<or> to_lower u (clean_text v) \<in> set seen")
    case True
    show ?thesis unfolding clean_list_acc_skip [OF True] by (rule Cons.IH)
  next
    case False
    show ?thesis
      using Cons.IH [of "to_lower u (clean_text v) # seen"] False
      unfolding clean_list_acc_keep [OF False] by fastforce
  qed
qed simp

lemma clean_list_distinct: "distinct (map (to_lower u) (clean_list u vs))"
  by (simp add: clean_list_def clean_list_acc_distinct)

lemma clean_list_cover:
  "v \<in> set vs \<Longrightarrow> clean_text v \<noteq> [] \<Longrightarrow>
     to_lower u (clean_text v) \<in> set seen \<union> to_lower u ` set (clean_list_acc u seen vs)"
proof (induction vs arbitrary: seen)
  case (Cons w ws)
  show ?case
  proof (cases "clean_text w = [] \<or> to_lower u (clean_text w) \<in> set seen")
    case True
    then show ?thesis using Cons by (auto simp: clean_list_acc_skip simp del: clean_text_Nil)
  next
    case False
    then show ?thesis
      using Cons.IH [of "to_lower u (clean_text w) # seen"] Cons.prems
      unfolding clean_list_acc_keep [OF False] by fastforce
  qed
qed simp

lemma normalize_source_idem [simp]: "normalize_source (normalize_source s) = normalize_source s"
  by (simp add: normalize_source_def)

lemma normalize_card_idem: "normalize_card u (normalize_card u c) = normalize_card u c"
proof -
  have "trim_space StatusCandidate = StatusCandidate" by (rule trim_space_solid) (simp_all add: solid_def)
  then show ?thesis by (cases c) (simp add: normalize_card_def)
qed

lemma normalize_card_id [simp]: "cd_id (normalize_card u c) = cd_id c"
  by (simp add: normalize_card_def)

lemma shaped_append:
  "length ps = length s \<Longrightarrow> shaped (ps @ qs) (s @ t) \<longleftrightarrow> shaped ps s \<and> shaped qs t"
  by (simp add: shaped_def list_all2_append)

lemma shaped_literal [simp]: "shaped (literal_shape s) s"
  by (simp add: shaped_def literal_shape_def list_all2_map1 list_all2_same)

lemma shaped_replicate: "shaped (replicate n p) s \<longleftrightarrow> length s = n \<and> list_all p s"
  by (auto simp: shaped_def list_all2_conv_all_nth list_all_length)

lemma length_literal [simp]: "length (literal_shape s) = length s"
  by (simp add: literal_shape_def)

lemma imported_stored: "stored_id (imported_prefix @ show_nat n)"
  using show_nat_digits [of n] by (simp add: stored_id_def)

lemma clean_stored_id_stored: "stored_id (clean_stored_id raw n)"
  by (simp only: clean_stored_id_def imported_stored if_split simp_thms)

lemma make_id_stored:
  assumes "length day = 8" "list_all is_digit day" "length clock = 6" "list_all is_digit clock"
    and "length nanos = 9" "list_all is_digit nanos"
    and "\<And>bs. rnd = Some bs \<Longrightarrow> length bs = 6 \<and> list_all (\<lambda>b. b < 256) bs"
  shows "stored_id (make_id day clock nanos rnd)"
proof (cases rnd)
  case None
  have "shaped nano_shape (''case-'' @ day @ ''T'' @ clock @ ''.'' @ nanos @ ''Z'')"
    unfolding nano_shape_def using assms(1-6) by (simp add: shaped_append shaped_replicate del: append_Cons)
  then show ?thesis using None by (simp add: make_id_def stored_id_def)
next
  case (Some bs)
  have h: "length (concat (map (hex_pad 2) bs)) = 2 * length bs \<and> list_all is_hex (concat (map (hex_pad 2) bs))"
    if "list_all (\<lambda>b. b < 256) bs" for bs
    using that by (induction bs) (simp_all add: hex_pad_length hex_pad_is_hex)
  have "shaped random_shape (''case-'' @ day @ ''T'' @ clock @ ''Z-'' @ concat (map (hex_pad 2) bs))"
    unfolding random_shape_def using assms(1-4) assms(7) [OF Some] h [of bs]
    by (simp add: shaped_append shaped_replicate del: append_Cons)
  then show ?thesis using Some by (simp add: make_id_def stored_id_def)
qed

end
