(* ===== verification/Session_Facts.thy ===== *)
theory Session_Facts
  imports Session_Log
begin

text \<open>
  What a log holds. The invariant \<open>log_holds\<close> says that the file is the encoded acknowledged events,
  one per line, and at most a cut-off last line once a write has failed; every \<open>Append\<close> keeps it, and
  a replay of such a file finds the acknowledged events in order. Snapshots are found again under the
  name they were saved.
\<close>

section \<open>Lines\<close>

abbreviation as_lines :: "string list \<Rightarrow> string" where
  "as_lines ls \<equiv> concat (map (\<lambda>l. l @ [newline]) ls)"

lemma split_log_lines:
  "\<lbrakk>\<forall>l \<in> set ls. newline \<notin> set l; newline \<notin> set rest\<rbrakk> \<Longrightarrow> split_byte newline (as_lines ls @ rest) = ls @ [rest]"
  by (induction ls) (simp_all add: split_byte_absent split_byte_snoc)

lemma segments_lines:
  "\<lbrakk>\<forall>l \<in> set ls. newline \<notin> set l; newline \<notin> set rest\<rbrakk>
     \<Longrightarrow> segments (as_lines ls @ rest) = ls @ (if rest = [] then [] else [rest])"
  by (simp add: segments_def split_log_lines)

lemma drop_cr_prefix: "prefix (drop_cr p) p"
  by (simp add: drop_cr_def prefixeq_butlast)

lemma drop_cr_same: "l \<noteq> [] \<Longrightarrow> last l \<noteq> CHR 0x0D \<Longrightarrow> drop_cr l = l"
  by (simp add: drop_cr_def)

text \<open>What JSON promises of one encoded event: a single line that decodes to the event, none of whose
  proper prefixes decodes, and here also that it fits the scanner's buffer.\<close>

definition wire_ok :: "log_codec \<Rightarrow> log_event \<Rightarrow> bool" where
  "wire_ok E e \<longleftrightarrow>
     (case ev_enc E e of
        None \<Rightarrow> True
      | Some b \<Rightarrow> ev_dec E b = Some e \<and> b \<noteq> [] \<and> last b \<noteq> CHR 0x0D \<and> newline \<notin> set b \<and> length b < max_line
          \<and> list_all (\<lambda>p. p = b \<or> ev_dec E p = None) (prefixes b))"

lemma wire_okD:
  assumes "wire_ok E e" "ev_enc E e = Some b"
  shows "ev_dec E b = Some e" "b \<noteq> []" "last b \<noteq> CHR 0x0D" "newline \<notin> set b" "length b < max_line"
    and "prefix p b \<Longrightarrow> p \<noteq> b \<Longrightarrow> ev_dec E p = None"
  using assms by (auto simp: wire_ok_def list_all_iff)

section \<open>The log\<close>

definition log_holds :: "log_codec \<Rightarrow> log_event set \<Rightarrow> log_event list \<Rightarrow> session \<Rightarrow> files \<Rightarrow> bool" where
  "log_holds E S acked s fs \<longleftrightarrow>
     (\<exists>ls rest. gm_get fs (se_path s) = Some (as_lines ls @ rest) \<and>
        list_all2 (\<lambda>l e. ev_enc E e = Some l) ls acked \<and>
        (rest = [] \<or> se_bad s \<and> (\<exists>e \<in> S. \<exists>b. ev_enc E e = Some b \<and> prefix rest (b @ [newline]))))"

lemma log_holds_append:
  assumes "log_holds E S acked s fs" "session_append E w t e s fs = (r, s', fs')" "stamp t e \<in> S"
  shows "log_holds E S (acked @ (if r = None then [stamp t e] else [])) s' fs'"
    and "se_path s' = se_path s"
proof -
  obtain ls rest where h: "gm_get fs (se_path s) = Some (as_lines ls @ rest)"
      "list_all2 (\<lambda>l e. ev_enc E e = Some l) ls acked"
      "rest = [] \<or> se_bad s \<and> (\<exists>e \<in> S. \<exists>b. ev_enc E e = Some b \<and> prefix rest (b @ [newline]))"
    using assms(1) unfolding log_holds_def by blast
  show p: "se_path s' = se_path s"
    using assms(2) by (auto simp: session_append_def Let_def split: if_splits option.splits)
  show "log_holds E S (acked @ (if r = None then [stamp t e] else [])) s' fs'"
  proof (cases "se_bad s \<or> ev_enc E (stamp t e) = None")
    case True
    then have "r \<noteq> None" "s' = s" "fs' = fs"
      using assms(2) by (auto simp: session_append_def Let_def split: if_splits option.splits)
    then show ?thesis using assms(1) by auto
  next
    case False
    then obtain b where b: "ev_enc E (stamp t e) = Some b" "\<not> se_bad s" by auto
    then have rest: "rest = []" using h(3) by blast
    consider "r \<noteq> None" "se_bad s'" "fs' = fs"
      | n where "r \<noteq> None" "se_bad s'" "fs' = append_file (se_path s) (take n (b @ [newline])) fs"
      | "r = None" "fs' = append_file (se_path s) (b @ [newline]) fs"
      using assms(2) b by (auto simp: session_append_def Let_def split: if_splits option.splits)
    then show ?thesis
    proof cases
      case 1
      then show ?thesis using h rest p by (auto simp: log_holds_def)
    next
      case 2
      define cut where "cut = take n (b @ [newline])"
      have "\<exists>e \<in> S. \<exists>b. ev_enc E e = Some b \<and> prefix cut (b @ [newline])"
        using assms(3) b(1) take_is_prefix unfolding cut_def by blast
      moreover have "gm_get fs' (se_path s') = Some (as_lines ls @ cut)"
        using 2 h(1) rest p by (simp add: append_file_def gm_get_put cut_def)
      moreover have "acked @ (if r = None then [stamp t e] else []) = acked" using 2 by simp
      ultimately show ?thesis unfolding log_holds_def using 2(2) h(2) by metis
    next
      case 3
      then show ?thesis unfolding log_holds_def
        using h rest p b(1)
        by (intro exI [of _ "ls @ [b]"] exI [of _ "[]"])
          (auto simp: append_file_def gm_get_put list_all2_appendI)
    qed
  qed
qed

fun append_all ::
    "log_codec \<Rightarrow> (nat option \<times> gotime \<times> log_event) list \<Rightarrow> session \<Rightarrow> files \<Rightarrow> log_event list \<times> session \<times> files" where
  "append_all E [] s fs = ([], s, fs)"
| "append_all E ((w, t, e) # xs) s fs =
     (case session_append E w t e s fs of
        (r, s', fs') \<Rightarrow>
          (case append_all E xs s' fs' of
             (acked, s'', fs'') \<Rightarrow> ((if r = None then [stamp t e] else []) @ acked, s'', fs'')))"

definition stamped :: "(nat option \<times> gotime \<times> log_event) list \<Rightarrow> log_event list" where
  "stamped xs = map (\<lambda>(w, t, e). stamp t e) xs"

lemma log_holds_append_all:
  assumes "log_holds E S old s fs" "append_all E xs s fs = (acked, s', fs')" "set (stamped xs) \<subseteq> S"
  shows "log_holds E S (old @ acked) s' fs' \<and> se_path s' = se_path s"
  using assms
proof (induction xs arbitrary: old s fs acked s' fs')
  case (Cons x xs)
  obtain w t e where x: "x = (w, t, e)" by (metis prod_cases3)
  obtain r s1 fs1 where r: "session_append E w t e s fs = (r, s1, fs1)" by (metis prod_cases3)
  obtain ak s2 fs2 where a: "append_all E xs s1 fs1 = (ak, s2, fs2)" by (metis prod_cases3)
  have "stamp t e \<in> S" using Cons.prems(3) by (simp add: x stamped_def)
  note step = log_holds_append [OF Cons.prems(1) r this]
  have "set (stamped xs) \<subseteq> S" using Cons.prems(3) by (simp add: stamped_def)
  from Cons.IH [OF step(1) a this] show ?case using Cons.prems(2) step(2) by (auto simp: x r a)
qed simp

lemma acked_stamped:
  "append_all E xs s fs = (acked, s', fs') \<Longrightarrow> set acked \<subseteq> set (stamped xs)"
proof (induction xs arbitrary: s fs acked s' fs')
  case (Cons x xs)
  obtain w t e where x: "x = (w, t, e)" by (metis prod_cases3)
  obtain r s1 fs1 where r: "session_append E w t e s fs = (r, s1, fs1)" by (metis prod_cases3)
  obtain ak s2 fs2 where a: "append_all E xs s1 fs1 = (ak, s2, fs2)" by (metis prod_cases3)
  show ?case using Cons.IH [OF a] Cons.prems by (auto simp: x r a stamped_def split: if_splits)
qed simp

section \<open>Replay\<close>

lemma map_filter_decodes:
  "list_all2 (\<lambda>l e. f l = Some e) ls es \<Longrightarrow> List.map_filter f ls = es"
  by (induction ls es rule: list_all2_induct) (simp_all add: map_filter_simps)

lemma map_filter_append: "List.map_filter f (xs @ ys) = List.map_filter f xs @ List.map_filter f ys"
  by (induction xs) (auto simp: map_filter_simps split: option.splits)

lemma cut_line:
  assumes "wire_ok E e" "ev_enc E e = Some b" "prefix rest (b @ [newline])"
  shows "rest = b @ [newline] \<or> newline \<notin> set rest \<and> length rest < max_line \<and>
     (ev_dec E (drop_cr rest) = None \<or> ev_dec E (drop_cr rest) = Some e)"
proof (cases "rest = b @ [newline]")
  case False
  then have p: "prefix rest b" using assms(3) by (auto simp: prefix_snoc)
  then have d: "prefix (drop_cr rest) b" using drop_cr_prefix prefix_order.trans by blast
  have "newline \<notin> set rest" "length rest < max_line"
    using p wire_okD(4,5) [OF assms(1,2)] by (auto dest: set_mono_prefix prefix_length_le)
  then show ?thesis using wire_okD(1,6) [OF assms(1,2)] d by metis
qed simp

lemma filled_lines_log:
  assumes ls: "list_all2 (\<lambda>l e. ev_enc E e = Some l) ls es" "\<forall>e \<in> set es. wire_ok E e"
    and rest: "newline \<notin> set rest" "length rest < max_line"
  shows "filled_lines (as_lines ls @ rest) = Some (ls @ (if drop_cr rest = [] then [] else [drop_cr rest]))"
proof -
  have l: "\<forall>l \<in> set ls. newline \<notin> set l \<and> l \<noteq> [] \<and> length l < max_line \<and> last l \<noteq> CHR 0x0D"
    using ls by (induction ls es rule: list_all2_induct) (auto dest: wire_okD)
  then have "map drop_cr ls = ls" "filter (\<lambda>l. l \<noteq> []) ls = ls"
    by (auto simp: drop_cr_same map_idI)
  moreover have "drop_cr [] = []" by (simp add: drop_cr_def)
  ultimately show ?thesis
    using l rest by (auto simp: filled_lines_def scan_lines_def segments_lines list_all_iff)
qed

lemma decode_lines:
  assumes "list_all2 (\<lambda>l e. ev_enc E e = Some l) ls es" "\<forall>e \<in> set es. wire_ok E e"
  shows "List.map_filter (ev_dec E) ls = es"
proof (rule map_filter_decodes)
  show "list_all2 (\<lambda>l e. ev_dec E l = Some e) ls es"
    using assms by (induction ls es rule: list_all2_induct) (auto dest: wire_okD(1))
qed

lemma replay_holds:
  assumes h: "log_holds E S acked s fs" and ok: "\<forall>e \<in> S. wire_ok E e" "\<forall>e \<in> set acked. wire_ok E e" and "\<not> rf (se_path s)"
  shows "\<exists>es. replay_open rf E (se_path s) fs = Inr es \<and> (es = acked \<or> se_bad s \<and> (\<exists>e \<in> S. es = acked @ [e]))"
proof -
  obtain ls rest where l: "gm_get fs (se_path s) = Some (as_lines ls @ rest)"
      "list_all2 (\<lambda>l e. ev_enc E e = Some l) ls acked"
      "rest = [] \<or> se_bad s \<and> (\<exists>e \<in> S. \<exists>b. ev_enc E e = Some b \<and> prefix rest (b @ [newline]))"
    using h unfolding log_holds_def by blast
  note wa = ok(2)
  have done_case: "\<exists>es. replay_open rf E (se_path s) fs = Inr es \<and> es = acked @ ys"
    if "newline \<notin> set rest" "length rest < max_line"
      "List.map_filter (ev_dec E) (if drop_cr rest = [] then [] else [drop_cr rest]) = ys" for ys
    using l(1) filled_lines_log [OF l(2) wa that(1,2)] decode_lines [OF l(2) wa] that(3) assms(4)
    by (auto simp: replay_open_def map_filter_append)
  show ?thesis
  proof (cases "rest = []")
    case True
    then show ?thesis using done_case [of "[]"] by (auto simp: drop_cr_def max_line_def map_filter_simps)
  next
    case False
    then obtain e b where e: "se_bad s" "e \<in> S" "ev_enc E e = Some b" "prefix rest (b @ [newline])"
      using l(3) by blast
    have we: "wire_ok E e" using ok(1) e(2) by blast
    from cut_line [OF we e(3,4)] show ?thesis
    proof
      assume full: "rest = b @ [newline]"
      have "filled_lines (as_lines (ls @ [b]) @ []) = Some ((ls @ [b]) @ [])"
        using filled_lines_log [of E "ls @ [b]" "acked @ [e]" "[]"] l(2) wa we e(3)
        by (simp add: list_all2_appendI max_line_def drop_cr_def)
      moreover have "List.map_filter (ev_dec E) (ls @ [b]) = acked @ [e]"
        using decode_lines [of E "ls @ [b]" "acked @ [e]"] l(2) wa we e(3) by (simp add: list_all2_appendI)
      ultimately show ?thesis using l(1) full assms(4) e(1,2) by (auto simp: replay_open_def)
    next
      assume c: "newline \<notin> set rest \<and> length rest < max_line \<and>
        (ev_dec E (drop_cr rest) = None \<or> ev_dec E (drop_cr rest) = Some e)"
      then have "List.map_filter (ev_dec E) (if drop_cr rest = [] then [] else [drop_cr rest]) \<in> {[], [e]}"
        by (auto simp: map_filter_simps)
      then show ?thesis using done_case c e(1,2) by auto
    qed
  qed
qed

section \<open>New logs\<close>

definition log_file :: "log_codec \<Rightarrow> log_event list \<Rightarrow> string \<Rightarrow> files \<Rightarrow> bool" where
  "log_file E es path fs \<longleftrightarrow>
     (case gm_get fs path of
        None \<Rightarrow> es = []
      | Some b \<Rightarrow> \<exists>ls. b = as_lines ls \<and> list_all2 (\<lambda>l e. ev_enc E e = Some l) ls es)"

lemma session_new_holds:
  assumes new: "session_new E f e t nano pid sid fs = (Inr s, fs')" and old: "log_file E es (se_path s) fs"
  shows "log_holds E S (es @ [stamp t header_event]) s fs'"
    and "log_file E (es @ [stamp t header_event]) (se_path s) fs'" and "se_open s" "\<not> se_bad s"
proof -
  obtain d s0 where d: "logs_dir e = Some d" "s0 = \<lparr>se_id = (if sid = [] then new_id nano pid else sid),
      se_path = path_join [d, (if sid = [] then new_id nano pid else sid) @ ''.jsonl''], se_open = True, se_bad = False\<rparr>"
    and a: "session_append E (fl_write f) t header_event s0 (append_file (se_path s0) [] fs) = (None, s, fs')"
    using new by (auto simp: session_new_def Let_def split: option.splits if_splits prod.splits)
  obtain b where b: "ev_enc E (stamp t header_event) = Some b" "s = s0"
      "fs' = append_file (se_path s0) (b @ [newline]) (append_file (se_path s0) [] fs)"
    using a d(2) by (auto simp: session_append_def Let_def split: option.splits if_splits)
  obtain ls where ls: "list_all2 (\<lambda>l e. ev_enc E e = Some l) ls es"
      "(case gm_get fs (se_path s0) of None \<Rightarrow> [] | Some c \<Rightarrow> c) = as_lines ls"
    using old b(2) by (auto simp: log_file_def split: option.splits intro!: exI [of _ "[]"])
  then have f: "gm_get fs' (se_path s) = Some (as_lines (ls @ [b]))"
    by (auto simp: b(2,3) append_file_def gm_get_put)
  have l2: "list_all2 (\<lambda>l e. ev_enc E e = Some l) (ls @ [b]) (es @ [stamp t header_event])"
    using ls(1) b(1) by (simp add: list_all2_appendI)
  show "log_file E (es @ [stamp t header_event]) (se_path s) fs'"
    unfolding log_file_def f option.case using l2 by blast
  show "log_holds E S (es @ [stamp t header_event]) s fs'"
    unfolding log_holds_def f using l2 by (intro exI [of _ "ls @ [b]"] exI [of _ "[]"]) simp
  show "se_open s" "\<not> se_bad s" using d(2) b(2) by simp_all
qed

section \<open>Listing\<close>

definition model_of :: "log_event list \<Rightarrow> string" where
  "model_of es =
     (if ev_name (hd es) \<noteq> [] then ev_name (hd es)
      else (case List.find (\<lambda>ev. ev_kind ev \<in> {KindUsage, KindAssistant} \<and> ev_name ev \<noteq> []) es of
              None \<Rightarrow> [] | Some ev \<Rightarrow> ev_name ev))"

lemma list_all2_last: "list_all2 R xs ys \<Longrightarrow> xs \<noteq> [] \<Longrightarrow> R (last xs) (last ys)"
  by (induction xs ys rule: list_all2_induct) auto

lemma first_model_find:
  "list_all2 (\<lambda>l e. ev_dec E l = Some e) ls es \<Longrightarrow>
     first_model E ls = (case List.find (\<lambda>ev. ev_kind ev \<in> {KindUsage, KindAssistant} \<and> ev_name ev \<noteq> []) es of
              None \<Rightarrow> [] | Some ev \<Rightarrow> ev_name ev)"
  by (induction ls es rule: list_all2_induct) auto

lemma meta_of_log:
  assumes "log_file E es path fs" "\<forall>e \<in> set es. wire_ok E e" "es \<noteq> []" "\<not> rf path"
  shows "read_meta rf E sid path mt fs = Inr
    \<lparr>me_id = sid, me_path = path, me_started = ev_time (hd es), me_ended = ev_time (last es),
     me_count = length es, me_model = model_of es, me_mod = mt\<rparr>"
proof -
  obtain ls where f: "gm_get fs path = Some (as_lines ls)" and l2: "list_all2 (\<lambda>l e. ev_enc E e = Some l) ls es"
    using assms(1,3) by (auto simp: log_file_def split: option.splits)
  have fl: "filled_lines (as_lines ls) = Some ls"
    using filled_lines_log [OF l2 assms(2), of "[]"] by (simp add: max_line_def drop_cr_def)
  have dec: "list_all2 (\<lambda>l e. ev_dec E l = Some e) ls es"
    using l2 assms(2) by (induction ls es rule: list_all2_induct) (auto dest: wire_okD(1))
  obtain l ls' e es' where ne: "ls = l # ls'" "es = e # es'" using assms(3) l2 by (cases ls; cases es) auto
  have first: "ev_dec E l = Some e" using dec ne by simp
  have n: "length ls' = length es'" using l2 ne by (auto dest: list_all2_lengthD)
  have lst: "ev_dec E (last ls) = Some (last es)" using list_all2_last [OF dec] ne by simp
  show ?thesis
    using f fl first n lst assms(4) first_model_find [OF dec]
    by (simp add: read_meta_def Let_def ne(1) model_of_def del: first_model.simps last.simps) (simp add: ne)
qed

section \<open>Snapshots\<close>

lemma sessions_dir_ne: "sessions_dir e = Some d \<Longrightarrow> d \<noteq> []"
  by (auto simp: sessions_dir_def path_join_ne split: if_splits)

lemma logs_dir_ne: "logs_dir e = Some d \<Longrightarrow> d \<noteq> []"
  by (auto simp: logs_dir_def path_join_ne split: if_splits)

lemma history_paths: "d \<noteq> [] \<Longrightarrow> sid \<noteq> [] \<Longrightarrow> history_path d sid = history_read_path d sid"
proof -
  assume ne: "d \<noteq> []" "sid \<noteq> []"
  have p: "plain_name ''history.json''" by (simp add: plain_name_def slash_def)
  let ?x = "d @ slash # sid"
  have "history_path d sid = path_clean (path_clean ?x @ slash # ''history.json'')"
    using ne by (simp add: history_path_def)
  also have "\<dots> = dir_prefix (path_clean ?x) @ ''history.json''" by (rule path_clean_plain [OF path_clean_ne p])
  also have "\<dots> = dir_prefix ?x @ ''history.json''" by simp
  also have "\<dots> = path_clean (?x @ slash # ''history.json'')"
    using path_clean_plain [of ?x, OF _ p] by simp
  also have "\<dots> = history_read_path d sid" using ne by (simp add: history_read_path_def)
  finally show ?thesis .
qed

lemma load_saved_history:
  assumes "save_history E f tmp e t sid model msgs fs = (None, fs')"
    and "\<And>d. sessions_dir e = Some d \<Longrightarrow> tmp \<noteq> history_read_path d sid \<and> \<not> rf (history_read_path d sid)"
    and "\<And>b. rs_enc E \<lparr>rs_version = 1, rs_id = sid, rs_model = model, rs_saved_at = t, rs_messages = msgs\<rparr> = Some b
        \<Longrightarrow> rs_dec E b = Some \<lparr>rs_version = 1, rs_id = sid, rs_model = model, rs_saved_at = t, rs_messages = msgs\<rparr>"
  shows "load_history rf E e sid fs' = Inr (msgs, model)"
proof -
  obtain d b where d: "sessions_dir e = Some d" "sid \<noteq> []"
      "rs_enc E \<lparr>rs_version = 1, rs_id = sid, rs_model = model, rs_saved_at = t, rs_messages = msgs\<rparr> = Some b"
      "save_history_file f tmp (history_path d sid) b fs = (None, fs')"
    using assms(1) by (auto simp: save_history_def split: if_splits option.splits prod.splits)
  have p: "history_path d sid = history_read_path d sid"
    using history_paths [OF sessions_dir_ne [OF d(1)] d(2)] .
  have "gm_get fs' (history_read_path d sid) = Some b"
    using history_file.target [of tmp "history_read_path d sid" f b fs] d(4) p assms(2) [OF d(1)] by simp
  then show ?thesis using assms(2) [OF d(1)] assms(3) [OF d(3)] d(1,2) by (simp add: load_history_def)
qed

lemma failed_save_keeps:
  assumes "fst (save_history E f tmp e t sid model msgs fs) \<noteq> None"
    and "\<And>d. sessions_dir e = Some d \<Longrightarrow> tmp \<noteq> history_read_path d sid"
  shows "load_history rf E e sid (snd (save_history E f tmp e t sid model msgs fs)) = load_history rf E e sid fs"
proof (cases "sessions_dir e")
  case None
  then show ?thesis by (simp add: save_history_def load_history_def)
next
  case (Some d)
  show ?thesis
  proof (cases "sid = []")
    case True
    then show ?thesis by (simp add: load_history_def)
  next
    case False
    have p: "history_path d sid = history_read_path d sid"
      using history_paths [OF sessions_dir_ne [OF Some] False] .
    have t: "gm_get fs' (history_read_path d sid) = gm_get fs (history_read_path d sid)"
      if "save_history_file f tmp (history_read_path d sid) b fs = (Some st, fs')" for b st fs'
      using history_file.target [OF assms(2) [OF Some], of f b fs] that by simp
    have "gm_get (snd (save_history E f tmp e t sid model msgs fs)) (history_read_path d sid)
        = gm_get fs (history_read_path d sid)"
      using assms(1) p Some False by (auto simp: save_history_def t split: option.splits prod.splits)
    then show ?thesis using Some False by (simp add: load_history_def)
  qed
qed

section \<open>Incident sources\<close>

lemma incident_source_Inr:
  "incident_source sf e sid fs = Inr src \<longleftrightarrow>
     (\<exists>d. logs_dir e = Some d \<and> \<not> sf \<and> plain_name (trim_space sid) \<and> CHR 0x5C \<notin> set (trim_space sid) \<and>
        path_base (trim_space sid) = trim_space sid \<and>
        src = \<lparr>src_type = ''session'', src_id = trim_space sid, src_path = dir_prefix d @ trim_space sid @ ''.jsonl'',
          src_ref = []\<rparr> \<and>
        gm_get fs (src_path src) \<noteq> None)"
proof -
  have j: "path_join [d, n @ ''.jsonl''] = dir_prefix d @ n @ ''.jsonl''" if "logs_dir e = Some d" "plain_name n" for d n
    using path_join_plain [OF logs_dir_ne [OF that(1)], of "n @ ''.jsonl''"] that(2)
    by (auto simp: plain_name_def slash_def append_eq_Cons_conv)
  show ?thesis
    by (cases "logs_dir e")
      (auto simp: incident_source_def Let_def j plain_name_def slash_def simp del: path_join.simps)
qed

end
