(* ===== verification/Env_Memory.thy ===== *)
theory Env_Memory
  imports Profile_Files
begin

text \<open>
  The durable environment memory: \<open>Path\<close>, \<open>Load\<close>, which bounds what is injected into a system prompt,
  and \<open>Append\<close>, which records one fact as one line (\<open>internal/memory/memory.go\<close>), with the tool
  \<open>memory.record\<close> (\<open>internal/core/tools/memory/record.go\<close>), which redacts the fact first.
\<close>

datatype memory_error = MemoryRead | MemoryMkdir | MemoryOpen | MemoryAppend

definition config_path :: "dirs_env \<Rightarrow> string" where
  "config_path e =
     (if cloudy_home e \<noteq> [] then path_join [cloudy_home e, ''config.yaml'']
      else if xdg_config_home e \<noteq> [] then path_join [xdg_config_home e, ''cloudy'', ''config.yaml'']
      else (case user_home e of
              None \<Rightarrow> path_join [''.cloudy'', ''config.yaml'']
            | Some h \<Rightarrow> path_join [h, ''.cloudy'', ''config.yaml'']))"

definition memory_path :: "dirs_env \<Rightarrow> string" where
  "memory_path e = path_join [path_dir (config_path e), ''memory.md'']"

definition max_inject_bytes :: nat where
  "max_inject_bytes = 8192"

definition to_valid_utf8 :: "string \<Rightarrow> string" where
  "to_valid_utf8 s = concat (map snd (filter (\<lambda>(r, bs). \<not> (r = rune_error \<and> length bs = 1)) (runes_of s)))"

definition memory_tail :: "string \<Rightarrow> string" where
  "memory_tail s =
     (if length s > max_inject_bytes
      then (let t = drop (length s - max_inject_bytes) s in
            case index_byte t newline of
              Some i \<Rightarrow> (if i + 1 < length t then drop (i + 1) t
                        else to_valid_utf8 (dropWhile (\<lambda>c. \<not> rune_start c) t))
            | None \<Rightarrow> to_valid_utf8 (dropWhile (\<lambda>c. \<not> rune_start c) t))
      else s)"

definition memory_load :: "(string \<Rightarrow> bool) \<Rightarrow> dirs_env \<Rightarrow> files \<Rightarrow> memory_error + string" where
  "memory_load rf e fs =
     (case gm_get fs (memory_path e) of
        None \<Rightarrow> Inr []
      | Some b \<Rightarrow> if rf (memory_path e) then Inl MemoryRead else Inr (trim_space (memory_tail b)))"

definition memory_bullet :: "string \<Rightarrow> string \<Rightarrow> string" where
  "memory_bullet day entry = ''- ('' @ day @ '') '' @ entry"

text \<open>\<open>day\<close> is the UTC date the clock formats to. A failed write may have appended a prefix.\<close>

definition memory_append :: "faults \<Rightarrow> string \<Rightarrow> dirs_env \<Rightarrow> string \<Rightarrow> files \<Rightarrow> memory_error option \<times> files" where
  "memory_append f day e raw fs =
     (let entry = clean_text raw; path = memory_path e in
      if entry = [] then (None, fs)
      else if fl_mkdir f then (Some MemoryMkdir, fs)
      else if fl_create f then (Some MemoryOpen, fs)
      else (let old = (case gm_get fs path of None \<Rightarrow> [] | Some b \<Rightarrow> b);
                line = memory_bullet day entry @ [newline]
            in case fl_write f of
                 Some n \<Rightarrow> (Some MemoryAppend, gm_put path (old @ take n line) fs)
               | None \<Rightarrow> (None, gm_put path (old @ line) fs)))"

text \<open>The tool: an unreadable profile counts as none, which still masks by the default patterns.\<close>

definition record_fact ::
    "'re codec \<Rightarrow> yaml_codec \<Rightarrow> (string \<Rightarrow> bool) \<Rightarrow> faults \<Rightarrow> string \<Rightarrow> dirs_env \<Rightarrow> string \<Rightarrow> files
     \<Rightarrow> (memory_error + string) \<times> files" where
  "record_fact C Y rf f day e arg fs =
     (let entry = trim_space arg in
      if entry = [] then (Inr ''Nothing recorded: fact was empty.'', fs)
      else (let prof = (case load_active Y rf e fs of Inr p \<Rightarrow> Some p | Inl _ \<Rightarrow> None);
                masked = mask_string C (masker_or_default C prof) entry
            in case memory_append f day e masked fs of
                 (Some err, fs') \<Rightarrow> (Inl err, fs')
               | (None, fs') \<Rightarrow> (Inr (''Recorded to cross-session memory: '' @ masked), fs')))"

section \<open>What is injected\<close>

lemma runes_concat_le: "length (concat (map snd (filter P rs))) \<le> length (concat (map snd rs))"
  by (induction rs) (auto simp: split_beta)

lemma to_valid_utf8_length: "length (to_valid_utf8 s) \<le> length s"
  using runes_concat_le [of _ "runes_of s"] by (simp add: to_valid_utf8_def runes_of_concat)

lemma memory_tail_length: "length (memory_tail s) \<le> max_inject_bytes"
proof -
  have v: "length (to_valid_utf8 (dropWhile P t)) \<le> max_inject_bytes" if "length t = max_inject_bytes" for P t
    by (metis that le_trans length_dropWhile_le to_valid_utf8_length)
  show ?thesis
    by (auto simp: memory_tail_def Let_def v split: option.splits)
qed

lemma memory_load_length: "memory_load rf e fs = Inr s \<Longrightarrow> length s \<le> max_inject_bytes"
  using trim_space_length memory_tail_length
  by (auto simp: memory_load_def split: option.splits if_splits) (meson le_trans)

text \<open>A file of whole lines: what every successful append leaves.\<close>

definition line_ended :: "string \<Rightarrow> bool" where
  "line_ended s \<longleftrightarrow> s = [] \<or> last s = newline"

lemma memory_tail_line:
  assumes "line_ended old" "Suc (length l) < max_inject_bytes" "newline \<notin> set l"
  shows "\<exists>x. memory_tail (old @ l @ [newline]) = x @ l @ [newline] \<and> line_ended x \<and> suffix x old"
proof (cases "length (old @ l @ [newline]) > max_inject_bytes")
  case False
  then show ?thesis using assms(1) by (intro exI [of _ old]) (simp add: memory_tail_def)
next
  case True
  let ?k = "length (old @ l @ [newline]) - max_inject_bytes"
  define x where "x = drop ?k old"
  have k: "?k < length old" using assms(2) True by simp
  then have x: "drop ?k (old @ l @ [newline]) = x @ l @ [newline]" "x \<noteq> []" "suffix x old"
    by (simp_all add: x_def suffix_drop)
  have "last x = newline" using assms(1) k by (cases "old = []") (auto simp: line_ended_def x_def)
  then have nl: "newline \<in> set x" using x(2) last_in_set by metis
  then obtain i where i: "index_byte (x @ l @ [newline]) newline = Some i" by fastforce
  then have "i < length x"
    using nl index_byte_Some [OF i] by (metis in_set_takeD not_less take_all take_append append_Nil2
        in_set_takeD take_append Un_iff set_append)
  moreover have "last (drop (i + 1) x) = newline \<or> drop (i + 1) x = []"
    using \<open>last x = newline\<close> by (metis drop_eq_Nil last_drop not_less)
  ultimately show ?thesis using True x i
    by (intro exI [of _ "drop (i + 1) x"])
      (auto simp: memory_tail_def Let_def line_ended_def intro: suffix_order.trans [OF suffix_drop])
qed

lemma bullet_line:
  assumes "clean_text entry \<noteq> []"
  shows "\<exists>y w. memory_bullet day (clean_text entry) = CHR ''-'' # y @ CHR '' '' # w \<and> tight w"
proof -
  obtain u w where "CHR '' '' # clean_text entry = u @ CHR '' '' # w" "tight w"
    using clean_text_last_word [OF assms] by blast
  then have "memory_bullet day (clean_text entry) = CHR ''-'' # ('' ('' @ day @ '')'' @ u) @ CHR '' '' # w"
    by (simp add: memory_bullet_def)
  then show ?thesis using \<open>tight w\<close> by blast
qed

lemma memory_append_None:
  "memory_append f day e entry fs = (None, fs') \<Longrightarrow> clean_text entry \<noteq> [] \<Longrightarrow>
     fs' = gm_put (memory_path e)
       ((case gm_get fs (memory_path e) of None \<Rightarrow> [] | Some b \<Rightarrow> b) @ memory_bullet day (clean_text entry) @ [newline]) fs"
  by (auto simp: memory_append_def Let_def split: if_splits option.splits)

lemma memory_append_extends:
  "gm_get (snd (memory_append f day e entry fs)) (memory_path e) = Some b' \<Longrightarrow>
     gm_get fs (memory_path e) = Some b \<Longrightarrow> prefix b b'"
  by (auto simp: memory_append_def Let_def gm_get_put split: if_splits option.splits)

lemma memory_append_others:
  "q \<noteq> memory_path e \<Longrightarrow> gm_get (snd (memory_append f day e entry fs)) q = gm_get fs q"
  by (auto simp: memory_append_def Let_def gm_get_put split: option.splits)

definition memory_lines :: "dirs_env \<Rightarrow> files \<Rightarrow> bool" where
  "memory_lines e fs \<longleftrightarrow> (case gm_get fs (memory_path e) of None \<Rightarrow> True | Some b \<Rightarrow> line_ended b)"

lemma memory_append_lines:
  "memory_append f day e entry fs = (None, fs') \<Longrightarrow> memory_lines e fs \<Longrightarrow> memory_lines e fs'"
  by (cases "clean_text entry = []")
    (simp add: memory_append_def, auto dest!: memory_append_None simp: memory_lines_def gm_get_put line_ended_def)

text \<open>The last fact appended is what the loaded text ends with.\<close>

lemma memory_load_append:
  assumes "memory_append f day e entry fs = (None, fs')" "clean_text entry \<noteq> []" "memory_lines e fs"
    and "newline \<notin> set day" "Suc (length (memory_bullet day (clean_text entry))) < max_inject_bytes"
    and "\<not> rf (memory_path e)"
  shows "\<exists>s. memory_load rf e fs' = Inr s \<and> suffix (memory_bullet day (clean_text entry)) s"
proof -
  let ?l = "memory_bullet day (clean_text entry)"
  let ?old = "case gm_get fs (memory_path e) of None \<Rightarrow> [] | Some b \<Rightarrow> b"
  have old: "line_ended ?old" using assms(3) by (auto simp: memory_lines_def line_ended_def split: option.splits)
  have nl: "newline \<notin> set ?l" using clean_text_one_line [of entry] assms(4) by (simp add: memory_bullet_def)
  obtain x where x: "memory_tail (?old @ ?l @ [newline]) = x @ ?l @ [newline]"
    using memory_tail_line [OF old assms(5) nl] by blast
  obtain y w where l: "?l = CHR ''-'' # y @ CHR '' '' # w" "tight w" using bullet_line [OF assms(2)] by blast
  have "solid (CHR ''-'')" by (simp add: solid_def)
  from trim_space_line [OF this l(2), of x y] have "\<exists>x'. trim_space (x @ ?l @ [newline]) = x' @ ?l"
    unfolding l(1) by auto
  then show ?thesis
    using x memory_append_None [OF assms(1,2)] assms(6) by (auto simp: memory_load_def gm_get_put suffix_def)
qed

section \<open>What the tool stores\<close>

lemma record_fact_stored:
  assumes "record_fact C Y rf f day e arg fs = (Inr out, fs')" "trim_space arg \<noteq> []"
  defines "masked \<equiv> mask_string C (masker_or_default C
      (case load_active Y rf e fs of Inr p \<Rightarrow> Some p | Inl _ \<Rightarrow> None)) (trim_space arg)"
  shows "out = ''Recorded to cross-session memory: '' @ masked \<and> memory_append f day e masked fs = (None, fs')"
  using assms by (auto simp: record_fact_def Let_def split: prod.splits option.splits)

end
