(* ===== verification/Incident_Store.thy ===== *)
theory Incident_Store
  imports Session_Facts Env_Memory
begin

text \<open>
  The incident store (\<open>internal/incidentmemory/store.go\<close>): loading and masking the JSON lines,
  the cache keyed by path and masking configuration and checked against size and modification time,
  the rewrite of the file, and the operations \<open>CreateCandidate\<close>, \<open>Approve\<close>, \<open>Reject\<close>, \<open>Get\<close> and
  \<open>List\<close>. The file lock serialises the writers, so an operation is one step; the lock file itself is
  not in the file map.
\<close>

record 're store =
  so_path :: string
  so_key :: string
  so_uni :: unicode
  so_codec :: "'re codec"
  so_masker :: "'re masker option"
  so_enc :: "card \<Rightarrow> string option"
  so_dec :: "string \<Rightarrow> card option"

text \<open>A cache entry is the modification time and size of the file it was read from, and the cards.\<close>

record inc_state =
  is_files :: files
  is_times :: "gotime gomap"
  is_cache :: "(gotime \<times> nat \<times> card gomap) gomap"

datatype inc_error =
    IncInvalid "string list" | IncStatus string | IncLock | IncStat | IncRead
  | IncExists string | IncUnknown string | IncStep io_step

text \<open>The environment of one call: which calls fail, and what the clock and the random source answer.
  \<open>oe_same\<close>: the file is unchanged after reading; \<open>oe_restat\<close>: the file can be inspected after the
  rename, when its modification time is \<open>oe_mtime\<close>.\<close>

record op_env =
  oe_lock_fails :: bool
  oe_stat_fails :: bool
  oe_read_fails :: bool
  oe_same :: bool
  oe_faults :: faults
  oe_restat :: bool
  oe_mtime :: gotime
  oe_now :: gotime
  oe_day :: string
  oe_clock :: string
  oe_nanos :: string
  oe_random :: "nat list option"

section \<open>Masking\<close>

definition mask_text :: "'re codec \<Rightarrow> 're masker option \<Rightarrow> string \<Rightarrow> string" where
  "mask_text C k v =
     mask_string C k (case mask_json C k v of (masked, None) \<Rightarrow> masked | (_, Some _) \<Rightarrow> v)"

definition mask_card :: "'re store \<Rightarrow> card \<Rightarrow> card" where
  "mask_card S c =
     (let mask = mask_text (so_codec S) (so_masker S); s = cd_source c in
      c\<lparr>cd_symptoms := map mask (cd_symptoms c),
        cd_service := mask (cd_service c),
        cd_signals := map mask (cd_signals c),
        cd_cause := mask (cd_cause c),
        cd_fix := mask (cd_fix c),
        cd_different := mask (cd_different c),
        cd_source := \<lparr>src_type = mask (src_type s), src_id = mask (src_id s), src_path = mask (src_path s),
                      src_ref = mask (src_ref s)\<rparr>,
        cd_tags := map mask (cd_tags c)\<rparr>)"

section \<open>Loading\<close>

definition max_card_line :: nat where
  "max_card_line = 1024 * 1024"

text \<open>Lines with their terminator; a rest without one is a last line.\<close>

definition raw_lines :: "string \<Rightarrow> string list" where
  "raw_lines b =
     (let ls = split_byte newline b in
      map (\<lambda>l. l @ [newline]) (butlast ls) @ (if last ls = [] then [] else [last ls]))"

definition prepare_loaded_card :: "'re store \<Rightarrow> card \<Rightarrow> nat \<Rightarrow> card option" where
  "prepare_loaded_card S c0 line_no =
     (let c = (normalize_card (so_uni S) c0)\<lparr>cd_id := clean_stored_id (cd_id c0) line_no\<rparr> in
      if \<not> valid_status (cd_status c) then None
      else if validate_card (so_uni S) c \<noteq> [] then None
      else Some (mask_card S c))"

definition load_line :: "'re store \<Rightarrow> nat \<Rightarrow> string \<Rightarrow> card option" where
  "load_line S line_no raw =
     (if length raw > max_card_line then None
      else if trim_space raw = [] then None
      else (case so_dec S (trim_space raw) of
              None \<Rightarrow> None
            | Some c \<Rightarrow> prepare_loaded_card S c line_no))"

fun load_lines :: "'re store \<Rightarrow> nat \<Rightarrow> string list \<Rightarrow> card gomap \<Rightarrow> card gomap" where
  "load_lines S n [] out = out"
| "load_lines S n (raw # raws) out =
     load_lines S (Suc n) raws
       (case load_line S n raw of None \<Rightarrow> out | Some c \<Rightarrow> gm_put (cd_id c) c out)"

definition parse_cards :: "'re store \<Rightarrow> string \<Rightarrow> card gomap" where
  "parse_cards S b = load_lines S 1 (raw_lines b) []"

definition cache_key :: "'re store \<Rightarrow> string" where
  "cache_key S = so_path S @ [CHR 0x00] @ so_key S"

definition file_info :: "'re store \<Rightarrow> inc_state \<Rightarrow> (gotime \<times> nat) option" where
  "file_info S st =
     (case gm_get (is_files st) (so_path S) of
        None \<Rightarrow> None
      | Some b \<Rightarrow> Some (case gm_get (is_times st) (so_path S) of None \<Rightarrow> 0 | Some t \<Rightarrow> t, length b))"

definition cached_cards :: "'re store \<Rightarrow> gotime \<times> nat \<Rightarrow> inc_state \<Rightarrow> card gomap option" where
  "cached_cards S info st =
     (case gm_get (is_cache st) (cache_key S) of
        None \<Rightarrow> None
      | Some (t, n, cards) \<Rightarrow> if n \<noteq> snd info \<or> t \<noteq> fst info then None else Some cards)"

definition store_cached_cards :: "'re store \<Rightarrow> gotime \<times> nat \<Rightarrow> card gomap \<Rightarrow> inc_state \<Rightarrow> inc_state" where
  "store_cached_cards S info cards st =
     st\<lparr>is_cache := gm_put (cache_key S) (fst info, snd info, cards) (is_cache st)\<rparr>"

definition load_cards :: "'re store \<Rightarrow> op_env \<Rightarrow> inc_state \<Rightarrow> (inc_error + card gomap) \<times> inc_state" where
  "load_cards S E st =
     (if oe_stat_fails E then (Inl IncStat, st)
      else (case file_info S st of
              None \<Rightarrow> (Inr [], st)
            | Some info \<Rightarrow>
                (case cached_cards S info st of
                   Some cards \<Rightarrow> (Inr cards, st)
                 | None \<Rightarrow>
                     if oe_read_fails E then (Inl IncRead, st)
                     else (let b = (case gm_get (is_files st) (so_path S) of None \<Rightarrow> [] | Some b \<Rightarrow> b);
                               cards = parse_cards S b
                           in (Inr cards, if oe_same E then store_cached_cards S info cards st else st)))))"

section \<open>Rewriting\<close>

fun encode_cards :: "(card \<Rightarrow> string option) \<Rightarrow> card list \<Rightarrow> string \<times> bool" where
  "encode_cards enc [] = ([], True)"
| "encode_cards enc (c # cs) =
     (case enc c of
        None \<Rightarrow> ([], False)
      | Some b \<Rightarrow> (case encode_cards enc cs of (r, ok) \<Rightarrow> (b @ [newline] @ r, ok)))"

text \<open>An encoder error is a write that stops after the cards before it.\<close>

definition rewrite_cards :: "'re store \<Rightarrow> op_env \<Rightarrow> card gomap \<Rightarrow> inc_state \<Rightarrow> inc_error option \<times> inc_state" where
  "rewrite_cards S E cards st =
     (let lst = sort_key cd_id (map snd cards) in
      case encode_cards (so_enc S) lst of
        (b, ok) \<Rightarrow>
          (let f = (if ok then oe_faults E
                    else (oe_faults E)\<lparr>fl_write := (case fl_write (oe_faults E) of
                            None \<Rightarrow> Some (length b) | Some n \<Rightarrow> Some (min n (length b)))\<rparr>)
           in case store_rewrite_file f (so_path S @ ''.tmp'') (so_path S) b (is_files st) of
                (Some step, fs) \<Rightarrow> (Some (IncStep step), st\<lparr>is_files := fs\<rparr>)
              | (None, fs) \<Rightarrow>
                  (let st' = st\<lparr>is_files := fs, is_times := gm_put (so_path S) (oe_mtime E) (is_times st)\<rparr>
                   in (None, if oe_restat E then store_cached_cards S (oe_mtime E, length b) cards st' else st'))))"

section \<open>Operations\<close>

definition candidate_card :: "'re store \<Rightarrow> op_env \<Rightarrow> card \<Rightarrow> card" where
  "candidate_card S E c =
     mask_card S (c\<lparr>cd_id := make_id (oe_day E) (oe_clock E) (oe_nanos E) (oe_random E),
       cd_created := (if cd_created c = 0 then oe_now E else cd_created c),
       cd_updated := oe_now E, cd_status := StatusCandidate\<rparr>)"

definition create_candidate :: "'re store \<Rightarrow> op_env \<Rightarrow> card \<Rightarrow> inc_state \<Rightarrow> (inc_error + card) \<times> inc_state" where
  "create_candidate S E c0 st =
     (let c1 = normalize_card (so_uni S) c0 in
      if validate_card (so_uni S) c1 \<noteq> [] then (Inl (IncInvalid (validate_card (so_uni S) c1)), st)
      else (let c = candidate_card S E c1
            in if oe_lock_fails E then (Inl IncLock, st)
               else (case load_cards S E st of
                       (Inl e, st1) \<Rightarrow> (Inl e, st1)
                     | (Inr cards, st1) \<Rightarrow>
                         if gm_has cards (cd_id c) then (Inl (IncExists (cd_id c)), st1)
                         else (case rewrite_cards S E (gm_put (cd_id c) c cards) st1 of
                                 (Some e, st2) \<Rightarrow> (Inl e, st2)
                               | (None, st2) \<Rightarrow> (Inr c, st2)))))"

definition set_status :: "'re store \<Rightarrow> op_env \<Rightarrow> string \<Rightarrow> string \<Rightarrow> inc_state \<Rightarrow> (inc_error + card) \<times> inc_state" where
  "set_status S E cid status st =
     (if \<not> valid_status status then (Inl (IncStatus status), st)
      else if oe_lock_fails E then (Inl IncLock, st)
      else (case load_cards S E st of
              (Inl e, st1) \<Rightarrow> (Inl e, st1)
            | (Inr cards, st1) \<Rightarrow>
                (case gm_get cards cid of
                   None \<Rightarrow> (Inl (IncUnknown cid), st1)
                 | Some c0 \<Rightarrow>
                     (let c = c0\<lparr>cd_status := status, cd_updated := oe_now E\<rparr> in
                      case rewrite_cards S E (gm_put cid c cards) st1 of
                        (Some e, st2) \<Rightarrow> (Inl e, st2)
                      | (None, st2) \<Rightarrow> (Inr c, st2)))))"

definition approve_card :: "'re store \<Rightarrow> op_env \<Rightarrow> string \<Rightarrow> inc_state \<Rightarrow> (inc_error + card) \<times> inc_state" where
  "approve_card S E cid st = set_status S E cid StatusApproved st"

definition reject_card :: "'re store \<Rightarrow> op_env \<Rightarrow> string \<Rightarrow> inc_state \<Rightarrow> (inc_error + card) \<times> inc_state" where
  "reject_card S E cid st = set_status S E cid StatusRejected st"

definition get_card :: "'re store \<Rightarrow> op_env \<Rightarrow> string \<Rightarrow> inc_state \<Rightarrow> (inc_error + card) \<times> inc_state" where
  "get_card S E cid st =
     (case load_cards S E st of
        (Inl e, st1) \<Rightarrow> (Inl e, st1)
      | (Inr cards, st1) \<Rightarrow>
          (case gm_get cards cid of None \<Rightarrow> (Inl (IncUnknown cid), st1) | Some c \<Rightarrow> (Inr c, st1)))"

text \<open>Newest first, equal times by identifier.\<close>

definition list_cards :: "'re store \<Rightarrow> op_env \<Rightarrow> inc_state \<Rightarrow> (inc_error + card list) \<times> inc_state" where
  "list_cards S E st =
     (case load_cards S E st of
        (Inl e, st1) \<Rightarrow> (Inl e, st1)
      | (Inr cards, st1) \<Rightarrow> (Inr (sort_key (\<lambda>c. - cd_created c) (sort_key cd_id (map snd cards))), st1))"

section \<open>Paths and keys\<close>

definition incident_path :: "dirs_env \<Rightarrow> string" where
  "incident_path e = path_join [path_dir (config_path e), ''incident-memory'', ''cards.jsonl'']"

text \<open>The default store: the masking in force decides the masker and the cache key. \<open>digest\<close> stands for
  the hexadecimal SHA-256 of the JSON encoding of the masking patterns.\<close>

definition masking_cache_key :: "'re codec \<Rightarrow> (masking \<Rightarrow> string) \<Rightarrow> profile option \<Rightarrow> string" where
  "masking_cache_key C digest p =
     ''masking:'' @ digest
       (case (new_masker C p, p) of (Inr (Some _), Some q) \<Rightarrow> p_masking q | _ \<Rightarrow> default_masking)"

definition default_store ::
    "'re codec \<Rightarrow> (masking \<Rightarrow> string) \<Rightarrow> unicode \<Rightarrow> (card \<Rightarrow> string option) \<Rightarrow> (string \<Rightarrow> card option)
     \<Rightarrow> yaml_codec \<Rightarrow> (string \<Rightarrow> bool) \<Rightarrow> dirs_env \<Rightarrow> files \<Rightarrow> 're store" where
  "default_store C digest u enc dec Y rf e fs =
     (let p = (case load_active Y rf e fs of Inr q \<Rightarrow> Some q | Inl _ \<Rightarrow> None) in
      \<lparr>so_path = incident_path e, so_key = masking_cache_key C digest p, so_uni = u, so_codec = C,
       so_masker = masker_or_default C p, so_enc = enc, so_dec = dec\<rparr>)"

end
