(* ===== verification/Incident_Facts.thy ===== *)
theory Incident_Facts
  imports Incident_Store
begin

text \<open>
  What the incident store keeps. \<open>cards_ok\<close>: every map a load returns is keyed by well-formed
  identifiers and holds only valid statuses. \<open>approved_within\<close>: neither the file nor the cache shows
  an approved card outside a given set, which only \<open>Approve\<close> enlarges. \<open>coherent\<close>: a cache entry that
  is still current agrees with the file; then every operation acts on the file as on a finite map.
\<close>

section \<open>Loaded cards\<close>

definition cards_ok :: "card gomap \<Rightarrow> bool" where
  "cards_ok cs \<longleftrightarrow> gm_wf cs \<and> (\<forall>(k, c) \<in> set cs. cd_id c = k \<and> stored_id k \<and> valid_status (cd_status c))"

lemma mask_card_same [simp]:
  "cd_id (mask_card S c) = cd_id c" "cd_status (mask_card S c) = cd_status c"
  "cd_created (mask_card S c) = cd_created c" "cd_updated (mask_card S c) = cd_updated c"
  by (simp_all add: mask_card_def Let_def)

lemma load_line_ok: "load_line S n raw = Some c \<Longrightarrow> stored_id (cd_id c) \<and> valid_status (cd_status c)"
  by (auto simp: load_line_def prepare_loaded_card_def Let_def clean_stored_id_stored split: if_splits option.splits)

lemma cards_ok_put:
  "cards_ok cs \<Longrightarrow> stored_id (cd_id c) \<Longrightarrow> valid_status (cd_status c) \<Longrightarrow> cards_ok (gm_put (cd_id c) c cs)"
  using set_gm_put_subset [of "cd_id c" c cs] by (auto simp: cards_ok_def)

lemma load_lines_ok: "cards_ok out \<Longrightarrow> cards_ok (load_lines S n raws out)"
proof (induction S n raws out rule: load_lines.induct)
  case (2 S n raw raws out)
  have "cards_ok (case load_line S n raw of None \<Rightarrow> out | Some c \<Rightarrow> gm_put (cd_id c) c out)"
    using 2(2) load_line_ok [of S n raw] by (auto intro: cards_ok_put split: option.splits)
  then show ?case using 2(1) by simp
qed simp

lemma parse_cards_ok [simp]: "cards_ok (parse_cards S b)"
  unfolding parse_cards_def by (rule load_lines_ok) (simp add: cards_ok_def)

lemma cards_okD: "cards_ok cs \<Longrightarrow> gm_get cs k = Some c \<Longrightarrow> cd_id c = k \<and> stored_id k \<and> valid_status (cd_status c)"
  by (auto simp: cards_ok_def dest: map_of_SomeD)

section \<open>Identifiers survive a reload\<close>

lemma shaped_all: "shaped ps s \<Longrightarrow> c \<in> set s \<Longrightarrow> \<exists>p \<in> set ps. p c"
  unfolding shaped_def by (induction ps s rule: list_all2_induct) auto

lemma bex_replicate: "(\<exists>p \<in> set (replicate n q). p c) \<longleftrightarrow> n \<noteq> 0 \<and> q c"
  by (simp add: set_replicate_conv_if)

lemma stored_id_solid:
  assumes "stored_id s" "c \<in> set s"
  shows "solid c"
proof -
  have cls: "is_digit c \<Longrightarrow> solid c" "is_hex c \<Longrightarrow> solid c" by (auto simp: is_digit_def is_hex_def solid_def)
  have lit: "\<exists>p \<in> set (literal_shape t). p c \<Longrightarrow> \<forall>d \<in> set t. solid d \<Longrightarrow> solid c" for t
    by (auto simp: literal_shape_def)
  have sol: "\<forall>d \<in> set ''case-''. solid d" "\<forall>d \<in> set ''T''. solid d" "\<forall>d \<in> set ''Z-''. solid d"
    "\<forall>d \<in> set ''.''. solid d" "\<forall>d \<in> set ''Z''. solid d" "\<forall>d \<in> set imported_prefix. solid d"
    by (simp_all add: solid_def)
  consider "shaped random_shape s" | "shaped nano_shape s"
    | "prefix imported_prefix s" "list_all is_digit (drop (length imported_prefix) s)"
    using assms(1) unfolding stored_id_def by blast
  then show ?thesis
  proof cases
    case 1
    from shaped_all [OF 1 assms(2)] show ?thesis
      unfolding random_shape_def set_append bex_Un bex_replicate using cls lit sol by blast
  next
    case 2
    from shaped_all [OF 2 assms(2)] show ?thesis
      unfolding nano_shape_def set_append bex_Un bex_replicate using cls lit sol by blast
  next
    case 3
    then obtain t where t: "s = imported_prefix @ t" "list_all is_digit t" by (auto elim!: prefixE)
    then show ?thesis using assms(2) cls sol(6) unfolding t(1) set_append by (auto simp: list_all_iff)
  qed
qed

lemma solid_clean:
  assumes "s \<noteq> []" "\<forall>c \<in> set s. solid c"
  shows "clean_text s = s"
proof -
  have "tight s"
    unfolding tight_def
  proof (intro conjI allI impI)
    fix u v assume "s = u @ v" "v \<noteq> []"
    then show "strip_one space_seqs v = None" using assms(2) by (cases v) (auto simp: strip_one_solid)
  qed (use assms(1) in simp)
  then show ?thesis using fields_join [of "[s]"] by (simp add: clean_text_def)
qed

lemma stored_id_clean: "stored_id s \<Longrightarrow> clean_text s = s"
proof -
  assume s: "stored_id s"
  then have "s \<noteq> []" by (auto simp: stored_id_def shaped_def random_shape_def nano_shape_def literal_shape_def)
  then show ?thesis using solid_clean stored_id_solid [OF s] by blast
qed

lemma clean_stored_id_same: "stored_id s \<Longrightarrow> clean_stored_id s n = s"
  by (simp add: clean_stored_id_def stored_id_clean)

section \<open>The encoded file\<close>

text \<open>What JSON promises of one encoded card: it starts with an opening brace and ends with a closing
  one, has no line break and decodes to the card.\<close>

definition card_wire :: "(card \<Rightarrow> string option) \<Rightarrow> (string \<Rightarrow> card option) \<Rightarrow> card \<Rightarrow> bool" where
  "card_wire enc dec c \<longleftrightarrow>
     (case enc c of
        None \<Rightarrow> True
      | Some b \<Rightarrow> dec b = Some c \<and> b \<noteq> [] \<and> hd b = CHR 0x7B \<and> last b = CHR 0x7D \<and> newline \<notin> set b)"

lemma card_wireD:
  assumes "card_wire enc dec c" "enc c = Some b"
  shows "dec b = Some c" "newline \<notin> set b" "trim_space (b @ [newline]) = b" "b \<noteq> []"
proof -
  from assms have b: "dec b = Some c" "b \<noteq> []" "hd b = CHR 0x7B" "last b = CHR 0x7D" "newline \<notin> set b"
    by (simp_all add: card_wire_def)
  have "trim_space b = b" by (rule trim_space_solid) (use b in \<open>simp_all add: solid_def\<close>)
  then show "dec b = Some c" "newline \<notin> set b" "trim_space (b @ [newline]) = b" "b \<noteq> []" using b by simp_all
qed

lemma raw_lines_append:
  "newline \<notin> set l \<Longrightarrow> raw_lines (l @ newline # rest) = (l @ [newline]) # raw_lines rest"
  by (simp add: raw_lines_def split_byte_snoc split_byte_absent Let_def)

lemma raw_lines_Nil [simp]: "raw_lines [] = []"
  by (simp add: raw_lines_def)

text \<open>What one reloaded line is, for a card whose identifier is a stored one.\<close>

lemma load_line_encoded:
  assumes "card_wire (so_enc S) (so_dec S) c" "so_enc S c = Some b" "stored_id (cd_id c)"
  shows "load_line S n (b @ [newline]) \<in> {None, Some (mask_card S (normalize_card (so_uni S) c))}"
    and "\<lbrakk>length b < max_card_line; valid_status (cd_status c); normalize_card (so_uni S) c = c;
      validate_card (so_uni S) c = []; mask_card S c = c\<rbrakk> \<Longrightarrow> load_line S n (b @ [newline]) = Some c"
proof -
  note w = card_wireD [OF assms(1,2)]
  have l: "load_line S n (b @ [newline])
      = (if length b + 1 > max_card_line then None else prepare_loaded_card S c n)"
    using w by (simp add: load_line_def)
  have e: "(normalize_card (so_uni S) c)\<lparr>cd_id := cd_id c\<rparr> = normalize_card (so_uni S) c"
    by (metis card.surjective card.update_convs(1) normalize_card_id)
  have p: "prepare_loaded_card S c n =
      (if \<not> valid_status (cd_status (normalize_card (so_uni S) c)) then None
       else if validate_card (so_uni S) (normalize_card (so_uni S) c) \<noteq> [] then None
       else Some (mask_card S (normalize_card (so_uni S) c)))"
    using assms(3) by (simp add: prepare_loaded_card_def Let_def clean_stored_id_same e)
  show "load_line S n (b @ [newline]) \<in> {None, Some (mask_card S (normalize_card (so_uni S) c))}"
    unfolding l p by simp
  show "load_line S n (b @ [newline]) = Some c"
    if "length b < max_card_line" "valid_status (cd_status c)" "normalize_card (so_uni S) c = c"
      "validate_card (so_uni S) c = []" "mask_card S c = c"
    using that unfolding l p by simp
qed

section \<open>Reading an encoded file back\<close>

lemma valid_status_cases:
  "valid_status s \<Longrightarrow> (s = StatusCandidate \<Longrightarrow> P) \<Longrightarrow> (s = StatusApproved \<Longrightarrow> P) \<Longrightarrow> (s = StatusRejected \<Longrightarrow> P) \<Longrightarrow> P"
  by (auto simp: valid_status_def)

lemma normalize_status: "valid_status (cd_status c) \<Longrightarrow> cd_status (normalize_card u c) = cd_status c"
proof -
  have t: "trim_space StatusCandidate = StatusCandidate" "trim_space StatusApproved = StatusApproved"
      "trim_space StatusRejected = StatusRejected"
    by (rule trim_space_solid; simp add: solid_def)+
  assume "valid_status (cd_status c)"
  then show ?thesis by (elim valid_status_cases) (simp_all add: normalize_card_def t)
qed

lemma load_encoded_status:
  assumes "encode_cards (so_enc S) cs = (b, True)"
    and "\<forall>c \<in> set cs. card_wire (so_enc S) (so_dec S) c \<and> stored_id (cd_id c) \<and> valid_status (cd_status c)"
    and "gm_get (load_lines S n (raw_lines b) out) k = Some c"
  shows "gm_get out k = Some c \<or> (\<exists>c0 \<in> set cs. cd_id c0 = k \<and> cd_status c0 = cd_status c)"
  using assms
proof (induction cs arbitrary: b n out)
  case (Cons c0 cs)
  obtain b0 r where b0: "so_enc S c0 = Some b0" "encode_cards (so_enc S) cs = (r, True)" "b = b0 @ newline # r"
    using Cons.prems(1) by (auto split: option.splits prod.splits)
  have ok: "card_wire (so_enc S) (so_dec S) c0" "stored_id (cd_id c0)" "valid_status (cd_status c0)"
    using Cons.prems(2) by simp_all
  define out' where "out' = (case load_line S n (b0 @ [newline]) of None \<Rightarrow> out | Some c \<Rightarrow> gm_put (cd_id c) c out)"
  have "gm_get (load_lines S (Suc n) (raw_lines r) out') k = Some c"
    using Cons.prems(3) b0(3) card_wireD(2) [OF ok(1) b0(1)] by (simp add: raw_lines_append out'_def)
  from Cons.IH [OF b0(2) _ this] Cons.prems(2)
  consider "gm_get out' k = Some c" | "\<exists>c0 \<in> set cs. cd_id c0 = k \<and> cd_status c0 = cd_status c" by auto
  then show ?case
  proof cases
    case 1
    then show ?thesis
      using load_line_encoded(1) [OF ok(1) b0(1) ok(2), of n] normalize_status [OF ok(3), of "so_uni S"]
      by (auto simp: out'_def gm_get_put split: if_splits)
  qed auto
qed simp

section \<open>Approval is explicit\<close>

definition approved_in :: "card gomap \<Rightarrow> string set" where
  "approved_in cs = {k. \<exists>c. gm_get cs k = Some c \<and> cd_status c = StatusApproved}"

definition approved_within :: "'re store \<Rightarrow> string set \<Rightarrow> inc_state \<Rightarrow> bool" where
  "approved_within S A st \<longleftrightarrow>
     (case gm_get (is_files st) (so_path S) of None \<Rightarrow> True | Some b \<Rightarrow> approved_in (parse_cards S b) \<subseteq> A) \<and>
     (case gm_get (is_cache st) (cache_key S) of
        None \<Rightarrow> True | Some (t, n, cs) \<Rightarrow> cards_ok cs \<and> approved_in cs \<subseteq> A)"

lemma approved_in_Nil [simp]: "approved_in [] = {}"
  by (simp add: approved_in_def)

lemma load_cards_cases:
  assumes "load_cards S E st = (r, st')"
  obtains "st' = st" "r = Inl IncStat \<or> r = Inl IncRead \<or> r = Inr []"
    | t n cs0 where "gm_get (is_cache st) (cache_key S) = Some (t, n, cs0)" "st' = st" "r = Inr cs0"
    | b info where "gm_get (is_files st) (so_path S) = Some b" "r = Inr (parse_cards S b)"
        "st' = (if oe_same E then store_cached_cards S info (parse_cards S b) st else st)"
proof (cases "oe_stat_fails E")
  case True
  then show ?thesis using assms that(1) by (simp add: load_cards_def)
next
  case nf: False
  show ?thesis
  proof (cases "gm_get (is_files st) (so_path S)")
    case None
    then have "st' = st" "r = Inr []" using assms nf by (simp_all add: load_cards_def file_info_def)
    then show ?thesis by (intro that(1)) simp_all
  next
    case (Some b)
    then obtain info where i: "file_info S st = Some info" by (simp add: file_info_def)
    show ?thesis
    proof (cases "cached_cards S info st")
      case None
      show ?thesis
      proof (cases "oe_read_fails E")
        case True
        then show ?thesis using assms nf i None that(1) by (simp add: load_cards_def)
      next
        case False
        then have "r = Inr (parse_cards S b)"
            "st' = (if oe_same E then store_cached_cards S info (parse_cards S b) st else st)"
          using assms nf i None Some by (auto simp: load_cards_def Let_def)
        then show ?thesis by (rule that(3) [OF Some])
      qed
    next
      case (Some cs0)
      then obtain t n where "gm_get (is_cache st) (cache_key S) = Some (t, n, cs0)"
        by (auto simp: cached_cards_def split: option.splits if_splits)
      moreover have "st' = st" "r = Inr cs0" using assms nf i Some by (simp_all add: load_cards_def)
      ultimately show ?thesis by (rule that(2))
    qed
  qed
qed

lemma load_cards_within:
  assumes "load_cards S E st = (r, st')" "approved_within S A st"
  shows "approved_within S A st'" and "r = Inr cs \<Longrightarrow> cards_ok cs \<and> approved_in cs \<subseteq> A"
proof -
  consider "st' = st" "r = Inl IncStat \<or> r = Inl IncRead \<or> r = Inr []"
    | t n cs0 where "gm_get (is_cache st) (cache_key S) = Some (t, n, cs0)" "st' = st" "r = Inr cs0"
    | b info where "gm_get (is_files st) (so_path S) = Some b" "r = Inr (parse_cards S b)"
        "st' = (if oe_same E then store_cached_cards S info (parse_cards S b) st else st)"
    by (rule load_cards_cases [OF assms(1)])
  then have "approved_within S A st' \<and> (r = Inr cs \<longrightarrow> cards_ok cs \<and> approved_in cs \<subseteq> A)"
  proof cases
    case 1
    then show ?thesis using assms(2) by (auto simp: cards_ok_def)
  next
    case 2
    then show ?thesis using assms(2) by (auto simp: approved_within_def split: option.splits)
  next
    case 3
    then show ?thesis
      using assms(2) by (auto simp: approved_within_def store_cached_cards_def gm_get_put split: option.splits)
  qed
  then show "approved_within S A st'" "r = Inr cs \<Longrightarrow> cards_ok cs \<and> approved_in cs \<subseteq> A" by auto
qed

lemma rewrite_cards_shape:
  assumes "rewrite_cards S E cards st = (r, st')"
  shows "case r of
     Some e \<Rightarrow> gm_get (is_files st') (so_path S) = gm_get (is_files st) (so_path S) \<and>
               is_cache st' = is_cache st \<and> is_times st' = is_times st
   | None \<Rightarrow> \<exists>b. encode_cards (so_enc S) (sort_key cd_id (map snd cards)) = (b, True) \<and>
               gm_get (is_files st') (so_path S) = Some b \<and>
               is_times st' = gm_put (so_path S) (oe_mtime E) (is_times st) \<and>
               is_cache st' = (if oe_restat E then gm_put (cache_key S) (oe_mtime E, length b, cards) (is_cache st)
                               else is_cache st)"
proof -
  obtain b ok where b: "encode_cards (so_enc S) (sort_key cd_id (map snd cards)) = (b, ok)"
    by (cases "encode_cards (so_enc S) (sort_key cd_id (map snd cards))")
  define f where "f = (if ok then oe_faults E
      else (oe_faults E)\<lparr>fl_write := (case fl_write (oe_faults E) of
              None \<Rightarrow> Some (length b) | Some n \<Rightarrow> Some (min n (length b)))\<rparr>)"
  obtain r0 fs where w: "store_rewrite_file f (so_path S @ ''.tmp'') (so_path S) b (is_files st) = (r0, fs)"
    by (cases "store_rewrite_file f (so_path S @ ''.tmp'') (so_path S) b (is_files st)")
  have t: "gm_get fs (so_path S) = (if r0 = None then Some b else gm_get (is_files st) (so_path S))"
    using incident_file.target [of "so_path S @ ''.tmp''" "so_path S" f b "is_files st"] w by simp
  have nf: "\<not> ok \<Longrightarrow> r0 \<noteq> None"
    using w by (auto simp: f_def store_rewrite_file_def split: if_splits option.splits)
  show ?thesis
  proof (cases r0)
    case None
    then have "ok" "gm_get fs (so_path S) = Some b" using nf t by auto
    moreover have "f = oe_faults E" using \<open>ok\<close> by (simp add: f_def)
    ultimately show ?thesis
      using assms b w None by (auto simp: rewrite_cards_def Let_def store_cached_cards_def)
  next
    case (Some e)
    then show ?thesis using assms b t w by (auto simp: rewrite_cards_def f_def [symmetric] Let_def)
  qed
qed

lemma rewrite_cards_within:
  assumes r: "rewrite_cards S E cards st = (r, st')" and within: "approved_within S A st"
    and cards: "cards_ok cards" "approved_in cards \<subseteq> A" "\<And>c. card_wire (so_enc S) (so_dec S) c"
  shows "approved_within S A st'"
proof (cases r)
  case (Some e)
  then show ?thesis using rewrite_cards_shape [OF r] within by (simp add: approved_within_def)
next
  case None
  then obtain b where b: "encode_cards (so_enc S) (sort_key cd_id (map snd cards)) = (b, True)"
      "gm_get (is_files st') (so_path S) = Some b"
      "is_cache st' = (if oe_restat E then gm_put (cache_key S) (oe_mtime E, length b, cards) (is_cache st)
          else is_cache st)"
    using rewrite_cards_shape [OF r] by auto
  have el: "stored_id (cd_id c) \<and> valid_status (cd_status c) \<and> gm_get cards (cd_id c) = Some c"
    if "c \<in> snd ` set cards" for c
    using that cards(1) by (auto simp: cards_ok_def gm_wf_def)
  have "approved_in (parse_cards S b) \<subseteq> A"
  proof
    fix k assume "k \<in> approved_in (parse_cards S b)"
    then obtain c where c: "gm_get (load_lines S 1 (raw_lines b) []) k = Some c" "cd_status c = StatusApproved"
      unfolding approved_in_def parse_cards_def by blast
    from load_encoded_status [OF b(1) _ c(1)] el cards(3)
    obtain c0 where "c0 \<in> snd ` set cards" "cd_id c0 = k" "cd_status c0 = cd_status c" by auto
    then have "k \<in> approved_in cards" using el [of c0] c(2) by (auto simp: approved_in_def)
    then show "k \<in> A" using cards(2) by blast
  qed
  then show ?thesis using within b(2,3) cards(1,2) by (auto simp: approved_within_def gm_get_put split: option.splits)
qed

end
