(* ===== verification/Incident_Claims.thy ===== *)
theory Incident_Claims
  imports Incident_Facts
begin

text \<open>
  Sequences of store operations. No sequence approves a card except by an \<open>Approve\<close> of its identifier,
  whatever fails; and on cards that a reload leaves alone, each operation is one update of a finite
  map, whether it is answered from the cache or from the file.
\<close>

section \<open>Sequences\<close>

datatype inc_op = OpCreate card | OpApprove string | OpReject string | OpGet string | OpList

definition inc_step :: "'re store \<Rightarrow> op_env \<Rightarrow> inc_op \<Rightarrow> inc_state \<Rightarrow> inc_state" where
  "inc_step S E op st =
     (case op of
        OpCreate c \<Rightarrow> snd (create_candidate S E c st)
      | OpApprove k \<Rightarrow> snd (approve_card S E k st)
      | OpReject k \<Rightarrow> snd (reject_card S E k st)
      | OpGet k \<Rightarrow> snd (get_card S E k st)
      | OpList \<Rightarrow> snd (list_cards S E st))"

fun run_ops :: "'re store \<Rightarrow> (op_env \<times> inc_op) list \<Rightarrow> inc_state \<Rightarrow> inc_state" where
  "run_ops S [] st = st"
| "run_ops S ((E, x) # xs) st = run_ops S xs (inc_step S E x st)"

definition approvals :: "(op_env \<times> inc_op) list \<Rightarrow> string set" where
  "approvals xs = {k. \<exists>E. (E, OpApprove k) \<in> set xs}"

text \<open>The clock renders digits and the random source gives six bytes.\<close>

definition clock_ok :: "op_env \<Rightarrow> bool" where
  "clock_ok E \<longleftrightarrow>
     length (oe_day E) = 8 \<and> list_all is_digit (oe_day E) \<and> length (oe_clock E) = 6 \<and> list_all is_digit (oe_clock E) \<and>
     length (oe_nanos E) = 9 \<and> list_all is_digit (oe_nanos E) \<and>
     (case oe_random E of None \<Rightarrow> True | Some rs \<Rightarrow> length rs = 6 \<and> list_all (\<lambda>b. b < 256) rs)"

lemma clock_ok_id: "clock_ok E \<Longrightarrow> stored_id (make_id (oe_day E) (oe_clock E) (oe_nanos E) (oe_random E))"
  by (rule make_id_stored) (auto simp: clock_ok_def)

lemma approved_within_mono: "approved_within S A st \<Longrightarrow> A \<subseteq> B \<Longrightarrow> approved_within S B st"
  by (auto simp: approved_within_def split: option.splits)

lemma approved_put:
  "approved_in cards \<subseteq> A \<Longrightarrow> approved_in (gm_put k c cards) \<subseteq> (if cd_status c = StatusApproved then insert k A else A)"
  by (auto simp: approved_in_def gm_get_put split: if_splits)

text \<open>The three shapes of a create: refused before the store is read, stopped after the load, or
  stopped or finished by the rewrite.\<close>

lemma create_candidate_cases:
  assumes "create_candidate S E c0 st = (r, st')"
  obtains "st' = st" "\<exists>e. r = Inl e"
    | r1 where "load_cards S E st = (r1, st')" "\<exists>e. r = Inl e"
    | cards st1 c r2 where "load_cards S E st = (Inr cards, st1)" "gm_get cards (cd_id c) = None"
        "cd_id c = make_id (oe_day E) (oe_clock E) (oe_nanos E) (oe_random E)" "cd_status c = StatusCandidate"
        "rewrite_cards S E (gm_put (cd_id c) c cards) st1 = (r2, st')"
        "r = (case r2 of None \<Rightarrow> Inr c | Some e \<Rightarrow> Inl e)"
proof -
  define c where "c = candidate_card S E (normalize_card (so_uni S) c0)"
  have fields: "cd_id c = make_id (oe_day E) (oe_clock E) (oe_nanos E) (oe_random E)" "cd_status c = StatusCandidate"
    by (simp_all add: c_def candidate_card_def)
  consider "validate_card (so_uni S) (normalize_card (so_uni S) c0) \<noteq> [] \<or> oe_lock_fails E"
    | e st1 where "load_cards S E st = (Inl e, st1)"
    | cards st1 where "load_cards S E st = (Inr cards, st1)"
    by (metis obj_sumE surj_pair)
  then show ?thesis
  proof cases
    case 1
    then show ?thesis using assms that(1) by (auto simp: create_candidate_def Let_def split: if_splits)
  next
    case 2
    then show ?thesis
      using assms that(1,2) by (auto simp: create_candidate_def Let_def split: if_splits)
  next
    case 3
    show ?thesis
    proof (cases "validate_card (so_uni S) (normalize_card (so_uni S) c0) \<noteq> [] \<or> oe_lock_fails E")
      case True
      then show ?thesis using assms that(1) by (auto simp: create_candidate_def Let_def split: if_splits)
    next
      case False
      then have r: "(if gm_has cards (cd_id c) then (Inl (IncExists (cd_id c)), st1)
          else (case rewrite_cards S E (gm_put (cd_id c) c cards) st1 of
                  (Some e, st2) \<Rightarrow> (Inl e, st2) | (None, st2) \<Rightarrow> (Inr c, st2))) = (r, st')"
        using assms 3 unfolding create_candidate_def Let_def c_def by simp
      show ?thesis
      proof (cases "gm_get cards (cd_id c) = None")
        case True
        obtain r2 st2 where w: "rewrite_cards S E (gm_put (cd_id c) c cards) st1 = (r2, st2)" by (metis surj_pair)
        with r True have "st' = st2" "r = (case r2 of None \<Rightarrow> Inr c | Some e \<Rightarrow> Inl e)"
          by (auto split: option.splits)
        then show ?thesis using that(3) [OF 3 True fields, of r2] w by blast
      next
        case False
        then show ?thesis using r 3 that(2) by auto
      qed
    qed
  qed
qed

lemma set_status_cases:
  assumes "set_status S E k status st = (r, st')"
  obtains "st' = st" "\<exists>e. r = Inl e"
    | r1 where "load_cards S E st = (r1, st')" "\<exists>e. r = Inl e"
    | cards st1 c0 r2 where "load_cards S E st = (Inr cards, st1)" "gm_get cards k = Some c0" "valid_status status"
        "rewrite_cards S E (gm_put k (c0\<lparr>cd_status := status, cd_updated := oe_now E\<rparr>) cards) st1 = (r2, st')"
        "r = (case r2 of None \<Rightarrow> Inr (c0\<lparr>cd_status := status, cd_updated := oe_now E\<rparr>) | Some e \<Rightarrow> Inl e)"
proof (cases "valid_status status \<and> \<not> oe_lock_fails E")
  case False
  then show ?thesis using assms that(1) by (auto simp: set_status_def split: if_splits)
next
  case go: True
  obtain r1 st1 where l: "load_cards S E st = (r1, st1)" by (metis surj_pair)
  show ?thesis
  proof (cases r1)
    case (Inl e)
    then show ?thesis using assms go l that(2) by (auto simp: set_status_def)
  next
    case (Inr cards)
    show ?thesis
    proof (cases "gm_get cards k")
      case None
      then show ?thesis using assms go l Inr that(2) by (auto simp: set_status_def)
    next
      case (Some c0)
      obtain r2 st2 where w: "rewrite_cards S E (gm_put k (c0\<lparr>cd_status := status, cd_updated := oe_now E\<rparr>) cards) st1
          = (r2, st2)" by (metis surj_pair)
      then have "st' = st2"
        "r = (case r2 of None \<Rightarrow> Inr (c0\<lparr>cd_status := status, cd_updated := oe_now E\<rparr>) | Some e \<Rightarrow> Inl e)"
        using assms go l Inr Some by (auto simp: set_status_def Let_def split: option.splits)
      then show ?thesis using that(3) [of cards st1 c0 r2] l Inr Some go w by blast
    qed
  qed
qed

section \<open>Approval is explicit\<close>

lemma create_within:
  assumes "create_candidate S E c0 st = (r, st')" "approved_within S A st" "clock_ok E"
    and "\<And>c. card_wire (so_enc S) (so_dec S) c"
  shows "approved_within S A st'"
  using assms(1)
proof (cases rule: create_candidate_cases)
  case 1
  then show ?thesis using assms(2) by simp
next
  case (2 r1)
  then show ?thesis using load_cards_within(1) [OF _ assms(2)] by blast
next
  case (3 cards st1 c r2)
  note l = load_cards_within [OF 3(1) assms(2)]
  have c: "cards_ok cards" "approved_in cards \<subseteq> A" using l(2) by blast+
  have "cards_ok (gm_put (cd_id c) c cards)"
    by (rule cards_ok_put [OF c(1)]) (use 3(3,4) clock_ok_id [OF assms(3)] in \<open>simp_all add: valid_status_def\<close>)
  moreover have "approved_in (gm_put (cd_id c) c cards) \<subseteq> A"
    using approved_put [OF c(2), of "cd_id c" c] 3(4) by simp
  ultimately show ?thesis using rewrite_cards_within [OF 3(5) l(1)] assms(4) by blast
qed

lemma set_status_within:
  assumes "set_status S E k status st = (r, st')" "approved_within S A st"
    and "\<And>c. card_wire (so_enc S) (so_dec S) c"
  shows "approved_within S (if status = StatusApproved then insert k A else A) st'"
  using assms(1)
proof (cases rule: set_status_cases)
  case 1
  then show ?thesis using approved_within_mono [OF assms(2)] by auto
next
  case (2 r1)
  then show ?thesis using approved_within_mono [OF load_cards_within(1) [OF 2(1) assms(2)]] by auto
next
  case (3 cards st1 c0 r2)
  let ?A = "if status = StatusApproved then insert k A else A"
  let ?c = "c0\<lparr>cd_status := status, cd_updated := oe_now E\<rparr>"
  note l = load_cards_within [OF 3(1) assms(2)]
  have c: "cards_ok cards" "approved_in cards \<subseteq> A" using l(2) by blast+
  have id: "cd_id ?c = k" "stored_id k" using cards_okD [OF c(1) 3(2)] by simp_all
  have "cards_ok (gm_put (cd_id ?c) ?c cards)"
    by (rule cards_ok_put [OF c(1)]) (use id 3(3) in simp_all)
  then have "cards_ok (gm_put k ?c cards)" using id by simp
  moreover have "approved_in (gm_put k ?c cards) \<subseteq> ?A" using approved_put [OF c(2), of k ?c] by simp
  moreover have "approved_within S ?A st1" by (rule approved_within_mono [OF l(1)]) auto
  ultimately show ?thesis using rewrite_cards_within [OF 3(4)] assms(3) by blast
qed

lemma inc_step_within:
  assumes "approved_within S A st" "clock_ok E" "\<And>c. card_wire (so_enc S) (so_dec S) c"
  shows "approved_within S (case x of OpApprove k \<Rightarrow> insert k A | _ \<Rightarrow> A) (inc_step S E x st)"
proof (cases x)
  case (OpCreate c)
  obtain r st' where "create_candidate S E c st = (r, st')" by (metis surj_pair)
  then show ?thesis using create_within [OF _ assms] OpCreate by (simp add: inc_step_def)
next
  case (OpApprove k)
  obtain r st' where "set_status S E k StatusApproved st = (r, st')" by (metis surj_pair)
  then show ?thesis using set_status_within [OF _ assms(1,3)] OpApprove by (fastforce simp: inc_step_def approve_card_def)
next
  case (OpReject k)
  obtain r st' where "set_status S E k StatusRejected st = (r, st')" by (metis surj_pair)
  then show ?thesis using set_status_within [OF _ assms(1,3)] OpReject by (fastforce simp: inc_step_def reject_card_def)
next
  case (OpGet k)
  then show ?thesis using load_cards_within(1) [OF _ assms(1), of E]
    by (simp add: inc_step_def get_card_def split: prod.splits sum.splits option.splits)
next
  case OpList
  then show ?thesis using load_cards_within(1) [OF _ assms(1), of E]
    by (simp add: inc_step_def list_cards_def split: prod.splits sum.splits)
qed

lemma run_ops_within:
  assumes "approved_within S A st" "\<forall>(E, x) \<in> set xs. clock_ok E" "\<And>c. card_wire (so_enc S) (so_dec S) c"
  shows "approved_within S (A \<union> approvals xs) (run_ops S xs st)"
  using assms(1,2)
proof (induction xs arbitrary: A st)
  case (Cons y xs)
  obtain E x where y: "y = (E, x)" by fastforce
  let ?A = "case x of OpApprove k \<Rightarrow> insert k A | _ \<Rightarrow> A"
  have "approved_within S (?A \<union> approvals xs) (run_ops S xs (inc_step S E x st))"
    by (rule Cons.IH) (use inc_step_within [OF Cons.prems(1) _ assms(3)] Cons.prems(2) y in auto)
  moreover have "?A \<union> approvals xs \<subseteq> A \<union> approvals (y # xs)"
    by (auto simp: approvals_def y split: inc_op.splits)
  ultimately show ?case using approved_within_mono by (simp add: y) blast
qed (simp add: approvals_def)

section \<open>Operations as updates of a map\<close>

text \<open>A card a reload gives back unchanged: encodable, short enough, normalised, valid and masked.\<close>

definition stable_card :: "'re store \<Rightarrow> card \<Rightarrow> bool" where
  "stable_card S c \<longleftrightarrow>
     card_wire (so_enc S) (so_dec S) c \<and>
     (case so_enc S c of None \<Rightarrow> False | Some b \<Rightarrow> length b < max_card_line) \<and>
     stored_id (cd_id c) \<and> valid_status (cd_status c) \<and> normalize_card (so_uni S) c = c \<and>
     validate_card (so_uni S) c = [] \<and> mask_card S c = c"

definition disk_cards :: "'re store \<Rightarrow> inc_state \<Rightarrow> card gomap" where
  "disk_cards S st = (case gm_get (is_files st) (so_path S) of None \<Rightarrow> [] | Some b \<Rightarrow> parse_cards S b)"

definition coherent :: "'re store \<Rightarrow> inc_state \<Rightarrow> bool" where
  "coherent S st \<longleftrightarrow>
     (case file_info S st of
        None \<Rightarrow> True
      | Some info \<Rightarrow>
          (case cached_cards S info st of
             None \<Rightarrow> True
           | Some cs \<Rightarrow> cards_ok cs \<and> map_of cs = map_of (disk_cards S st)))"

lemma encode_stable:
  "\<forall>c \<in> set cs. stable_card S c \<Longrightarrow> \<exists>b. encode_cards (so_enc S) cs = (b, True)"
  by (induction cs) (auto simp: stable_card_def split: option.splits)

lemma load_encoded_stable:
  "\<forall>c \<in> set cs. stable_card S c \<Longrightarrow> encode_cards (so_enc S) cs = (b, True) \<Longrightarrow>
     load_lines S n (raw_lines b) out = fold (\<lambda>(k, c). gm_put k c) (map (\<lambda>c. (cd_id c, c)) cs) out"
proof (induction cs arbitrary: b n out)
  case (Cons c0 cs)
  obtain b0 r where b0: "so_enc S c0 = Some b0" "encode_cards (so_enc S) cs = (r, True)" "b = b0 @ newline # r"
    using Cons.prems(2) by (auto split: option.splits prod.splits)
  have ok: "card_wire (so_enc S) (so_dec S) c0" "stored_id (cd_id c0)" "length b0 < max_card_line"
      "valid_status (cd_status c0)" "normalize_card (so_uni S) c0 = c0" "validate_card (so_uni S) c0 = []"
      "mask_card S c0 = c0"
    using Cons.prems(1) b0(1) by (simp_all add: stable_card_def)
  have "load_line S n (b0 @ [newline]) = Some c0"
    using load_line_encoded(2) [OF ok(1) b0(1) ok(2)] ok by blast
  then show ?case
    using Cons.IH [of r] Cons.prems(1) b0 card_wireD(2) [OF ok(1) b0(1)] by (simp add: raw_lines_append)
qed simp

lemma parse_encoded:
  assumes "cards_ok cards" "\<forall>c \<in> snd ` set cards. stable_card S c"
    and "encode_cards (so_enc S) (sort_key cd_id (map snd cards)) = (b, True)"
  shows "map_of (parse_cards S b) = map_of cards"
proof -
  let ?cs = "sort_key cd_id (map snd cards)"
  let ?kv = "map (\<lambda>c. (cd_id c, c)) ?cs"
  have k: "\<forall>(k, c) \<in> set cards. cd_id c = k" "distinct (map fst cards)"
    using assms(1) by (auto simp: cards_ok_def gm_wf_def)
  have p: "parse_cards S b = fold (\<lambda>(k, c). gm_put k c) ?kv []"
    unfolding parse_cards_def by (rule load_encoded_stable) (use assms(2,3) in auto)
  have s: "set ?kv = set cards" using k(1) by force
  have kf: "map cd_id (map snd cards) = map fst cards" using k(1) by auto
  have kv: "map fst ?kv = map cd_id ?cs" by simp
  have d: "distinct (map fst ?kv)"
    unfolding kv using k(2) distinct_map_sort_key [of cd_id "map snd cards"] unfolding kf by simp
  have "map_of (parse_cards S b) = map_of (rev ?kv)"
    unfolding p by (rule ext) (simp only: map_of_fold_put map_of.simps option.case_eq_if split: option.splits, simp)
  also have "\<dots> = map_of cards"
    using map_of_inject_set [of "rev ?kv" cards] d k(2) s by (simp add: rev_map distinct_rev flip: rev_map)
  finally show ?thesis .
qed

lemma load_cards_coherent:
  assumes "load_cards S E st = (Inr cards, st')" "coherent S st"
  shows "cards_ok cards" "map_of cards = map_of (disk_cards S st)" "is_files st' = is_files st" "coherent S st'"
proof -
  have "cards_ok cards \<and> map_of cards = map_of (disk_cards S st) \<and> is_files st' = is_files st \<and> coherent S st'"
  proof (cases "gm_get (is_files st) (so_path S)")
    case None
    then show ?thesis
      using assms by (auto simp: load_cards_def file_info_def disk_cards_def cards_ok_def coherent_def split: if_splits)
  next
    case (Some b)
    then obtain info where i: "file_info S st = Some info" by (simp add: file_info_def)
    show ?thesis
    proof (cases "cached_cards S info st")
      case None
      then have c: "cards = parse_cards S b"
          "st' = (if oe_same E then store_cached_cards S info (parse_cards S b) st else st)"
        using assms(1) i Some by (auto simp: load_cards_def Let_def split: if_splits)
      moreover have "coherent S (store_cached_cards S info (parse_cards S b) st)"
        using Some i by (auto simp: coherent_def store_cached_cards_def file_info_def cached_cards_def
            disk_cards_def gm_get_put split: option.splits)
      ultimately show ?thesis using Some assms(2) by (auto simp: disk_cards_def store_cached_cards_def)
    next
      case cc: (Some cs)
      then have "cards = cs" "st' = st" using assms(1) i Some by (auto simp: load_cards_def split: if_splits)
      then show ?thesis using assms(2) i cc by (auto simp: coherent_def)
    qed
  qed
  then show "cards_ok cards" "map_of cards = map_of (disk_cards S st)" "is_files st' = is_files st" "coherent S st'"
    by auto
qed

lemma rewrite_refines:
  assumes r: "rewrite_cards S E cards st = (r, st')" and c: "coherent S st"
    and ok: "cards_ok cards" "\<forall>c \<in> snd ` set cards. stable_card S c"
    and fresh: "oe_restat E \<or> cached_cards S (oe_mtime E, n) st = None"
    and n: "n = length (fst (encode_cards (so_enc S) (sort_key cd_id (map snd cards))))"
  shows "map_of (disk_cards S st') = (if r = None then map_of cards else map_of (disk_cards S st))"
    and "coherent S st'"
proof -
  have "map_of (disk_cards S st') = (if r = None then map_of cards else map_of (disk_cards S st)) \<and> coherent S st'"
  proof (cases r)
    case (Some e)
    then have same: "gm_get (is_files st') (so_path S) = gm_get (is_files st) (so_path S)"
        "is_cache st' = is_cache st" "is_times st' = is_times st"
      using rewrite_cards_shape [OF r] by auto
    have eqs: "file_info S st' = file_info S st" "disk_cards S st' = disk_cards S st"
        "\<And>info. cached_cards S info st' = cached_cards S info st"
      unfolding disk_cards_def file_info_def cached_cards_def same by (rule refl)+
    show ?thesis using c Some unfolding coherent_def eqs by simp
  next
    case None
    then obtain b where b: "encode_cards (so_enc S) (sort_key cd_id (map snd cards)) = (b, True)"
        "gm_get (is_files st') (so_path S) = Some b"
        "is_times st' = gm_put (so_path S) (oe_mtime E) (is_times st)"
        "is_cache st' = (if oe_restat E then gm_put (cache_key S) (oe_mtime E, length b, cards) (is_cache st)
            else is_cache st)"
      using rewrite_cards_shape [OF r] by auto
    note p = parse_encoded [OF ok b(1)]
    have "file_info S st' = Some (oe_mtime E, length b)" using b(2,3) by (simp add: file_info_def gm_get_put)
    moreover have "cached_cards S (oe_mtime E, length b) st' = (if oe_restat E then Some cards else None)"
      using b(4) fresh n b(1) by (auto simp: cached_cards_def gm_get_put)
    ultimately show ?thesis using None b(2) p ok(1) by (simp add: disk_cards_def coherent_def)
  qed
  then show "map_of (disk_cards S st') = (if r = None then map_of cards else map_of (disk_cards S st))" "coherent S st'"
    by auto
qed

text \<open>The conditions under which one call acts on the map: what it writes is stable, and either the file
  can be inspected after the rename or the cache does not hold an entry that would pass for the new
  file.\<close>

definition write_ok :: "'re store \<Rightarrow> op_env \<Rightarrow> inc_state \<Rightarrow> card \<Rightarrow> bool" where
  "write_ok S E st c \<longleftrightarrow>
     stable_card S c \<and> list_all (\<lambda>(k, c). stable_card S c) (disk_cards S st) \<and> oe_restat E"

lemma stable_cards:
  assumes "cards_ok cards" "map_of cards = map_of (disk_cards S st)" "write_ok S E st c"
  shows "\<forall>d \<in> snd ` set (gm_put k c cards). stable_card S d"
proof -
  have "stable_card S d" if "(j, d) \<in> set cards" for j d
  proof -
    have "map_of cards j = Some d" using that assms(1) by (simp add: cards_ok_def gm_wf_def)
    then have "(j, d) \<in> set (disk_cards S st)" unfolding assms(2) by (rule map_of_SomeD)
    then show ?thesis using assms(3) by (auto simp: write_ok_def list_all_iff)
  qed
  then show ?thesis using assms(3) set_gm_put_subset [of k c cards] by (fastforce simp: write_ok_def)
qed

lemma create_refines:
  assumes "create_candidate S E c0 st = (Inr c, st')" "coherent S st" "write_ok S E st c"
  shows "cd_status c = StatusCandidate \<and> map_of (disk_cards S st) (cd_id c) = None \<and>
     map_of (disk_cards S st') = (map_of (disk_cards S st))(cd_id c \<mapsto> c) \<and> coherent S st'"
  using assms(1)
proof (cases rule: create_candidate_cases)
  case (3 cards st1 c1 r2)
  then have r2: "r2 = None" "c1 = c" by (auto split: option.splits)
  note l = load_cards_coherent [OF 3(1) assms(2)]
  have st1: "disk_cards S st1 = disk_cards S st" by (simp add: disk_cards_def l(3))
  have sc: "stored_id (cd_id c)" "valid_status (cd_status c)" using assms(3) by (simp_all add: write_ok_def stable_card_def)
  have "cards_ok (gm_put (cd_id c) c cards)" by (rule cards_ok_put [OF l(1) sc])
  then have "map_of (disk_cards S st') = map_of (gm_put (cd_id c) c cards) \<and> coherent S st'"
    using rewrite_refines [OF 3(5) l(4), OF _ _ _ refl] stable_cards [OF l(1,2) assms(3)] assms(3) r2
    by (auto simp: write_ok_def)
  moreover have "map_of (gm_put (cd_id c) c cards) = (map_of (disk_cards S st))(cd_id c \<mapsto> c)"
    by (simp add: update_conv' l(2))
  ultimately show ?thesis using 3(2,4) l(2) r2 by simp
qed auto

lemma set_status_refines:
  assumes "set_status S E k status st = (Inr c, st')" "coherent S st" "write_ok S E st c"
  shows "\<exists>c0. map_of (disk_cards S st) k = Some c0 \<and> c = c0\<lparr>cd_status := status, cd_updated := oe_now E\<rparr> \<and>
     map_of (disk_cards S st') = (map_of (disk_cards S st))(k \<mapsto> c) \<and> coherent S st'"
  using assms(1)
proof (cases rule: set_status_cases)
  case (3 cards st1 c0 r2)
  then have r2: "r2 = None" "c = c0\<lparr>cd_status := status, cd_updated := oe_now E\<rparr>" by (auto split: option.splits)
  note l = load_cards_coherent [OF 3(1) assms(2)]
  have sc: "stored_id (cd_id c)" "valid_status (cd_status c)" using assms(3) by (simp_all add: write_ok_def stable_card_def)
  have k: "cd_id c = k" using cards_okD [OF l(1) 3(2)] r2(2) by simp
  then have "cards_ok (gm_put k c cards)" using cards_ok_put [OF l(1) sc] by simp
  then have "map_of (disk_cards S st') = map_of (gm_put k c cards) \<and> coherent S st'"
    using rewrite_refines [OF 3(4) l(4), OF _ _ _ refl] stable_cards [OF l(1,2) assms(3)] assms(3) r2
    by (auto simp: write_ok_def)
  moreover have "map_of (gm_put k c cards) = (map_of (disk_cards S st))(k \<mapsto> c)"
    by (simp add: update_conv' l(2))
  ultimately show ?thesis using 3(2) l(2) r2(2) by metis
qed auto

lemma load_keeps_coherent:
  assumes "load_cards S E st = (r, st')" "coherent S st"
  shows "coherent S st'"
proof (cases r)
  case (Inl e)
  then show ?thesis using assms by (auto elim!: load_cards_cases)
next
  case (Inr cards)
  then show ?thesis using load_cards_coherent(4) assms by blast
qed

lemma load_keeps_disk:
  assumes "load_cards S E st = (r, st')" "coherent S st"
  shows "disk_cards S st' = disk_cards S st"
proof (cases r)
  case (Inl e)
  then show ?thesis using assms by (auto elim!: load_cards_cases)
next
  case (Inr cards)
  then have "is_files st' = is_files st" using load_cards_coherent(3) [OF _ assms(2)] assms(1) by blast
  then show ?thesis by (simp add: disk_cards_def)
qed

lemma failed_op_keeps:
  assumes "create_candidate S E c0 st = (Inl e, st') \<or> set_status S E k status st = (Inl e, st')" "coherent S st"
  shows "map_of (disk_cards S st') = map_of (disk_cards S st)"
proof -
  note ld = load_keeps_disk [OF _ assms(2)]
  have rw: "disk_cards S st' = disk_cards S st1" if "rewrite_cards S E cards st1 = (Some err, st')" for cards st1 err
    using rewrite_cards_shape [OF that] by (simp add: disk_cards_def)
  show ?thesis
    using assms(1)
  proof
    assume "create_candidate S E c0 st = (Inl e, st')"
    then show ?thesis
    proof (cases rule: create_candidate_cases)
      case (3 cards st1 c r2)
      then obtain err where "r2 = Some err" by (auto split: option.splits)
      then show ?thesis using rw 3(5) ld [OF 3(1)] by simp
    qed (use ld in auto)
  next
    assume "set_status S E k status st = (Inl e, st')"
    then show ?thesis
    proof (cases rule: set_status_cases)
      case (3 cards st1 c r2)
      then obtain err where "r2 = Some err" by (auto split: option.splits)
      then show ?thesis using rw 3(4) ld [OF 3(1)] by simp
    qed (use ld in auto)
  qed
qed

section \<open>The contract\<close>

text \<open>Every operation with its answer; a single card is a list of one.\<close>

definition inc_call :: "'re store \<Rightarrow> op_env \<Rightarrow> inc_op \<Rightarrow> inc_state \<Rightarrow> (inc_error + card list) \<times> inc_state" where
  "inc_call S E x st =
     (let one = apfst (map_sum id (\<lambda>c. [c])) in
      case x of
        OpCreate c \<Rightarrow> one (create_candidate S E c st)
      | OpApprove k \<Rightarrow> one (approve_card S E k st)
      | OpReject k \<Rightarrow> one (reject_card S E k st)
      | OpGet k \<Rightarrow> one (get_card S E k st)
      | OpList \<Rightarrow> list_cards S E st)"

lemma inc_step_call: "inc_step S E x st = snd (inc_call S E x st)"
  by (simp add: inc_step_def inc_call_def split: inc_op.splits)

text \<open>What a call that succeeds promises of the map of cards before (\<open>D\<close>) and after (\<open>D'\<close>) it.\<close>

definition newer :: "card \<Rightarrow> card \<Rightarrow> bool" where
  "newer a b \<longleftrightarrow> cd_created b < cd_created a \<or> cd_created a = cd_created b \<and> cd_id a \<le> cd_id b"

definition store_spec ::
    "gotime \<Rightarrow> inc_op \<Rightarrow> card list \<Rightarrow> (string \<Rightarrow> card option) \<Rightarrow> (string \<Rightarrow> card option) \<Rightarrow> bool" where
  "store_spec t x out D D' \<longleftrightarrow>
     (case x of
        OpCreate _ \<Rightarrow> \<exists>c. out = [c] \<and> cd_status c = StatusCandidate \<and> D (cd_id c) = None \<and> D' = D(cd_id c \<mapsto> c)
      | OpApprove k \<Rightarrow> \<exists>c. D k = Some c \<and> out = [c\<lparr>cd_status := StatusApproved, cd_updated := t\<rparr>] \<and> D' = D(k \<mapsto> hd out)
      | OpReject k \<Rightarrow> \<exists>c. D k = Some c \<and> out = [c\<lparr>cd_status := StatusRejected, cd_updated := t\<rparr>] \<and> D' = D(k \<mapsto> hd out)
      | OpGet k \<Rightarrow> \<exists>c. D k = Some c \<and> out = [c] \<and> D' = D
      | OpList \<Rightarrow> set out = ran D \<and> distinct out \<and> sorted_wrt newer out \<and> D' = D)"

lemma rewrite_failed_coherent:
  assumes "rewrite_cards S E cards st = (Some e, st')" "coherent S st"
  shows "coherent S st'"
proof -
  have same: "gm_get (is_files st') (so_path S) = gm_get (is_files st) (so_path S)"
      "is_cache st' = is_cache st" "is_times st' = is_times st"
    using rewrite_cards_shape [OF assms(1)] by auto
  have eqs: "file_info S st' = file_info S st" "disk_cards S st' = disk_cards S st"
      "\<And>info. cached_cards S info st' = cached_cards S info st"
    unfolding disk_cards_def file_info_def cached_cards_def same by (rule refl)+
  show ?thesis using assms(2) unfolding coherent_def eqs .
qed

lemma failed_op_coherent:
  assumes "create_candidate S E c0 st = (Inl e, st') \<or> set_status S E k status st = (Inl e, st')" "coherent S st"
  shows "coherent S st'"
  using assms(1)
proof
  assume "create_candidate S E c0 st = (Inl e, st')"
  then show ?thesis
  proof (cases rule: create_candidate_cases)
    case (3 cards st1 c r2)
    then obtain err where "r2 = Some err" by (auto split: option.splits)
    then show ?thesis using rewrite_failed_coherent 3(5) load_keeps_coherent [OF 3(1) assms(2)] by blast
  qed (use assms(2) load_keeps_coherent in auto)
next
  assume "set_status S E k status st = (Inl e, st')"
  then show ?thesis
  proof (cases rule: set_status_cases)
    case (3 cards st1 c r2)
    then obtain err where "r2 = Some err" by (auto split: option.splits)
    then show ?thesis using rewrite_failed_coherent 3(4) load_keeps_coherent [OF 3(1) assms(2)] by blast
  qed (use assms(2) load_keeps_coherent in auto)
qed

lemma list_cards_spec:
  assumes "list_cards S E st = (Inr out, st')" "coherent S st"
  shows "set out = ran (map_of (disk_cards S st)) \<and> distinct out \<and> sorted_wrt newer out"
proof -
  obtain cards where l: "load_cards S E st = (Inr cards, st')"
      and out: "out = sort_key (\<lambda>c. - cd_created c) (sort_key cd_id (map snd cards))"
    using assms(1) by (auto simp: list_cards_def split: prod.splits sum.splits)
  note c = load_cards_coherent [OF l assms(2)]
  have k: "map cd_id (map snd cards) = map fst cards" "distinct (map fst cards)"
    using c(1) by (auto simp: cards_ok_def gm_wf_def)
  have "sorted_wrt (\<lambda>a b. - cd_created a < - cd_created b \<or> - cd_created a = - cd_created b \<and> cd_id a \<le> cd_id b) out"
    unfolding out by (rule sort_key_lex) simp
  then have "sorted_wrt newer out" by (rule sorted_wrt_mono_rel [rotated]) (auto simp: newer_def)
  moreover have "distinct (map snd cards)" using k by (metis distinct_map)
  then have "distinct out" by (simp add: out)
  moreover have "set out = ran (map_of (disk_cards S st))"
    using ran_distinct [OF k(2)] by (simp add: out flip: c(2))
  ultimately show ?thesis by blast
qed

lemma inc_call_failed:
  assumes "inc_call S E x st = (Inl e, st')" "coherent S st"
  shows "map_of (disk_cards S st') = map_of (disk_cards S st) \<and> coherent S st'"
proof (cases x)
  case (OpCreate c)
  then have "create_candidate S E c st = (Inl e, st')"
    using assms(1) by (cases "create_candidate S E c st") (auto simp: inc_call_def Let_def map_sum_def split: sum.splits)
  then show ?thesis using failed_op_keeps failed_op_coherent assms(2) by blast
next
  case (OpApprove k)
  then have "set_status S E k StatusApproved st = (Inl e, st')"
    using assms(1) by (cases "set_status S E k StatusApproved st")
      (auto simp: inc_call_def approve_card_def map_sum_def split: sum.splits)
  then show ?thesis using failed_op_keeps failed_op_coherent assms(2) by blast
next
  case (OpReject k)
  then have "set_status S E k StatusRejected st = (Inl e, st')"
    using assms(1) by (cases "set_status S E k StatusRejected st")
      (auto simp: inc_call_def reject_card_def map_sum_def split: sum.splits)
  then show ?thesis using failed_op_keeps failed_op_coherent assms(2) by blast
next
  case (OpGet k)
  then obtain r where "load_cards S E st = (r, st')"
    using assms(1) by (auto simp: inc_call_def get_card_def map_sum_def split: prod.splits sum.splits option.splits)
  then show ?thesis using load_keeps_disk load_keeps_coherent assms(2) by metis
next
  case OpList
  then obtain r where "load_cards S E st = (r, st')"
    using assms(1) by (auto simp: inc_call_def list_cards_def split: prod.splits sum.splits)
  then show ?thesis using load_keeps_disk load_keeps_coherent assms(2) by metis
qed

lemma inc_call_refines:
  assumes "inc_call S E x st = (Inr out, st')" "coherent S st"
    and ok: "\<And>c. out = [c] \<Longrightarrow> (\<forall>k. x \<noteq> OpGet k) \<Longrightarrow> x \<noteq> OpList \<Longrightarrow> write_ok S E st c"
  shows "store_spec (oe_now E) x out (map_of (disk_cards S st)) (map_of (disk_cards S st')) \<and> coherent S st'"
proof (cases x)
  case (OpCreate c0)
  then obtain c where c: "out = [c]" "create_candidate S E c0 st = (Inr c, st')"
    using assms(1) by (cases "create_candidate S E c0 st") (auto simp: inc_call_def map_sum_def split: sum.splits)
  show ?thesis using create_refines [OF c(2) assms(2)] ok c(1) OpCreate by (simp add: store_spec_def)
next
  case (OpApprove k)
  then obtain c where c: "out = [c]" "set_status S E k StatusApproved st = (Inr c, st')"
    using assms(1) by (cases "set_status S E k StatusApproved st")
      (auto simp: inc_call_def approve_card_def map_sum_def split: sum.splits)
  show ?thesis using set_status_refines [OF c(2) assms(2)] ok c(1) OpApprove by (auto simp: store_spec_def)
next
  case (OpReject k)
  then obtain c where c: "out = [c]" "set_status S E k StatusRejected st = (Inr c, st')"
    using assms(1) by (cases "set_status S E k StatusRejected st")
      (auto simp: inc_call_def reject_card_def map_sum_def split: sum.splits)
  show ?thesis using set_status_refines [OF c(2) assms(2)] ok c(1) OpReject by (auto simp: store_spec_def)
next
  case (OpGet k)
  then obtain cards c where l: "load_cards S E st = (Inr cards, st')" "gm_get cards k = Some c" "out = [c]"
    using assms(1) by (auto simp: inc_call_def get_card_def map_sum_def split: prod.splits sum.splits option.splits)
  then have "map_of (disk_cards S st) k = Some c" using load_cards_coherent(2) [OF l(1) assms(2)] by simp
  moreover note load_keeps_disk [OF l(1) assms(2)] load_keeps_coherent [OF l(1) assms(2)]
  ultimately show ?thesis using OpGet l(3) by (simp add: store_spec_def)
next
  case OpList
  then have l: "list_cards S E st = (Inr out, st')" using assms(1) by (simp add: inc_call_def)
  then obtain cards where c: "load_cards S E st = (Inr cards, st')"
    by (auto simp: list_cards_def split: prod.splits sum.splits)
  show ?thesis
    using list_cards_spec [OF l assms(2)] load_keeps_disk [OF c assms(2)] load_keeps_coherent [OF c assms(2)] OpList
    by (simp add: store_spec_def)
qed

end
