(* ===== verification/Incident_Retrieve.thy ===== *)
theory Incident_Retrieve
  imports Incident_Claims "HOL-Library.Multiset"
begin

text \<open>
  Retrieval of similar incidents (\<open>internal/incidentmemory/retrieve.go\<close>) and the text injected into
  the system prompt (\<open>internal/core/agent/incident_memory.go\<close>). The lemmas show which cases are
  returned (filter, positive score, order, limit, and that no better case is left out) and bound the
  rendered text.
\<close>

record query =
  q_service :: string
  q_symptoms :: "string list"
  q_signals :: "string list"
  q_tags :: "string list"
  q_text :: string

record retrieve_opts =
  ro_candidates :: bool
  ro_rejected :: bool
  ro_limit :: int

record similar =
  si_card :: card
  si_score :: nat
  si_reasons :: "string list"
  si_notes :: string

definition query_from_text :: "string \<Rightarrow> query" where
  "query_from_text t = \<lparr>q_service = [], q_symptoms = [], q_signals = [], q_tags = [], q_text = t\<rparr>"

section \<open>Scoring\<close>

definition token_set :: "unicode \<Rightarrow> string list \<Rightarrow> string list" where
  "token_set u vs =
     filter (\<lambda>t. 3 \<le> length t)
       (concat (map (\<lambda>v. fields_func (\<lambda>r. \<not> (alnum_rune u r \<or> r = 45 \<or> r = 95)) (to_lower u v)) vs))"

definition overlap_tokens :: "string list \<Rightarrow> string list \<Rightarrow> string list" where
  "overlap_tokens a b = sort (remdups (filter (\<lambda>t. t \<in> set b) a))"

definition add_overlap ::
    "unicode \<Rightarrow> string list \<Rightarrow> string \<Rightarrow> string list \<Rightarrow> nat \<Rightarrow> nat \<times> string list \<Rightarrow> nat \<times> string list" where
  "add_overlap u qtoks label vs weight acc =
     (let ov = overlap_tokens qtoks (token_set u vs) in
      if ov = [] then acc
      else (fst acc + length ov * weight, snd acc @ [label @ '' overlap: '' @ join ov '', '']))"

definition query_tokens :: "unicode \<Rightarrow> query \<Rightarrow> string list" where
  "query_tokens u q = token_set u (q_symptoms q @ q_signals q @ q_tags q @ [q_text q])"

definition score_case :: "unicode \<Rightarrow> card \<Rightarrow> query \<Rightarrow> similar" where
  "score_case u c q =
     (let service = to_lower u (trim_space (q_service q));
          start = (if service \<noteq> [] \<and> service = to_lower u (cd_service c)
                   then (5, [''same affected service'']) else (0, []));
          qt = query_tokens u q;
          acc = add_overlap u qt ''service'' [cd_service c] 2
                 (add_overlap u qt ''tag'' (cd_tags c) 1
                   (add_overlap u qt ''signal'' (cd_signals c) 2
                     (add_overlap u qt ''symptom'' (cd_symptoms c) 3 start)))
      in \<lparr>si_card = c, si_score = fst acc, si_reasons = snd acc, si_notes = cd_different c\<rparr>)"

section \<open>Retrieval\<close>

definition admitted :: "retrieve_opts \<Rightarrow> card \<Rightarrow> bool" where
  "admitted ro c \<longleftrightarrow>
     \<not> (cd_status c = StatusRejected \<and> \<not> ro_rejected ro) \<and>
     \<not> (cd_status c = StatusCandidate \<and> \<not> ro_candidates ro) \<and>
     \<not> (cd_status c \<noteq> StatusApproved \<and> \<not> ro_candidates ro \<and> \<not> ro_rejected ro)"

definition effective_limit :: "retrieve_opts \<Rightarrow> nat" where
  "effective_limit ro = nat (if ro_limit ro \<le> 0 then 3 else ro_limit ro)"

text \<open>\<open>sort.Slice\<close> orders by score, then by creation time; \<open>shuffle\<close> is the order it leaves equal cases in.\<close>

definition rank_cases :: "(similar list \<Rightarrow> similar list) \<Rightarrow> similar list \<Rightarrow> similar list" where
  "rank_cases shuffle cs =
     sort_key (\<lambda>s. - int (si_score s)) (sort_key (\<lambda>s. - cd_created (si_card s)) (shuffle cs))"

definition retrieve ::
    "(similar list \<Rightarrow> similar list) \<Rightarrow> 're store \<Rightarrow> op_env \<Rightarrow> query \<Rightarrow> retrieve_opts \<Rightarrow> inc_state
     \<Rightarrow> (inc_error + similar list) \<times> inc_state" where
  "retrieve shuffle S E q ro st =
     (case list_cards S E st of
        (Inl e, st1) \<Rightarrow> (Inl e, st1)
      | (Inr cards, st1) \<Rightarrow>
          (Inr (take (effective_limit ro)
             (rank_cases shuffle
               (filter (\<lambda>s. si_score s \<noteq> 0) (map (\<lambda>c. score_case (so_uni S) c q) (filter (admitted ro) cards))))),
           st1))"

section \<open>Rendering\<close>

definition valid_string :: "string \<Rightarrow> bool" where
  "valid_string s \<longleftrightarrow> list_all (\<lambda>(r, b). \<not> (r = rune_error \<and> length b = 1)) (runes_of s)"

fun shrink_valid :: "string \<Rightarrow> nat \<Rightarrow> string" where
  "shrink_valid s 0 = []"
| "shrink_valid s (Suc n) = (if valid_string (take (Suc n) s) then take (Suc n) s else shrink_valid s n)"

definition truncate_utf8 :: "string \<Rightarrow> nat \<Rightarrow> string" where
  "truncate_utf8 s n = (if n = 0 \<or> length s \<le> n then s else shrink_valid s n)"

definition incident_line :: "string \<Rightarrow> string \<Rightarrow> string" where
  "incident_line label v = ''  '' @ label @ '': '' @ v @ [newline]"

text \<open>\<open>f2\<close> is the verb \<open>%.2f\<close>.\<close>

definition render_case :: "(real \<Rightarrow> string) \<Rightarrow> similar \<Rightarrow> string" where
  "render_case f2 sc =
     (let c = si_card sc in
      [newline] @ ''- '' @ cd_id c @ '' ('' @ cd_cause_status c @ '', confidence '' @ f2 (cd_confidence c) @ '')'' @ [newline] @
      incident_line ''service'' (cd_service c) @
      (if cd_symptoms c \<noteq> [] then incident_line ''symptoms'' (join (cd_symptoms c) ''; '') else []) @
      (if cd_signals c \<noteq> [] then incident_line ''signals'' (join (cd_signals c) ''; '') else []) @
      (if cd_cause c \<noteq> [] then incident_line ''prior cause'' (cd_cause c) else []) @
      (if cd_fix c \<noteq> [] then incident_line ''prior fix or mitigation'' (cd_fix c) else []) @
      (if si_reasons sc \<noteq> [] then incident_line ''similarity reasons'' (join (si_reasons sc) ''; '') else []) @
      (if si_notes sc \<noteq> [] then incident_line ''what was different'' (si_notes sc) else []) @
      (if src_type (cd_source c) \<noteq> []
       then incident_line ''source'' (src_type (cd_source c) @ '' '' @ src_id (cd_source c) @ '' '' @ src_ref (cd_source c))
       else []))"

fun render_cases :: "(real \<Rightarrow> string) \<Rightarrow> nat \<Rightarrow> string \<Rightarrow> similar list \<Rightarrow> string" where
  "render_cases f2 mx acc [] = acc"
| "render_cases f2 mx acc (sc # scs) =
     (let acc' = acc @ render_case f2 sc in if mx \<le> length acc' then acc' else render_cases f2 mx acc' scs)"

definition incident_intro :: string where
  "incident_intro =
     ''## Prior similar incident cases'' @ [newline] @
     ''These approved local case cards are references only. They are not proof of the current root cause; re-check live signals before diagnosing.'' @ [newline]"

definition truncation_mark :: string where
  "truncation_mark = [newline] @ ''...[incident memory truncated]...''"

definition render_incidents_raw :: "(real \<Rightarrow> string) \<Rightarrow> similar list \<Rightarrow> nat \<Rightarrow> nat \<Rightarrow> string" where
  "render_incidents_raw f2 cases mc mx =
     (let out = render_cases f2 mx incident_intro (take mc cases) in
      trim_space
        (if length out > mx
         then (let cut = truncate_utf8 out mx in
               (case last_index_byte cut newline of Some i \<Rightarrow> if i > 0 then take i cut else cut | None \<Rightarrow> cut)
               @ truncation_mark)
         else out))"

definition render_incident_prompt ::
    "'re codec \<Rightarrow> (real \<Rightarrow> string) \<Rightarrow> similar list \<Rightarrow> profile option \<Rightarrow> int \<Rightarrow> int \<Rightarrow> string" where
  "render_incident_prompt C f2 cases p max_cases max_bytes =
     (if cases = [] then []
      else mask_text C (masker_or_default C p)
        (render_incidents_raw f2 cases (nat (if max_cases \<le> 0 then 3 else max_cases))
          (nat (if max_bytes \<le> 0 then 4096 else max_bytes))))"

definition build_incident_prompt ::
    "'re codec \<Rightarrow> (real \<Rightarrow> string) \<Rightarrow> (similar list \<Rightarrow> similar list) \<Rightarrow> 're store \<Rightarrow> op_env \<Rightarrow> string \<Rightarrow> profile option
     \<Rightarrow> inc_state \<Rightarrow> (inc_error + string) \<times> inc_state" where
  "build_incident_prompt C f2 shuffle S E txt p st =
     (case retrieve shuffle S E (query_from_text txt) \<lparr>ro_candidates = False, ro_rejected = False, ro_limit = 3\<rparr> st of
        (Inl e, st1) \<Rightarrow> (Inl e, st1)
      | (Inr cases, st1) \<Rightarrow> (Inr (render_incident_prompt C f2 cases p 3 4096), st1))"

section \<open>Order\<close>

lemma sorted_wrt_take_drop: "sorted_wrt R xs \<Longrightarrow> a \<in> set (take k xs) \<Longrightarrow> b \<in> set (drop k xs) \<Longrightarrow> R a b"
  by (metis append_take_drop_id sorted_wrt_append)

lemma mset_eq_setD': "mset xs = mset ys \<Longrightarrow> set xs = set ys"
  by (metis set_mset_mset)

section \<open>The score\<close>

text \<open>The score as a weighted sum over sets of tokens.\<close>

lemma length_overlap: "length (overlap_tokens a b) = card (set a \<inter> set b)"
proof -
  have "set (filter (\<lambda>t. t \<in> set b) a) = set a \<inter> set b" by auto
  then show ?thesis unfolding overlap_tokens_def length_sort by (simp add: length_remdups_card_conv)
qed

lemma overlap_Nil: "overlap_tokens a b = [] \<longleftrightarrow> card (set a \<inter> set b) = 0"
  by (metis length_0_conv length_overlap)

definition common :: "unicode \<Rightarrow> query \<Rightarrow> string list \<Rightarrow> nat" where
  "common u q vs = card (set (query_tokens u q) \<inter> set (token_set u vs))"

definition same_service :: "unicode \<Rightarrow> card \<Rightarrow> query \<Rightarrow> bool" where
  "same_service u c q \<longleftrightarrow>
     to_lower u (trim_space (q_service q)) \<noteq> [] \<and> to_lower u (trim_space (q_service q)) = to_lower u (cd_service c)"

lemma add_overlap_score: "fst (add_overlap u qt label vs w acc) = fst acc + w * card (set qt \<inter> set (token_set u vs))"
  by (simp add: add_overlap_def Let_def overlap_Nil length_overlap)

lemma score_case_sum:
  "si_score (score_case u c q) =
     (if same_service u c q then 5 else 0) + 3 * common u q (cd_symptoms c) + 2 * common u q (cd_signals c)
     + common u q (cd_tags c) + 2 * common u q [cd_service c]"
  by (simp add: score_case_def Let_def add_overlap_score common_def same_service_def)

section \<open>The size of the injected text\<close>

lemma shrink_valid_length: "length (shrink_valid s n) \<le> n"
  by (induction n) auto

lemma shrink_valid_prefix: "prefix (shrink_valid s n) s"
  by (induction n) (auto simp: take_is_prefix)

lemma render_incidents_bound: "0 < mx \<Longrightarrow> length (render_incidents_raw f2 cases mc mx) \<le> mx + length truncation_mark"
proof -
  assume mx: "0 < mx"
  let ?out = "render_cases f2 mx incident_intro (take mc cases)"
  show ?thesis
  proof (cases "mx < length ?out")
    case True
    define cut where "cut = truncate_utf8 ?out mx"
    define body where "body = (case last_index_byte cut newline of Some i \<Rightarrow> if i > 0 then take i cut else cut | None \<Rightarrow> cut)"
    have "length cut \<le> mx" using True mx shrink_valid_length [of ?out mx] by (simp add: cut_def truncate_utf8_def)
    then have "length (body @ truncation_mark) \<le> mx + length truncation_mark"
      by (auto simp: body_def split: option.splits)
    moreover have "render_incidents_raw f2 cases mc mx = trim_space (body @ truncation_mark)"
      using True unfolding render_incidents_raw_def Let_def cut_def body_def by simp
    ultimately show ?thesis using le_trans [OF trim_space_length] by metis
  next
    case False
    then show ?thesis using trim_space_length [of ?out] by (simp add: render_incidents_raw_def Let_def)
  qed
qed

section \<open>What is retrieved\<close>

text \<open>\<open>better a b\<close>: the order of the result.\<close>

definition better :: "similar \<Rightarrow> similar \<Rightarrow> bool" where
  "better a b \<longleftrightarrow>
     si_score b < si_score a \<or> si_score a = si_score b \<and> cd_created (si_card b) \<le> cd_created (si_card a)"

lemma rank_cases_sorted: "sorted_wrt better (rank_cases shuffle cs)"
proof -
  have "sorted_wrt (\<lambda>a b. - int (si_score a) < - int (si_score b) \<or>
      - int (si_score a) = - int (si_score b) \<and> - cd_created (si_card a) \<le> - cd_created (si_card b))
    (rank_cases shuffle cs)"
    unfolding rank_cases_def by (rule sort_key_lex) simp
  then show ?thesis by (rule sorted_wrt_mono_rel [rotated]) (auto simp: better_def)
qed

lemma set_rank_cases: "set (shuffle cs) = set cs \<Longrightarrow> set (rank_cases shuffle cs) = set cs"
  by (simp add: rank_cases_def)

lemma length_rank_cases: "length (shuffle cs) = length cs \<Longrightarrow> length (rank_cases shuffle cs) = length cs"
  by (simp add: rank_cases_def)

lemma admitted_default:
  "\<not> ro_candidates ro \<Longrightarrow> \<not> ro_rejected ro \<Longrightarrow> admitted ro c \<longleftrightarrow> cd_status c = StatusApproved"
  by (auto simp: admitted_def)

lemma retrieve_cases:
  assumes "retrieve shuffle S E q ro st = (Inr out, st')" "\<And>xs. mset (shuffle xs) = mset xs"
  obtains cards where "load_cards S E st = (Inr cards, st')"
    "set out \<subseteq> {s. \<exists>c \<in> snd ` set cards. admitted ro c \<and> s = score_case (so_uni S) c q \<and> si_score s \<noteq> 0}"
    "sorted_wrt better out" "length out \<le> effective_limit ro"
    "\<And>c. c \<in> snd ` set cards \<Longrightarrow> admitted ro c \<Longrightarrow> si_score (score_case (so_uni S) c q) \<noteq> 0 \<Longrightarrow>
       score_case (so_uni S) c q \<notin> set out \<Longrightarrow>
       length out = effective_limit ro \<and> (\<forall>s \<in> set out. better s (score_case (so_uni S) c q))"
proof -
  obtain cards where l: "load_cards S E st = (Inr cards, st')"
    using assms(1) by (auto simp: retrieve_def list_cards_def split: prod.splits sum.splits)
  define cs where "cs = sort_key (\<lambda>c. - cd_created c) (sort_key cd_id (map snd cards))"
  define hits where "hits = filter (\<lambda>s. si_score s \<noteq> 0) (map (\<lambda>c. score_case (so_uni S) c q) (filter (admitted ro) cs))"
  have out: "out = take (effective_limit ro) (rank_cases shuffle hits)"
    using assms(1) l by (simp add: retrieve_def list_cards_def cs_def hits_def)
  have sets: "set (rank_cases shuffle hits) = set hits" "length (rank_cases shuffle hits) = length hits"
    using assms(2) [of hits] by (auto simp: set_rank_cases length_rank_cases dest: mset_eq_setD' mset_eq_length)
  have hits: "set hits = {s. \<exists>c \<in> snd ` set cards. admitted ro c \<and> s = score_case (so_uni S) c q \<and> si_score s \<noteq> 0}"
    by (auto simp: hits_def cs_def)
  show ?thesis
  proof (rule that [OF l])
    show "set out \<subseteq> {s. \<exists>c \<in> snd ` set cards. admitted ro c \<and> s = score_case (so_uni S) c q \<and> si_score s \<noteq> 0}"
      unfolding hits [symmetric] sets(1) [symmetric] out by (rule set_take_subset)
    show "sorted_wrt better out" unfolding out by (rule sorted_wrt_take [OF rank_cases_sorted])
    show "length out \<le> effective_limit ro" by (simp add: out)
    fix c
    let ?s = "score_case (so_uni S) c q"
    assume c: "c \<in> snd ` set cards" "admitted ro c" "si_score ?s \<noteq> 0" "?s \<notin> set out"
    then have "?s \<in> set (rank_cases shuffle hits)" unfolding sets(1) hits by blast
    then have d: "?s \<in> set (drop (effective_limit ro) (rank_cases shuffle hits))"
      using c(4) unfolding out by (metis Un_iff append_take_drop_id set_append)
    then have "effective_limit ro < length (rank_cases shuffle hits)"
      by (metis drop_eq_Nil2 empty_iff empty_set not_le)
    then show "length out = effective_limit ro \<and> (\<forall>s \<in> set out. better s ?s)"
      using sorted_wrt_take_drop [OF rank_cases_sorted _ d] by (simp add: out)
  qed
qed

end
