(* ===== verification/Store_Scenario.thy ===== *)
theory Store_Scenario
  imports Incident_Retrieve
begin

text \<open>
  Small concrete files, codecs and cards, used for the instances of the properties: a log with two
  events, a profile, and an incident store into which one card is created and then approved.
\<close>

section \<open>Directories, logs and profiles\<close>

definition ex_dirs :: dirs_env where
  "ex_dirs = \<lparr>cloudy_home = ''/c'', xdg_config_home = [], cloudy_profile = [], user_home = None\<rparr>"

definition ex_sound :: faults where
  "ex_sound = \<lparr>fl_mkdir = False, fl_chmod_dir = False, fl_create = False, fl_write = None, fl_chmod = False,
     fl_close = False, fl_rename = False, fl_remove = False\<rparr>"

definition ex_event2 :: log_event where
  "ex_event2 = header_event\<lparr>ev_time := 5, ev_kind := KindUser, ev_text := ''hi''\<rparr>"

definition ex_log :: log_codec where
  "ex_log =
     \<lparr>ev_enc = (\<lambda>e. if e = stamp 1 header_event then Some ''{h}'' else if e = ex_event2 then Some ''{u}'' else None),
      ev_dec = (\<lambda>s. if s = ''{h}'' then Some (stamp 1 header_event) else if s = ''{u}'' then Some ex_event2 else None),
      rs_enc = (\<lambda>r. Some (rs_id r @ ''/'' @ rs_model r)),
      rs_dec = (\<lambda>b. if b = ''s1/m'' then Some \<lparr>rs_version = 1, rs_id = ''s1'', rs_model = ''m'', rs_saved_at = 9, rs_messages = []\<rparr>
                    else None)\<rparr>"

lemma ex_log_wire: "wire_ok ex_log (stamp 1 header_event)" "wire_ok ex_log ex_event2"
  by (simp_all add: wire_ok_def ex_log_def max_line_def ex_event2_def stamp_def header_event_def)

definition ex_ro :: profile where
  "ex_ro = default_profile\<lparr>p_name := ''ro''\<rparr>"

definition ex_yaml :: yaml_codec where
  "ex_yaml = \<lparr>yaml_enc = (\<lambda>p. if p = ex_ro then Some ''ro'' else None),
     yaml_dec = (\<lambda>b. if b = ''ro'' then Some ex_ro else None)\<rparr>"

lemma ex_yaml_codec: "yaml_enc ex_yaml q = Some b \<Longrightarrow> yaml_dec ex_yaml b = Some q"
  by (auto simp: ex_yaml_def split: if_splits)

section \<open>Incidents\<close>

definition ex_plain :: "string codec" where
  "ex_plain = \<lparr>re_compile = Some, re_match = (\<lambda>p s. False), re_replace = (\<lambda>p s r. s),
     json_unmarshal = (\<lambda>s. None), json_marshal = (\<lambda>j. None)\<rparr>"

definition ex_card :: card where
  "ex_card = \<lparr>cd_id = ''case-20260102T000000.000000001Z'', cd_created = 5, cd_updated = 5,
     cd_status = StatusCandidate, cd_symptoms = [''timeout''], cd_service = ''api'', cd_signals = [],
     cd_cause_status = CauseSuspected, cd_cause = [], cd_fix = [], cd_different = [],
     cd_source = \<lparr>src_type = ''session'', src_id = ''s1'', src_path = [], src_ref = []\<rparr>,
     cd_confidence = 1, cd_tags = []\<rparr>"

definition ex_approved :: card where
  "ex_approved = ex_card\<lparr>cd_status := StatusApproved\<rparr>"

definition ex_input :: card where
  "ex_input = ex_card\<lparr>cd_id := [], cd_created := 0, cd_updated := 0, cd_status := []\<rparr>"

definition ex_store :: "string store" where
  "ex_store = \<lparr>so_path = ''c'', so_key = ''k'', so_uni = ascii_unicode, so_codec = ex_plain, so_masker = None,
     so_enc = (\<lambda>c. if c = ex_card then Some ''{c}'' else if c = ex_approved then Some ''{a}'' else None),
     so_dec = (\<lambda>s. if s = ''{c}'' then Some ex_card else if s = ''{a}'' then Some ex_approved else None)\<rparr>"

lemma ex_card_id: "cd_id ex_card = ''case-20260102T000000.000000001Z''" "cd_id ex_approved = cd_id ex_card"
  "ex_approved \<noteq> ex_card" "ex_card \<noteq> ex_approved" "cd_status ex_card = StatusCandidate" "cd_status ex_approved = StatusApproved"
  "cd_created ex_card = 5" "cd_symptoms ex_approved = [''timeout'']"
  by (simp_all add: ex_card_def ex_approved_def)

lemma ex_store_sel [simp]: "so_path ex_store = ''c''" "so_codec ex_store = ex_plain" "so_masker ex_store = None"
  "so_uni ex_store = ascii_unicode" "so_enc ex_store ex_card = Some ''{c}''" "so_enc ex_store ex_approved = Some ''{a}''"
  by (simp_all add: ex_store_def ex_card_id)

definition ex_call :: op_env where
  "ex_call = \<lparr>oe_lock_fails = False, oe_stat_fails = False, oe_read_fails = False, oe_same = True,
     oe_faults = ex_sound, oe_restat = True, oe_mtime = 1, oe_now = 5, oe_day = ''20260102'',
     oe_clock = ''000000'', oe_nanos = ''000000001'', oe_random = None\<rparr>"

definition ex_empty :: inc_state where
  "ex_empty = \<lparr>is_files = [], is_times = [], is_cache = []\<rparr>"

definition ex_holding :: "card \<Rightarrow> inc_state" where
  "ex_holding c = \<lparr>is_files = [(''c'', the (so_enc ex_store c) @ [newline])], is_times = [(''c'', 1)],
     is_cache = [(cache_key ex_store, 1, 4, [(cd_id c, c)])]\<rparr>"

lemma ex_wire: "card_wire (so_enc ex_store) (so_dec ex_store) c"
  by (simp add: card_wire_def ex_store_def ex_card_id)

lemma ex_words: "clean_text ''timeout'' = ''timeout''" "clean_text ''api'' = ''api''"
  "clean_text ''session'' = ''session''" "clean_text ''s1'' = ''s1''" "clean_text ''suspected'' = ''suspected''"
  "trim_space ''candidate'' = ''candidate''" "trim_space ''approved'' = ''approved''" "trim_space ''api'' = ''api''"
  "trim_space ''session'' = ''session''" "trim_space ''s1'' = ''s1''" "trim_space [] = []" "clean_text [] = []"
  using clean_text_words [of "[''timeout'']"] clean_text_words [of "[''api'']"] clean_text_words [of "[''session'']"]
    clean_text_words [of "[''s1'']"] clean_text_words [of "[''suspected'']"] clean_text_words [of "[]"]
    trim_space_length [of "[]"]
  by (simp_all add: solid_def trim_space_solid)

lemma ex_clean: "clean_list u [] = []" "clean_list u [''timeout''] = [''timeout'']"
  using clean_list_acc_keep [of "''timeout''" u "[]" "[]"] by (simp_all add: clean_list_def ex_words)

lemma ex_same: "mask_card ex_store c = c"
proof -
  have "mask_text ex_plain None v = v" for v by (simp add: mask_text_def mask_json_def mask_string_def)
  then show ?thesis by (cases c, cases "cd_source c") (simp add: mask_card_def Let_def map_idI)
qed

lemma ex_normal: "normalize_card u ex_card = ex_card" "normalize_card u ex_approved = ex_approved"
  "normalize_card u ex_input = ex_card\<lparr>cd_id := [], cd_created := 0, cd_updated := 0\<rparr>"
  by (simp_all add: normalize_card_def normalize_source_def ex_card_def ex_approved_def ex_input_def ex_words ex_clean)

lemma ex_valid: "validate_card u ex_card = []" "validate_card u ex_approved = []"
  "validate_card u (ex_card\<lparr>cd_id := [], cd_created := 0, cd_updated := 0\<rparr>) = []"
  by (simp_all add: validate_card_def ex_card_def ex_approved_def ex_words ex_clean)

lemma ex_candidate: "candidate_card ex_store ex_call (normalize_card ascii_unicode ex_input) = ex_card"
  by (simp add: candidate_card_def ex_same ex_normal make_id_def ex_call_def) (simp add: ex_card_def)

lemma ex_rewrite:
  "c \<in> {ex_card, ex_approved} \<Longrightarrow> is_files st \<in> {[], [(''c'', b)]} \<Longrightarrow> is_times st \<in> {[], [(''c'', 1)]} \<Longrightarrow>
   is_cache st \<in> {[], [(cache_key ex_store, d)]} \<Longrightarrow>
     rewrite_cards ex_store ex_call [(cd_id c, c)] st = (None, ex_holding c)"
  by (cases st) (auto simp: rewrite_cards_def store_rewrite_file_def ex_call_def ex_sound_def ex_holding_def
      store_cached_cards_def rename_file_def Let_def)

lemma ex_create: "create_candidate ex_store ex_call ex_input ex_empty = (Inr ex_card, ex_holding ex_card)"
proof -
  have l: "load_cards ex_store ex_call ex_empty = (Inr [], ex_empty)"
    by (simp add: load_cards_def file_info_def ex_call_def ex_empty_def)
  have "rewrite_cards ex_store ex_call [(cd_id ex_card, ex_card)] ex_empty = (None, ex_holding ex_card)"
    by (rule ex_rewrite) (simp_all add: ex_empty_def)
  moreover have "\<not> oe_lock_fails ex_call" by (simp add: ex_call_def)
  ultimately show ?thesis
    unfolding create_candidate_def Let_def ex_store_sel ex_candidate by (simp add: ex_normal ex_valid l)
qed

lemma ex_load: "c \<in> {ex_card, ex_approved} \<Longrightarrow> load_cards ex_store ex_call (ex_holding c) = (Inr [(cd_id c, c)], ex_holding c)"
  by (auto simp: load_cards_def file_info_def ex_call_def ex_holding_def cached_cards_def)

lemma ex_approve: "approve_card ex_store ex_call (cd_id ex_card) (ex_holding ex_card) = (Inr ex_approved, ex_holding ex_approved)"
proof -
  have u: "ex_card\<lparr>cd_status := StatusApproved, cd_updated := oe_now ex_call\<rparr> = ex_approved"
    by (simp add: ex_approved_def ex_card_def ex_call_def)
  have "rewrite_cards ex_store ex_call [(cd_id ex_approved, ex_approved)] (ex_holding ex_card) = (None, ex_holding ex_approved)"
    by (rule ex_rewrite) (simp_all add: ex_holding_def)
  moreover have "\<not> oe_lock_fails ex_call" by (simp add: ex_call_def)
  ultimately show ?thesis
    by (simp add: approve_card_def set_status_def valid_status_def ex_load u Let_def ex_card_id(2))
qed

lemma ex_stored: "stored_id (cd_id ex_card)"
proof -
  have "stored_id (make_id (oe_day ex_call) (oe_clock ex_call) (oe_nanos ex_call) (oe_random ex_call))"
    by (rule clock_ok_id) (simp add: clock_ok_def ex_call_def is_digit_def)
  then show ?thesis by (simp add: make_id_def ex_call_def ex_card_id)
qed

lemma ex_stable: "c \<in> {ex_card, ex_approved} \<Longrightarrow> stable_card ex_store c"
  using ex_wire ex_stored
  by (auto simp: stable_card_def max_card_line_def valid_status_def ex_card_id ex_normal ex_valid ex_same)

lemma ex_coherent: "coherent ex_store ex_empty"
  by (simp add: coherent_def file_info_def ex_empty_def)

lemma ex_query: "score_case ascii_unicode ex_approved (query_from_text ''timeout'') =
   \<lparr>si_card = ex_approved, si_score = 3, si_reasons = [''symptom overlap: timeout''], si_notes = []\<rparr>"
proof -
  have t: "token_set ascii_unicode [''timeout''] = [''timeout'']" "token_set ascii_unicode [''api''] = [''api'']"
    "token_set ascii_unicode [] = []" "to_lower ascii_unicode [] = []"
    by code_simp+
  show ?thesis
    by (simp add: score_case_def query_tokens_def query_from_text_def add_overlap_def overlap_tokens_def t Let_def
        ex_words) (simp add: ex_approved_def ex_card_def t)
qed

lemma ex_one_card: "disk_cards ex_store (ex_holding ex_card) = [(cd_id ex_card, ex_card)]"
proof -
  have "load_line ex_store 1 (''{c}'' @ [newline]) = Some ex_card"
    by (rule load_line_encoded(2) [OF ex_wire]) (use ex_stored in \<open>simp_all add: max_card_line_def ex_card_id ex_normal ex_valid ex_same valid_status_def\<close>)
  then show ?thesis
    by (simp add: disk_cards_def ex_holding_def parse_cards_def raw_lines_def split_byte_snoc)
qed

lemma ex_coherent_card: "coherent ex_store (ex_holding ex_card)"
  using create_refines [OF ex_create ex_coherent] ex_stable [of ex_card]
  by (simp add: write_ok_def disk_cards_def ex_empty_def ex_call_def)

lemma ex_coherent_approved: "coherent ex_store (ex_holding ex_approved)"
  using set_status_refines [OF ex_approve [unfolded approve_card_def] ex_coherent_card] ex_stable ex_one_card
  by (simp add: write_ok_def ex_call_def)

end
