(* ===== verification/Store_Properties.thy ===== *)
theory Store_Properties
  imports Store_Scenario
begin

text \<open>
  The properties of what the program keeps on disk (session logs, snapshots, profiles, the memory of
  the environment, incident cards), with small instances.
\<close>

section \<open>Session logs\<close>



text \<open>A listing reports the name ''session'' as the model of every session: the first line of a log
  is the header, whose name is ''session'', and the fallback to the model named by a later event is
  only for an empty name.\<close>

theorem listed_model_is_session:
  assumes "log_file E (stamp t header_event # es) path fs" "list_all (wire_ok E) (stamp t header_event # es)"
    and "\<not> rf path"
  shows "\<exists>m. read_meta rf E sid path mt fs = Inr m \<and> me_model m = ''session'' \<and> me_count m = Suc (length es) \<and>
     me_started m = ev_time (stamp t header_event) \<and> me_ended m = ev_time (last (stamp t header_event # es))"
proof -
  have "ev_name (stamp t header_event) = ''session''" by (simp add: stamp_def header_event_def)
  then show ?thesis
    using meta_of_log [OF assms(1), of rf] assms(2,3) by (simp add: list_all_iff model_of_def)
qed

theorem listed_model_is_session_witness:
  "\<exists>m. read_meta (\<lambda>_. False) ex_log ''s1'' ''f'' 4
      [(''f'', as_lines [''{h}'', ''{u}''])] = Inr m \<and> me_model m = ''session'' \<and> me_count m = 2"
proof -
  have "log_file ex_log [stamp 1 header_event, ex_event2] ''f'' [(''f'', as_lines [''{h}'', ''{u}''])]"
    unfolding log_file_def
    by (auto simp: ex_log_def ex_event2_def stamp_def header_event_def intro!: exI [of _ "[''{h}'', ''{u}'']"])
  from listed_model_is_session [OF this, of "\<lambda>_. False" "''s1''" 4] show ?thesis using ex_log_wire by auto
qed



section \<open>Profiles and memory\<close>

text \<open>A profile that was saved and then set active is the profile every later run loads, whatever
  other profiles there are, unless the environment names another one; and while it is set active
  nothing but its marker changes.\<close>

theorem active_profile_round_trip:
  assumes "save_profile Y f tmp e (Some p) fs = (None, fs1)" "set_active Y rf f' e (p_name p) fs1 = (None, fs2)"
    and "cloudy_profile e = []" "trim_space (p_name p) = p_name p" "tmp \<noteq> profile_path e (p_name p)"
    and "\<not> rf (active_file e)" "\<not> rf (profile_path e (p_name p))"
    and "\<And>q b. yaml_enc Y q = Some b \<Longrightarrow> yaml_dec Y b = Some q"
  shows "load_active Y rf e fs2 = Inr p \<and>
     (\<forall>name. load_profile Y rf e name fs2 = load_profile Y rf e name fs1)"
proof -
  have "load_active Y rf e fs2 = load_profile Y rf e (p_name p) fs1"
    by (rule load_active_after_set [OF assms(2,3,4,6)])
  moreover have "load_profile Y rf e (p_name p) fs1 = Inr p" by (rule load_saved [OF assms(1,5,8), where rf = rf]) (use assms(7) in auto)
  moreover have "load_profile Y rf e name fs2 = load_profile Y rf e name fs1" for name
    using set_active_None [OF assms(2)] active_file_no_profile [of e name] by (auto simp: load_profile_def gm_get_put)
  ultimately show ?thesis by simp
qed

theorem active_profile_round_trip_witness:
  "\<exists>fs1 fs2. save_profile ex_yaml ex_sound ''t'' ex_dirs (Some ex_ro) [] = (None, fs1) \<and>
     set_active ex_yaml (\<lambda>_. False) ex_sound ex_dirs ''ro'' fs1 = (None, fs2) \<and>
     load_active ex_yaml (\<lambda>_. False) ex_dirs fs2 = Inr ex_ro"
proof -
  have n: "p_name ex_ro = ''ro''" by (simp add: ex_ro_def)
  have p: "profile_path ex_dirs ''ro'' = ''/c/profiles/ro.yaml''" by code_simp
  have t: "trim_space ''ro'' = ''ro''" by (rule trim_space_solid) (simp_all add: solid_def)
  obtain fs1 where s: "save_profile ex_yaml ex_sound ''t'' ex_dirs (Some ex_ro) [] = (None, fs1)"
    by (simp add: save_profile_def save_profile_file_def ex_yaml_def ex_sound_def n Let_def)
  have l: "load_profile ex_yaml (\<lambda>_. False) ex_dirs ''ro'' fs1 = Inr ex_ro"
    using load_saved [OF s _ ex_yaml_codec, of "\<lambda>_. False"] p n by simp
  obtain fs2 where a: "set_active ex_yaml (\<lambda>_. False) ex_sound ex_dirs ''ro'' fs1 = (None, fs2)"
    by (simp add: set_active_def l ex_sound_def Let_def)
  have "load_active ex_yaml (\<lambda>_. False) ex_dirs fs2 = Inr ex_ro"
    using active_profile_round_trip [OF s _ _ _ _ _ _ ex_yaml_codec, of "\<lambda>_. False" ex_sound fs2] a n p t
    by (simp add: ex_dirs_def)
  then show ?thesis using s a by blast
qed

text \<open>A fact the tool reports as recorded is in the next system prompt: what is injected is at most
  8192 bytes, and ends with the line of the fact, dated, redacted and on one line, if that line fits.
  The file is assumed to hold whole lines, which every successful recording keeps.\<close>

theorem fact_remembered:
  assumes "record_fact C Y rf f day e arg fs = (Inr out, fs')" "memory_lines e fs"
    and "masked = mask_string C (masker_or_default C
      (case load_active Y rf e fs of Inr p \<Rightarrow> Some p | Inl _ \<Rightarrow> None)) (trim_space arg)"
    and "trim_space arg \<noteq> []" "clean_text masked \<noteq> []" "newline \<notin> set day"
    and "Suc (length (memory_bullet day (clean_text masked))) < max_inject_bytes" "\<not> rf (memory_path e)"
  shows "out = ''Recorded to cross-session memory: '' @ masked \<and> memory_lines e fs' \<and>
     (\<exists>s. memory_load rf e fs' = Inr s \<and> suffix (memory_bullet day (clean_text masked)) s \<and> length s \<le> 8192)"
proof -
  have r: "out = ''Recorded to cross-session memory: '' @ masked" "memory_append f day e masked fs = (None, fs')"
    using record_fact_stored [OF assms(1,4)] assms(3) by simp_all
  obtain s where "memory_load rf e fs' = Inr s" "suffix (memory_bullet day (clean_text masked)) s"
    using memory_load_append [OF r(2) assms(5,2,6,7), of rf] assms(8) by blast
  moreover from memory_load_length [OF this(1)] have "length s \<le> 8192" by (simp add: max_inject_bytes_def)
  ultimately show ?thesis using r(1) memory_append_lines [OF r(2) assms(2)] by blast
qed

theorem fact_remembered_witness:
  "\<exists>fs' s. record_fact ex_plain ex_yaml (\<lambda>_. False) ex_sound ''2026-01-02'' ex_dirs ''prod is in eu-1'' [] =
       (Inr ''Recorded to cross-session memory: prod is in eu-1'', fs') \<and>
     memory_load (\<lambda>_. False) ex_dirs fs' = Inr s \<and> suffix ''- (2026-01-02) prod is in eu-1'' s"
proof -
  have t: "trim_space ''prod is in eu-1'' = ''prod is in eu-1''" by (rule trim_space_solid) (simp_all add: solid_def)
  have c: "clean_text ''prod is in eu-1'' = ''prod is in eu-1''"
    using clean_text_words [of "[''prod'', ''is'', ''in'', ''eu-1'']"] by (simp add: solid_def)
  have m: "mask_string ex_plain k s = s" for k s
  proof -
    have "fold (\<lambda>re s. s) rs s = (s :: string)" for rs :: "string list" by (induction rs) simp_all
    then show ?thesis by (cases k) (simp_all add: mask_string_def ex_plain_def)
  qed
  obtain fs' where r: "record_fact ex_plain ex_yaml (\<lambda>_. False) ex_sound ''2026-01-02'' ex_dirs ''prod is in eu-1'' [] =
       (Inr ''Recorded to cross-session memory: prod is in eu-1'', fs')"
    by (simp add: record_fact_def t m c memory_append_def ex_sound_def Let_def)
  show ?thesis
    using fact_remembered [OF r, of "''prod is in eu-1''"] r t m c
    by (auto simp: memory_lines_def memory_bullet_def max_inject_bytes_def)
qed

section \<open>Incidents\<close>



text \<open>C24. On cards that a reload gives back unchanged, the store is a finite map from identifiers to
  cards: creating adds a candidate under a new identifier, approving and rejecting update one card,
  reading and listing (newest first) change nothing, and a call that fails, at any step, changes
  nothing. It makes no difference whether a call is answered from the cache or from the file.\<close>

theorem store_refines_map:
  assumes "inc_call S E x st = (r, st')" "coherent S st"
    and "\<And>c. r = Inr [c] \<Longrightarrow> (\<forall>k. x \<noteq> OpGet k) \<Longrightarrow> x \<noteq> OpList \<Longrightarrow> write_ok S E st c"
  shows "(case r of
       Inl e \<Rightarrow> map_of (disk_cards S st') = map_of (disk_cards S st)
     | Inr out \<Rightarrow> store_spec (oe_now E) x out (map_of (disk_cards S st)) (map_of (disk_cards S st'))) \<and> coherent S st'"
  using inc_call_failed [of S E x st _ st'] inc_call_refines [of S E x st _ st'] assms
  by (cases r) auto

theorem store_refines_map_witness:
  "fst (inc_call ex_store ex_call (OpApprove (cd_id ex_card)) (ex_holding ex_card)) = Inr [ex_approved] \<and>
   store_spec 5 (OpApprove (cd_id ex_card)) [ex_approved] (map_of (disk_cards ex_store (ex_holding ex_card)))
     (map_of (disk_cards ex_store (ex_holding ex_approved)))"
proof -
  have c: "coherent ex_store (ex_holding ex_card)" "map_of (disk_cards ex_store (ex_holding ex_card)) = [cd_id ex_card \<mapsto> ex_card]"
    using create_refines [OF ex_create ex_coherent] ex_stable [of ex_card]
    by (simp_all add: write_ok_def disk_cards_def ex_empty_def ex_call_def)
  have a: "inc_call ex_store ex_call (OpApprove (cd_id ex_card)) (ex_holding ex_card) = (Inr [ex_approved], ex_holding ex_approved)"
    by (simp add: inc_call_def ex_approve)
  have "write_ok ex_store ex_call (ex_holding ex_card) ex_approved"
    using ex_stable ex_one_card by (simp add: write_ok_def ex_call_def)
  then show ?thesis using store_refines_map [OF a c(1)] a by (simp add: ex_call_def)
qed

text \<open>Retrieval returns the best cases there are: admitted cards with a positive score, best first
  (newer first among equal scores), no more than the limit, and a matching card is only left out when
  the limit is reached by cases that are no worse.\<close>

theorem best_cases_retrieved:
  assumes "retrieve shuffle S E q ro st = (Inr out, st')" "coherent S st" "\<And>ys. mset (shuffle ys) = mset ys"
    and "hits = {s. \<exists>c \<in> ran (map_of (disk_cards S st)). admitted ro c \<and> s = score_case (so_uni S) c q \<and> 0 < si_score s}"
  shows "set out \<subseteq> hits \<and> sorted_wrt better out \<and> length out \<le> effective_limit ro \<and>
     (\<forall>s \<in> hits - set out. length out = effective_limit ro \<and> (\<forall>s' \<in> set out. better s' s))"
proof -
  from assms(1,3) show ?thesis
  proof (rule retrieve_cases)
    fix cards
    assume l: "load_cards S E st = (Inr cards, st')"
      and out: "set out \<subseteq> {s. \<exists>c \<in> snd ` set cards. admitted ro c \<and> s = score_case (so_uni S) c q \<and> si_score s \<noteq> 0}"
        "sorted_wrt better out" "length out \<le> effective_limit ro"
        "\<And>c. c \<in> snd ` set cards \<Longrightarrow> admitted ro c \<Longrightarrow> si_score (score_case (so_uni S) c q) \<noteq> 0 \<Longrightarrow>
           score_case (so_uni S) c q \<notin> set out \<Longrightarrow>
           length out = effective_limit ro \<and> (\<forall>s \<in> set out. better s (score_case (so_uni S) c q))"
    note c = load_cards_coherent [OF l assms(2)]
    have "distinct (map fst cards)" using c(1) by (simp add: cards_ok_def gm_wf_def)
    then have ran: "ran (map_of (disk_cards S st)) = snd ` set cards" using ran_distinct c(2) by metis
    show ?thesis unfolding assms(4) ran using out by auto
  qed
qed

theorem best_cases_retrieved_witness:
  "\<exists>s. fst (retrieve id ex_store ex_call (query_from_text ''timeout'') \<lparr>ro_candidates = True, ro_rejected = False, ro_limit = 0\<rparr>
       (ex_holding ex_approved)) = Inr [s] \<and> si_score s = 3 \<and> sorted_wrt better [s]"
proof -
  let ?ro = "\<lparr>ro_candidates = True, ro_rejected = False, ro_limit = 0\<rparr>"
  let ?s = "score_case ascii_unicode ex_approved (query_from_text ''timeout'')"
  have r: "retrieve id ex_store ex_call (query_from_text ''timeout'') ?ro (ex_holding ex_approved) = (Inr [?s], ex_holding ex_approved)"
    by (simp add: retrieve_def list_cards_def ex_load admitted_def ex_card_id ex_query effective_limit_def rank_cases_def)
  show ?thesis using best_cases_retrieved [OF r ex_coherent_approved, OF _ refl] r by (simp add: ex_query)
qed

text \<open>The similarity score is the number of common words, weighted by the field they occur in, plus
  five for the same service.\<close>

theorem score_is_weighted_overlap:
  "si_score (score_case u c q) =
     (if same_service u c q then 5 else 0) + 3 * common u q (cd_symptoms c) + 2 * common u q (cd_signals c)
     + common u q (cd_tags c) + 2 * common u q [cd_service c]"
  by (rule score_case_sum)

end
