(* ===== verification/Chat_Adapters.thy ===== *)
theory Chat_Adapters
  imports Chat_Policy Chat_Service Go_Path
begin

text \<open>
  The configuration of the chat connectors (\<open>internal/config/config.go\<close>): the defaults and the
  cross-field validation. Then the platform adapters that a validated configuration mounts.
\<close>

section \<open>Names of environment variables\<close>

definition letter_rune :: "nat \<Rightarrow> bool" where
  "letter_rune r \<longleftrightarrow> r = 95 \<or> 65 \<le> r \<and> r \<le> 90 \<or> 97 \<le> r \<and> r \<le> 122"

fun is_env_name :: "string \<Rightarrow> bool" where
  "is_env_name v =
     (case map fst (runes_of v) of
        [] \<Rightarrow> False
      | r # rs \<Rightarrow> letter_rune r \<and> list_all (\<lambda>q. letter_rune q \<or> 48 \<le> q \<and> q \<le> 57) rs)"

declare is_env_name.simps [simp del]

datatype config_error =
    NotEnvName string
  | TelegramMode
  | SlackMode
  | Required string
  | AllowlistRequired string

definition validate_env_ref :: "string \<Rightarrow> string \<Rightarrow> config_error option" where
  "validate_env_ref label v = (if v = [] then None else if is_env_name v then None else Some (NotEnvName label))"

section \<open>Validation\<close>

definition validate_slack :: "slack_config \<Rightarrow> config_error option" where
  "validate_slack c =
     (if \<not> sc_enabled c then None
      else if sc_signing_env c = [] then Some (Required ''slack signing_secret_env'')
      else if sc_bot_env c = [] then Some (Required ''slack bot_token_env'')
      else if sc_teams c = [] \<or> sc_channels c = [] \<and> sc_users c = [] then Some (AllowlistRequired ''slack'')
      else None)"

definition validate_discord :: "discord_config \<Rightarrow> config_error option" where
  "validate_discord c =
     (if \<not> dc_enabled c then None
      else if dc_key_env c = [] then Some (Required ''discord public_key_env'')
      else if dc_guilds c = [] \<or> dc_channels c = [] \<and> dc_users c = [] then Some (AllowlistRequired ''discord'')
      else None)"

definition validate_telegram :: "telegram_config \<Rightarrow> config_error option" where
  "validate_telegram c =
     (if \<not> tg_enabled c then None
      else if tg_bot_env c = [] then Some (Required ''telegram bot_token_env'')
      else if tg_mode c \<noteq> ''polling'' \<and> tg_secret_env c = [] then Some (Required ''telegram webhook_secret_env'')
      else if tg_chats c = [] then Some (AllowlistRequired ''telegram'')
      else None)"

definition validate_chat_ops :: "chat_config \<Rightarrow> config_error option" where
  "validate_chat_ops cfg =
     (case first_error
         [validate_env_ref ''slack signing_secret_env'' (sc_signing_env (cf_slack cfg)),
          validate_env_ref ''slack bot_token_env'' (sc_bot_env (cf_slack cfg)),
          validate_env_ref ''discord public_key_env'' (dc_key_env (cf_discord cfg)),
          validate_env_ref ''telegram bot_token_env'' (tg_bot_env (cf_telegram cfg)),
          validate_env_ref ''telegram webhook_secret_env'' (tg_secret_env (cf_telegram cfg))] of
        Some e \<Rightarrow> Some e
      | None \<Rightarrow>
          if \<not> cf_enabled cfg then None
          else if tg_enabled (cf_telegram cfg) \<and> tg_mode (cf_telegram cfg) \<notin> set [[], ''webhook'', ''polling''] then Some TelegramMode
          else if sc_enabled (cf_slack cfg) \<and> sc_mode (cf_slack cfg) \<notin> set [[], ''http''] then Some SlackMode
          else first_error [validate_slack (cf_slack cfg), validate_discord (cf_discord cfg), validate_telegram (cf_telegram cfg)])"

definition default_chat_ops :: chat_config where
  "default_chat_ops =
     \<lparr>cf_enabled = False, cf_listen = ''127.0.0.1:8787'', cf_public_url = [], cf_default_visibility = ''private'',
      cf_default_profile = [],
      cf_slack = \<lparr>sc_enabled = False, sc_mode = ''http'', sc_signing_env = ''CLOUDY_SLACK_SIGNING_SECRET'',
        sc_bot_env = ''CLOUDY_SLACK_BOT_TOKEN'', sc_teams = [], sc_channels = [], sc_users = []\<rparr>,
      cf_discord = \<lparr>dc_enabled = False, dc_application = [], dc_key_env = ''CLOUDY_DISCORD_PUBLIC_KEY'',
        dc_guilds = [], dc_channels = [], dc_users = []\<rparr>,
      cf_telegram = \<lparr>tg_enabled = False, tg_mode = ''webhook'', tg_bot_env = ''CLOUDY_TELEGRAM_BOT_TOKEN'',
        tg_secret_env = ''CLOUDY_TELEGRAM_WEBHOOK_SECRET'', tg_chats = [], tg_users = []\<rparr>,
      cf_routes = [], cf_per_minute = 0, cf_workers = 1, cf_depth = 64, cf_timeout = 300, cf_discord_timeout = 840,
      cf_delivery_timeout = 30, cf_session_path = []\<rparr>"

section \<open>What a validated configuration promises\<close>

lemma validated:
  assumes "validate_chat_ops cfg = None" "cf_enabled cfg"
  shows "sc_enabled (cf_slack cfg) \<Longrightarrow> sc_signing_env (cf_slack cfg) \<noteq> [] \<and> sc_teams (cf_slack cfg) \<noteq> []"
    "dc_enabled (cf_discord cfg) \<Longrightarrow> dc_key_env (cf_discord cfg) \<noteq> [] \<and> dc_guilds (cf_discord cfg) \<noteq> []"
    "tg_enabled (cf_telegram cfg) \<Longrightarrow> tg_chats (cf_telegram cfg) \<noteq> [] \<and>
       (tg_mode (cf_telegram cfg) \<noteq> ''polling'' \<longrightarrow> tg_secret_env (cf_telegram cfg) \<noteq> [])"
  using assms
  by (auto simp: validate_chat_ops_def first_error_None validate_slack_def validate_discord_def validate_telegram_def
      split: option.splits if_splits)

section \<open>The adapters\<close>

text \<open>
  The platform adapters (\<open>internal/chatops/slack.go\<close>, \<open>discord.go\<close>, \<open>telegram.go\<close>, \<open>body.go\<close>) and the
  command that mounts them (\<open>internal/ui/cli/chatops.go\<close>): reading a bounded body, checking its
  signature, turning the payload into an event and handing it to the service. HMAC-SHA256, Ed25519
  and the form and JSON decoders are parameters. A time difference is compared with five minutes, so
  the saturation of \<open>Time.Sub\<close> far beyond that does not show.
\<close>

section \<open>Numbers and bytes on the wire\<close>

text \<open>\<open>strconv.ParseInt(s, 10, 64)\<close>.\<close>

definition parse_int64 :: "string \<Rightarrow> int option" where
  "parse_int64 s =
     (let neg = has_prefix s ''-'';
          ds = (if neg \<or> has_prefix s ''+'' then tl s else s);
          v = (if neg then - int (read_nat ds) else int (read_nat ds))
      in if ds = [] \<or> \<not> list_all is_digit ds then None
         else if v < - (2 ^ 63) \<or> 2 ^ 63 \<le> v then None
         else Some v)"

definition hex_value :: "char \<Rightarrow> nat option" where
  "hex_value c =
     (if 48 \<le> byte c \<and> byte c \<le> 57 then Some (byte c - 48)
      else if 97 \<le> byte c \<and> byte c \<le> 102 then Some (byte c - 87)
      else if 65 \<le> byte c \<and> byte c \<le> 70 then Some (byte c - 55)
      else None)"

fun hex_decode :: "string \<Rightarrow> string option" where
  "hex_decode [] = Some []"
| "hex_decode [c] = None"
| "hex_decode (c # d # s) =
     (case (hex_value c, hex_value d, hex_decode s) of
        (Some a, Some b, Some t) \<Rightarrow> Some (char_of (16 * a + b) # t)
      | _ \<Rightarrow> None)"

section \<open>Requests\<close>

text \<open>The body of a request is what its reader delivers, and whether reading on fails after that.\<close>

record http_req =
  rq_header :: "string \<Rightarrow> string"
  rq_bytes :: string
  rq_broken :: bool

datatype body_read = BodyError | BodyTooLarge | BodyOk string

definition read_bounded :: "nat \<Rightarrow> http_req \<Rightarrow> body_read" where
  "read_bounded mx r =
     (if rq_broken r \<and> length (rq_bytes r) \<le> mx then BodyError
      else (let b = take (mx + 1) (rq_bytes r) in if mx < length b then BodyTooLarge else BodyOk b))"

definition max_body :: nat where
  "max_body = 1048576"

datatype discord_reply = Pong | Deferred | Ephemeral string

datatype http_reply = Plain nat string | Discord discord_reply

section \<open>Payloads\<close>

record slack_payload =
  sp_type :: string
  sp_challenge :: string
  sp_team :: string
  sp_event_id :: string
  sp_event_type :: string
  sp_text :: string
  sp_user :: string
  sp_channel :: string
  sp_thread :: string
  sp_ts :: string

record discord_interaction =
  di_id :: string
  di_application :: string
  di_type :: int
  di_token :: string
  di_guild :: string
  di_channel :: string
  di_member_user :: string
  di_user :: string
  di_name :: string
  di_options :: "(string \<times> string) list"

record telegram_update =
  tu_id :: int
  tu_message :: int
  tu_text :: string
  tu_chat :: int
  tu_chat_type :: string
  tu_from :: int

record wire =
  wi_hmac :: "string \<Rightarrow> string \<Rightarrow> string"
  wi_ed25519 :: "string \<Rightarrow> string \<Rightarrow> string \<Rightarrow> bool"
  wi_form :: "string \<Rightarrow> (string \<Rightarrow> string) option"
  wi_slack :: "string \<Rightarrow> slack_payload option"
  wi_discord :: "string \<Rightarrow> discord_interaction option"
  wi_telegram :: "string \<Rightarrow> telegram_update option"
  wi_unicode :: unicode

section \<open>Signatures\<close>

definition second_ns :: int where
  "second_ns = 1000000000"

definition unix_time :: "int \<Rightarrow> gotime" where
  "unix_time ts = (ts + 62135596800) * second_ns"

definition fresh_within :: "gotime \<Rightarrow> gotime \<Rightarrow> int \<Rightarrow> bool" where
  "fresh_within clock nw ts \<longleftrightarrow>
     (let t = (if nw = 0 then clock else nw); d = t - unix_time ts in \<not> (300 * second_ns < d \<or> d < - (300 * second_ns)))"

definition verify_slack :: "wire \<Rightarrow> gotime \<Rightarrow> string \<Rightarrow> string \<Rightarrow> string \<Rightarrow> string \<Rightarrow> gotime \<Rightarrow> bool" where
  "verify_slack W clock secret timestamp body signature nw =
     (if secret = [] \<or> timestamp = [] \<or> signature = [] then False
      else (case parse_int64 timestamp of
              None \<Rightarrow> False
            | Some ts \<Rightarrow>
                if \<not> fresh_within clock nw ts then False
                else if \<not> has_prefix signature ''v0='' then False
                else (case hex_decode (trim_prefix signature ''v0='') of
                        None \<Rightarrow> False
                      | Some got \<Rightarrow> got = wi_hmac W secret (''v0:'' @ timestamp @ '':'' @ body))))"

definition fresh_discord :: "gotime \<Rightarrow> string \<Rightarrow> gotime \<Rightarrow> bool" where
  "fresh_discord clock timestamp nw =
     (case parse_int64 timestamp of None \<Rightarrow> False | Some ts \<Rightarrow> fresh_within clock nw ts)"

definition verify_discord :: "wire \<Rightarrow> string \<Rightarrow> string \<Rightarrow> string \<Rightarrow> string \<Rightarrow> bool" where
  "verify_discord W key timestamp body signature =
     (if length key \<noteq> 32 \<or> timestamp = [] \<or> signature = [] then False
      else (case hex_decode signature of
              None \<Rightarrow> False
            | Some sg \<Rightarrow> if length sg \<noteq> 64 then False else wi_ed25519 W key (timestamp @ body) sg))"

datatype key_error = EmptyKey | KeyHex | KeyLength nat

definition parse_discord_key :: "string \<Rightarrow> key_error + string" where
  "parse_discord_key s =
     (if s = [] then Inl EmptyKey
      else (case hex_decode (trim_space s) of
              None \<Rightarrow> Inl KeyHex
            | Some b \<Rightarrow> if length b \<noteq> 32 then Inl (KeyLength (length b)) else Inr b))"

section \<open>Texts and targets\<close>

definition strip_ask_prefix :: "unicode \<Rightarrow> string \<Rightarrow> string" where
  "strip_ask_prefix u s =
     (let t = trim_space s in
      if has_prefix (to_lower u t) ''ask '' then trim_space (drop 4 t)
      else if has_prefix (to_lower u t) ''/ask '' then trim_space (drop 5 t)
      else t)"

definition strip_mention :: "string \<Rightarrow> string" where
  "strip_mention s =
     (case str_fields s of
        w # ws \<Rightarrow> if has_prefix w ''<@'' then join ws '' '' else s
      | [] \<Rightarrow> s)"

definition no_target :: reply_target where
  "no_target = \<lparr>rp_platform = [], rp_workspace = [], rp_guild = [], rp_chat = [], rp_channel = [], rp_thread = [],
     rp_user = [], rp_response_url = [], rp_token = [], rp_application = [], rp_message = []\<rparr>"

definition no_event :: chat_event where
  "no_event = \<lparr>ce_platform = [], ce_transport = [], ce_authenticated = False, ce_workspace = [], ce_guild = [],
     ce_chat = [], ce_channel = [], ce_thread = [], ce_user = [], ce_command = [], ce_text = [], ce_visibility = [],
     ce_reply = no_target, ce_key = [], ce_received = 0\<rparr>"

definition slack_reply_target :: "(string \<Rightarrow> string) \<Rightarrow> reply_target" where
  "slack_reply_target form =
     no_target\<lparr>rp_platform := ''slack'', rp_workspace := form ''team_id'', rp_channel := form ''channel_id'',
       rp_user := form ''user_id'', rp_response_url := form ''response_url''\<rparr>"

section \<open>Slack\<close>

text \<open>The parts of a handler up to the service: a reply of its own, or the event. \<open>nw\<close> is the clock
  when the signature is checked, \<open>rc\<close> when the event is stamped.\<close>

definition slack_read :: "wire \<Rightarrow> gotime \<Rightarrow> gotime \<Rightarrow> string \<Rightarrow> http_req \<Rightarrow> http_reply + string" where
  "slack_read W clock nw secret r =
     (case read_bounded max_body r of
        BodyError \<Rightarrow> Inl (Plain 400 ''read body'')
      | BodyTooLarge \<Rightarrow> Inl (Plain 413 ''body too large'')
      | BodyOk b \<Rightarrow>
          if verify_slack W clock secret (rq_header r ''X-Slack-Request-Timestamp'') b (rq_header r ''X-Slack-Signature'') nw
          then Inr b else Inl (Plain 401 ''invalid signature''))"

definition slack_command_event :: "wire \<Rightarrow> gotime \<Rightarrow> gotime \<Rightarrow> gotime \<Rightarrow> string \<Rightarrow> http_req \<Rightarrow> http_reply + chat_event" where
  "slack_command_event W clock nw rc secret r =
     (case slack_read W clock nw secret r of
        Inl e \<Rightarrow> Inl e
      | Inr b \<Rightarrow>
          (case wi_form W b of
             None \<Rightarrow> Inl (Plain 400 ''invalid form'')
           | Some form \<Rightarrow>
               Inr (no_event\<lparr>ce_platform := ''slack'', ce_transport := ''http'', ce_authenticated := True,
                 ce_workspace := form ''team_id'', ce_channel := form ''channel_id'', ce_user := form ''user_id'',
                 ce_command := form ''command'', ce_text := strip_ask_prefix (wi_unicode W) (trim_space (form ''text'')),
                 ce_reply := slack_reply_target form,
                 ce_key := first_non_empty [form ''trigger_id'', form ''response_url''], ce_received := rc\<rparr>)))"

definition slack_mention_event :: "wire \<Rightarrow> gotime \<Rightarrow> gotime \<Rightarrow> gotime \<Rightarrow> string \<Rightarrow> http_req \<Rightarrow> http_reply + chat_event" where
  "slack_mention_event W clock nw rc secret r =
     (case slack_read W clock nw secret r of
        Inl e \<Rightarrow> Inl e
      | Inr b \<Rightarrow>
          (case wi_slack W b of
             None \<Rightarrow> Inl (Plain 400 ''invalid json'')
           | Some p \<Rightarrow>
               if sp_type p = ''url_verification'' then Inl (Plain 200 (sp_challenge p))
               else if sp_event_type p \<noteq> ''app_mention'' then Inl (Plain 200 ''ignored'')
               else Inr (no_event\<lparr>ce_platform := ''slack'', ce_transport := ''http'', ce_authenticated := True,
                 ce_workspace := sp_team p, ce_channel := sp_channel p, ce_thread := sp_thread p, ce_user := sp_user p,
                 ce_command := sp_event_type p, ce_text := strip_mention (sp_text p),
                 ce_reply := no_target\<lparr>rp_platform := ''slack'', rp_workspace := sp_team p, rp_channel := sp_channel p,
                   rp_thread := first_non_empty [sp_thread p, sp_ts p], rp_user := sp_user p\<rparr>,
                 ce_key := first_non_empty [sp_event_id p, sp_ts p], ce_received := rc\<rparr>)))"

section \<open>Discord\<close>

definition discord_read :: "wire \<Rightarrow> gotime \<Rightarrow> gotime \<Rightarrow> string \<Rightarrow> http_req \<Rightarrow> http_reply + string" where
  "discord_read W clock nw key r =
     (case read_bounded max_body r of
        BodyError \<Rightarrow> Inl (Plain 400 ''read body'')
      | BodyTooLarge \<Rightarrow> Inl (Plain 413 ''body too large'')
      | BodyOk b \<Rightarrow>
          (let ts = rq_header r ''X-Signature-Timestamp'' in
           if \<not> fresh_discord clock ts nw \<or> \<not> verify_discord W key ts b (rq_header r ''X-Signature-Ed25519'')
           then Inl (Plain 401 ''invalid signature'') else Inr b))"

definition option_value :: "discord_interaction \<Rightarrow> string \<Rightarrow> string" where
  "option_value d name = (case map_of (di_options d) name of None \<Rightarrow> [] | Some v \<Rightarrow> v)"

definition interaction_user :: "discord_interaction \<Rightarrow> string" where
  "interaction_user d = (if di_member_user d \<noteq> [] then di_member_user d else di_user d)"

definition discord_event :: "wire \<Rightarrow> gotime \<Rightarrow> gotime \<Rightarrow> gotime \<Rightarrow> string \<Rightarrow> string \<Rightarrow> http_req \<Rightarrow> http_reply + chat_event" where
  "discord_event W clock nw rc key app r =
     (case discord_read W clock nw key r of
        Inl e \<Rightarrow> Inl e
      | Inr b \<Rightarrow>
          (case wi_discord W b of
             None \<Rightarrow> Inl (Plain 400 ''invalid json'')
           | Some p \<Rightarrow>
               if di_type p = 1 then Inl (Discord Pong)
               else (let q = option_value p ''question''; txt = (if q = [] then option_value p ''text'' else q) in
                 Inr (no_event\<lparr>ce_platform := ''discord'', ce_transport := ''http'', ce_authenticated := True,
                   ce_guild := di_guild p, ce_channel := di_channel p, ce_user := interaction_user p,
                   ce_command := di_name p, ce_text := trim_space txt,
                   ce_reply := no_target\<lparr>rp_platform := ''discord'', rp_guild := di_guild p, rp_channel := di_channel p,
                     rp_token := di_token p, rp_application := first_non_empty [app, di_application p]\<rparr>,
                   ce_key := di_id p, ce_received := rc\<rparr>))))"

section \<open>Telegram\<close>

definition ask_commands :: "string list" where
  "ask_commands = [''ask'', ''new'', ''resume'', ''status'']"

definition telegram_command :: "string \<Rightarrow> string \<times> string" where
  "telegram_command raw =
     (let t = trim_space raw in
      if \<not> has_prefix t ''/'' then ([], t)
      else (let p = (case str_fields t of [] \<Rightarrow> [] | w # _ \<Rightarrow> w);
                c = trim_prefix p ''/'';
                c' = (case index_byte c (CHR ''@'') of None \<Rightarrow> c | Some i \<Rightarrow> take i c)
            in (c', trim_space (trim_prefix (trim_prefix raw p) '' ''))))"

definition telegram_event :: "unicode \<Rightarrow> telegram_update \<Rightarrow> string \<Rightarrow> gotime \<Rightarrow> chat_event option" where
  "telegram_event u up transport nw =
     (if trim_space (tu_text up) = [] \<or> tu_chat up = 0 then None
      else (let (command, txt) = telegram_command (tu_text up); chat = show_int (tu_chat up) in
        if command = [] \<and> tu_chat_type up \<noteq> ''private'' then None
        else if command \<noteq> [] \<and> command \<notin> set ask_commands then None
        else Some (no_event\<lparr>ce_platform := ''telegram'', ce_transport := transport,
          ce_authenticated := (transport = ''polling''), ce_chat := chat, ce_channel := chat,
          ce_user := show_int (tu_from up), ce_command := default_string [command, ''text''],
          ce_text := strip_ask_prefix u txt,
          ce_reply := no_target\<lparr>rp_platform := ''telegram'', rp_chat := chat, rp_message := show_int (tu_message up)\<rparr>,
          ce_key := ''telegram:'' @ show_int (tu_id up), ce_received := nw\<rparr>)))"

text \<open>The handler's events are authenticated by the secret that reached the webhook.\<close>

definition telegram_webhook_event :: "wire \<Rightarrow> gotime \<Rightarrow> string \<Rightarrow> http_req \<Rightarrow> http_reply + chat_event" where
  "telegram_webhook_event W rc secret r =
     (if secret \<noteq> [] \<and> rq_header r ''X-Telegram-Bot-Api-Secret-Token'' \<noteq> secret then Inl (Plain 401 ''invalid secret'')
      else (case read_bounded max_body r of
              BodyError \<Rightarrow> Inl (Plain 400 ''read body'')
            | BodyTooLarge \<Rightarrow> Inl (Plain 413 ''body too large'')
            | BodyOk b \<Rightarrow>
                (case wi_telegram W b of
                   None \<Rightarrow> Inl (Plain 400 ''invalid json'')
                 | Some up \<Rightarrow>
                     (case telegram_event (wi_unicode W) up ''http'' rc of
                        None \<Rightarrow> Inl (Plain 200 ''ok'')
                      | Some ev \<Rightarrow> Inr (ev\<lparr>ce_authenticated := True\<rparr>)))))"

section \<open>The handlers and the mux\<close>

datatype endpoint =
    SlackCommands string
  | SlackEvents string
  | DiscordInteractions string string
  | TelegramWebhook string

definition endpoint_event :: "wire \<Rightarrow> gotime \<Rightarrow> gotime \<Rightarrow> gotime \<Rightarrow> endpoint \<Rightarrow> http_req \<Rightarrow> http_reply + chat_event" where
  "endpoint_event W clock nw rc ep r =
     (case ep of
        SlackCommands s \<Rightarrow> slack_command_event W clock nw rc s r
      | SlackEvents s \<Rightarrow> slack_mention_event W clock nw rc s r
      | DiscordInteractions k a \<Rightarrow> discord_event W clock nw rc k a r
      | TelegramWebhook s \<Rightarrow> telegram_webhook_event W rc s r)"

definition accepted_reply :: "endpoint \<Rightarrow> http_reply" where
  "accepted_reply ep =
     (case ep of
        SlackCommands _ \<Rightarrow> Plain 200 ''Cloudy is working on it.''
      | SlackEvents _ \<Rightarrow> Plain 200 ''ok''
      | DiscordInteractions _ _ \<Rightarrow> Discord Deferred
      | TelegramWebhook _ \<Rightarrow> Plain 200 ''ok'')"

definition refused_reply :: "endpoint \<Rightarrow> http_reply" where
  "refused_reply ep =
     (case ep of
        SlackCommands _ \<Rightarrow> Plain 200 ''Cloudy is not allowed to run for this Slack source.''
      | SlackEvents _ \<Rightarrow> Plain 200 ''ignored''
      | DiscordInteractions _ _ \<Rightarrow> Discord (Ephemeral ''Cloudy is not allowed to run for this Discord source.'')
      | TelegramWebhook _ \<Rightarrow> Plain 200 ''ignored'')"

definition accepted_no_run :: "chat_error \<Rightarrow> bool" where
  "accepted_no_run e \<longleftrightarrow> e = Duplicate"

definition serve_endpoint ::
    "wire \<Rightarrow> chat_config \<Rightarrow> handle_env \<Rightarrow> gotime \<Rightarrow> gotime \<Rightarrow> endpoint \<Rightarrow> http_req \<Rightarrow> service \<Rightarrow> http_reply \<times> service" where
  "serve_endpoint W cfg H nw rc ep r sv =
     (case endpoint_event W (he_clock H) nw rc ep r of
        Inl reply \<Rightarrow> (reply, sv)
      | Inr ev \<Rightarrow>
          (case handle_event cfg H ev sv of
             (Some e, sv') \<Rightarrow> (if accepted_no_run e then accepted_reply ep else refused_reply ep, sv')
           | (None, sv') \<Rightarrow> (accepted_reply ep, sv')))"

datatype chat_setup_error =
    ChatDisabled
  | ChatConfig config_error
  | EnvNotSet string
  | BadKey string key_error
  | SettingRequired string

definition build_mux :: "chat_config \<Rightarrow> (string \<Rightarrow> string) \<Rightarrow> chat_setup_error + (string \<times> endpoint) list" where
  "build_mux cfg env =
     (let sl = cf_slack cfg; di = cf_discord cfg; tg = cf_telegram cfg in
      if sc_enabled sl \<and> env (sc_signing_env sl) = [] then Inl (EnvNotSet (sc_signing_env sl))
      else
        (let m1 = (if sc_enabled sl
             then [(''/chatops/slack/commands'', SlackCommands (env (sc_signing_env sl))),
                   (''/chatops/slack/events'', SlackEvents (env (sc_signing_env sl)))]
             else [])
         in case (if dc_enabled di then map_sum (BadKey (dc_key_env di)) Some (parse_discord_key (env (dc_key_env di))) else Inr None) of
              Inl e \<Rightarrow> Inl e
            | Inr key \<Rightarrow>
                (let m2 = (case key of None \<Rightarrow> [] | Some k \<Rightarrow> [(''/chatops/discord/interactions'', DiscordInteractions k (dc_application di))]) in
                 if tg_enabled tg \<and> tg_mode tg \<noteq> ''polling''
                 then (if tg_secret_env tg = [] then Inl (SettingRequired ''telegram webhook_secret_env'')
                       else if env (tg_secret_env tg) = [] then Inl (EnvNotSet (tg_secret_env tg))
                       else Inr (m1 @ m2 @ [(''/chatops/telegram/webhook'', TelegramWebhook (env (tg_secret_env tg)))]))
                 else Inr (m1 @ m2))))"

datatype chat_client = SlackClient string | DiscordClient | TelegramClient string

definition build_clients :: "chat_config \<Rightarrow> (string \<Rightarrow> string) \<Rightarrow> chat_setup_error + (string \<times> chat_client) list" where
  "build_clients cfg env =
     (let sl = cf_slack cfg; tg = cf_telegram cfg in
      case validate_chat_ops cfg of
        Some e \<Rightarrow> Inl (ChatConfig e)
      | None \<Rightarrow>
          if sc_enabled sl \<and> sc_bot_env sl = [] then Inl (SettingRequired ''slack bot_token_env'')
          else if sc_enabled sl \<and> env (sc_bot_env sl) = [] then Inl (EnvNotSet (sc_bot_env sl))
          else if tg_bot_env tg \<noteq> [] \<and> tg_enabled tg \<and> env (tg_bot_env tg) = [] then Inl (EnvNotSet (tg_bot_env tg))
          else Inr ((if sc_enabled sl then [(''slack'', SlackClient (env (sc_bot_env sl)))] else []) @
                    [(''discord'', DiscordClient)] @
                    (if tg_bot_env tg \<noteq> [] then [(''telegram'', TelegramClient (env (tg_bot_env tg)))] else [])))"

text \<open>\<open>chatops serve\<close> up to the listener.\<close>

definition chatops_serve ::
    "chat_config \<Rightarrow> (string \<Rightarrow> string) \<Rightarrow> chat_setup_error + (string \<times> chat_client) list \<times> (string \<times> endpoint) list" where
  "chatops_serve cfg env =
     (if \<not> cf_enabled cfg then Inl ChatDisabled
      else (case build_clients cfg env of
              Inl e \<Rightarrow> Inl e
            | Inr cs \<Rightarrow> (case build_mux cfg env of Inl e \<Rightarrow> Inl e | Inr m \<Rightarrow> Inr (cs, m))))"

definition serve_request ::
    "wire \<Rightarrow> chat_config \<Rightarrow> handle_env \<Rightarrow> gotime \<Rightarrow> gotime \<Rightarrow> (string \<times> endpoint) list \<Rightarrow> string \<Rightarrow> http_req \<Rightarrow> service
     \<Rightarrow> http_reply \<times> service" where
  "serve_request W cfg H nw rc mux path r sv =
     (case map_of mux path of
        None \<Rightarrow> (Plain 404 ''404 page not found'', sv)
      | Some ep \<Rightarrow> serve_endpoint W cfg H nw rc ep r sv)"

end
