(* ===== verification/Chat_Poller.thy ===== *)
theory Chat_Poller
  imports Chat_Adapters
begin

text \<open>
  The Telegram poller (\<open>internal/chatops/telegram.go\<close>): one \<open>getUpdates\<close> batch, the offset it keeps,
  and what a sequence of polls achieves. The Bot API is a parameter: what it answers to a URL. The
  environment of each call of the service is given by the position of the update in its batch. The
  offset stays far from 2^63.
\<close>

section \<open>One batch\<close>

datatype api_reply = BadUrl | RequestFailed | ApiReply nat string

datatype poll_error =
    PollUrl
  | PollRequest
  | PollStatus nat
  | PollDecode
  | PollNotOk
  | PollHandle chat_error

record poller =
  po_base :: string
  po_token :: string
  po_seconds :: int
  po_unicode :: unicode
  po_decode :: "string \<Rightarrow> (bool \<times> telegram_update list) option"

definition trim_slashes :: "string \<Rightarrow> string" where
  "trim_slashes s = rev (dropWhile (\<lambda>c. c = CHR ''/'') (rev s))"

definition poll_url :: "poller \<Rightarrow> int \<Rightarrow> string" where
  "poll_url P off =
     trim_slashes (po_base P) @ ''/bot'' @ po_token P @ ''/getUpdates'' @ ''?'' @
     (if 0 < off then ''offset='' @ show_int off @ ''&'' else []) @ ''timeout='' @ show_int (po_seconds P)"

definition advance_offset :: "int \<Rightarrow> int \<Rightarrow> int" where
  "advance_offset uid off = (if off \<le> uid then uid + 1 else off)"

text \<open>The loop over the batch: the error that stops it, the offset, the service, and the updates the
  service accepted.\<close>

fun poll_updates ::
    "unicode \<Rightarrow> chat_config \<Rightarrow> (nat \<Rightarrow> handle_env) \<Rightarrow> nat \<Rightarrow> int \<Rightarrow> telegram_update list \<Rightarrow> service
     \<Rightarrow> chat_error option \<times> int \<times> service \<times> int list" where
  "poll_updates u cfg H i off [] sv = (None, off, sv, [])"
| "poll_updates u cfg H i off (up # ups) sv =
     (if tu_id up < off then poll_updates u cfg H (Suc i) off ups sv
      else (case telegram_event u up ''polling'' (he_clock (H i)) of
              None \<Rightarrow> poll_updates u cfg H (Suc i) (advance_offset (tu_id up) off) ups sv
            | Some ev \<Rightarrow>
                (case handle_event cfg (H i) ev sv of
                   (Some e, sv') \<Rightarrow>
                     (if accepted_no_run e then poll_updates u cfg H (Suc i) (advance_offset (tu_id up) off) ups sv'
                      else (Some e, off, sv', []))
                 | (None, sv') \<Rightarrow>
                     (let (r, off', sv'', acc) = poll_updates u cfg H (Suc i) (advance_offset (tu_id up) off) ups sv'
                      in (r, off', sv'', tu_id up # acc)))))"

definition poll_once ::
    "poller \<Rightarrow> chat_config \<Rightarrow> (nat \<Rightarrow> handle_env) \<Rightarrow> (string \<Rightarrow> api_reply) \<Rightarrow> int \<Rightarrow> service
     \<Rightarrow> poll_error option \<times> int \<times> service \<times> int list" where
  "poll_once P cfg H api off sv =
     (case api (poll_url P off) of
        BadUrl \<Rightarrow> (Some PollUrl, off, sv, [])
      | RequestFailed \<Rightarrow> (Some PollRequest, off, sv, [])
      | ApiReply status body \<Rightarrow>
          if 300 \<le> status then (Some (PollStatus status), off, sv, [])
          else (case po_decode P body of
                  None \<Rightarrow> (Some PollDecode, off, sv, [])
                | Some (ok, ups) \<Rightarrow>
                    if \<not> ok then (Some PollNotOk, off, sv, [])
                    else (case poll_updates (po_unicode P) cfg H 0 off ups sv of
                            (r, off', sv', acc) \<Rightarrow> (map_option PollHandle r, off', sv', acc))))"

text \<open>\<open>telegram-poll\<close> for as many rounds as there are entries: each with its environment and its Bot API,
  and what the workers and the clock do to the service before it.\<close>

record poll_round =
  pr_env :: "nat \<Rightarrow> handle_env"
  pr_api :: "string \<Rightarrow> api_reply"
  pr_drain :: "service \<Rightarrow> service"

fun poll_rounds ::
    "poller \<Rightarrow> chat_config \<Rightarrow> poll_round list \<Rightarrow> int \<Rightarrow> service \<Rightarrow> poll_error option list \<times> int \<times> service \<times> int list" where
  "poll_rounds P cfg [] off sv = ([], off, sv, [])"
| "poll_rounds P cfg (R # Rs) off sv =
     (let (r, off1, sv1, acc1) = poll_once P cfg (pr_env R) (pr_api R) off (pr_drain R sv);
          (rs, off2, sv2, acc2) = poll_rounds P cfg Rs off1 sv1
      in (r # rs, off2, sv2, acc1 @ acc2))"

section \<open>The offset\<close>

lemma poll_updates_offset:
  "poll_updates u cfg H i off ups sv = (r, off', sv', acc) \<Longrightarrow>
     off \<le> off' \<and> (\<forall>a \<in> set acc. off \<le> a \<and> a < off') \<and> sorted_wrt (<) acc"
proof (induction u cfg H i off ups sv arbitrary: r off' sv' acc rule: poll_updates.induct)
  case (2 u cfg H i off up ups sv)
  show ?case
  proof (cases "tu_id up < off")
    case True
    then show ?thesis using 2(1) [OF True] 2(5) by simp
  next
    case False
    then have adv: "advance_offset (tu_id up) off = tu_id up + 1" by (simp add: advance_offset_def)
    show ?thesis
    proof (cases "telegram_event u up ''polling'' (he_clock (H i))")
      case None
      then show ?thesis using 2(2) [OF False None] 2(5) False by (fastforce simp: adv)
    next
      case (Some ev)
      obtain e sv1 where h: "handle_event cfg (H i) ev sv = (e, sv1)" by fastforce
      show ?thesis
      proof (cases e)
        case None
        obtain r1 o1 s1 a1 where p: "poll_updates u cfg H (Suc i) (tu_id up + 1) ups sv1 = (r1, o1, s1, a1)"
          by (metis prod_cases4)
        have "tu_id up + 1 \<le> o1 \<and> (\<forall>a \<in> set a1. tu_id up + 1 \<le> a \<and> a < o1) \<and> sorted_wrt (<) a1"
          using 2(3) [OF False Some h [symmetric] None] p by (simp add: adv)
        moreover have "off' = o1" "acc = tu_id up # a1" using 2(5) False Some h None p by (simp_all add: adv)
        ultimately show ?thesis using False by fastforce
      next
        case (Some x)
        then show ?thesis
          using 2(4) [OF False \<open>telegram_event u up ''polling'' (he_clock (H i)) = Some ev\<close> h [symmetric] Some]
            2(5) False \<open>telegram_event u up ''polling'' (he_clock (H i)) = Some ev\<close> h
          by (fastforce simp: adv split: if_splits)
      qed
    qed
  qed
qed simp

lemma poll_once_offset:
  assumes "poll_once P cfg H api off sv = (r, off', sv', acc)"
  shows "off \<le> off' \<and> (\<forall>a \<in> set acc. off \<le> a \<and> a < off') \<and> sorted_wrt (<) acc"
  using assms poll_updates_offset
  by (auto simp: poll_once_def split: api_reply.splits if_splits option.splits prod.splits)

lemma poll_rounds_offset:
  "poll_rounds P cfg Rs off sv = (rs, off', sv', acc) \<Longrightarrow>
     off \<le> off' \<and> (\<forall>a \<in> set acc. off \<le> a \<and> a < off') \<and> sorted_wrt (<) acc"
proof (induction P cfg Rs off sv arbitrary: rs off' sv' acc rule: poll_rounds.induct)
  case (2 P cfg R Rs off sv)
  obtain r o1 s1 a1 where p: "poll_once P cfg (pr_env R) (pr_api R) off (pr_drain R sv) = (r, o1, s1, a1)"
    by (metis prod_cases4)
  obtain rs2 o2 s2 a2 where q: "poll_rounds P cfg Rs o1 s1 = (rs2, o2, s2, a2)" by (metis prod_cases4)
  have "off' = o2" "acc = a1 @ a2" using 2(2) p q by simp_all
  then show ?case
    using poll_once_offset [OF p] 2(1) [OF p [symmetric] refl refl refl q]
    by (fastforce simp: sorted_wrt_append)
qed simp

section \<open>Progress\<close>

text \<open>A batch that no error stops is confirmed as a whole.\<close>

lemma poll_updates_confirms:
  "poll_updates u cfg H i off ups sv = (None, off', sv', acc) \<Longrightarrow>
     off' = fold (\<lambda>up m. advance_offset (tu_id up) m) ups off"
proof (induction u cfg H i off ups sv arbitrary: off' sv' acc rule: poll_updates.induct)
  case (2 u cfg H i off up ups sv)
  then show ?case
    by (auto simp: advance_offset_def split: if_splits option.splits prod.splits)
qed simp

lemma fold_advance:
  "sorted_wrt (<) (map tu_id ups) \<Longrightarrow> \<forall>up \<in> set ups. off \<le> tu_id up \<Longrightarrow>
     fold (\<lambda>up m. advance_offset (tu_id up) m) ups off = (if ups = [] then off else tu_id (List.last ups) + 1)"
proof (induction ups arbitrary: off)
  case (Cons a ups)
  then have "\<forall>up \<in> set ups. tu_id a + 1 \<le> tu_id up" "sorted_wrt (<) (map tu_id ups)" by (auto simp: sorted_wrt_map)
  then show ?case using Cons.IH [of "tu_id a + 1"] Cons.prems(2) by (simp add: advance_offset_def)
qed simp

text \<open>A server that keeps the updates of the bot in ascending order and answers with the first ones not
  below the offset, \<open>batch\<close> at most.\<close>

definition offered :: "nat \<Rightarrow> telegram_update list \<Rightarrow> int \<Rightarrow> telegram_update list" where
  "offered batch pending off = take batch (filter (\<lambda>up. off \<le> tu_id up) pending)"

definition serves :: "poller \<Rightarrow> nat \<Rightarrow> telegram_update list \<Rightarrow> (string \<Rightarrow> api_reply) \<Rightarrow> bool" where
  "serves P batch pending api \<longleftrightarrow>
     (\<forall>off. \<exists>body. api (poll_url P off) = ApiReply 200 body \<and> po_decode P body = Some (True, offered batch pending off))"

lemma poll_once_served:
  assumes "serves P batch pending api"
  shows "poll_once P cfg H api off sv =
     (case poll_updates (po_unicode P) cfg H 0 off (offered batch pending off) sv of
        (r, off', sv', acc) \<Rightarrow> (map_option PollHandle r, off', sv', acc))"
proof -
  obtain body where "api (poll_url P off) = ApiReply 200 body" "po_decode P body = Some (True, offered batch pending off)"
    using assms unfolding serves_def by blast
  then show ?thesis by (simp add: poll_once_def)
qed

lemma sorted_wrt_last: "sorted_wrt P xs \<Longrightarrow> a \<in> set xs \<Longrightarrow> a = List.last xs \<or> P a (List.last xs)"
  by (induction xs) auto

lemma filter_after_take:
  assumes "sorted_wrt (<) (map tu_id ups)" "take batch ups \<noteq> []"
  shows "filter (\<lambda>up. tu_id (List.last (take batch ups)) + 1 \<le> tu_id up) ups = drop batch ups"
proof -
  let ?l = "List.last (take batch ups)"
  have s: "sorted_wrt (\<lambda>a b. tu_id a < tu_id b) (take batch ups @ drop batch ups)"
    using assms(1) by (simp add: sorted_wrt_map)
  have "sorted_wrt (\<lambda>a b. tu_id a < tu_id b) (take batch ups)" using s by (simp add: sorted_wrt_append)
  then have "tu_id a \<le> tu_id ?l" if "a \<in> set (take batch ups)" for a
    using sorted_wrt_last [OF _ that] by fastforce
  then have "filter (\<lambda>up. tu_id ?l + 1 \<le> tu_id up) (take batch ups) = []" by (force simp: filter_empty_conv)
  moreover have "filter (\<lambda>up. tu_id ?l + 1 \<le> tu_id up) (drop batch ups) = drop batch ups"
    using s assms(2) unfolding sorted_wrt_append by (intro filter_True) (metis add1_zle_eq last_in_set)
  ultimately show ?thesis by (metis append_Nil append_take_drop_id filter_append)
qed

lemma poll_confirms_batch:
  assumes "serves P batch pending api" "sorted_wrt (<) (map tu_id pending)" "0 < batch"
    and "poll_once P cfg H api off sv = (None, off', sv', acc)"
  shows "filter (\<lambda>up. off' \<le> tu_id up) pending = drop batch (filter (\<lambda>up. off \<le> tu_id up) pending)"
proof -
  let ?left = "filter (\<lambda>up. off \<le> tu_id up) pending"
  have sl: "sorted_wrt (<) (map tu_id ?left)" using assms(2) by (simp add: sorted_wrt_map sorted_wrt_filter)
  obtain r o1 s1 a1 where p: "poll_updates (po_unicode P) cfg H 0 off (take batch ?left) sv = (r, o1, s1, a1)"
    by (metis prod_cases4)
  have "r = None" "o1 = off'"
    using assms(4) poll_once_served [OF assms(1), of cfg H off sv] p by (simp_all add: offered_def)
  then have off': "off' = fold (\<lambda>up m. advance_offset (tu_id up) m) (take batch ?left) off"
    using poll_updates_confirms p by blast
  have st: "sorted_wrt (<) (map tu_id (take batch ?left))" using sl by (simp add: take_map [symmetric] sorted_wrt_take)
  have ge: "\<forall>up \<in> set (take batch ?left). off \<le> tu_id up" by (auto dest: in_set_takeD)
  show ?thesis
  proof (cases "take batch ?left = []")
    case True
    then have "?left = []" "off' = off" using assms(3) off' by auto
    then show ?thesis by simp
  next
    case False
    then have o: "off' = tu_id (List.last (take batch ?left)) + 1" using off' fold_advance [OF st ge] by simp
    have "off \<le> tu_id (List.last (take batch ?left))" using ge last_in_set [OF False] by blast
    then have "off' \<le> tu_id up \<longleftrightarrow> off \<le> tu_id up \<and> off' \<le> tu_id up" for up unfolding o by auto
    then have "filter (\<lambda>up. off' \<le> tu_id up) pending = filter (\<lambda>up. off \<le> tu_id up \<and> off' \<le> tu_id up) pending"
      by (rule filter_cong [OF refl])
    then have "filter (\<lambda>up. off' \<le> tu_id up) pending = filter (\<lambda>up. off' \<le> tu_id up) ?left"
      by (simp add: filter_filter)
    then show ?thesis using filter_after_take [OF sl False] o by simp
  qed
qed

lemma poll_rounds_confirm:
  assumes "sorted_wrt (<) (map tu_id pending)" "0 < batch"
  shows "\<forall>R \<in> set Rs. serves P batch pending (pr_api R) \<Longrightarrow> poll_rounds P cfg Rs off sv = (rs, off', sv', acc) \<Longrightarrow>
     \<forall>r \<in> set rs. r = None \<Longrightarrow>
     filter (\<lambda>up. off' \<le> tu_id up) pending = drop (batch * length Rs) (filter (\<lambda>up. off \<le> tu_id up) pending)"
proof (induction Rs arbitrary: off sv rs off' sv' acc)
  case (Cons R Rs)
  obtain r o1 s1 a1 where p: "poll_once P cfg (pr_env R) (pr_api R) off (pr_drain R sv) = (r, o1, s1, a1)"
    by (metis prod_cases4)
  obtain rs2 o2 s2 a2 where q: "poll_rounds P cfg Rs o1 s1 = (rs2, o2, s2, a2)" by (metis prod_cases4)
  have eq: "off' = o2" "rs = r # rs2" using Cons.prems(2) p q by simp_all
  then have "r = None" "\<forall>r \<in> set rs2. r = None" using Cons.prems(3) by auto
  then show ?case
    using poll_confirms_batch [OF _ assms p [unfolded \<open>r = None\<close>]] Cons.IH [OF _ q] Cons.prems(1) eq
    by (simp add: add.commute)
qed simp

section \<open>The stall\<close>

lemma check_allowlist_time [simp]: "check_allowlist cfg (ev\<lparr>ce_received := t\<rparr>) = check_allowlist cfg ev"
  by (simp add: check_allowlist_def Let_def)

text \<open>The service refuses an event without a prompt or from an unlisted source, whatever its state.\<close>

lemma handle_refuses:
  assumes "ce_authenticated ev" "trim_space (ce_text ev) = [] \<or> check_allowlist cfg ev \<noteq> None"
  shows "\<exists>e. e \<noteq> Duplicate \<and> handle_event cfg H ev sv = (Some e, sv)"
proof -
  let ?ev = "if ce_received ev = 0 then ev\<lparr>ce_received := he_clock H\<rparr> else ev"
  have same: "ce_authenticated ?ev = ce_authenticated ev" "ce_text ?ev = ce_text ev" "check_allowlist cfg ?ev = check_allowlist cfg ev"
    by simp_all
  have not_dup: "check_allowlist cfg ev \<noteq> Some Duplicate"
    by (auto simp: check_allowlist_def Let_def split: if_splits)
  have "\<exists>e. e \<noteq> Duplicate \<and> authorize (he_rate_order H) cfg (he_clock H) ?ev (sv_windows sv) = (Inl e, sv_windows sv)"
    using assms not_dup unfolding authorize_def same by auto
  then show ?thesis by (auto simp: handle_event_def Let_def)
qed

text \<open>Such an update at the head of every batch is never confirmed and hides every update behind it.\<close>

definition refused_update :: "unicode \<Rightarrow> chat_config \<Rightarrow> telegram_update \<Rightarrow> bool" where
  "refused_update u cfg up \<longleftrightarrow>
     (case telegram_event u up ''polling'' 0 of
        None \<Rightarrow> False
      | Some ev \<Rightarrow> trim_space (ce_text ev) = [] \<or> check_allowlist cfg ev \<noteq> None)"

lemma telegram_event_time:
  "telegram_event u up ''polling'' t = map_option (\<lambda>ev. ev\<lparr>ce_received := t\<rparr>) (telegram_event u up ''polling'' 0)"
  by (cases "telegram_command (tu_text up)") (simp add: telegram_event_def Let_def)

lemma telegram_event_polling: "telegram_event u up ''polling'' t = Some ev \<Longrightarrow> ce_authenticated ev"
  by (auto simp: telegram_event_def Let_def split: if_splits prod.splits)

lemma refused_update_stops:
  assumes "refused_update u cfg up" "off \<le> tu_id up"
  shows "\<exists>e. poll_updates u cfg H i off (up # ups) sv = (Some e, off, sv, [])"
proof -
  obtain ev0 where ev0: "telegram_event u up ''polling'' 0 = Some ev0"
    "trim_space (ce_text ev0) = [] \<or> check_allowlist cfg ev0 \<noteq> None"
    using assms(1) by (auto simp: refused_update_def split: option.splits)
  let ?ev = "ev0\<lparr>ce_received := he_clock (H i)\<rparr>"
  have t: "telegram_event u up ''polling'' (he_clock (H i)) = Some ?ev"
    by (subst telegram_event_time) (simp add: ev0)
  have "check_allowlist cfg ?ev = check_allowlist cfg ev0" by simp
  then obtain e where "e \<noteq> Duplicate" "handle_event cfg (H i) ?ev sv = (Some e, sv)"
    using handle_refuses [OF telegram_event_polling [OF t], of cfg "H i" sv] ev0(2) by auto
  then show ?thesis using assms(2) t by (simp add: accepted_no_run_def)
qed

lemma poll_rounds_stall:
  assumes "refused_update (po_unicode P) cfg up" "off \<le> tu_id up"
    and "\<forall>R \<in> set Rs. \<exists>body ups. pr_api R (poll_url P off) = ApiReply 200 body \<and> po_decode P body = Some (True, up # ups)"
  shows "\<exists>es. poll_rounds P cfg Rs off sv = (map (\<lambda>e. Some (PollHandle e)) es, off, foldl (\<lambda>s R. pr_drain R s) sv Rs, [])"
  using assms(3)
proof (induction Rs arbitrary: sv)
  case (Cons R Rs)
  then obtain body ups where "pr_api R (poll_url P off) = ApiReply 200 body" "po_decode P body = Some (True, up # ups)"
    by auto
  moreover obtain e where "poll_updates (po_unicode P) cfg (pr_env R) 0 off (up # ups) (pr_drain R sv) = (Some e, off, pr_drain R sv, [])"
    using refused_update_stops [OF assms(1,2)] by blast
  ultimately have "poll_once P cfg (pr_env R) (pr_api R) off (pr_drain R sv) = (Some (PollHandle e), off, pr_drain R sv, [])"
    by (simp add: poll_once_def)
  moreover obtain es where "poll_rounds P cfg Rs off (pr_drain R sv) =
      (map (\<lambda>e. Some (PollHandle e)) es, off, foldl (\<lambda>s R. pr_drain R s) (pr_drain R sv) Rs, [])"
    using Cons.IH [of "pr_drain R sv"] Cons.prems by auto
  ultimately have "poll_rounds P cfg (R # Rs) off sv =
      (map (\<lambda>e. Some (PollHandle e)) (e # es), off, foldl (\<lambda>s R. pr_drain R s) sv (R # Rs), [])" by simp
  then show ?case by blast
qed simp

end
