(* ===== verification/Chat_Delivery.thy ===== *)
theory Chat_Delivery
  imports Chat_Format Chat_Adapters
begin

text \<open>
  Outgoing messages (the \<open>Deliver\<close> methods of \<open>internal/chatops/slack.go\<close>, \<open>discord.go\<close> and
  \<open>telegram.go\<close>, \<open>doChatOpsRequest\<close>): which requests a client sends for a reply, and when it reports an
  error. What the network answers to a request is a parameter, as is the decoder of Slack's answer.
\<close>

section \<open>Requests\<close>

datatype field_value = FString string | FInt int | FBool bool | FNoMentions

record out_post =
  op_url :: string
  op_bearer :: "string option"
  op_fields :: "field_value gomap"

datatype net_reply = InvalidUrl | NoAnswer | NetReply nat string

datatype delivery_error =
    DeliveryUrl string
  | DeliveryFailed string
  | DeliveryStatus string nat
  | DeliveryNeeds string
  | DeliveryDecode
  | DeliveryRefused string

definition post_ok :: "string \<Rightarrow> (out_post \<Rightarrow> net_reply) \<Rightarrow> out_post \<Rightarrow> delivery_error + string" where
  "post_ok label net p =
     (case net p of
        InvalidUrl \<Rightarrow> Inl (DeliveryUrl label)
      | NoAnswer \<Rightarrow> Inl (DeliveryFailed label)
      | NetReply status body \<Rightarrow> if 300 \<le> status then Inl (DeliveryStatus label status) else Inr body)"

definition base_or :: "string \<Rightarrow> string \<Rightarrow> string" where
  "base_or b dflt = (let t = rev (dropWhile (\<lambda>c. c = CHR ''/'') (rev b)) in if t = [] then dflt else t)"

section \<open>Slack\<close>

definition slack_response_post :: "reply_target \<Rightarrow> chat_message \<Rightarrow> out_post" where
  "slack_response_post t msg =
     \<lparr>op_url = rp_response_url t, op_bearer = None,
      op_fields = [(''text'', FString (format_message ''slack'' msg)),
        (''response_type'', FString (if cm_visibility msg = ''channel'' then ''in_channel'' else ''ephemeral''))]\<rparr>"

definition slack_bot_post :: "string \<Rightarrow> string \<Rightarrow> reply_target \<Rightarrow> chat_message \<Rightarrow> delivery_error + out_post" where
  "slack_bot_post token base t msg =
     (if rp_channel t = [] \<or> token = [] then Inl (DeliveryNeeds ''bot token and channel'')
      else if cm_visibility msg \<noteq> ''channel'' \<and> rp_user t = [] then Inl (DeliveryNeeds ''user'')
      else Inr
        \<lparr>op_url = base_or base ''https://slack.com/api'' @ ''/'' @
           (if cm_visibility msg \<noteq> ''channel'' then ''chat.postEphemeral'' else ''chat.postMessage''),
         op_bearer = Some token,
         op_fields =
           [(''channel'', FString (rp_channel t)), (''text'', FString (format_message ''slack'' msg)), (''mrkdwn'', FBool True)] @
           (if cm_visibility msg \<noteq> ''channel'' then [(''user'', FString (rp_user t))] else []) @
           (if rp_thread t \<noteq> [] then [(''thread_ts'', FString (rp_thread t))] else [])\<rparr>)"

definition slack_deliver ::
    "(string \<Rightarrow> (bool \<times> string) option) \<Rightarrow> (out_post \<Rightarrow> net_reply) \<Rightarrow> string \<Rightarrow> string \<Rightarrow> reply_target \<Rightarrow> chat_message
     \<Rightarrow> delivery_error option \<times> out_post list" where
  "slack_deliver dec net token base t msg =
     (if rp_platform t \<noteq> ''slack'' then (None, [])
      else if rp_response_url t \<noteq> [] then
        (case post_ok ''slack'' net (slack_response_post t msg) of
           Inl e \<Rightarrow> (Some e, [slack_response_post t msg])
         | Inr _ \<Rightarrow> (None, [slack_response_post t msg]))
      else
        (case slack_bot_post token base t msg of
           Inl e \<Rightarrow> (Some e, [])
         | Inr p \<Rightarrow>
             (case post_ok ''slack'' net p of
                Inl e \<Rightarrow> (Some e, [p])
              | Inr body \<Rightarrow>
                  (case dec body of
                     None \<Rightarrow> (Some DeliveryDecode, [p])
                   | Some (ok, err) \<Rightarrow> (if ok then None else Some (DeliveryRefused err), [p])))))"

section \<open>Discord\<close>

definition discord_post :: "string \<Rightarrow> reply_target \<Rightarrow> chat_message \<Rightarrow> out_post" where
  "discord_post base t msg =
     \<lparr>op_url = base_or base ''https://discord.com/api/v10'' @ ''/webhooks/'' @ rp_application t @ ''/'' @ rp_token t,
      op_bearer = None,
      op_fields = [(''content'', FString (format_message ''discord'' msg)), (''allowed_mentions'', FNoMentions)] @
        (if cm_visibility msg \<noteq> ''channel'' then [(''flags'', FInt 64)] else [])\<rparr>"

definition discord_deliver ::
    "(out_post \<Rightarrow> net_reply) \<Rightarrow> string \<Rightarrow> reply_target \<Rightarrow> chat_message \<Rightarrow> delivery_error option \<times> out_post list" where
  "discord_deliver net base t msg =
     (if rp_platform t \<noteq> ''discord'' \<or> rp_token t = [] \<or> rp_application t = [] then (None, [])
      else (case post_ok ''discord'' net (discord_post base t msg) of
              Inl e \<Rightarrow> (Some e, [discord_post base t msg])
            | Inr _ \<Rightarrow> (None, [discord_post base t msg])))"

section \<open>Telegram\<close>

definition telegram_limit :: int where
  "telegram_limit = 3900"

definition telegram_post :: "string \<Rightarrow> string \<Rightarrow> reply_target \<Rightarrow> string \<Rightarrow> out_post" where
  "telegram_post token base t piece =
     \<lparr>op_url = base_or base ''https://api.telegram.org'' @ ''/bot'' @ token @ ''/sendMessage'', op_bearer = None,
      op_fields = [(''chat_id'', FString (rp_chat t)), (''text'', FString piece), (''parse_mode'', FString ''MarkdownV2'')]\<rparr>"

fun telegram_send :: "(out_post \<Rightarrow> net_reply) \<Rightarrow> (string \<Rightarrow> out_post) \<Rightarrow> string list \<Rightarrow> delivery_error option \<times> out_post list" where
  "telegram_send net mk [] = (None, [])"
| "telegram_send net mk (c # cs) =
     (case post_ok ''telegram'' net (mk c) of
        Inl e \<Rightarrow> (Some e, [mk c])
      | Inr _ \<Rightarrow> (let (r, ps) = telegram_send net mk cs in (r, mk c # ps)))"

definition telegram_deliver ::
    "(out_post \<Rightarrow> net_reply) \<Rightarrow> string \<Rightarrow> string \<Rightarrow> reply_target \<Rightarrow> chat_message \<Rightarrow> delivery_error option \<times> out_post list" where
  "telegram_deliver net token base t msg =
     (if rp_platform t \<noteq> ''telegram'' \<or> rp_chat t = [] \<or> token = [] then (None, [])
      else telegram_send net (telegram_post token base t) (chunk_text (format_message ''telegram'' msg) telegram_limit))"

section \<open>The clients of the service\<close>

text \<open>The clients \<open>chatops serve\<close> builds use the platforms' default hosts.\<close>

definition client_deliver ::
    "(string \<Rightarrow> (bool \<times> string) option) \<Rightarrow> (out_post \<Rightarrow> net_reply) \<Rightarrow> chat_client \<Rightarrow> reply_target \<Rightarrow> chat_message
     \<Rightarrow> delivery_error option \<times> out_post list" where
  "client_deliver dec net c t msg =
     (case c of
        SlackClient token \<Rightarrow> slack_deliver dec net token [] t msg
      | DiscordClient \<Rightarrow> discord_deliver net [] t msg
      | TelegramClient token \<Rightarrow> telegram_deliver net token [] t msg)"

definition clients_deliver ::
    "(string \<Rightarrow> (bool \<times> string) option) \<Rightarrow> (out_post \<Rightarrow> net_reply) \<Rightarrow> (string \<times> chat_client) list \<Rightarrow> reply_target
     \<Rightarrow> chat_message \<Rightarrow> delivery_error option \<times> out_post list" where
  "clients_deliver dec net cs t msg =
     (case map_of cs (rp_platform t) of None \<Rightarrow> (None, []) | Some c \<Rightarrow> client_deliver dec net c t msg)"

section \<open>What is posted\<close>

text \<open>Only the person who asked sees the post.\<close>

definition private_post :: "reply_target \<Rightarrow> out_post \<Rightarrow> bool" where
  "private_post t p \<longleftrightarrow>
     gm_get (op_fields p) ''response_type'' = Some (FString ''ephemeral'') \<or>
     gm_get (op_fields p) ''flags'' = Some (FInt 64) \<or>
     has_suffix (op_url p) ''/chat.postEphemeral'' \<and> rp_user t \<noteq> [] \<and> gm_get (op_fields p) ''user'' = Some (FString (rp_user t))"

lemma has_suffix_append: "has_suffix (a @ b) b"
  by (simp add: has_suffix_def suffix_def)

lemma slack_private:
  assumes "cm_visibility msg \<noteq> ''channel''" "p \<in> set (snd (slack_deliver dec net token base t msg))"
  shows "private_post t p"
proof -
  have s: "has_suffix (b @ ''/'' @ ''chat.postEphemeral'') ''/chat.postEphemeral''" for b
    using has_suffix_append [of b "''/chat.postEphemeral''"] by simp
  have r: "private_post t (slack_response_post t msg)"
    using assms(1) by (simp add: private_post_def slack_response_post_def)
  have b: "private_post t q" if "slack_bot_post token base t msg = Inr q" for q
    using that assms(1) s by (auto simp: private_post_def slack_bot_post_def split: if_splits)
  show ?thesis
    using assms(2) r b
    by (auto simp: slack_deliver_def split: if_splits sum.splits option.splits prod.splits)
qed

lemma discord_private:
  assumes "cm_visibility msg \<noteq> ''channel''" "p \<in> set (snd (discord_deliver net base t msg))"
  shows "private_post t p"
  using assms by (auto simp: discord_deliver_def discord_post_def private_post_def split: if_splits sum.splits)

lemma telegram_send_all:
  "telegram_send net mk cs = (None, ps) \<Longrightarrow> ps = map mk cs"
  by (induction cs arbitrary: ps) (auto split: sum.splits prod.splits)

lemma telegram_send_prefix: "\<exists>n. snd (telegram_send net mk cs) = map mk (take n cs)"
proof (induction cs)
  case (Cons c cs)
  then obtain n where n: "snd (telegram_send net mk cs) = map mk (take n cs)" by blast
  show ?case
  proof (cases "post_ok ''telegram'' net (mk c)")
    case (Inl e)
    then show ?thesis by (intro exI [of _ 1]) simp
  next
    case (Inr b)
    then show ?thesis using n by (intro exI [of _ "Suc n"]) (simp add: case_prod_unfold)
  qed
qed simp

end
