(* ===== verification/Connector_Facts.thy ===== *)
theory Connector_Facts
  imports Chat_Poller Chat_Delivery
begin

text \<open>
  Which requests pass the adapters, and how Telegram replies are cut into messages.
\<close>

section \<open>Signed requests\<close>

definition slack_signed :: "wire \<Rightarrow> gotime \<Rightarrow> string \<Rightarrow> http_req \<Rightarrow> bool" where
  "slack_signed W nw secret r \<longleftrightarrow>
     secret \<noteq> [] \<and>
     (\<exists>ts d. parse_int64 (rq_header r ''X-Slack-Request-Timestamp'') = Some ts \<and> \<bar>nw - unix_time ts\<bar> \<le> 300 * second_ns \<and>
        rq_header r ''X-Slack-Signature'' = ''v0='' @ d \<and>
        hex_decode d = Some (wi_hmac W secret (''v0:'' @ rq_header r ''X-Slack-Request-Timestamp'' @ '':'' @ rq_bytes r)))"

definition discord_signed :: "wire \<Rightarrow> gotime \<Rightarrow> string \<Rightarrow> http_req \<Rightarrow> bool" where
  "discord_signed W nw key r \<longleftrightarrow>
     length key = 32 \<and>
     (\<exists>ts sg. parse_int64 (rq_header r ''X-Signature-Timestamp'') = Some ts \<and> \<bar>nw - unix_time ts\<bar> \<le> 300 * second_ns \<and>
        hex_decode (rq_header r ''X-Signature-Ed25519'') = Some sg \<and> length sg = 64 \<and>
        wi_ed25519 W key (rq_header r ''X-Signature-Timestamp'' @ rq_bytes r) sg)"

definition signed :: "wire \<Rightarrow> gotime \<Rightarrow> endpoint \<Rightarrow> http_req \<Rightarrow> bool" where
  "signed W nw ep r \<longleftrightarrow>
     length (rq_bytes r) \<le> 1048576 \<and>
     (case ep of
        SlackCommands s \<Rightarrow> slack_signed W nw s r
      | SlackEvents s \<Rightarrow> slack_signed W nw s r
      | DiscordInteractions k _ \<Rightarrow> discord_signed W nw k r
      | TelegramWebhook s \<Rightarrow> s \<noteq> [] \<and> rq_header r ''X-Telegram-Bot-Api-Secret-Token'' = s)"

lemma read_bounded_ok: "read_bounded mx r = BodyOk b \<Longrightarrow> b = rq_bytes r \<and> length (rq_bytes r) \<le> mx"
  by (auto simp: read_bounded_def Let_def split: if_splits)

lemma fresh_within_abs: "nw \<noteq> 0 \<Longrightarrow> fresh_within clock nw ts \<longleftrightarrow> \<bar>nw - unix_time ts\<bar> \<le> 300 * second_ns"
  by (auto simp: fresh_within_def Let_def)

lemma slack_read_signed:
  "slack_read W clock nw s r = Inr b \<Longrightarrow> nw \<noteq> 0 \<Longrightarrow> slack_signed W nw s r \<and> length (rq_bytes r) \<le> max_body"
  by (auto simp: slack_read_def verify_slack_def slack_signed_def fresh_within_abs has_prefix_def trim_prefix_def prefix_def
      dest!: read_bounded_ok split: body_read.splits if_splits option.splits)

lemma discord_read_signed:
  "discord_read W clock nw k r = Inr b \<Longrightarrow> nw \<noteq> 0 \<Longrightarrow> discord_signed W nw k r \<and> length (rq_bytes r) \<le> max_body"
  by (auto simp: discord_read_def verify_discord_def fresh_discord_def discord_signed_def fresh_within_abs Let_def
      dest!: read_bounded_ok split: body_read.splits if_splits option.splits)

lemma endpoint_signed:
  assumes "endpoint_event W clock nw rc ep r = Inr ev" "nw \<noteq> 0" "ep \<noteq> TelegramWebhook []"
  shows "signed W nw ep r"
proof (cases ep)
  case (SlackCommands s)
  then obtain b where "slack_read W clock nw s r = Inr b"
    using assms(1) by (auto simp: endpoint_event_def slack_command_event_def split: sum.splits)
  then show ?thesis using slack_read_signed assms(2) SlackCommands by (simp add: signed_def max_body_def)
next
  case (SlackEvents s)
  then obtain b where "slack_read W clock nw s r = Inr b"
    using assms(1) by (auto simp: endpoint_event_def slack_mention_event_def split: sum.splits)
  then show ?thesis using slack_read_signed assms(2) SlackEvents by (simp add: signed_def max_body_def)
next
  case (DiscordInteractions k a)
  then obtain b where "discord_read W clock nw k r = Inr b"
    using assms(1) by (auto simp: endpoint_event_def discord_event_def split: sum.splits)
  then show ?thesis using discord_read_signed assms(2) DiscordInteractions by (simp add: signed_def max_body_def)
next
  case (TelegramWebhook s)
  then show ?thesis
    using assms(1,3)
    by (auto simp: endpoint_event_def telegram_webhook_event_def signed_def max_body_def dest!: read_bounded_ok
        split: if_splits body_read.splits)
qed

text \<open>What the mux is made of.\<close>

definition configured :: "chat_config \<Rightarrow> (string \<Rightarrow> string) \<Rightarrow> endpoint \<Rightarrow> bool" where
  "configured cfg env ep \<longleftrightarrow>
     (case ep of
        SlackCommands s \<Rightarrow> sc_enabled (cf_slack cfg) \<and> s = env (sc_signing_env (cf_slack cfg)) \<and> s \<noteq> []
      | SlackEvents s \<Rightarrow> sc_enabled (cf_slack cfg) \<and> s = env (sc_signing_env (cf_slack cfg)) \<and> s \<noteq> []
      | DiscordInteractions k _ \<Rightarrow> dc_enabled (cf_discord cfg) \<and> parse_discord_key (env (dc_key_env (cf_discord cfg))) = Inr k
      | TelegramWebhook s \<Rightarrow> tg_enabled (cf_telegram cfg) \<and> s = env (tg_secret_env (cf_telegram cfg)) \<and> s \<noteq> [])"

lemma build_mux_configured: "build_mux cfg env = Inr mux \<Longrightarrow> (path, ep) \<in> set mux \<Longrightarrow> configured cfg env ep"
  by (cases "parse_discord_key (env (dc_key_env (cf_discord cfg)))")
    (auto simp: build_mux_def Let_def configured_def split: if_splits)

lemma chatops_serve_mux: "chatops_serve cfg env = Inr (cs, mux) \<Longrightarrow> build_mux cfg env = Inr mux \<and> validate_chat_ops cfg = None \<and> cf_enabled cfg"
  by (auto simp: chatops_serve_def build_clients_def Let_def split: if_splits sum.splits option.splits)

lemma serve_endpoint_service:
  "endpoint_event W (he_clock H) nw rc ep r = Inr ev \<Longrightarrow>
     snd (serve_endpoint W cfg H nw rc ep r sv) = snd (handle_event cfg H ev sv)"
  by (auto simp: serve_endpoint_def split: prod.splits option.splits)

lemma serve_request_changes:
  assumes "chatops_serve cfg env = Inr (cs, mux)" "serve_request W cfg H nw rc mux path r sv = (reply, sv')" "sv' \<noteq> sv"
  shows "\<exists>ep ev. map_of mux path = Some ep \<and> configured cfg env ep \<and>
     endpoint_event W (he_clock H) nw rc ep r = Inr ev \<and> sv' = snd (handle_event cfg H ev sv)"
proof -
  obtain ep where ep: "map_of mux path = Some ep" "serve_endpoint W cfg H nw rc ep r sv = (reply, sv')"
    using assms(2,3) by (auto simp: serve_request_def split: option.splits)
  have "configured cfg env ep"
    using build_mux_configured [OF conjunct1 [OF chatops_serve_mux [OF assms(1)]] map_of_SomeD [OF ep(1)]] .
  then show ?thesis
    using ep assms(3) by (auto simp: serve_endpoint_def split: sum.splits prod.splits option.splits)
qed

lemma handle_jobs:
  "sv_jobs (snd (handle_event cfg H ev sv)) = sv_jobs sv \<or>
   (\<exists>j. sv_jobs (snd (handle_event cfg H ev sv)) = sv_jobs sv @ [j] \<and> ce_authenticated (jb_event j) \<and> listed cfg (jb_event j))"
proof -
  obtain e sv' where h: "handle_event cfg H ev sv = (e, sv')" by fastforce
  show ?thesis
    using handle_accepts [of cfg H ev sv sv'] handle_rejects [of cfg H ev sv _ sv'] h by (cases e) auto
qed

section \<open>Chunks of plain text\<close>

lemma runes_of_ascii: "list_all (\<lambda>c. byte c < 128) s \<Longrightarrow> map fst (runes_of s) = map byte s"
  by (induction s) (auto simp: runes_of_Cons decode_rune_ascii)

lemma encode_ascii: "byte c < 128 \<Longrightarrow> encode_rune (byte c) = [c]"
  by (simp add: encode_rune_def Let_def)

lemma chunk_loop_fill:
  "list_all (\<lambda>c. byte c < 128) s \<Longrightarrow> n + length s \<le> mx \<Longrightarrow>
     chunk_loop mx (map byte s @ rs) b n chunks = chunk_loop mx rs (b @ s) (n + length s) chunks"
proof (induction s arbitrary: b n)
  case (Cons c s)
  then show ?case using Cons.IH [of "n + 1" "b @ [c]"] by (simp add: encode_ascii)
qed simp

lemma chunk_text_split:
  assumes "list_all (\<lambda>c. byte c < 128) (s @ d # t)" "length s = nat mx" "0 < mx" "length (d # t) \<le> nat mx"
  shows "chunk_text (s @ d # t) mx = [s, d # t]"
proof -
  have r: "map fst (runes_of (s @ d # t)) = map byte s @ byte d # map byte t" using runes_of_ascii [OF assms(1)] by simp
  have "chunk_loop (nat mx) (map byte s @ byte d # map byte t) [] 0 [] = chunk_loop (nat mx) (byte d # map byte t) s (nat mx) []"
    using chunk_loop_fill [of s 0 "nat mx" "byte d # map byte t" "[]" "[]"] assms by simp
  also have "\<dots> = chunk_loop (nat mx) (map byte t @ []) [d] 1 [s]" using assms(1) by (simp add: encode_ascii)
  also have "\<dots> = chunk_loop (nat mx) [] ([d] @ t) (1 + length t) [s]"
    using assms(1,4) by (intro chunk_loop_fill) auto
  finally show ?thesis using assms(3) r by (simp add: chunk_text_def)
qed

text \<open>Characters the escape leaves alone.\<close>

lemma replacer_keeps:
  assumes "list_all (\<lambda>c. c \<notin> set telegram_specials) s"
  shows "escape_telegram (s @ t) = s @ escape_telegram t"
  using assms
proof (induction s)
  case (Cons c s)
  have "replacer_match (map (\<lambda>c. ([c], [CHR 0x5C, c])) ks) (c # u) = None" if "c \<notin> set ks" for ks u
    using that by (induction ks) (auto simp: has_prefix_def prefix_def)
  then have "replacer telegram_table (c # s @ t) = c # replacer telegram_table (s @ t)"
    using Cons.prems by (simp add: replacer_copy telegram_table_def)
  then show ?case using Cons by (simp add: escape_telegram_def)
qed simp

lemma escape_one: "escape_telegram ''.'' = [CHR 0x5C, CHR ''.'']"
  by code_simp

end
