(* ===== verification/Connector_Properties.thy ===== *)
theory Connector_Properties
  imports Connector_Facts Chat_Properties
begin

text \<open>
  The properties of the chat connectors: which requests reach the service, what the Telegram poller
  confirms and what stops it, and what a reply is posted as.
\<close>

definition ex_wire :: wire where
  "ex_wire = \<lparr>wi_hmac = (\<lambda>_ _. [CHR 0xAB]), wi_ed25519 = (\<lambda>_ _ _. False),
     wi_form = (\<lambda>_. Some (\<lambda>k. if k = ''team_id'' then ''T1'' else if k = ''channel_id'' then ''C1''
        else if k = ''text'' then ''why'' else [])),
     wi_slack = (\<lambda>_. None), wi_discord = (\<lambda>_. None), wi_telegram = (\<lambda>_. None), wi_unicode = ascii_unicode\<rparr>"

definition ex_request :: http_req where
  "ex_request = \<lparr>rq_header = (\<lambda>k. if k = ''X-Slack-Request-Timestamp'' then ''7'' else ''v0=aB''), rq_bytes = ''text=why'', rq_broken = False\<rparr>"

definition ex_telegram :: chat_config where
  "ex_telegram = default_chat_ops\<lparr>cf_enabled := True, cf_telegram := \<lparr>tg_enabled = True, tg_mode = ''polling'',
     tg_bot_env = ''T'', tg_secret_env = [], tg_chats = [''42''], tg_users = []\<rparr>\<rparr>"

definition ex_update :: "int \<Rightarrow> int \<Rightarrow> telegram_update" where
  "ex_update i chat = \<lparr>tu_id = i, tu_message = 1, tu_text = ''why'', tu_chat = chat, tu_chat_type = ''private'', tu_from = 9\<rparr>"

definition ex_poller :: "telegram_update list \<Rightarrow> poller" where
  "ex_poller ups = \<lparr>po_base = ''https://api.telegram.org'', po_token = ''T'', po_seconds = 0, po_unicode = ascii_unicode,
     po_decode = (\<lambda>_. Some (True, ups))\<rparr>"

definition ex_chat_event :: "int \<Rightarrow> int \<Rightarrow> gotime \<Rightarrow> chat_event" where
  "ex_chat_event i chat t =
     no_event\<lparr>ce_platform := ''telegram'', ce_transport := ''polling'', ce_authenticated := True, ce_chat := show_int chat,
       ce_channel := show_int chat, ce_user := show_int 9, ce_command := ''text'', ce_text := ''why'',
       ce_reply := no_target\<lparr>rp_platform := ''telegram'', rp_chat := show_int chat, rp_message := show_int 1\<rparr>,
       ce_key := ''telegram:'' @ show_int i, ce_received := t\<rparr>"

lemma ex_update_event:
  "chat \<noteq> 0 \<Longrightarrow> telegram_event ascii_unicode (ex_update i chat) ''polling'' t = Some (ex_chat_event i chat t)"
proof -
  have w: "trim_space ''why'' = ''why''" by (rule trim_space_solid) (simp_all add: solid_def)
  have x: "trim_space ''text'' = ''text''" by (rule trim_space_solid) (simp_all add: solid_def)
  have l: "to_lower ascii_unicode ''why'' = ''why''" by code_simp
  have c: "telegram_command ''why'' = ([], ''why'')" by (simp add: telegram_command_def w has_prefix_def)
  have n: "trim_space [] = []"
    by (simp add: trim_space_def trim_left_space_def trim_right_space_def strip_all_None strip_one_None)
  show "chat \<noteq> 0 \<Longrightarrow> ?thesis"
    by (simp add: telegram_event_def ex_update_def ex_chat_event_def w x n c strip_ask_prefix_def l has_prefix_def Let_def)
qed

lemma ex_slack_serves:
  "chatops_serve ex_slack (\<lambda>_. ''k'') = Inr ([(''slack'', SlackClient ''k''), (''discord'', DiscordClient)],
     [(''/chatops/slack/commands'', SlackCommands ''k''), (''/chatops/slack/events'', SlackEvents ''k'')])"
proof -
  have v: "validate_chat_ops ex_slack = None" by code_simp
  have "build_clients ex_slack (\<lambda>_. ''k'') = Inr [(''slack'', SlackClient ''k''), (''discord'', DiscordClient)]"
    by (simp add: build_clients_def v) (simp add: ex_slack_def)
  moreover have "build_mux ex_slack (\<lambda>_. ''k'') =
      Inr [(''/chatops/slack/commands'', SlackCommands ''k''), (''/chatops/slack/events'', SlackEvents ''k'')]"
    by (simp add: build_mux_def ex_slack_def)
  moreover have "cf_enabled ex_slack" by (simp add: ex_slack_def)
  ultimately show ?thesis by (simp add: chatops_serve_def)
qed

text \<open>C13. With the connectors that a validated configuration mounts, a request changes the service only
  when its endpoint is mounted for an enabled platform and it carries that platform's authentication
  under the configured secret: a fresh Slack HMAC or Discord Ed25519 signature over a body of at most
  a mebibyte, or the Telegram webhook secret. It then adds at most one job, of a listed source.\<close>

theorem only_signed_requests:
  assumes "chatops_serve cfg env = Inr (clients, mux)" "serve_request W cfg H nw rc mux path r sv = (reply, sv')"
    and "sv' \<noteq> sv" "nw \<noteq> 0"
  shows "(\<exists>ep. map_of mux path = Some ep \<and> configured cfg env ep \<and> signed W nw ep r) \<and>
     (sv_jobs sv' = sv_jobs sv \<or> (\<exists>j. sv_jobs sv' = sv_jobs sv @ [j] \<and> listed cfg (jb_event j)))"
proof -
  obtain ep ev where ep: "map_of mux path = Some ep" "configured cfg env ep"
    and ev: "endpoint_event W (he_clock H) nw rc ep r = Inr ev" "sv' = snd (handle_event cfg H ev sv)"
    using serve_request_changes [OF assms(1,2,3)] by blast
  have "ep \<noteq> TelegramWebhook []" using ep(2) by (auto simp: configured_def)
  then have "signed W nw ep r" by (rule endpoint_signed [OF ev(1) assms(4)])
  then show ?thesis using ep handle_jobs [of cfg H ev sv] ev(2) by auto
qed

theorem only_signed_requests_witness:
  "slack_signed ex_wire (unix_time 9) ''k'' ex_request"
proof -
  let ?mux = "[(''/chatops/slack/commands'', SlackCommands ''k''), (''/chatops/slack/events'', SlackEvents ''k'')]"
  have w: "trim_space ''why'' = ''why''" by (rule trim_space_solid) (simp_all add: solid_def)
  have l: "to_lower ascii_unicode ''why'' = ''why''" by code_simp
  have k: "char_of (171 :: nat) = CHR 0xAB" by code_simp
  have sig: "verify_slack ex_wire t ''k'' ''7'' ''text=why'' ''v0=aB'' (unix_time 9)" for t
    by (simp add: verify_slack_def ex_wire_def has_prefix_def trim_prefix_def parse_int64_def is_digit_def hex_value_def
        fresh_within_def unix_time_def second_ns_def read_nat_def digit_val_def k Let_def)
  have read: "slack_read ex_wire t (unix_time 9) ''k'' ex_request = Inr ''text=why''" for t
    by (simp add: slack_read_def read_bounded_def max_body_def ex_request_def sig Let_def)
  let ?r = "serve_request ex_wire ex_slack ex_handle (unix_time 9) 8 ?mux ''/chatops/slack/commands'' ex_request new_service"
  let ?form = "\<lambda>k. if k = ''team_id'' then ''T1'' else if k = ''channel_id'' then ''C1'' else if k = ''text'' then ''why'' else []"
  have f: "wi_form ex_wire b = Some ?form" "wi_unicode ex_wire = ascii_unicode" for b by (simp_all add: ex_wire_def)
  let ?ev = "no_event\<lparr>ce_platform := ''slack'', ce_transport := ''http'', ce_authenticated := True, ce_workspace := ''T1'',
      ce_channel := ''C1'', ce_user := [], ce_command := [], ce_text := ''why'', ce_reply := slack_reply_target ?form,
      ce_key := [], ce_received := 8\<rparr>"
  have "endpoint_event ex_wire t (unix_time 9) 8 (SlackCommands ''k'') ex_request = Inr ?ev" for t
    by (simp add: endpoint_event_def slack_command_event_def read f strip_ask_prefix_def w l has_prefix_def)
  moreover have "sv_jobs (snd (handle_event ex_slack ex_handle ?ev new_service)) \<noteq> []"
    by (simp add: handle_event_def authorize_def check_allowlist_def ex_slack_def allowed_def w
        check_rate_def prune_rate_windows_def new_service_def max_rate_windows_def enqueue_def queue_depth_def ex_handle_def
        no_event_def Let_def)
  ultimately have "sv_jobs (snd ?r) \<noteq> []"
    by (simp add: serve_request_def serve_endpoint_service)
  then have "snd ?r \<noteq> new_service" by (auto simp: new_service_def)
  moreover have "unix_time 9 \<noteq> 0" by (simp add: unix_time_def second_ns_def)
  ultimately show ?thesis
    using only_signed_requests [OF ex_slack_serves, of ex_wire ex_handle "unix_time 9" 8 "''/chatops/slack/commands''" ex_request new_service]
    by (cases ?r) (auto simp: signed_def)
qed

text \<open>C31. Over any number of polls, whatever the Bot API answers and whatever the service does, the
  offset never goes back and no update is accepted twice: the accepted updates have strictly
  increasing numbers between the first offset and the last.\<close>

theorem poller_never_repeats:
  assumes "poll_rounds P cfg rounds off sv = (errs, off', sv', accepted)"
  shows "off \<le> off' \<and> sorted_wrt (<) accepted \<and> (\<forall>a \<in> set accepted. off \<le> a \<and> a < off')"
  using poll_rounds_offset [OF assms] by blast

theorem poller_never_repeats_witness:
  "snd (snd (snd (poll_rounds (ex_poller [ex_update 3 42, ex_update 3 42]) ex_telegram
     [\<lparr>pr_env = (\<lambda>_. ex_handle), pr_api = (\<lambda>_. ApiReply 200 []), pr_drain = id\<rparr>] 0 new_service))) = [3] \<and>
   sorted_wrt (<) [3 :: int]"
proof -
  let ?rounds = "[\<lparr>pr_env = (\<lambda>_. ex_handle), pr_api = (\<lambda>_. ApiReply 200 []), pr_drain = id\<rparr>]"
  have w: "trim_space ''why'' = ''why''" by (rule trim_space_solid) (simp_all add: solid_def)
  have c: "show_int 42 = ''42''" by code_simp
  have "\<exists>s. handle_event ex_telegram ex_handle (ex_chat_event 3 42 7) new_service = (None, s)"
    by (simp add: handle_event_def authorize_def check_allowlist_def ex_telegram_def default_chat_ops_def allowed_def w c
        check_rate_def new_service_def mark_seen_def prune_seen_def max_idempotency_def enqueue_def queue_depth_def
        ex_handle_def no_event_def gm_has_def ex_chat_event_def Let_def)
  then obtain s where s: "handle_event ex_telegram ex_handle (ex_chat_event 3 42 7) new_service = (None, s)" by blast
  have h: "he_clock ex_handle = 7" by (simp add: ex_handle_def)
  have t: "tu_id (ex_update 3 42) = 3" by (simp add: ex_update_def)
  have r: "poll_rounds (ex_poller [ex_update 3 42, ex_update 3 42]) ex_telegram ?rounds 0 new_service = ([None], 4, s, [3])"
    by (simp add: poll_once_def ex_poller_def ex_update_event h s t advance_offset_def)
  show ?thesis using poller_never_repeats [OF r] r by simp
qed

text \<open>C32. Against a server that keeps the bot's updates in ascending order and offers the first ones not
  below the offset, \<open>n\<close> polls without an error confirm at least \<open>n\<close> batches: what is left to deliver is
  what remains behind them, so enough polls confirm everything.\<close>

theorem poller_catches_up:
  assumes "sorted_wrt (<) (map tu_id pending)" "0 < batch" "\<forall>R \<in> set rounds. serves P batch pending (pr_api R)"
    and "poll_rounds P cfg rounds off sv = (errs, off', sv', accepted)" "\<forall>e \<in> set errs. e = None"
  shows "filter (\<lambda>up. off' \<le> tu_id up) pending = drop (batch * length rounds) (filter (\<lambda>up. off \<le> tu_id up) pending)"
  using assms by (intro poll_rounds_confirm)

theorem poller_catches_up_witness:
  "let P = (ex_poller [])\<lparr>po_decode := (\<lambda>b. Some (True, if b = ''https://api.telegram.org/botT/getUpdates?timeout=0'' then [ex_update 0 42] else []))\<rparr>;
       off' = fst (snd (poll_rounds P ex_telegram [\<lparr>pr_env = (\<lambda>_. ex_handle), pr_api = ApiReply 200, pr_drain = id\<rparr>] 0 new_service))
   in filter (\<lambda>up. off' \<le> tu_id up) [ex_update 0 42] = []"
proof -
  let ?P = "(ex_poller [])\<lparr>po_decode := (\<lambda>b. Some (True, if b = ''https://api.telegram.org/botT/getUpdates?timeout=0'' then [ex_update 0 42] else []))\<rparr>"
  let ?rounds = "[\<lparr>pr_env = (\<lambda>_. ex_handle), pr_api = ApiReply 200, pr_drain = id\<rparr>]"
  have i: "tu_id (ex_update 0 42) = 0" by (simp add: ex_update_def)
  have z: "show_int 0 = ''0''" "show_int 42 = ''42''" by code_simp+
  have w: "trim_space ''why'' = ''why''" by (rule trim_space_solid) (simp_all add: solid_def)
  have url: "poll_url ?P off = ''https://api.telegram.org/botT/getUpdates?'' @ (if 0 < off then ''offset='' @ show_int off @ ''&'' else []) @ ''timeout=0''" for off
    by (simp add: poll_url_def ex_poller_def trim_slashes_def z)
  have s: "serves ?P 1 [ex_update 0 42] (ApiReply 200)"
    by (auto simp: serves_def url offered_def i)
  have "\<exists>s. handle_event ex_telegram ex_handle (ex_chat_event 0 42 7) new_service = (None, s)"
    by (simp add: handle_event_def authorize_def check_allowlist_def ex_telegram_def default_chat_ops_def allowed_def w z
        check_rate_def new_service_def mark_seen_def prune_seen_def max_idempotency_def enqueue_def queue_depth_def
        ex_handle_def no_event_def gm_has_def ex_chat_event_def Let_def)
  then obtain sv where sv: "handle_event ex_telegram ex_handle (ex_chat_event 0 42 7) new_service = (None, sv)" by blast
  have h: "he_clock ex_handle = 7" by (simp add: ex_handle_def)
  have u: "po_unicode ?P = ascii_unicode" by (simp add: ex_poller_def)
  have o: "offered 1 [ex_update 0 42] 0 = [ex_update 0 42]" by (simp add: offered_def i)
  have r: "poll_rounds ?P ex_telegram ?rounds 0 new_service = ([None], 1, sv, [0])"
    using poll_once_served [OF s, of ex_telegram "\<lambda>_. ex_handle" 0 new_service] unfolding u o
    by (simp add: ex_update_event h sv i advance_offset_def)
  have f: "filter (\<lambda>up. 1 \<le> tu_id up) [ex_update 0 42] = drop (1 * length ?rounds) (filter (\<lambda>up. 0 \<le> tu_id up) [ex_update 0 42])"
    by (rule poller_catches_up [OF _ _ _ r]) (use s in simp_all)
  show ?thesis unfolding Let_def r fst_conv snd_conv using f by simp
qed

text \<open>A single update whose message has no prompt or comes from a chat that is not listed stops the
  poller for good: as long as the Bot API offers it first, every poll fails on it, the offset never
  moves and nothing behind it is ever handled.\<close>

theorem stranger_stops_poller:
  assumes "refused_update (po_unicode P) cfg up" "off \<le> tu_id up"
    and "\<forall>R \<in> set rounds. \<exists>body ups. pr_api R (poll_url P off) = ApiReply 200 body \<and> po_decode P body = Some (True, up # ups)"
  shows "\<exists>es. poll_rounds P cfg rounds off sv
     = (map (\<lambda>e. Some (PollHandle e)) es, off, foldl (\<lambda>s R. pr_drain R s) sv rounds, [])"
  using assms by (rule poll_rounds_stall)

theorem stranger_stops_poller_witness:
  "\<exists>es. poll_rounds (ex_poller [ex_update 3 41, ex_update 4 42]) ex_telegram
     [\<lparr>pr_env = (\<lambda>_. ex_handle), pr_api = (\<lambda>_. ApiReply 200 []), pr_drain = id\<rparr>,
      \<lparr>pr_env = (\<lambda>_. ex_handle), pr_api = (\<lambda>_. ApiReply 200 []), pr_drain = id\<rparr>] 0 new_service
   = (map (\<lambda>e. Some (PollHandle e)) es, 0, new_service, [])"
proof -
  let ?P = "ex_poller [ex_update 3 41, ex_update 4 42]"
  let ?R = "\<lparr>pr_env = (\<lambda>_. ex_handle), pr_api = (\<lambda>_. ApiReply 200 []), pr_drain = id\<rparr>"
  have c: "show_int 41 = ''41''" by code_simp
  have u: "po_unicode ?P = ascii_unicode" by (simp add: ex_poller_def)
  have f: "refused_update (po_unicode ?P) ex_telegram (ex_update 3 41)"
    unfolding u refused_update_def
    by (simp add: ex_update_event ex_chat_event_def check_allowlist_def ex_telegram_def allowed_def c no_event_def Let_def)
  show ?thesis
    using stranger_stops_poller [OF f, of 0 "[?R, ?R]" new_service] by (simp add: ex_poller_def ex_update_def)
qed

text \<open>C33. A reply that is not meant for the channel is posted by the Slack and Discord clients only as an
  ephemeral response, an ephemeral message to the person who asked, or a followup flagged ephemeral.\<close>

theorem private_replies_stay_private:
  assumes "cm_visibility msg \<noteq> ''channel''" "rp_platform t = ''slack'' \<or> rp_platform t = ''discord''"
    and "chatops_serve cfg env = Inr (clients, mux)" "p \<in> set (snd (clients_deliver dec net clients t msg))"
  shows "gm_get (op_fields p) ''response_type'' = Some (FString ''ephemeral'') \<or>
     gm_get (op_fields p) ''flags'' = Some (FInt 64) \<or>
     has_suffix (op_url p) ''/chat.postEphemeral'' \<and> rp_user t \<noteq> [] \<and> gm_get (op_fields p) ''user'' = Some (FString (rp_user t))"
proof -
  obtain c where c: "map_of clients (rp_platform t) = Some c" "p \<in> set (snd (client_deliver dec net c t msg))"
    using assms(4) by (auto simp: clients_deliver_def split: option.splits)
  have "build_clients cfg env = Inr clients" using assms(3) by (auto simp: chatops_serve_def split: if_splits sum.splits)
  then have "(rp_platform t = ''slack'' \<longrightarrow> (\<exists>k. c = SlackClient k)) \<and> (rp_platform t = ''discord'' \<longrightarrow> c = DiscordClient)"
    using c(1) by (auto simp: build_clients_def Let_def split: if_splits option.splits)
  then have "private_post t p"
    using c(2) assms(2) slack_private [OF assms(1)] discord_private [OF assms(1)] by (auto simp: client_deliver_def)
  then show ?thesis by (simp add: private_post_def)
qed

theorem private_replies_stay_private_witness:
  "let msg = \<lparr>cm_text = ''hi'', cm_visibility = ''private'', cm_session = [], cm_error = False\<rparr>;
       t = no_target\<lparr>rp_platform := ''discord'', rp_token := ''t'', rp_application := ''a''\<rparr>
   in private_post t (discord_post [] t msg)"
proof -
  let ?msg = "\<lparr>cm_text = ''hi'', cm_visibility = ''private'', cm_session = [], cm_error = False\<rparr>"
  let ?t = "no_target\<lparr>rp_platform := ''discord'', rp_token := ''t'', rp_application := ''a''\<rparr>"
  let ?net = "\<lambda>_. NetReply 200 []"
  let ?cs = "[(''slack'', SlackClient ''k''), (''discord'', DiscordClient)]"
  have d: "discord_deliver ?net [] ?t ?msg = (None, [discord_post [] ?t ?msg])"
    by (simp add: discord_deliver_def post_ok_def)
  have m: "discord_post [] ?t ?msg \<in> set (snd (clients_deliver dec ?net ?cs ?t ?msg))" for dec
    by (simp add: clients_deliver_def client_deliver_def d)
  have "private_post ?t (discord_post [] ?t ?msg)"
    unfolding private_post_def
    by (rule private_replies_stay_private [OF _ _ ex_slack_serves m]) simp_all
  then show ?thesis by simp
qed

text \<open>A Telegram reply is escaped before it is cut: when a full message ends inside an escape, one post
  ends in the bare backslash and the next starts with the reserved character unescaped.\<close>

theorem telegram_cuts_escapes:
  assumes "length w = 3899" "list_all (\<lambda>c. solid c \<and> byte c < 128 \<and> c \<notin> set telegram_specials) w"
    and "rp_platform t = ''telegram''" "rp_chat t \<noteq> []" "token \<noteq> []"
    and "\<And>p. \<exists>b. net p = NetReply 200 b"
  shows "map (\<lambda>p. gm_get (op_fields p) ''text'')
       (snd (telegram_deliver net token base t \<lparr>cm_text = w @ ''.'', cm_visibility = v, cm_session = [], cm_error = e\<rparr>))
     = [Some (FString (w @ [CHR 0x5C])), Some (FString ''.'')]"
proof -
  let ?msg = "\<lparr>cm_text = w @ ''.'', cm_visibility = v, cm_session = [], cm_error = e\<rparr>"
  have ne: "w \<noteq> []" using assms(1) by auto
  then have "solid (hd w)" using assms(2) by (cases w) auto
  then have "trim_space (w @ ''.'') = w @ ''.''"
    using ne by (intro trim_space_solid) (auto simp: solid_def)
  then have "format_message ''telegram'' ?msg = w @ CHR 0x5C # ''.''"
    using replacer_keeps [of w "''.''"] escape_one assms(2) by (simp add: format_message_def list_all_iff)
  moreover have "chunk_text ((w @ [CHR 0x5C]) @ CHR ''.'' # []) 3900 = [w @ [CHR 0x5C], CHR ''.'' # []]"
    using assms(1,2) by (intro chunk_text_split) (auto simp: list_all_iff)
  ultimately have c: "chunk_text (format_message ''telegram'' ?msg) telegram_limit = [w @ [CHR 0x5C], ''.'']"
    by (simp add: telegram_limit_def)
  have ok: "\<exists>b. post_ok ''telegram'' net p = Inr b" for p using assms(6) [of p] by (auto simp: post_ok_def)
  have "fst (telegram_send net mk cs) = None" for mk cs
  proof (induction cs)
    case (Cons c cs)
    obtain b where "post_ok ''telegram'' net (mk c) = Inr b" using ok by blast
    then show ?case using Cons by (simp add: case_prod_unfold)
  qed simp
  then have all: "telegram_send net mk cs = (None, map mk cs)" for mk cs
    using telegram_send_all [of net mk cs] by (metis prod.collapse)
  then show ?thesis using assms(3-5) by (simp add: telegram_deliver_def c all telegram_post_def del: telegram_send.simps)
qed

theorem telegram_cuts_escapes_witness:
  "map (\<lambda>p. gm_get (op_fields p) ''text'')
     (snd (telegram_deliver (\<lambda>_. NetReply 200 []) ''T'' [] (no_target\<lparr>rp_platform := ''telegram'', rp_chat := ''42''\<rparr>)
        \<lparr>cm_text = replicate 3899 (CHR ''a'') @ ''.'', cm_visibility = [], cm_session = [], cm_error = False\<rparr>))
   = [Some (FString (replicate 3899 (CHR ''a'') @ [CHR 0x5C])), Some (FString ''.'')]"
proof -
  have "list_all (\<lambda>c. solid c \<and> byte c < 128 \<and> c \<notin> set telegram_specials) (replicate 3899 (CHR ''a''))"
    by (auto simp: list_all_iff solid_def telegram_specials_def)
  then show ?thesis by (intro telegram_cuts_escapes) (simp_all add: no_target_def)
qed

end
