(* ===== verification/Correlate_Cause.thy ===== *)
theory Correlate_Cause
  imports Complex_Main Go_Space Llm_Types
begin

text \<open>
  Changes and the causes of a symptom (\<open>internal/core/tools/change/source.go\<close>, \<open>tool.go\<close> and
  \<open>internal/core/tools/correlate/cause.go\<close>, \<open>tool.go\<close>): merging the events of several sources,
  finding the earliest symptom, scoring and ranking the changes before it, and rendering. The
  sources are parameters, the exponential is the one of the reals.
\<close>

section \<open>Events\<close>

record change_event =
  cv_time :: int
  cv_kind :: string
  cv_target :: string
  cv_summary :: string
  cv_before :: string
  cv_after :: string
  cv_source :: string

record change_query =
  cq_workload :: string
  cq_namespace :: string
  cq_context :: string
  cq_since :: int
  cq_limit :: int

text \<open>A stable sort, newest first, then the limit.\<close>

definition merge_sorted :: "int \<Rightarrow> change_event list list \<Rightarrow> change_event list" where
  "merge_sorted cap groups =
     (let out = sort_key (\<lambda>e. - cv_time e) (concat groups) in
      if 0 < cap \<and> cap < int (length out) then take (nat cap) out else out)"

text \<open>Every source answers; the groups of the successful ones and the failures, in order.\<close>

definition gather :: "gofmt \<Rightarrow> (string \<times> (go_err + change_event list)) list \<Rightarrow> change_event list list \<times> string list" where
  "gather F answers =
     (List.map_filter (\<lambda>(n, r). case r of Inl _ \<Rightarrow> None | Inr es \<Rightarrow> Some es) answers,
      List.map_filter (\<lambda>(n, r). case r of Inl e \<Rightarrow> Some (n @ '': '' @ err_text F e) | Inr _ \<Rightarrow> None) answers)"

section \<open>Scoring\<close>

definition change_kinds :: "(string \<times> real) list" where
  "change_kinds =
     [(''image'', 1), (''rollout'', 1), (''sync'', 9 / 10), (''cloud_audit'', 8 / 10), (''container_create'', 7 / 10),
      (''image_pull'', 6 / 10), (''container_restart'', 6 / 10), (''scale'', 5 / 10)]"

definition proximity_tau :: real where
  "proximity_tau = 600"

definition top_candidates :: nat where
  "top_candidates = 3"

definition symptom_kinds :: "string list" where
  "symptom_kinds = [''log_error'', ''metric_breach'', ''trace_error'', ''trace_slow'', ''budget_burn'']"

fun earliest_from :: "change_event option \<Rightarrow> change_event list \<Rightarrow> change_event option" where
  "earliest_from acc [] = acc"
| "earliest_from acc (e # es) =
     earliest_from
       (if cv_kind e \<notin> set symptom_kinds then acc
        else (case acc of None \<Rightarrow> Some e | Some m \<Rightarrow> if cv_time e < cv_time m then Some e else acc)) es"

definition earliest_symptom :: "change_event list \<Rightarrow> change_event option" where
  "earliest_symptom es = earliest_from None es"

definition newest_event :: "change_event list \<Rightarrow> change_event option" where
  "newest_event es = (case es of [] \<Rightarrow> None | e # _ \<Rightarrow> Some e)"

definition cause_weight :: "string \<Rightarrow> real option" where
  "cause_weight k = map_of change_kinds k"

definition is_target_delim :: "nat \<Rightarrow> bool" where
  "is_target_delim r \<longleftrightarrow> r \<in> {47, 45, 46, 58, 95, 32}"

definition entity_match :: "unicode \<Rightarrow> string \<Rightarrow> string \<Rightarrow> real" where
  "entity_match u workload target =
     (if workload = [] then 1
      else if to_lower u workload \<in> set (fields_func is_target_delim (to_lower u target)) then 1
      else 6 / 10)"

text \<open>\<open>Time.Unix\<close>, for times in nanoseconds since the Go zero time.\<close>

definition unix_seconds :: "int \<Rightarrow> int" where
  "unix_seconds t = t div 1000000000 - 62135596800"

definition cause_key :: "change_event \<Rightarrow> string" where
  "cause_key e =
     cv_kind e @ [CHR 0x00] @ cv_target e @ [CHR 0x00] @ cv_summary e @ [CHR 0x00] @ show_int (unix_seconds (cv_time e))"

definition cause_score :: "unicode \<Rightarrow> string \<Rightarrow> change_event \<Rightarrow> change_event \<Rightarrow> real" where
  "cause_score u workload ref e =
     (case cause_weight (cv_kind e) of None \<Rightarrow> 0 | Some w \<Rightarrow> w) *
     exp (- (\<bar>real_of_int (cv_time ref - cv_time e)\<bar> / 1000000000) / proximity_tau) *
     entity_match u workload (cv_target e)"

definition after_anchor :: "change_event option \<Rightarrow> change_event \<Rightarrow> bool" where
  "after_anchor anchor e \<longleftrightarrow> (case anchor of None \<Rightarrow> False | Some a \<Rightarrow> \<not> cv_time e < cv_time a)"

fun cause_loop ::
    "unicode \<Rightarrow> string \<Rightarrow> change_event option \<Rightarrow> change_event \<Rightarrow> string list \<Rightarrow> change_event list \<Rightarrow> (change_event \<times> real) list" where
  "cause_loop u workload anchor ref seen [] = []"
| "cause_loop u workload anchor ref seen (e # es) =
     (if cause_weight (cv_kind e) = None then cause_loop u workload anchor ref seen es
      else if after_anchor anchor e then cause_loop u workload anchor ref seen es
      else if cause_key e \<in> set seen then cause_loop u workload anchor ref seen es
      else (e, cause_score u workload ref e) # cause_loop u workload anchor ref (cause_key e # seen) es)"

text \<open>\<open>SliceStable\<close> by score, then by time, both descending: two stable sorts.\<close>

definition score_causes :: "unicode \<Rightarrow> change_event list \<Rightarrow> string \<Rightarrow> change_event option \<Rightarrow> (change_event \<times> real) list" where
  "score_causes u events workload anchor =
     (case (case anchor of None \<Rightarrow> newest_event events | Some a \<Rightarrow> Some a) of
        None \<Rightarrow> []
      | Some ref \<Rightarrow>
          sort_key (\<lambda>c. - snd c)
            (sort_key (\<lambda>c. - cv_time (fst c)) (cause_loop u workload anchor ref [] events)))"

section \<open>Rendering\<close>

text \<open>\<open>tf\<close> renders a time in RFC 3339.\<close>

definition describe_event :: "gofmt \<Rightarrow> (int \<Rightarrow> string) \<Rightarrow> change_event \<Rightarrow> string" where
  "describe_event F tf e =
     (if cv_source e \<noteq> [] then cv_source e @ '' '' else []) @ cv_kind e @
     (if cv_target e \<noteq> [] then '' on '' @ cv_target e else []) @
     (if cv_summary e \<noteq> [] then '' '' @ fmt_q F (cv_summary e) else []) @
     (if cv_before e \<noteq> [] \<or> cv_after e \<noteq> [] then '' ('' @ cv_before e @ arrow @ cv_after e @ '')'' else []) @
     '' @ '' @ tf (cv_time e)"

definition short_duration :: "int \<Rightarrow> string" where
  "short_duration d =
     (if d < 1000000000 then ''0s''
      else (let s = (d + 500000000) div 1000000000; h = s div 3600; m = s mod 3600 div 60; r = s mod 60 in
            if 0 < h \<and> 0 < m then show_int h @ ''h'' @ show_int m @ ''m''
            else if 0 < h then show_int h @ ''h''
            else if 0 < m then show_int m @ ''m''
            else show_int r @ ''s''))"

definition share_percent :: "real \<Rightarrow> real \<Rightarrow> int" where
  "share_percent whole score =
     (if 0 < whole \<and> 0 < score then max 1 \<lfloor>100 * score / whole + 1 / 2\<rfloor> else 0)"

definition ranked_line ::
    "gofmt \<Rightarrow> (int \<Rightarrow> string) \<Rightarrow> bool \<Rightarrow> real \<Rightarrow> change_event option \<Rightarrow> nat \<Rightarrow> change_event \<times> real \<Rightarrow> string" where
  "ranked_line F tf single whole symptom i c =
     ''  '' @ show_nat (Suc i) @
     (if single then ''. [only candidate] '' else ''. [share '' @ show_int (share_percent whole (snd c)) @ ''%] '') @
     describe_event F tf (fst c) @
     (case symptom of None \<Rightarrow> []
      | Some s \<Rightarrow> [CHR '' '', CHR 0xE2, CHR 0x80, CHR 0x94, CHR '' ''] @ short_duration (cv_time s - cv_time (fst c)) @ '' before symptom'') @
     [newline]"

definition trim_newlines :: "string \<Rightarrow> string" where
  "trim_newlines s = rev (dropWhile (\<lambda>c. c = newline) (rev s))"

definition shown_total :: "(change_event \<times> real) list \<Rightarrow> real" where
  "shown_total ranked = sum_list (map snd (take top_candidates ranked))"

definition render_ranked ::
    "gofmt \<Rightarrow> (int \<Rightarrow> string) \<Rightarrow> string \<Rightarrow> (change_event \<times> real) list \<Rightarrow> change_event option \<Rightarrow> string" where
  "render_ranked F tf header ranked symptom =
     (let shown = take top_candidates ranked in
      trim_newlines
        (header @ '':'' @ [newline] @
         concat (map (\<lambda>i. ranked_line F tf (length ranked = 1) (shown_total ranked) symptom i (shown ! i)) [0..<length shown]) @
         (if length ranked > length shown
          then [CHR '' '', CHR '' '', CHR 0xE2, CHR 0x80, CHR 0xA6] @ ''and '' @ show_nat (length ranked - length shown) @ '' more'' @ [newline]
          else [])))"

definition no_preceding :: "gofmt \<Rightarrow> (int \<Rightarrow> string) \<Rightarrow> change_event \<Rightarrow> string" where
  "no_preceding F tf s =
     ''candidate cause: none '' @ [CHR 0xE2, CHR 0x80, CHR 0x94] @ '' earliest symptom '' @ describe_event F tf s @
     '' has no preceding change found in window''"

definition candidate_causes :: "unicode \<Rightarrow> gofmt \<Rightarrow> (int \<Rightarrow> string) \<Rightarrow> change_event list \<Rightarrow> string \<Rightarrow> string" where
  "candidate_causes u F tf events workload =
     (case earliest_symptom events of
        Some s \<Rightarrow>
          (let ranked = score_causes u events workload (Some s) in
           if ranked = [] then no_preceding F tf s
           else render_ranked F tf (''candidate causes for symptom '' @ describe_event F tf s @ '' (relative confidence)'')
                  ranked (Some s))
      | None \<Rightarrow>
          (let ranked = score_causes u events workload None in
           if ranked = []
           then ''candidate cause: none '' @ [CHR 0xE2, CHR 0x80, CHR 0x94] @ '' no state-altering change in the window''
           else render_ranked F tf ''candidate causes (no symptom in window; most significant recent changes)'' ranked None))"

section \<open>The tools\<close>

definition event_line :: "(int \<Rightarrow> string) \<Rightarrow> change_event \<Rightarrow> string" where
  "event_line tf e =
     join [tf (cv_time e), cv_source e, cv_kind e, cv_target e, cv_summary e] '' | '' @
     (if cv_before e \<noteq> [] \<or> cv_after e \<noteq> [] then '' | '' @ cv_before e @ arrow @ cv_after e else []) @ [newline]"

definition failures_note :: "string list \<Rightarrow> string" where
  "failures_note fs =
     (if fs = [] then []
      else ''note: '' @ show_nat (length fs) @ '' source(s) failed: '' @ join fs ''; '' @ [newline])"

definition render_recent :: "gofmt \<Rightarrow> (int \<Rightarrow> string) \<Rightarrow> string \<Rightarrow> change_event list \<Rightarrow> string list \<Rightarrow> string" where
  "render_recent F tf workload es fs =
     trim_newlines
       (show_nat (length es) @ '' change(s) for '' @ fmt_q F workload @ [newline] @ concat (map (event_line tf) es) @
        failures_note fs)"

definition render_correlation ::
    "unicode \<Rightarrow> gofmt \<Rightarrow> (int \<Rightarrow> string) \<Rightarrow> (int \<Rightarrow> string) \<Rightarrow> string \<Rightarrow> int \<Rightarrow> change_event list \<Rightarrow> string list \<Rightarrow> string" where
  "render_correlation u F tf df workload since es fs =
     trim_newlines
       (show_nat (length es) @ '' event(s) for '' @ fmt_q F workload @ '' in the last '' @ df since @ '' (newest first)'' @ [newline] @
        concat (map (event_line tf) es) @ candidate_causes u F tf es workload @ [newline] @ failures_note fs)"

text \<open>The arguments after decoding; \<open>dur\<close> is \<open>time.ParseDuration\<close>. The sources of a call: for the change
  tool the fixed ones, for the correlation also the symptom sources built from the arguments.\<close>

record change_args =
  ca_workload :: string
  ca_namespace :: string
  ca_context :: string
  ca_since :: string
  ca_limit :: int

type_synonym change_source = "string \<times> (change_query \<Rightarrow> go_err + change_event list)"

definition since_or :: "(string \<Rightarrow> int option) \<Rightarrow> int \<Rightarrow> string \<Rightarrow> int" where
  "since_or dur dflt s = (if s = [] then dflt else (case dur s of None \<Rightarrow> dflt | Some d \<Rightarrow> d))"

definition limit_of :: "change_args \<Rightarrow> int" where
  "limit_of a = (if 0 < ca_limit a then ca_limit a else 50)"

definition query_of :: "(string \<Rightarrow> int option) \<Rightarrow> int \<Rightarrow> change_args \<Rightarrow> change_query" where
  "query_of dur dflt a =
     \<lparr>cq_workload = ca_workload a, cq_namespace = ca_namespace a, cq_context = ca_context a,
      cq_since = since_or dur dflt (ca_since a), cq_limit = limit_of a\<rparr>"

definition fan_out ::
    "string \<Rightarrow> (string \<Rightarrow> int option) \<Rightarrow> gofmt \<Rightarrow> int \<Rightarrow> change_args \<Rightarrow> change_source list
     \<Rightarrow> (change_event list \<Rightarrow> string list \<Rightarrow> string) \<Rightarrow> go_err + string" where
  "fan_out tool dur F dflt a sources render =
     (if ca_workload a = [] then Inr (tool @ '': workload is required'')
      else if sources = [] then Inr (tool @ '': no change sources available'')
      else (let (groups, failures) = gather F (map (\<lambda>(n, f). (n, f (query_of dur dflt a))) sources)
            in if groups = [] then Inl (ErrOther (tool @ '': all sources failed: '' @ join failures ''; ''))
               else Inr (render (merge_sorted (limit_of a) groups) failures)))"

definition change_recent ::
    "(string \<Rightarrow> int option) \<Rightarrow> gofmt \<Rightarrow> (int \<Rightarrow> string) \<Rightarrow> change_args \<Rightarrow> change_source list \<Rightarrow> go_err + string" where
  "change_recent dur F tf a sources =
     fan_out ''change.recent'' dur F 86400000000000 a sources (render_recent F tf (ca_workload a))"

definition correlate_workload ::
    "unicode \<Rightarrow> (string \<Rightarrow> int option) \<Rightarrow> gofmt \<Rightarrow> (int \<Rightarrow> string) \<Rightarrow> (int \<Rightarrow> string) \<Rightarrow> change_args \<Rightarrow> change_source list
     \<Rightarrow> go_err + string" where
  "correlate_workload u dur F tf df a sources =
     fan_out ''correlate.workload'' dur F 3600000000000 a sources
       (render_correlation u F tf df (ca_workload a) (since_or dur 3600000000000 (ca_since a)))"

end
