(* ===== verification/Correlate_Facts.thy ===== *)
theory Correlate_Facts
  imports Correlate_Cause
begin

text \<open>
  What the ranking of causes shows: which changes are candidates, in which order, how the limit of the
  merged timeline interacts with it, and when the boost for the workload's own target applies.
\<close>

section \<open>ASCII bytes of a string\<close>

lemma decode_ascii_byte:
  assumes "d \<in> set (take (snd (decode_rune (c # s))) (c # s))" "byte d < 128"
  shows "fst (decode_rune (c # s)) = byte d \<and> take (snd (decode_rune (c # s))) (c # s) = [d]"
proof (cases "byte c < 128")
  case True
  then show ?thesis using assms by (simp add: decode_rune_ascii)
next
  case False
  have cont: "is_cont x \<Longrightarrow> \<not> byte x < 128" "second_ok b (byte x) \<Longrightarrow> \<not> byte x < 128" for x b
    by (auto simp: is_cont_def second_ok_def split: if_splits)
  show ?thesis
    using assms False by (auto simp: decode_rune.simps Let_def dest: cont split: if_splits list.splits)
qed

lemma runes_ascii_byte:
  "(r, b) \<in> set (runes_of s) \<Longrightarrow> c \<in> set b \<Longrightarrow> byte c < 128 \<Longrightarrow> r = byte c \<and> b = [c]"
proof (induction s rule: runes_of.induct)
  case (2 d s)
  then show ?case using decode_ascii_byte [of c d s] by (auto simp: runes_of_Cons)
qed simp

lemma fields_acc_byte:
  assumes "w \<in> set (fields_func_acc sep rs acc)" "c \<in> set w" "byte c < 128"
    and "\<And>r b. (r, b) \<in> set rs \<Longrightarrow> c \<in> set b \<Longrightarrow> r = byte c" "c \<in> set acc \<Longrightarrow> \<not> sep (byte c)"
  shows "\<not> sep (byte c)"
  using assms
proof (induction sep rs acc rule: fields_func_acc.induct)
  case (2 sep r b rs acc)
  show ?case
  proof (cases "sep r")
    case True
    then have "acc \<noteq> [] \<and> w = acc \<or> w \<in> set (fields_func_acc sep rs [])" using "2.prems"(1) by (auto split: if_splits)
    then show ?thesis
    proof
      assume "w \<in> set (fields_func_acc sep rs [])"
      then show ?thesis
        using "2.IH"(1,2) True "2.prems" by (cases "acc = []") auto
    qed (use "2.prems" in auto)
  next
    case False
    then show ?thesis using "2.IH"(3) "2.prems" by (auto split: if_splits)
  qed
qed (auto split: if_splits)

lemma fields_func_byte:
  "w \<in> set (fields_func sep s) \<Longrightarrow> c \<in> set w \<Longrightarrow> byte c < 128 \<Longrightarrow> \<not> sep (byte c)"
  unfolding fields_func_def by (rule fields_acc_byte) (auto dest: runes_ascii_byte)

lemma to_lower_keeps:
  assumes "c \<in> set s" "byte c < 128" "\<not> (65 \<le> byte c \<and> byte c \<le> 90)"
  shows "c \<in> set (to_lower u s)"
proof (cases "is_ascii s")
  case True
  have "lower_byte c = c" unfolding lower_byte_def using assms(3) by (rule if_not_P)
  then show ?thesis using assms(1) True by (force simp: to_lower_def)
next
  case False
  have "c \<in> set (concat (map snd (runes_of s)))" using assms(1) by (simp add: runes_of_concat)
  then obtain r b where b: "(r, b) \<in> set (runes_of s)" "c \<in> set b" by auto
  then have "r = byte c" using runes_ascii_byte assms(2) by blast
  then have "c \<in> set (encode_rune (lower_rune u r))" using assms(2) assms(3) by (auto simp: lower_rune_def encode_rune_def)
  then show ?thesis using False b(1) by (force simp: to_lower_def)
qed

lemma delim_ascii: "is_target_delim (byte c) \<Longrightarrow> byte c < 128 \<and> \<not> (65 \<le> byte c \<and> byte c \<le> 90)"
  by (auto simp: is_target_delim_def)

lemma entity_match_delim:
  assumes "c \<in> set workload" "is_target_delim (byte c)"
  shows "entity_match u workload target = 6 / 10"
proof -
  have c: "c \<in> set (to_lower u workload)" "byte c < 128"
    using to_lower_keeps [OF assms(1)] delim_ascii [OF assms(2)] by auto
  then have "to_lower u workload \<notin> set (fields_func is_target_delim (to_lower u target))"
    using fields_func_byte assms(2) by blast
  then show ?thesis using assms(1) by (auto simp: entity_match_def)
qed

section \<open>Symptoms\<close>

lemma earliest_from_Some:
  "earliest_from acc es = Some s \<Longrightarrow>
     (s \<in> set es \<and> cv_kind s \<in> set symptom_kinds \<or> acc = Some s) \<and>
     (\<forall>e \<in> set es. cv_kind e \<in> set symptom_kinds \<longrightarrow> cv_time s \<le> cv_time e) \<and>
     (\<forall>m. acc = Some m \<longrightarrow> cv_time s \<le> cv_time m)"
proof (induction acc es rule: earliest_from.induct)
  case (2 acc e es)
  then show ?case by (auto split: if_splits option.splits; fastforce)
qed simp

lemma earliest_from_None: "earliest_from acc es = None \<longleftrightarrow> acc = None \<and> (\<forall>e \<in> set es. cv_kind e \<notin> set symptom_kinds)"
  by (induction acc es rule: earliest_from.induct) (auto split: option.splits)

lemma earliest_symptom_Some:
  assumes "earliest_symptom es = Some s"
  shows "s \<in> set es" "cv_kind s \<in> set symptom_kinds"
    "e \<in> set es \<Longrightarrow> cv_kind e \<in> set symptom_kinds \<Longrightarrow> cv_time s \<le> cv_time e"
  using earliest_from_Some [of None es s] assms by (auto simp: earliest_symptom_def)

lemma earliest_symptom_None:
  "earliest_symptom es = None \<longleftrightarrow> (\<forall>e \<in> set es. cv_kind e \<notin> set symptom_kinds)"
  by (simp add: earliest_symptom_def earliest_from_None)

lemma symptom_no_weight: "k \<in> set symptom_kinds \<Longrightarrow> cause_weight k = None"
proof -
  have "map fst change_kinds = [''image'', ''rollout'', ''sync'', ''cloud_audit'', ''container_create'', ''image_pull'',
      ''container_restart'', ''scale'']"
    unfolding change_kinds_def by (simp only: list.map fst_conv)
  moreover have "list_all (\<lambda>k. k \<notin> set [''image'', ''rollout'', ''sync'', ''cloud_audit'', ''container_create'', ''image_pull'',
      ''container_restart'', ''scale'']) symptom_kinds"
    by code_simp
  ultimately show "k \<in> set symptom_kinds \<Longrightarrow> cause_weight k = None"
    unfolding cause_weight_def map_of_eq_None_iff list_all_iff by (metis set_map)
qed

section \<open>Candidates\<close>

definition may_cause :: "change_event option \<Rightarrow> change_event \<Rightarrow> bool" where
  "may_cause anchor e \<longleftrightarrow> cause_weight (cv_kind e) \<noteq> None \<and> \<not> after_anchor anchor e"

lemma cause_loop_mem:
  "c \<in> set (cause_loop u w anchor ref seen es) \<Longrightarrow>
     fst c \<in> set es \<and> may_cause anchor (fst c) \<and> snd c = cause_score u w ref (fst c) \<and> cause_key (fst c) \<notin> set seen"
  by (induction u w anchor ref seen es rule: cause_loop.induct) (auto simp: may_cause_def split: if_splits)

lemma cause_loop_distinct: "distinct (map (cause_key \<circ> fst) (cause_loop u w anchor ref seen es))"
  by (induction u w anchor ref seen es rule: cause_loop.induct) (auto dest: cause_loop_mem)

lemma cause_loop_cover:
  "e \<in> set es \<Longrightarrow> may_cause anchor e \<Longrightarrow>
     cause_key e \<in> set seen \<or> (\<exists>c \<in> set (cause_loop u w anchor ref seen es). cause_key (fst c) = cause_key e)"
proof (induction u w anchor ref seen es rule: cause_loop.induct)
  case (2 u w anchor ref seen e' es)
  show ?case
  proof (cases "may_cause anchor e' \<and> cause_key e' \<notin> set seen")
    case True
    then show ?thesis using 2 by (auto simp: may_cause_def)
  next
    case False
    then show ?thesis using 2 by (auto simp: may_cause_def)
  qed
qed simp

lemma cause_score_pos: "may_cause anchor e \<Longrightarrow> 0 < cause_score u w ref e"
proof -
  assume "may_cause anchor e"
  then obtain x where x: "cause_weight (cv_kind e) = Some x" by (auto simp: may_cause_def)
  then have "0 < x" by (auto simp: cause_weight_def change_kinds_def split: if_splits)
  then show ?thesis using x by (simp add: cause_score_def entity_match_def)
qed

definition ranks_before :: "change_event \<times> real \<Rightarrow> change_event \<times> real \<Rightarrow> bool" where
  "ranks_before a b \<longleftrightarrow> snd b < snd a \<or> snd a = snd b \<and> cv_time (fst b) \<le> cv_time (fst a)"

lemma score_causes_Some:
  "score_causes u es w (Some s) =
     sort_key (\<lambda>c. - snd c) (sort_key (\<lambda>c. - cv_time (fst c)) (cause_loop u w (Some s) s [] es))"
  by (simp add: score_causes_def)

lemma score_causes_sorted: "sorted_wrt ranks_before (score_causes u es w anchor)"
proof -
  have "sorted_wrt ranks_before (sort_key (\<lambda>c. - snd c) (sort_key (\<lambda>c. - cv_time (fst c)) cs))" for cs :: "(change_event \<times> real) list"
  proof -
    have "sorted_wrt (\<lambda>a b. - snd a < - snd b \<or> - snd a = - snd b \<and> - cv_time (fst a) \<le> - cv_time (fst b))
        (sort_key (\<lambda>c. - snd c) (sort_key (\<lambda>c. - cv_time (fst c)) cs))"
      by (rule sort_key_lex) simp
    then show ?thesis by (rule sorted_wrt_mono_rel [rotated]) (auto simp: ranks_before_def)
  qed
  then show ?thesis by (auto simp: score_causes_def split: option.splits)
qed

lemma score_causes_set: "set (score_causes u es w (Some s)) = set (cause_loop u w (Some s) s [] es)"
  by (simp add: score_causes_Some)

lemma distinct_key_sort_key: "distinct (map f (sort_key g xs)) \<longleftrightarrow> distinct (map f xs)"
  by (simp add: distinct_map inj_on_def)

lemma score_causes_distinct: "distinct (map (cause_key \<circ> fst) (score_causes u es w (Some s)))"
  unfolding score_causes_Some distinct_key_sort_key by (rule cause_loop_distinct)

lemma score_causes_none: "\<forall>e \<in> set es. cause_weight (cv_kind e) = None \<Longrightarrow> score_causes u es w anchor = []"
proof -
  assume n: "\<forall>e \<in> set es. cause_weight (cv_kind e) = None"
  have "cause_loop u w anchor ref seen es = []" for ref seen
    using n by (induction es arbitrary: seen) auto
  then show ?thesis by (simp add: score_causes_def split: option.splits)
qed

section \<open>Shares\<close>

lemma share_percent_range: "0 < score \<Longrightarrow> score \<le> whole \<Longrightarrow> 1 \<le> share_percent whole score \<and> share_percent whole score \<le> 100"
proof -
  assume s: "0 < score" "score \<le> whole"
  then have "100 * score / whole \<le> 100" by (simp add: field_simps)
  then have "\<lfloor>100 * score / whole + 1 / 2\<rfloor> \<le> 100" by linarith
  then show ?thesis using s by (simp add: share_percent_def)
qed

lemma share_percent_mono: "0 < a \<Longrightarrow> a \<le> b \<Longrightarrow> 0 < whole \<Longrightarrow> share_percent whole a \<le> share_percent whole b"
proof -
  assume s: "0 < a" "a \<le> b" "0 < whole"
  then have "100 * a / whole + 1 / 2 \<le> 100 * b / whole + 1 / 2" by (simp add: divide_right_mono)
  then have "\<lfloor>100 * a / whole + 1 / 2\<rfloor> \<le> \<lfloor>100 * b / whole + 1 / 2\<rfloor>" by (rule floor_mono)
  then show ?thesis using s by (simp add: share_percent_def)
qed

section \<open>The limit of the timeline\<close>

lemma insort_key_front: "\<forall>b \<in> set B. f x \<le> f b \<Longrightarrow> insort_key f x (A @ B) = insort_key f x A @ B"
proof (induction A)
  case Nil
  then show ?case by (cases B) auto
qed auto

lemma insort_key_behind: "\<forall>a \<in> set A. f a < f x \<Longrightarrow> insort_key f x (A @ B) = A @ insort_key f x B"
  by (induction A) auto

lemma sort_key_split:
  assumes "\<And>x y. x \<in> set xs \<Longrightarrow> y \<in> set xs \<Longrightarrow> P x \<Longrightarrow> \<not> P y \<Longrightarrow> f x < f y"
  shows "sort_key f xs = sort_key f (filter P xs) @ sort_key f (filter (\<lambda>x. \<not> P x) xs)"
  using assms
proof (induction xs)
  case (Cons x xs)
  then have IH: "sort_key f xs = sort_key f (filter P xs) @ sort_key f (filter (\<lambda>x. \<not> P x) xs)" by simp
  show ?case
  proof (cases "P x")
    case True
    have "\<forall>b \<in> set (sort_key f (filter (\<lambda>x. \<not> P x) xs)). f x \<le> f b"
      using Cons.prems [of x] True by (auto intro: less_imp_le)
    then show ?thesis using True IH by (simp add: insort_key_front)
  next
    case False
    have "\<forall>a \<in> set (sort_key f (filter P xs)). f a < f x" using Cons.prems [of _ x] False by auto
    then show ?thesis using False IH by (simp add: insort_key_behind)
  qed
qed simp

lemma merge_sorted_mem: "set (merge_sorted cap groups) \<subseteq> \<Union> (set ` set groups)"
proof -
  have "set (take (nat cap) (sort_key (\<lambda>e. - cv_time e) (concat groups))) \<subseteq> set (concat groups)"
    using set_take_subset [of "nat cap" "sort_key (\<lambda>e. - cv_time e) (concat groups)"] by simp
  then show ?thesis by (auto simp: merge_sorted_def Let_def)
qed

lemma merge_sorted_only:
  assumes "0 < cap" "cap \<le> int (length (filter P (concat groups)))"
    and "\<And>x y. x \<in> set (concat groups) \<Longrightarrow> y \<in> set (concat groups) \<Longrightarrow> P x \<Longrightarrow> \<not> P y \<Longrightarrow> cv_time y < cv_time x"
  shows "\<forall>e \<in> set (merge_sorted cap groups). P e" "merge_sorted cap groups \<noteq> []"
proof -
  let ?f = "\<lambda>e. - cv_time e" and ?es = "concat groups"
  have s: "sort_key ?f ?es = sort_key ?f (filter P ?es) @ sort_key ?f (filter (\<lambda>x. \<not> P x) ?es)"
    by (rule sort_key_split) (use assms(3) in auto)
  have m: "merge_sorted cap groups = take (nat cap) (sort_key ?f ?es)"
    using assms(1) by (simp add: merge_sorted_def Let_def)
  have "take (nat cap) (sort_key ?f ?es) = take (nat cap) (sort_key ?f (filter P ?es))"
    unfolding s using assms(2) by simp
  then have eq: "merge_sorted cap groups = take (nat cap) (sort_key ?f (filter P ?es))" by (simp add: m)
  have "set (take (nat cap) (sort_key ?f (filter P ?es))) \<subseteq> set (filter P ?es)"
    using set_take_subset [of "nat cap" "sort_key ?f (filter P ?es)"] by simp
  then show "\<forall>e \<in> set (merge_sorted cap groups). P e" by (auto simp: eq)
  have "0 < length (merge_sorted cap groups)" using assms(1,2) by (simp add: eq)
  then show "merge_sorted cap groups \<noteq> []" by auto
qed

lemma hidden_cause:
  assumes "0 < cap" "cap \<le> int (length (filter (\<lambda>e. cv_kind e \<in> set symptom_kinds) (concat groups)))"
    and "\<And>x y. x \<in> set (concat groups) \<Longrightarrow> y \<in> set (concat groups) \<Longrightarrow> cv_kind x \<in> set symptom_kinds \<Longrightarrow>
        cv_kind y \<notin> set symptom_kinds \<Longrightarrow> cv_time y < cv_time x"
  shows "\<exists>s \<in> set (concat groups). cv_kind s \<in> set symptom_kinds \<and>
     candidate_causes u F tf (merge_sorted cap groups) workload = no_preceding F tf s"
proof -
  let ?m = "merge_sorted cap groups"
  note only = merge_sorted_only [OF assms]
  obtain s where s: "earliest_symptom ?m = Some s"
    using only earliest_symptom_None [of ?m] by (cases "earliest_symptom ?m") (auto simp: neq_Nil_conv)
  have "score_causes u ?m workload (Some s) = []"
    by (rule score_causes_none) (use only(1) symptom_no_weight in blast)
  then have "candidate_causes u F tf ?m workload = no_preceding F tf s" by (simp add: candidate_causes_def s)
  moreover have "s \<in> set (concat groups)" using earliest_symptom_Some(1) [OF s] merge_sorted_mem [of cap groups] by auto
  ultimately show ?thesis using earliest_symptom_Some(2) [OF s] by blast
qed

section \<open>Scores scaled by a constant\<close>

lemma insort_key_map: "insort_key f (g x) (map g xs) = map g (insort_key (\<lambda>y. f (g y)) x xs)"
  by (induction xs) auto

lemma sort_key_of_map: "sort_key f (map g xs) = map g (sort_key (\<lambda>x. f (g x)) xs)"
  by (induction xs) (simp_all add: insort_key_map)

lemma sort_key_same_order:
  assumes "\<And>x y. f x \<le> f y \<longleftrightarrow> g x \<le> g y"
  shows "sort_key f xs = sort_key g xs"
proof -
  have "insort_key f x ys = insort_key g x ys" for x ys
    by (induction ys) (auto simp: assms)
  then show ?thesis by (induction xs) simp_all
qed

lemma cause_score_scaled:
  assumes "\<And>target. entity_match u w target = 6 / 10"
  shows "cause_score u w ref e = cause_score u [] ref e * (6 / 10)"
proof -
  have "entity_match u [] target = 1" for target by (simp add: entity_match_def)
  then show ?thesis by (simp add: cause_score_def assms)
qed

lemma cause_loop_scaled:
  assumes "\<And>e. cause_score u w ref e = cause_score u [] ref e * k"
  shows "cause_loop u w anchor ref seen es = map (\<lambda>c. (fst c, snd c * k)) (cause_loop u [] anchor ref seen es)"
proof (induction es arbitrary: seen)
  case (Cons e es)
  then show ?case using assms [of e] by simp
qed simp

lemma sort_key_snd_scaled:
  "0 < k \<Longrightarrow> sort_key (\<lambda>c. - (snd c * k)) xs = sort_key (\<lambda>c. - snd c) xs" for k :: real
  by (rule sort_key_same_order) simp

lemma score_causes_scaled:
  assumes "\<And>target. entity_match u w target = 6 / 10"
  shows "score_causes u es w anchor = map (\<lambda>c. (fst c, snd c * (6 / 10))) (score_causes u es [] anchor)"
  unfolding score_causes_def
  by (simp only: cause_loop_scaled [OF cause_score_scaled [OF assms]] sort_key_of_map fst_conv snd_conv
      sort_key_snd_scaled list.map split: option.splits) (simp add: sort_key_snd_scaled)

section \<open>What the tool renders\<close>

lemma trim_newlines_keeps: "x \<noteq> [] \<Longrightarrow> last x \<noteq> newline \<Longrightarrow> \<exists>post. trim_newlines (a @ x @ y) = a @ x @ post"
proof -
  assume x: "x \<noteq> []" "last x \<noteq> newline"
  have "\<exists>post. trim_newlines ((a @ butlast x @ [last x]) @ y) = (a @ butlast x @ [last x]) @ post"
    using x(2) by (auto simp: trim_newlines_def dropWhile_append)
  then show ?thesis using x(1) by simp
qed

lemma no_preceding_last: "no_preceding F tf s \<noteq> [] \<and> last (no_preceding F tf s) \<noteq> newline"
  by (simp add: no_preceding_def)

lemma render_correlation_causes:
  assumes "candidate_causes u F tf es workload = no_preceding F tf s"
  shows "\<exists>pre post. render_correlation u F tf df workload since es [] = pre @ no_preceding F tf s @ post"
proof -
  let ?pre = "show_nat (length es) @ '' event(s) for '' @ fmt_q F workload @ '' in the last '' @ df since @
      '' (newest first)'' @ [newline] @ concat (map (event_line tf) es)"
  have "render_correlation u F tf df workload since es [] = trim_newlines (?pre @ no_preceding F tf s @ [newline])"
    by (simp add: render_correlation_def failures_note_def assms)
  moreover obtain post where "trim_newlines (?pre @ no_preceding F tf s @ [newline]) = ?pre @ no_preceding F tf s @ post"
    using trim_newlines_keeps [OF conjunct1 [OF no_preceding_last] conjunct2 [OF no_preceding_last]] by blast
  ultimately show ?thesis by (metis append_assoc)
qed

lemma gather_all:
  "map (\<lambda>(n, f). f q) sources = map Inr groups \<Longrightarrow> gather F (map (\<lambda>(n, f). (n, f q)) sources) = (groups, [])"
proof (induction sources arbitrary: groups)
  case (Cons s ss)
  then obtain g gs where "groups = g # gs" by (cases groups) auto
  then show ?case using Cons.prems Cons.IH [of gs] by (cases s) (auto simp: gather_def map_filter_simps)
qed (simp add: gather_def map_filter_simps)

end
