(* ===== verification/Cloud_Exec.thy ===== *)
theory Cloud_Exec
  imports Tool_Catalog Agent_Text Correlate_Cause
begin

text \<open>
  Running the cloud command lines (\<open>internal/core/tools/cloud/cloudexec.go\<close>, and the accounts and guards
  of \<open>aws.go\<close>, \<open>azure.go\<close>, \<open>gcp_logs.go\<close>, \<open>register.go\<close>): the allowlist, the execution with its bound,
  and the shape every tool of the group has. What a command answers is a parameter that sees every
  command run so far, so any outside world can be behind it.
\<close>

section \<open>The allowlist\<close>

definition allowed_subcommands :: "(string \<times> string list) list" where
  "allowed_subcommands =
     [(''aws'',
       [''cloudwatch list-metrics'', ''cloudwatch get-metric-statistics'', ''cloudwatch get-metric-data'',
        ''logs describe-log-groups'', ''logs filter-log-events'', ''logs start-query'', ''logs get-query-results'',
        ''xray get-trace-summaries'', ''xray batch-get-traces'', ''xray get-service-graph'',
        ''rds describe-db-instances'', ''lambda list-functions'', ''eks list-clusters'',
        ''sqs list-queues'', ''sqs get-queue-attributes'', ''ce get-cost-and-usage'', ''cloudtrail lookup-events'']),
      (''az'',
       [''monitor metrics list'', ''monitor metrics list-definitions'', ''monitor log-analytics query'',
        ''monitor app-insights query'', ''sql server list'', ''functionapp list'', ''aks list'',
        ''consumption usage list'', ''monitor activity-log list'']),
      (''gcloud'',
       [''sql instances list'', ''run services list'', ''container clusters list'', ''logging read''])]"

definition is_flag :: "string \<Rightarrow> bool" where
  "is_flag a \<longleftrightarrow> has_prefix a ''-''"

definition subcommand_prefix :: "string list \<Rightarrow> string" where
  "subcommand_prefix args = join (takeWhile (\<lambda>a. \<not> is_flag a) args) '' ''"

section \<open>Execution\<close>

datatype cloud_error =
    CloudPick pick_error
  | FlagValue string string
  | CloudRequired string
  | CloudInvalid string string
  | BadTime string string
  | BinNotAllowed string
  | SubcommandNotAllowed string string
  | CliFailed string string string
  | CloudDecode string
  | CloudWrapped string cloud_error

type_synonym command = "string \<times> string list"

text \<open>The end of a process: its error if it failed, and what it wrote.\<close>

record cli_result =
  cl_error :: "string option"
  cl_out :: string
  cl_err :: string

definition max_cloud_output :: nat where
  "max_cloud_output = 4194304"

definition run_cloud_exec :: "cli_result \<Rightarrow> string \<Rightarrow> cloud_error + string" where
  "run_cloud_exec res bin =
     (case cl_error res of
        Some e \<Rightarrow> Inl (CliFailed bin e (trim_space (cl_err res)))
      | None \<Rightarrow> Inr (if max_cloud_output < length (cl_out res) then take max_cloud_output (cl_out res) else cl_out res))"

definition cloud_exec ::
    "(command list \<Rightarrow> cli_result) \<Rightarrow> string \<Rightarrow> string list \<Rightarrow> command list \<Rightarrow> (cloud_error + string) \<times> command list" where
  "cloud_exec run bin args hist =
     (case map_of allowed_subcommands bin of
        None \<Rightarrow> (Inl (BinNotAllowed bin), hist)
      | Some allowed \<Rightarrow>
          if subcommand_prefix args \<notin> set allowed then (Inl (SubcommandNotAllowed bin (subcommand_prefix args)), hist)
          else (let hist' = hist @ [(bin, args)] in (run_cloud_exec (run hist') bin, hist')))"

section \<open>Accounts\<close>

record aws_account =
  aw_name :: string
  aw_region :: string
  aw_profile :: string

record azure_account =
  az_name :: string
  az_subscription :: string

record gcp_project =
  gp_name :: string
  gp_project :: string
  gp_configuration :: string

record cloud_clients =
  cc_aws :: "aws_account gomap"
  cc_azure :: "azure_account gomap"
  cc_gcp :: "gcp_project gomap"

definition clients_empty :: "cloud_clients \<Rightarrow> bool" where
  "clients_empty c \<longleftrightarrow> cc_aws c = [] \<and> cc_azure c = [] \<and> cc_gcp c = []"

definition aws_base :: "aws_account \<Rightarrow> string list" where
  "aws_base a = [''--region'', aw_region a, ''--output'', ''json''] @ (if aw_profile a \<noteq> [] then [''--profile'', aw_profile a] else [])"

definition azure_base :: "azure_account \<Rightarrow> string list" where
  "azure_base a = [''--subscription'', az_subscription a, ''--output'', ''json'']"

definition gcp_base :: "gcp_project \<Rightarrow> string list" where
  "gcp_base p =
     [''--project'', gp_project p, ''--format'', ''json''] @
     (if gp_configuration p \<noteq> [] then [''--configuration'', gp_configuration p] else [])"

definition pick_aws :: "cloud_clients \<Rightarrow> string \<Rightarrow> pick_error + aws_account" where
  "pick_aws c name = pick_endpoint (cc_aws c) name ''cloud'' ''aws account''"

definition pick_azure :: "cloud_clients \<Rightarrow> string \<Rightarrow> pick_error + azure_account" where
  "pick_azure c name = pick_endpoint (cc_azure c) name ''cloud'' ''azure account''"

definition pick_gcp :: "cloud_clients \<Rightarrow> string \<Rightarrow> pick_error + gcp_project" where
  "pick_gcp c name = pick_endpoint (cc_gcp c) name ''cloud'' ''gcp project''"

text \<open>The accounts of the configuration: unusable ones are skipped with a reason.\<close>

definition build_aws :: "gofmt \<Rightarrow> aws_account list \<Rightarrow> aws_account gomap \<times> string list" where
  "build_aws F as =
     (fold (\<lambda>a m. if aw_name a = [] \<or> aw_region a = [] then m else gm_put (aw_name a) a m) as [],
      List.map_filter (\<lambda>a. if aw_name a = [] \<or> aw_region a = []
        then Some (''cloud: aws account '' @ fmt_q F (aw_name a) @ '': missing name or region'') else None) as)"

definition build_azure :: "gofmt \<Rightarrow> azure_account list \<Rightarrow> azure_account gomap \<times> string list" where
  "build_azure F as =
     (fold (\<lambda>a m. if az_name a = [] \<or> az_subscription a = [] then m else gm_put (az_name a) a m) as [],
      List.map_filter (\<lambda>a. if az_name a = [] \<or> az_subscription a = []
        then Some (''cloud: azure account '' @ fmt_q F (az_name a) @ '': missing name or subscription_id'') else None) as)"

definition build_gcp :: "gofmt \<Rightarrow> gcp_project list \<Rightarrow> gcp_project gomap \<times> string list" where
  "build_gcp F ps =
     (fold (\<lambda>p m. if gp_name p = [] \<or> gp_project p = [] then m else gm_put (gp_name p) p m) ps [],
      List.map_filter (\<lambda>p. if gp_name p = [] \<or> gp_project p = []
        then Some (''cloud: gcp project '' @ fmt_q F (gp_name p) @ '': missing name or project_id'') else None) ps)"

definition build_cloud_clients ::
    "gofmt \<Rightarrow> aws_account list \<Rightarrow> gcp_project list \<Rightarrow> azure_account list \<Rightarrow> cloud_clients \<times> string list" where
  "build_cloud_clients F aws gcp az =
     (let (ma, sa) = build_aws F aws; (mz, sz) = build_azure F az; (mg, sg) = build_gcp F gcp
      in (\<lparr>cc_aws = ma, cc_azure = mz, cc_gcp = mg\<rparr>, sa @ sz @ sg))"

section \<open>The shape of a tool\<close>

record cloud_env =
  cn_run :: "command list \<Rightarrow> cli_result"
  cn_fmt :: gofmt
  cn_time :: "string \<Rightarrow> gotime option"
  cn_rfc :: "gotime \<Rightarrow> string"
  cn_fixed :: "nat \<Rightarrow> real \<Rightarrow> string"
  cn_order :: "cloud_error option list \<Rightarrow> cloud_error option list"

definition safe_arg :: "string \<Rightarrow> string \<Rightarrow> cloud_error option" where
  "safe_arg field v = (if is_flag v then Some (FlagValue field v) else None)"

definition required :: "string \<Rightarrow> string list \<Rightarrow> cloud_error option" where
  "required tool vs = (if [] \<in> set vs then Some (CloudRequired tool) else None)"

definition opt_flag :: "string \<Rightarrow> string \<Rightarrow> string list" where
  "opt_flag flag v = (if v = [] then [] else [flag, v])"

text \<open>A default, and a cap beyond which the default applies again.\<close>

definition limit_or :: "int \<Rightarrow> int \<Rightarrow> int \<Rightarrow> int" where
  "limit_or dflt mx n = (if n \<le> 0 \<or> mx < n then dflt else n)"

text \<open>\<open>isoToUnix\<close>; an instant is given in nanoseconds since the Go zero time.\<close>

definition iso_to_unix :: "cloud_env \<Rightarrow> string \<Rightarrow> string \<Rightarrow> string \<Rightarrow> cloud_error + int" where
  "iso_to_unix C field s unit =
     (case cn_time C s of
        None \<Rightarrow> Inl (BadTime field s)
      | Some t \<Rightarrow> Inr (if unit = ''ms'' then t div 1000000 - 62135596800000 else unix_seconds t))"

definition iso_check :: "cloud_env \<Rightarrow> string \<Rightarrow> string \<Rightarrow> cloud_error option" where
  "iso_check C field s = (case iso_to_unix C field s ''s'' of Inl e \<Rightarrow> Some e | Inr _ \<Rightarrow> None)"

definition iso_text :: "cloud_env \<Rightarrow> string \<Rightarrow> string \<Rightarrow> string" where
  "iso_text C s unit = (case iso_to_unix C [] s unit of Inl _ \<Rightarrow> [] | Inr n \<Rightarrow> show_int n)"

text \<open>A command on an account: its checks in the order of the code, then its arguments.\<close>

definition on_account ::
    "pick_error + 'a \<Rightarrow> ('a \<Rightarrow> cloud_error option list \<times> string list) \<Rightarrow> cloud_error + 'a \<times> string list" where
  "on_account p k =
     (case p of
        Inl e \<Rightarrow> Inl (CloudPick e)
      | Inr acct \<Rightarrow>
          (case first_error (fst (k acct)) of
             Some e \<Rightarrow> Inl e
           | None \<Rightarrow> Inr (acct, snd (k acct))))"

text \<open>Run one command, decode its output, render it.\<close>

definition run_command ::
    "cloud_env \<Rightarrow> string \<Rightarrow> string \<Rightarrow> (cloud_error + 'a \<times> string list) \<Rightarrow> (string \<Rightarrow> 'p option) \<Rightarrow> ('a \<Rightarrow> 'p \<Rightarrow> observation)
     \<Rightarrow> command list \<Rightarrow> (cloud_error + observation) \<times> command list" where
  "run_command C tool bin cmd dec view hist =
     (case cmd of
        Inl e \<Rightarrow> (Inl e, hist)
      | Inr (acct, argv) \<Rightarrow>
          (case cloud_exec (cn_run C) bin argv hist of
             (Inl e, hist') \<Rightarrow> (Inl (CloudWrapped tool e), hist')
           | (Inr body, hist') \<Rightarrow>
               (case dec body of
                  None \<Rightarrow> (Inl (CloudDecode tool), hist')
                | Some p \<Rightarrow> (Inr (view acct p), hist'))))"

definition table_of :: "string list \<Rightarrow> align list \<Rightarrow> string list list \<Rightarrow> table" where
  "table_of hs as rows = \<lparr>tb_headers = hs, tb_rows = rows, tb_aligns = as\<rparr>"

definition cloud_table :: "string \<Rightarrow> table \<Rightarrow> observation" where
  "cloud_table txt t = \<lparr>ob_text = txt, ob_table = Some t, ob_raw = RawValue\<rparr>"

definition cloud_text :: "string \<Rightarrow> observation" where
  "cloud_text txt = \<lparr>ob_text = txt, ob_table = None, ob_raw = RawValue\<rparr>"

end
