(* ===== verification/Cloud_Aws.thy ===== *)
theory Cloud_Aws
  imports Cloud_Exec
begin

text \<open>
  The AWS tools (\<open>internal/core/tools/cloud/aws.go\<close>, \<open>aws_logs.go\<close>, \<open>aws_xray.go\<close>, \<open>aws_inventory.go\<close>,
  \<open>aws_sqs.go\<close>, \<open>aws_cost.go\<close>): for each the command it builds from its arguments, with its checks, and
  the observation it makes of the decoded output.
\<close>

section \<open>CloudWatch metrics\<close>

definition aws_list_metrics_cmd :: "cloud_clients \<Rightarrow> string \<Rightarrow> string \<Rightarrow> string \<Rightarrow> cloud_error + aws_account \<times> string list" where
  "aws_list_metrics_cmd cl acct ns metric =
     on_account (pick_aws cl acct) (\<lambda>a.
       ([safe_arg ''namespace'' ns, safe_arg ''metric_name'' metric],
        [''cloudwatch'', ''list-metrics''] @ aws_base a @ opt_flag ''--namespace'' ns @ opt_flag ''--metric-name'' metric))"

record cw_metric =
  cm_namespace :: string
  cm_metric :: string
  cm_dims :: "(string \<times> string) list"

definition aws_list_metrics_view :: "gofmt \<Rightarrow> aws_account \<Rightarrow> cw_metric list \<Rightarrow> observation" where
  "aws_list_metrics_view F a ms =
     cloud_table (show_nat (length ms) @ '' CloudWatch metric(s) in account '' @ fmt_q F (aw_name a) @ ''.'')
       (table_of [''NAMESPACE'', ''METRIC'', ''DIMENSIONS''] [AlignLeft, AlignLeft, AlignLeft]
         (map (\<lambda>m. [cm_namespace m, cm_metric m, join (map (\<lambda>(n, v). n @ ''='' @ v) (cm_dims m)) '','']) ms))"

record statistics_args =
  st_account :: string
  st_namespace :: string
  st_metric :: string
  st_dimensions :: "string list"
  st_start :: string
  st_end :: string
  st_period :: int
  st_statistics :: "string list"

text \<open>\<open>strings.Cut(d, "=")\<close>.\<close>

definition cut_equals :: "string \<Rightarrow> (string \<times> string) option" where
  "cut_equals d = (case index_byte d (CHR ''='') of None \<Rightarrow> None | Some i \<Rightarrow> Some (take i d, drop (Suc i) d))"

definition dimension_check :: "string \<Rightarrow> cloud_error option" where
  "dimension_check d =
     (case cut_equals d of
        None \<Rightarrow> Some (CloudInvalid ''cloud.aws_cw_get_metric_statistics'' d)
      | Some (n, v) \<Rightarrow> safe_arg ''dimension'' n)"

definition dimension_arg :: "string \<Rightarrow> string" where
  "dimension_arg d = (case cut_equals d of None \<Rightarrow> [] | Some (n, v) \<Rightarrow> ''Name='' @ n @ '',Value='' @ v)"

definition stats_period :: "statistics_args \<Rightarrow> int" where
  "stats_period a = (if st_period a \<le> 0 then 300 else st_period a)"

definition stats_wanted :: "statistics_args \<Rightarrow> string list" where
  "stats_wanted a = (if st_statistics a = [] then [''Average''] else st_statistics a)"

text \<open>The four fields are checked in the order of a Go map.\<close>

definition aws_statistics_cmd :: "cloud_env \<Rightarrow> cloud_clients \<Rightarrow> statistics_args \<Rightarrow> cloud_error + aws_account \<times> string list" where
  "aws_statistics_cmd C cl s =
     on_account (pick_aws cl (st_account s)) (\<lambda>a.
       ([required ''cloud.aws_cw_get_metric_statistics'' [st_namespace s, st_metric s, st_start s, st_end s]] @
        cn_order C [safe_arg ''namespace'' (st_namespace s), safe_arg ''metric_name'' (st_metric s),
          safe_arg ''start_time'' (st_start s), safe_arg ''end_time'' (st_end s)] @
        map (safe_arg ''statistics'') (stats_wanted s) @ map dimension_check (st_dimensions s),
        [''cloudwatch'', ''get-metric-statistics''] @ aws_base a @
        [''--namespace'', st_namespace s, ''--metric-name'', st_metric s, ''--start-time'', st_start s,
         ''--end-time'', st_end s, ''--period'', show_int (stats_period s), ''--statistics''] @ stats_wanted s @
        (if st_dimensions s = [] then [] else ''--dimensions'' # map dimension_arg (st_dimensions s))))"

definition aws_statistics_view :: "statistics_args \<Rightarrow> string \<times> nat \<Rightarrow> observation" where
  "aws_statistics_view s p =
     cloud_text (fst p @ '': '' @ show_nat (snd p) @ '' datapoint(s) over ['' @ st_start s @ '', '' @ st_end s @ ''] period='' @
       show_int (stats_period s) @ ''s.'')"

section \<open>CloudWatch Logs\<close>

definition aws_log_groups_cmd :: "cloud_clients \<Rightarrow> string \<Rightarrow> string \<Rightarrow> int \<Rightarrow> cloud_error + aws_account \<times> string list" where
  "aws_log_groups_cmd cl acct pfx n =
     on_account (pick_aws cl acct) (\<lambda>a.
       ([safe_arg ''name_prefix'' pfx],
        [''logs'', ''describe-log-groups''] @ aws_base a @ [''--limit'', show_int (limit_or 50 50 n)] @
        opt_flag ''--log-group-name-prefix'' pfx))"

definition aws_log_groups_view :: "gofmt \<Rightarrow> aws_account \<Rightarrow> (string \<times> int \<times> int) list \<Rightarrow> observation" where
  "aws_log_groups_view F a gs =
     cloud_table (show_nat (length gs) @ '' log group(s) in account '' @ fmt_q F (aw_name a) @ ''.'')
       (table_of [''LOG GROUP'', ''STORED BYTES'', ''RETENTION(d)''] [AlignLeft, AlignRight, AlignRight]
         (map (\<lambda>(name, stored, ret). [name, show_int stored, if 0 < ret then show_int ret else []]) gs))"

record filter_args =
  fl_account :: string
  fl_group :: string
  fl_pattern :: string
  fl_start :: string
  fl_end :: string
  fl_limit :: int

text \<open>The filter pattern is not checked.\<close>

definition aws_filter_events_cmd :: "cloud_env \<Rightarrow> cloud_clients \<Rightarrow> filter_args \<Rightarrow> cloud_error + aws_account \<times> string list" where
  "aws_filter_events_cmd C cl s =
     on_account (pick_aws cl (fl_account s)) (\<lambda>a.
       ([required ''cloud.aws_logs_filter_events'' [fl_group s], safe_arg ''log_group_name'' (fl_group s),
         if fl_start s = [] then None else iso_check C ''start_time'' (fl_start s),
         if fl_end s = [] then None else iso_check C ''end_time'' (fl_end s)],
        [''logs'', ''filter-log-events''] @ aws_base a @
        [''--log-group-name'', fl_group s, ''--limit'', show_int (limit_or 100 1000 (fl_limit s))] @
        opt_flag ''--filter-pattern'' (fl_pattern s) @
        (if fl_start s = [] then [] else [''--start-time'', iso_text C (fl_start s) ''ms'']) @
        (if fl_end s = [] then [] else [''--end-time'', iso_text C (fl_end s) ''ms''])))"

definition aws_filter_events_view ::
    "cloud_env \<Rightarrow> filter_args \<Rightarrow> aws_account \<Rightarrow> (int \<times> string \<times> string) list \<Rightarrow> observation" where
  "aws_filter_events_view C s a es =
     cloud_table (show_nat (length es) @ '' event(s) from '' @ fmt_q (cn_fmt C) (fl_group s) @ '' in account '' @
         fmt_q (cn_fmt C) (aw_name a) @ ''.'')
       (table_of [''TIME'', ''STREAM'', ''MESSAGE''] [AlignLeft, AlignLeft, AlignLeft]
         (map (\<lambda>(ms, msg, stream). [cn_rfc C ((ms + 62135596800000) * 1000000), stream, msg]) es))"

section \<open>Logs Insights\<close>

record insights_args =
  ig_account :: string
  ig_groups :: "string list"
  ig_query :: string
  ig_start :: string
  ig_end :: string
  ig_limit :: int

definition insights_tool :: string where
  "insights_tool = ''cloud.aws_logs_insights_query''"

definition insights_max_polls :: nat where
  "insights_max_polls = 30"

definition insights_start_cmd :: "cloud_env \<Rightarrow> cloud_clients \<Rightarrow> insights_args \<Rightarrow> cloud_error + aws_account \<times> string list" where
  "insights_start_cmd C cl s =
     on_account (pick_aws cl (ig_account s)) (\<lambda>a.
       ([if ig_groups s = [] then Some (CloudRequired insights_tool) else None,
         required insights_tool [ig_query s, ig_start s, ig_end s],
         iso_check C ''start_time'' (ig_start s), iso_check C ''end_time'' (ig_end s)] @
        map (safe_arg ''log_group_names'') (ig_groups s),
        [''logs'', ''start-query''] @ aws_base a @
        [''--start-time'', iso_text C (ig_start s) ''s'', ''--end-time'', iso_text C (ig_end s) ''s'',
         ''--query-string'', ig_query s, ''--limit'', show_int (limit_or 100 1000 (ig_limit s)), ''--log-group-names''] @
        ig_groups s))"

definition insights_poll_argv :: "aws_account \<Rightarrow> string \<Rightarrow> string list" where
  "insights_poll_argv a qid = [''logs'', ''get-query-results''] @ aws_base a @ [''--query-id'', qid]"

text \<open>One pass of the loop per entry of the budget; \<open>done\<close> says whether the context is done before the
  wait of a pass is over.\<close>

fun insights_poll ::
    "cloud_env \<Rightarrow> (nat \<Rightarrow> bool) \<Rightarrow> aws_account \<Rightarrow> (string \<Rightarrow> (string \<times> nat) option) \<Rightarrow> string \<Rightarrow> nat \<Rightarrow> command list
     \<Rightarrow> (cloud_error + observation) \<times> command list" where
  "insights_poll C dn a dec qid 0 hist =
     (Inr (cloud_text (''Logs Insights query '' @ qid @ '' still running after '' @ show_nat insights_max_polls @
        '' polls; try a narrower time window.'')), hist)"
| "insights_poll C dn a dec qid (Suc n) hist =
     (if dn (insights_max_polls - Suc n) then (Inl (CloudWrapped insights_tool (CloudInvalid ''context'' [])), hist)
      else (case cloud_exec (cn_run C) ''aws'' (insights_poll_argv a qid) hist of
              (Inl e, hist') \<Rightarrow> (Inl (CloudWrapped insights_tool e), hist')
            | (Inr body, hist') \<Rightarrow>
                (case dec body of
                   None \<Rightarrow> (Inl (CloudDecode insights_tool), hist')
                 | Some (status, rows) \<Rightarrow>
                     if status \<in> set [''Running'', ''Scheduled'', ''Unknown'', []] then insights_poll C dn a dec qid n hist'
                     else if status = ''Complete''
                     then (Inr (cloud_text (''Logs Insights query '' @ qid @ '': '' @ show_nat rows @ '' row(s) from account '' @
                            fmt_q (cn_fmt C) (aw_name a) @ ''.'')), hist')
                     else (Inr (cloud_text (''Logs Insights query '' @ qid @ '' ended with status '' @
                            fmt_q (cn_fmt C) status @ ''.'')), hist'))))"

definition aws_insights ::
    "cloud_env \<Rightarrow> (nat \<Rightarrow> bool) \<Rightarrow> cloud_clients \<Rightarrow> (string \<Rightarrow> string option) \<Rightarrow> (string \<Rightarrow> (string \<times> nat) option) \<Rightarrow> insights_args
     \<Rightarrow> command list \<Rightarrow> (cloud_error + observation) \<times> command list" where
  "aws_insights C dn cl dec_id dec s hist =
     (case insights_start_cmd C cl s of
        Inl e \<Rightarrow> (Inl e, hist)
      | Inr (a, argv) \<Rightarrow>
          (case cloud_exec (cn_run C) ''aws'' argv hist of
             (Inl e, hist') \<Rightarrow> (Inl (CloudWrapped insights_tool e), hist')
           | (Inr body, hist') \<Rightarrow>
               (case dec_id body of
                  None \<Rightarrow> (Inl (CloudInvalid insights_tool ''queryId''), hist')
                | Some qid \<Rightarrow>
                    if qid = [] then (Inl (CloudInvalid insights_tool ''queryId''), hist')
                    else insights_poll C dn a dec qid insights_max_polls hist')))"

section \<open>X-Ray\<close>

definition xray_flags :: "bool \<Rightarrow> bool \<Rightarrow> bool \<Rightarrow> string" where
  "xray_flags e f t =
     (let fs = (if e then [''ERROR''] else []) @ (if f then [''FAULT''] else []) @ (if t then [''THROTTLE''] else [])
      in if fs = [] then ''ok'' else join fs ''+'')"

definition xray_window :: "cloud_env \<Rightarrow> string \<Rightarrow> string \<Rightarrow> string list" where
  "xray_window C s e = [''--start-time'', iso_text C s ''s'', ''--end-time'', iso_text C e ''s'']"

definition aws_trace_summaries_cmd ::
    "cloud_env \<Rightarrow> cloud_clients \<Rightarrow> string \<Rightarrow> string \<Rightarrow> string \<Rightarrow> string \<Rightarrow> cloud_error + aws_account \<times> string list" where
  "aws_trace_summaries_cmd C cl acct s e expr =
     on_account (pick_aws cl acct) (\<lambda>a.
       ([required ''cloud.aws_xray_trace_summaries'' [s, e], iso_check C ''start_time'' s, iso_check C ''end_time'' e,
         safe_arg ''filter_expression'' expr],
        [''xray'', ''get-trace-summaries''] @ aws_base a @ xray_window C s e @ opt_flag ''--filter-expression'' expr))"

record xray_summary =
  xs_id :: string
  xs_duration :: real
  xs_response :: real
  xs_error :: bool
  xs_fault :: bool
  xs_throttle :: bool
  xs_status :: int
  xs_url :: string

definition aws_trace_summaries_view ::
    "cloud_env \<Rightarrow> string \<Rightarrow> string \<Rightarrow> aws_account \<Rightarrow> xray_summary list \<Rightarrow> observation" where
  "aws_trace_summaries_view C s e a ts =
     cloud_table (show_nat (length ts) @ '' trace summary(ies) in account '' @ fmt_q (cn_fmt C) (aw_name a) @ '' over ['' @ s @
         '', '' @ e @ ''].'')
       (table_of [''TRACE ID'', ''DURATION(s)'', ''RESP(s)'', ''STATUS'', ''HTTP'', ''URL'']
         [AlignLeft, AlignRight, AlignRight, AlignLeft, AlignRight, AlignLeft]
         (map (\<lambda>t. [xs_id t, cn_fixed C 3 (xs_duration t), cn_fixed C 3 (xs_response t),
            xray_flags (xs_error t) (xs_fault t) (xs_throttle t), if xs_status t \<noteq> 0 then show_int (xs_status t) else [],
            xs_url t]) ts))"

definition aws_batch_traces_cmd :: "cloud_clients \<Rightarrow> string \<Rightarrow> string list \<Rightarrow> cloud_error + aws_account \<times> string list" where
  "aws_batch_traces_cmd cl acct ids =
     on_account (pick_aws cl acct) (\<lambda>a.
       ([if ids = [] then Some (CloudRequired ''cloud.aws_xray_batch_get_traces'') else None,
         if 5 < length ids then Some (CloudInvalid ''cloud.aws_xray_batch_get_traces'' (show_nat (length ids))) else None] @
        map (safe_arg ''trace_ids'') ids,
        [''xray'', ''batch-get-traces''] @ aws_base a @ [''--trace-ids''] @ ids))"

definition aws_batch_traces_view :: "cloud_env \<Rightarrow> aws_account \<Rightarrow> (string \<times> real \<times> nat) list \<times> nat \<Rightarrow> observation" where
  "aws_batch_traces_view C a p =
     cloud_table (show_nat (length (fst p)) @ '' trace(s) in account '' @ fmt_q (cn_fmt C) (aw_name a) @ ''.'' @
         (if 0 < snd p then '' '' @ show_nat (snd p) @ '' unprocessed.'' else []))
       (table_of [''TRACE ID'', ''DURATION(s)'', ''SEGMENTS''] [AlignLeft, AlignRight, AlignRight]
         (map (\<lambda>(i, d, n). [i, cn_fixed C 3 d, show_nat n]) (fst p)))"

definition aws_service_graph_cmd ::
    "cloud_env \<Rightarrow> cloud_clients \<Rightarrow> string \<Rightarrow> string \<Rightarrow> string \<Rightarrow> cloud_error + aws_account \<times> string list" where
  "aws_service_graph_cmd C cl acct s e =
     on_account (pick_aws cl acct) (\<lambda>a.
       ([required ''cloud.aws_xray_service_graph'' [s, e], iso_check C ''start_time'' s, iso_check C ''end_time'' e],
        [''xray'', ''get-service-graph''] @ aws_base a @ xray_window C s e))"

record xray_service =
  xv_name :: string
  xv_type :: string
  xv_ok :: int
  xv_error :: int
  xv_fault :: int
  xv_total :: int

definition aws_service_graph_view :: "gofmt \<Rightarrow> aws_account \<Rightarrow> xray_service list \<Rightarrow> observation" where
  "aws_service_graph_view F a ss =
     cloud_table (show_nat (length ss) @ '' service(s) in the X-Ray graph for account '' @ fmt_q F (aw_name a) @ ''.'')
       (table_of [''SERVICE'', ''TYPE'', ''OK'', ''ERROR'', ''FAULT'', ''TOTAL'']
         [AlignLeft, AlignLeft, AlignRight, AlignRight, AlignRight, AlignRight]
         (map (\<lambda>s. [xv_name s, xv_type s, show_int (xv_ok s), show_int (xv_error s), show_int (xv_fault s), show_int (xv_total s)]) ss))"

section \<open>Inventory\<close>

definition aws_plain_cmd :: "cloud_clients \<Rightarrow> string \<Rightarrow> string list \<Rightarrow> cloud_error + aws_account \<times> string list" where
  "aws_plain_cmd cl acct path = on_account (pick_aws cl acct) (\<lambda>a. ([], path @ aws_base a))"

record rds_instance =
  rd_id :: string
  rd_class :: string
  rd_engine :: string
  rd_version :: string
  rd_status :: string
  rd_multi :: bool
  rd_zone :: string

definition show_bool :: "bool \<Rightarrow> string" where
  "show_bool b = (if b then ''true'' else ''false'')"

definition aws_rds_view :: "gofmt \<Rightarrow> aws_account \<Rightarrow> rds_instance list \<Rightarrow> observation" where
  "aws_rds_view F a ds =
     cloud_table (show_nat (length ds) @ '' RDS instance(s) in account '' @ fmt_q F (aw_name a) @ ''.'')
       (table_of [''INSTANCE'', ''ENGINE'', ''VERSION'', ''CLASS'', ''STATUS'', ''MULTI-AZ'', ''AZ''] (replicate 7 AlignLeft)
         (map (\<lambda>d. [rd_id d, rd_engine d, rd_version d, rd_class d, rd_status d, show_bool (rd_multi d), rd_zone d]) ds))"

definition aws_lambda_view :: "gofmt \<Rightarrow> aws_account \<Rightarrow> (string \<times> string \<times> int \<times> int \<times> string) list \<Rightarrow> observation" where
  "aws_lambda_view F a fs =
     cloud_table (show_nat (length fs) @ '' Lambda function(s) in account '' @ fmt_q F (aw_name a) @ ''.'')
       (table_of [''FUNCTION'', ''RUNTIME'', ''MEM(MB)'', ''TIMEOUT(s)'', ''LAST MODIFIED'']
         [AlignLeft, AlignLeft, AlignRight, AlignRight, AlignLeft]
         (map (\<lambda>(n, rt, mem, tmo, md). [n, rt, show_int mem, show_int tmo, md]) fs))"

definition aws_eks_view :: "gofmt \<Rightarrow> aws_account \<Rightarrow> string list \<Rightarrow> observation" where
  "aws_eks_view F a cs =
     cloud_table (show_nat (length cs) @ '' EKS cluster(s) in account '' @ fmt_q F (aw_name a) @ ''.'')
       (table_of [''CLUSTER''] [AlignLeft] (map (\<lambda>c. [c]) cs))"

section \<open>SQS\<close>

record sqs_row =
  sq_name :: string
  sq_visible :: int
  sq_in_flight :: int
  sq_delayed :: int
  sq_error :: "cloud_error option"

definition sqs_tool :: string where
  "sqs_tool = ''cloud.aws_sqs_queue_depth''"

definition sqs_list_cmd :: "cloud_clients \<Rightarrow> string \<Rightarrow> string \<Rightarrow> cloud_error + aws_account \<times> string list" where
  "sqs_list_cmd cl acct pfx =
     on_account (pick_aws cl acct) (\<lambda>a.
       ([safe_arg ''prefix'' pfx],
        [''sqs'', ''list-queues''] @ aws_base a @ opt_flag ''--queue-name-prefix'' pfx))"

definition sqs_attributes_argv :: "aws_account \<Rightarrow> string \<Rightarrow> string list" where
  "sqs_attributes_argv a url =
     [''sqs'', ''get-queue-attributes''] @ aws_base a @
     [''--queue-url'', url, ''--attribute-names'', ''ApproximateNumberOfMessages'', ''ApproximateNumberOfMessagesNotVisible'',
      ''ApproximateNumberOfMessagesDelayed'']"

definition queue_name :: "string \<Rightarrow> string" where
  "queue_name url =
     (let u = rev (dropWhile (\<lambda>c. c = CHR ''/'') (rev url)) in
      case last_index_byte u (CHR ''/'') of
        None \<Rightarrow> u
      | Some i \<Rightarrow> if int i < int (length u) - 1 then drop (Suc i) u else u)"

text \<open>\<open>atoiQuiet\<close>, over the integer parser given as a parameter of the tool.\<close>

definition atoi_quiet :: "(string \<Rightarrow> int option) \<Rightarrow> string \<Rightarrow> int" where
  "atoi_quiet parse s = (case parse (trim_space s) of None \<Rightarrow> 0 | Some n \<Rightarrow> if n < 0 then 0 else n)"

definition attribute_queue ::
    "cloud_env \<Rightarrow> (string \<Rightarrow> int option) \<Rightarrow> (string \<Rightarrow> (string \<Rightarrow> string) option) \<Rightarrow> aws_account \<Rightarrow> string \<Rightarrow> command list
     \<Rightarrow> sqs_row \<times> command list" where
  "attribute_queue C parse dec a url hist =
     (let row = \<lparr>sq_name = queue_name url, sq_visible = 0, sq_in_flight = 0, sq_delayed = 0, sq_error = None\<rparr> in
      case cloud_exec (cn_run C) ''aws'' (sqs_attributes_argv a url) hist of
        (Inl e, hist') \<Rightarrow> (row\<lparr>sq_error := Some e\<rparr>, hist')
      | (Inr body, hist') \<Rightarrow>
          (case dec body of
             None \<Rightarrow> (row\<lparr>sq_error := Some (CloudDecode ''attributes'')\<rparr>, hist')
           | Some attr \<Rightarrow>
               (row\<lparr>sq_visible := atoi_quiet parse (attr ''ApproximateNumberOfMessages''),
                    sq_in_flight := atoi_quiet parse (attr ''ApproximateNumberOfMessagesNotVisible''),
                    sq_delayed := atoi_quiet parse (attr ''ApproximateNumberOfMessagesDelayed'')\<rparr>, hist')))"

fun attribute_queues ::
    "cloud_env \<Rightarrow> (string \<Rightarrow> int option) \<Rightarrow> (string \<Rightarrow> (string \<Rightarrow> string) option) \<Rightarrow> aws_account \<Rightarrow> string list \<Rightarrow> command list
     \<Rightarrow> sqs_row list \<times> command list" where
  "attribute_queues C parse dec a [] hist = ([], hist)"
| "attribute_queues C parse dec a (u # us) hist =
     (let (row, hist1) = attribute_queue C parse dec a u hist; (rows, hist2) = attribute_queues C parse dec a us hist1
      in (row # rows, hist2))"

definition sqs_flag :: "sqs_row \<Rightarrow> string" where
  "sqs_flag r = (if sq_error r = None \<and> 0 < sq_visible r \<and> sq_in_flight r = 0 then ''NO IN-FLIGHT'' else [])"

definition render_sqs_depth :: "gofmt \<Rightarrow> string \<Rightarrow> sqs_row list \<Rightarrow> nat \<Rightarrow> nat \<Rightarrow> string" where
  "render_sqs_depth F account rows whole attributed =
     (let stuck = length (filter (\<lambda>r. sqs_flag r \<noteq> []) rows) in
      show_nat whole @ '' SQS queue(s) in account '' @ fmt_q F account @
      (if attributed < whole
       then [CHR '' '', CHR 0xE2, CHR 0x80, CHR 0x94] @ '' attributed the first '' @ show_nat attributed @
         '' by listing order; narrow with prefix so the busiest are covered'' else []) @
      (if 0 < stuck
       then [newline, CHR 0xE2, CHR 0x9A, CHR 0xA0] @ '' '' @ show_nat stuck @ '' of the '' @ show_nat attributed @
         '' shown queue(s) have a backlog and nothing in flight'' else []))"

definition sqs_table :: "(cloud_error \<Rightarrow> string) \<Rightarrow> sqs_row list \<Rightarrow> table" where
  "sqs_table show_err rows =
     table_of [''QUEUE'', ''VISIBLE'', ''IN-FLIGHT'', ''DELAYED'', ''FLAG''] [AlignLeft, AlignRight, AlignRight, AlignRight, AlignLeft]
       (map (\<lambda>r. [sq_name r, show_int (sq_visible r), show_int (sq_in_flight r), show_int (sq_delayed r),
           (case sq_error r of None \<Rightarrow> sqs_flag r | Some e \<Rightarrow> ''ERROR: '' @ show_err e)])
         (sort_key (\<lambda>r. - sq_visible r) rows))"

definition aws_queue_depth ::
    "cloud_env \<Rightarrow> (cloud_error \<Rightarrow> string) \<Rightarrow> (string \<Rightarrow> int option) \<Rightarrow> cloud_clients \<Rightarrow> (string \<Rightarrow> string list option)
     \<Rightarrow> (string \<Rightarrow> (string \<Rightarrow> string) option) \<Rightarrow> string \<Rightarrow> string \<Rightarrow> int \<Rightarrow> command list
     \<Rightarrow> (cloud_error + observation) \<times> command list" where
  "aws_queue_depth C show_err parse cl dec_urls dec acct pfx n hist =
     (case sqs_list_cmd cl acct pfx of
        Inl e \<Rightarrow> (Inl e, hist)
      | Inr (a, argv) \<Rightarrow>
          (case cloud_exec (cn_run C) ''aws'' argv hist of
             (Inl e, hist') \<Rightarrow> (Inl (CloudWrapped sqs_tool e), hist')
           | (Inr body, hist') \<Rightarrow>
               (case dec_urls body of
                  None \<Rightarrow> (Inl (CloudDecode sqs_tool), hist')
                | Some urls \<Rightarrow>
                    (let shown = take (nat (if n \<le> 0 then 20 else n)) urls;
                         (rows, hist'') = attribute_queues C parse dec a shown hist'
                     in (Inr (cloud_table (render_sqs_depth (cn_fmt C) (aw_name a) rows (length urls) (length shown))
                           (sqs_table show_err rows)), hist'')))))"

section \<open>Cost\<close>

record cost_args =
  co_account :: string
  co_start :: string
  co_end :: string
  co_granularity :: string
  co_metrics :: "string list"
  co_group :: string

definition cost_granularity :: "cost_args \<Rightarrow> string" where
  "cost_granularity s = (if co_granularity s = [] then ''MONTHLY'' else co_granularity s)"

definition cost_metrics :: "cost_args \<Rightarrow> string list" where
  "cost_metrics s = (if co_metrics s = [] then [''UnblendedCost''] else co_metrics s)"

definition aws_cost_cmd :: "cloud_env \<Rightarrow> cloud_clients \<Rightarrow> cost_args \<Rightarrow> cloud_error + aws_account \<times> string list" where
  "aws_cost_cmd C cl s =
     on_account (pick_aws cl (co_account s)) (\<lambda>a.
       ([required ''cloud.aws_ce_cost_and_usage'' [co_start s, co_end s]] @
        cn_order C [safe_arg ''start'' (co_start s), safe_arg ''end'' (co_end s), safe_arg ''granularity'' (cost_granularity s)] @
        map (safe_arg ''metrics'') (cost_metrics s) @ [safe_arg ''group_by'' (co_group s)],
        [''ce'', ''get-cost-and-usage''] @ aws_base a @
        [''--time-period'', ''Start='' @ co_start s @ '',End='' @ co_end s, ''--granularity'', cost_granularity s, ''--metrics''] @
        cost_metrics s @
        (if co_group s = [] then [] else [''--group-by'', ''Type=DIMENSION,Key='' @ co_group s])))"

record cost_period =
  cp_start :: string
  cp_total :: "(string \<times> string) gomap"
  cp_groups :: "(string list \<times> (string \<times> string) gomap) list"

definition cost_rows :: "string \<Rightarrow> cost_period \<Rightarrow> string list list" where
  "cost_rows metric p =
     (let row = (\<lambda>grp m. let (amount, currency) = (case gm_get m metric of None \<Rightarrow> ([], []) | Some x \<Rightarrow> x)
                  in [cp_start p, grp, metric, amount, currency])
      in if cp_groups p \<noteq> [] then map (\<lambda>(ks, m). row (join ks ''|'') m) (cp_groups p) else [row ''(total)'' (cp_total p)])"

definition aws_cost_view :: "gofmt \<Rightarrow> cost_args \<Rightarrow> aws_account \<Rightarrow> cost_period list \<Rightarrow> observation" where
  "aws_cost_view F s a ps =
     (let rows = concat (map (cost_rows (hd (cost_metrics s))) ps) in
      cloud_table (show_nat (length rows) @ '' cost row(s) over ['' @ co_start s @ '', '' @ co_end s @ '') granularity='' @
          cost_granularity s @ '' for account '' @ fmt_q F (aw_name a) @ ''.'')
        (table_of [''PERIOD'', ''GROUP'', ''METRIC'', ''AMOUNT'', ''UNIT''] [AlignLeft, AlignLeft, AlignLeft, AlignRight, AlignLeft] rows))"

end
