(* ===== verification/Cloud_Tools.thy ===== *)
theory Cloud_Tools
  imports Cloud_Aws
begin

text \<open>
  The Azure and GCP tools (\<open>internal/core/tools/cloud/azure.go\<close>, \<open>azure_logs.go\<close>, \<open>azure_appinsights.go\<close>,
  \<open>azure_inventory.go\<close>, \<open>azure_cost.go\<close>, \<open>gcp_logs.go\<close>, \<open>gcp_inventory.go\<close>) and the whole group: every
  call of a cloud tool as a value, and the step it takes.
\<close>

section \<open>Azure Monitor\<close>

definition azure_definitions_cmd :: "cloud_clients \<Rightarrow> string \<Rightarrow> string \<Rightarrow> cloud_error + azure_account \<times> string list" where
  "azure_definitions_cmd cl acct resource =
     on_account (pick_azure cl acct) (\<lambda>a.
       ([required ''cloud.azure_monitor_metric_definitions'' [resource], safe_arg ''resource'' resource],
        [''monitor'', ''metrics'', ''list-definitions''] @ azure_base a @ [''--resource'', resource]))"

text \<open>The decoder stands for the object form and, when that fails, the bare array.\<close>

definition azure_definitions_view :: "gofmt \<Rightarrow> azure_account \<Rightarrow> (string \<times> string \<times> string) list \<Rightarrow> observation" where
  "azure_definitions_view F a ds =
     cloud_table (show_nat (length ds) @ '' metric definition(s) for resource in account '' @ fmt_q F (az_name a) @ ''.'')
       (table_of [''METRIC'', ''UNIT'', ''AGGREGATION''] [AlignLeft, AlignLeft, AlignLeft]
         (map (\<lambda>(n, un, ag). [n, un, ag]) ds))"

record az_metrics_args =
  am_account :: string
  am_resource :: string
  am_metrics :: "string list"
  am_aggregation :: string
  am_interval :: string
  am_start :: string
  am_end :: string

text \<open>The metric names are not checked.\<close>

definition azure_metrics_cmd :: "cloud_clients \<Rightarrow> az_metrics_args \<Rightarrow> cloud_error + azure_account \<times> string list" where
  "azure_metrics_cmd cl s =
     on_account (pick_azure cl (am_account s)) (\<lambda>a.
       ([if am_resource s = [] \<or> am_metrics s = [] then Some (CloudRequired ''cloud.azure_monitor_metrics'') else None,
         safe_arg ''resource'' (am_resource s), safe_arg ''aggregation'' (am_aggregation s), safe_arg ''interval'' (am_interval s),
         safe_arg ''start_time'' (am_start s), safe_arg ''end_time'' (am_end s)],
        [''monitor'', ''metrics'', ''list''] @ azure_base a @ [''--resource'', am_resource s, ''--metrics''] @ am_metrics s @
        opt_flag ''--aggregation'' (am_aggregation s) @ opt_flag ''--interval'' (am_interval s) @
        opt_flag ''--start-time'' (am_start s) @ opt_flag ''--end-time'' (am_end s)))"

text \<open>The decoded series: for each metric the lengths of its timeseries.\<close>

definition azure_metrics_view :: "gofmt \<Rightarrow> azure_account \<Rightarrow> nat list list \<Rightarrow> observation" where
  "azure_metrics_view F a ms =
     cloud_text (show_nat (length ms) @ '' metric series, '' @ show_nat (sum_list (map sum_list ms)) @
       '' datapoint(s) for resource in account '' @ fmt_q F (az_name a) @ ''.'')"

definition azure_logs_cmd :: "cloud_clients \<Rightarrow> string \<Rightarrow> string \<Rightarrow> string \<Rightarrow> string \<Rightarrow> cloud_error + azure_account \<times> string list" where
  "azure_logs_cmd cl acct workspace query timespan =
     on_account (pick_azure cl acct) (\<lambda>a.
       ([required ''cloud.azure_log_analytics_query'' [workspace, query], safe_arg ''workspace'' workspace,
         safe_arg ''timespan'' timespan],
        [''monitor'', ''log-analytics'', ''query''] @ azure_base a @
        [''--workspace'', workspace, ''--analytics-query'', query] @ opt_flag ''--timespan'' timespan))"

definition azure_logs_view :: "gofmt \<Rightarrow> azure_account \<Rightarrow> nat \<Rightarrow> observation" where
  "azure_logs_view F a n =
     cloud_text (show_nat n @ '' row(s) from Log Analytics workspace in account '' @ fmt_q F (az_name a) @ ''.'')"

record insights_query =
  aq_account :: string
  aq_app :: string
  aq_query :: string
  aq_offset :: string
  aq_group :: string
  aq_start :: string
  aq_end :: string

definition azure_appinsights_cmd :: "cloud_clients \<Rightarrow> insights_query \<Rightarrow> cloud_error + azure_account \<times> string list" where
  "azure_appinsights_cmd cl s =
     on_account (pick_azure cl (aq_account s)) (\<lambda>a.
       ([required ''cloud.azure_appinsights_query'' [aq_app s, aq_query s], safe_arg ''app'' (aq_app s),
         safe_arg ''resource_group'' (aq_group s), safe_arg ''start_time'' (aq_start s), safe_arg ''end_time'' (aq_end s),
         safe_arg ''offset'' (aq_offset s)],
        [''monitor'', ''app-insights'', ''query''] @ azure_base a @
        [''--apps'', aq_app s, ''--analytics-query'', aq_query s] @ opt_flag ''--resource-group'' (aq_group s) @
        opt_flag ''--start-time'' (aq_start s) @ opt_flag ''--end-time'' (aq_end s) @ opt_flag ''--offset'' (aq_offset s)))"

definition azure_appinsights_view :: "gofmt \<Rightarrow> azure_account \<Rightarrow> nat list \<Rightarrow> observation" where
  "azure_appinsights_view F a tables =
     cloud_text (show_nat (sum_list tables) @ '' row(s) across '' @ show_nat (length tables) @
       '' table(s) from Application Insights app in account '' @ fmt_q F (az_name a) @ ''.'')"

section \<open>Azure inventory and cost\<close>

definition azure_plain_cmd :: "cloud_clients \<Rightarrow> string \<Rightarrow> string list \<Rightarrow> cloud_error + azure_account \<times> string list" where
  "azure_plain_cmd cl acct path = on_account (pick_azure cl acct) (\<lambda>a. ([], path @ azure_base a))"

record az_server =
  av_name :: string
  av_location :: string
  av_group :: string
  av_state :: string
  av_version :: string

definition azure_sql_view :: "gofmt \<Rightarrow> azure_account \<Rightarrow> az_server list \<Rightarrow> observation" where
  "azure_sql_view F a ss =
     cloud_table (show_nat (length ss) @ '' Azure SQL server(s) in account '' @ fmt_q F (az_name a) @ ''.'')
       (table_of [''SERVER'', ''RESOURCE GROUP'', ''LOCATION'', ''VERSION'', ''STATE''] (replicate 5 AlignLeft)
         (map (\<lambda>s. [av_name s, av_group s, av_location s, av_version s, av_state s]) ss))"

record az_app =
  ap_name :: string
  ap_location :: string
  ap_group :: string
  ap_state :: string
  ap_host :: string

definition azure_functions_view :: "gofmt \<Rightarrow> azure_account \<Rightarrow> az_app list \<Rightarrow> observation" where
  "azure_functions_view F a as =
     cloud_table (show_nat (length as) @ '' Function app(s) in account '' @ fmt_q F (az_name a) @ ''.'')
       (table_of [''FUNCTION APP'', ''RESOURCE GROUP'', ''LOCATION'', ''STATE'', ''HOST''] (replicate 5 AlignLeft)
         (map (\<lambda>s. [ap_name s, ap_group s, ap_location s, ap_state s, ap_host s]) as))"

record aks_cluster =
  ak_name :: string
  ak_location :: string
  ak_group :: string
  ak_version :: string
  ak_state :: string
  ak_power :: string
  ak_pools :: "int list"

definition azure_aks_view :: "gofmt \<Rightarrow> azure_account \<Rightarrow> aks_cluster list \<Rightarrow> observation" where
  "azure_aks_view F a cs =
     cloud_table (show_nat (length cs) @ '' AKS cluster(s) in account '' @ fmt_q F (az_name a) @ ''.'')
       (table_of [''CLUSTER'', ''RESOURCE GROUP'', ''LOCATION'', ''VERSION'', ''NODES'', ''POWER'', ''STATE'']
         [AlignLeft, AlignLeft, AlignLeft, AlignLeft, AlignRight, AlignLeft, AlignLeft]
         (map (\<lambda>c. [ak_name c, ak_group c, ak_location c, ak_version c, show_int (sum_list (ak_pools c)), ak_power c, ak_state c]) cs))"

definition usage_top :: "int \<Rightarrow> int" where
  "usage_top n = (if n \<le> 0 then 50 else if 1000 < n then 1000 else n)"

definition azure_usage_cmd :: "cloud_clients \<Rightarrow> string \<Rightarrow> string \<Rightarrow> string \<Rightarrow> int \<Rightarrow> cloud_error + azure_account \<times> string list" where
  "azure_usage_cmd cl acct s e n =
     on_account (pick_azure cl acct) (\<lambda>a.
       ([if (s = []) \<noteq> (e = []) then Some (CloudInvalid ''cloud.azure_consumption_usage'' ''dates'') else None,
         safe_arg ''start_date'' s, safe_arg ''end_date'' e],
        [''consumption'', ''usage'', ''list''] @ azure_base a @ [''--top'', show_int (usage_top n)] @
        (if s = [] then [] else [''--start-date'', s, ''--end-date'', e])))"

record usage_record =
  us_instance :: string
  us_cost :: string
  us_currency :: string
  us_start :: string
  us_meter :: string
  us_category :: string

text \<open>\<open>pf\<close> is \<open>strconv.ParseFloat\<close>; a cost it does not read counts nothing.\<close>

definition azure_usage_view :: "cloud_env \<Rightarrow> (string \<Rightarrow> real option) \<Rightarrow> azure_account \<Rightarrow> usage_record list \<Rightarrow> observation" where
  "azure_usage_view C pf a us =
     (let whole = sum_list (List.map_filter (\<lambda>x. pf (us_cost x)) us);
          currency = (case filter (\<lambda>x. us_currency x \<noteq> []) us of [] \<Rightarrow> [] | x # _ \<Rightarrow> us_currency x)
      in cloud_table (show_nat (length us) @ '' usage record(s), pre-tax total '' @ cn_fixed C 2 whole @ '' '' @ currency @
             '' for account '' @ fmt_q (cn_fmt C) (az_name a) @ ''.'')
           (table_of [''USAGE START'', ''METER'', ''INSTANCE'', ''COST'', ''CURRENCY'']
             [AlignLeft, AlignLeft, AlignLeft, AlignRight, AlignLeft]
             (map (\<lambda>x. [us_start x, (if us_category x \<noteq> [] then us_category x @ ''/'' @ us_meter x else us_meter x),
                us_instance x, us_cost x, us_currency x]) us)))"

section \<open>GCP\<close>

record gcp_read_args =
  gr_account :: string
  gr_filter :: string
  gr_limit :: int
  gr_freshness :: string
  gr_order :: string

definition gcp_read_cmd :: "cloud_clients \<Rightarrow> gcp_read_args \<Rightarrow> cloud_error + gcp_project \<times> string list" where
  "gcp_read_cmd cl s =
     on_account (pick_gcp cl (gr_account s)) (\<lambda>p.
       ([safe_arg ''freshness'' (gr_freshness s),
         if gr_order s \<notin> set [[], ''asc'', ''desc''] then Some (CloudInvalid ''cloud.gcp_logging_read'' (gr_order s)) else None,
         safe_arg ''filter'' (gr_filter s)],
        [''logging'', ''read''] @ gcp_base p @ [''--limit'', show_int (limit_or 50 1000 (gr_limit s))] @
        opt_flag ''--freshness'' (gr_freshness s) @ opt_flag ''--order'' (gr_order s) @
        (if gr_filter s = [] then [] else [gr_filter s])))"

record gcp_entry =
  ge_time :: string
  ge_severity :: string
  ge_text :: string
  ge_message :: "string option"
  ge_resource :: string

text \<open>\<open>ge_message\<close> is the string under \<open>message\<close> of the structured payload, if there is one.\<close>

definition log_message :: "gcp_entry \<Rightarrow> string" where
  "log_message e = (if ge_text e \<noteq> [] then ge_text e else (case ge_message e of None \<Rightarrow> [] | Some m \<Rightarrow> m))"

definition gcp_read_view :: "gofmt \<Rightarrow> gcp_project \<Rightarrow> gcp_entry list \<Rightarrow> observation" where
  "gcp_read_view F p es =
     cloud_table (show_nat (length es) @ '' log entr(ies) from project '' @ fmt_q F (gp_name p) @ ''.'')
       (table_of [''TIME'', ''SEVERITY'', ''RESOURCE'', ''MESSAGE''] (replicate 4 AlignLeft)
         (map (\<lambda>e. [ge_time e, ge_severity e, ge_resource e, log_message e]) es))"

definition gcp_plain_cmd :: "cloud_clients \<Rightarrow> string \<Rightarrow> string list \<Rightarrow> cloud_error + gcp_project \<times> string list" where
  "gcp_plain_cmd cl acct path = on_account (pick_gcp cl acct) (\<lambda>p. ([], path @ gcp_base p))"

record sql_instance =
  si_name :: string
  si_version :: string
  si_region :: string
  si_state :: string
  si_tier :: string

definition gcp_sql_view :: "gofmt \<Rightarrow> gcp_project \<Rightarrow> sql_instance list \<Rightarrow> observation" where
  "gcp_sql_view F p xs =
     cloud_table (show_nat (length xs) @ '' Cloud SQL instance(s) in project '' @ fmt_q F (gp_name p) @ ''.'')
       (table_of [''INSTANCE'', ''VERSION'', ''TIER'', ''REGION'', ''STATE''] (replicate 5 AlignLeft)
         (map (\<lambda>x. [si_name x, si_version x, si_tier x, si_region x, si_state x]) xs))"

definition gcp_run_view :: "gofmt \<Rightarrow> gcp_project \<Rightarrow> (string \<times> string \<times> string) list \<Rightarrow> observation" where
  "gcp_run_view F p xs =
     cloud_table (show_nat (length xs) @ '' Cloud Run service(s) in project '' @ fmt_q F (gp_name p) @ ''.'')
       (table_of [''SERVICE'', ''REGION'', ''URL''] [AlignLeft, AlignLeft, AlignLeft]
         (map (\<lambda>(n, region, url). [n, region, url]) xs))"

record gke_cluster =
  gk_name :: string
  gk_location :: string
  gk_status :: string
  gk_version :: string
  gk_nodes :: int

definition gcp_clusters_view :: "gofmt \<Rightarrow> gcp_project \<Rightarrow> gke_cluster list \<Rightarrow> observation" where
  "gcp_clusters_view F p xs =
     cloud_table (show_nat (length xs) @ '' GKE cluster(s) in project '' @ fmt_q F (gp_name p) @ ''.'')
       (table_of [''CLUSTER'', ''LOCATION'', ''VERSION'', ''NODES'', ''STATUS'']
         [AlignLeft, AlignLeft, AlignLeft, AlignRight, AlignLeft]
         (map (\<lambda>x. [gk_name x, gk_location x, gk_version x, show_int (gk_nodes x), gk_status x]) xs))"

section \<open>A call of the group\<close>

datatype cloud_call =
    AwsListMetrics string string string
  | AwsStatistics statistics_args
  | AwsLogGroups string string int
  | AwsFilterEvents filter_args
  | AwsInsights insights_args
  | AwsTraceSummaries string string string string
  | AwsBatchTraces string "string list"
  | AwsServiceGraph string string string
  | AwsRds string
  | AwsLambda string
  | AwsEks string
  | AwsQueueDepth string string int
  | AwsCost cost_args
  | AzureDefinitions string string
  | AzureMetrics az_metrics_args
  | AzureLogs string string string string
  | AzureAppInsights insights_query
  | AzureSql string
  | AzureFunctions string
  | AzureAks string
  | AzureUsage string string string int
  | GcpRead gcp_read_args
  | GcpSql string
  | GcpRun string
  | GcpClusters string

text \<open>The JSON decoders, one per output.\<close>

record cloud_decoders =
  de_metrics :: "string \<Rightarrow> cw_metric list option"
  de_statistics :: "string \<Rightarrow> (string \<times> nat) option"
  de_groups :: "string \<Rightarrow> (string \<times> int \<times> int) list option"
  de_events :: "string \<Rightarrow> (int \<times> string \<times> string) list option"
  de_query_id :: "string \<Rightarrow> string option"
  de_results :: "string \<Rightarrow> (string \<times> nat) option"
  de_summaries :: "string \<Rightarrow> xray_summary list option"
  de_traces :: "string \<Rightarrow> ((string \<times> real \<times> nat) list \<times> nat) option"
  de_graph :: "string \<Rightarrow> xray_service list option"
  de_rds :: "string \<Rightarrow> rds_instance list option"
  de_lambda :: "string \<Rightarrow> (string \<times> string \<times> int \<times> int \<times> string) list option"
  de_eks :: "string \<Rightarrow> string list option"
  de_queues :: "string \<Rightarrow> string list option"
  de_attributes :: "string \<Rightarrow> (string \<Rightarrow> string) option"
  de_cost :: "string \<Rightarrow> cost_period list option"
  de_definitions :: "string \<Rightarrow> (string \<times> string \<times> string) list option"
  de_series :: "string \<Rightarrow> nat list list option"
  de_rows :: "string \<Rightarrow> nat option"
  de_tables :: "string \<Rightarrow> nat list option"
  de_servers :: "string \<Rightarrow> az_server list option"
  de_apps :: "string \<Rightarrow> az_app list option"
  de_aks :: "string \<Rightarrow> aks_cluster list option"
  de_usage :: "string \<Rightarrow> usage_record list option"
  de_entries :: "string \<Rightarrow> gcp_entry list option"
  de_sql :: "string \<Rightarrow> sql_instance list option"
  de_run :: "string \<Rightarrow> (string \<times> string \<times> string) list option"
  de_clusters :: "string \<Rightarrow> gke_cluster list option"

record cloud_world =
  cw_env :: cloud_env
  cw_done :: "nat \<Rightarrow> bool"
  cw_error :: "cloud_error \<Rightarrow> string"
  cw_int :: "string \<Rightarrow> int option"
  cw_float :: "string \<Rightarrow> real option"
  cw_decode :: cloud_decoders

definition cloud_tool ::
    "cloud_world \<Rightarrow> cloud_clients \<Rightarrow> cloud_call \<Rightarrow> command list \<Rightarrow> (cloud_error + observation) \<times> command list" where
  "cloud_tool W cl call hist =
     (let C = cw_env W; F = cn_fmt C; D = cw_decode W in
      case call of
        AwsListMetrics acct ns m \<Rightarrow>
          run_command C ''cloud.aws_cw_list_metrics'' ''aws'' (aws_list_metrics_cmd cl acct ns m) (de_metrics D) (aws_list_metrics_view F) hist
      | AwsStatistics s \<Rightarrow>
          run_command C ''cloud.aws_cw_get_metric_statistics'' ''aws'' (aws_statistics_cmd C cl s) (de_statistics D) (\<lambda>_. aws_statistics_view s) hist
      | AwsLogGroups acct p n \<Rightarrow>
          run_command C ''cloud.aws_logs_describe_groups'' ''aws'' (aws_log_groups_cmd cl acct p n) (de_groups D) (aws_log_groups_view F) hist
      | AwsFilterEvents s \<Rightarrow>
          run_command C ''cloud.aws_logs_filter_events'' ''aws'' (aws_filter_events_cmd C cl s) (de_events D) (aws_filter_events_view C s) hist
      | AwsInsights s \<Rightarrow> aws_insights C (cw_done W) cl (de_query_id D) (de_results D) s hist
      | AwsTraceSummaries acct s e x \<Rightarrow>
          run_command C ''cloud.aws_xray_trace_summaries'' ''aws'' (aws_trace_summaries_cmd C cl acct s e x) (de_summaries D) (aws_trace_summaries_view C s e) hist
      | AwsBatchTraces acct ids \<Rightarrow>
          run_command C ''cloud.aws_xray_batch_get_traces'' ''aws'' (aws_batch_traces_cmd cl acct ids) (de_traces D) (aws_batch_traces_view C) hist
      | AwsServiceGraph acct s e \<Rightarrow>
          run_command C ''cloud.aws_xray_service_graph'' ''aws'' (aws_service_graph_cmd C cl acct s e) (de_graph D) (aws_service_graph_view F) hist
      | AwsRds acct \<Rightarrow>
          run_command C ''cloud.aws_rds_describe_instances'' ''aws'' (aws_plain_cmd cl acct [''rds'', ''describe-db-instances'']) (de_rds D) (aws_rds_view F) hist
      | AwsLambda acct \<Rightarrow>
          run_command C ''cloud.aws_lambda_list_functions'' ''aws'' (aws_plain_cmd cl acct [''lambda'', ''list-functions'']) (de_lambda D) (aws_lambda_view F) hist
      | AwsEks acct \<Rightarrow>
          run_command C ''cloud.aws_eks_list_clusters'' ''aws'' (aws_plain_cmd cl acct [''eks'', ''list-clusters'']) (de_eks D) (aws_eks_view F) hist
      | AwsQueueDepth acct p n \<Rightarrow> aws_queue_depth C (cw_error W) (cw_int W) cl (de_queues D) (de_attributes D) acct p n hist
      | AwsCost s \<Rightarrow>
          run_command C ''cloud.aws_ce_cost_and_usage'' ''aws'' (aws_cost_cmd C cl s) (de_cost D) (aws_cost_view F s) hist
      | AzureDefinitions acct r \<Rightarrow>
          run_command C ''cloud.azure_monitor_metric_definitions'' ''az'' (azure_definitions_cmd cl acct r) (de_definitions D) (azure_definitions_view F) hist
      | AzureMetrics s \<Rightarrow>
          run_command C ''cloud.azure_monitor_metrics'' ''az'' (azure_metrics_cmd cl s) (de_series D) (azure_metrics_view F) hist
      | AzureLogs acct w q t \<Rightarrow>
          run_command C ''cloud.azure_log_analytics_query'' ''az'' (azure_logs_cmd cl acct w q t) (de_rows D) (azure_logs_view F) hist
      | AzureAppInsights s \<Rightarrow>
          run_command C ''cloud.azure_appinsights_query'' ''az'' (azure_appinsights_cmd cl s) (de_tables D) (azure_appinsights_view F) hist
      | AzureSql acct \<Rightarrow>
          run_command C ''cloud.azure_sql_server_list'' ''az'' (azure_plain_cmd cl acct [''sql'', ''server'', ''list'']) (de_servers D) (azure_sql_view F) hist
      | AzureFunctions acct \<Rightarrow>
          run_command C ''cloud.azure_functionapp_list'' ''az'' (azure_plain_cmd cl acct [''functionapp'', ''list'']) (de_apps D) (azure_functions_view F) hist
      | AzureAks acct \<Rightarrow>
          run_command C ''cloud.azure_aks_list'' ''az'' (azure_plain_cmd cl acct [''aks'', ''list'']) (de_aks D) (azure_aks_view F) hist
      | AzureUsage acct s e n \<Rightarrow>
          run_command C ''cloud.azure_consumption_usage'' ''az'' (azure_usage_cmd cl acct s e n) (de_usage D) (azure_usage_view C (cw_float W)) hist
      | GcpRead s \<Rightarrow>
          run_command C ''cloud.gcp_logging_read'' ''gcloud'' (gcp_read_cmd cl s) (de_entries D) (gcp_read_view F) hist
      | GcpSql acct \<Rightarrow>
          run_command C ''cloud.gcp_sql_instances_list'' ''gcloud'' (gcp_plain_cmd cl acct [''sql'', ''instances'', ''list'']) (de_sql D) (gcp_sql_view F) hist
      | GcpRun acct \<Rightarrow>
          run_command C ''cloud.gcp_run_services_list'' ''gcloud'' (gcp_plain_cmd cl acct [''run'', ''services'', ''list'']) (de_run D) (gcp_run_view F) hist
      | GcpClusters acct \<Rightarrow>
          run_command C ''cloud.gcp_container_clusters_list'' ''gcloud'' (gcp_plain_cmd cl acct [''container'', ''clusters'', ''list'']) (de_clusters D) (gcp_clusters_view F) hist)"

end
