(* ===== verification/Cloud_Facts.thy ===== *)
theory Cloud_Facts
  imports Cloud_Tools
begin

text \<open>
  What the cloud tools can run: the commands are read-only and accepted by the allowlist, and which
  values can be taken for flags.
\<close>

section \<open>Read-only commands\<close>

text \<open>The commands as token lists, the way the command lines parse them.\<close>

definition read_only_commands :: "command list" where
  "read_only_commands =
     map (Pair ''aws'')
       [[''cloudwatch'', ''list-metrics''], [''cloudwatch'', ''get-metric-statistics''], [''cloudwatch'', ''get-metric-data''],
        [''logs'', ''describe-log-groups''], [''logs'', ''filter-log-events''], [''logs'', ''start-query''], [''logs'', ''get-query-results''],
        [''xray'', ''get-trace-summaries''], [''xray'', ''batch-get-traces''], [''xray'', ''get-service-graph''],
        [''rds'', ''describe-db-instances''], [''lambda'', ''list-functions''], [''eks'', ''list-clusters''],
        [''sqs'', ''list-queues''], [''sqs'', ''get-queue-attributes''], [''ce'', ''get-cost-and-usage''],
        [''cloudtrail'', ''lookup-events'']] @
     map (Pair ''az'')
       [[''monitor'', ''metrics'', ''list''], [''monitor'', ''metrics'', ''list-definitions''], [''monitor'', ''log-analytics'', ''query''],
        [''monitor'', ''app-insights'', ''query''], [''sql'', ''server'', ''list''], [''functionapp'', ''list''], [''aks'', ''list''],
        [''consumption'', ''usage'', ''list''], [''monitor'', ''activity-log'', ''list'']] @
     map (Pair ''gcloud'')
       [[''sql'', ''instances'', ''list''], [''run'', ''services'', ''list''], [''container'', ''clusters'', ''list''], [''logging'', ''read'']]"

definition command_path :: "string list \<Rightarrow> string list" where
  "command_path args = takeWhile (\<lambda>a. \<not> is_flag a) args"

definition is_read_only :: "command \<Rightarrow> bool" where
  "is_read_only c \<longleftrightarrow> (fst c, command_path (snd c)) \<in> set read_only_commands"

lemma read_only_allowed:
  "\<forall>c \<in> set read_only_commands. \<exists>allowed. map_of allowed_subcommands (fst c) = Some allowed \<and> join (snd c) '' '' \<in> set allowed"
  by (simp add: read_only_commands_def allowed_subcommands_def)

lemma flag_simps [simp]: "is_flag (CHR ''-'' # s)" "\<not> is_flag []" "c \<noteq> CHR ''-'' \<Longrightarrow> \<not> is_flag (c # s)"
  by (simp_all add: is_flag_def has_prefix_def)

lemma command_path_simps [simp]:
  "is_flag a \<Longrightarrow> command_path (a # as) = []"
  "\<not> is_flag a \<Longrightarrow> command_path (a # as) = a # command_path as"
  by (simp_all add: command_path_def)

lemma command_path_base [simp]:
  "command_path (aws_base a @ xs) = []" "command_path (azure_base z @ xs) = []" "command_path (gcp_base p @ xs) = []"
  "command_path (aws_base a) = []" "command_path (azure_base z) = []" "command_path (gcp_base p) = []"
  by (simp_all add: aws_base_def azure_base_def gcp_base_def)

fun refused :: "cloud_error \<Rightarrow> bool" where
  "refused (BinNotAllowed b) \<longleftrightarrow> True"
| "refused (SubcommandNotAllowed b p) \<longleftrightarrow> True"
| "refused (CloudWrapped t e) \<longleftrightarrow> refused e"
| "refused e \<longleftrightarrow> False"

text \<open>A step that only appends commands of a kind, and is not refused.\<close>

definition follows :: "(command \<Rightarrow> bool) \<Rightarrow> command list \<Rightarrow> (cloud_error + 'a) \<times> command list \<Rightarrow> bool" where
  "follows P hist r \<longleftrightarrow>
     (\<exists>cmds. snd r = hist @ cmds \<and> (\<forall>c \<in> set cmds. P c)) \<and> (\<forall>e. fst r = Inl e \<longrightarrow> \<not> refused e)"

lemma follows_none [intro]: "\<not> refused e \<Longrightarrow> follows P hist (Inl e, hist)" "follows P hist (Inr x, hist)"
  by (auto simp: follows_def)

lemma follows_step:
  "follows P hist (r, hist1) \<Longrightarrow> follows P hist1 (r', hist2) \<Longrightarrow> follows P hist (r', hist2)"
  by (fastforce simp: follows_def)

lemma cloud_exec_prefix:
  assumes "map_of allowed_subcommands bin = Some allowed" "subcommand_prefix argv \<in> set allowed"
  shows "cloud_exec run bin argv hist = (run_cloud_exec (run (hist @ [(bin, argv)])) bin, hist @ [(bin, argv)])"
  using assms by (simp add: cloud_exec_def Let_def)

lemma cloud_exec_follows:
  assumes "is_read_only (bin, argv)" "P (bin, argv)"
  shows "follows P hist (cloud_exec run bin argv hist)"
proof -
  obtain allowed where "map_of allowed_subcommands bin = Some allowed" "subcommand_prefix argv \<in> set allowed"
    using assms read_only_allowed unfolding is_read_only_def subcommand_prefix_def command_path_def by fastforce
  then have "cloud_exec run bin argv hist = (run_cloud_exec (run (hist @ [(bin, argv)])) bin, hist @ [(bin, argv)])"
    by (rule cloud_exec_prefix)
  then show ?thesis using assms by (auto simp: follows_def run_cloud_exec_def split: option.splits)
qed

text \<open>Without the tools' own discipline, the boundary of \<open>CloudExec\<close> itself.\<close>

lemma cloud_exec_boundary:
  "snd (cloud_exec run bin argv hist) \<noteq> hist \<Longrightarrow>
     \<exists>allowed. map_of allowed_subcommands bin = Some allowed \<and> join (command_path argv) '' '' \<in> set allowed"
  by (auto simp: cloud_exec_def subcommand_prefix_def command_path_def Let_def split: option.splits if_splits)

lemma run_command_history:
  "snd (run_command C tool bin (Inr (a, argv)) dec view hist) = snd (cloud_exec (cn_run C) bin argv hist)"
  by (auto simp: run_command_def split: sum.split option.split prod.split)

lemma on_account_argv:
  "on_account p k = Inr (a, argv) \<Longrightarrow> p = Inr a \<and> argv = snd (k a) \<and> (\<forall>c \<in> set (fst (k a)). c = None)"
  by (auto simp: on_account_def first_error_None split: sum.splits option.splits)

definition command_ok :: "(command \<Rightarrow> bool) \<Rightarrow> string \<Rightarrow> (cloud_error + 'a \<times> string list) \<Rightarrow> bool" where
  "command_ok P bin cmd \<longleftrightarrow>
     (\<forall>a argv. cmd = Inr (a, argv) \<longrightarrow> P (bin, argv)) \<and> (\<forall>e. cmd = Inl e \<longrightarrow> \<not> refused e)"

lemma no_refusal:
  "safe_arg f v = Some e \<Longrightarrow> \<not> refused e" "required t vs = Some e \<Longrightarrow> \<not> refused e"
  "iso_check C f s = Some e \<Longrightarrow> \<not> refused e" "dimension_check d = Some e \<Longrightarrow> \<not> refused e"
  by (auto simp: safe_arg_def required_def iso_check_def iso_to_unix_def dimension_check_def split: if_splits option.splits sum.splits prod.splits)

lemma first_error_mem: "first_error es = Some e \<Longrightarrow> Some e \<in> set es"
  by (induction es rule: first_error.induct) auto

lemma on_account_ok:
  assumes "\<And>a. is_read_only (bin, snd (k a))" "\<And>a e. Some e \<in> set (fst (k a)) \<Longrightarrow> \<not> refused e"
  shows "command_ok is_read_only bin (on_account p k)"
  using assms
  by (auto simp: command_ok_def on_account_def dest!: first_error_mem split: sum.splits option.splits)

section \<open>Every command of the group\<close>

definition keeps_checks :: "cloud_env \<Rightarrow> bool" where
  "keeps_checks C \<longleftrightarrow> (\<forall>es. set (cn_order C es) = set es)"

lemma aws_cmds:
  "command_ok is_read_only ''aws'' (aws_list_metrics_cmd cl acct ns m)"
  "keeps_checks C \<Longrightarrow> command_ok is_read_only ''aws'' (aws_statistics_cmd C cl st)"
  "command_ok is_read_only ''aws'' (aws_log_groups_cmd cl acct p n)"
  "command_ok is_read_only ''aws'' (aws_filter_events_cmd C cl fl)"
  "command_ok is_read_only ''aws'' (insights_start_cmd C cl ig)"
  "command_ok is_read_only ''aws'' (aws_trace_summaries_cmd C cl acct s e x)"
  "command_ok is_read_only ''aws'' (aws_batch_traces_cmd cl acct ids)"
  "command_ok is_read_only ''aws'' (aws_service_graph_cmd C cl acct s e)"
  "command_ok is_read_only ''aws'' (sqs_list_cmd cl acct p)"
  "keeps_checks C \<Longrightarrow> command_ok is_read_only ''aws'' (aws_cost_cmd C cl co)"
  unfolding aws_list_metrics_cmd_def aws_statistics_cmd_def aws_log_groups_cmd_def aws_filter_events_cmd_def
    insights_start_cmd_def aws_trace_summaries_cmd_def aws_batch_traces_cmd_def aws_service_graph_cmd_def sqs_list_cmd_def
    aws_cost_cmd_def
  by (rule on_account_ok;
      auto simp: is_read_only_def read_only_commands_def keeps_checks_def dest: no_refusal [OF sym] split: if_splits)+

lemma plain_cmds:
  "(''aws'', path) \<in> set read_only_commands \<Longrightarrow> list_all (\<lambda>a. \<not> is_flag a) path \<Longrightarrow> command_ok is_read_only ''aws'' (aws_plain_cmd cl acct path)"
  "(''az'', path) \<in> set read_only_commands \<Longrightarrow> list_all (\<lambda>a. \<not> is_flag a) path \<Longrightarrow> command_ok is_read_only ''az'' (azure_plain_cmd cl acct path)"
  "(''gcloud'', path) \<in> set read_only_commands \<Longrightarrow> list_all (\<lambda>a. \<not> is_flag a) path \<Longrightarrow> command_ok is_read_only ''gcloud'' (gcp_plain_cmd cl acct path)"
proof -
  have "command_path (path @ xs) = path @ command_path xs" if "list_all (\<lambda>a. \<not> is_flag a) path" for xs
    using that by (simp add: command_path_def list_all_iff)
  then show "(''aws'', path) \<in> set read_only_commands \<Longrightarrow> list_all (\<lambda>a. \<not> is_flag a) path \<Longrightarrow> command_ok is_read_only ''aws'' (aws_plain_cmd cl acct path)"
    "(''az'', path) \<in> set read_only_commands \<Longrightarrow> list_all (\<lambda>a. \<not> is_flag a) path \<Longrightarrow> command_ok is_read_only ''az'' (azure_plain_cmd cl acct path)"
    "(''gcloud'', path) \<in> set read_only_commands \<Longrightarrow> list_all (\<lambda>a. \<not> is_flag a) path \<Longrightarrow> command_ok is_read_only ''gcloud'' (gcp_plain_cmd cl acct path)"
    unfolding aws_plain_cmd_def azure_plain_cmd_def gcp_plain_cmd_def
    by (intro on_account_ok; simp add: is_read_only_def)+
qed

lemma other_cmds:
  "command_ok is_read_only ''az'' (azure_definitions_cmd cl acct r)"
  "command_ok is_read_only ''az'' (azure_metrics_cmd cl am)"
  "command_ok is_read_only ''az'' (azure_logs_cmd cl acct w q t)"
  "command_ok is_read_only ''az'' (azure_appinsights_cmd cl aq)"
  "command_ok is_read_only ''az'' (azure_usage_cmd cl acct s e n)"
  "command_ok is_read_only ''gcloud'' (gcp_read_cmd cl gr)"
  unfolding azure_definitions_cmd_def azure_metrics_cmd_def azure_logs_cmd_def azure_appinsights_cmd_def azure_usage_cmd_def
    gcp_read_cmd_def
  by (rule on_account_ok;
      auto simp: is_read_only_def read_only_commands_def dest: no_refusal [OF sym] split: if_splits)+

lemma several_cmds:
  "is_read_only (''aws'', insights_poll_argv a qid)" "is_read_only (''aws'', sqs_attributes_argv a u)"
  by (simp_all add: is_read_only_def insights_poll_argv_def sqs_attributes_argv_def read_only_commands_def)

section \<open>A policy of commands\<close>

text \<open>What a kind of read-only commands needs for the tools to keep to it: each command they build is of
  the kind.\<close>

locale command_policy =
  fixes P :: "command \<Rightarrow> bool"
  assumes reads: "P c \<Longrightarrow> is_read_only c"
begin

lemma exec_follows: "P (bin, argv) \<Longrightarrow> follows P hist (cloud_exec run bin argv hist)"
  using reads by (intro cloud_exec_follows)

lemma run_command_follows:
  assumes "command_ok P bin cmd"
  shows "follows P hist (run_command C tool bin cmd dec view hist)"
proof (cases cmd)
  case (Inl e)
  then show ?thesis using assms by (auto simp: run_command_def command_ok_def)
next
  case (Inr x)
  obtain a argv where x: "x = (a, argv)" by fastforce
  then have "follows P hist (cloud_exec (cn_run C) bin argv hist)"
    using assms Inr by (simp add: command_ok_def exec_follows)
  then show ?thesis
    using Inr x by (auto simp: run_command_def follows_def split: sum.splits prod.splits option.splits)
qed

lemma insights_poll_follows:
  "P (''aws'', insights_poll_argv a qid) \<Longrightarrow> follows P hist (insights_poll C dn a dec qid n hist)"
proof (induction C dn a dec qid n hist rule: insights_poll.induct)
  case (2 C dn a dec qid n hist)
  obtain res hist' where x: "cloud_exec (cn_run C) ''aws'' (insights_poll_argv a qid) hist = (res, hist')" by fastforce
  have step: "follows P hist (res, hist')" using exec_follows [OF 2(2), of hist "cn_run C"] x by simp
  show ?case
  proof (cases res)
    case (Inl e)
    then show ?thesis using step x by (auto simp: follows_def)
  next
    case (Inr body)
    have keep: "follows P hist (Inl e :: cloud_error + observation, hist')" if "\<not> refused e" for e
      by (rule follows_step [OF step follows_none(1) [OF that]])
    have fin: "follows P hist (Inr y :: cloud_error + observation, hist')" for y
      by (rule follows_step [OF step follows_none(2)])
    show ?thesis
    proof (cases "dec body")
      case None
      then show ?thesis using x Inr keep by auto
    next
      case (Some p)
      obtain status rows where p: "p = (status, rows)" by fastforce
      show ?thesis
      proof (cases "status \<in> set [''Running'', ''Scheduled'', ''Unknown'', []]")
        case True
        obtain q h2 where y: "insights_poll C dn a dec qid n hist' = (q, h2)" by fastforce
        have "\<not> dn (insights_max_polls - Suc n) \<Longrightarrow> follows P hist' (q, h2)"
          using 2(1) [OF _ x [symmetric] Inr Some p [symmetric] True 2(2)] y by simp
        then show ?thesis using x Inr Some p True y follows_step [OF step] by auto
      next
        case False
        then show ?thesis using x Inr Some p fin by auto
      qed
    qed
  qed
qed auto

lemma insights_follows:
  assumes "command_ok P ''aws'' (insights_start_cmd C cl s)"
    and "\<And>a argv body qid. insights_start_cmd C cl s = Inr (a, argv) \<Longrightarrow> dec_id body = Some qid \<Longrightarrow> P (''aws'', insights_poll_argv a qid)"
  shows "follows P hist (aws_insights C dn cl dec_id dec s hist)"
proof (cases "insights_start_cmd C cl s")
  case (Inl e)
  then show ?thesis using assms(1) by (auto simp: aws_insights_def command_ok_def)
next
  case (Inr y)
  obtain a argv where y: "y = (a, argv)" by fastforce
  obtain res hist' where x: "cloud_exec (cn_run C) ''aws'' argv hist = (res, hist')" by fastforce
  have "P (''aws'', argv)" using assms(1) Inr y by (simp add: command_ok_def)
  then have step: "follows P hist (res, hist')" using exec_follows [of "''aws''" argv hist "cn_run C"] x by simp
  have keep: "follows P hist (Inl e :: cloud_error + observation, hist')" if "\<not> refused e" for e
    by (rule follows_step [OF step follows_none(1) [OF that]])
  have more: "follows P hist (insights_poll C dn a dec qid n hist')" if "dec_id body = Some qid" for body qid n
    using follows_step [OF step] insights_poll_follows [OF assms(2) [OF Inr [unfolded y] that]] by (metis prod.collapse)
  show ?thesis
  proof (cases res)
    case (Inl e)
    then show ?thesis using Inr y x step by (auto simp: aws_insights_def follows_def)
  next
    case (Inr body)
    then show ?thesis
      using \<open>insights_start_cmd C cl s = Inr y\<close> y x keep more by (auto simp: aws_insights_def split: option.splits)
  qed
qed

lemma attribute_queues_follow:
  "(\<And>u. u \<in> set urls \<Longrightarrow> P (''aws'', sqs_attributes_argv a u)) \<Longrightarrow>
     \<exists>cmds. snd (attribute_queues C parse dec a urls hist) = hist @ cmds \<and> (\<forall>c \<in> set cmds. P c)"
proof (induction C parse dec a urls hist rule: attribute_queues.induct)
  case (2 C parse dec a u us hist)
  then have "\<exists>cmds. snd (attribute_queue C parse dec a u hist) = hist @ cmds \<and> (\<forall>c \<in> set cmds. P c)"
    using exec_follows [of "''aws''" "sqs_attributes_argv a u" hist "cn_run C"]
    by (auto simp: attribute_queue_def follows_def Let_def split: sum.splits prod.splits option.splits)
  moreover obtain row h1 where q: "attribute_queue C parse dec a u hist = (row, h1)" by fastforce
  ultimately obtain c1 where c1: "h1 = hist @ c1" "\<forall>c \<in> set c1. P c" by auto
  obtain rows h2 where r: "attribute_queues C parse dec a us h1 = (rows, h2)" by fastforce
  then obtain c2 where "h2 = h1 @ c2" "\<forall>c \<in> set c2. P c" using 2(1) [OF q [symmetric] refl] 2(2) by auto
  then show ?case using c1 q r by (auto intro: exI [of _ "c1 @ c2"])
qed simp

lemma queue_depth_follows:
  assumes "command_ok P ''aws'' (sqs_list_cmd cl acct p)"
    and "\<And>a argv body us u. sqs_list_cmd cl acct p = Inr (a, argv) \<Longrightarrow> du body = Some us \<Longrightarrow> u \<in> set us \<Longrightarrow> P (''aws'', sqs_attributes_argv a u)"
  shows "follows P hist (aws_queue_depth C se parse cl du dec acct p n hist)"
proof (cases "sqs_list_cmd cl acct p")
  case (Inl e)
  then show ?thesis using assms(1) by (auto simp: aws_queue_depth_def command_ok_def)
next
  case (Inr y)
  obtain a argv where y: "y = (a, argv)" by fastforce
  obtain res hist' where x: "cloud_exec (cn_run C) ''aws'' argv hist = (res, hist')" by fastforce
  have "P (''aws'', argv)" using assms(1) Inr y by (simp add: command_ok_def)
  then have step: "follows P hist (res, hist')" using exec_follows [of "''aws''" argv hist "cn_run C"] x by simp
  have more: "follows P hist (Inr ob, snd (attribute_queues C parse dec a (take m us) hist'))"
    if "du body = Some us" for ob :: observation and us m body
    using step attribute_queues_follow [of "take m us" a C parse dec hist'] assms(2) [OF Inr [unfolded y] that]
    by (fastforce simp: follows_def dest: in_set_takeD)
  show ?thesis
  proof (cases res)
    case (Inl e)
    then show ?thesis using Inr y x step by (auto simp: aws_queue_depth_def follows_def)
  next
    case (Inr body)
    have "follows P hist (Inl (CloudDecode sqs_tool) :: cloud_error + observation, hist')"
      by (rule follows_step [OF step follows_none(1)]) simp
    then show ?thesis
      using \<open>sqs_list_cmd cl acct p = Inr y\<close> y x Inr more
      by (auto simp: aws_queue_depth_def Let_def case_prod_unfold split: option.splits)
  qed
qed

end

interpretation listed: command_policy is_read_only
  by unfold_locales

lemma cloud_tool_reads_only: "keeps_checks (cw_env W) \<Longrightarrow> follows is_read_only hist (cloud_tool W cl call hist)"
  unfolding cloud_tool_def Let_def
  by (cases call)
    (simp_all add: listed.run_command_follows listed.insights_follows listed.queue_depth_follows aws_cmds other_cmds
      plain_cmds several_cmds read_only_commands_def)

section \<open>Values and flags\<close>

definition known_flags :: "string list" where
  "known_flags =
     [''--region'', ''--output'', ''--profile'', ''--namespace'', ''--metric-name'', ''--start-time'', ''--end-time'', ''--period'',
      ''--statistics'', ''--dimensions'', ''--limit'', ''--log-group-name-prefix'', ''--log-group-name'', ''--filter-pattern'',
      ''--query-string'', ''--log-group-names'', ''--query-id'', ''--filter-expression'', ''--trace-ids'', ''--queue-name-prefix'',
      ''--queue-url'', ''--attribute-names'', ''--time-period'', ''--granularity'', ''--metrics'', ''--group-by'',
      ''--subscription'', ''--resource'', ''--aggregation'', ''--interval'', ''--workspace'', ''--analytics-query'', ''--timespan'',
      ''--apps'', ''--resource-group'', ''--offset'', ''--top'', ''--start-date'', ''--end-date'', ''--project'', ''--format'',
      ''--configuration'', ''--freshness'', ''--order'']"

text \<open>The configured accounts are the operator's own; none of their fields starts with a dash.\<close>

definition operator_clients :: "cloud_clients \<Rightarrow> bool" where
  "operator_clients cl \<longleftrightarrow>
     list_all (\<lambda>(k, a). \<not> is_flag (aw_region a) \<and> \<not> is_flag (aw_profile a)) (cc_aws cl) \<and>
     list_all (\<lambda>(k, a). \<not> is_flag (az_subscription a)) (cc_azure cl) \<and>
     list_all (\<lambda>(k, p). \<not> is_flag (gp_project p) \<and> \<not> is_flag (gp_configuration p)) (cc_gcp cl)"

text \<open>The values of a call that no check looks at.\<close>

fun unchecked_values :: "cloud_call \<Rightarrow> string list" where
  "unchecked_values (AwsFilterEvents s) = [fl_pattern s]"
| "unchecked_values (AwsInsights s) = [ig_query s]"
| "unchecked_values (AzureMetrics s) = am_metrics s"
| "unchecked_values (AzureLogs acct w q t) = [q]"
| "unchecked_values (AzureAppInsights s) = [aq_query s]"
| "unchecked_values call = []"

text \<open>What a command line itself answered: a queue URL or a query id.\<close>

definition answered :: "cloud_world \<Rightarrow> string \<Rightarrow> bool" where
  "answered W x \<longleftrightarrow>
     (\<exists>b us. de_queues (cw_decode W) b = Some us \<and> x \<in> set us) \<or> (\<exists>b. de_query_id (cw_decode W) b = Some x)"

definition careful :: "(string \<Rightarrow> bool) \<Rightarrow> command \<Rightarrow> bool" where
  "careful T c \<longleftrightarrow> is_read_only c \<and> (\<forall>x \<in> set (snd c). is_flag x \<longrightarrow> T x)"

interpretation careful: command_policy "careful T" for T
  by unfold_locales (simp add: careful_def)

definition plain_tokens :: "(string \<Rightarrow> bool) \<Rightarrow> bool" where
  "plain_tokens T \<longleftrightarrow> (\<forall>x \<in> set known_flags. T x) \<and> (\<forall>n. T (show_int n))"

lemma careful_cmd:
  assumes "command_ok is_read_only bin (on_account p k)"
    and "\<And>a x. p = Inr a \<Longrightarrow> \<forall>c \<in> set (fst (k a)). c = None \<Longrightarrow> x \<in> set (snd (k a)) \<Longrightarrow> is_flag x \<Longrightarrow> T x"
  shows "command_ok (careful T) bin (on_account p k)"
  using assms unfolding command_ok_def careful_def by (metis on_account_argv snd_conv)

lemma pick_mem: "pick_endpoint m name g kd = Inr v \<Longrightarrow> v \<in> snd ` set m"
  by (force simp: pick_endpoint_def split: if_splits list.splits option.splits dest: map_of_SomeD)

lemma base_tokens:
  assumes "operator_clients cl" "plain_tokens T" "is_flag x"
  shows "pick_aws cl acct = Inr a \<Longrightarrow> x \<in> set (aws_base a) \<Longrightarrow> T x"
    "pick_azure cl acct = Inr z \<Longrightarrow> x \<in> set (azure_base z) \<Longrightarrow> T x"
    "pick_gcp cl acct = Inr p \<Longrightarrow> x \<in> set (gcp_base p) \<Longrightarrow> T x"
  using assms
  by (auto simp: pick_aws_def pick_azure_def pick_gcp_def aws_base_def azure_base_def gcp_base_def operator_clients_def
      plain_tokens_def known_flags_def list_all_iff dest!: pick_mem split: if_splits)

lemma value_tokens:
  "safe_arg f v = None \<longleftrightarrow> \<not> is_flag v"
  "is_flag x \<Longrightarrow> x \<in> set (opt_flag f v) \<Longrightarrow> \<not> is_flag v \<Longrightarrow> x = f"
  "dimension_check d = None \<Longrightarrow> \<not> is_flag (dimension_arg d)"
  by (auto simp: safe_arg_def opt_flag_def dimension_check_def dimension_arg_def split: if_splits option.splits)

lemma iso_text_number: "iso_check C f s = None \<Longrightarrow> \<exists>n. iso_text C s un = show_int n"
  by (auto simp: iso_check_def iso_text_def iso_to_unix_def split: option.splits)

lemma plain_token:
  "plain_tokens T \<Longrightarrow> f \<in> set known_flags \<Longrightarrow> T f" "plain_tokens T \<Longrightarrow> T (show_int n)"
  by (simp_all add: plain_tokens_def)

lemma opt_token: "plain_tokens T \<Longrightarrow> is_flag x \<Longrightarrow> x \<in> set (opt_flag f v) \<Longrightarrow> f \<in> set known_flags \<Longrightarrow> safe_arg g v = None \<Longrightarrow> T x"
  by (auto simp: opt_flag_def safe_arg_def plain_token split: if_splits)

lemma iso_token: "plain_tokens T \<Longrightarrow> iso_check C f s = None \<Longrightarrow> T (iso_text C s un)"
  using iso_text_number [of C f s un] by (auto simp: plain_token)

text \<open>The same over a whole argument list, piece by piece.\<close>

definition fine :: "(string \<Rightarrow> bool) \<Rightarrow> string list \<Rightarrow> bool" where
  "fine T xs \<longleftrightarrow> list_all (\<lambda>x. is_flag x \<longrightarrow> T x) xs"

lemma fine_simps [simp]:
  "fine T []" "fine T (x # xs) \<longleftrightarrow> (is_flag x \<longrightarrow> T x) \<and> fine T xs" "fine T (xs @ ys) \<longleftrightarrow> fine T xs \<and> fine T ys"
  by (simp_all add: fine_def)

lemma fine_opt: "plain_tokens T \<Longrightarrow> f \<in> set known_flags \<Longrightarrow> is_flag v \<longrightarrow> T v \<Longrightarrow> fine T (opt_flag f v)"
  by (simp add: opt_flag_def plain_token)

lemma fine_base:
  assumes "operator_clients cl" "plain_tokens T"
  shows "pick_aws cl acct = Inr a \<Longrightarrow> fine T (aws_base a)" "pick_azure cl acct = Inr z \<Longrightarrow> fine T (azure_base z)"
    "pick_gcp cl acct = Inr p \<Longrightarrow> fine T (gcp_base p)"
  using base_tokens [OF assms] by (simp_all add: fine_def list_all_iff)

lemma fine_values: "\<forall>x \<in> set xs. \<not> is_flag x \<Longrightarrow> fine T xs"
  by (simp add: fine_def list_all_iff)

lemma fine_dimensions: "\<forall>d \<in> set ds. dimension_check d = None \<Longrightarrow> fine T (map dimension_arg ds)"
  using value_tokens(3) by (simp add: fine_def list_all_iff)

lemma fine_tokens: "\<forall>x \<in> set xs. T x \<Longrightarrow> fine T xs"
  by (simp add: fine_def list_all_iff)

lemma fine_cmd:
  assumes "command_ok is_read_only bin (on_account p k)"
    and "\<And>a. p = Inr a \<Longrightarrow> \<forall>c \<in> set (fst (k a)). c = None \<Longrightarrow> fine T (snd (k a))"
  shows "command_ok (careful T) bin (on_account p k)"
  using assms(1) by (rule careful_cmd) (use assms(2) in \<open>simp add: fine_def list_all_iff\<close>)

lemmas careful_simps =
  fine_base fine_opt fine_values fine_tokens value_tokens(1) plain_token known_flags_def xray_window_def keeps_checks_def ball_Un

lemma careful_aws_list_metrics_cmd:
  "operator_clients cl \<Longrightarrow> plain_tokens T \<Longrightarrow> command_ok (careful T) ''aws'' (aws_list_metrics_cmd cl acct ns m)"
  unfolding aws_list_metrics_cmd_def
  by (rule fine_cmd [OF aws_cmds(1) [unfolded aws_list_metrics_cmd_def]])
    (auto simp: careful_simps intro: iso_token split: if_splits)

lemma careful_aws_log_groups_cmd:
  "operator_clients cl \<Longrightarrow> plain_tokens T \<Longrightarrow> command_ok (careful T) ''aws'' (aws_log_groups_cmd cl acct p n)"
  unfolding aws_log_groups_cmd_def
  by (rule fine_cmd [OF aws_cmds(3) [unfolded aws_log_groups_cmd_def]])
    (auto simp: careful_simps intro: iso_token split: if_splits)

lemma careful_aws_filter_events_cmd:
  "operator_clients cl \<Longrightarrow> plain_tokens T \<Longrightarrow> T (fl_pattern fl) \<Longrightarrow> command_ok (careful T) ''aws'' (aws_filter_events_cmd C cl fl)"
  unfolding aws_filter_events_cmd_def
  by (rule fine_cmd [OF aws_cmds(4) [unfolded aws_filter_events_cmd_def]])
    ((simp add: fine_base fine_opt value_tokens plain_token known_flags_def split: if_splits), (blast intro: iso_token)+)

lemma careful_insights_start_cmd:
  "operator_clients cl \<Longrightarrow> plain_tokens T \<Longrightarrow> T (ig_query ig) \<Longrightarrow> command_ok (careful T) ''aws'' (insights_start_cmd C cl ig)"
  unfolding insights_start_cmd_def
  by (rule fine_cmd [OF aws_cmds(5) [unfolded insights_start_cmd_def]])
    (auto simp: careful_simps intro: iso_token split: if_splits)

lemma careful_aws_trace_summaries_cmd:
  "operator_clients cl \<Longrightarrow> plain_tokens T \<Longrightarrow> command_ok (careful T) ''aws'' (aws_trace_summaries_cmd C cl acct s e x)"
  unfolding aws_trace_summaries_cmd_def
  by (rule fine_cmd [OF aws_cmds(6) [unfolded aws_trace_summaries_cmd_def]])
    (auto simp: careful_simps intro: iso_token split: if_splits)

lemma careful_aws_batch_traces_cmd:
  "operator_clients cl \<Longrightarrow> plain_tokens T \<Longrightarrow> command_ok (careful T) ''aws'' (aws_batch_traces_cmd cl acct ids)"
  unfolding aws_batch_traces_cmd_def
  by (rule fine_cmd [OF aws_cmds(7) [unfolded aws_batch_traces_cmd_def]])
    (auto simp: careful_simps intro: iso_token split: if_splits)

lemma careful_aws_service_graph_cmd:
  "operator_clients cl \<Longrightarrow> plain_tokens T \<Longrightarrow> command_ok (careful T) ''aws'' (aws_service_graph_cmd C cl acct s e)"
  unfolding aws_service_graph_cmd_def
  by (rule fine_cmd [OF aws_cmds(8) [unfolded aws_service_graph_cmd_def]])
    (auto simp: careful_simps intro: iso_token split: if_splits)

lemma careful_sqs_list_cmd:
  "operator_clients cl \<Longrightarrow> plain_tokens T \<Longrightarrow> command_ok (careful T) ''aws'' (sqs_list_cmd cl acct p)"
  unfolding sqs_list_cmd_def
  by (rule fine_cmd [OF aws_cmds(9) [unfolded sqs_list_cmd_def]])
    (auto simp: careful_simps intro: iso_token split: if_splits)

lemma careful_aws_statistics_cmd:
  assumes "operator_clients cl" "plain_tokens T" "keeps_checks C"
  shows "command_ok (careful T) ''aws'' (aws_statistics_cmd C cl st)"
  unfolding aws_statistics_cmd_def
proof (rule fine_cmd [OF aws_cmds(2) [OF assms(3), unfolded aws_statistics_cmd_def]], unfold fst_conv snd_conv)
  fix a
  assume a: "pick_aws cl (st_account st) = Inr a"
    and "\<forall>c \<in> set ([required ''cloud.aws_cw_get_metric_statistics'' [st_namespace st, st_metric st, st_start st, st_end st]] @
        cn_order C [safe_arg ''namespace'' (st_namespace st), safe_arg ''metric_name'' (st_metric st),
          safe_arg ''start_time'' (st_start st), safe_arg ''end_time'' (st_end st)] @
        map (safe_arg ''statistics'') (stats_wanted st) @ map dimension_check (st_dimensions st)). c = None"
  then have c: "\<not> is_flag (st_namespace st)" "\<not> is_flag (st_metric st)" "\<not> is_flag (st_start st)" "\<not> is_flag (st_end st)"
    "\<forall>x \<in> set (stats_wanted st). \<not> is_flag x" "\<forall>d \<in> set (st_dimensions st). dimension_check d = None"
    using assms(3) by (simp_all add: keeps_checks_def value_tokens(1) ball_Un)
  show "fine T ([''cloudwatch'', ''get-metric-statistics''] @ aws_base a @
        [''--namespace'', st_namespace st, ''--metric-name'', st_metric st, ''--start-time'', st_start st,
         ''--end-time'', st_end st, ''--period'', show_int (stats_period st), ''--statistics''] @ stats_wanted st @
        (if st_dimensions st = [] then [] else ''--dimensions'' # map dimension_arg (st_dimensions st)))"
    using c fine_base(1) [OF assms(1,2) a] fine_values [OF c(5), of T] fine_dimensions [OF c(6), of T]
    by (simp add: plain_token [OF assms(2)] known_flags_def)
qed

lemma careful_aws_cost_cmd:
  "operator_clients cl \<Longrightarrow> plain_tokens T \<Longrightarrow> keeps_checks C \<Longrightarrow> command_ok (careful T) ''aws'' (aws_cost_cmd C cl co)"
  unfolding aws_cost_cmd_def
  by (rule fine_cmd [OF aws_cmds(10) [unfolded aws_cost_cmd_def]])
    (auto simp: careful_simps intro: iso_token split: if_splits)

lemma careful_azure_definitions_cmd:
  "operator_clients cl \<Longrightarrow> plain_tokens T \<Longrightarrow> command_ok (careful T) ''az'' (azure_definitions_cmd cl acct r)"
  unfolding azure_definitions_cmd_def
  by (rule fine_cmd [OF other_cmds(1) [unfolded azure_definitions_cmd_def]])
    (auto simp: careful_simps intro: iso_token split: if_splits)

lemma careful_azure_metrics_cmd:
  "operator_clients cl \<Longrightarrow> plain_tokens T \<Longrightarrow> \<forall>x \<in> set (am_metrics am). T x \<Longrightarrow> command_ok (careful T) ''az'' (azure_metrics_cmd cl am)"
  unfolding azure_metrics_cmd_def
  by (rule fine_cmd [OF other_cmds(2) [unfolded azure_metrics_cmd_def]])
    (auto simp: careful_simps intro: iso_token split: if_splits)

lemma careful_azure_logs_cmd:
  "operator_clients cl \<Longrightarrow> plain_tokens T \<Longrightarrow> T q \<Longrightarrow> command_ok (careful T) ''az'' (azure_logs_cmd cl acct w q t)"
  unfolding azure_logs_cmd_def
  by (rule fine_cmd [OF other_cmds(3) [unfolded azure_logs_cmd_def]])
    (auto simp: careful_simps intro: iso_token split: if_splits)

lemma careful_azure_appinsights_cmd:
  "operator_clients cl \<Longrightarrow> plain_tokens T \<Longrightarrow> T (aq_query aq) \<Longrightarrow> command_ok (careful T) ''az'' (azure_appinsights_cmd cl aq)"
  unfolding azure_appinsights_cmd_def
  by (rule fine_cmd [OF other_cmds(4) [unfolded azure_appinsights_cmd_def]])
    (auto simp: careful_simps intro: iso_token split: if_splits)

lemma careful_azure_usage_cmd:
  "operator_clients cl \<Longrightarrow> plain_tokens T \<Longrightarrow> command_ok (careful T) ''az'' (azure_usage_cmd cl acct s e n)"
  unfolding azure_usage_cmd_def
  by (rule fine_cmd [OF other_cmds(5) [unfolded azure_usage_cmd_def]])
    (auto simp: careful_simps intro: iso_token split: if_splits)

lemma careful_gcp_read_cmd:
  "operator_clients cl \<Longrightarrow> plain_tokens T \<Longrightarrow> command_ok (careful T) ''gcloud'' (gcp_read_cmd cl gr)"
  unfolding gcp_read_cmd_def
  by (rule fine_cmd [OF other_cmds(6) [unfolded gcp_read_cmd_def]])
    (auto simp: careful_simps intro: iso_token split: if_splits)

lemma careful_plain:
  "operator_clients cl \<Longrightarrow> plain_tokens T \<Longrightarrow> list_all (\<lambda>a. \<not> is_flag a) path \<Longrightarrow> (''aws'', path) \<in> set read_only_commands \<Longrightarrow>
     command_ok (careful T) ''aws'' (aws_plain_cmd cl acct path)"
  "operator_clients cl \<Longrightarrow> plain_tokens T \<Longrightarrow> list_all (\<lambda>a. \<not> is_flag a) path \<Longrightarrow> (''az'', path) \<in> set read_only_commands \<Longrightarrow>
     command_ok (careful T) ''az'' (azure_plain_cmd cl acct path)"
  "operator_clients cl \<Longrightarrow> plain_tokens T \<Longrightarrow> list_all (\<lambda>a. \<not> is_flag a) path \<Longrightarrow> (''gcloud'', path) \<in> set read_only_commands \<Longrightarrow>
     command_ok (careful T) ''gcloud'' (gcp_plain_cmd cl acct path)"
  using plain_cmds(1) [of path cl acct] plain_cmds(2) [of path cl acct] plain_cmds(3) [of path cl acct]
  unfolding aws_plain_cmd_def azure_plain_cmd_def gcp_plain_cmd_def
  by (auto intro!: careful_cmd simp: list_all_iff dest: base_tokens)

lemma careful_several:
  assumes "operator_clients cl" "plain_tokens T" "T u"
  shows "insights_start_cmd C cl ig = Inr (a, argv) \<Longrightarrow> careful T (''aws'', insights_poll_argv a u)"
    "sqs_list_cmd cl acct p = Inr (a, argv) \<Longrightarrow> careful T (''aws'', sqs_attributes_argv a u)"
  using assms several_cmds
  by (auto simp: careful_def insights_poll_argv_def sqs_attributes_argv_def insights_start_cmd_def sqs_list_cmd_def plain_token
      known_flags_def dest!: on_account_argv dest: base_tokens)

lemma cloud_tool_careful:
  assumes "keeps_checks (cw_env W)" "operator_clients cl" "plain_tokens T" "\<forall>x \<in> set (unchecked_values call). T x" "\<forall>x. answered W x \<longrightarrow> T x"
  shows "follows (careful T) hist (cloud_tool W cl call hist)"
proof -
  have ids: "de_query_id (cw_decode W) b = Some q \<Longrightarrow> T q" for b q using assms(5) by (auto simp: answered_def)
  have urls: "de_queues (cw_decode W) b = Some us \<Longrightarrow> q \<in> set us \<Longrightarrow> T q" for b us q using assms(5) by (auto simp: answered_def)
  note run = careful.run_command_follows
  note cmds = careful_aws_list_metrics_cmd careful_aws_log_groups_cmd careful_aws_filter_events_cmd careful_insights_start_cmd
    careful_aws_trace_summaries_cmd careful_aws_batch_traces_cmd careful_aws_service_graph_cmd careful_sqs_list_cmd
    careful_aws_statistics_cmd careful_aws_cost_cmd careful_azure_definitions_cmd careful_azure_metrics_cmd careful_azure_logs_cmd
    careful_azure_appinsights_cmd careful_azure_usage_cmd careful_gcp_read_cmd careful_plain
  show ?thesis
  proof (cases call)
    case (AwsInsights s)
    then show ?thesis
      using careful.insights_follows [of T "cw_env W" cl s "de_query_id (cw_decode W)"] cmds(4) [OF assms(2,3)]
        careful_several(1) [OF assms(2,3) ids] assms(4)
      by (simp add: cloud_tool_def Let_def)
  next
    case (AwsQueueDepth acct p n)
    then show ?thesis
      using careful.queue_depth_follows [of T cl acct p "de_queues (cw_decode W)"] cmds(8) [OF assms(2,3)]
        careful_several(2) [OF assms(2,3) urls]
      by (simp add: cloud_tool_def Let_def)
  qed (use assms(1,4) in \<open>simp_all add: cloud_tool_def Let_def run cmds assms(2,3) read_only_commands_def\<close>)
qed

end
