(* ===== verification/Go_Number.thy ===== *)
theory Go_Number
  imports Complex_Main Go_Text Go_Space
begin

text \<open>
  Floats that are not real numbers, the number literals \<open>encoding/json\<close> accepts for a
  \<open>json.Number\<close>, and durations.
\<close>

section \<open>Floats\<close>

text \<open>A float is a real, an infinity or no number; comparisons with \<open>NaN\<close> fail.\<close>

datatype go_float = Fin real | PosInf | NegInf | NaN

fun flt_less :: "go_float \<Rightarrow> go_float \<Rightarrow> bool" where
  "flt_less (Fin x) (Fin y) \<longleftrightarrow> x < y"
| "flt_less NegInf (Fin y) \<longleftrightarrow> True"
| "flt_less NegInf PosInf \<longleftrightarrow> True"
| "flt_less (Fin x) PosInf \<longleftrightarrow> True"
| "flt_less a b \<longleftrightarrow> False"

definition flt_pos :: "go_float \<Rightarrow> bool" where
  "flt_pos x \<longleftrightarrow> flt_less (Fin 0) x"

text \<open>Division by a positive finite number or infinity, which is all the code divides by.\<close>

fun flt_div :: "go_float \<Rightarrow> go_float \<Rightarrow> go_float" where
  "flt_div (Fin x) (Fin y) = Fin (x / y)"
| "flt_div (Fin x) PosInf = Fin 0"
| "flt_div PosInf (Fin y) = PosInf"
| "flt_div NegInf (Fin y) = NegInf"
| "flt_div a b = NaN"

fun flt_finite :: "go_float \<Rightarrow> bool" where
  "flt_finite (Fin x) \<longleftrightarrow> True"
| "flt_finite a \<longleftrightarrow> False"

section \<open>Number literals\<close>

definition decimal :: "char \<Rightarrow> bool" where
  "decimal c \<longleftrightarrow> 48 \<le> (of_char c :: nat) \<and> (of_char c :: nat) \<le> 57"

definition drop_digits :: "string \<Rightarrow> string" where
  "drop_digits s = dropWhile decimal s"

text \<open>The parts of a literal: sign, integer part, fraction, exponent; a part that is absent consumes nothing.\<close>

definition integer_part :: "string \<Rightarrow> string option" where
  "integer_part s =
     (case s of
        [] \<Rightarrow> None
      | c # t \<Rightarrow> if c = CHR ''0'' then Some t else if decimal c then Some (drop_digits t) else None)"

definition fraction_part :: "string \<Rightarrow> string" where
  "fraction_part s =
     (case s of c # d # t \<Rightarrow> if c = CHR ''.'' \<and> decimal d then drop_digits t else s | _ \<Rightarrow> s)"

definition exponent_part :: "string \<Rightarrow> string option" where
  "exponent_part s =
     (case s of
        c # d # t \<Rightarrow>
          if c = CHR ''e'' \<or> c = CHR ''E''
          then (if d = CHR ''+'' \<or> d = CHR ''-'' then if t = [] then None else Some (drop_digits t) else Some (drop_digits (d # t)))
          else Some s
      | _ \<Rightarrow> Some s)"

definition is_valid_number :: "string \<Rightarrow> bool" where
  "is_valid_number s =
     (case integer_part (if has_prefix s ''-'' then drop 1 s else s) of
        None \<Rightarrow> False
      | Some t \<Rightarrow> exponent_part (fraction_part t) = Some [])"

lemma valid_number_examples:
  "is_valid_number ''0''" "is_valid_number ''-12.50''" "is_valid_number ''1.7e+09''" "is_valid_number ''3E7''"
  "\<not> is_valid_number []" "\<not> is_valid_number ''01''" "\<not> is_valid_number ''1.''" "\<not> is_valid_number ''+1''"
  "\<not> is_valid_number ''NaN''" "\<not> is_valid_number ''+Inf''" "\<not> is_valid_number ''-Inf''"
  by code_simp+

section \<open>Durations\<close>

text \<open>
  Durations as \<open>time.ParseDuration\<close> reads them and a time window with a day unit
  (\<open>parseWindowDuration\<close> in \<open>internal/core/tools/prom/error_budget.go\<close>). A duration is an \<open>int64\<close> of
  nanoseconds. A fraction is taken exactly before it is rounded down.
\<close>

section \<open>Rounding\<close>

definition trunc :: "real \<Rightarrow> int" where
  "trunc x = (if 0 \<le> x then \<lfloor>x\<rfloor> else \<lceil>x\<rceil>)"

lemma trunc_bounds: "0 \<le> x \<Longrightarrow> 0 \<le> trunc x \<and> real_of_int (trunc x) \<le> x"
  by (simp add: trunc_def)

definition max_int64 :: int where
  "max_int64 = 9223372036854775807"

section \<open>One number with its unit\<close>

definition duration_units :: "(string \<times> int) list" where
  "duration_units =
     [(''ns'', 1), (''us'', 1000), ([CHR 0xC2, CHR 0xB5, CHR ''s''], 1000), ([CHR 0xCE, CHR 0xBC, CHR ''s''], 1000),
      (''ms'', 1000000), (''s'', 1000000000), (''m'', 60000000000), (''h'', 3600000000000)]"

definition leading_int :: "string \<Rightarrow> int option \<times> string" where
  "leading_int s =
     (let v = int (read_nat (takeWhile decimal s)) in (if v \<le> max_int64 + 1 then Some v else None, drop_digits s))"

text \<open>The digits of a fraction as a number and its scale; digits that no longer fit are ignored.\<close>

fun fraction_digits :: "int \<Rightarrow> int \<Rightarrow> string \<Rightarrow> int \<times> int" where
  "fraction_digits x scale [] = (x, scale)"
| "fraction_digits x scale (c # s) =
     (if x > max_int64 div 10 \<or> x * 10 + int (digit_val c) > max_int64 + 1 then (x, scale)
      else fraction_digits (x * 10 + int (digit_val c)) (scale * 10) s)"

definition leading_fraction :: "string \<Rightarrow> (int \<times> int) \<times> string" where
  "leading_fraction s = (fraction_digits 0 1 (takeWhile decimal s), drop_digits s)"

definition unit_char :: "char \<Rightarrow> bool" where
  "unit_char c \<longleftrightarrow> c \<noteq> CHR ''.'' \<and> \<not> decimal c"

definition scaled :: "int \<Rightarrow> int \<times> int \<Rightarrow> int \<Rightarrow> int option" where
  "scaled v f u =
     (if v > (max_int64 + 1) div u then None
      else (let w = v * u + (if 0 < fst f then fst f * u div snd f else 0) in
            if w > max_int64 + 1 then None else Some w))"

definition duration_item :: "string \<Rightarrow> (int \<times> string) option" where
  "duration_item s =
     (let (v, s1) = leading_int s;
          dot = has_prefix s1 ''.'';
          (f, s2) = (if dot then leading_fraction (drop 1 s1) else ((0, 1), s1));
          pre = (length s1 \<noteq> length s); post = (dot \<and> length s2 \<noteq> length (drop 1 s1));
          u = takeWhile unit_char s2; s3 = dropWhile unit_char s2
      in if \<not> (pre \<or> post) \<or> u = [] then None
         else (case (v, map_of duration_units u) of
                 (Some n, Some w) \<Rightarrow> map_option (\<lambda>d. (d, s3)) (scaled n f w)
               | _ \<Rightarrow> None))"

lemma duration_item_shorter:
  assumes "duration_item s = Some (d, s')" shows "length s' < length s"
proof -
  obtain v s1 where v: "leading_int s = (v, s1)" by fastforce
  have s1: "length s1 \<le> length s"
    using v by (auto simp: leading_int_def drop_digits_def Let_def length_dropWhile_le)
  define dot where "dot = has_prefix s1 ''.''"
  obtain f s2 where f: "(if dot then leading_fraction (drop 1 s1) else ((0, 1), s1)) = (f, s2)" by fastforce
  have s2: "length s2 \<le> length s1"
    using f length_dropWhile_le [of decimal "drop 1 s1"]
    by (auto simp: leading_fraction_def drop_digits_def split: if_splits)
  have "takeWhile unit_char s2 \<noteq> [] \<and> s' = dropWhile unit_char s2"
    using assms by (auto simp: duration_item_def v f [unfolded dot_def] Let_def split: if_splits option.splits)
  then have "length s' < length s2"
    using arg_cong [OF takeWhile_dropWhile_id [of unit_char s2], of length] length_greater_0_conv [of "takeWhile unit_char s2"]
    by (auto simp del: takeWhile_dropWhile_id length_greater_0_conv)
  then show ?thesis using s1 s2 by simp
qed

section \<open>Sums\<close>

function duration_sum :: "int \<Rightarrow> string \<Rightarrow> int option" where
  "duration_sum d s =
     (if s = [] then Some d
      else (case duration_item s of
              None \<Rightarrow> None
            | Some (v, s') \<Rightarrow> if d + v > max_int64 + 1 then None else duration_sum (d + v) s'))"
  by pat_completeness auto

termination
  by (relation "measure (\<lambda>(d, s). length s)") (auto intro: duration_item_shorter)

declare duration_sum.simps [simp del]

definition parse_duration :: "string \<Rightarrow> int option" where
  "parse_duration orig =
     (let neg = has_prefix orig ''-''; s = (if neg \<or> has_prefix orig ''+'' then drop 1 orig else orig) in
      if s = ''0'' then Some 0
      else if s = [] then None
      else (case duration_sum 0 s of
              None \<Rightarrow> None
            | Some d \<Rightarrow> if neg then Some (- d) else if d > max_int64 then None else Some d))"

lemma duration_examples:
  "parse_duration ''1h30m'' = Some 5400000000000" "parse_duration ''1.5s'' = Some 1500000000"
  "parse_duration ''-2ms'' = Some (- 2000000)" "parse_duration ''0'' = Some 0"
  "parse_duration ''30d'' = None" "parse_duration ''5'' = None" "parse_duration '''' = None" "parse_duration ''.s'' = None"
  by code_simp+

lemma fraction_digits_pos: "0 \<le> x \<Longrightarrow> 0 < scale \<Longrightarrow> 0 \<le> fst (fraction_digits x scale s) \<and> 0 < snd (fraction_digits x scale s)"
  by (induction x scale s rule: fraction_digits.induct) auto

lemma unit_pos: "map_of duration_units u = Some w \<Longrightarrow> 0 < w"
  by (auto simp: duration_units_def split: if_splits)

lemma scaled_nonneg: "0 \<le> n \<Longrightarrow> 0 < u \<Longrightarrow> 0 \<le> fst f \<Longrightarrow> 0 < snd f \<Longrightarrow> scaled n f u = Some d \<Longrightarrow> 0 \<le> d"
  by (auto simp: scaled_def Let_def pos_imp_zdiv_nonneg_iff split: if_splits)

lemma leading_fraction_pos: "0 \<le> fst (fst (leading_fraction s)) \<and> 0 < snd (fst (leading_fraction s))"
  by (simp add: leading_fraction_def fraction_digits_pos)

lemma duration_item_nonneg:
  assumes "duration_item s = Some (d, s')" shows "0 \<le> d"
proof -
  define f where "f = (if has_prefix (drop_digits s) ''.'' then fst (leading_fraction (drop 1 (drop_digits s))) else (0, 1))"
  have f: "0 \<le> fst f" "0 < snd f" using leading_fraction_pos by (auto simp: f_def)
  obtain n u w where s: "scaled n f w = Some d" "0 \<le> n" "map_of duration_units u = Some w"
    using assms by (auto simp: duration_item_def leading_int_def Let_def case_prod_unfold f_def split: if_splits option.splits)
  show ?thesis by (rule scaled_nonneg [OF s(2) unit_pos [OF s(3)] f s(1)])
qed

lemma duration_sum_range: "duration_sum d s = Some e \<Longrightarrow> 0 \<le> d \<Longrightarrow> d \<le> max_int64 + 1 \<Longrightarrow> 0 \<le> e \<and> e \<le> max_int64 + 1"
proof (induction d s rule: duration_sum.induct)
  case (1 d s)
  show ?case
  proof (cases "s = []")
    case True
    then show ?thesis using "1.prems" by (auto simp: duration_sum.simps [of d "[]"])
  next
    case False
    then obtain v s' where v: "duration_item s = Some (v, s')" "\<not> d + v > max_int64 + 1" "duration_sum (d + v) s' = Some e"
      using "1.prems"(1) by (auto simp: duration_sum.simps [of d s] split: option.splits if_splits)
    then show ?thesis using "1.IH" [OF False v(1) refl v(2,3)] duration_item_nonneg [OF v(1)] "1.prems"(2) by simp
  qed
qed

text \<open>A duration that is read fits its 64 bits.\<close>

lemma parse_duration_range: "parse_duration s = Some d \<Longrightarrow> - max_int64 - 1 \<le> d \<and> d \<le> max_int64"
  by (auto simp: parse_duration_def Let_def max_int64_def split: if_splits option.splits
      dest!: duration_sum_range simp: max_int64_def)

section \<open>Windows\<close>

text \<open>\<open>strconv.Atoi\<close>: decimal digits after an optional sign, within 64 bits.\<close>

definition atoi :: "string \<Rightarrow> int option" where
  "atoi s =
     (let t = (if has_prefix s ''-'' \<or> has_prefix s ''+'' then drop 1 s else s) in
      if t = [] \<or> \<not> list_all decimal t then None
      else (let n = int (read_nat t); v = (if has_prefix s ''-'' then - n else n) in
            if - max_int64 - 1 \<le> v \<and> v \<le> max_int64 then Some v else None))"

definition parse_window_duration :: "string \<Rightarrow> int option" where
  "parse_window_duration orig =
     (let s = trim_space orig in
      if has_suffix s ''d''
      then (case atoi (trim_suffix s ''d'') of
              None \<Rightarrow> None
            | Some n \<Rightarrow> if n \<le> 0 then None else Some (wrap64 (wrap64 (n * 24) * 3600000000000)))
      else (case parse_duration s of None \<Rightarrow> None | Some d \<Rightarrow> if d \<le> 0 then None else Some d))"

definition parse_duration_or :: "string \<Rightarrow> int \<Rightarrow> int" where
  "parse_duration_or s dflt =
     (if s = [] then dflt
      else (case parse_duration s of None \<Rightarrow> dflt | Some d \<Rightarrow> if 0 < d then d else dflt))"

lemma parse_duration_or_pos: "0 < dflt \<Longrightarrow> 0 < parse_duration_or s dflt"
  by (auto simp: parse_duration_or_def split: option.split)

lemma parse_duration_or_max: "dflt \<le> max_int64 \<Longrightarrow> parse_duration_or s dflt \<le> max_int64"
  using parse_duration_range [of s] by (auto simp: parse_duration_or_def split: option.split)

end
