(* ===== verification/Cloud_Sources.thy ===== *)
theory Cloud_Sources
  imports Cloud_Tools Go_Number
begin

text \<open>
  The events the clouds contribute to a timeline
  (\<open>internal/core/tools/cloud/audit_source.go\<close>, \<open>trace_symptom_source.go\<close>): the audit logs of the
  configured providers as changes, and the failing and slow X-Ray traces as symptoms. The clock, the
  JSON decoders and \<open>strconv.ParseFloat\<close> are parameters; decoded records are tuples in the order of
  the fields of the code.
\<close>

section \<open>Times\<close>

definition zero_time :: gotime where
  "zero_time = 0"

text \<open>\<open>time.Unix(sec, 0)\<close>; the seconds since the Go zero time are an \<open>int64\<close>.\<close>

definition epoch_time :: "int \<Rightarrow> gotime" where
  "epoch_time sec = wrap64 (sec + 62135596800) * 1000000000"

definition hex_digit_value :: "char \<Rightarrow> nat option" where
  "hex_digit_value c =
     (let n = byte c in
      if 48 \<le> n \<and> n \<le> 57 then Some (n - 48)
      else if 97 \<le> n \<and> n \<le> 102 then Some (n - 87)
      else if 65 \<le> n \<and> n \<le> 70 then Some (n - 55)
      else None)"

fun hex_number :: "nat \<Rightarrow> string \<Rightarrow> nat option" where
  "hex_number acc [] = Some acc"
| "hex_number acc (c # cs) = (case hex_digit_value c of None \<Rightarrow> None | Some d \<Rightarrow> hex_number (16 * acc + d) cs)"

text \<open>\<open>strconv.ParseInt(s, 16, 64)\<close>.\<close>

definition parse_hex64 :: "string \<Rightarrow> int option" where
  "parse_hex64 s =
     (let neg = has_prefix s ''-'';
          digits = (if neg \<or> has_prefix s ''+'' then drop 1 s else s)
      in if digits = [] then None
         else (case hex_number 0 digits of
                 None \<Rightarrow> None
               | Some n \<Rightarrow>
                   if neg then (if 9223372036854775808 < n then None else Some (- int n))
                   else if 9223372036854775808 \<le> n then None else Some (int n)))"

definition xray_trace_start_time :: "string \<Rightarrow> gotime" where
  "xray_trace_start_time tid =
     (case split_byte (CHR ''-'') tid of
        [_, secs, _] \<Rightarrow> (case parse_hex64 secs of None \<Rightarrow> zero_time | Some n \<Rightarrow> epoch_time n)
      | _ \<Rightarrow> zero_time)"

definition parse_epoch :: "(string \<Rightarrow> string option) \<Rightarrow> (string \<Rightarrow> gotime option) \<Rightarrow> (string \<Rightarrow> real option) \<Rightarrow> string \<Rightarrow> gotime" where
  "parse_epoch unquote rfc float raw =
     (let s = trim_space raw in
      if s = [] \<or> s = ''null'' then zero_time
      else if has_prefix s [CHR 0x22]
      then (case unquote raw of
              None \<Rightarrow> zero_time
            | Some str \<Rightarrow> (case rfc str of None \<Rightarrow> zero_time | Some t \<Rightarrow> t))
      else (case float s of
              None \<Rightarrow> zero_time
            | Some f \<Rightarrow>
                (let sec = trunc f; nsec = trunc ((f - real_of_int sec) * 1000000000)
                 in epoch_time sec + nsec)))"

definition gcp_freshness :: "int \<Rightarrow> string" where
  "gcp_freshness d =
     (let secs = (if 0 \<le> d then d div 1000000000 else - (- d div 1000000000)) in
      show_int (if secs < 1 then 1 else secs) @ ''s'')"

section \<open>Sources\<close>

record source_world =
  sw_cloud :: cloud_world
  sw_clock :: gotime
  sw_unquote :: "string \<Rightarrow> string option"
  sw_trail :: "string \<Rightarrow> (string \<times> string \<times> string) list option"
  sw_entries :: "string \<Rightarrow> (string \<times> string \<times> string) list option"
  sw_activity :: "string \<Rightarrow> (string \<times> string \<times> string \<times> string \<times> string) list option"
  sw_traces :: "string \<Rightarrow> (string \<times> real \<times> bool \<times> bool \<times> bool) list option"

text \<open>Run one command and convert its decoded output; errors are passed on as they are.\<close>

definition query_events ::
    "cloud_env \<Rightarrow> string \<Rightarrow> (pick_error + string list) \<Rightarrow> (string \<Rightarrow> 'p option) \<Rightarrow> ('p \<Rightarrow> change_event list)
     \<Rightarrow> command list \<Rightarrow> (cloud_error + change_event list) \<times> command list" where
  "query_events C bin cmd dec conv hist =
     (case cmd of
        Inl e \<Rightarrow> (Inl (CloudPick e), hist)
      | Inr argv \<Rightarrow>
          (case cloud_exec (cn_run C) bin argv hist of
             (Inl e, hist') \<Rightarrow> (Inl e, hist')
           | (Inr body, hist') \<Rightarrow>
               (case dec body of
                  None \<Rightarrow> (Inl (CloudDecode ''decode''), hist')
                | Some p \<Rightarrow> (Inr (conv p), hist'))))"

definition by_caller :: "string \<Rightarrow> string \<Rightarrow> string" where
  "by_caller what who = (if who = [] then what else what @ '' by '' @ who)"

definition audit_event :: "string \<Rightarrow> string \<Rightarrow> gotime \<Rightarrow> string \<Rightarrow> change_event" where
  "audit_event provider workload t summary =
     \<lparr>cv_time = t, cv_kind = ''cloud_audit'', cv_target = workload, cv_summary = summary, cv_before = [], cv_after = [],
      cv_source = ''cloud_audit_'' @ provider\<rparr>"

definition rfc_or_zero :: "cloud_env \<Rightarrow> string \<Rightarrow> gotime" where
  "rfc_or_zero C s = (case cn_time C s of None \<Rightarrow> zero_time | Some t \<Rightarrow> t)"

definition audit_max_events :: int where
  "audit_max_events = 50"

section \<open>Audit logs as changes\<close>

definition cloud_trail_argv :: "source_world \<Rightarrow> aws_account \<Rightarrow> string \<Rightarrow> gotime \<Rightarrow> gotime \<Rightarrow> string list" where
  "cloud_trail_argv S a workload start end_t =
     [''cloudtrail'', ''lookup-events''] @ aws_base a @
     [''--lookup-attributes'', ''AttributeKey=ResourceName,AttributeValue='' @ workload,
      ''--start-time'', cn_rfc (cw_env (sw_cloud S)) start, ''--end-time'', cn_rfc (cw_env (sw_cloud S)) end_t,
      ''--max-results'', show_int audit_max_events]"

definition aws_cloud_trail ::
    "source_world \<Rightarrow> cloud_clients \<Rightarrow> string \<Rightarrow> gotime \<Rightarrow> gotime \<Rightarrow> command list \<Rightarrow> (cloud_error + change_event list) \<times> command list" where
  "aws_cloud_trail S cl workload start end_t =
     (let C = cw_env (sw_cloud S) in
      query_events C ''aws''
        (case pick_default_endpoint (cc_aws cl) ''change'' ''aws account'' of
           Inl e \<Rightarrow> Inl e | Inr (_, a) \<Rightarrow> Inr (cloud_trail_argv S a workload start end_t))
        (sw_trail S)
        (map (\<lambda>(name, user, when_t).
           audit_event ''aws'' workload (parse_epoch (sw_unquote S) (cn_time C) (cw_float (sw_cloud S)) when_t) (by_caller name user))))"

definition gcp_audit_argv :: "source_world \<Rightarrow> gcp_project \<Rightarrow> string \<Rightarrow> int \<Rightarrow> string list" where
  "gcp_audit_argv S p workload window =
     [''logging'', ''read''] @ gcp_base p @
     [''--limit'', show_int audit_max_events, ''--freshness'', gcp_freshness window,
      ''logName:'' @ [CHR 0x22] @ ''cloudaudit.googleapis.com'' @ [CHR 0x22] @ '' AND protoPayload.resourceName:'' @
        fmt_q (cn_fmt (cw_env (sw_cloud S))) workload]"

definition gcp_audit_logs ::
    "source_world \<Rightarrow> cloud_clients \<Rightarrow> string \<Rightarrow> int \<Rightarrow> command list \<Rightarrow> (cloud_error + change_event list) \<times> command list" where
  "gcp_audit_logs S cl workload window =
     (let C = cw_env (sw_cloud S) in
      query_events C ''gcloud''
        (case pick_default_endpoint (cc_gcp cl) ''change'' ''gcp project'' of
           Inl e \<Rightarrow> Inl e | Inr (_, p) \<Rightarrow> Inr (gcp_audit_argv S p workload window))
        (sw_entries S)
        (map (\<lambda>(when_t, meth, email). audit_event ''gcp'' workload (rfc_or_zero C when_t) (by_caller meth email))))"

definition azure_activity_argv :: "source_world \<Rightarrow> azure_account \<Rightarrow> gotime \<Rightarrow> gotime \<Rightarrow> string list" where
  "azure_activity_argv S a start end_t =
     [''monitor'', ''activity-log'', ''list''] @ azure_base a @
     [''--start-time'', cn_rfc (cw_env (sw_cloud S)) start, ''--end-time'', cn_rfc (cw_env (sw_cloud S)) end_t,
      ''--max-events'', show_int audit_max_events]"

definition activity_event :: "cloud_env \<Rightarrow> string \<Rightarrow> string \<times> string \<times> string \<times> string \<times> string \<Rightarrow> change_event option" where
  "activity_event C workload e =
     (case e of (when_t, resource, caller, localized, val) \<Rightarrow>
        let what = (if localized = [] then val else localized) in
        if \<not> contains resource workload \<and> \<not> contains what workload then None
        else Some (audit_event ''azure'' workload (rfc_or_zero C when_t) (by_caller what caller)))"

definition azure_activity_log ::
    "source_world \<Rightarrow> cloud_clients \<Rightarrow> string \<Rightarrow> gotime \<Rightarrow> gotime \<Rightarrow> command list \<Rightarrow> (cloud_error + change_event list) \<times> command list" where
  "azure_activity_log S cl workload start end_t =
     (let C = cw_env (sw_cloud S) in
      query_events C ''az''
        (case pick_default_endpoint (cc_azure cl) ''change'' ''azure account'' of
           Inl e \<Rightarrow> Inl e | Inr (_, a) \<Rightarrow> Inr (azure_activity_argv S a start end_t))
        (sw_activity S)
        (List.map_filter (activity_event C workload)))"

definition new_audit_source :: "cloud_clients \<Rightarrow> cloud_clients option" where
  "new_audit_source cl = (if clients_empty cl then None else Some cl)"

text \<open>A provider that is not configured is not asked; each one asked leaves a group or a failure.\<close>

definition ask_provider ::
    "source_world \<Rightarrow> string \<Rightarrow> bool \<Rightarrow> (command list \<Rightarrow> (cloud_error + change_event list) \<times> command list)
     \<Rightarrow> change_event list list \<times> string list \<times> command list \<Rightarrow> change_event list list \<times> string list \<times> command list" where
  "ask_provider S label configured query acc =
     (case acc of (groups, failures, hist) \<Rightarrow>
        if \<not> configured then acc
        else (case query hist of
                (Inl e, hist') \<Rightarrow> (groups, failures @ [label @ '': '' @ cw_error (sw_cloud S) e], hist')
              | (Inr es, hist') \<Rightarrow> (groups @ [es], failures, hist')))"

definition audit_day_ns :: int where "audit_day_ns = 86400000000000"

definition audit_groups ::
    "source_world \<Rightarrow> cloud_clients \<Rightarrow> change_query \<Rightarrow> command list \<Rightarrow> change_event list list \<times> string list \<times> command list" where
  "audit_groups S cl q hist =
     (let end_t = sw_clock S;
          window = (if cq_since q \<le> 0 then audit_day_ns else cq_since q);
          start = end_t - window;
          w = cq_workload q
      in ask_provider S ''azure'' (cc_azure cl \<noteq> []) (azure_activity_log S cl w start end_t)
           (ask_provider S ''gcp'' (cc_gcp cl \<noteq> []) (gcp_audit_logs S cl w window)
             (ask_provider S ''aws'' (cc_aws cl \<noteq> []) (aws_cloud_trail S cl w start end_t) ([], [], hist))))"

definition audit_changes ::
    "source_world \<Rightarrow> cloud_clients \<Rightarrow> change_query \<Rightarrow> command list \<Rightarrow> (go_err + change_event list) \<times> command list" where
  "audit_changes S cl q hist =
     (case safe_arg ''workload'' (cq_workload q) of
        Some e \<Rightarrow> (Inl (ErrOther (cw_error (sw_cloud S) e)), hist)
      | None \<Rightarrow>
          (case audit_groups S cl q hist of (groups, failures, hist') \<Rightarrow>
             let merged = merge_sorted 0 groups in
             (if merged = [] \<and> failures \<noteq> [] then Inl (ErrOther (join failures ''; '')) else Inr merged, hist')))"

section \<open>Traces as symptoms\<close>

definition slow_threshold :: real where
  "slow_threshold = 1"

record trace_scan =
  ts_errors :: nat
  ts_error :: "(gotime \<times> xray_summary) option"
  ts_slow :: "(gotime \<times> xray_summary) option"

definition trace_failed :: "xray_summary \<Rightarrow> bool" where
  "trace_failed t \<longleftrightarrow> xs_error t \<or> xs_fault t \<or> xs_throttle t"

definition earlier :: "(gotime \<times> 'a) option \<Rightarrow> gotime \<Rightarrow> 'a \<Rightarrow> (gotime \<times> 'a) option" where
  "earlier best t x = (case best of None \<Rightarrow> Some (t, x) | Some (b, _) \<Rightarrow> if t < b then Some (t, x) else best)"

definition scan_trace :: "trace_scan \<Rightarrow> xray_summary \<Rightarrow> trace_scan" where
  "scan_trace st t =
     (let when_t = xray_trace_start_time (xs_id t) in
      if when_t = zero_time then st
      else if trace_failed t
      then st\<lparr>ts_errors := Suc (ts_errors st), ts_error := earlier (ts_error st) when_t t\<rparr>
      else if slow_threshold < xs_duration t then st\<lparr>ts_slow := earlier (ts_slow st) when_t t\<rparr>
      else st)"

definition millis :: "real \<Rightarrow> string" where
  "millis d = show_int (trunc (d * 1000))"

definition error_symptom :: "string \<Rightarrow> nat \<Rightarrow> gotime \<times> xray_summary \<Rightarrow> change_event" where
  "error_symptom workload n e =
     \<lparr>cv_time = fst e, cv_kind = ''trace_error'', cv_target = workload,
      cv_summary = ''X-Ray trace '' @ xs_id (snd e) @ '' '' @ xray_flags (xs_error (snd e)) (xs_fault (snd e)) (xs_throttle (snd e)) @
        '' ('' @ millis (xs_duration (snd e)) @ ''ms); '' @ show_nat n @ '' failing trace(s) in window'',
      cv_before = [], cv_after = [], cv_source = ''cloud_trace''\<rparr>"

definition slow_symptom :: "string \<Rightarrow> gotime \<times> xray_summary \<Rightarrow> change_event" where
  "slow_symptom workload e =
     \<lparr>cv_time = fst e, cv_kind = ''trace_slow'', cv_target = workload,
      cv_summary = ''X-Ray trace '' @ xs_id (snd e) @ '' slow ('' @ millis (xs_duration (snd e)) @ ''ms > 1000ms threshold)'',
      cv_before = [], cv_after = [], cv_source = ''cloud_trace''\<rparr>"

definition scan_traces :: "xray_summary list \<Rightarrow> trace_scan" where
  "scan_traces ts = foldl scan_trace \<lparr>ts_errors = 0, ts_error = None, ts_slow = None\<rparr> ts"

definition trace_symptoms :: "xray_summary list \<Rightarrow> string \<Rightarrow> change_event list" where
  "trace_symptoms ts workload =
     (let st = scan_traces ts in
      (case ts_error st of None \<Rightarrow> [] | Some e \<Rightarrow> [error_symptom workload (ts_errors st) e]) @
      (case ts_slow st of None \<Rightarrow> [] | Some e \<Rightarrow> [slow_symptom workload e]))"

definition new_trace_source :: "cloud_clients \<Rightarrow> cloud_clients option" where
  "new_trace_source cl = (if cc_aws cl = [] then None else Some cl)"

definition hour_ns :: int where "hour_ns = 3600000000000"

definition trace_argv :: "source_world \<Rightarrow> aws_account \<Rightarrow> change_query \<Rightarrow> string list" where
  "trace_argv S a q =
     (let end_t = sw_clock S; start = end_t - (if cq_since q \<le> 0 then hour_ns else cq_since q) in
      [''xray'', ''get-trace-summaries''] @ aws_base a @
      [''--start-time'', show_int (unix_seconds start), ''--end-time'', show_int (unix_seconds end_t),
       ''--filter-expression'', ''service('' @ fmt_q (cn_fmt (cw_env (sw_cloud S))) (cq_workload q) @ '')''])"

definition xray_of :: "string \<times> real \<times> bool \<times> bool \<times> bool \<Rightarrow> xray_summary" where
  "xray_of t =
     (case t of (tid, d, e, f, h) \<Rightarrow>
        \<lparr>xs_id = tid, xs_duration = d, xs_response = 0, xs_error = e, xs_fault = f, xs_throttle = h, xs_status = 0, xs_url = []\<rparr>)"

definition trace_changes ::
    "source_world \<Rightarrow> cloud_clients \<Rightarrow> change_query \<Rightarrow> command list \<Rightarrow> (cloud_error + change_event list) \<times> command list" where
  "trace_changes S cl q hist =
     (if cc_aws cl = [] then (Inr [], hist)
      else case safe_arg ''workload'' (cq_workload q) of
        Some e \<Rightarrow> (Inl e, hist)
      | None \<Rightarrow>
          query_events (cw_env (sw_cloud S)) ''aws''
            (case pick_default_endpoint (cc_aws cl) ''correlate'' ''aws account'' of
               Inl e \<Rightarrow> Inl e | Inr (_, a) \<Rightarrow> Inr (trace_argv S a q))
            (sw_traces S)
            (\<lambda>ts. trace_symptoms (map xray_of ts) (cq_workload q)) hist)"

end
