(* ===== verification/Cloud_Source_Facts.thy ===== *)
theory Cloud_Source_Facts
  imports Cloud_Facts Cloud_Sources Correlate_Facts
begin

text \<open>
  What the cloud sources of a timeline run and answer: only listed commands, failures kept apart from
  groups, and symptoms at the earliest traces that can be placed in time.
\<close>

section \<open>Commands\<close>

definition grows :: "(command \<Rightarrow> bool) \<Rightarrow> command list \<Rightarrow> command list \<Rightarrow> bool" where
  "grows P hist hist' \<longleftrightarrow> (\<exists>cmds. hist' = hist @ cmds \<and> (\<forall>c \<in> set cmds. P c))"

lemma grows_refl [simp]: "grows P hist hist"
  by (simp add: grows_def)

lemma grows_trans: "grows P a b \<Longrightarrow> grows P b c \<Longrightarrow> grows P a c"
  by (fastforce simp: grows_def)

lemma follows_grows: "follows P hist r \<Longrightarrow> grows P hist (snd r)"
  by (simp add: follows_def grows_def)

context command_policy
begin

lemma query_events_grows:
  assumes "\<And>argv. cmd = Inr argv \<Longrightarrow> P (bin, argv)"
  shows "grows P hist (snd (query_events C bin cmd dec conv hist))"
proof (cases cmd)
  case (Inr argv)
  then have "grows P hist (snd (cloud_exec (cn_run C) bin argv hist))"
    using follows_grows [OF exec_follows [of bin argv hist "cn_run C"]] assms by simp
  then show ?thesis using Inr by (auto simp: query_events_def split: sum.split prod.split option.split)
qed (simp add: query_events_def)

lemma ask_provider_grows:
  assumes "\<And>h. grows P h (snd (query h))"
  shows "grows P (snd (snd acc)) (snd (snd (ask_provider S label b query acc)))"
proof -
  obtain gs fs h where acc: "acc = (gs, fs, h)" by (cases acc) auto
  show ?thesis using assms [of h] by (auto simp: acc ask_provider_def split: sum.split prod.split)
qed

end

lemma source_argvs:
  "is_read_only (''aws'', cloud_trail_argv S a w s e)" "is_read_only (''gcloud'', gcp_audit_argv S p w d)"
  "is_read_only (''az'', azure_activity_argv S z s e)" "is_read_only (''aws'', trace_argv S a q)"
  by (simp_all add: is_read_only_def cloud_trail_argv_def gcp_audit_argv_def azure_activity_argv_def trace_argv_def Let_def
      read_only_commands_def)

lemma source_queries_grow:
  "grows is_read_only hist (snd (aws_cloud_trail S cl w s e hist))"
  "grows is_read_only hist (snd (gcp_audit_logs S cl w d hist))"
  "grows is_read_only hist (snd (azure_activity_log S cl w s e hist))"
  unfolding aws_cloud_trail_def gcp_audit_logs_def azure_activity_log_def Let_def
  by (rule listed.query_events_grows; auto simp: source_argvs split: sum.splits)+

lemma audit_groups_grow: "grows is_read_only hist (snd (snd (audit_groups S cl q hist)))"
proof -
  note ask = listed.ask_provider_grows
  show ?thesis
    unfolding audit_groups_def Let_def
    by (rule grows_trans [OF _ ask], rule grows_trans [OF _ ask], rule grows_trans [OF _ ask])
      (simp_all add: source_queries_grow)
qed

lemma audit_changes_grow: "grows is_read_only hist (snd (audit_changes S cl q hist))"
  using audit_groups_grow [of hist S cl q]
  by (auto simp: audit_changes_def Let_def split: option.split prod.split)

lemma trace_changes_grow: "grows is_read_only hist (snd (trace_changes S cl q hist))"
  unfolding trace_changes_def
  by (auto intro: listed.query_events_grows simp: source_argvs split: option.split sum.splits)

section \<open>Failures and groups\<close>

text \<open>Every provider asked leaves exactly one of the two.\<close>

definition provider_count :: "cloud_clients \<Rightarrow> nat" where
  "provider_count cl = length (filter (\<lambda>b. b) [cc_aws cl \<noteq> [], cc_gcp cl \<noteq> [], cc_azure cl \<noteq> []])"

lemma ask_provider_counts:
  "ask_provider S label b query (gs, fs, h) = (gs', fs', h') \<Longrightarrow>
     length gs' + length fs' = length gs + length fs + (if b then 1 else 0)"
  by (auto simp: ask_provider_def split: if_splits sum.splits prod.splits)

lemma audit_groups_count:
  assumes "audit_groups S cl q hist = (gs, fs, h)"
  shows "length gs + length fs = provider_count cl"
proof -
  let ?w = "if cq_since q \<le> 0 then audit_day_ns else cq_since q"
  let ?a = "ask_provider S ''aws'' (cc_aws cl \<noteq> []) (aws_cloud_trail S cl (cq_workload q) (sw_clock S - ?w) (sw_clock S)) ([], [], hist)"
  let ?g = "ask_provider S ''gcp'' (cc_gcp cl \<noteq> []) (gcp_audit_logs S cl (cq_workload q) ?w) ?a"
  obtain ga fa ha where a: "?a = (ga, fa, ha)" by (cases ?a) auto
  obtain gg fg hg where g: "?g = (gg, fg, hg)" by (cases ?g) auto
  have "length gs + length fs = length gg + length fg + (if cc_azure cl \<noteq> [] then 1 else 0)"
    using assms unfolding audit_groups_def Let_def g by (rule ask_provider_counts)
  moreover have "length gg + length fg = length ga + length fa + (if cc_gcp cl \<noteq> [] then 1 else 0)"
    using g unfolding a by (rule ask_provider_counts)
  moreover have "length ga + length fa = (if cc_aws cl \<noteq> [] then 1 else 0)"
    using ask_provider_counts [OF a] by simp
  ultimately show ?thesis by (simp add: provider_count_def)
qed

section \<open>Symptoms\<close>

definition located :: "xray_summary list \<Rightarrow> xray_summary list" where
  "located ts = filter (\<lambda>t. xray_trace_start_time (xs_id t) \<noteq> zero_time) ts"

definition trace_slow :: "xray_summary \<Rightarrow> bool" where
  "trace_slow t \<longleftrightarrow> \<not> trace_failed t \<and> slow_threshold < xs_duration t"

text \<open>The best of a class after a scan: none was seen, or the earliest one.\<close>

definition best_of :: "(xray_summary \<Rightarrow> bool) \<Rightarrow> xray_summary list \<Rightarrow> (gotime \<times> xray_summary) option \<Rightarrow> bool" where
  "best_of P ts b \<longleftrightarrow>
     (case b of
        None \<Rightarrow> \<forall>t \<in> set (located ts). \<not> P t
      | Some (m, x) \<Rightarrow> x \<in> set (located ts) \<and> P x \<and> m = xray_trace_start_time (xs_id x) \<and>
          (\<forall>t \<in> set (located ts). P t \<longrightarrow> m \<le> xray_trace_start_time (xs_id t)))"

lemma located_snoc:
  "located (ts @ [t]) = located ts @ (if xray_trace_start_time (xs_id t) = zero_time then [] else [t])"
  by (simp add: located_def)

lemma best_of_skip:
  "best_of P ts b \<Longrightarrow> xray_trace_start_time (xs_id t) = zero_time \<or> \<not> P t \<Longrightarrow> best_of P (ts @ [t]) b"
  by (auto simp: best_of_def located_snoc split: option.splits)

lemma best_of_take:
  "best_of P ts b \<Longrightarrow> xray_trace_start_time (xs_id t) \<noteq> zero_time \<Longrightarrow> P t \<Longrightarrow>
     best_of P (ts @ [t]) (earlier b (xray_trace_start_time (xs_id t)) t)"
  by (auto simp: best_of_def located_snoc earlier_def split: option.splits if_splits)

lemma scan_traces_best:
  "best_of trace_failed ts (ts_error (scan_traces ts)) \<and> best_of trace_slow ts (ts_slow (scan_traces ts)) \<and>
     ts_errors (scan_traces ts) = length (filter trace_failed (located ts))"
proof (induction ts rule: rev_induct)
  case Nil
  show ?case by (simp add: scan_traces_def best_of_def located_def)
next
  case (snoc t ts)
  have step: "scan_traces (ts @ [t]) = scan_trace (scan_traces ts) t" by (simp add: scan_traces_def)
  consider "xray_trace_start_time (xs_id t) = zero_time"
    | "xray_trace_start_time (xs_id t) \<noteq> zero_time" "trace_failed t"
    | "xray_trace_start_time (xs_id t) \<noteq> zero_time" "trace_slow t"
    | "xray_trace_start_time (xs_id t) \<noteq> zero_time" "\<not> trace_failed t" "\<not> trace_slow t"
    by blast
  then show ?case
    by cases (use snoc in \<open>auto simp: step scan_trace_def Let_def best_of_skip best_of_take located_snoc trace_slow_def\<close>)
qed

lemma trace_symptoms_mem:
  "e \<in> set (trace_symptoms ts w) \<longleftrightarrow>
     (\<exists>b. ts_error (scan_traces ts) = Some b \<and> e = error_symptom w (ts_errors (scan_traces ts)) b) \<or>
     (\<exists>b. ts_slow (scan_traces ts) = Some b \<and> e = slow_symptom w b)"
  by (cases "ts_error (scan_traces ts)"; cases "ts_slow (scan_traces ts)") (auto simp: trace_symptoms_def Let_def)

lemma symptom_times [simp]:
  "cv_time (error_symptom w n b) = fst b" "cv_time (slow_symptom w b) = fst b"
  "cv_kind (error_symptom w n b) = ''trace_error''" "cv_kind (slow_symptom w b) = ''trace_slow''"
  by (simp_all add: error_symptom_def slow_symptom_def)

lemma best_of_time:
  "best_of P ts (Some b) \<Longrightarrow> fst b \<noteq> zero_time \<and> (\<exists>t \<in> set (located ts). P t \<and> fst b = xray_trace_start_time (xs_id t))"
  by (cases b) (auto simp: best_of_def located_def)

lemma best_of_covers:
  "best_of P ts b \<Longrightarrow> t \<in> set (located ts) \<Longrightarrow> P t \<Longrightarrow> \<exists>x. b = Some x \<and> fst x \<le> xray_trace_start_time (xs_id t)"
  by (cases b) (auto simp: best_of_def)

text \<open>A symptom stands at the earliest trace of its class, and one exists whenever the class is not empty.\<close>

lemma trace_symptom_times:
  assumes "e \<in> set (trace_symptoms ts w)"
  shows "cv_time e \<noteq> zero_time" "cv_kind e \<in> set symptom_kinds"
    "\<exists>t \<in> set (located ts). (trace_failed t \<or> trace_slow t) \<and> cv_time e = xray_trace_start_time (xs_id t)"
proof -
  have "cv_time e \<noteq> zero_time \<and> cv_kind e \<in> set symptom_kinds \<and>
      (\<exists>t \<in> set (located ts). (trace_failed t \<or> trace_slow t) \<and> cv_time e = xray_trace_start_time (xs_id t))"
    using assms unfolding trace_symptoms_mem
  proof (elim disjE exE conjE)
    fix b assume b: "ts_error (scan_traces ts) = Some b" "e = error_symptom w (ts_errors (scan_traces ts)) b"
    then have "best_of trace_failed ts (Some b)" using scan_traces_best [of ts] by simp
    from best_of_time [OF this] show ?thesis using b by (auto simp: symptom_kinds_def)
  next
    fix b assume b: "ts_slow (scan_traces ts) = Some b" "e = slow_symptom w b"
    then have "best_of trace_slow ts (Some b)" using scan_traces_best [of ts] by simp
    from best_of_time [OF this] show ?thesis using b by (auto simp: symptom_kinds_def)
  qed
  then show "cv_time e \<noteq> zero_time" "cv_kind e \<in> set symptom_kinds"
    "\<exists>t \<in> set (located ts). (trace_failed t \<or> trace_slow t) \<and> cv_time e = xray_trace_start_time (xs_id t)"
    by blast+
qed

lemma trace_symptom_covers:
  assumes "t \<in> set (located ts)" "trace_failed t \<or> trace_slow t"
  shows "\<exists>e \<in> set (trace_symptoms ts w). cv_time e \<le> xray_trace_start_time (xs_id t)"
  using assms(2)
proof
  assume "trace_failed t"
  then obtain b where "ts_error (scan_traces ts) = Some b" "fst b \<le> xray_trace_start_time (xs_id t)"
    using best_of_covers [of trace_failed ts] scan_traces_best [of ts] assms(1) by blast
  then show ?thesis by (intro bexI [of _ "error_symptom w (ts_errors (scan_traces ts)) b"]) (auto simp: trace_symptoms_mem)
next
  assume "trace_slow t"
  then obtain b where "ts_slow (scan_traces ts) = Some b" "fst b \<le> xray_trace_start_time (xs_id t)"
    using best_of_covers [of trace_slow ts] scan_traces_best [of ts] assms(1) by blast
  then show ?thesis by (intro bexI [of _ "slow_symptom w b"]) (auto simp: trace_symptoms_mem)
qed

text \<open>So the anchor of a timeline made of audit changes and these symptoms is the earliest failing or
  slow trace.\<close>

lemma anchor_is_earliest_trace:
  assumes "\<And>e. e \<in> set audits \<Longrightarrow> cv_kind e = ''cloud_audit''"
    and "earliest_symptom (merge_sorted 0 [audits, trace_symptoms ts w]) = Some s"
  shows "cv_time s \<noteq> zero_time"
    "\<exists>t \<in> set (located ts). (trace_failed t \<or> trace_slow t) \<and> cv_time s = xray_trace_start_time (xs_id t)"
    "t \<in> set (located ts) \<Longrightarrow> trace_failed t \<or> trace_slow t \<Longrightarrow> cv_time s \<le> xray_trace_start_time (xs_id t)"
proof -
  let ?es = "merge_sorted 0 [audits, trace_symptoms ts w]"
  have es: "set ?es = set audits \<union> set (trace_symptoms ts w)" by (simp add: merge_sorted_def)
  have "s \<in> set (trace_symptoms ts w)"
    using earliest_symptom_Some(1,2) [OF assms(2)] assms(1) [of s] es by (auto simp: symptom_kinds_def)
  then show "cv_time s \<noteq> zero_time"
    "\<exists>t \<in> set (located ts). (trace_failed t \<or> trace_slow t) \<and> cv_time s = xray_trace_start_time (xs_id t)"
    by (rule trace_symptom_times)+
  show "cv_time s \<le> xray_trace_start_time (xs_id t)" if "t \<in> set (located ts)" "trace_failed t \<or> trace_slow t"
  proof -
    have "\<exists>e \<in> set (trace_symptoms ts w). cv_time e \<le> xray_trace_start_time (xs_id t)"
      by (rule trace_symptom_covers) (use that in auto)
    then obtain e where e: "e \<in> set (trace_symptoms ts w)" "cv_time e \<le> xray_trace_start_time (xs_id t)"
      by blast
    then have "cv_time s \<le> cv_time e"
      using earliest_symptom_Some(3) [OF assms(2), of e] es trace_symptom_times(2) [of e] by simp
    then show ?thesis using e(2) by simp
  qed
qed

section \<open>Audit changes are audit changes\<close>

definition all_audit :: "change_event list \<Rightarrow> bool" where
  "all_audit es \<longleftrightarrow> list_all (\<lambda>e. cv_kind e = ''cloud_audit'') es"

lemma query_events_Inr:
  "fst (query_events C bin cmd dec conv hist) = Inr es \<Longrightarrow> \<exists>p. es = conv p"
  by (auto simp: query_events_def split: sum.splits prod.splits option.splits)

lemma audit_kind [simp]: "cv_kind (audit_event p w t s) = ''cloud_audit''"
  by (simp add: audit_event_def)

lemma source_kinds:
  "fst (aws_cloud_trail S cl w s e hist) = Inr es \<Longrightarrow> all_audit es"
  "fst (gcp_audit_logs S cl w d hist) = Inr es \<Longrightarrow> all_audit es"
  "fst (azure_activity_log S cl w s e hist) = Inr es \<Longrightarrow> all_audit es"
  unfolding aws_cloud_trail_def gcp_audit_logs_def azure_activity_log_def Let_def
  by (drule query_events_Inr;
      auto simp: all_audit_def list_all_iff activity_event_def in_set_map_filter Let_def split: if_splits)+

lemma ask_provider_kinds:
  assumes "ask_provider S label b query (gs, fs, h) = (gs', fs', h')"
    and "\<And>es. fst (query h) = Inr es \<Longrightarrow> all_audit es" "list_all all_audit gs"
  shows "list_all all_audit gs'"
  using assms by (fastforce simp: ask_provider_def split: if_splits sum.splits prod.splits)

lemma audit_groups_kinds:
  assumes "audit_groups S cl q hist = (gs, fs, h)"
  shows "list_all all_audit gs"
proof -
  let ?w = "if cq_since q \<le> 0 then audit_day_ns else cq_since q"
  let ?a = "ask_provider S ''aws'' (cc_aws cl \<noteq> []) (aws_cloud_trail S cl (cq_workload q) (sw_clock S - ?w) (sw_clock S)) ([], [], hist)"
  let ?g = "ask_provider S ''gcp'' (cc_gcp cl \<noteq> []) (gcp_audit_logs S cl (cq_workload q) ?w) ?a"
  obtain ga fa ha where a: "?a = (ga, fa, ha)" by (cases ?a) auto
  obtain gg fg hg where g: "?g = (gg, fg, hg)" by (cases ?g) auto
  have "list_all all_audit ga" by (rule ask_provider_kinds [OF a]) (simp_all add: source_kinds)
  then have "list_all all_audit gg" using ask_provider_kinds [OF g [unfolded a]] source_kinds(2) by blast
  then show ?thesis
    using ask_provider_kinds [OF assms [unfolded audit_groups_def Let_def g]] source_kinds(3) by blast
qed

lemma audit_changes_kinds:
  assumes "fst (audit_changes S cl q hist) = Inr es" "e \<in> set es"
  shows "cv_kind e = ''cloud_audit''"
proof -
  obtain gs fs h where g: "audit_groups S cl q hist = (gs, fs, h)" by (cases "audit_groups S cl q hist") auto
  have "e \<in> set (concat gs)"
    using assms g merge_sorted_mem [of 0 gs]
    by (auto simp: audit_changes_def Let_def split: option.splits if_splits)
  then show ?thesis using audit_groups_kinds [OF g] by (auto simp: all_audit_def list_all_iff)
qed

end
