(* ===== verification/Diagnosis_Properties.thy ===== *)
theory Diagnosis_Properties
  imports Correlate_Facts Cloud_Source_Facts
begin

text \<open>
  The properties of the diagnostic tools: the ranking of the causes of a symptom, and the commands of
  the cloud tools.
\<close>

text \<open>C18. For the earliest symptom of a timeline the ranked causes are known state-altering changes of the
  timeline that happened strictly before every symptom of it, each with a positive score, ordered by
  score and then newest first, no two of them duplicates of each other, and every such change is ranked
  itself or as the duplicate of a ranked one.\<close>

theorem causes_precede_symptom:
  assumes "earliest_symptom es = Some s"
  shows "(\<forall>c \<in> set (score_causes u es w (Some s)). fst c \<in> set es \<and> cv_kind (fst c) \<in> fst ` set change_kinds \<and> 0 < snd c \<and>
       (\<forall>e \<in> set es. cv_kind e \<in> set symptom_kinds \<longrightarrow> cv_time (fst c) < cv_time e)) \<and>
     sorted_wrt (\<lambda>a b. snd b < snd a \<or> snd a = snd b \<and> cv_time (fst b) \<le> cv_time (fst a)) (score_causes u es w (Some s)) \<and>
     distinct (map (\<lambda>c. cause_key (fst c)) (score_causes u es w (Some s))) \<and>
     (\<forall>e \<in> set es. cv_kind e \<in> fst ` set change_kinds \<and> cv_time e < cv_time s \<longrightarrow>
       cause_key e \<in> (\<lambda>c. cause_key (fst c)) ` set (score_causes u es w (Some s)))"
proof -
  have k: "cause_weight x \<noteq> None \<longleftrightarrow> x \<in> fst ` set change_kinds" for x
    by (simp add: cause_weight_def map_of_eq_None_iff)
  have may: "may_cause (Some s) e \<longleftrightarrow> cv_kind e \<in> fst ` set change_kinds \<and> cv_time e < cv_time s" for e
    unfolding may_cause_def k by (simp add: after_anchor_def)
  note mem = cause_loop_mem [of _ u w "Some s" s "[]" es, folded score_causes_set]
  have one: "fst c \<in> set es \<and> cv_kind (fst c) \<in> fst ` set change_kinds \<and> 0 < snd c \<and>
       (\<forall>e \<in> set es. cv_kind e \<in> set symptom_kinds \<longrightarrow> cv_time (fst c) < cv_time e)"
    if "c \<in> set (score_causes u es w (Some s))" for c
    using mem [OF that] earliest_symptom_Some(3) [OF assms] cause_score_pos [of "Some s" "fst c" u w s]
    unfolding may by fastforce
  have all: "cause_key e \<in> (\<lambda>c. cause_key (fst c)) ` set (score_causes u es w (Some s))"
    if "e \<in> set es" "cv_kind e \<in> fst ` set change_kinds \<and> cv_time e < cv_time s" for e
    using cause_loop_cover [OF that(1), of "Some s" "[]" u w s] that(2) unfolding may score_causes_set by force
  have r: "ranks_before = (\<lambda>a b. snd b < snd a \<or> snd a = snd b \<and> cv_time (fst b) \<le> cv_time (fst a))"
    by (simp add: fun_eq_iff ranks_before_def)
  show ?thesis
    using one all score_causes_sorted [of u es w "Some s", unfolded r] score_causes_distinct [of u es w s, unfolded comp_def]
    by blast
qed

theorem causes_precede_symptom_witness:
  "let ev = (\<lambda>t k. \<lparr>cv_time = t, cv_kind = k, cv_target = ''deploy/checkout'', cv_summary = [], cv_before = [], cv_after = [], cv_source = ''k8s''\<rparr>)
   in fst ` set (score_causes ascii_unicode [ev 90 ''image'', ev 60 ''log_error'', ev 50 ''event'', ev 40 ''rollout''] ''checkout'' (Some (ev 60 ''log_error'')))
     = {ev 40 ''rollout''}"
proof -
  let ?ev = "\<lambda>t k. \<lparr>cv_time = t, cv_kind = k, cv_target = ''deploy/checkout'', cv_summary = [], cv_before = [], cv_after = [], cv_source = ''k8s''\<rparr>"
  let ?es = "[?ev 90 ''image'', ?ev 60 ''log_error'', ?ev 50 ''event'', ?ev 40 ''rollout'']"
  let ?r = "score_causes ascii_unicode ?es ''checkout'' (Some (?ev 60 ''log_error''))"
  have e: "earliest_symptom ?es = Some (?ev 60 ''log_error'')"
    by (simp add: earliest_symptom_def symptom_kinds_def)
  note p = causes_precede_symptom [OF e, of ascii_unicode "''checkout''"]
  have "fst c = ?ev 40 ''rollout''" if "c \<in> set ?r" for c
    using p that by (force simp: change_kinds_def symptom_kinds_def)
  moreover have "cause_key (?ev 40 ''rollout'') \<in> (\<lambda>c. cause_key (fst c)) ` set ?r"
    using p by (simp add: change_kinds_def)
  ultimately show ?thesis by (auto simp: Let_def)
qed

text \<open>A workload whose name holds a hyphen, a dot or another delimiter is never recognised in the target
  of a change, not even in a target that is the workload itself: the ranking is the one for no workload
  at all.\<close>

theorem hyphenated_workload_unmatched:
  assumes "c \<in> set workload" "is_target_delim (byte c)"
  shows "map fst (score_causes u es workload anchor) = map fst (score_causes u es [] anchor)"
proof -
  have "entity_match u workload target = 6 / 10" for target
    using assms by (rule entity_match_delim)
  then show ?thesis by (simp add: score_causes_scaled comp_def)
qed

theorem hyphenated_workload_unmatched_witness:
  "let ev = (\<lambda>t x. \<lparr>cv_time = t, cv_kind = ''image'', cv_target = x, cv_summary = [], cv_before = [], cv_after = [], cv_source = ''k8s''\<rparr>);
       es = [ev 90 ''deploy/payment-api'', ev 90 ''deploy/other'']
   in map fst (score_causes ascii_unicode es ''payment-api'' None) = map fst (score_causes ascii_unicode es [] None)"
  unfolding Let_def by (rule hyphenated_workload_unmatched [of "CHR ''-''"]) (simp_all add: is_target_delim_def)

text \<open>The limit of the timeline is applied before the causes are ranked: when at least as many symptoms
  as the limit are newer than every other event, the tool answers that the earliest symptom it kept
  has no preceding change in the window, whatever changes the sources reported.\<close>

theorem limit_hides_cause:
  assumes "ca_workload a \<noteq> []" "groups \<noteq> []"
    and "map (\<lambda>(n, f). f (query_of dur 3600000000000 a)) sources = map Inr groups"
    and "limit_of a \<le> int (length (filter (\<lambda>e. cv_kind e \<in> set symptom_kinds) (concat groups)))"
    and "\<And>x y. x \<in> set (concat groups) \<Longrightarrow> y \<in> set (concat groups) \<Longrightarrow> cv_kind x \<in> set symptom_kinds \<Longrightarrow>
        cv_kind y \<notin> set symptom_kinds \<Longrightarrow> cv_time y < cv_time x"
  shows "\<exists>s pre post. s \<in> set (concat groups) \<and> cv_kind s \<in> set symptom_kinds \<and>
     correlate_workload u dur F tf df a sources = Inr (pre @ no_preceding F tf s @ post)"
proof -
  have "0 < limit_of a" by (simp add: limit_of_def)
  from hidden_cause [OF this assms(4,5), of u F tf "ca_workload a"] obtain s where
    s: "s \<in> set (concat groups)" "cv_kind s \<in> set symptom_kinds"
    and c: "candidate_causes u F tf (merge_sorted (limit_of a) groups) (ca_workload a) = no_preceding F tf s"
    by blast
  have "sources \<noteq> []" using assms(2,3) by auto
  then have "correlate_workload u dur F tf df a sources =
      Inr (render_correlation u F tf df (ca_workload a) (since_or dur 3600000000000 (ca_since a))
        (merge_sorted (limit_of a) groups) [])"
    using assms(1,2) by (simp add: correlate_workload_def fan_out_def gather_all [OF assms(3)])
  then show ?thesis using s render_correlation_causes [OF c] by (metis (no_types))
qed

theorem limit_hides_cause_witness:
  "let ev = (\<lambda>t k. \<lparr>cv_time = t, cv_kind = k, cv_target = ''web'', cv_summary = [], cv_before = [], cv_after = [], cv_source = ''s''\<rparr>);
       a = \<lparr>ca_workload = ''web'', ca_namespace = [], ca_context = [], ca_since = [], ca_limit = 1\<rparr>
   in \<exists>pre post. correlate_workload ascii_unicode (\<lambda>_. None) \<lparr>fmt_q = id, fmt_usd = (\<lambda>_. [])\<rparr> show_int show_int a [(''s'', \<lambda>q. Inr [ev 9 ''log_error'', ev 5 ''image''])]
        = Inr (pre @ no_preceding \<lparr>fmt_q = id, fmt_usd = (\<lambda>_. [])\<rparr> show_int (ev 9 ''log_error'') @ post)"
proof -
  let ?ev = "\<lambda>t k. \<lparr>cv_time = t, cv_kind = k, cv_target = ''web'', cv_summary = [], cv_before = [], cv_after = [], cv_source = ''s''\<rparr>"
  let ?a = "\<lparr>ca_workload = ''web'', ca_namespace = [], ca_context = [], ca_since = [], ca_limit = 1\<rparr>"
  have "\<exists>s pre post. s \<in> set (concat [[?ev 9 ''log_error'', ?ev 5 ''image'']]) \<and> cv_kind s \<in> set symptom_kinds \<and>
      correlate_workload ascii_unicode (\<lambda>_. None) \<lparr>fmt_q = id, fmt_usd = (\<lambda>_. [])\<rparr> show_int show_int ?a [(''s'', \<lambda>q. Inr [?ev 9 ''log_error'', ?ev 5 ''image''])] =
        Inr (pre @ no_preceding \<lparr>fmt_q = id, fmt_usd = (\<lambda>_. [])\<rparr> show_int s @ post)"
    by (rule limit_hides_cause [where groups = "[[?ev 9 ''log_error'', ?ev 5 ''image'']]"])
      (auto simp: limit_of_def symptom_kinds_def)
  then show ?thesis by (auto simp: Let_def symptom_kinds_def)
qed

definition ex_cloud :: "string list \<Rightarrow> cloud_world" where
  "ex_cloud urls =
     \<lparr>cw_env = \<lparr>cn_run = (\<lambda>_. \<lparr>cl_error = None, cl_out = [], cl_err = []\<rparr>), cn_fmt = \<lparr>fmt_q = id, fmt_usd = (\<lambda>_. [])\<rparr>,
        cn_time = (\<lambda>_. None), cn_rfc = show_int, cn_fixed = (\<lambda>_ _. []), cn_order = id\<rparr>,
      cw_done = (\<lambda>_. False), cw_error = (\<lambda>_. []), cw_int = (\<lambda>_. None), cw_float = (\<lambda>_. None),
      cw_decode = \<lparr>de_metrics = (\<lambda>_. None),
        de_statistics = (\<lambda>_. None),
        de_groups = (\<lambda>_. None),
        de_events = (\<lambda>_. None),
        de_query_id = (\<lambda>_. None),
        de_results = (\<lambda>_. None),
        de_summaries = (\<lambda>_. None),
        de_traces = (\<lambda>_. None),
        de_graph = (\<lambda>_. None),
        de_rds = (\<lambda>_. None),
        de_lambda = (\<lambda>_. None),
        de_eks = (\<lambda>_. None),
        de_queues = (\<lambda>_. Some urls),
        de_attributes = (\<lambda>_. None),
        de_cost = (\<lambda>_. None),
        de_definitions = (\<lambda>_. None),
        de_series = (\<lambda>_. None),
        de_rows = (\<lambda>_. None),
        de_tables = (\<lambda>_. None),
        de_servers = (\<lambda>_. None),
        de_apps = (\<lambda>_. None),
        de_aks = (\<lambda>_. None),
        de_usage = (\<lambda>_. None),
        de_entries = (\<lambda>_. None),
        de_sql = (\<lambda>_. None),
        de_run = (\<lambda>_. None),
        de_clusters = (\<lambda>_. None)\<rparr>\<rparr>"

definition ex_clients :: cloud_clients where
  "ex_clients = \<lparr>cc_aws = [(''prod'', \<lparr>aw_name = ''prod'', aw_region = ''eu-west-1'', aw_profile = []\<rparr>)],
     cc_azure = [(''sub'', \<lparr>az_name = ''sub'', az_subscription = ''0''\<rparr>)], cc_gcp = []\<rparr>"

text \<open>C14. Whatever arguments a cloud tool is called with, and whatever the command lines answer, it only ever
  runs commands whose path, token by token, is one of the listed read-only commands, and none of its
  commands is refused by the allowlist. The audit and trace sources of a timeline run only such
  commands too.\<close>

theorem cloud_commands_read_only:
  assumes "\<And>es. set (cn_order (cw_env W) es) = set es"
  shows "(\<exists>cmds. snd (cloud_tool W cl call hist) = hist @ cmds \<and>
       (\<forall>c \<in> set cmds. (fst c, takeWhile (\<lambda>a. \<not> has_prefix a ''-'') (snd c)) \<in> set read_only_commands)) \<and>
     (\<forall>e. fst (cloud_tool W cl call hist) = Inl e \<longrightarrow> \<not> refused e) \<and>
     (\<exists>cmds. snd (audit_changes S cl q hist) = hist @ cmds \<and>
       (\<forall>c \<in> set cmds. (fst c, takeWhile (\<lambda>a. \<not> has_prefix a ''-'') (snd c)) \<in> set read_only_commands)) \<and>
     (\<exists>cmds. snd (trace_changes S cl q hist) = hist @ cmds \<and>
       (\<forall>c \<in> set cmds. (fst c, takeWhile (\<lambda>a. \<not> has_prefix a ''-'') (snd c)) \<in> set read_only_commands))"
  using cloud_tool_reads_only [of W hist cl call] audit_changes_grow [of hist S cl q] trace_changes_grow [of hist S cl q] assms
  unfolding follows_def grows_def is_read_only_def command_path_def is_flag_def keeps_checks_def by blast

theorem cloud_commands_read_only_witness:
  "\<exists>c1 c2. snd (cloud_tool (ex_cloud [''q'']) ex_clients (AwsQueueDepth [] [] 0) []) = [c1, c2] \<and>
     (fst c1, takeWhile (\<lambda>a. \<not> has_prefix a ''-'') (snd c1)) \<in> set read_only_commands \<and>
     (fst c2, takeWhile (\<lambda>a. \<not> has_prefix a ''-'') (snd c2)) \<in> set read_only_commands"
proof -
  let ?r = "cloud_tool (ex_cloud [''q'']) ex_clients (AwsQueueDepth [] [] 0) []"
  have "length (snd ?r) = 2"
    by (simp add: cloud_tool_def ex_cloud_def ex_clients_def aws_queue_depth_def sqs_list_cmd_def on_account_def pick_aws_def
        pick_endpoint_def safe_arg_def cloud_exec_def allowed_subcommands_def subcommand_prefix_def aws_base_def opt_flag_def
        run_cloud_exec_def max_cloud_output_def attribute_queue_def sqs_attributes_argv_def Let_def)
  then obtain c1 c2 where c: "snd ?r = [c1, c2]" by (auto simp: length_Suc_conv numeral_2_eq_2)
  have "set (cn_order (cw_env (ex_cloud [''q''])) es) = set es" for es by (simp add: ex_cloud_def)
  then show ?thesis using cloud_commands_read_only [of "ex_cloud [''q'']" ex_clients "AwsQueueDepth [] [] 0" "[]"] c by auto
qed



text \<open>The metric names of \<open>cloud.azure_monitor_metrics\<close> reach the command line as they are: whatever list
  of arguments a call gives for them, flags included, is run as part of the command.\<close>

theorem azure_metric_names_are_arguments:
  assumes "pick_azure cl acct = Inr a" "resource \<noteq> []" "\<not> is_flag resource" "extra \<noteq> []"
  shows "snd (cloud_tool W cl (AzureMetrics \<lparr>am_account = acct, am_resource = resource, am_metrics = extra,
        am_aggregation = [], am_interval = [], am_start = [], am_end = []\<rparr>) hist)
     = hist @ [(''az'', [''monitor'', ''metrics'', ''list''] @ azure_base a @ [''--resource'', resource, ''--metrics''] @ extra)]"
proof -
  let ?s = "\<lparr>am_account = acct, am_resource = resource, am_metrics = extra, am_aggregation = [], am_interval = [], am_start = [], am_end = []\<rparr>"
  let ?argv = "[''monitor'', ''metrics'', ''list''] @ azure_base a @ [''--resource'', resource, ''--metrics''] @ extra"
  have c: "azure_metrics_cmd cl ?s = Inr (a, ?argv)"
    using assms by (simp add: azure_metrics_cmd_def on_account_def safe_arg_def opt_flag_def)
  have "command_path ?argv = [''monitor'', ''metrics'', ''list'']" by simp
  then have "subcommand_prefix ?argv = ''monitor metrics list''" by (simp add: subcommand_prefix_def command_path_def)
  moreover obtain allowed where "map_of allowed_subcommands ''az'' = Some allowed" "''monitor metrics list'' \<in> set allowed"
    by (simp add: allowed_subcommands_def)
  ultimately have "cloud_exec run ''az'' ?argv hist = (run_cloud_exec (run (hist @ [(''az'', ?argv)])) ''az'', hist @ [(''az'', ?argv)])" for run
    using cloud_exec_prefix [of "''az''" allowed ?argv] by metis
  then show ?thesis
    by (simp only: cloud_tool_def cloud_call.case Let_def c run_command_history snd_conv)
qed

theorem azure_metric_names_are_arguments_witness:
  "snd (cloud_tool (ex_cloud []) ex_clients (AzureMetrics \<lparr>am_account = ''sub'', am_resource = ''/r'', am_metrics = [''--debug''],
      am_aggregation = [], am_interval = [], am_start = [], am_end = []\<rparr>) [])
   = [(''az'', [''monitor'', ''metrics'', ''list'', ''--subscription'', ''0'', ''--output'', ''json'', ''--resource'', ''/r'', ''--metrics'', ''--debug''])]"
proof -
  have "pick_azure ex_clients ''sub'' = Inr \<lparr>az_name = ''sub'', az_subscription = ''0''\<rparr>"
    by (simp add: pick_azure_def pick_endpoint_def ex_clients_def)
  from azure_metric_names_are_arguments [OF this, of "''/r''" "[''--debug'']" "ex_cloud []" "[]"] show ?thesis
    by (simp add: azure_base_def)
qed



end
