(* ===== verification/Http_Api.thy ===== *)
theory Http_Api
  imports Transport_Guard
begin

text \<open>
  The shared HTTP client of the query tools (\<open>internal/clients/httpapi/client.go\<close>): query strings,
  credentials, redirects as \<open>net/http\<close> follows them, and \<open>RawGet\<close>. The default transport acts on a
  world; the environment, base64, the check of a URL and the resolution of a redirect are parameters.
\<close>

section \<open>Query strings\<close>

definition query_safe :: "char \<Rightarrow> bool" where
  "query_safe c \<longleftrightarrow>
     (let b = of_char c :: nat in
      97 \<le> b \<and> b \<le> 122 \<or> 65 \<le> b \<and> b \<le> 90 \<or> 48 \<le> b \<and> b \<le> 57 \<or> c \<in> set ''-_.~'')"

definition percent :: "char \<Rightarrow> string" where
  "percent c = [CHR ''%'', hex_digit (of_char c div 16), hex_digit (of_char c mod 16)]"

definition query_byte :: "char \<Rightarrow> string" where
  "query_byte c = (if query_safe c then [c] else if c = CHR '' '' then ''+'' else percent c)"

definition query_escape :: "string \<Rightarrow> string" where
  "query_escape s = concat (map query_byte s)"

type_synonym url_values = "string list gomap"

definition value_pairs :: "url_values \<Rightarrow> (string \<times> string) list" where
  "value_pairs vs = concat (map (\<lambda>k. case gm_get vs k of None \<Rightarrow> [] | Some xs \<Rightarrow> map (Pair k) xs) (gm_keys vs))"

definition encode_values :: "url_values \<Rightarrow> string" where
  "encode_values vs = join (map (\<lambda>(k, v). query_escape k @ ''='' @ query_escape v) (value_pairs vs)) ''&''"

text \<open>How a server reads a query string back.\<close>

definition hex_of :: "char \<Rightarrow> nat option" where
  "hex_of c =
     (let n = of_char c :: nat in
      if 48 \<le> n \<and> n \<le> 57 then Some (n - 48) else if 65 \<le> n \<and> n \<le> 70 then Some (n - 55)
      else if 97 \<le> n \<and> n \<le> 102 then Some (n - 87) else None)"

fun query_unescape :: "string \<Rightarrow> string option" where
  "query_unescape [] = Some []"
| "query_unescape (c # s) =
     (if c = CHR ''%''
      then (case s of
              a # b # t \<Rightarrow>
                (case (hex_of a, hex_of b, query_unescape t) of
                   (Some x, Some y, Some r) \<Rightarrow> Some (char_of (16 * x + y) # r)
                 | _ \<Rightarrow> None)
            | _ \<Rightarrow> None)
      else map_option ((#) (if c = CHR ''+'' then CHR '' '' else c)) (query_unescape s))"

definition parse_pair :: "string \<Rightarrow> (string \<times> string) option" where
  "parse_pair s =
     (let k = takeWhile (\<lambda>c. c \<noteq> CHR ''='') s; v = drop (Suc (length k)) s
      in case (query_unescape k, query_unescape v) of (Some a, Some b) \<Rightarrow> Some (a, b) | _ \<Rightarrow> None)"

definition parse_query :: "string \<Rightarrow> (string \<times> string) list option" where
  "parse_query s = those (map parse_pair (filter (\<lambda>x. x \<noteq> []) (split_byte (CHR ''&'') s)))"

section \<open>Credentials\<close>

record auth_conf =
  au_bearer_env :: string
  au_basic_user :: string
  au_basic_pass_env :: string
  au_token_env :: string
  au_token_scheme :: string

definition set_authorization :: "string \<Rightarrow> http_request \<Rightarrow> http_request" where
  "set_authorization v r = r\<lparr>hr_headers := gm_put ''Authorization'' v (hr_headers r)\<rparr>"

definition header_tripper :: "string \<Rightarrow> ('w, 'r) tripper \<Rightarrow> ('w, 'r) tripper" where
  "header_tripper v inner r w = inner (set_authorization v r) w"

definition bearer_tripper :: "string \<Rightarrow> ('w, 'r) tripper \<Rightarrow> ('w, 'r) tripper" where
  "bearer_tripper token = header_tripper (''Bearer '' @ token)"

definition basic_tripper :: "(string \<Rightarrow> string) \<Rightarrow> string \<Rightarrow> string \<Rightarrow> ('w, 'r) tripper \<Rightarrow> ('w, 'r) tripper" where
  "basic_tripper b64 user pass = header_tripper (''Basic '' @ b64 (user @ '':'' @ pass))"

text \<open>The header a configuration leads to, if any; an unset variable reads as the empty string.\<close>

definition auth_header :: "(string \<Rightarrow> string) \<Rightarrow> (string \<Rightarrow> string) \<Rightarrow> auth_conf \<Rightarrow> string option" where
  "auth_header env b64 a =
     (if au_token_env a \<noteq> []
      then (let token = env (au_token_env a) in
            if token \<noteq> [] then Some ((if au_token_scheme a = [] then ''Bearer '' else au_token_scheme a) @ token) else None)
      else if au_bearer_env a \<noteq> []
      then (let token = env (au_bearer_env a) in if token \<noteq> [] then Some (''Bearer '' @ token) else None)
      else if au_basic_user a \<noteq> []
      then Some (''Basic '' @ b64 (au_basic_user a @ '':'' @
             (if au_basic_pass_env a \<noteq> [] then env (au_basic_pass_env a) else [])))
      else None)"

definition wrap_auth :: "(string \<Rightarrow> string) \<Rightarrow> (string \<Rightarrow> string) \<Rightarrow> auth_conf \<Rightarrow> ('w, 'r) tripper \<Rightarrow> ('w, 'r) tripper" where
  "wrap_auth env b64 a inner = (case auth_header env b64 a of None \<Rightarrow> inner | Some v \<Rightarrow> header_tripper v inner)"

section \<open>Requests\<close>

record http_response =
  rp_status :: int
  rp_location :: string
  rp_body :: string
  rp_broken :: bool

datatype http_error =
    HttpTransport transport_error
  | BadLocation string
  | TooManyRedirects

definition redirect_codes :: "int list" where
  "redirect_codes = [301, 302, 303, 307, 308]"

text \<open>\<open>http.Client.Do\<close> for a GET: redirects are followed with the same headers, at most ten requests in
  all. (The \<open>Referer\<close> it adds is not modelled.)\<close>

fun follow ::
    "nat \<Rightarrow> (string \<Rightarrow> string \<Rightarrow> string option) \<Rightarrow> ('w, http_response) tripper \<Rightarrow> http_request \<Rightarrow> 'w
     \<Rightarrow> (http_error + http_response) \<times> 'w" where
  "follow n rsv t r w =
     (case t r w of
        (Inl e, w') \<Rightarrow> (Inl (HttpTransport e), w')
      | (Inr p, w') \<Rightarrow>
          if rp_status p \<in> set redirect_codes \<and> rp_location p \<noteq> []
          then (case rsv (hr_url r) (rp_location p) of
                  None \<Rightarrow> (Inl (BadLocation (rp_location p)), w')
                | Some u \<Rightarrow>
                    (case n of
                       0 \<Rightarrow> (Inl TooManyRedirects, w')
                     | Suc m \<Rightarrow> follow m rsv t (r\<lparr>hr_url := u\<rparr>) w'))
          else (Inr p, w'))"

declare follow.simps [simp del]

definition max_redirects :: nat where
  "max_redirects = 9"

datatype api_error =
    BaseRequired
  | BuildRequest string
  | GetFailed string http_error
  | ReadBody
  | HttpStatus int string string

record ('w) api_client =
  ac_name :: string
  ac_base :: string
  ac_accept :: string
  ac_trip :: "('w, http_response) tripper"

record ('w) net =
  nt_env :: "string \<Rightarrow> string"
  nt_base64 :: "string \<Rightarrow> string"
  nt_valid :: "string \<Rightarrow> bool"
  nt_resolve :: "string \<Rightarrow> string \<Rightarrow> string option"
  nt_transport :: "('w, http_response) tripper"

definition new_api_client :: "('w) net \<Rightarrow> string \<Rightarrow> string \<Rightarrow> auth_conf \<Rightarrow> api_error + ('w) api_client" where
  "new_api_client N name base a =
     (if base = [] then Inl BaseRequired
      else Inr \<lparr>ac_name = name, ac_base = trim_right_char (CHR ''/'') base, ac_accept = [],
                ac_trip = wrap_auth (nt_env N) (nt_base64 N) a (new_tripper (nt_transport N) None)\<rparr>)"

definition max_api_body :: nat where
  "max_api_body = 8388608"

definition request_url :: "string \<Rightarrow> string \<Rightarrow> url_values \<Rightarrow> string" where
  "request_url base path params = base @ path @ (if params = [] then [] else ''?'' @ encode_values params)"

text \<open>A body that breaks off is noticed unless the limit was reached before.\<close>

definition api_raw_get ::
    "('w) net \<Rightarrow> ('w) api_client \<Rightarrow> string \<Rightarrow> url_values \<Rightarrow> 'w \<Rightarrow> (api_error + string) \<times> 'w" where
  "api_raw_get N c path params w =
     (let u = request_url (ac_base c) path params in
      if \<not> nt_valid N u then (Inl (BuildRequest u), w)
      else (case follow max_redirects (nt_resolve N) (ac_trip c)
                   \<lparr>hr_method = ''GET'', hr_url = u,
                    hr_headers = [(''Accept'', if ac_accept c = [] then ''application/json'' else ac_accept c)]\<rparr> w of
              (Inl e, w') \<Rightarrow> (Inl (GetFailed path e), w')
            | (Inr p, w') \<Rightarrow>
                if rp_broken p \<and> length (rp_body p) < max_api_body then (Inl ReadBody, w')
                else let body = take max_api_body (rp_body p) in
                  (if rp_status p div 100 \<noteq> 2 then Inl (HttpStatus (rp_status p) path body) else Inr body, w')))"

definition api_ping :: "('w) net \<Rightarrow> ('w) api_client \<Rightarrow> string \<Rightarrow> 'w \<Rightarrow> api_error option \<times> 'w" where
  "api_ping N c path w =
     (case api_raw_get N c path [] w of (Inl e, w') \<Rightarrow> (Some e, w') | (Inr _, w') \<Rightarrow> (None, w'))"

section \<open>A query string holds exactly its parameters\<close>

lemma nibble_cases: "n < 16 \<Longrightarrow> n \<in> set [0, 1, 2, 3, 4, 5, 6, 7, 8, 9, 10, 11, 12, 13, 14, 15 :: nat]"
proof -
  assume "n < 16"
  then have "n \<in> set [0..<16]" by simp
  moreover have "[0..<16] = [0, 1, 2, 3, 4, 5, 6, 7, 8, 9, 10, 11, 12, 13, 14, 15 :: nat]" by code_simp
  ultimately show ?thesis by simp
qed

lemma hex_of_digit: "n < 16 \<Longrightarrow> hex_of (hex_digit n) = Some n"
  by (drule nibble_cases) (auto simp: hex_of_def hex_digit_def)

lemma hex_digit_plain: "n < 16 \<Longrightarrow> hex_digit n \<notin> set ''&=%+''"
proof -
  assume "n < 16"
  then have "(of_char (hex_digit n) :: nat) \<in> {48..57} \<union> {65..70}" by (auto simp: hex_digit_def)
  then show ?thesis by auto
qed

lemma nibbles: "of_char c div 16 < (16 :: nat)" "of_char c mod 16 < (16 :: nat)"
  "16 * (of_char c div 16) + of_char c mod 16 = (of_char c :: nat)"
proof -
  have "of_char c < (256 :: nat)" by simp
  then show "of_char c div 16 < (16 :: nat)" by (simp add: less_mult_imp_div_less)
qed simp_all

lemma query_byte_unescape: "query_unescape (query_byte c @ s) = map_option ((#) c) (query_unescape s)"
proof -
  have safe: "query_safe c \<Longrightarrow> c \<noteq> CHR ''%'' \<and> c \<noteq> CHR ''+''" by (auto simp: query_safe_def)
  have "query_unescape (percent c @ s) = map_option ((#) c) (query_unescape s)"
    by (simp add: percent_def hex_of_digit nibbles split: option.split)
  then show ?thesis using safe by (auto simp: query_byte_def)
qed

lemma query_escape_unescape: "query_unescape (query_escape s) = Some s"
proof -
  have "query_unescape (concat (map query_byte s) @ []) = Some s"
    by (induction s) (simp_all add: query_byte_unescape)
  then show ?thesis by (simp add: query_escape_def)
qed

lemma query_escape_plain: "CHR ''&'' \<notin> set (query_escape s)" "CHR ''='' \<notin> set (query_escape s)"
proof -
  have "CHR ''&'' \<notin> set (query_byte c) \<and> CHR ''='' \<notin> set (query_byte c)" for c
    using hex_digit_plain [OF nibbles(1), of c] hex_digit_plain [OF nibbles(2), of c]
    by (auto simp: query_byte_def percent_def query_safe_def)
  then show "CHR ''&'' \<notin> set (query_escape s)" "CHR ''='' \<notin> set (query_escape s)"
    by (auto simp: query_escape_def)
qed

lemma parse_pair_escape: "parse_pair (query_escape k @ CHR ''='' # query_escape v) = Some (k, v)"
proof -
  have "\<forall>c \<in> set (query_escape k). c \<noteq> CHR ''=''" using query_escape_plain(2) [of k] by blast
  then have "takeWhile (\<lambda>c. c \<noteq> CHR ''='') (query_escape k @ CHR ''='' # query_escape v) = query_escape k"
    by (simp add: takeWhile_append2)
  then show ?thesis by (simp add: parse_pair_def Let_def query_escape_unescape)
qed

lemma split_join_amp:
  "xs \<noteq> [] \<Longrightarrow> \<forall>x \<in> set xs. CHR ''&'' \<notin> set x \<Longrightarrow> split_byte (CHR ''&'') (join xs ''&'') = xs"
proof (induction xs)
  case (Cons x xs)
  then show ?case
    using split_byte_append [of "CHR ''&''" x] split_byte_plain [of "CHR ''&''" x] by (cases xs) auto
qed simp

lemma those_map_Some: "\<forall>x \<in> set xs. f x = Some (g x) \<Longrightarrow> those (map f xs) = Some (map g xs)"
  by (induction xs) auto

lemma encode_values_parse: "parse_query (encode_values vs) = Some (value_pairs vs)"
proof (cases "value_pairs vs")
  case Nil
  then show ?thesis by (simp add: encode_values_def parse_query_def)
next
  case (Cons p ps)
  let ?f = "\<lambda>(k, v). query_escape k @ ''='' @ query_escape v"
  have "split_byte (CHR ''&'') (encode_values vs) = map ?f (value_pairs vs)"
    unfolding encode_values_def using Cons query_escape_plain(1)
    by (intro split_join_amp) auto
  moreover have "filter (\<lambda>x. x \<noteq> []) (map ?f (value_pairs vs)) = map ?f (value_pairs vs)"
    by (auto simp: filter_id_conv)
  moreover have "those (map (parse_pair \<circ> ?f) (value_pairs vs)) = Some (map (\<lambda>p. p) (value_pairs vs))"
    by (rule those_map_Some) (auto simp: parse_pair_escape)
  ultimately show ?thesis by (simp add: parse_query_def)
qed

section \<open>The requests a client sends\<close>

text \<open>A transport that keeps the requests it sees and answers from them.\<close>

definition recording :: "(http_request list \<Rightarrow> transport_error + http_response) \<Rightarrow> (http_request list, http_response) tripper" where
  "recording f r w = (f (w @ [r]), w @ [r])"

text \<open>What a tripper sends on for a read is the request itself, changed by \<open>g\<close> in its headers only.\<close>

locale read_tripper =
  fixes t :: "(http_request list, http_response) tripper"
    and f :: "http_request list \<Rightarrow> transport_error + http_response"
    and g :: "http_request \<Rightarrow> http_request"
  assumes sends: "hr_method r = ''GET'' \<Longrightarrow> t r w = (f (w @ [g r]), w @ [g r])"
    and keeps: "hr_method (g r) = hr_method r" "hr_url (g r) = hr_url r"
begin

lemma follow_seen:
  "hr_method r = ''GET'' \<Longrightarrow>
     \<exists>seen. snd (follow n rsv t r w) = w @ g r # seen \<and> length seen \<le> n \<and>
       (\<forall>x \<in> set seen. \<exists>u. x = g (r\<lparr>hr_url := u\<rparr>))"
proof (induction n arbitrary: r w)
  case 0
  show ?case
    using sends [OF 0, of w] by (subst follow.simps) (auto split: sum.split option.split)
next
  case (Suc n)
  have stop: "\<exists>seen. w @ [g r] = w @ g r # seen \<and> length seen \<le> Suc n \<and> (\<forall>x \<in> set seen. \<exists>u. x = g (r\<lparr>hr_url := u\<rparr>))"
    by simp
  have go: "\<exists>seen. snd (follow n rsv t (r\<lparr>hr_url := u\<rparr>) (w @ [g r])) = w @ g r # seen \<and> length seen \<le> Suc n \<and>
      (\<forall>x \<in> set seen. \<exists>u. x = g (r\<lparr>hr_url := u\<rparr>))" for u
  proof -
    obtain seen where "snd (follow n rsv t (r\<lparr>hr_url := u\<rparr>) (w @ [g r])) = (w @ [g r]) @ g (r\<lparr>hr_url := u\<rparr>) # seen"
      "length seen \<le> n" "\<forall>x \<in> set seen. \<exists>v. x = g (r\<lparr>hr_url := u, hr_url := v\<rparr>)"
      using Suc.IH [of "r\<lparr>hr_url := u\<rparr>" "w @ [g r]"] Suc.prems by auto
    then show ?thesis by (intro exI [of _ "g (r\<lparr>hr_url := u\<rparr>) # seen"]) auto
  qed
  show ?case
    using sends [OF Suc.prems, of w] stop go by (subst follow.simps) (auto split: sum.split option.split)
qed

end

definition with_header :: "string option \<Rightarrow> http_request \<Rightarrow> http_request" where
  "with_header h r = (case h of None \<Rightarrow> r | Some v \<Rightarrow> set_authorization v r)"

lemma wrap_auth_read:
  "hr_method r = ''GET'' \<Longrightarrow>
     wrap_auth env b64 a (new_tripper (recording f) None) r w =
       (f (w @ [with_header (auth_header env b64 a) r]), w @ [with_header (auth_header env b64 a) r])"
  by (auto simp: wrap_auth_def with_header_def header_tripper_def new_tripper_def Let_def round_trip_def recording_def
      set_authorization_def allowed_methods_def split: option.split)

interpretation auth: read_tripper "wrap_auth env b64 a (new_tripper (recording f) None)" f "with_header (auth_header env b64 a)"
  for env b64 a f
  by unfold_locales (simp_all add: wrap_auth_read with_header_def set_authorization_def split: option.split)

text \<open>So every request of a call is a GET, the first one goes to the client's own URL, and the
  credentials are sent with each of them.\<close>

lemma raw_get_requests:
  assumes "new_api_client N name base a = Inr c" "nt_transport N = recording f"
  shows "\<exists>seen. snd (api_raw_get N c path params w) = w @ seen \<and> length seen \<le> 10 \<and>
     (\<forall>r \<in> set seen. hr_method r = ''GET'' \<and> gm_get (hr_headers r) ''Authorization'' = auth_header (nt_env N) (nt_base64 N) a) \<and>
     (seen \<noteq> [] \<longrightarrow> hr_url (hd seen) = request_url (ac_base c) path params)"
proof (cases "nt_valid N (request_url (ac_base c) path params)")
  case False
  then show ?thesis by (simp add: api_raw_get_def)
next
  case True
  define r where "r = \<lparr>hr_method = ''GET'', hr_url = request_url (ac_base c) path params,
    hr_headers = [(''Accept'', if ac_accept c = [] then ''application/json'' else ac_accept c)]\<rparr>"
  define h where "h = auth_header (nt_env N) (nt_base64 N) a"
  have trip: "ac_trip c = wrap_auth (nt_env N) (nt_base64 N) a (new_tripper (recording f) None)"
    using assms by (auto simp: new_api_client_def split: if_splits)
  have get: "hr_method r = ''GET''" "hr_url r = request_url (ac_base c) path params" by (simp_all add: r_def)
  have hist: "snd (api_raw_get N c path params w) = snd (follow max_redirects (nt_resolve N) (ac_trip c) r w)"
    using True by (simp add: api_raw_get_def Let_def r_def case_prod_unfold split: sum.split)
  have auth: "gm_get (hr_headers (with_header h (r\<lparr>hr_url := u\<rparr>))) ''Authorization'' = h" for u
    by (simp add: with_header_def set_authorization_def r_def gm_get_put split: option.split)
  obtain seen where s: "snd (follow max_redirects (nt_resolve N) (ac_trip c) r w) = w @ with_header h r # seen" "length seen \<le> 9"
    "\<forall>x \<in> set seen. \<exists>u. x = with_header h (r\<lparr>hr_url := u\<rparr>)"
    using auth.follow_seen [OF get(1), of max_redirects "nt_resolve N" "nt_env N" "nt_base64 N" a f w]
    unfolding trip h_def max_redirects_def by blast
  have "hr_method x = ''GET'' \<and> gm_get (hr_headers x) ''Authorization'' = h" if "x \<in> set (with_header h r # seen)" for x
  proof -
    have "r\<lparr>hr_url := hr_url r\<rparr> = r" by simp
    then have "\<exists>u. x = with_header h (r\<lparr>hr_url := u\<rparr>)" using that s(3) by (metis set_ConsD)
    then obtain u where "x = with_header h (r\<lparr>hr_url := u\<rparr>)" ..
    then show ?thesis using auth [of u] auth.keeps(1) [of "nt_env N" "nt_base64 N" a] get(1) by (simp add: h_def)
  qed
  moreover have "hr_url (with_header h r) = request_url (ac_base c) path params"
    using auth.keeps(2) [of "nt_env N" "nt_base64 N" a] get(2) by (simp add: h_def)
  ultimately show ?thesis
    unfolding hist h_def [symmetric] using s(1,2) by (intro exI [of _ "with_header h r # seen"]) simp
qed

lemma raw_get_bounded: "fst (api_raw_get N c path params w) = Inr body \<Longrightarrow> length body \<le> max_api_body"
  by (auto simp: api_raw_get_def Let_def split: if_splits sum.splits prod.splits)

end
