(* ===== verification/Prom_Client.thy ===== *)
theory Prom_Client
  imports Http_Api Go_Number Go_Path Correlate_Cause
begin

text \<open>
  The Prometheus client (\<open>internal/clients/prom/client.go\<close>): the syntax check of a query, the three
  requests, and the decoding of an answer, whose sample values are \<open>json.Number\<close>s. The JSON decoder
  gives the fields with the texts of the numbers; a number that is absent has no text.
\<close>

datatype prom_error =
    PromBase
  | PromEmpty
  | PromUnbalanced
  | PromLabel
  | PromBuild string
  | PromGet string http_error
  | PromRead
  | PromStatus int string string
  | PromDecode
  | PromApi string

record ('w) prom_client =
  pc_base :: string
  pc_trip :: "('w, http_response) tripper"

definition new_prom_client ::
    "('w) net \<Rightarrow> string \<Rightarrow> ('w, http_response) tripper option \<Rightarrow> string \<Rightarrow> string \<Rightarrow> string \<Rightarrow> prom_error + ('w) prom_client" where
  "new_prom_client N base inner user pass bearer =
     (if base = [] then Inl PromBase
      else (let rt = new_tripper (nt_transport N) inner in
        Inr \<lparr>pc_base = trim_right_char (CHR ''/'') base,
             pc_trip = (if bearer \<noteq> [] then bearer_tripper bearer rt
                        else if user \<noteq> [] then basic_tripper (nt_base64 N) user pass rt
                        else rt)\<rparr>))"

definition prom_raw_get :: "('w) net \<Rightarrow> ('w) prom_client \<Rightarrow> string \<Rightarrow> url_values \<Rightarrow> 'w \<Rightarrow> (prom_error + string) \<times> 'w" where
  "prom_raw_get N c path params w =
     (let u = request_url (pc_base c) path params in
      if \<not> nt_valid N u then (Inl (PromBuild u), w)
      else (case follow max_redirects (nt_resolve N) (pc_trip c) \<lparr>hr_method = ''GET'', hr_url = u, hr_headers = []\<rparr> w of
              (Inl e, w') \<Rightarrow> (Inl (PromGet path e), w')
            | (Inr p, w') \<Rightarrow>
                (if rp_broken p then Inl PromRead
                 else if rp_status p div 100 \<noteq> 2 then Inl (PromStatus (rp_status p) path (rp_body p))
                 else Inr (rp_body p), w')))"

section \<open>The check of a query\<close>

fun bracket_depth :: "int \<Rightarrow> string \<Rightarrow> int option" where
  "bracket_depth d [] = Some d"
| "bracket_depth d (c # s) =
     (if c \<in> set ''({['' then bracket_depth (d + 1) s
      else if c \<in> set '')}]'' then (if d - 1 < 0 then None else bracket_depth (d - 1) s)
      else bracket_depth d s)"

definition check_promql :: "string \<Rightarrow> prom_error option" where
  "check_promql q =
     (if trim_space q = [] then Some PromEmpty
      else if bracket_depth 0 q \<noteq> Some 0 then Some PromUnbalanced
      else None)"

section \<open>Answers\<close>

record prom_sample =
  ps_labels :: "string gomap"
  ps_value :: go_float
  ps_time :: go_float

record prom_series =
  se_labels :: "string gomap"
  se_values :: "(go_float \<times> go_float) list"

record prom_result =
  pr_type :: string
  pr_vector :: "prom_sample list"
  pr_matrix :: "prom_series list"
  pr_scalar :: "prom_sample option"

type_synonym number = "string option"
type_synonym point = "number \<times> number"

datatype raw_result =
    RawVector "(string gomap \<times> point) list"
  | RawMatrix "(string gomap \<times> point list) list"
  | RawScalar point
  | RawOther string

text \<open>The envelope: status, error, and the data if it decodes.\<close>

type_synonym envelope = "string \<times> string \<times> raw_result option"

record prom_decoders =
  pd_result :: "string \<Rightarrow> envelope option"
  pd_values :: "string \<Rightarrow> (string \<times> string list) option"
  pd_series :: "string \<Rightarrow> (string \<times> string gomap list) option"
  pd_float :: "string \<Rightarrow> go_float"
  pd_g :: "real \<Rightarrow> string"

fun number_ok :: "number \<Rightarrow> bool" where
  "number_ok None \<longleftrightarrow> True"
| "number_ok (Some s) \<longleftrightarrow> is_valid_number s"

definition point_ok :: "point \<Rightarrow> bool" where
  "point_ok p \<longleftrightarrow> number_ok (fst p) \<and> number_ok (snd p)"

fun raw_ok :: "raw_result \<Rightarrow> bool" where
  "raw_ok (RawVector vs) \<longleftrightarrow> list_all (\<lambda>v. point_ok (snd v)) vs"
| "raw_ok (RawMatrix ms) \<longleftrightarrow> list_all (\<lambda>m. list_all point_ok (snd m)) ms"
| "raw_ok (RawScalar p) \<longleftrightarrow> point_ok p"
| "raw_ok (RawOther t) \<longleftrightarrow> True"

text \<open>\<open>Float64\<close> with its error ignored; the empty number is zero.\<close>

definition number_value :: "(string \<Rightarrow> go_float) \<Rightarrow> number \<Rightarrow> go_float" where
  "number_value float n = (case n of None \<Rightarrow> Fin 0 | Some s \<Rightarrow> float s)"

definition sample_of :: "(string \<Rightarrow> go_float) \<Rightarrow> string gomap \<Rightarrow> point \<Rightarrow> prom_sample" where
  "sample_of float labels p =
     \<lparr>ps_labels = labels, ps_value = number_value float (snd p), ps_time = number_value float (fst p)\<rparr>"

definition empty_result :: "string \<Rightarrow> prom_result" where
  "empty_result t = \<lparr>pr_type = t, pr_vector = [], pr_matrix = [], pr_scalar = None\<rparr>"

fun result_of :: "(string \<Rightarrow> go_float) \<Rightarrow> raw_result \<Rightarrow> prom_result" where
  "result_of float (RawVector vs) =
     (empty_result ''vector'')\<lparr>pr_vector := map (\<lambda>(labels, p). sample_of float labels p) vs\<rparr>"
| "result_of float (RawMatrix ms) =
     (empty_result ''matrix'')\<lparr>pr_matrix := map (\<lambda>(labels, ps).
        \<lparr>se_labels = labels, se_values = map (\<lambda>p. (number_value float (fst p), number_value float (snd p))) ps\<rparr>) ms\<rparr>"
| "result_of float (RawScalar p) = (empty_result ''scalar'')\<lparr>pr_scalar := Some (sample_of float [] p)\<rparr>"
| "result_of float (RawOther t) = empty_result t"

definition decode_api_response :: "prom_decoders \<Rightarrow> string \<Rightarrow> prom_error + prom_result" where
  "decode_api_response D body =
     (case pd_result D body of
        None \<Rightarrow> Inl PromDecode
      | Some (status, err, data) \<Rightarrow>
          if status \<noteq> ''success'' then Inl (PromApi err)
          else (case data of
                  None \<Rightarrow> Inl PromDecode
                | Some r \<Rightarrow> if raw_ok r then Inr (result_of (pd_float D) r) else Inl PromDecode))"

section \<open>Requests\<close>

text \<open>\<open>float64(t.UnixNano()) / 1e9\<close> in the shortest form.\<close>

definition time_param :: "prom_decoders \<Rightarrow> gotime \<Rightarrow> string" where
  "time_param D t = pd_g D (real_of_int (wrap64 (t - 62135596800000000000)) / 1000000000)"

definition api_get ::
    "('w) net \<Rightarrow> prom_decoders \<Rightarrow> ('w) prom_client \<Rightarrow> string \<Rightarrow> url_values \<Rightarrow> 'w \<Rightarrow> (prom_error + prom_result) \<times> 'w" where
  "api_get N D c path params w =
     (case prom_raw_get N c path params w of
        (Inl e, w') \<Rightarrow> (Inl e, w')
      | (Inr body, w') \<Rightarrow> (decode_api_response D body, w'))"

definition prom_query ::
    "('w) net \<Rightarrow> prom_decoders \<Rightarrow> ('w) prom_client \<Rightarrow> string \<Rightarrow> gotime \<Rightarrow> 'w \<Rightarrow> (prom_error + prom_result) \<times> 'w" where
  "prom_query N D c q t w =
     (case check_promql q of
        Some e \<Rightarrow> (Inl e, w)
      | None \<Rightarrow> api_get N D c ''/api/v1/query'' ([(''query'', [q])] @ (if t = 0 then [] else [(''time'', [time_param D t])])) w)"

definition range_params :: "prom_decoders \<Rightarrow> string \<Rightarrow> gotime \<Rightarrow> gotime \<Rightarrow> int \<Rightarrow> url_values" where
  "range_params D q start end_t step =
     [(''query'', [q]), (''start'', [time_param D start]), (''end'', [time_param D end_t]),
      (''step'', [pd_g D (real_of_int step / 1000000000) @ ''s''])]"

definition prom_query_range ::
    "('w) net \<Rightarrow> prom_decoders \<Rightarrow> ('w) prom_client \<Rightarrow> string \<Rightarrow> gotime \<Rightarrow> gotime \<Rightarrow> int \<Rightarrow> 'w \<Rightarrow> (prom_error + prom_result) \<times> 'w" where
  "prom_query_range N D c q start end_t step w =
     (case check_promql q of
        Some e \<Rightarrow> (Inl e, w)
      | None \<Rightarrow> api_get N D c ''/api/v1/query_range'' (range_params D q start end_t step) w)"

definition match_params :: "prom_decoders \<Rightarrow> string list \<Rightarrow> gotime \<Rightarrow> gotime \<Rightarrow> url_values" where
  "match_params D ms start end_t =
     (if ms = [] then [] else [(''match[]'', ms)]) @
     (if start = 0 then [] else [(''start'', [time_param D start])]) @
     (if end_t = 0 then [] else [(''end'', [time_param D end_t])])"

definition decode_list :: "(string \<Rightarrow> (string \<times> 'a) option) \<Rightarrow> string \<Rightarrow> prom_error + 'a" where
  "decode_list dec body =
     (case dec body of
        None \<Rightarrow> Inl PromDecode
      | Some (status, xs) \<Rightarrow> if status = ''success'' then Inr xs else Inl (PromApi []))"

definition prom_label_values ::
    "('w) net \<Rightarrow> prom_decoders \<Rightarrow> ('w) prom_client \<Rightarrow> string \<Rightarrow> string list \<Rightarrow> gotime \<Rightarrow> gotime \<Rightarrow> 'w \<Rightarrow> (prom_error + string list) \<times> 'w" where
  "prom_label_values N D c lbl ms start end_t w =
     (if lbl = [] then (Inl PromLabel, w)
      else (case prom_raw_get N c (''/api/v1/label/'' @ path_escape lbl @ ''/values'') (match_params D ms start end_t) w of
              (Inl e, w') \<Rightarrow> (Inl e, w')
            | (Inr body, w') \<Rightarrow> (decode_list (pd_values D) body, w')))"

definition prom_series_of ::
    "('w) net \<Rightarrow> prom_decoders \<Rightarrow> ('w) prom_client \<Rightarrow> string list \<Rightarrow> gotime \<Rightarrow> gotime \<Rightarrow> 'w \<Rightarrow> (prom_error + string gomap list) \<times> 'w" where
  "prom_series_of N D c ms start end_t w =
     (case prom_raw_get N c ''/api/v1/series'' (match_params D ms start end_t) w of
        (Inl e, w') \<Rightarrow> (Inl e, w')
      | (Inr body, w') \<Rightarrow> (decode_list (pd_series D) body, w'))"

section \<open>Facts\<close>

text \<open>No answer with a sample that is not a number is ever decoded; without one, the values are what
  \<open>ParseFloat\<close> makes of number literals.\<close>

lemma nan_sample_rejected:
  assumes "pd_result D body = Some (''success'', err, Some (RawMatrix ms))" "m \<in> set ms" "(ts, Some v) \<in> set (snd m)"
    "\<not> is_valid_number v"
  shows "decode_api_response D body = Inl PromDecode"
proof -
  have "\<not> point_ok (ts, Some v)" using assms(4) by (simp add: point_ok_def)
  then have "\<not> raw_ok (RawMatrix ms)" using assms(2,3) by (auto simp: list_all_iff)
  then show ?thesis using assms(1) by (simp add: decode_api_response_def)
qed

lemma decoded_values:
  assumes "decode_api_response D body = Inr r" "s \<in> set (pr_matrix r)" "p \<in> set (se_values s)"
  shows "\<exists>n. number_ok n \<and> snd p = number_value (pd_float D) n"
proof -
  obtain st err raw where raw: "pd_result D body = Some (st, err, Some raw)" "raw_ok raw" "r = result_of (pd_float D) raw"
    using assms(1) by (auto simp: decode_api_response_def split: option.splits if_splits)
  then obtain ms where "raw = RawMatrix ms" using assms(2) by (cases raw) (auto simp: empty_result_def)
  then show ?thesis using raw assms(2,3) by (fastforce simp: list_all_iff point_ok_def)
qed

text \<open>Brackets inside string literals count like any others.\<close>

definition bracket_value :: "char \<Rightarrow> int" where
  "bracket_value c = (if c \<in> set ''({['' then 1 else if c \<in> set '')}]'' then - 1 else 0)"

lemma bracket_depth_sum: "bracket_depth d s = Some e \<Longrightarrow> e = d + sum_list (map bracket_value s)"
proof (induction s arbitrary: d)
  case (Cons c s)
  consider "c \<in> set ''({[''" | "c \<notin> set ''({[''" "c \<in> set '')}]''" | "c \<notin> set ''({[''" "c \<notin> set '')}]''" by blast
  then show ?case
  proof cases
    case 1
    then show ?thesis using Cons.IH [of "d + 1"] Cons.prems by (simp add: bracket_value_def)
  next
    case 2
    then show ?thesis using Cons.IH [of "d - 1"] Cons.prems by (simp add: bracket_value_def split: if_splits)
  next
    case 3
    then show ?thesis using Cons.IH [of d] Cons.prems by (simp add: bracket_value_def)
  qed
qed simp

lemma lone_bracket_rejected:
  assumes "c \<in> set ''({[)}]''" "bracket_depth 0 (a @ b) = Some 0"
  shows "bracket_depth 0 (a @ c # b) \<noteq> Some 0"
proof
  assume "bracket_depth 0 (a @ c # b) = Some 0"
  from bracket_depth_sum [OF this] bracket_depth_sum [OF assms(2)] have "bracket_value c = 0" by simp
  then show False using assms(1) by (auto simp: bracket_value_def split: if_splits)
qed

end
