(* ===== verification/Log_Tools.thy ===== *)
theory Log_Tools
  imports Http_Api Tool_Catalog Agent_Text
begin

text \<open>
  The log tools (\<open>internal/core/tools/log/loki.go\<close>, \<open>elasticsearch.go\<close>): each picks a client, sends one
  GET and renders the decoded answer. The shape they share with the other query tools is
  \<open>run_query\<close>. Clock, decoders and formatting of times are parameters.
\<close>

section \<open>One query\<close>

datatype query_error =
    QueryPick pick_error
  | QueryRequired string string
  | QueryInvalid string string
  | QueryApi string api_error
  | QueryDecode string

definition needs :: "string \<Rightarrow> string \<Rightarrow> string \<Rightarrow> query_error option" where
  "needs tool what v = (if v = [] then Some (QueryRequired tool what) else None)"

definition run_query ::
    "('w) net \<Rightarrow> string \<Rightarrow> query_error option \<Rightarrow> pick_error + ('w) api_client \<Rightarrow> string \<Rightarrow> url_values
     \<Rightarrow> (string \<Rightarrow> 'p option) \<Rightarrow> ('p \<Rightarrow> observation) \<Rightarrow> 'w \<Rightarrow> (query_error + observation) \<times> 'w" where
  "run_query N tool check picked path params dec view w =
     (case check of
        Some e \<Rightarrow> (Inl e, w)
      | None \<Rightarrow>
          (case picked of
             Inl e \<Rightarrow> (Inl (QueryPick e), w)
           | Inr c \<Rightarrow>
               (case api_raw_get N c path params w of
                  (Inl e, w') \<Rightarrow> (Inl (QueryApi tool e), w')
                | (Inr body, w') \<Rightarrow>
                    (case dec body of
                       None \<Rightarrow> (Inl (QueryDecode tool), w')
                     | Some p \<Rightarrow> (Inr (view p), w')))))"

definition text_view :: "string \<Rightarrow> observation" where
  "text_view s = \<lparr>ob_text = s, ob_table = None, ob_raw = RawValue\<rparr>"

definition table_view :: "string \<Rightarrow> string list \<Rightarrow> align list \<Rightarrow> string list list \<Rightarrow> observation" where
  "table_view s hs as rows =
     \<lparr>ob_text = s, ob_table = Some \<lparr>tb_headers = hs, tb_rows = rows, tb_aligns = as\<rparr>, ob_raw = RawValue\<rparr>"

text \<open>A default for what is not positive, and a cap.\<close>

definition clamp_or :: "int \<Rightarrow> int \<Rightarrow> int \<Rightarrow> int" where
  "clamp_or dflt cap n = (let m = (if n \<le> 0 then dflt else n) in if cap < m then cap else m)"

text \<open>The end of a window, or now; its start, or so many seconds before the end. Seconds become
  nanoseconds by a multiplication of \<open>int64\<close>.\<close>

definition window_end :: "gotime \<Rightarrow> int \<Rightarrow> int" where
  "window_end clock e = (if e = 0 then clock div 1000000000 - 62135596800 else e)"

definition window_start :: "int \<Rightarrow> int \<Rightarrow> int \<Rightarrow> int" where
  "window_start back e s = (if s = 0 then wrap64 (e - back) else s)"

definition nanos :: "int \<Rightarrow> string" where
  "nanos s = show_int (wrap64 (s * 1000000000))"

record log_env =
  le_fmt :: gofmt
  le_clock :: gotime
  le_int :: "string \<Rightarrow> int option"
  le_nano :: "int \<Rightarrow> string"

section \<open>Loki\<close>

definition pick_loki :: "('w) api_client gomap \<Rightarrow> string \<Rightarrow> pick_error + ('w) api_client" where
  "pick_loki m name = pick_endpoint m name ''log'' ''loki endpoint''"

definition format_labels :: "gofmt \<Rightarrow> string gomap \<Rightarrow> string" where
  "format_labels F m =
     (if m = [] then ''{}''
      else ''{'' @ join (map (\<lambda>k. k @ ''='' @ fmt_q F (case gm_get m k of None \<Rightarrow> [] | Some v \<Rightarrow> v)) (gm_keys m)) '','' @ ''}'')"

definition loki_lines :: "log_env \<Rightarrow> (string gomap \<times> (string \<times> string) list) list \<Rightarrow> string list" where
  "loki_lines E streams =
     concat (map (\<lambda>(labels, vs). map (\<lambda>(ts, line).
       (case le_int E ts of None \<Rightarrow> ts | Some n \<Rightarrow> le_nano E n) @ ''  '' @ format_labels (le_fmt E) labels @ ''  '' @ line) vs) streams)"

record loki_args =
  lk_name :: string
  lk_query :: string
  lk_start :: int
  lk_end :: int
  lk_limit :: int

definition loki_query_params :: "log_env \<Rightarrow> loki_args \<Rightarrow> url_values" where
  "loki_query_params E a =
     (let e = window_end (le_clock E) (lk_end a); s = window_start 300 e (lk_start a) in
      [(''query'', [lk_query a]), (''start'', [nanos s]), (''end'', [nanos e]), (''limit'', [show_int (clamp_or 100 5000 (lk_limit a))])])"

definition loki_query_range ::
    "('w) net \<Rightarrow> log_env \<Rightarrow> (string \<Rightarrow> (string gomap \<times> (string \<times> string) list) list option) \<Rightarrow> ('w) api_client gomap
     \<Rightarrow> loki_args \<Rightarrow> 'w \<Rightarrow> (query_error + observation) \<times> 'w" where
  "loki_query_range N E dec cs a =
     run_query N ''log.loki_query_range'' (needs ''log.loki_query_range'' ''query'' (trim_space (lk_query a)))
       (pick_loki cs (lk_name a)) ''/loki/api/v1/query_range'' (loki_query_params E a) dec
       (\<lambda>streams. let text = join (loki_lines E streams) [newline] in text_view (if text = [] then ''(no matching log lines)'' else text))"

definition loki_labels ::
    "('w) net \<Rightarrow> (string \<Rightarrow> string list option) \<Rightarrow> ('w) api_client gomap \<Rightarrow> string \<Rightarrow> 'w \<Rightarrow> (query_error + observation) \<times> 'w" where
  "loki_labels N dec cs name =
     run_query N ''log.loki_labels'' None (pick_loki cs name) ''/loki/api/v1/labels'' [] dec (\<lambda>xs. text_view (join xs [newline]))"

definition loki_values_path :: "string \<Rightarrow> string" where
  "loki_values_path label = ''/loki/api/v1/label/'' @ path_escape label @ ''/values''"

definition loki_label_values ::
    "('w) net \<Rightarrow> (string \<Rightarrow> string list option) \<Rightarrow> ('w) api_client gomap \<Rightarrow> string \<Rightarrow> string \<Rightarrow> 'w \<Rightarrow> (query_error + observation) \<times> 'w" where
  "loki_label_values N dec cs name label =
     run_query N ''log.loki_label_values'' (needs ''log.loki_label_values'' ''label'' label) (pick_loki cs name)
       (loki_values_path label) [] dec
       (\<lambda>vs. table_view (show_nat (length vs) @ '' values for label '' @ label) [''VALUE''] [] (map (\<lambda>v. [v]) vs))"

definition loki_series_params :: "log_env \<Rightarrow> loki_args \<Rightarrow> url_values" where
  "loki_series_params E a =
     (let e = window_end (le_clock E) (lk_end a); s = window_start 3600 e (lk_start a) in
      [(''match[]'', [lk_query a]), (''start'', [nanos s]), (''end'', [nanos e])])"

definition loki_series ::
    "('w) net \<Rightarrow> log_env \<Rightarrow> (string \<Rightarrow> string gomap list option) \<Rightarrow> ('w) api_client gomap \<Rightarrow> loki_args \<Rightarrow> 'w
     \<Rightarrow> (query_error + observation) \<times> 'w" where
  "loki_series N E dec cs a =
     run_query N ''log.loki_series'' (needs ''log.loki_series'' ''match'' (lk_query a)) (pick_loki cs (lk_name a))
       ''/loki/api/v1/series'' (loki_series_params E a) dec (\<lambda>ms. text_view (join (map (format_labels (le_fmt E)) ms) [newline]))"

section \<open>Elasticsearch\<close>

definition pick_es :: "('w) api_client gomap \<Rightarrow> string \<Rightarrow> pick_error + ('w) api_client" where
  "pick_es m name = pick_endpoint m name ''log'' ''elasticsearch endpoint''"

record es_args =
  es_name :: string
  es_index :: string
  es_query :: string
  es_size :: int
  es_source :: string
  es_sort :: string

text \<open>An optional parameter is set only when it is given.\<close>

definition opt_param :: "string \<Rightarrow> string \<Rightarrow> url_values" where
  "opt_param k v = (if v = [] then [] else [(k, [v])])"

definition es_search_params :: "es_args \<Rightarrow> url_values" where
  "es_search_params a =
     [(''q'', [es_query a]), (''size'', [show_int (clamp_or 25 500 (es_size a))])] @
     opt_param ''_source'' (es_source a) @ opt_param ''sort'' (es_sort a)"

definition es_search_path :: "es_args \<Rightarrow> string" where
  "es_search_path a = ''/'' @ path_escape (if es_index a = [] then ''_all'' else es_index a) @ ''/_search''"

text \<open>A decoded answer: time taken, total, and the index, id and raw source of every hit.\<close>

definition es_hits_text :: "int \<times> int \<times> (string \<times> string \<times> string) list \<Rightarrow> string" where
  "es_hits_text p =
     (case p of (took, whole, hits) \<Rightarrow>
        ''total='' @ show_int whole @ '' took='' @ show_int took @ ''ms'' @ [newline] @
        concat (map (\<lambda>(index, hid, src). ''['' @ index @ ''/'' @ hid @ ''] '' @ src @ [newline]) hits))"

definition es_search ::
    "('w) net \<Rightarrow> (string \<Rightarrow> (int \<times> int \<times> (string \<times> string \<times> string) list) option) \<Rightarrow> ('w) api_client gomap \<Rightarrow> es_args \<Rightarrow> 'w
     \<Rightarrow> (query_error + observation) \<times> 'w" where
  "es_search N dec cs a =
     run_query N ''log.es_search'' (needs ''log.es_search'' ''query'' (trim_space (es_query a))) (pick_es cs (es_name a))
       (es_search_path a) (es_search_params a) dec (\<lambda>p. text_view (es_hits_text p))"

definition es_index_columns :: "string list" where
  "es_index_columns = [''health'', ''status'', ''index'', ''docs.count'', ''store.size'', ''pri'', ''rep'']"

text \<open>A decoded index gives the text of each of its fields.\<close>

definition es_indices ::
    "('w) net \<Rightarrow> (string \<Rightarrow> (string \<Rightarrow> string) list option) \<Rightarrow> ('w) api_client gomap \<Rightarrow> string \<Rightarrow> 'w \<Rightarrow> (query_error + observation) \<times> 'w" where
  "es_indices N dec cs name =
     run_query N ''log.es_indices'' None (pick_es cs name) ''/_cat/indices'' [(''format'', [''json''])] dec
       (\<lambda>is. table_view (show_nat (length is) @ '' indices'')
          [''HEALTH'', ''STATUS'', ''INDEX'', ''DOCS_COUNT'', ''STORE_SIZE'', ''PRI'', ''REP''] [] (map (\<lambda>m. map m es_index_columns) is))"

definition es_cluster_health ::
    "('w) net \<Rightarrow> (string \<Rightarrow> (string \<Rightarrow> string) option) \<Rightarrow> ('w) api_client gomap \<Rightarrow> string \<Rightarrow> 'w \<Rightarrow> (query_error + observation) \<times> 'w" where
  "es_cluster_health N dec cs name =
     run_query N ''log.es_cluster_health'' None (pick_es cs name) ''/_cluster/health'' [] dec
       (\<lambda>m. text_view (''cluster='' @ m ''cluster_name'' @ '' status='' @ m ''status'' @ '' nodes='' @ m ''number_of_nodes'' @
          '' active_shards='' @ m ''active_shards''))"

end
