(* ===== verification/Sparkline.thy ===== *)
theory Sparkline
  imports Go_Number
begin

text \<open>
  The sparkline of a series (\<open>internal/render/sparkline.go\<close>): the most recent values, negative ones
  clipped to zero, scaled to eight block characters; a value that is no number is a space.
\<close>

section \<open>Arithmetic the code uses\<close>

fun flt_sub :: "go_float \<Rightarrow> go_float \<Rightarrow> go_float" where
  "flt_sub (Fin x) (Fin y) = Fin (x - y)"
| "flt_sub PosInf (Fin y) = PosInf"
| "flt_sub NegInf (Fin y) = NegInf"
| "flt_sub (Fin x) PosInf = NegInf"
| "flt_sub (Fin x) NegInf = PosInf"
| "flt_sub PosInf NegInf = PosInf"
| "flt_sub NegInf PosInf = NegInf"
| "flt_sub a b = NaN"

definition max_float :: real where
  "max_float = (2 ^ 53 - 1) * 2 ^ 971"

definition clip_negative :: "go_float \<Rightarrow> go_float" where
  "clip_negative v = (if flt_less v (Fin 0) then Fin 0 else v)"

definition smallest :: "go_float list \<Rightarrow> go_float" where
  "smallest vs = fold (\<lambda>v m. if flt_less v m then v else m) vs (Fin max_float)"

definition largest :: "go_float list \<Rightarrow> go_float" where
  "largest vs = fold (\<lambda>v m. if flt_less m v then v else m) vs (Fin (- max_float))"

section \<open>Blocks\<close>

definition spark_blocks :: "string list" where
  "spark_blocks =
     [[CHR 0xE2, CHR 0x96, CHR 0x81], [CHR 0xE2, CHR 0x96, CHR 0x82], [CHR 0xE2, CHR 0x96, CHR 0x83], [CHR 0xE2, CHR 0x96, CHR 0x84],
      [CHR 0xE2, CHR 0x96, CHR 0x85], [CHR 0xE2, CHR 0x96, CHR 0x86], [CHR 0xE2, CHR 0x96, CHR 0x87], [CHR 0xE2, CHR 0x96, CHR 0x88]]"

text \<open>\<open>math.Round\<close> of what is not negative, and the clamped index. The conversion of \<open>NaN\<close> to an integer is
  left to the machine; the usual ones give zero or the least integer, which the clamp makes zero.\<close>

definition round_up :: "real \<Rightarrow> int" where
  "round_up x = (if 0 \<le> x then \<lfloor>x + 1 / 2\<rfloor> else - \<lfloor>- x + 1 / 2\<rfloor>)"

fun spark_index :: "go_float \<Rightarrow> nat" where
  "spark_index (Fin x) = nat (min 7 (max 0 (round_up (x * 7))))"
| "spark_index PosInf = 7"
| "spark_index a = 0"

definition spark_level :: "go_float \<Rightarrow> go_float \<Rightarrow> go_float \<Rightarrow> nat" where
  "spark_level lo hi v =
     (let rng = flt_sub hi lo in if rng = Fin 0 then 0 else spark_index (flt_div (flt_sub v lo) rng))"

definition spark_cell :: "go_float \<Rightarrow> go_float \<Rightarrow> go_float \<Rightarrow> string" where
  "spark_cell lo hi v = (if v = NaN then '' '' else spark_blocks ! spark_level lo hi v)"

definition recent :: "int \<Rightarrow> 'a list \<Rightarrow> 'a list" where
  "recent width xs = (if int (length xs) > width then drop (length xs - nat width) xs else xs)"

definition spark_cells :: "go_float list \<Rightarrow> int \<Rightarrow> string list" where
  "spark_cells series width =
     (if series = [] \<or> width \<le> 0 then []
      else (let vs = map clip_negative (recent width series); lo = smallest vs; hi = largest vs in
            if lo = Fin max_float then replicate (length vs) '' '' else map (spark_cell lo hi) vs))"

definition render_spark :: "go_float list \<Rightarrow> int \<Rightarrow> string" where
  "render_spark series width = concat (spark_cells series width)"

section \<open>Facts\<close>

lemma length_spark_cells: "int (length (spark_cells series width)) = min (int (length series)) (max 0 width)"
  by (auto simp: spark_cells_def recent_def Let_def)

lemma spark_level_range: "spark_level lo hi v < 8"
proof -
  have "spark_index x < 8" for x by (cases x) auto
  then show ?thesis by (simp add: spark_level_def Let_def)
qed

lemma spark_cells_blocks: "c \<in> set (spark_cells series width) \<Longrightarrow> c = '' '' \<or> c \<in> set spark_blocks"
proof -
  have "spark_blocks ! spark_level lo hi v \<in> set spark_blocks" for lo hi v
    using spark_level_range [of lo hi v] by (intro nth_mem) (simp add: spark_blocks_def)
  then show "c \<in> set (spark_cells series width) \<Longrightarrow> c = '' '' \<or> c \<in> set spark_blocks"
    by (auto simp: spark_cells_def spark_cell_def Let_def split: if_splits)
qed

lemma round_up_mono: "x \<le> y \<Longrightarrow> round_up x \<le> round_up y"
proof -
  assume xy: "x \<le> y"
  have neg: "z < 0 \<Longrightarrow> - \<lfloor>- z + 1 / 2\<rfloor> \<le> 0" for z :: real by simp
  have pos: "0 \<le> z \<Longrightarrow> 0 \<le> \<lfloor>z + 1 / 2\<rfloor>" for z :: real by simp
  consider "0 \<le> x" "0 \<le> y" | "x < 0" "0 \<le> y" | "x < 0" "y < 0" using xy by linarith
  then show ?thesis
  proof cases
    case 1
    then show ?thesis using xy by (simp add: round_up_def floor_mono)
  next
    case 2
    then have "round_up x = - \<lfloor>- x + 1 / 2\<rfloor>" "round_up y = \<lfloor>y + 1 / 2\<rfloor>" by (simp_all add: round_up_def)
    then show ?thesis using neg [of x] pos [of y] 2 by linarith
  next
    case 3
    have "\<lfloor>- y + 1 / 2\<rfloor> \<le> \<lfloor>- x + 1 / 2\<rfloor>" using xy by (intro floor_mono) simp
    then show ?thesis using 3 by (simp add: round_up_def)
  qed
qed

lemma spark_level_mono:
  assumes "lo < hi" "x \<le> y" shows "spark_level (Fin lo) (Fin hi) (Fin x) \<le> spark_level (Fin lo) (Fin hi) (Fin y)"
proof -
  have "(x - lo) / (hi - lo) * 7 \<le> (y - lo) / (hi - lo) * 7" using assms by (simp add: divide_right_mono)
  from round_up_mono [OF this] assms show ?thesis by (auto simp: spark_level_def Let_def intro!: nat_mono)
qed

lemma spark_level_ends: "lo < hi \<Longrightarrow> spark_level (Fin lo) (Fin hi) (Fin lo) = 0 \<and> spark_level (Fin lo) (Fin hi) (Fin hi) = 7"
  by (simp add: spark_level_def round_up_def Let_def)

lemma spark_example: "render_spark [Fin 0, Fin (- 3), NaN, Fin 7, Fin 14] 4 = concat [spark_blocks ! 0, '' '', spark_blocks ! 4, spark_blocks ! 7]"
  by (simp add: render_spark_def spark_cells_def recent_def clip_negative_def smallest_def largest_def max_float_def
      spark_cell_def spark_level_def round_up_def Let_def)

text \<open>A series that is infinite throughout is drawn blank, and one infinite value flattens the others and is
  itself drawn as the lowest block.\<close>

lemma infinite_series_blank: "spark_cells [PosInf, PosInf] 20 = ['' '', '' '']"
  by (simp add: spark_cells_def recent_def clip_negative_def smallest_def Let_def)

lemma infinite_peak_lowest: "spark_level (Fin lo) PosInf PosInf = 0 \<and> spark_level (Fin lo) PosInf (Fin x) = 0"
  by (simp add: spark_level_def round_up_def Let_def)

end
