(* ===== verification/Prom_Tools.thy ===== *)
theory Prom_Tools
  imports Prom_Client Log_Tools Sparkline Go_Number
begin

text \<open>
  The query tools over Prometheus (\<open>internal/core/tools/prom/query.go\<close>, \<open>query_range.go\<close>,
  \<open>label_values.go\<close>, \<open>series.go\<close>). Parameters: the order in which Go walks a map, the clock, the
  rendering of floats by a verb, and RFC 3339.
\<close>

section \<open>Tools and endpoints\<close>

record prom_env =
  pe_order :: "string list \<Rightarrow> string list"
  pe_clock :: gotime
  pe_rfc_parse :: "string \<Rightarrow> gotime option"
  pe_rfc :: "gotime \<Rightarrow> string"
  pe_float :: "string \<Rightarrow> go_float \<Rightarrow> string"
  pe_duration :: "int \<Rightarrow> string"
  pe_quote :: "string \<Rightarrow> string"
  pe_odd :: "go_float \<Rightarrow> int"

datatype prom_tool_error =
    PtEndpoint string string
  | PtRequired string string
  | PtToken string
  | PtTarget
  | PtWindow string
  | PtParse string string
  | PtStep
  | PtOrder string string
  | PtPoints int
  | PtTooLarge
  | PtClient string prom_error

record ('w) prom_tool =
  pt_clients :: "('w) prom_client gomap"
  pt_default :: string

definition first_key :: "(string list \<Rightarrow> string list) \<Rightarrow> 'v gomap \<Rightarrow> string" where
  "first_key order m = (case order (map fst m) of [] \<Rightarrow> [] | k # _ \<Rightarrow> k)"

definition new_prom_tool :: "prom_env \<Rightarrow> ('w) prom_client gomap \<Rightarrow> ('w) prom_tool" where
  "new_prom_tool E cs = \<lparr>pt_clients = cs, pt_default = first_key (pe_order E) cs\<rparr>"

definition resolve_client :: "string \<Rightarrow> ('w) prom_tool \<Rightarrow> string \<Rightarrow> prom_tool_error + ('w) prom_client" where
  "resolve_client tool t endpoint =
     (case gm_get (pt_clients t) (if endpoint = [] then pt_default t else endpoint) of
        None \<Rightarrow> Inl (PtEndpoint tool endpoint)
      | Some c \<Rightarrow> Inr c)"

text \<open>A time that may be left out.\<close>

definition optional_time :: "prom_env \<Rightarrow> string \<Rightarrow> string \<Rightarrow> prom_tool_error + gotime" where
  "optional_time E what s =
     (if s = [] then Inr 0 else (case pe_rfc_parse E s of None \<Rightarrow> Inl (PtParse what s) | Some t \<Rightarrow> Inr t))"

definition required_time :: "prom_env \<Rightarrow> string \<Rightarrow> string \<Rightarrow> prom_tool_error + gotime" where
  "required_time E what s = (case pe_rfc_parse E s of None \<Rightarrow> Inl (PtParse what s) | Some t \<Rightarrow> Inr t)"

text \<open>What a tool makes of an answer of its client.\<close>

definition observed :: "string \<Rightarrow> ('p \<Rightarrow> observation) \<Rightarrow> (prom_error + 'p) \<times> 'w \<Rightarrow> (prom_tool_error + observation) \<times> 'w" where
  "observed tool view r = (case r of (Inl e, w) \<Rightarrow> (Inl (PtClient tool e), w) | (Inr p, w) \<Rightarrow> (Inr (view p), w))"

section \<open>Rendering\<close>

definition labels_string :: "(string list \<Rightarrow> string list) \<Rightarrow> string gomap \<Rightarrow> string" where
  "labels_string order m =
     (if m = [] then ''{}''
      else ''{'' @ join (map (\<lambda>k. k @ ''='' @ (case gm_get m k of None \<Rightarrow> [] | Some v \<Rightarrow> v)) (order (map fst m))) '','' @ ''}'')"

definition series_sparkline :: "(go_float \<times> go_float) list \<Rightarrow> int \<Rightarrow> string" where
  "series_sparkline vs width = render_spark (map snd vs) width"

text \<open>The conversion of a float to \<open>int64\<close>; \<open>pe_odd\<close> is what the machine makes of one that does not fit.\<close>

definition to_int :: "prom_env \<Rightarrow> go_float \<Rightarrow> int" where
  "to_int E x =
     (case x of
        Fin r \<Rightarrow> if - max_int64 - 1 \<le> trunc r \<and> trunc r \<le> max_int64 then trunc r else pe_odd E x
      | _ \<Rightarrow> pe_odd E x)"

definition unix_moment :: "int \<Rightarrow> int \<Rightarrow> gotime" where
  "unix_moment s ns = (s + 62135596800) * 1000000000 + ns"

definition vector_row :: "prom_env \<Rightarrow> prom_sample \<Rightarrow> string list" where
  "vector_row E s =
     [labels_string (pe_order E) (ps_labels s), pe_float E ''%g'' (ps_value s), pe_rfc E (unix_moment (to_int E (ps_time s)) 0)]"

definition matrix_row :: "prom_env \<Rightarrow> prom_series \<Rightarrow> string list" where
  "matrix_row E s =
     [labels_string (pe_order E) (se_labels s), show_nat (length (se_values s)), series_sparkline (se_values s) 20]"

definition matrix_line :: "prom_env \<Rightarrow> prom_series \<Rightarrow> string" where
  "matrix_line E s = labels_string (pe_order E) (se_labels s) @ '' '' @ arrow @ '' '' @ series_sparkline (se_values s) 20 @ [newline]"

definition result_observation :: "prom_env \<Rightarrow> string \<Rightarrow> prom_result \<Rightarrow> observation" where
  "result_observation E q r =
     (if pr_type r = ''vector''
      then table_view (''query='' @ pe_quote E q @ '' resultType=vector samples='' @ show_nat (length (pr_vector r)))
             [''LABELS'', ''VALUE'', ''TIMESTAMP''] [AlignLeft, AlignRight, AlignRight] (map (vector_row E) (pr_vector r))
      else if pr_type r = ''matrix''
      then table_view (''query='' @ pe_quote E q @ '' resultType=matrix series='' @ show_nat (length (pr_matrix r)) @ [newline] @
               concat (map (matrix_line E) (pr_matrix r)))
             [''LABELS'', ''POINTS'', ''SPARKLINE''] [] (map (matrix_row E) (pr_matrix r))
      else if pr_type r = ''scalar''
      then text_view (case pr_scalar r of None \<Rightarrow> ''scalar: (empty)'' | Some s \<Rightarrow> ''scalar: '' @ pe_float E ''%g'' (ps_value s))
      else text_view (''resultType='' @ pr_type r @ '' (unhandled)''))"

section \<open>Instant and range queries\<close>

record query_args =
  qa_endpoint :: string
  qa_query :: string
  qa_time :: string

definition run_prom_query ::
    "prom_env \<Rightarrow> ('w) net \<Rightarrow> prom_decoders \<Rightarrow> ('w) prom_tool \<Rightarrow> query_args \<Rightarrow> 'w \<Rightarrow> (prom_tool_error + observation) \<times> 'w" where
  "run_prom_query E N D t a w =
     (case resolve_client ''prom'' t (qa_endpoint a) of
        Inl e \<Rightarrow> (Inl e, w)
      | Inr c \<Rightarrow>
          (case optional_time E ''time'' (qa_time a) of
             Inl e \<Rightarrow> (Inl e, w)
           | Inr ts \<Rightarrow> observed ''prom.query'' (result_observation E (qa_query a)) (prom_query N D c (qa_query a) ts w)))"

definition max_range_points :: int where
  "max_range_points = 11000"

record range_args =
  ra_endpoint :: string
  ra_query :: string
  ra_start :: string
  ra_end :: string
  ra_step :: string

text \<open>\<open>Time.Sub\<close> saturates at 64 bits.\<close>

definition time_sub :: "gotime \<Rightarrow> gotime \<Rightarrow> int" where
  "time_sub t u = max (- max_int64 - 1) (min max_int64 (t - u))"

definition range_check :: "prom_env \<Rightarrow> range_args \<Rightarrow> prom_tool_error + (gotime \<times> gotime \<times> int)" where
  "range_check E a =
     (case required_time E ''start'' (ra_start a) of
        Inl e \<Rightarrow> Inl e
      | Inr s \<Rightarrow>
          (case required_time E ''end'' (ra_end a) of
             Inl e \<Rightarrow> Inl e
           | Inr t \<Rightarrow>
               (case parse_duration (ra_step a) of
                  None \<Rightarrow> Inl (PtParse ''step'' (ra_step a))
                | Some step \<Rightarrow>
                    if step \<le> 0 then Inl PtStep
                    else if \<not> s < t then Inl (PtOrder (ra_end a) (ra_start a))
                    else if time_sub t s div step > max_range_points then Inl (PtPoints (time_sub t s div step))
                    else Inr (s, t, step))))"

definition run_query_range ::
    "prom_env \<Rightarrow> ('w) net \<Rightarrow> prom_decoders \<Rightarrow> ('w) prom_tool \<Rightarrow> range_args \<Rightarrow> 'w \<Rightarrow> (prom_tool_error + observation) \<times> 'w" where
  "run_query_range E N D t a w =
     (case resolve_client ''prom.query_range'' t (ra_endpoint a) of
        Inl e \<Rightarrow> (Inl e, w)
      | Inr c \<Rightarrow>
          (case range_check E a of
             Inl e \<Rightarrow> (Inl e, w)
           | Inr (s, u, step) \<Rightarrow>
               observed ''prom.query_range'' (result_observation E (ra_query a)) (prom_query_range N D c (ra_query a) s u step w)))"

section \<open>Labels and series\<close>

record select_args =
  sl_endpoint :: string
  sl_label :: string
  sl_matchers :: "string list"
  sl_start :: string
  sl_end :: string

definition select_window :: "prom_env \<Rightarrow> select_args \<Rightarrow> prom_tool_error + (gotime \<times> gotime)" where
  "select_window E a =
     (case optional_time E ''start'' (sl_start a) of
        Inl e \<Rightarrow> Inl e
      | Inr s \<Rightarrow> (case optional_time E ''end'' (sl_end a) of Inl e \<Rightarrow> Inl e | Inr t \<Rightarrow> Inr (s, t)))"

definition run_label_values ::
    "prom_env \<Rightarrow> ('w) net \<Rightarrow> prom_decoders \<Rightarrow> ('w) prom_tool \<Rightarrow> select_args \<Rightarrow> 'w \<Rightarrow> (prom_tool_error + observation) \<times> 'w" where
  "run_label_values E N D t a w =
     (if sl_label a = [] then (Inl (PtRequired ''prom.label_values'' ''label''), w)
      else (case resolve_client ''prom.label_values'' t (sl_endpoint a) of
              Inl e \<Rightarrow> (Inl e, w)
            | Inr c \<Rightarrow>
                (case select_window E a of
                   Inl e \<Rightarrow> (Inl e, w)
                 | Inr (s, u) \<Rightarrow>
                     observed ''prom.label_values''
                       (\<lambda>vs. table_view (''label='' @ pe_quote E (sl_label a) @ '' values='' @ show_nat (length vs) @ '': '' @ join vs '', '')
                          [''VALUE''] [] (map (\<lambda>v. [v]) vs))
                       (prom_label_values N D c (sl_label a) (sl_matchers a) s u w))))"

text \<open>The sorted union of the label names heads the table; a series without a label has an empty cell.\<close>

definition series_headers :: "string gomap list \<Rightarrow> string list" where
  "series_headers ss = sort (remdups (concat (map (map fst) ss)))"

definition series_row :: "string list \<Rightarrow> string gomap \<Rightarrow> string list" where
  "series_row headers s = map (\<lambda>h. case gm_get s h of None \<Rightarrow> [] | Some v \<Rightarrow> v) headers"

definition run_series ::
    "prom_env \<Rightarrow> ('w) net \<Rightarrow> prom_decoders \<Rightarrow> ('w) prom_tool \<Rightarrow> select_args \<Rightarrow> 'w \<Rightarrow> (prom_tool_error + observation) \<times> 'w" where
  "run_series E N D t a w =
     (if sl_matchers a = [] then (Inl (PtRequired ''prom.series'' ''at least one matcher''), w)
      else (case resolve_client ''prom.series'' t (sl_endpoint a) of
              Inl e \<Rightarrow> (Inl e, w)
            | Inr c \<Rightarrow>
                (case select_window E a of
                   Inl e \<Rightarrow> (Inl e, w)
                 | Inr (s, u) \<Rightarrow>
                     observed ''prom.series''
                       (\<lambda>ss. table_view (''series='' @ show_nat (length ss) @ '' matchers='' @ join (sl_matchers a) '','')
                          (series_headers ss) [] (map (series_row (series_headers ss)) ss))
                       (prom_series_of N D c (sl_matchers a) s u w))))"

section \<open>Facts\<close>

lemma range_check_bounds:
  assumes "range_check E a = Inr (s, t, step)"
  shows "s < t" "0 < step" "t - s \<le> max_int64 \<Longrightarrow> (t - s) div step \<le> max_range_points"
  using assms by (auto simp: range_check_def time_sub_def split: option.splits sum.splits if_splits)

lemma first_key_in: "set (order (map fst m)) = fst ` set m \<Longrightarrow> m \<noteq> [] \<Longrightarrow> first_key order m \<in> fst ` set m"
  by (auto simp: first_key_def split: list.split)

lemma default_client:
  assumes "\<And>ks. set (pe_order E ks) = set ks" "cs \<noteq> []"
  shows "\<exists>c. resolve_client tool (new_prom_tool E cs) [] = Inr c"
proof -
  have "first_key (pe_order E) cs \<in> fst ` set cs" using assms by (intro first_key_in) auto
  then obtain c where "gm_get cs (first_key (pe_order E) cs) = Some c"
    using weak_map_of_SomeI [of "first_key (pe_order E) cs"] by fastforce
  then show ?thesis by (simp add: resolve_client_def new_prom_tool_def)
qed

lemma series_row_headers: "length (series_row (series_headers ss) s) = length (series_headers ss)"
  by (simp add: series_row_def)

end
