(* ===== verification/Prom_Budget.thy ===== *)
theory Prom_Budget
  imports Prom_Tools "HOL-Library.State_Monad" "HOL-Library.Monad_Syntax"
begin

text \<open>
  The error budget (\<open>internal/core/tools/prom/error_budget.go\<close>): the bad-event ratio over several
  windows, each asked for at most once, the burn of every tier, the verdict, what is consumed and how
  long the rest lasts. The closures that share the cache are a state monad over the cache and the world
  the queries act on; \<open>pure_budget\<close> is the same report as a function of the ratios alone.
\<close>

section \<open>Tiers\<close>

record budget_tier =
  bt_short :: string
  bt_long :: string
  bt_threshold :: real
  bt_severity :: string

definition budget_tiers :: "budget_tier list" where
  "budget_tiers =
     [\<lparr>bt_short = ''5m'', bt_long = ''1h'', bt_threshold = 72 / 5, bt_severity = ''page''\<rparr>,
      \<lparr>bt_short = ''30m'', bt_long = ''6h'', bt_threshold = 6, bt_severity = ''page''\<rparr>,
      \<lparr>bt_short = ''6h'', bt_long = ''24h'', bt_threshold = 3, bt_severity = ''ticket''\<rparr>]"

record tier_result =
  tt_pair :: string
  tt_threshold :: real
  tt_severity :: string
  tt_burn_short :: real
  tt_burn_long :: real
  tt_have_data :: bool
  tt_fires :: bool

record budget_report =
  br_tiers :: "tier_result list"
  br_verdict :: string
  br_consumed :: real
  br_remaining :: real
  br_have_consumed :: bool
  br_headline :: real
  br_have_headline :: bool
  br_exhaustion :: string

definition severity_rank :: "string \<Rightarrow> nat" where
  "severity_rank s = (if s = ''ticket'' then 1 else if s = ''page'' then 2 else 0)"

definition escalate :: "string \<Rightarrow> string \<Rightarrow> string" where
  "escalate cur nxt = (if severity_rank cur < severity_rank nxt then nxt else cur)"

definition verdict_label :: "string \<Rightarrow> string" where
  "verdict_label worst =
     (if worst = ''page'' then ''PAGE '' @ em_dash @ '' budget burning fast''
      else if worst = ''ticket'' then ''TICKET '' @ em_dash @ '' budget burning slowly''
      else ''OK '' @ em_dash @ '' within budget burn limits'')"

definition clamp_pct :: "real \<Rightarrow> real" where
  "clamp_pct p = (if p < 0 then 0 else if p > 100 then 100 else p)"

definition short_budget_duration :: "prom_env \<Rightarrow> int \<Rightarrow> string" where
  "short_budget_duration E d =
     (if d \<ge> 86400000000000 then pe_float E ''%.1f'' (Fin (real_of_int d / 3600000000000 / 24)) @ '' days''
      else if d \<ge> 3600000000000 then pe_float E ''%.1f'' (Fin (real_of_int d / 3600000000000)) @ '' hours''
      else show_int (trunc (real_of_int d / 60000000000)) @ '' min'')"

definition exhaustion :: "prom_env \<Rightarrow> real \<Rightarrow> real option \<Rightarrow> string \<Rightarrow> string" where
  "exhaustion E rest burn slo =
     (if rest \<le> 0 then ''budget already exhausted''
      else (case burn of
              None \<Rightarrow> ''n/a (no current burn signal)''
            | Some b \<Rightarrow>
                if b < 1 then ''not on track to breach (burn < 1'' @ times_sign @ '')''
                else (case parse_window_duration slo of
                        None \<Rightarrow> ''n/a''
                      | Some w \<Rightarrow> short_budget_duration E (to_int E (Fin (real_of_int w * rest / b))))))"

section \<open>The closures\<close>

type_synonym 'w ratio_state = "real option gomap \<times> 'w"

definition ratio :: "(string \<Rightarrow> 'w \<Rightarrow> real option \<times> 'w) \<Rightarrow> string \<Rightarrow> ('w ratio_state, real option) state" where
  "ratio ask w =
     State (\<lambda>(cache, s).
       (case gm_get cache w of
          Some r \<Rightarrow> (r, cache, s)
        | None \<Rightarrow> (let (r, s') = ask w s in (r, gm_put w r cache, s'))))"

definition burn_at :: "(string \<Rightarrow> 'w \<Rightarrow> real option \<times> 'w) \<Rightarrow> real \<Rightarrow> string \<Rightarrow> ('w ratio_state, real option) state" where
  "burn_at ask budget w = do {
     r \<leftarrow> ratio ask w;
     State_Monad.return (map_option (\<lambda>x. x / budget) r)
   }"

definition burn_or_zero :: "real option \<Rightarrow> real" where
  "burn_or_zero b = (case b of None \<Rightarrow> 0 | Some x \<Rightarrow> x)"

definition tier_of :: "budget_tier \<Rightarrow> real option \<Rightarrow> real option \<Rightarrow> tier_result" where
  "tier_of t bs bl =
     \<lparr>tt_pair = bt_short t @ ''/'' @ bt_long t, tt_threshold = bt_threshold t, tt_severity = bt_severity t,
      tt_burn_short = burn_or_zero bs, tt_burn_long = burn_or_zero bl, tt_have_data = (bs \<noteq> None \<and> bl \<noteq> None),
      tt_fires = (bs \<noteq> None \<and> bl \<noteq> None \<and> burn_or_zero bs \<ge> bt_threshold t \<and> burn_or_zero bl \<ge> bt_threshold t)\<rparr>"

definition eval_tier :: "(string \<Rightarrow> 'w \<Rightarrow> real option \<times> 'w) \<Rightarrow> real \<Rightarrow> budget_tier \<Rightarrow> ('w ratio_state, tier_result) state" where
  "eval_tier ask budget t = do {
     bs \<leftarrow> burn_at ask budget (bt_short t);
     bl \<leftarrow> burn_at ask budget (bt_long t);
     State_Monad.return (tier_of t bs bl)
   }"

definition worst_of :: "tier_result list \<Rightarrow> string" where
  "worst_of ts = fold (\<lambda>t worst. if tt_fires t then escalate worst (tt_severity t) else worst) ts ''ok''"

definition headline_windows :: "string list" where
  "headline_windows = [''1h'', ''6h'', ''24h'']"

fun first_burn :: "(string \<Rightarrow> 'w \<Rightarrow> real option \<times> 'w) \<Rightarrow> real \<Rightarrow> string list \<Rightarrow> ('w ratio_state, real option) state" where
  "first_burn ask budget [] = State_Monad.return None"
| "first_burn ask budget (w # ws) = do {
     b \<leftarrow> burn_at ask budget w;
     (case b of None \<Rightarrow> first_burn ask budget ws | Some x \<Rightarrow> State_Monad.return (Some x))
   }"

definition report_of :: "prom_env \<Rightarrow> real \<Rightarrow> string \<Rightarrow> tier_result list \<Rightarrow> real option \<Rightarrow> real option \<Rightarrow> budget_report" where
  "report_of E budget slo ts head consumed =
     \<lparr>br_tiers = ts, br_verdict = verdict_label (worst_of ts),
      br_consumed = (case consumed of None \<Rightarrow> 0 | Some r \<Rightarrow> clamp_pct (r / budget * 100)),
      br_remaining = (case consumed of None \<Rightarrow> 0 | Some r \<Rightarrow> clamp_pct ((1 - r / budget) * 100)),
      br_have_consumed = (consumed \<noteq> None), br_headline = burn_or_zero head, br_have_headline = (head \<noteq> None),
      br_exhaustion = (case consumed of None \<Rightarrow> [] | Some r \<Rightarrow> exhaustion E (1 - r / budget) head slo)\<rparr>"

definition compute_budget ::
    "prom_env \<Rightarrow> (string \<Rightarrow> 'w \<Rightarrow> real option \<times> 'w) \<Rightarrow> real \<Rightarrow> string \<Rightarrow> ('w ratio_state, budget_report) state" where
  "compute_budget E ask target slo = do {
     ts \<leftarrow> State_Monad.traverse_list (eval_tier ask (1 - target)) budget_tiers;
     head \<leftarrow> first_burn ask (1 - target) headline_windows;
     consumed \<leftarrow> ratio ask slo;
     State_Monad.return (report_of E (1 - target) slo ts head consumed)
   }"

text \<open>The same from the ratios alone.\<close>

definition pure_burn :: "(string \<Rightarrow> real option) \<Rightarrow> real \<Rightarrow> string \<Rightarrow> real option" where
  "pure_burn f budget w = map_option (\<lambda>x. x / budget) (f w)"

fun pure_first :: "(string \<Rightarrow> real option) \<Rightarrow> real \<Rightarrow> string list \<Rightarrow> real option" where
  "pure_first f budget [] = None"
| "pure_first f budget (w # ws) = (case pure_burn f budget w of None \<Rightarrow> pure_first f budget ws | Some x \<Rightarrow> Some x)"

definition pure_budget :: "prom_env \<Rightarrow> real \<Rightarrow> string \<Rightarrow> (string \<Rightarrow> real option) \<Rightarrow> budget_report" where
  "pure_budget E target slo f =
     report_of E (1 - target) slo
       (map (\<lambda>t. tier_of t (pure_burn f (1 - target) (bt_short t)) (pure_burn f (1 - target) (bt_long t))) budget_tiers)
       (pure_first f (1 - target) headline_windows) (f slo)"

section \<open>The tool\<close>

definition scalar_or_first :: "prom_result \<Rightarrow> go_float option" where
  "scalar_or_first r =
     (case pr_scalar r of
        Some s \<Rightarrow> Some (ps_value s)
      | None \<Rightarrow> (case pr_vector r of [s] \<Rightarrow> Some (ps_value s) | _ \<Rightarrow> None))"

definition fin_value :: "go_float \<Rightarrow> real option" where
  "fin_value x = (case x of Fin r \<Rightarrow> Some r | _ \<Rightarrow> None)"

definition window_token :: string where
  "window_token = ''$window''"

definition ratio_query :: "string \<Rightarrow> string \<Rightarrow> string" where
  "ratio_query q w = replacer [(window_token, w)] q"

definition ratio_at ::
    "prom_env \<Rightarrow> ('w) net \<Rightarrow> prom_decoders \<Rightarrow> ('w) prom_client \<Rightarrow> string \<Rightarrow> string \<Rightarrow> 'w \<Rightarrow> real option \<times> 'w" where
  "ratio_at E N D c q w s =
     (case prom_query N D c (ratio_query q w) (pe_clock E) s of
        (Inl e, s') \<Rightarrow> (None, s')
      | (Inr r, s') \<Rightarrow> (Option.bind (scalar_or_first r) fin_value, s'))"

record budget_args =
  ba_endpoint :: string
  ba_query :: string
  ba_target :: real
  ba_window :: string

definition burn_cell :: "prom_env \<Rightarrow> real \<Rightarrow> bool \<Rightarrow> string" where
  "burn_cell E v have = (if have then pe_float E ''%.2g'' (Fin v) @ times_sign else em_dash)"

definition tier_row :: "prom_env \<Rightarrow> tier_result \<Rightarrow> string list" where
  "tier_row E t =
     [tt_pair t, burn_cell E (tt_burn_short t) (tt_have_data t), burn_cell E (tt_burn_long t) (tt_have_data t),
      pe_float E ''%.1f'' (Fin (tt_threshold t)) @ times_sign,
      (if \<not> tt_have_data t then ''no data'' else if tt_fires t then ''YES ('' @ tt_severity t @ '')'' else ''no'')]"

definition budget_observation :: "prom_env \<Rightarrow> real \<Rightarrow> string \<Rightarrow> budget_report \<Rightarrow> observation" where
  "budget_observation E target slo r =
     table_view
       (''SLO target='' @ pe_float E ''%.4g'' (Fin (target * 100)) @ ''% budget='' @ pe_float E ''%.4g'' (Fin ((1 - target) * 100)) @
        ''% window='' @ slo @ '' '' @ arrow @ '' '' @ br_verdict r @ [newline] @
        (if br_have_consumed r
         then ''budget consumed='' @ pe_float E ''%.1f'' (Fin (br_consumed r)) @ ''% remaining='' @ pe_float E ''%.1f'' (Fin (br_remaining r)) @ ''%''
         else ''budget consumed=n/a (no data over the SLO window)'') @
        (if br_have_headline r then '', current burn='' @ pe_float E ''%.2g'' (Fin (br_headline r)) @ times_sign else []) @
        (if br_exhaustion r \<noteq> [] then '', time-to-exhaustion='' @ br_exhaustion r else []))
       [''WINDOW'', ''BURN_SHORT'', ''BURN_LONG'', ''THRESHOLD'', ''FIRES'']
       [AlignLeft, AlignRight, AlignRight, AlignRight, AlignLeft] (map (tier_row E) (br_tiers r))"

definition budget_check :: "budget_args \<Rightarrow> prom_tool_error + string" where
  "budget_check a =
     (if ba_query a = [] then Inl (PtRequired ''prom.error_budget'' ''error_query'')
      else if \<not> contains (ba_query a) window_token then Inl (PtToken window_token)
      else if ba_target a \<le> 0 \<or> ba_target a \<ge> 1 then Inl PtTarget
      else (let slo = (if ba_window a = [] then ''30d'' else ba_window a) in
            if parse_window_duration slo = None then Inl (PtWindow slo) else Inr slo))"

definition run_error_budget ::
    "prom_env \<Rightarrow> ('w) net \<Rightarrow> prom_decoders \<Rightarrow> ('w) prom_tool \<Rightarrow> budget_args \<Rightarrow> 'w \<Rightarrow> (prom_tool_error + observation) \<times> 'w" where
  "run_error_budget E N D t a w =
     (case budget_check a of
        Inl e \<Rightarrow> (Inl e, w)
      | Inr slo \<Rightarrow>
          (case resolve_client ''prom.error_budget'' t (ba_endpoint a) of
             Inl e \<Rightarrow> (Inl e, w)
           | Inr c \<Rightarrow>
               (case run_state (compute_budget E (ratio_at E N D c (ba_query a)) (ba_target a) slo) ([], w) of
                  (rep, cache, w') \<Rightarrow> (Inr (budget_observation E (ba_target a) slo rep), w'))))"

text \<open>
  The memoised computation of the error budget against the pure report: it returns what the report is
  for the ratios it has cached, and asks for no window twice. Then the verdict and the percentages.
\<close>

section \<open>What a step with the cache computes\<close>

definition computes :: "('w ratio_state, 'a) state \<Rightarrow> ((string \<Rightarrow> real option) \<Rightarrow> 'a) \<Rightarrow> bool" where
  "computes m f \<longleftrightarrow>
     (\<forall>c s v c' s'. run_state m (c, s) = (v, c', s') \<longrightarrow>
        map_of c \<subseteq>\<^sub>m map_of c' \<and> (\<forall>g. map_of c' \<subseteq>\<^sub>m (\<lambda>w. Some (g w)) \<longrightarrow> v = f g))"

lemma computesI:
  assumes "\<And>c s v c' s'. run_state m (c, s) = (v, c', s') \<Longrightarrow> map_of c \<subseteq>\<^sub>m map_of c'"
    and "\<And>c s v c' s' g. run_state m (c, s) = (v, c', s') \<Longrightarrow> map_of c' \<subseteq>\<^sub>m (\<lambda>w. Some (g w)) \<Longrightarrow> v = f g"
  shows "computes m f"
  unfolding computes_def using assms by blast

lemma computesD:
  assumes "computes m f" "run_state m (c, s) = (v, c', s')"
  shows "map_of c \<subseteq>\<^sub>m map_of c'" "map_of c' \<subseteq>\<^sub>m (\<lambda>w. Some (g w)) \<Longrightarrow> v = f g"
  using assms unfolding computes_def by blast+

lemma computes_return: "computes (State_Monad.return v) (\<lambda>g. v)"
  by (rule computesI) (auto simp: State_Monad.return_def)

lemma computes_bind:
  assumes m: "computes m f" and k: "\<And>x. computes (k x) (h x)"
  shows "computes (State_Monad.bind m k) (\<lambda>g. h (f g) g)"
proof (rule computesI)
  fix c s v c' s'
  assume run: "run_state (State_Monad.bind m k) (c, s) = (v, c', s')"
  obtain x c1 s1 where 1: "run_state m (c, s) = (x, c1, s1)" by (metis prod_cases3)
  then have 2: "run_state (k x) (c1, s1) = (v, c', s')" using run by (simp add: State_Monad.bind_def)
  show "map_of c \<subseteq>\<^sub>m map_of c'" using computesD(1) [OF m 1] computesD(1) [OF k 2] by (rule map_le_trans)
  fix g
  assume g: "map_of c' \<subseteq>\<^sub>m (\<lambda>w. Some (g w))"
  then have "x = f g" using computesD(2) [OF m 1] computesD(1) [OF k 2] by (blast intro: map_le_trans)
  then show "v = h (f g) g" using computesD(2) [OF k 2 g] by simp
qed

lemma computes_ratio: "computes (ratio ask w) (\<lambda>g. g w)"
proof (rule computesI)
  fix c s v c' s'
  assume run: "run_state (ratio ask w) (c, s) = (v, c', s')"
  then show "map_of c \<subseteq>\<^sub>m map_of c'"
    by (auto simp: ratio_def map_le_def update_conv' Let_def case_prod_unfold split: option.splits)
  fix g
  assume "map_of c' \<subseteq>\<^sub>m (\<lambda>w. Some (g w))"
  moreover have "map_of c' w = Some v"
    using run by (auto simp: ratio_def update_conv' Let_def case_prod_unfold split: option.splits)
  ultimately show "v = g w" by (metis domI map_le_def option.inject)
qed

lemma computes_traverse:
  "(\<And>x. computes (k x) (h x)) \<Longrightarrow> computes (State_Monad.traverse_list k xs) (\<lambda>g. map (\<lambda>x. h x g) xs)"
proof (induction xs)
  case Nil
  then show ?case using computes_return [of "[]"] by simp
next
  case (Cons x xs)
  have "computes (State_Monad.bind (k x) (\<lambda>y. State_Monad.bind (State_Monad.traverse_list k xs) (\<lambda>ys. State_Monad.return (y # ys))))
          (\<lambda>g. h x g # map (\<lambda>x. h x g) xs)"
    by (intro computes_bind computes_return Cons)
  then show ?case by simp
qed

lemma computes_burn: "computes (burn_at ask budget w) (\<lambda>g. pure_burn g budget w)"
  unfolding burn_at_def pure_burn_def
  by (rule computes_bind [OF computes_ratio computes_return])

lemma computes_tier:
  "computes (eval_tier ask budget t) (\<lambda>g. tier_of t (pure_burn g budget (bt_short t)) (pure_burn g budget (bt_long t)))"
  unfolding eval_tier_def by (intro computes_bind computes_burn computes_return)

lemma computes_first: "computes (first_burn ask budget ws) (\<lambda>g. pure_first g budget ws)"
proof (induction ws)
  case (Cons w ws)
  have "computes (case b of None \<Rightarrow> first_burn ask budget ws | Some x \<Rightarrow> State_Monad.return (Some x))
     (\<lambda>g. case b of None \<Rightarrow> pure_first g budget ws | Some x \<Rightarrow> Some x)" for b
    using Cons computes_return [of "b"] by (cases b) auto
  from computes_bind [OF computes_burn this] show ?case by simp
qed (simp add: computes_return)

lemma computes_budget: "computes (compute_budget E ask target slo) (pure_budget E target slo)"
proof -
  have "computes (compute_budget E ask target slo)
     (\<lambda>g. report_of E (1 - target) slo
        (map (\<lambda>t. tier_of t (pure_burn g (1 - target) (bt_short t)) (pure_burn g (1 - target) (bt_long t))) budget_tiers)
        (pure_first g (1 - target) headline_windows) (g slo))"
    unfolding compute_budget_def
    by (intro computes_bind computes_traverse computes_tier computes_first computes_ratio computes_return)
  then show ?thesis by (simp add: pure_budget_def [abs_def])
qed

section \<open>What a step with the cache asks\<close>

text \<open>A world that keeps the windows it is asked for; with the cache it holds each of them once.\<close>

definition asked :: "(string list \<Rightarrow> string \<Rightarrow> real option) \<Rightarrow> string \<Rightarrow> string list \<Rightarrow> real option \<times> string list" where
  "asked f w h = (f h w, h @ [w])"

definition once :: "string set \<Rightarrow> string list ratio_state \<Rightarrow> bool" where
  "once W st \<longleftrightarrow> gm_wf (fst st) \<and> snd st = map fst (fst st) \<and> set (snd st) \<subseteq> W"

definition keeps :: "('s \<Rightarrow> bool) \<Rightarrow> ('s, 'a) state \<Rightarrow> bool" where
  "keeps P m \<longleftrightarrow> (\<forall>st. P st \<longrightarrow> P (snd (run_state m st)))"

lemma keeps_return: "keeps P (State_Monad.return v)"
  by (simp add: keeps_def State_Monad.return_def)

lemma keeps_bind: "keeps P m \<Longrightarrow> (\<And>x. keeps P (k x)) \<Longrightarrow> keeps P (State_Monad.bind m k)"
  by (auto simp: keeps_def State_Monad.bind_def case_prod_unfold)

lemma keeps_traverse: "(\<And>x. x \<in> set xs \<Longrightarrow> keeps P (k x)) \<Longrightarrow> keeps P (State_Monad.traverse_list k xs)"
  by (induction xs) (auto intro!: keeps_bind keeps_return)

lemma once_ratio: "w \<in> W \<Longrightarrow> keeps (once W) (ratio (asked f) w)"
  by (auto simp: keeps_def once_def ratio_def asked_def update_keys map_of_eq_None_iff split: option.split)

lemma once_burn: "w \<in> W \<Longrightarrow> keeps (once W) (burn_at (asked f) budget w)"
  unfolding burn_at_def by (intro keeps_bind once_ratio keeps_return)

lemma once_first: "set ws \<subseteq> W \<Longrightarrow> keeps (once W) (first_burn (asked f) budget ws)"
  by (induction ws) (auto intro!: keeps_bind once_burn keeps_return split: option.split)

lemma once_budget:
  assumes "{''5m'', ''30m'', ''1h'', ''6h'', ''24h'', slo} \<subseteq> W"
  shows "keeps (once W) (compute_budget E (asked f) target slo)"
  unfolding compute_budget_def eval_tier_def using assms
  by (intro keeps_bind keeps_traverse once_burn once_first once_ratio keeps_return)
    (auto simp: budget_tiers_def headline_windows_def)

section \<open>The verdict and the percentages\<close>

definition over :: "(string \<Rightarrow> real option) \<Rightarrow> real \<Rightarrow> string \<Rightarrow> bool" where
  "over f limit w \<longleftrightarrow> (case f w of None \<Rightarrow> False | Some r \<Rightarrow> limit \<le> r)"

lemma tier_fires:
  "0 < budget \<Longrightarrow> tt_fires (tier_of t (pure_burn f budget (bt_short t)) (pure_burn f budget (bt_long t))) \<longleftrightarrow>
     over f (bt_threshold t * budget) (bt_short t) \<and> over f (bt_threshold t * budget) (bt_long t)"
  by (auto simp: tier_of_def pure_burn_def over_def burn_or_zero_def pos_le_divide_eq split: option.splits)

lemma verdict_pages:
  assumes "target < 1"
  shows "br_verdict (pure_budget E target slo f) = verdict_label
     (if over f (72 / 5 * (1 - target)) ''5m'' \<and> over f (72 / 5 * (1 - target)) ''1h'' \<or>
         over f (6 * (1 - target)) ''30m'' \<and> over f (6 * (1 - target)) ''6h'' then ''page''
      else if over f (3 * (1 - target)) ''6h'' \<and> over f (3 * (1 - target)) ''24h'' then ''ticket'' else ''ok'')"
proof -
  define fires where "fires = (\<lambda>t :: budget_tier. over f (bt_threshold t * (1 - target)) (bt_short t) \<and> over f (bt_threshold t * (1 - target)) (bt_long t))"
  have "tt_fires (tier_of t (pure_burn f (1 - target) (bt_short t)) (pure_burn f (1 - target) (bt_long t))) = fires t" for t
    using assms by (simp add: tier_fires fires_def)
  moreover have "tt_severity (tier_of t a b) = bt_severity t" for t a b by (simp add: tier_of_def)
  ultimately have "br_verdict (pure_budget E target slo f) =
      verdict_label (fold (\<lambda>t worst. if fires t then escalate worst (bt_severity t) else worst) budget_tiers ''ok'')"
    by (simp only: pure_budget_def report_of_def worst_of_def fold_map comp_def budget_report.simps)
  then show ?thesis by (simp add: budget_tiers_def escalate_def severity_rank_def fires_def)
qed

lemma percentages:
  assumes "f slo = Some r" "0 \<le> r" "r \<le> 1 - target" "target < 1"
  shows "br_consumed (pure_budget E target slo f) + br_remaining (pure_budget E target slo f) = 100"
proof -
  define x where "x = r / (1 - target)"
  have "0 \<le> x" "x \<le> 1" using assms by (simp_all add: x_def)
  then have "clamp_pct (x * 100) + clamp_pct ((1 - x) * 100) = 100" by (simp add: clamp_pct_def)
  then show ?thesis using assms(1) by (simp add: pure_budget_def report_of_def x_def)
qed

lemma percentages_range:
  "0 \<le> br_consumed (pure_budget E target slo f) \<and> br_consumed (pure_budget E target slo f) \<le> 100 \<and>
   0 \<le> br_remaining (pure_budget E target slo f) \<and> br_remaining (pure_budget E target slo f) \<le> 100"
  by (auto simp: pure_budget_def report_of_def clamp_pct_def split: option.split)

end
