(* ===== verification/Trace_Tools.thy ===== *)
theory Trace_Tools
  imports Log_Tools Correlate_Cause Go_Number
begin

text \<open>
  The trace tools (\<open>internal/core/tools/trace/tempo.go\<close>, \<open>jaeger.go\<close>, \<open>service_graph.go\<close>,
  \<open>route_red.go\<close>): searches, single traces, and the service graph and per-route figures derived from
  Tempo's metrics, whose values are floats and may be \<open>NaN\<close>. The five queries of the route tool run
  one after the other; the code starts them together and reports the first failure.
\<close>

section \<open>Tempo\<close>

definition pick_tempo :: "('w) api_client gomap \<Rightarrow> string \<Rightarrow> pick_error + ('w) api_client" where
  "pick_tempo m name = pick_endpoint m name ''trace'' ''tempo endpoint''"

definition tempo_get_trace ::
    "('w) net \<Rightarrow> ('w) api_client gomap \<Rightarrow> string \<Rightarrow> string \<Rightarrow> 'w \<Rightarrow> (query_error + observation) \<times> 'w" where
  "tempo_get_trace N cs name tid =
     run_query N ''trace.tempo_get_trace'' (needs ''trace.tempo_get_trace'' ''trace_id'' tid) (pick_tempo cs name)
       (''/api/traces/'' @ path_escape tid) [] Some text_view"

record trace_args =
  tr_name :: string
  tr_service :: string
  tr_operation :: string
  tr_query :: string
  tr_tags :: string
  tr_min :: string
  tr_start :: int
  tr_end :: int
  tr_limit :: int

definition tempo_search_params :: "log_env \<Rightarrow> trace_args \<Rightarrow> url_values" where
  "tempo_search_params E a =
     (let e = window_end (le_clock E) (tr_end a); s = window_start 3600 e (tr_start a) in
      [(''start'', [show_int s]), (''end'', [show_int e]), (''limit'', [show_int (clamp_or 20 200 (tr_limit a))])] @
      opt_param ''q'' (tr_query a) @ opt_param ''tags'' (tr_tags a))"

definition tempo_search ::
    "('w) net \<Rightarrow> log_env \<Rightarrow> ('w) api_client gomap \<Rightarrow> trace_args \<Rightarrow> 'w \<Rightarrow> (query_error + observation) \<times> 'w" where
  "tempo_search N E cs a =
     run_query N ''trace.tempo_search''
       (if tr_query a = [] \<and> tr_tags a = [] then Some (QueryRequired ''trace.tempo_search'' ''one of query or tags'') else None)
       (pick_tempo cs (tr_name a)) ''/api/search'' (tempo_search_params E a) Some text_view"

section \<open>Jaeger\<close>

definition pick_jaeger :: "('w) api_client gomap \<Rightarrow> string \<Rightarrow> pick_error + ('w) api_client" where
  "pick_jaeger m name = pick_endpoint m name ''trace'' ''jaeger endpoint''"

definition jaeger_services ::
    "('w) net \<Rightarrow> (string \<Rightarrow> string list option) \<Rightarrow> ('w) api_client gomap \<Rightarrow> string \<Rightarrow> 'w \<Rightarrow> (query_error + observation) \<times> 'w" where
  "jaeger_services N dec cs name =
     run_query N ''trace.jaeger_services'' None (pick_jaeger cs name) ''/api/services'' [] dec (\<lambda>xs. text_view (join xs [newline]))"

definition jaeger_operations ::
    "('w) net \<Rightarrow> (string \<Rightarrow> string list option) \<Rightarrow> ('w) api_client gomap \<Rightarrow> string \<Rightarrow> string \<Rightarrow> 'w \<Rightarrow> (query_error + observation) \<times> 'w" where
  "jaeger_operations N dec cs name service =
     run_query N ''trace.jaeger_operations'' (needs ''trace.jaeger_operations'' ''service'' service) (pick_jaeger cs name)
       (''/api/services/'' @ path_escape service @ ''/operations'') [] dec (\<lambda>xs. text_view (join xs [newline]))"

definition micros :: "int \<Rightarrow> string" where
  "micros s = show_int (wrap64 (s * 1000000))"

definition jaeger_search_params :: "log_env \<Rightarrow> trace_args \<Rightarrow> url_values" where
  "jaeger_search_params E a =
     (let e = window_end (le_clock E) (tr_end a); s = window_start 3600 e (tr_start a) in
      [(''service'', [tr_service a]), (''start'', [micros s]), (''end'', [micros e]),
       (''limit'', [show_int (clamp_or 20 200 (tr_limit a))])] @
      opt_param ''operation'' (tr_operation a) @ opt_param ''tags'' (tr_tags a) @ opt_param ''minDuration'' (tr_min a))"

record jaeger_span =
  js_operation :: string
  js_duration :: int
  js_process :: string
  js_references :: "string list"

record jaeger_trace =
  jt_id :: string
  jt_spans :: "jaeger_span list"
  jt_processes :: "string gomap"

text \<open>The first width without a reference is the root.\<close>

definition jaeger_row :: "jaeger_trace \<Rightarrow> string list" where
  "jaeger_row t =
     (case List.find (\<lambda>sp. list_all (\<lambda>r. r = []) (js_references sp)) (jt_spans t) of
        None \<Rightarrow> [jt_id t, show_nat (length (jt_spans t)), [], [], ''0'']
      | Some sp \<Rightarrow>
          [jt_id t, show_nat (length (jt_spans t)), (case gm_get (jt_processes t) (js_process sp) of None \<Rightarrow> [] | Some svc \<Rightarrow> svc),
           js_operation sp, show_int (if 0 \<le> js_duration sp then js_duration sp div 1000 else - (- js_duration sp div 1000))])"

definition jaeger_search ::
    "('w) net \<Rightarrow> log_env \<Rightarrow> (string \<Rightarrow> jaeger_trace list option) \<Rightarrow> ('w) api_client gomap \<Rightarrow> trace_args \<Rightarrow> 'w
     \<Rightarrow> (query_error + observation) \<times> 'w" where
  "jaeger_search N E dec cs a =
     run_query N ''trace.jaeger_search_traces'' (needs ''trace.jaeger_search_traces'' ''service'' (tr_service a))
       (pick_jaeger cs (tr_name a)) ''/api/traces'' (jaeger_search_params E a) dec
       (\<lambda>ts. table_view (show_nat (length ts) @ '' traces'') [''TRACE_ID'', ''SPANS'', ''ROOT_SERVICE'', ''ROOT_OP'', ''DUR_MS''] []
          (map jaeger_row ts))"

section \<open>Ranges and windows\<close>

record range_env =
  re_clock :: gotime
  re_parse :: "string \<Rightarrow> gotime option"
  re_rfc :: "gotime \<Rightarrow> string"
  re_fixed :: "nat \<Rightarrow> go_float \<Rightarrow> string"
  re_percent :: "go_float \<Rightarrow> string"
  re_float :: "string \<Rightarrow> go_float option"

definition resolve_range :: "range_env \<Rightarrow> string \<Rightarrow> string \<Rightarrow> int \<Rightarrow> query_error + (gotime \<times> gotime)" where
  "resolve_range E until since back =
     (case (if until = [] then Some (re_clock E) else re_parse E until) of
        None \<Rightarrow> Inl (QueryInvalid ''parse until'' until)
      | Some u \<Rightarrow>
          (case (if since = [] then Some (u - back) else re_parse E since) of
             None \<Rightarrow> Inl (QueryInvalid ''parse since'' since)
           | Some s \<Rightarrow>
               if \<not> s < u then Inl (QueryInvalid ''until must be after since'' (re_rfc E u @ '' '' @ re_rfc E s))
               else Inr (u, s)))"

definition second_span :: int where "second_span = 1000000000"

definition prom_rate_window :: "int \<Rightarrow> string" where
  "prom_rate_window width =
     (if 86400 * second_span \<le> width then ''1d''
      else if 21600 * second_span \<le> width then ''6h''
      else if 3600 * second_span \<le> width then ''1h''
      else if 900 * second_span \<le> width then ''15m''
      else if 300 * second_span \<le> width then ''5m''
      else ''1m'')"

text \<open>A series of a range answer: its labels and its last value.\<close>

type_synonym metric_series = "string gomap \<times> go_float"

definition label :: "string \<Rightarrow> metric_series \<Rightarrow> string" where
  "label k s = (case gm_get (fst s) k of None \<Rightarrow> [] | Some v \<Rightarrow> v)"

text \<open>The decoded envelope: the status and, per series, its labels and the texts of its points. A text that
  is no JSON number fails the whole decoding; the last value that \<open>Float64\<close> rejects drops its series.\<close>

type_synonym raw_matrix = "string \<times> (string gomap \<times> (string \<times> string) list) list"

definition tempo_matrix :: "(string \<Rightarrow> go_float option) \<Rightarrow> raw_matrix \<Rightarrow> metric_series list option" where
  "tempo_matrix float p =
     (if \<not> list_all (\<lambda>(labels, vs). list_all (\<lambda>(ts, v). is_valid_number ts \<and> is_valid_number v) vs) (snd p) then None
      else if fst p \<noteq> [] \<and> fst p \<noteq> ''success'' then None
      else Some (List.map_filter (\<lambda>(labels, vs). if vs = [] then None else map_option (Pair labels) (float (snd (last vs)))) (snd p)))"

definition metrics_params :: "string \<Rightarrow> gotime \<Rightarrow> gotime \<Rightarrow> url_values" where
  "metrics_params q since until =
     [(''q'', [q]), (''start'', [show_int (unix_seconds since)]), (''end'', [show_int (unix_seconds until)]), (''step'', [''60s''])]"

definition query_tempo_metrics ::
    "('w) net \<Rightarrow> (string \<Rightarrow> go_float option) \<Rightarrow> (string \<Rightarrow> raw_matrix option) \<Rightarrow> ('w) api_client \<Rightarrow> string
     \<Rightarrow> gotime \<Rightarrow> gotime \<Rightarrow> 'w \<Rightarrow> (query_error + metric_series list) \<times> 'w" where
  "query_tempo_metrics N float dec c q since until w =
     (case api_raw_get N c ''/api/metrics/query_range'' (metrics_params q since until) w of
        (Inl e, w') \<Rightarrow> (Inl (QueryApi [] e), w')
      | (Inr body, w') \<Rightarrow>
          (case Option.bind (dec body) (tempo_matrix float) of
             None \<Rightarrow> (Inl (QueryDecode []), w')
           | Some ss \<Rightarrow> (Inr ss, w')))"

section \<open>The service graph\<close>

record graph_edge =
  ge_client :: string
  ge_server :: string
  ge_req :: go_float
  ge_fail :: go_float
  ge_err :: go_float

definition edge_key :: "metric_series \<Rightarrow> string" where
  "edge_key s = label ''client'' s @ arrow @ label ''server'' s"

definition fail_index :: "metric_series list \<Rightarrow> go_float gomap" where
  "fail_index failures = fold (\<lambda>s m. gm_put (edge_key s) (snd s) m) failures []"

definition build_edge :: "go_float gomap \<Rightarrow> go_float \<Rightarrow> metric_series \<Rightarrow> graph_edge option" where
  "build_edge idx least s =
     (if flt_less (snd s) least then None
      else (let fail = (case gm_get idx (edge_key s) of None \<Rightarrow> Fin 0 | Some f \<Rightarrow> f) in
            Some \<lparr>ge_client = label ''client'' s, ge_server = label ''server'' s, ge_req = snd s, ge_fail = fail,
                  ge_err = (if flt_pos (snd s) then flt_div fail (snd s) else Fin 0)\<rparr>))"

text \<open>The order of the edges is a stable sort by a comparison; with a \<open>NaN\<close> rate it is no order, so the
  sort is a parameter.\<close>

definition edge_before :: "graph_edge \<Rightarrow> graph_edge \<Rightarrow> bool" where
  "edge_before a b \<longleftrightarrow>
     (if ge_req a \<noteq> ge_req b \<or> ge_req a = NaN then flt_less (ge_req b) (ge_req a)
      else ge_client a @ ge_server a < ge_client b @ ge_server b)"

definition build_edges ::
    "(graph_edge list \<Rightarrow> graph_edge list) \<Rightarrow> metric_series list \<Rightarrow> metric_series list \<Rightarrow> go_float \<Rightarrow> graph_edge list" where
  "build_edges srt totals failures least = srt (List.map_filter (build_edge (fail_index failures) least) totals)"

definition edge_row :: "range_env \<Rightarrow> graph_edge \<Rightarrow> string list" where
  "edge_row E e = [ge_client e, ge_server e, re_fixed E 3 (ge_req e), re_percent E (ge_err e) @ ''%'']"

definition render_edges :: "range_env \<Rightarrow> graph_edge list \<Rightarrow> int \<Rightarrow> observation" where
  "render_edges E es cap =
     (let shown = min (length es) (nat cap) in
      table_view (if es = [] then ''(no service-graph edges above threshold)''
                  else show_nat (length es) @ '' edges (showing '' @ show_nat shown @ '')'')
        [''CALLER'', ''CALLEE'', ''REQ_PER_SEC'', ''ERR_RATE''] [AlignLeft, AlignLeft, AlignRight, AlignRight]
        (map (edge_row E) (take shown es)))"

record graph_args =
  ga_name :: string
  ga_since :: string
  ga_until :: string
  ga_least :: go_float
  ga_limit :: int

definition least_rate :: "graph_args \<Rightarrow> go_float" where
  "least_rate a = (if flt_less (ga_least a) (Fin 0) then Fin (1 / 10) else ga_least a)"

definition graph_query :: "string \<Rightarrow> string \<Rightarrow> string" where
  "graph_query counter window = ''sum by (server, client) (rate('' @ counter @ ''['' @ window @ '']))''"

definition service_graph ::
    "('w) net \<Rightarrow> range_env \<Rightarrow> (graph_edge list \<Rightarrow> graph_edge list)
     \<Rightarrow> (string \<Rightarrow> raw_matrix option) \<Rightarrow> ('w) api_client gomap \<Rightarrow> graph_args \<Rightarrow> 'w
     \<Rightarrow> (query_error + observation) \<times> 'w" where
  "service_graph N E srt dec cs a w =
     (case resolve_range E (ga_until a) (ga_since a) (300 * second_span) of
        Inl e \<Rightarrow> (Inl e, w)
      | Inr (until, since) \<Rightarrow>
          (case pick_tempo cs (ga_name a) of
             Inl e \<Rightarrow> (Inl (QueryPick e), w)
           | Inr c \<Rightarrow>
               (let window = prom_rate_window (until - since) in
                case query_tempo_metrics N (re_float E) dec c (graph_query ''traces_service_graph_request_total'' window) since until w of
                  (Inl e, w1) \<Rightarrow> (Inl e, w1)
                | (Inr totals, w1) \<Rightarrow>
                    (case query_tempo_metrics N (re_float E) dec c (graph_query ''traces_service_graph_request_failed_total'' window) since until w1 of
                       (failed, w2) \<Rightarrow>
                         (Inr (render_edges E (build_edges srt totals (case failed of Inl _ \<Rightarrow> [] | Inr fs \<Rightarrow> fs) (least_rate a))
                                 (clamp_or 50 500 (ga_limit a))), w2)))))"

section \<open>Figures per route\<close>

definition is_clean_label_value :: "string \<Rightarrow> bool" where
  "is_clean_label_value s \<longleftrightarrow>
     s \<noteq> [] \<and> length s \<le> 256 \<and> list_all (\<lambda>(r, _). \<not> (r < 32 \<or> r = 127)) (runes_of s) \<and>
     list_all (\<lambda>c. c \<notin> {CHR 0x0A, CHR 0x0D, CHR 0x09, CHR 0x00}) s"

fun prom_escape :: "string \<Rightarrow> string" where
  "prom_escape [] = []"
| "prom_escape (c # s) = (if c = CHR 0x5C \<or> c = CHR 0x22 then [CHR 0x5C, c] else [c]) @ prom_escape s"

definition quoted :: "string \<Rightarrow> string" where
  "quoted s = [CHR 0x22] @ s @ [CHR 0x22]"

definition rate_query :: "string \<Rightarrow> string \<Rightarrow> string \<Rightarrow> string" where
  "rate_query service window extra =
     ''sum by (span_name) (rate(traces_spanmetrics_calls_total{service='' @ quoted (prom_escape service) @ extra @ ''}['' @ window @ '']))''"

definition quantile_query :: "string \<Rightarrow> string \<Rightarrow> string \<Rightarrow> string" where
  "quantile_query service window p =
     ''histogram_quantile('' @ p @ '', sum by (le, span_name) (rate(traces_spanmetrics_latency_bucket{service='' @
     quoted (prom_escape service) @ ''}['' @ window @ ''])))''"

definition route_queries :: "string \<Rightarrow> string \<Rightarrow> string list" where
  "route_queries service window =
     [rate_query service window [], rate_query service window ('', status_code='' @ quoted ''STATUS_CODE_ERROR''),
      quantile_query service window ''0.5'', quantile_query service window ''0.95'', quantile_query service window ''0.99'']"

record route_red =
  rr_route :: string
  rr_req :: go_float
  rr_err :: go_float
  rr_p50 :: go_float
  rr_p95 :: go_float
  rr_p99 :: go_float

definition by_span_name :: "metric_series list \<Rightarrow> go_float gomap" where
  "by_span_name ss = fold (\<lambda>s m. if label ''span_name'' s = [] then m else gm_put (label ''span_name'' s) (snd s) m) ss []"

definition value_or_zero :: "go_float gomap \<Rightarrow> string \<Rightarrow> go_float" where
  "value_or_zero m k = (case gm_get m k of None \<Rightarrow> Fin 0 | Some v \<Rightarrow> v)"

definition route_of :: "go_float gomap list \<Rightarrow> string \<Rightarrow> route_red" where
  "route_of ms k =
     (let req = value_or_zero (ms ! 0) k; errs = value_or_zero (ms ! 1) k in
      \<lparr>rr_route = k, rr_req = req,
       rr_err = (if flt_pos req then flt_div errs req else if flt_pos errs then errs else Fin 0),
       rr_p50 = value_or_zero (ms ! 2) k, rr_p95 = value_or_zero (ms ! 3) k, rr_p99 = value_or_zero (ms ! 4) k\<rparr>)"

text \<open>The routes of all five answers, each once, in the order of a map; then a stable sort.\<close>

definition route_keys :: "go_float gomap list \<Rightarrow> string list" where
  "route_keys ms = remdups (map fst (concat ms))"

definition build_routes ::
    "(string list \<Rightarrow> string list) \<Rightarrow> (route_red list \<Rightarrow> route_red list) \<Rightarrow> metric_series list list \<Rightarrow> route_red list" where
  "build_routes ord srt answers =
     (let ms = map by_span_name answers in srt (map (route_of ms) (ord (route_keys ms))))"

definition nan_safe :: "range_env \<Rightarrow> nat \<Rightarrow> go_float \<Rightarrow> string" where
  "nan_safe E prec f = (if flt_finite f then re_fixed E prec f else ''-'')"

definition route_row :: "range_env \<Rightarrow> route_red \<Rightarrow> string list" where
  "route_row E r =
     [rr_route r, re_fixed E 3 (rr_req r), re_percent E (rr_err r) @ ''%'', nan_safe E 4 (rr_p50 r), nan_safe E 4 (rr_p95 r),
      nan_safe E 4 (rr_p99 r)]"

definition render_routes :: "range_env \<Rightarrow> string \<Rightarrow> route_red list \<Rightarrow> int \<Rightarrow> observation" where
  "render_routes E service rs cap =
     (let shown = min (length rs) (nat cap) in
      table_view (if rs = [] then ''(no routes for service='' @ service @ '')''
                  else ''service='' @ service @ '': '' @ show_nat (length rs) @ '' routes (showing '' @ show_nat shown @ '')'')
        [''ROUTE'', ''REQ_PER_SEC'', ''ERR_RATE'', ''P50_S'', ''P95_S'', ''P99_S'']
        [AlignLeft, AlignRight, AlignRight, AlignRight, AlignRight, AlignRight]
        (map (route_row E) (take shown rs)))"

fun query_all ::
    "('w) net \<Rightarrow> (string \<Rightarrow> go_float option) \<Rightarrow> (string \<Rightarrow> raw_matrix option) \<Rightarrow> ('w) api_client
     \<Rightarrow> gotime \<Rightarrow> gotime \<Rightarrow> string list \<Rightarrow> 'w \<Rightarrow> (query_error + metric_series list list) \<times> 'w" where
  "query_all N float dec c since until [] w = (Inr [], w)"
| "query_all N float dec c since until (q # qs) w =
     (case query_tempo_metrics N float dec c q since until w of
        (Inl e, w1) \<Rightarrow> (Inl e, w1)
      | (Inr ss, w1) \<Rightarrow>
          (case query_all N float dec c since until qs w1 of
             (Inl e, w2) \<Rightarrow> (Inl e, w2)
           | (Inr rest, w2) \<Rightarrow> (Inr (ss # rest), w2)))"

record route_args =
  ra_name :: string
  ra_service :: string
  ra_since :: string
  ra_until :: string
  ra_limit :: int

definition route_red_tool ::
    "('w) net \<Rightarrow> range_env \<Rightarrow> (string list \<Rightarrow> string list) \<Rightarrow> (route_red list \<Rightarrow> route_red list)
     \<Rightarrow> (string \<Rightarrow> raw_matrix option) \<Rightarrow> ('w) api_client gomap \<Rightarrow> route_args \<Rightarrow> 'w
     \<Rightarrow> (query_error + observation) \<times> 'w" where
  "route_red_tool N E ord srt dec cs a w =
     (if ra_service a = [] then (Inl (QueryRequired ''trace.route_red'' ''service''), w)
      else if \<not> is_clean_label_value (ra_service a) then (Inl (QueryInvalid ''trace.route_red'' (ra_service a)), w)
      else (case resolve_range E (ra_until a) (ra_since a) (300 * second_span) of
        Inl e \<Rightarrow> (Inl e, w)
      | Inr (until, since) \<Rightarrow>
          (case pick_tempo cs (ra_name a) of
             Inl e \<Rightarrow> (Inl (QueryPick e), w)
           | Inr c \<Rightarrow>
               (case query_all N (re_float E) dec c since until (route_queries (ra_service a) (prom_rate_window (until - since))) w of
                  (Inl e, w1) \<Rightarrow> (Inl e, w1)
                | (Inr answers, w1) \<Rightarrow>
                    (Inr (render_routes E (ra_service a) (build_routes ord srt answers) (clamp_or 30 500 (ra_limit a))), w1)))))"

end
