(* ===== verification/Query_Properties.thy ===== *)
theory Query_Properties
  imports Prom_Budget Trace_Tools
begin

text \<open>Properties of the query tools and of the clients they go through.\<close>

text \<open>C37. Every request a query tool's client makes, redirects included, is a GET carrying the configured credentials,
  at most ten of them; the first goes to the client's own URL, and the parameters a server reads from it
  are exactly those given, whatever bytes the model put into a value.\<close>

theorem requests_read_with_credentials:
  assumes "new_api_client N name base a = Inr c" "nt_transport N = recording f"
  shows "\<exists>seen. snd (api_raw_get N c path params w) = w @ seen \<and> length seen \<le> 10 \<and>
     (\<forall>r \<in> set seen. hr_method r = ''GET'' \<and> gm_get (hr_headers r) ''Authorization'' = auth_header (nt_env N) (nt_base64 N) a) \<and>
     (seen \<noteq> [] \<longrightarrow> hr_url (hd seen) = ac_base c @ path @ (if params = [] then [] else ''?'' @ encode_values params)) \<and>
     parse_query (encode_values params) = Some (value_pairs params)"
  using raw_get_requests [OF assms, of path params w] encode_values_parse [of params] by (simp add: request_url_def)

definition ex_net :: "(http_request list) net" where
  "ex_net = \<lparr>nt_env = (\<lambda>k. if k = ''TOKEN'' then ''t'' else []), nt_base64 = (\<lambda>s. s), nt_valid = (\<lambda>u. True),
     nt_resolve = (\<lambda>u l. Some l),
     nt_transport = recording (\<lambda>h. Inr \<lparr>rp_status = (if length h = 1 then 302 else 200), rp_location = ''http://b/'',
        rp_body = ''ok'', rp_broken = False\<rparr>)\<rparr>"

definition ex_auth :: auth_conf where
  "ex_auth = \<lparr>au_bearer_env = [], au_basic_user = [], au_basic_pass_env = [], au_token_env = ''TOKEN'', au_token_scheme = []\<rparr>"

theorem requests_read_with_credentials_witness:
  "\<exists>c seen. new_api_client ex_net ''loki'' ''http://a/'' ex_auth = Inr c \<and>
     snd (api_raw_get ex_net c ''/q'' [(''query'', [''a&b=c''])] []) = seen \<and> length seen \<le> 10 \<and>
     list_all (\<lambda>r. hr_method r = ''GET'') seen \<and> parse_query ''query=a%26b%3Dc'' = Some [(''query'', ''a&b=c'')]"
proof -
  obtain c where c: "new_api_client ex_net ''loki'' ''http://a/'' ex_auth = Inr c"
    by (simp add: new_api_client_def)
  have t: "nt_transport ex_net = recording (\<lambda>h. Inr \<lparr>rp_status = (if length h = 1 then 302 else 200), rp_location = ''http://b/'',
        rp_body = ''ok'', rp_broken = False\<rparr>)" by (simp add: ex_net_def)
  have e: "encode_values [(''query'', [''a&b=c''])] = ''query=a%26b%3Dc''"
    "value_pairs [(''query'', [''a&b=c''])] = [(''query'', ''a&b=c'')]" by code_simp+
  show ?thesis
    using requests_read_with_credentials [OF c t, of "''/q''" "[(''query'', [''a&b=c''])]" "[]"] c
    unfolding e by (auto simp: list_all_iff)
qed


definition ex_env :: prom_env where
  "ex_env = \<lparr>pe_order = (\<lambda>ks. ks), pe_clock = 0, pe_rfc_parse = (\<lambda>s. None), pe_rfc = (\<lambda>t. []), pe_float = (\<lambda>v x. []),
     pe_duration = (\<lambda>d. []), pe_quote = (\<lambda>s. s), pe_odd = (\<lambda>x. 0)\<rparr>"

definition ex_ratio :: "string list \<Rightarrow> string \<Rightarrow> real option" where
  "ex_ratio h w = (if w = ''24h'' then None else Some (1 / 5))"


text \<open>Computing a report asks for no window twice, and only for the windows of the tiers and the SLO window;
  so there are at most six queries.\<close>

theorem budget_windows_once:
  "distinct (snd (snd (run_state (compute_budget E (asked f) target slo) ([], [])))) \<and>
   set (snd (snd (run_state (compute_budget E (asked f) target slo) ([], [])))) \<subseteq> set [''5m'', ''30m'', ''1h'', ''6h'', ''24h'', slo] \<and>
   length (snd (snd (run_state (compute_budget E (asked f) target slo) ([], [])))) \<le> 6"
proof -
  define W where "W = set [''5m'', ''30m'', ''1h'', ''6h'', ''24h'', slo]"
  define st where "st = snd (run_state (compute_budget E (asked f) target slo) ([], []))"
  have "once W ([], [])" by (simp add: once_def)
  then have "once W st" using once_budget [of slo W E f target] by (simp add: keeps_def st_def W_def)
  then have d: "distinct (snd st)" "set (snd st) \<subseteq> W" unfolding once_def gm_wf_def by metis+
  have "length (snd st) \<le> card W" using d by (metis distinct_card card_mono List.finite_set W_def)
  also have "\<dots> \<le> 6" using card_length [of "[''5m'', ''30m'', ''1h'', ''6h'', ''24h'', slo]"] by (simp add: W_def)
  finally show ?thesis using d by (simp add: st_def W_def)
qed

text \<open>The verdict pages exactly when a page tier burns over both of its windows, and files a ticket exactly when
  none does and the ticket tier burns over both of its own; a window without data never fires.\<close>

theorem verdict_iff_both_windows_burn:
  assumes "target < 1"
  shows "br_verdict (pure_budget E target slo f) = verdict_label
     (if over f (72 / 5 * (1 - target)) ''5m'' \<and> over f (72 / 5 * (1 - target)) ''1h'' \<or>
         over f (6 * (1 - target)) ''30m'' \<and> over f (6 * (1 - target)) ''6h'' then ''page''
      else if over f (3 * (1 - target)) ''6h'' \<and> over f (3 * (1 - target)) ''24h'' then ''ticket'' else ''ok'')"
  by (rule verdict_pages [OF assms])

theorem verdict_iff_both_windows_burn_witness:
  "br_verdict (pure_budget ex_env (99 / 100) ''30d'' (\<lambda>w. if w = ''24h'' then None else Some (1 / 10))) = verdict_label ''page''"
  using verdict_iff_both_windows_burn [of "99 / 100" ex_env "''30d''" "\<lambda>w. if w = ''24h'' then None else Some (1 / 10)"]
  by (simp add: over_def)

end
