(* ===== verification/K8s_Hub.thy ===== *)
theory K8s_Hub
  imports Log_Tools Perm_Filter Perm_Mask Go_Number
begin

text \<open>
  The Kubernetes clients by context (\<open>internal/clients/k8s/hub.go\<close>) and the reads of a client
  (\<open>client.go\<close>). What the API server answers is a function of the reads made so far, which a world keeps;
  the objects are records of the fields the tools use.
\<close>

section \<open>Objects\<close>

record object_meta =
  om_namespace :: string
  om_name :: string
  om_created :: gotime
  om_labels :: "string gomap"

record k8s_container =
  kc_name :: string
  kc_image :: string
  kc_ready :: bool
  kc_restarts :: int
  kc_state :: string

record k8s_pod =
  po_meta :: object_meta
  po_phase :: string
  po_containers :: nat
  po_statuses :: "k8s_container list"
  po_node :: string
  po_ip :: string

record k8s_workload =
  wl_meta :: object_meta
  wl_replicas :: "int option"
  wl_ready :: int
  wl_available :: int
  wl_conditions :: "(string \<times> string) list"
  wl_images :: "string list"

record k8s_daemonset =
  ds_meta :: object_meta
  ds_desired :: int
  ds_current :: int
  ds_ready :: int
  ds_images :: "string list"

record k8s_job =
  jb_meta :: object_meta
  jb_completions :: "int option"
  jb_succeeded :: int
  jb_start :: "gotime option"
  jb_done :: "gotime option"

record k8s_cronjob =
  cj_meta :: object_meta
  cj_schedule :: string
  cj_suspend :: "bool option"
  cj_last :: "gotime option"

record k8s_service =
  sv_meta :: object_meta
  sv_type :: string
  sv_cluster_ip :: string
  sv_ports :: "(int \<times> string) list"

record k8s_ingress =
  in_meta :: object_meta
  in_rules :: "string list"
  in_addresses :: "(string \<times> string) list"

record k8s_hpa =
  hp_meta :: object_meta
  hp_kind :: string
  hp_target :: string
  hp_min :: "int option"
  hp_max :: int
  hp_current :: int

record k8s_pdb =
  pb_meta :: object_meta
  pb_min :: "string option"
  pb_max :: "string option"
  pb_allowed :: int

record k8s_netpol =
  np_meta :: object_meta
  np_labels :: "string gomap"
  np_expressions :: nat

record k8s_node =
  nd_meta :: object_meta
  nd_version :: string
  nd_conditions :: "(string \<times> string) list"
  nd_addresses :: "string list"

record k8s_event =
  ev_created :: gotime
  ev_last :: gotime
  ev_time :: gotime
  ev_type :: string
  ev_reason :: string
  ev_message :: string
  ev_kind :: string
  ev_object :: string

record k8s_owned =
  ow_meta :: object_meta
  ow_owners :: "(string \<times> string) list"
  ow_annotations :: "string gomap"
  ow_images :: "string list"
  ow_revision :: int

record metrics_pod =
  mp_namespace :: string
  mp_name :: string
  mp_cpu :: int
  mp_memory :: int

section \<open>Reads\<close>

record list_opts =
  lo_label :: string
  lo_field :: string
  lo_limit :: int

record log_opts =
  lg_container :: string
  lg_tail :: int
  lg_previous :: bool
  lg_since :: "int option"

datatype k8s_read =
    ReadIn string string string list_opts
  | ReadCluster string string list_opts
  | ReadOne string string string string
  | ReadLog string string string log_opts

text \<open>The namespace of a read; cluster-scoped reads have none.\<close>

fun read_namespace :: "k8s_read \<Rightarrow> string option" where
  "read_namespace (ReadIn ctx res ns opts) = Some ns"
| "read_namespace (ReadCluster ctx res opts) = None"
| "read_namespace (ReadOne ctx res ns name) = Some ns"
| "read_namespace (ReadLog ctx ns name opts) = Some ns"

datatype k8s_error =
    MetricsUnavailable string
  | ApiFailed string
  | HubContext string
  | HubBuild string string

type_synonym 'a answer = "k8s_read list \<Rightarrow> k8s_error + 'a"

record kube =
  kb_pods :: "k8s_pod list answer"
  kb_pod :: "k8s_pod answer"
  kb_log :: "string answer"
  kb_deployments :: "k8s_workload list answer"
  kb_statefulsets :: "k8s_workload list answer"
  kb_daemonsets :: "k8s_daemonset list answer"
  kb_replicasets :: "k8s_owned list answer"
  kb_revisions :: "k8s_owned list answer"
  kb_jobs :: "k8s_job list answer"
  kb_cronjobs :: "k8s_cronjob list answer"
  kb_services :: "k8s_service list answer"
  kb_ingresses :: "k8s_ingress list answer"
  kb_hpas :: "k8s_hpa list answer"
  kb_pdbs :: "k8s_pdb list answer"
  kb_netpols :: "k8s_netpol list answer"
  kb_nodes :: "k8s_node list answer"
  kb_namespaces :: "(object_meta \<times> string) list answer"
  kb_events :: "k8s_event list answer"
  kb_top_pods :: "metrics_pod list answer"
  kb_top_nodes :: "metrics_pod list answer"
  kb_dynamic :: "json list answer"
  kb_has_dynamic :: "string \<Rightarrow> bool"
  kb_connect :: "string \<Rightarrow> string option"

text \<open>A read is answered from the reads before it and itself.\<close>

type_synonym 'a reader = "k8s_read list \<Rightarrow> (k8s_error + 'a) \<times> k8s_read list"

definition kube_read :: "'a answer \<Rightarrow> k8s_read \<Rightarrow> 'a reader" where
  "kube_read f r h = (f (h @ [r]), h @ [r])"

section \<open>The hub\<close>

text \<open>A client is the context it was built for.\<close>

record hub =
  hb_clients :: "string list"
  hb_default :: string
  hb_contexts :: "string list"
  hb_check :: "(string \<Rightarrow> ns_error option) option"

text \<open>\<open>kb_connect\<close> gives the error of building a client for a context.\<close>

definition new_hub :: "kube \<Rightarrow> string list \<Rightarrow> string + hub" where
  "new_hub K contexts =
     (let named = filter (\<lambda>c. c \<noteq> []) contexts in
      if named = []
      then (case kb_connect K [] of
              Some e \<Rightarrow> Inl e
            | None \<Rightarrow> Inr \<lparr>hb_clients = [[]], hb_default = [], hb_contexts = [[]], hb_check = None\<rparr>)
      else Inr \<lparr>hb_clients = [], hb_default = hd named, hb_contexts = remdups named, hb_check = None\<rparr>)"

definition hub_names :: "hub \<Rightarrow> string list" where
  "hub_names H = sort (hb_contexts H)"

definition hub_get :: "kube \<Rightarrow> string \<Rightarrow> hub \<Rightarrow> (k8s_error + string) \<times> hub" where
  "hub_get K name H =
     (let n = (if name = [] then hb_default H else name) in
      if n \<notin> set (hb_contexts H) then (Inl (HubContext n), H)
      else if n \<in> set (hb_clients H) then (Inr n, H)
      else (case kb_connect K n of
              Some e \<Rightarrow> (Inl (HubBuild n e), H)
            | None \<Rightarrow> (Inr n, H\<lparr>hb_clients := n # hb_clients H\<rparr>)))"

definition with_namespace_checker :: "(string \<Rightarrow> ns_error option) \<Rightarrow> hub \<Rightarrow> hub" where
  "with_namespace_checker f H = H\<lparr>hb_check := Some f\<rparr>"

definition check_namespace :: "hub \<Rightarrow> string \<Rightarrow> ns_error option" where
  "check_namespace H ns = (case hb_check H of None \<Rightarrow> None | Some f \<Rightarrow> f ns)"

definition multi_context :: "hub \<Rightarrow> bool" where
  "multi_context H \<longleftrightarrow> 1 < length (hub_names H)"

text \<open>\<open>Get\<close> changes the cache of clients only.\<close>

lemma hub_get_frame: "hub_get K n H = (r, H') \<Longrightarrow> hb_check H' = hb_check H \<and> hb_contexts H' = hb_contexts H \<and> hb_default H' = hb_default H"
  by (auto simp: hub_get_def Let_def split: if_splits option.splits)

lemma hub_get_context: "hub_get K n H = (Inr c, H') \<Longrightarrow> c \<in> set (hb_contexts H) \<and> (n \<noteq> [] \<longrightarrow> c = n)"
  by (auto simp: hub_get_def Let_def split: if_splits option.splits)

lemma new_hub_default: "new_hub K cs = Inr H \<Longrightarrow> hb_default H \<in> set (hb_contexts H) \<and> distinct (hb_contexts H)"
proof -
  assume H: "new_hub K cs = Inr H"
  define ys where "ys = filter (\<lambda>c. c \<noteq> []) cs"
  show ?thesis
  proof (cases "ys = []")
    case True
    then show ?thesis using H by (auto simp: new_hub_def Let_def ys_def [symmetric] split: option.splits)
  next
    case False
    then have "H = \<lparr>hb_clients = [], hb_default = hd ys, hb_contexts = remdups ys, hb_check = None\<rparr>"
      using H by (simp add: new_hub_def Let_def ys_def [symmetric])
    then show ?thesis using hd_in_set [OF False] by simp
  qed
qed

section \<open>Ages\<close>

definition format_age :: "int \<Rightarrow> string" where
  "format_age d =
     (if d < 60000000000 then show_int (trunc (real_of_int d / 1000000000)) @ ''s''
      else if d < 3600000000000 then show_int (d div 60000000000) @ ''m''
      else if d < 86400000000000 then show_int (d div 3600000000000) @ ''h''
      else show_int (d div 86400000000000) @ ''d'')"

text \<open>\<open>Time.Sub\<close> saturates at 64 bits.\<close>

definition age_of :: "gotime \<Rightarrow> gotime \<Rightarrow> string" where
  "age_of clock t = format_age (max (- max_int64 - 1) (min max_int64 (clock - t)))"

definition created_age :: "gotime \<Rightarrow> object_meta \<Rightarrow> string" where
  "created_age clock m = (if om_created m = 0 then [] else age_of clock (om_created m))"

end
