(* ===== verification/K8s_Tools.thy ===== *)
theory K8s_Tools
  imports K8s_Hub
begin

text \<open>
  The Kubernetes tools (\<open>internal/core/tools/k8s\<close>): the generic list tool with the specification of each
  resource, and the tools that have a run of their own. The orders Go leaves open (walking a map, sorting
  with ties) and the rendering of quoted strings, of JSON numbers and
  of upper case are parameters.
\<close>

section \<open>The generic list tool\<close>

record list_args =
  la_namespace :: string
  la_label :: string
  la_field :: string
  la_limit :: int
  la_context :: string

record k8s_env =
  ke_clock :: gotime
  ke_order :: "string list \<Rightarrow> string list"
  ke_quote :: "string \<Rightarrow> string"
  ke_sort_top :: "metrics_pod list \<Rightarrow> metrics_pod list"
  ke_sort_events :: "k8s_event list \<Rightarrow> k8s_event list"
  ke_number :: "string \<Rightarrow> string"
  ke_upper :: "string \<Rightarrow> string"

record ('i) list_spec =
  ls_name :: string
  ls_headers :: "string list"
  ls_aligns :: "align list"
  ls_needs_namespace :: bool
  ls_items :: "string \<Rightarrow> list_args \<Rightarrow> list_opts \<Rightarrow> 'i list reader"
  ls_row :: "'i \<Rightarrow> string list"
  ls_summary :: "'i list \<Rightarrow> list_args \<Rightarrow> string"

datatype k8s_tool_error =
    KtClient string k8s_error
  | KtRequired string string

definition ns_error_text :: "ns_error \<Rightarrow> string" where
  "ns_error_text e =
     (case e of
        NamespaceDenied \<Rightarrow> ''permission: namespace denied by profile''
      | NamespaceNotAllowed \<Rightarrow> ''permission: namespace not in profile allow list'')"

definition metrics_message :: "k8s_env \<Rightarrow> string \<Rightarrow> string \<Rightarrow> string" where
  "metrics_message E ctx err =
     (let flag = (if ctx = [] then [] else ''--context '' @ ke_quote E ctx @ '' '') in
      (if ctx = [] then ''metrics-server is not available in your current kubeconfig context.''
       else ''metrics-server is not available in context '' @ ke_quote E ctx @ ''.'') @ [newline] @
      ''This typically means metrics-server is not installed, or its APIService (v1beta1.metrics.k8s.io) is degraded.'' @ [newline, newline] @
      ''Verify with:'' @ [newline] @ ''  kubectl '' @ flag @ ''get deploy -n kube-system metrics-server'' @ [newline] @
      ''  kubectl '' @ flag @ ''get apiservice v1beta1.metrics.k8s.io'' @ [newline, newline] @
      ''Install: https://github.com/kubernetes-sigs/metrics-server'' @ [newline, newline] @ ''Underlying error: '' @ err)"

definition context_name :: "hub \<Rightarrow> string \<Rightarrow> string" where
  "context_name H ctx = (if ctx = [] then hb_default H else ctx)"

text \<open>With several contexts every row starts with the context.\<close>

definition with_context :: "hub \<Rightarrow> 'a \<Rightarrow> 'a list \<Rightarrow> 'a list" where
  "with_context H x xs = (if multi_context H then x # xs else xs)"

definition list_options :: "list_args \<Rightarrow> list_opts" where
  "list_options a = \<lparr>lo_label = la_label a, lo_field = la_field a, lo_limit = (if 0 < la_limit a then la_limit a else 0)\<rparr>"

type_synonym tool_run = "hub \<times> k8s_read list \<Rightarrow> (k8s_tool_error + observation) \<times> hub \<times> k8s_read list"

text \<open>A denied namespace is an observation of its own; otherwise the tool goes on with a client.\<close>

definition on_namespace :: "string \<Rightarrow> tool_run \<Rightarrow> tool_run" where
  "on_namespace ns m s =
     (case check_namespace (fst s) ns of Some e \<Rightarrow> (Inr (text_view (ns_error_text e)), s) | None \<Rightarrow> m s)"

definition on_client :: "kube \<Rightarrow> string \<Rightarrow> string \<Rightarrow> (string \<Rightarrow> tool_run) \<Rightarrow> tool_run" where
  "on_client K tool ctx m s =
     (case hub_get K ctx (fst s) of
        (Inl e, H) \<Rightarrow> (Inl (KtClient tool e), H, snd s)
      | (Inr c, H) \<Rightarrow> m c (H, snd s))"

definition list_view :: "k8s_env \<Rightarrow> ('i) list_spec \<Rightarrow> list_args \<Rightarrow> hub \<Rightarrow> (k8s_error + 'i list) \<Rightarrow> k8s_tool_error + observation" where
  "list_view E sp a H r =
     (case r of
        Inl (MetricsUnavailable err) \<Rightarrow> Inr (text_view (metrics_message E (context_name H (la_context a)) err))
      | Inl e \<Rightarrow> Inl (KtClient (ls_name sp) e)
      | Inr its \<Rightarrow>
          Inr (table_view (ls_summary sp its a) (with_context H ''CONTEXT'' (ls_headers sp)) (with_context H AlignLeft (ls_aligns sp))
                 (map (\<lambda>i. with_context H (context_name H (la_context a)) (ls_row sp i)) its)))"

definition list_tool :: "k8s_env \<Rightarrow> kube \<Rightarrow> ('i) list_spec \<Rightarrow> list_args \<Rightarrow> tool_run" where
  "list_tool E K sp a =
     (if ls_needs_namespace sp then on_namespace (la_namespace a) else id)
       (on_client K (ls_name sp) (la_context a)
          (\<lambda>c (H, h). case ls_items sp c a (list_options a) h of (r, h') \<Rightarrow> (list_view E sp a H r, H, h')))"

section \<open>Resources\<close>

definition in_namespace :: "string \<Rightarrow> (kube \<Rightarrow> 'i list answer) \<Rightarrow> kube \<Rightarrow> string \<Rightarrow> list_args \<Rightarrow> list_opts \<Rightarrow> 'i list reader" where
  "in_namespace res f K c a opts = kube_read (f K) (ReadIn c res (la_namespace a) opts)"

definition no_opts :: list_opts where
  "no_opts = \<lparr>lo_label = [], lo_field = [], lo_limit = 0\<rparr>"

definition cluster_wide :: "string \<Rightarrow> (kube \<Rightarrow> 'i list answer) \<Rightarrow> kube \<Rightarrow> string \<Rightarrow> list_args \<Rightarrow> list_opts \<Rightarrow> 'i list reader" where
  "cluster_wide res f K c a opts = kube_read (f K) (ReadCluster c res no_opts)"

definition counted :: "k8s_env \<Rightarrow> string \<Rightarrow> 'i list \<Rightarrow> list_args \<Rightarrow> string" where
  "counted E what its a = show_nat (length its) @ '' '' @ what @ '' in namespace '' @ ke_quote E (la_namespace a)"

definition pods_spec :: "k8s_env \<Rightarrow> kube \<Rightarrow> k8s_pod list_spec" where
  "pods_spec E K =
     \<lparr>ls_name = ''k8s.list_pods'', ls_headers = [''NAMESPACE'', ''NAME'', ''PHASE'', ''READY'', ''RESTARTS'', ''AGE'', ''NODE''],
      ls_aligns = [AlignLeft, AlignLeft, AlignLeft, AlignRight, AlignRight, AlignRight, AlignLeft], ls_needs_namespace = True,
      ls_items = in_namespace ''pods'' kb_pods K,
      ls_row = (\<lambda>p. [om_namespace (po_meta p), om_name (po_meta p), po_phase p,
         show_nat (length (filter kc_ready (po_statuses p))) @ ''/'' @ show_nat (po_containers p),
         show_int (sum_list (map kc_restarts (po_statuses p))), created_age (ke_clock E) (po_meta p), po_node p]),
      ls_summary = counted E ''pod(s)''\<rparr>"

definition deployment_available :: "k8s_workload \<Rightarrow> string" where
  "deployment_available d = (case List.find (\<lambda>c. fst c = ''Available'') (wl_conditions d) of None \<Rightarrow> ''Unknown'' | Some c \<Rightarrow> snd c)"

definition desired :: "int \<Rightarrow> int option \<Rightarrow> string" where
  "desired dflt n = show_int (case n of None \<Rightarrow> dflt | Some m \<Rightarrow> m)"

definition deployments_spec :: "k8s_env \<Rightarrow> kube \<Rightarrow> k8s_workload list_spec" where
  "deployments_spec E K =
     \<lparr>ls_name = ''k8s.list_deployments'', ls_headers = [''NAMESPACE'', ''NAME'', ''READY'', ''AVAILABLE'', ''AGE''],
      ls_aligns = [AlignLeft, AlignLeft, AlignRight, AlignLeft, AlignRight], ls_needs_namespace = True,
      ls_items = in_namespace ''deployments'' kb_deployments K,
      ls_row = (\<lambda>d. [om_namespace (wl_meta d), om_name (wl_meta d), show_int (wl_ready d) @ ''/'' @ desired 0 (wl_replicas d),
         deployment_available d, created_age (ke_clock E) (wl_meta d)]),
      ls_summary = counted E ''deployment(s)''\<rparr>"

definition statefulsets_spec :: "k8s_env \<Rightarrow> kube \<Rightarrow> k8s_workload list_spec" where
  "statefulsets_spec E K =
     \<lparr>ls_name = ''k8s.list_statefulsets'', ls_headers = [''NAMESPACE'', ''NAME'', ''READY'', ''AVAILABLE'', ''AGE''],
      ls_aligns = [AlignLeft, AlignLeft, AlignRight, AlignRight, AlignRight], ls_needs_namespace = True,
      ls_items = in_namespace ''statefulsets'' kb_statefulsets K,
      ls_row = (\<lambda>s. [om_namespace (wl_meta s), om_name (wl_meta s), show_int (wl_ready s) @ ''/'' @ desired 0 (wl_replicas s),
         show_int (wl_available s), created_age (ke_clock E) (wl_meta s)]),
      ls_summary = counted E ''statefulset(s)''\<rparr>"

definition daemonsets_spec :: "k8s_env \<Rightarrow> kube \<Rightarrow> k8s_daemonset list_spec" where
  "daemonsets_spec E K =
     \<lparr>ls_name = ''k8s.list_daemonsets'', ls_headers = [''NAMESPACE'', ''NAME'', ''DESIRED'', ''CURRENT'', ''READY'', ''AGE''],
      ls_aligns = [AlignLeft, AlignLeft, AlignRight, AlignRight, AlignRight, AlignRight], ls_needs_namespace = True,
      ls_items = in_namespace ''daemonsets'' kb_daemonsets K,
      ls_row = (\<lambda>d. [om_namespace (ds_meta d), om_name (ds_meta d), show_int (ds_desired d), show_int (ds_current d), show_int (ds_ready d),
         created_age (ke_clock E) (ds_meta d)]),
      ls_summary = counted E ''daemonset(s)''\<rparr>"

definition job_duration :: "gotime \<Rightarrow> k8s_job \<Rightarrow> string" where
  "job_duration clock j =
     (case jb_start j of
        None \<Rightarrow> []
      | Some s \<Rightarrow> age_of (case jb_done j of None \<Rightarrow> clock | Some e \<Rightarrow> e) s)"

definition jobs_spec :: "k8s_env \<Rightarrow> kube \<Rightarrow> k8s_job list_spec" where
  "jobs_spec E K =
     \<lparr>ls_name = ''k8s.list_jobs'', ls_headers = [''NAMESPACE'', ''NAME'', ''COMPLETIONS'', ''DURATION'', ''AGE''],
      ls_aligns = [AlignLeft, AlignLeft, AlignRight, AlignRight, AlignRight], ls_needs_namespace = True,
      ls_items = in_namespace ''jobs'' kb_jobs K,
      ls_row = (\<lambda>j. [om_namespace (jb_meta j), om_name (jb_meta j), show_int (jb_succeeded j) @ ''/'' @ desired 1 (jb_completions j),
         job_duration (ke_clock E) j, created_age (ke_clock E) (jb_meta j)]),
      ls_summary = counted E ''job(s)''\<rparr>"

definition cronjobs_spec :: "k8s_env \<Rightarrow> kube \<Rightarrow> k8s_cronjob list_spec" where
  "cronjobs_spec E K =
     \<lparr>ls_name = ''k8s.list_cronjobs'', ls_headers = [''NAMESPACE'', ''NAME'', ''SCHEDULE'', ''SUSPEND'', ''LAST SCHEDULE'', ''AGE''],
      ls_aligns = [AlignLeft, AlignLeft, AlignLeft, AlignLeft, AlignRight, AlignRight], ls_needs_namespace = True,
      ls_items = in_namespace ''cronjobs'' kb_cronjobs K,
      ls_row = (\<lambda>c. [om_namespace (cj_meta c), om_name (cj_meta c), cj_schedule c, (if cj_suspend c = Some True then ''true'' else ''false''),
         (case cj_last c of None \<Rightarrow> ''<none>'' | Some t \<Rightarrow> age_of (ke_clock E) t), created_age (ke_clock E) (cj_meta c)]),
      ls_summary = counted E ''cronjob(s)''\<rparr>"

definition service_ports :: "k8s_service \<Rightarrow> string" where
  "service_ports s =
     (if sv_ports s = [] then ''<none>''
      else join (map (\<lambda>(p, proto). show_int p @ ''/'' @ (if proto = [] then ''TCP'' else proto)) (sv_ports s)) '','')"

definition services_spec :: "k8s_env \<Rightarrow> kube \<Rightarrow> k8s_service list_spec" where
  "services_spec E K =
     \<lparr>ls_name = ''k8s.list_services'', ls_headers = [''NAMESPACE'', ''NAME'', ''TYPE'', ''CLUSTER-IP'', ''PORTS'', ''AGE''],
      ls_aligns = [AlignLeft, AlignLeft, AlignLeft, AlignLeft, AlignLeft, AlignRight], ls_needs_namespace = True,
      ls_items = in_namespace ''services'' kb_services K,
      ls_row = (\<lambda>s. [om_namespace (sv_meta s), om_name (sv_meta s), sv_type s, (if sv_cluster_ip s = [] then ''<none>'' else sv_cluster_ip s),
         service_ports s, created_age (ke_clock E) (sv_meta s)]),
      ls_summary = counted E ''service(s)''\<rparr>"

definition ingress_hosts :: "k8s_ingress \<Rightarrow> string" where
  "ingress_hosts i =
     (let hosts = filter (\<lambda>x. x \<noteq> []) (in_rules i) in
      if in_rules i = [] then ''<none>'' else if hosts = [] then ''*'' else join hosts '','')"

text \<open>A load balancer has a host name or an address, each possibly empty.\<close>

definition ingress_address :: "k8s_ingress \<Rightarrow> string" where
  "ingress_address i =
     (let addrs = filter (\<lambda>x. x \<noteq> []) (map (\<lambda>(hn, ip). if hn \<noteq> [] then hn else ip) (in_addresses i)) in
      if addrs = [] then ''<pending>'' else join addrs '','')"

definition ingresses_spec :: "k8s_env \<Rightarrow> kube \<Rightarrow> k8s_ingress list_spec" where
  "ingresses_spec E K =
     \<lparr>ls_name = ''k8s.list_ingresses'', ls_headers = [''NAMESPACE'', ''NAME'', ''HOSTS'', ''ADDRESS'', ''AGE''],
      ls_aligns = [AlignLeft, AlignLeft, AlignLeft, AlignLeft, AlignRight], ls_needs_namespace = True,
      ls_items = in_namespace ''ingresses'' kb_ingresses K,
      ls_row = (\<lambda>i. [om_namespace (in_meta i), om_name (in_meta i), ingress_hosts i, ingress_address i, created_age (ke_clock E) (in_meta i)]),
      ls_summary = counted E ''ingress(es)''\<rparr>"

definition hpas_spec :: "k8s_env \<Rightarrow> kube \<Rightarrow> k8s_hpa list_spec" where
  "hpas_spec E K =
     \<lparr>ls_name = ''k8s.list_hpa'', ls_headers = [''NAMESPACE'', ''NAME'', ''REFERENCE'', ''MIN'', ''MAX'', ''REPLICAS'', ''AGE''],
      ls_aligns = [AlignLeft, AlignLeft, AlignLeft, AlignRight, AlignRight, AlignRight, AlignRight], ls_needs_namespace = True,
      ls_items = in_namespace ''horizontalpodautoscalers'' kb_hpas K,
      ls_row = (\<lambda>p. [om_namespace (hp_meta p), om_name (hp_meta p), hp_kind p @ ''/'' @ hp_target p, desired 0 (hp_min p), show_int (hp_max p),
         show_int (hp_current p), created_age (ke_clock E) (hp_meta p)]),
      ls_summary = counted E ''HPA(s)''\<rparr>"

definition pdbs_spec :: "k8s_env \<Rightarrow> kube \<Rightarrow> k8s_pdb list_spec" where
  "pdbs_spec E K =
     \<lparr>ls_name = ''k8s.list_pdbs'', ls_headers = [''NAMESPACE'', ''NAME'', ''MIN AVAILABLE'', ''MAX UNAVAILABLE'', ''ALLOWED DISRUPTIONS'', ''AGE''],
      ls_aligns = [AlignLeft, AlignLeft, AlignRight, AlignRight, AlignRight, AlignRight], ls_needs_namespace = True,
      ls_items = in_namespace ''poddisruptionbudgets'' kb_pdbs K,
      ls_row = (\<lambda>p. [om_namespace (pb_meta p), om_name (pb_meta p), (case pb_min p of None \<Rightarrow> ''<none>'' | Some x \<Rightarrow> x),
         (case pb_max p of None \<Rightarrow> ''<none>'' | Some x \<Rightarrow> x), show_int (pb_allowed p), created_age (ke_clock E) (pb_meta p)]),
      ls_summary = counted E ''PDB(s)''\<rparr>"

definition pod_selector :: "k8s_netpol \<Rightarrow> string" where
  "pod_selector p =
     (if np_labels p = [] \<and> np_expressions p = 0 then ''<none>''
      else join (map (\<lambda>k. k @ ''='' @ (case gm_get (np_labels p) k of None \<Rightarrow> [] | Some v \<Rightarrow> v)) (gm_keys (np_labels p))) '','')"

definition netpols_spec :: "k8s_env \<Rightarrow> kube \<Rightarrow> k8s_netpol list_spec" where
  "netpols_spec E K =
     \<lparr>ls_name = ''k8s.list_networkpolicies'', ls_headers = [''NAMESPACE'', ''NAME'', ''POD-SELECTOR'', ''AGE''],
      ls_aligns = [AlignLeft, AlignLeft, AlignLeft, AlignRight], ls_needs_namespace = True,
      ls_items = in_namespace ''networkpolicies'' kb_netpols K,
      ls_row = (\<lambda>p. [om_namespace (np_meta p), om_name (np_meta p), pod_selector p, created_age (ke_clock E) (np_meta p)]),
      ls_summary = counted E ''networkpolicy(s)''\<rparr>"

definition role_label :: string where
  "role_label = ''node-role.kubernetes.io/''"

definition node_roles :: "k8s_env \<Rightarrow> k8s_node \<Rightarrow> string" where
  "node_roles E n =
     (let roles = filter (\<lambda>r. r \<noteq> []) (map (\<lambda>k. trim_prefix k role_label)
                    (filter (\<lambda>k. has_prefix k role_label) (ke_order E (map fst (om_labels (nd_meta n))))))
      in if roles = [] then ''<none>'' else join roles '','')"

definition node_status :: "k8s_node \<Rightarrow> string" where
  "node_status n =
     (case List.find (\<lambda>c. fst c = ''Ready'') (nd_conditions n) of
        None \<Rightarrow> ''Unknown''
      | Some c \<Rightarrow> if snd c = ''True'' then ''Ready'' else ''NotReady'')"

definition nodes_spec :: "k8s_env \<Rightarrow> kube \<Rightarrow> k8s_node list_spec" where
  "nodes_spec E K =
     \<lparr>ls_name = ''k8s.list_nodes'', ls_headers = [''NAME'', ''ROLES'', ''VERSION'', ''STATUS'', ''AGE'', ''ADDRESSES''],
      ls_aligns = [], ls_needs_namespace = False, ls_items = cluster_wide ''nodes'' kb_nodes K,
      ls_row = (\<lambda>n. [om_name (nd_meta n), node_roles E n, nd_version n, node_status n, created_age (ke_clock E) (nd_meta n),
         join (nd_addresses n) '','']),
      ls_summary = (\<lambda>ns a. show_nat (length ns) @ '' node(s)'')\<rparr>"

definition namespaces_spec :: "k8s_env \<Rightarrow> kube \<Rightarrow> (object_meta \<times> string) list_spec" where
  "namespaces_spec E K =
     \<lparr>ls_name = ''k8s.list_namespaces'', ls_headers = [''NAME'', ''STATUS'', ''AGE''], ls_aligns = [], ls_needs_namespace = False,
      ls_items = cluster_wide ''namespaces'' kb_namespaces K,
      ls_row = (\<lambda>(m, phase). [om_name m, phase, created_age (ke_clock E) m]),
      ls_summary = (\<lambda>ns a. show_nat (length ns) @ '' namespace(s)'')\<rparr>"

section \<open>Usage\<close>

definition top_limit :: "int \<Rightarrow> nat" where
  "top_limit n = nat (min 200 (if 0 < n then n else 20))"

definition memory_mi :: "int \<Rightarrow> string" where
  "memory_mi b = show_int (b div 1024 div 1024)"

definition top_pods_spec :: "k8s_env \<Rightarrow> kube \<Rightarrow> metrics_pod list_spec" where
  "top_pods_spec E K =
     \<lparr>ls_name = ''k8s.top_pods'', ls_headers = [''NAMESPACE'', ''NAME'', ''CPU (m)'', ''MEMORY (Mi)''],
      ls_aligns = [AlignLeft, AlignLeft, AlignRight, AlignRight], ls_needs_namespace = True,
      ls_items = (\<lambda>c a opts h. case kube_read (kb_top_pods K) (ReadIn c ''podmetrics'' (la_namespace a) no_opts) h of
          (r, h') \<Rightarrow> (map_sum id (\<lambda>ps. take (top_limit (la_limit a)) (ke_sort_top E ps)) r, h')),
      ls_row = (\<lambda>p. [mp_namespace p, mp_name p, show_int (mp_cpu p), memory_mi (mp_memory p)]),
      ls_summary = (\<lambda>ps a. ''Top '' @ show_nat (length ps) @ '' pods by CPU in namespace '' @ ke_quote E (la_namespace a))\<rparr>"

definition top_nodes_spec :: "k8s_env \<Rightarrow> kube \<Rightarrow> metrics_pod list_spec" where
  "top_nodes_spec E K =
     \<lparr>ls_name = ''k8s.top_nodes'', ls_headers = [''NAME'', ''CPU (m)'', ''MEMORY (Mi)''], ls_aligns = [AlignLeft, AlignRight, AlignRight],
      ls_needs_namespace = False,
      ls_items = (\<lambda>c a opts h. case kube_read (kb_top_nodes K) (ReadCluster c ''nodemetrics'' no_opts) h of
          (r, h') \<Rightarrow> (map_sum id (ke_sort_top E) r, h')),
      ls_row = (\<lambda>p. [mp_name p, show_int (mp_cpu p), memory_mi (mp_memory p)]),
      ls_summary = (\<lambda>ns a. show_nat (length ns) @ '' node(s)'')\<rparr>"

end
