(* ===== verification/K8s_Inspect.thy ===== *)
theory K8s_Inspect
  imports K8s_Tools Correlate_Cause
begin

text \<open>
  The Kubernetes tools that are not lists (\<open>describe_pod.go\<close>, \<open>logs.go\<close>, \<open>events.go\<close>, \<open>list_crds.go\<close>,
  \<open>list_cr.go\<close>), every tool of the group as one datatype of calls, and the change source over the same
  clients (\<open>internal/core/tools/change/k8s_source.go\<close>).
\<close>

section \<open>One pod\<close>

record pod_args =
  pa_namespace :: string
  pa_name :: string
  pa_context :: string

definition container_rows :: "k8s_pod \<Rightarrow> string list list" where
  "container_rows p =
     map (\<lambda>c. [kc_name c, kc_image c, (if kc_ready c then ''true'' else ''false''), show_int (kc_restarts c), kc_state c]) (po_statuses p)"

definition pod_event_line :: "k8s_event \<Rightarrow> string" where
  "pod_event_line e = ''['' @ ev_type e @ ''] '' @ ev_reason e @ '': '' @ ev_message e"

definition pod_text :: "hub \<Rightarrow> pod_args \<Rightarrow> k8s_pod \<Rightarrow> k8s_event list \<Rightarrow> string" where
  "pod_text H a p es =
     (if multi_context H then ''Context: '' @ context_name H (pa_context a) @ [newline] else []) @
     ''Pod: '' @ om_namespace (po_meta p) @ ''/'' @ om_name (po_meta p) @ [newline] @
     ''Phase: '' @ po_phase p @ '' | IP: '' @ po_ip p @ '' | Node: '' @ po_node p @ [newline] @
     (if es = [] then [] else ''Events:'' @ [newline] @ ''  '' @ join (map pod_event_line es) ([newline] @ ''  '') @ [newline])"

definition pod_events_opts :: "pod_args \<Rightarrow> list_opts" where
  "pod_events_opts a =
     \<lparr>lo_label = [], lo_field = ''involvedObject.name='' @ pa_name a @ '',involvedObject.namespace='' @ pa_namespace a @ '',involvedObject.kind=Pod'',
      lo_limit = 10\<rparr>"

definition describe_pod :: "k8s_env \<Rightarrow> kube \<Rightarrow> pod_args \<Rightarrow> tool_run" where
  "describe_pod E K a s =
     (if pa_name a = [] then (Inl (KtRequired ''k8s.describe_pod'' ''name''), s)
      else on_namespace (pa_namespace a) (on_client K ''k8s.describe_pod'' (pa_context a)
        (\<lambda>c (H, h). case kube_read (kb_pod K) (ReadOne c ''pods'' (pa_namespace a) (pa_name a)) h of
             (Inl e, h') \<Rightarrow> (Inl (KtClient ''k8s.describe_pod'' e), H, h')
           | (Inr p, h') \<Rightarrow>
               (case kube_read (kb_events K) (ReadIn c ''events'' (pa_namespace a) (pod_events_opts a)) h' of
                  (r, h'') \<Rightarrow>
                    (Inr (table_view (pod_text H a p (case r of Inl _ \<Rightarrow> [] | Inr es \<Rightarrow> es))
                            [''CONTAINER'', ''IMAGE'', ''READY'', ''RESTARTS'', ''STATE''] [] (container_rows p)), H, h'')))) s)"

record logs_args =
  lq_namespace :: string
  lq_name :: string
  lq_container :: string
  lq_tail :: int
  lq_since :: int
  lq_previous :: bool
  lq_context :: string

definition tail_lines :: "int \<Rightarrow> int" where
  "tail_lines n = (if 0 < n then min 5000 n else 200)"

definition log_options :: "logs_args \<Rightarrow> log_opts" where
  "log_options a =
     \<lparr>lg_container = lq_container a, lg_tail = tail_lines (lq_tail a), lg_previous = lq_previous a,
      lg_since = (if 0 < lq_since a then Some (lq_since a) else None)\<rparr>"

definition pod_logs :: "kube \<Rightarrow> logs_args \<Rightarrow> tool_run" where
  "pod_logs K a s =
     (if lq_name a = [] then (Inl (KtRequired ''k8s.logs'' ''name''), s)
      else on_namespace (lq_namespace a) (on_client K ''k8s.logs'' (lq_context a)
        (\<lambda>c (H, h). case kube_read (kb_log K) (ReadLog c (lq_namespace a) (lq_name a) (log_options a)) h of
             (Inl e, h') \<Rightarrow> (Inl (KtClient ''k8s.logs'' e), H, h')
           | (Inr text, h') \<Rightarrow> (Inr (text_view text), H, h'))) s)"

section \<open>Events\<close>

record events_args =
  ea_namespace :: string
  ea_kind :: string
  ea_name :: string
  ea_limit :: int
  ea_context :: string

definition events_options :: "events_args \<Rightarrow> list_opts" where
  "events_options a =
     \<lparr>lo_label = [],
      lo_field = join ((if ea_kind a = [] then [] else [''involvedObject.kind='' @ ea_kind a]) @
                       (if ea_name a = [] then [] else [''involvedObject.name='' @ ea_name a])) '','',
      lo_limit = (if 0 < ea_limit a then ea_limit a else 0)\<rparr>"

definition event_row :: "k8s_env \<Rightarrow> k8s_event \<Rightarrow> string list" where
  "event_row E e =
     [if ev_last e = 0 then [] else age_of (ke_clock E) (ev_last e), ev_type e, ev_reason e, ev_kind e @ ''/'' @ ev_object e, ev_message e]"

definition list_events :: "k8s_env \<Rightarrow> kube \<Rightarrow> events_args \<Rightarrow> tool_run" where
  "list_events E K a =
     on_namespace (ea_namespace a) (on_client K ''k8s.events'' (ea_context a)
       (\<lambda>c (H, h). case kube_read (kb_events K) (ReadIn c ''events'' (ea_namespace a) (events_options a)) h of
            (Inl e, h') \<Rightarrow> (Inl (KtClient ''k8s.events'' e), H, h')
          | (Inr es, h') \<Rightarrow>
              (Inr (table_view (show_nat (length es) @ '' event(s) in namespace '' @ ke_quote E (ea_namespace a))
                      (with_context H ''CONTEXT'' [''LAST SEEN'', ''TYPE'', ''REASON'', ''OBJECT'', ''MESSAGE'']) []
                      (map (\<lambda>e. with_context H (context_name H (ea_context a)) (event_row E e)) (ke_sort_events E es))), H, h')))"

section \<open>Custom resources\<close>

text \<open>An object is its decoded JSON; \<open>walk\<close> follows a path of keys.\<close>

fun walk_json :: "json \<Rightarrow> string list \<Rightarrow> json option" where
  "walk_json v [] = Some v"
| "walk_json (JObj m) (seg # path) = (case map_of m seg of None \<Rightarrow> None | Some v \<Rightarrow> walk_json v path)"
| "walk_json v (seg # path) = None"

definition stringify_scalar :: "k8s_env \<Rightarrow> json \<Rightarrow> string" where
  "stringify_scalar E v =
     (case v of
        JNull \<Rightarrow> []
      | JStr s \<Rightarrow> s
      | JBool b \<Rightarrow> if b then ''true'' else ''false''
      | JNum n \<Rightarrow> ke_number E n
      | JObj m \<Rightarrow> ''<object>''
      | JArr vs \<Rightarrow> ''<array>'')"

definition project_field :: "k8s_env \<Rightarrow> json \<Rightarrow> string \<Rightarrow> string" where
  "project_field E obj path =
     (if path = [] then []
      else (case walk_json obj (split_byte (CHR ''.'') path) of None \<Rightarrow> [] | Some v \<Rightarrow> stringify_scalar E v))"

definition json_string :: "json \<Rightarrow> string list \<Rightarrow> string option" where
  "json_string obj path = (case walk_json obj path of Some (JStr s) \<Rightarrow> Some s | _ \<Rightarrow> None)"

definition json_array :: "json \<Rightarrow> string list \<Rightarrow> json list" where
  "json_array obj path = (case walk_json obj path of Some (JArr vs) \<Rightarrow> vs | _ \<Rightarrow> [])"

definition string_at :: "json \<Rightarrow> string list \<Rightarrow> string" where
  "string_at obj path = (case json_string obj path of None \<Rightarrow> [] | Some s \<Rightarrow> s)"

text \<open>A version whose name is not a string still counts as present, with an empty name.\<close>

definition crd_versions :: "json \<Rightarrow> string" where
  "crd_versions obj =
     join (List.map_filter (\<lambda>v. case v of JObj m \<Rightarrow> map_option (\<lambda>n. case n of JStr s \<Rightarrow> s | _ \<Rightarrow> []) (map_of m ''name'') | _ \<Rightarrow> None)
             (json_array obj [''spec'', ''versions''])) '',''"

definition is_object :: "json \<Rightarrow> bool" where
  "is_object v \<longleftrightarrow> (case v of JObj m \<Rightarrow> True | _ \<Rightarrow> False)"

definition crd_established :: "json \<Rightarrow> string" where
  "crd_established obj =
     (case List.find (\<lambda>c. is_object c \<and> string_at c [''type''] = ''Established'') (json_array obj [''status'', ''conditions'']) of
        None \<Rightarrow> []
      | Some c \<Rightarrow> string_at c [''status''])"

record crds_args =
  ca_context :: string
  ca_group :: string
  ca_contains :: string
  ca_limit :: int

definition crd_name :: "json \<Rightarrow> string" where
  "crd_name obj = string_at obj [''metadata'', ''name'']"

definition crd_wanted :: "crds_args \<Rightarrow> json \<Rightarrow> bool" where
  "crd_wanted a obj \<longleftrightarrow>
     (ca_group a = [] \<or> string_at obj [''spec'', ''group''] = ca_group a) \<and> (ca_contains a = [] \<or> contains (crd_name obj) (ca_contains a))"

definition crd_row :: "json \<Rightarrow> string list" where
  "crd_row obj =
     [crd_name obj, string_at obj [''spec'', ''group''], crd_versions obj, string_at obj [''spec'', ''scope''],
      string_at obj [''spec'', ''names'', ''kind''], string_at obj [''spec'', ''names'', ''plural''], crd_established obj]"

definition limit_or_50 :: "int \<Rightarrow> int" where
  "limit_or_50 n = (if n \<le> 0 then 50 else n)"

definition list_crds :: "k8s_env \<Rightarrow> kube \<Rightarrow> crds_args \<Rightarrow> tool_run" where
  "list_crds E K a =
     on_client K ''k8s.list_crds'' (ca_context a)
       (\<lambda>c (H, h).
          if \<not> kb_has_dynamic K c then (Inr (text_view ''k8s.list_crds: dynamic client unavailable for this context''), H, h)
          else (case kube_read (kb_dynamic K) (ReadCluster c ''apiextensions.k8s.io/v1/customresourcedefinitions'' no_opts) h of
                  (Inl e, h') \<Rightarrow> (Inl (KtClient ''k8s.list_crds'' e), H, h')
                | (Inr objs, h') \<Rightarrow>
                    (let shown = take (nat (limit_or_50 (ca_limit a))) (filter (crd_wanted a) (sort_key crd_name objs)) in
                     (Inr (table_view
                        (show_nat (length shown) @ '' CRD(s) shown'' @ (if ca_group a \<noteq> [] \<or> ca_contains a \<noteq> [] then '' (filtered)'' else []))
                        (with_context H ''CONTEXT'' [''NAME'', ''GROUP'', ''VERSIONS'', ''SCOPE'', ''KIND'', ''PLURAL'', ''ESTABLISHED''])
                        (with_context H AlignLeft (replicate 7 AlignLeft))
                        (map (\<lambda>c. with_context H (context_name H (ca_context a)) (crd_row c)) shown)), H, h'))))"

record cr_args =
  cr_context :: string
  cr_group :: string
  cr_version :: string
  cr_resource :: string
  cr_namespace :: string
  cr_label :: string
  cr_limit :: int
  cr_fields :: "string list"

definition default_cr_fields :: "string list" where
  "default_cr_fields = [''metadata.name'', ''metadata.namespace'', ''status.phase'']"

definition cr_resource_path :: "cr_args \<Rightarrow> string" where
  "cr_resource_path a = cr_group a @ ''/'' @ cr_version a @ ''/'' @ cr_resource a"

text \<open>Without a namespace the list spans all of them, which is the read in the empty namespace.\<close>

definition cr_read :: "string \<Rightarrow> cr_args \<Rightarrow> k8s_read" where
  "cr_read c a =
     ReadIn c (cr_resource_path a) (cr_namespace a) \<lparr>lo_label = cr_label a, lo_field = [], lo_limit = limit_or_50 (cr_limit a)\<rparr>"

definition list_cr :: "k8s_env \<Rightarrow> kube \<Rightarrow> cr_args \<Rightarrow> tool_run" where
  "list_cr E K a s =
     (if cr_group a = [] \<or> cr_version a = [] \<or> cr_resource a = []
      then (Inl (KtRequired ''k8s.list_cr'' ''group, version, resource''), s)
      else on_namespace (cr_namespace a) (on_client K ''k8s.list_cr'' (cr_context a)
        (\<lambda>c (H, h).
           if \<not> kb_has_dynamic K c then (Inr (text_view ''k8s.list_cr: dynamic client unavailable for this context''), H, h)
           else (case kube_read (kb_dynamic K) (cr_read c a) h of
                   (Inl e, h') \<Rightarrow> (Inl (KtClient ''k8s.list_cr'' e), H, h')
                 | (Inr objs, h') \<Rightarrow>
                     (let fields = (if cr_fields a = [] then default_cr_fields else cr_fields a) in
                      (Inr (table_view
                         (show_nat (length objs) @ '' '' @ cr_resource_path a @ '' item(s)'' @
                          (if cr_namespace a \<noteq> [] then '' in namespace '' @ ke_quote E (cr_namespace a) else []))
                         (with_context H ''CONTEXT'' (map (ke_upper E) fields)) (with_context H AlignLeft (replicate (length fields) AlignLeft))
                         (map (\<lambda>obj. with_context H (context_name H (cr_context a)) (map (project_field E obj) fields)) objs)), H, h'))))) s)"

section \<open>Every tool of the group\<close>

datatype k8s_call =
    ListPods list_args
  | ListDeployments list_args
  | ListStatefulSets list_args
  | ListDaemonSets list_args
  | ListJobs list_args
  | ListCronJobs list_args
  | ListServices list_args
  | ListIngresses list_args
  | ListHPA list_args
  | ListPDBs list_args
  | ListNetworkPolicies list_args
  | ListNodes list_args
  | ListNamespaces list_args
  | TopPods list_args
  | TopNodes list_args
  | DescribePod pod_args
  | PodLogs logs_args
  | ListEvents events_args
  | ListCRDs crds_args
  | ListCR cr_args

fun k8s_tool :: "k8s_env \<Rightarrow> kube \<Rightarrow> k8s_call \<Rightarrow> tool_run" where
  "k8s_tool E K (ListPods a) = list_tool E K (pods_spec E K) a"
| "k8s_tool E K (ListDeployments a) = list_tool E K (deployments_spec E K) a"
| "k8s_tool E K (ListStatefulSets a) = list_tool E K (statefulsets_spec E K) a"
| "k8s_tool E K (ListDaemonSets a) = list_tool E K (daemonsets_spec E K) a"
| "k8s_tool E K (ListJobs a) = list_tool E K (jobs_spec E K) a"
| "k8s_tool E K (ListCronJobs a) = list_tool E K (cronjobs_spec E K) a"
| "k8s_tool E K (ListServices a) = list_tool E K (services_spec E K) a"
| "k8s_tool E K (ListIngresses a) = list_tool E K (ingresses_spec E K) a"
| "k8s_tool E K (ListHPA a) = list_tool E K (hpas_spec E K) a"
| "k8s_tool E K (ListPDBs a) = list_tool E K (pdbs_spec E K) a"
| "k8s_tool E K (ListNetworkPolicies a) = list_tool E K (netpols_spec E K) a"
| "k8s_tool E K (ListNodes a) = list_tool E K (nodes_spec E K) a"
| "k8s_tool E K (ListNamespaces a) = list_tool E K (namespaces_spec E K) a"
| "k8s_tool E K (TopPods a) = list_tool E K (top_pods_spec E K) a"
| "k8s_tool E K (TopNodes a) = list_tool E K (top_nodes_spec E K) a"
| "k8s_tool E K (DescribePod a) = describe_pod E K a"
| "k8s_tool E K (PodLogs a) = pod_logs K a"
| "k8s_tool E K (ListEvents a) = list_events E K a"
| "k8s_tool E K (ListCRDs a) = list_crds E K a"
| "k8s_tool E K (ListCR a) = list_cr E K a"

section \<open>Changes of a workload\<close>

definition owned_by :: "string \<Rightarrow> string \<Rightarrow> k8s_owned \<Rightarrow> bool" where
  "owned_by kind name r \<longleftrightarrow> (kind, name) \<in> set (ow_owners r)"

definition first_image :: "string list \<Rightarrow> string" where
  "first_image imgs = (case imgs of [] \<Rightarrow> [] | i # _ \<Rightarrow> i)"

text \<open>Decimal digits; anything else makes the revision zero. Overflow wraps.\<close>

fun revision_digits :: "int \<Rightarrow> string \<Rightarrow> int" where
  "revision_digits n [] = n"
| "revision_digits n (c # s) = (if decimal c then revision_digits (wrap64 (n * 10 + int (digit_val c))) s else 0)"

definition parse_revision :: "string \<Rightarrow> int" where
  "parse_revision s = revision_digits 0 s"

definition k8s_change :: "gotime \<Rightarrow> string \<Rightarrow> string \<Rightarrow> string \<Rightarrow> string \<Rightarrow> string \<Rightarrow> change_event" where
  "k8s_change t kind target summary before after =
     \<lparr>cv_time = t, cv_kind = kind, cv_target = target, cv_summary = summary, cv_before = before, cv_after = after, cv_source = ''k8s''\<rparr>"

fun revision_events :: "string \<Rightarrow> string \<Rightarrow> (int \<times> gotime \<times> string) list \<Rightarrow> change_event list" where
  "revision_events name before [] = []"
| "revision_events name before ((n, t, img) # rs) =
     k8s_change t ''image'' name (''Deployment '' @ name @ '' revision '' @ show_int n) before img # revision_events name img rs"

definition revision_annotation :: string where
  "revision_annotation = ''deployment.kubernetes.io/revision''"

definition deployment_revision_events :: "string \<Rightarrow> k8s_owned list \<Rightarrow> change_event list" where
  "deployment_revision_events name rs =
     revision_events name []
       (sort_key fst (map (\<lambda>r. (parse_revision (case gm_get (ow_annotations r) revision_annotation of None \<Rightarrow> [] | Some s \<Rightarrow> s),
                               om_created (ow_meta r), first_image (ow_images r)))
          (filter (owned_by ''Deployment'' name) rs)))"

definition controller_revision_events :: "string \<Rightarrow> string \<Rightarrow> k8s_owned list \<Rightarrow> change_event list" where
  "controller_revision_events kind workload rs =
     map (\<lambda>r. k8s_change (om_created (ow_meta r)) ''rollout'' workload (workload @ '' revision '' @ show_int (ow_revision r)) [] [])
       (filter (owned_by kind workload) rs)"

definition spec_baseline_events :: "string \<Rightarrow> gotime \<Rightarrow> string \<Rightarrow> int option \<Rightarrow> change_event list" where
  "spec_baseline_events name t img replicas =
     (if img = [] then [] else [k8s_change t ''image'' name (name @ '' current image'') [] img]) @
     [k8s_change t ''scale'' name (name @ '' desired replicas'') [] (desired 1 replicas)]"

definition workload_spec_events :: "k8s_workload \<Rightarrow> change_event list" where
  "workload_spec_events d = spec_baseline_events (om_name (wl_meta d)) (om_created (wl_meta d)) (first_image (wl_images d)) (wl_replicas d)"

definition daemonset_spec_events :: "k8s_daemonset \<Rightarrow> change_event list" where
  "daemonset_spec_events d =
     (let n = om_name (ds_meta d); img = first_image (ds_images d) in
      if img = [] then [] else [k8s_change (om_created (ds_meta d)) ''image'' n (''DaemonSet '' @ n @ '' current image'') [] img])"

definition hpa_events :: "string \<Rightarrow> k8s_hpa list \<Rightarrow> change_event list" where
  "hpa_events workload hs =
     map (\<lambda>p. k8s_change (om_created (hp_meta p)) ''scale'' workload
            (''HPA '' @ om_name (hp_meta p) @ '' min='' @ desired 1 (hp_min p) @ '' max='' @ show_int (hp_max p) @
             '' current='' @ show_int (hp_current p)) [] (show_int (hp_current p)))
       (filter (\<lambda>p. hp_target p = workload) hs)"

definition event_moment :: "k8s_event \<Rightarrow> gotime" where
  "event_moment e = (if ev_last e \<noteq> 0 then ev_last e else if ev_time e \<noteq> 0 then ev_time e else ev_created e)"

definition event_events :: "string \<Rightarrow> k8s_event list \<Rightarrow> change_event list" where
  "event_events workload es =
     map (\<lambda>e. k8s_change (event_moment e) ''event'' workload (ev_reason e @ '': '' @ ev_message e) [] [])
       (filter (\<lambda>e. ev_object e = [] \<or> ev_object e = workload) es)"

definition plain_selector_value :: "string \<Rightarrow> bool" where
  "plain_selector_value s \<longleftrightarrow> s \<noteq> [] \<and> list_all (\<lambda>c. c \<notin> {CHR '','', CHR ''='', CHR '' '', CHR 0x09, newline}) s"

text \<open>One kind of workload: list it, and when the workload is in the list, read what it owns; both errors
  only leave out events.\<close>

definition workload_group ::
    "('i list) reader \<Rightarrow> ('i \<Rightarrow> bool) \<Rightarrow> (k8s_owned list) reader \<Rightarrow> (k8s_owned list \<Rightarrow> change_event list) \<Rightarrow> ('i \<Rightarrow> change_event list)
     \<Rightarrow> k8s_read list \<Rightarrow> change_event list list \<times> k8s_read list" where
  "workload_group lst is_it owned revs spec h =
     (case lst h of
        (Inl _, h') \<Rightarrow> ([], h')
      | (Inr xs, h') \<Rightarrow>
          (case List.find is_it xs of
             None \<Rightarrow> ([], h')
           | Some x \<Rightarrow> (case owned h' of (r, h'') \<Rightarrow> ([case r of Inl _ \<Rightarrow> [] | Inr os \<Rightarrow> revs os, spec x], h''))))"

definition list_group :: "('i list) reader \<Rightarrow> ('i list \<Rightarrow> change_event list) \<Rightarrow> k8s_read list \<Rightarrow> change_event list list \<times> k8s_read list" where
  "list_group lst f h = (case lst h of (Inl _, h') \<Rightarrow> ([], h') | (Inr xs, h') \<Rightarrow> ([f xs], h'))"

definition k8s_groups :: "kube \<Rightarrow> string \<Rightarrow> change_query \<Rightarrow> k8s_read list \<Rightarrow> change_event list list \<times> k8s_read list" where
  "k8s_groups K c q h0 =
     (let ns = cq_namespace q; w = cq_workload q;
          (g1, h1) = workload_group (kube_read (kb_deployments K) (ReadIn c ''deployments'' ns no_opts)) (\<lambda>d. om_name (wl_meta d) = w)
            (kube_read (kb_replicasets K) (ReadIn c ''replicasets'' ns no_opts)) (deployment_revision_events w) workload_spec_events h0;
          (g2, h2) = workload_group (kube_read (kb_statefulsets K) (ReadIn c ''statefulsets'' ns no_opts)) (\<lambda>d. om_name (wl_meta d) = w)
            (kube_read (kb_revisions K) (ReadIn c ''controllerrevisions'' ns no_opts)) (controller_revision_events ''StatefulSet'' w)
            workload_spec_events h1;
          (g3, h3) = workload_group (kube_read (kb_daemonsets K) (ReadIn c ''daemonsets'' ns no_opts)) (\<lambda>d. om_name (ds_meta d) = w)
            (kube_read (kb_revisions K) (ReadIn c ''controllerrevisions'' ns no_opts)) (controller_revision_events ''DaemonSet'' w)
            daemonset_spec_events h2;
          (g4, h4) = list_group (kube_read (kb_hpas K) (ReadIn c ''horizontalpodautoscalers'' ns no_opts)) (hpa_events w) h3;
          (g5, h5) = (if plain_selector_value w
                      then list_group (kube_read (kb_events K)
                             (ReadIn c ''events'' ns \<lparr>lo_label = [], lo_field = ''involvedObject.name='' @ w, lo_limit = 0\<rparr>)) (event_events w) h4
                      else ([], h4))
      in (g1 @ g2 @ g3 @ g4 @ g5, h5))"

definition k8s_changes ::
    "gotime \<Rightarrow> kube \<Rightarrow> change_query \<Rightarrow> hub \<times> k8s_read list \<Rightarrow> (k8s_error + change_event list) \<times> hub \<times> k8s_read list" where
  "k8s_changes clock K q s =
     (case hub_get K (cq_context q) (fst s) of
        (Inl e, H) \<Rightarrow> (Inl e, H, snd s)
      | (Inr c, H) \<Rightarrow>
          (case k8s_groups K c q (snd s) of
             (groups, h) \<Rightarrow>
               (let merged = merge_sorted 0 groups;
                    recent = (if 0 < cq_since q then filter (\<lambda>e. \<not> cv_time e < clock - cq_since q) merged else merged) in
                (Inr (if 0 < cq_limit q \<and> cq_limit q < int (length recent) then take (nat (cq_limit q)) recent else recent), H, h))))"

end
