(* ===== verification/K8s_Facts.thy ===== *)
theory K8s_Facts
  imports K8s_Inspect
begin

text \<open>
  Which reads the Kubernetes tools make: each is in a namespace the hub's check let through, or of a
  cluster-scoped resource. The change source does not ask the check.
\<close>

section \<open>Runs that only read\<close>

definition passes :: "(string \<Rightarrow> ns_error option) option \<Rightarrow> string \<Rightarrow> bool" where
  "passes chk ns \<longleftrightarrow> (case chk of None \<Rightarrow> True | Some f \<Rightarrow> f ns = None)"

definition read_ok :: "(string \<Rightarrow> ns_error option) option \<Rightarrow> k8s_read \<Rightarrow> bool" where
  "read_ok chk r \<longleftrightarrow> (case read_namespace r of None \<Rightarrow> True | Some ns \<Rightarrow> passes chk ns)"

definition reads_ok :: "(string \<Rightarrow> ns_error option) option \<Rightarrow> tool_run \<Rightarrow> bool" where
  "reads_ok chk m \<longleftrightarrow>
     (\<forall>H h. hb_check H = chk \<longrightarrow>
        (\<exists>new. snd (snd (m (H, h))) = h @ new \<and> list_all (read_ok chk) new \<and> hb_check (fst (snd (m (H, h)))) = chk))"

definition reader_ok :: "(string \<Rightarrow> ns_error option) option \<Rightarrow> 'a reader \<Rightarrow> bool" where
  "reader_ok chk rd \<longleftrightarrow> (\<forall>h. \<exists>new. snd (rd h) = h @ new \<and> list_all (read_ok chk) new)"

lemma reader_okD: "reader_ok chk rd \<Longrightarrow> \<exists>new. snd (rd h) = h @ new \<and> list_all (read_ok chk) new"
  by (simp add: reader_ok_def)

lemma reads_on_namespace:
  assumes "passes chk ns \<Longrightarrow> reads_ok chk m" shows "reads_ok chk (on_namespace ns m)"
  unfolding reads_ok_def
proof (intro allI impI)
  fix H :: hub and h
  assume H: "hb_check H = chk"
  show "\<exists>new. snd (snd (on_namespace ns m (H, h))) = h @ new \<and> list_all (read_ok chk) new \<and>
      hb_check (fst (snd (on_namespace ns m (H, h)))) = chk"
  proof (cases "check_namespace H ns")
    case None
    then have "passes chk ns" using H by (auto simp: check_namespace_def passes_def split: option.splits)
    then have "reads_ok chk m" by (rule assms)
    then show ?thesis using H None by (simp add: on_namespace_def reads_ok_def)
  next
    case (Some e)
    then show ?thesis using H by (simp add: on_namespace_def)
  qed
qed

lemma reads_on_client: "(\<And>c. reads_ok chk (m c)) \<Longrightarrow> reads_ok chk (on_client K tool ctx m)"
  using hub_get_frame
  by (fastforce simp: reads_ok_def on_client_def split: prod.split sum.split)

lemma reads_answer:
  assumes "reader_ok chk rd" shows "reads_ok chk (\<lambda>(H, h). case rd h of (r, h') \<Rightarrow> (f H r, H, h'))"
  using reader_okD [OF assms] by (simp add: reads_ok_def case_prod_unfold)

lemma reads_stop: "reads_ok chk (\<lambda>s. (r, s))"
  by (simp add: reads_ok_def)

lemma reader_kube: "read_ok chk r \<Longrightarrow> reader_ok chk (kube_read f r)"
  by (simp add: reader_ok_def kube_read_def)

lemma read_in_ok: "passes chk ns \<Longrightarrow> read_ok chk (ReadIn c res ns opts)"
  by (simp add: read_ok_def)

lemma read_cluster_ok: "read_ok chk (ReadCluster c res opts)"
  by (simp add: read_ok_def)

section \<open>List tools\<close>

text \<open>A specification whose items read in the namespace of the call asks for the check; the others read
  cluster-scoped objects.\<close>

definition spec_reads :: "('i) list_spec \<Rightarrow> bool" where
  "spec_reads sp \<longleftrightarrow>
     (\<forall>chk c a opts. (ls_needs_namespace sp \<longrightarrow> passes chk (la_namespace a)) \<longrightarrow> reader_ok chk (ls_items sp c a opts))"

lemma spec_in_namespace: "ls_items sp = in_namespace res f K \<Longrightarrow> ls_needs_namespace sp \<Longrightarrow> spec_reads sp"
  by (auto simp: spec_reads_def in_namespace_def intro: reader_kube read_in_ok)

lemma spec_cluster_wide: "ls_items sp = cluster_wide res f K \<Longrightarrow> spec_reads sp"
  by (simp add: spec_reads_def cluster_wide_def reader_kube read_cluster_ok)

lemma list_tool_reads:
  assumes "spec_reads sp" shows "reads_ok chk (list_tool E K sp a)"
proof -
  have "reads_ok chk (on_client K (ls_name sp) (la_context a)
      (\<lambda>c (H, h). case ls_items sp c a (list_options a) h of (r, h') \<Rightarrow> (list_view E sp a H r, H, h')))"
    if "ls_needs_namespace sp \<longrightarrow> passes chk (la_namespace a)"
    using assms that by (intro reads_on_client reads_answer) (simp add: spec_reads_def)
  then show ?thesis by (auto simp: list_tool_def intro: reads_on_namespace)
qed

lemma top_spec_reads: "spec_reads (top_pods_spec E K)" "spec_reads (top_nodes_spec E K)"
  by (auto simp: spec_reads_def top_pods_spec_def top_nodes_spec_def reader_ok_def kube_read_def read_in_ok read_cluster_ok)

lemmas namespaced_specs = pods_spec_def deployments_spec_def statefulsets_spec_def daemonsets_spec_def jobs_spec_def cronjobs_spec_def
  services_spec_def ingresses_spec_def hpas_spec_def pdbs_spec_def netpols_spec_def

lemma resource_spec_reads:
  "spec_reads (pods_spec E K)" "spec_reads (deployments_spec E K)" "spec_reads (statefulsets_spec E K)"
  "spec_reads (daemonsets_spec E K)" "spec_reads (jobs_spec E K)" "spec_reads (cronjobs_spec E K)" "spec_reads (services_spec E K)"
  "spec_reads (ingresses_spec E K)" "spec_reads (hpas_spec E K)" "spec_reads (pdbs_spec E K)" "spec_reads (netpols_spec E K)"
  "spec_reads (nodes_spec E K)" "spec_reads (namespaces_spec E K)"
  by (rule spec_in_namespace; simp add: namespaced_specs)+
    (rule spec_cluster_wide; simp add: nodes_spec_def namespaces_spec_def)+

section \<open>The other tools\<close>

lemma describe_pod_reads: "reads_ok chk (describe_pod E K a)"
proof -
  have body: "reads_ok chk (\<lambda>(H, h). case kube_read (kb_pod K) (ReadOne c ''pods'' (pa_namespace a) (pa_name a)) h of
             (Inl e, h') \<Rightarrow> (Inl (KtClient ''k8s.describe_pod'' e), H, h')
           | (Inr p, h') \<Rightarrow>
               (case kube_read (kb_events K) (ReadIn c ''events'' (pa_namespace a) (pod_events_opts a)) h' of
                  (r, h'') \<Rightarrow>
                    (Inr (table_view (pod_text H a p (case r of Inl _ \<Rightarrow> [] | Inr es \<Rightarrow> es))
                            [''CONTAINER'', ''IMAGE'', ''READY'', ''RESTARTS'', ''STATE''] [] (container_rows p)), H, h'')))"
    if "passes chk (pa_namespace a)" for c
    using that by (auto simp: reads_ok_def kube_read_def read_ok_def split: sum.split)
  have "reads_ok chk (on_namespace (pa_namespace a) (on_client K ''k8s.describe_pod'' (pa_context a) (\<lambda>c (H, h).
      case kube_read (kb_pod K) (ReadOne c ''pods'' (pa_namespace a) (pa_name a)) h of
             (Inl e, h') \<Rightarrow> (Inl (KtClient ''k8s.describe_pod'' e), H, h')
           | (Inr p, h') \<Rightarrow>
               (case kube_read (kb_events K) (ReadIn c ''events'' (pa_namespace a) (pod_events_opts a)) h' of
                  (r, h'') \<Rightarrow>
                    (Inr (table_view (pod_text H a p (case r of Inl _ \<Rightarrow> [] | Inr es \<Rightarrow> es))
                            [''CONTAINER'', ''IMAGE'', ''READY'', ''RESTARTS'', ''STATE''] [] (container_rows p)), H, h'')))))"
    by (intro reads_on_namespace reads_on_client body)
  then show ?thesis unfolding describe_pod_def [abs_def] reads_ok_def by simp
qed

lemma single_read:
  assumes "\<And>c. read_ok chk (r c)"
  shows "reads_ok chk (\<lambda>(H, h). case kube_read f (r c) h of (Inl e, h') \<Rightarrow> (g H e, H, h') | (Inr x, h') \<Rightarrow> (k H x, H, h'))"
  using assms by (auto simp: reads_ok_def kube_read_def split: sum.split)

lemma pod_logs_reads: "reads_ok chk (pod_logs K a)"
proof -
  have "reads_ok chk (on_namespace (lq_namespace a) (on_client K ''k8s.logs'' (lq_context a)
        (\<lambda>c (H, h). case kube_read (kb_log K) (ReadLog c (lq_namespace a) (lq_name a) (log_options a)) h of
             (Inl e, h') \<Rightarrow> (Inl (KtClient ''k8s.logs'' e), H, h')
           | (Inr text, h') \<Rightarrow> (Inr (text_view text), H, h'))))"
    by (intro reads_on_namespace reads_on_client single_read) (simp add: read_ok_def)
  then show ?thesis unfolding pod_logs_def [abs_def] reads_ok_def by simp
qed

lemma list_events_reads: "reads_ok chk (list_events E K a)"
  unfolding list_events_def by (intro reads_on_namespace reads_on_client single_read) (simp add: read_ok_def)

lemma list_crds_reads: "reads_ok chk (list_crds E K a)"
  unfolding list_crds_def
  by (intro reads_on_client) (auto simp: reads_ok_def kube_read_def read_ok_def Let_def split: sum.split)

lemma cr_read_ok: "passes chk (cr_namespace a) \<Longrightarrow> read_ok chk (cr_read c a)"
  by (simp add: cr_read_def read_ok_def)

lemma guarded_read:
  assumes "read_ok chk r"
  shows "reads_ok chk (\<lambda>(H, h). if ready then (v, H, h)
           else (case kube_read f r h of (Inl e, h') \<Rightarrow> (g H e, H, h') | (Inr x, h') \<Rightarrow> (k H x, H, h')))"
  using assms by (auto simp: reads_ok_def kube_read_def split: sum.split)

lemma list_cr_reads: "reads_ok chk (list_cr E K a)"
proof (cases "cr_group a = [] \<or> cr_version a = [] \<or> cr_resource a = []")
  case True
  then show ?thesis by (simp add: reads_ok_def list_cr_def)
next
  case False
  then show ?thesis unfolding list_cr_def Let_def
    by (simp only: if_False) (intro reads_on_namespace reads_on_client guarded_read cr_read_ok)
qed

lemmas tool_reads = list_tool_reads resource_spec_reads top_spec_reads describe_pod_reads pod_logs_reads list_events_reads
  list_crds_reads list_cr_reads

lemma k8s_tool_reads: "reads_ok chk (k8s_tool E K call)"
  by (cases call) (simp_all add: tool_reads)

section \<open>Log lines\<close>

lemma tail_lines_bounds: "1 \<le> tail_lines n \<and> tail_lines n \<le> 5000"
  by (simp add: tail_lines_def)

section \<open>The change source\<close>

lemma workload_group_reads:
  "\<exists>new. snd (workload_group (kube_read f (ReadIn c res ns opts)) is_it (kube_read g (ReadIn c res' ns opts')) revs spec h) = h @ ReadIn c res ns opts # new \<and>
     list_all (\<lambda>r. read_namespace r = Some ns) new"
  by (auto simp: workload_group_def kube_read_def split: sum.split option.split)

lemma list_group_reads: "snd (list_group (kube_read f r) g h) = h @ [r]"
  by (auto simp: list_group_def kube_read_def split: sum.split)

text \<open>The first thing it does with a client is to list the deployments of the namespace it is asked about,
  and all it reads is in that namespace, whatever the hub's check says.\<close>

lemma k8s_groups_reads:
  "\<exists>new. snd (k8s_groups K c q h) = h @ ReadIn c ''deployments'' (cq_namespace q) no_opts # new \<and>
     list_all (\<lambda>r. read_namespace r = Some (cq_namespace q)) new"
proof -
  let ?ns = "cq_namespace q"
  obtain g1 h1 where 1: "workload_group (kube_read (kb_deployments K) (ReadIn c ''deployments'' ?ns no_opts)) (\<lambda>d. om_name (wl_meta d) = cq_workload q)
      (kube_read (kb_replicasets K) (ReadIn c ''replicasets'' ?ns no_opts)) (deployment_revision_events (cq_workload q)) workload_spec_events h = (g1, h1)"
    by fastforce
  obtain g2 h2 where 2: "workload_group (kube_read (kb_statefulsets K) (ReadIn c ''statefulsets'' ?ns no_opts)) (\<lambda>d. om_name (wl_meta d) = cq_workload q)
      (kube_read (kb_revisions K) (ReadIn c ''controllerrevisions'' ?ns no_opts)) (controller_revision_events ''StatefulSet'' (cq_workload q))
      workload_spec_events h1 = (g2, h2)" by fastforce
  obtain g3 h3 where 3: "workload_group (kube_read (kb_daemonsets K) (ReadIn c ''daemonsets'' ?ns no_opts)) (\<lambda>d. om_name (ds_meta d) = cq_workload q)
      (kube_read (kb_revisions K) (ReadIn c ''controllerrevisions'' ?ns no_opts)) (controller_revision_events ''DaemonSet'' (cq_workload q))
      daemonset_spec_events h2 = (g3, h3)" by fastforce
  obtain n1 where n1: "h1 = h @ ReadIn c ''deployments'' ?ns no_opts # n1" "list_all (\<lambda>r. read_namespace r = Some ?ns) n1"
    using workload_group_reads [of "kb_deployments K" c "''deployments''" ?ns no_opts _ "kb_replicasets K" "''replicasets''" no_opts
        "deployment_revision_events (cq_workload q)" workload_spec_events h] 1 by (metis snd_conv)
  obtain n2 where n2: "h2 = h1 @ ReadIn c ''statefulsets'' ?ns no_opts # n2" "list_all (\<lambda>r. read_namespace r = Some ?ns) n2"
    using workload_group_reads [of "kb_statefulsets K" c "''statefulsets''" ?ns no_opts _ "kb_revisions K" "''controllerrevisions''" no_opts
        "controller_revision_events ''StatefulSet'' (cq_workload q)" workload_spec_events h1] 2 by (metis snd_conv)
  obtain n3 where n3: "h3 = h2 @ ReadIn c ''daemonsets'' ?ns no_opts # n3" "list_all (\<lambda>r. read_namespace r = Some ?ns) n3"
    using workload_group_reads [of "kb_daemonsets K" c "''daemonsets''" ?ns no_opts _ "kb_revisions K" "''controllerrevisions''" no_opts
        "controller_revision_events ''DaemonSet'' (cq_workload q)" daemonset_spec_events h2] 3 by (metis snd_conv)
  define r4 where "r4 = ReadIn c ''horizontalpodautoscalers'' ?ns no_opts"
  define r5 where "r5 = ReadIn c ''events'' ?ns \<lparr>lo_label = [], lo_field = ''involvedObject.name='' @ cq_workload q, lo_limit = 0\<rparr>"
  have "snd (k8s_groups K c q h) = h3 @ r4 # (if plain_selector_value (cq_workload q) then [r5] else [])"
    by (simp add: k8s_groups_def Let_def 1 2 3 case_prod_unfold list_group_reads r4_def r5_def)
  then show ?thesis using n1 n2 n3 by (auto simp: r4_def r5_def)
qed

lemma k8s_changes_reads:
  assumes "hub_get K (cq_context q) H = (Inr c, H')"
  shows "\<exists>new. snd (snd (k8s_changes clock K q (H, h))) = h @ ReadIn c ''deployments'' (cq_namespace q) no_opts # new \<and>
     list_all (\<lambda>r. read_namespace r = Some (cq_namespace q)) new"
  using k8s_groups_reads [of K c q h] assms by (simp add: k8s_changes_def Let_def case_prod_unfold)

end
