(* ===== verification/Self_Update.thy ===== *)
theory Self_Update
  imports Atomic_File Go_Path Correlate_Cause
begin

text \<open>
  The self-update (\<open>internal/selfupdate/selfupdate.go\<close>): the latest release tag, the download beside the
  running binary, the published digest, the check of the header and the rename. HTTP answers, SHA-256,
  the JSON decoder, the executable's path and the failures of system calls are parameters. The index
  into the fields of an empty checksum file is a panic, which is an error value here.
\<close>

section \<open>Environment and errors\<close>

record http_answer =
  ha_status :: int
  ha_body :: string
  ha_broken :: bool

type_synonym ('w) fetcher = "string \<Rightarrow> 'w \<Rightarrow> http_answer option \<times> 'w"

record update_env =
  ue_goos :: string
  ue_goarch :: string
  ue_version :: string
  ue_exe :: "string option"
  ue_links :: "string \<Rightarrow> string option"
  ue_unicode :: unicode
  ue_tag :: "string \<Rightarrow> string option"
  ue_sha256 :: "string \<Rightarrow> string"
  ue_tmp :: string

record update_faults =
  uf_create :: bool
  uf_write :: "nat option"
  uf_close :: bool
  uf_hash :: bool
  uf_open :: bool
  uf_chmod :: bool
  uf_rename :: bool
  uf_remove :: bool

datatype update_error =
    UpWindows
  | UpNetwork string
  | UpStatus int
  | UpDecode
  | UpNoTag
  | UpExecutable
  | UpCreate
  | UpWrite
  | UpClose
  | UpRead
  | UpPanic
  | UpDigestLength string
  | UpDigestChar string
  | UpOpen
  | UpMismatch string string
  | UpHeader string
  | UpChmod
  | UpRename string

record update_result =
  ur_previous :: string
  ur_latest :: string
  ur_replaced :: bool
  ur_path :: string

section \<open>Requests\<close>

definition release_repo :: string where
  "release_repo = ''rlaope/cloudy-agent''"

definition latest_url :: string where
  "latest_url = ''https://api.github.com/repos/'' @ release_repo @ ''/releases/latest''"

definition fetch_latest_tag :: "('w) fetcher \<Rightarrow> (string \<Rightarrow> string option) \<Rightarrow> 'w \<Rightarrow> (update_error + string) \<times> 'w" where
  "fetch_latest_tag get dec w =
     (case get latest_url w of
        (None, w') \<Rightarrow> (Inl (UpNetwork latest_url), w')
      | (Some a, w') \<Rightarrow>
          (if ha_status a \<noteq> 200 then Inl (UpStatus (ha_status a))
           else (case dec (ha_body a) of
                   None \<Rightarrow> Inl UpDecode
                 | Some t \<Rightarrow> if t = [] then Inl UpNoTag else Inr t), w'))"

definition remove_tmp :: "update_faults \<Rightarrow> string \<Rightarrow> files \<Rightarrow> files" where
  "remove_tmp F tmp fs = (if uf_remove F then fs else gm_del tmp fs)"

text \<open>The bytes that reach the file: all, or those before the first failure of the disk or of the body.\<close>

definition download_asset ::
    "('w) fetcher \<Rightarrow> update_faults \<Rightarrow> string \<Rightarrow> string \<Rightarrow> files \<Rightarrow> 'w \<Rightarrow> update_error option \<times> files \<times> 'w" where
  "download_asset get F tmp url fs w =
     (case get url w of
        (None, w') \<Rightarrow> (Some (UpNetwork url), fs, w')
      | (Some a, w') \<Rightarrow>
          if ha_status a \<noteq> 200 then (Some (UpStatus (ha_status a)), fs, w')
          else if uf_create F then (Some UpCreate, fs, w')
          else (let b = (case uf_write F of None \<Rightarrow> ha_body a | Some n \<Rightarrow> take n (ha_body a)); fs1 = gm_put tmp b fs in
                if uf_write F \<noteq> None \<or> ha_broken a then (Some UpWrite, remove_tmp F tmp fs1, w')
                else if uf_close F then (Some UpClose, remove_tmp F tmp fs1, w')
                else (None, fs1, w')))"

definition parse_digest :: "unicode \<Rightarrow> string \<Rightarrow> update_error + string" where
  "parse_digest u body =
     (case str_fields body of
        [] \<Rightarrow> Inl UpPanic
      | t # _ \<Rightarrow>
          (let d = to_lower u (trim_space t) in
           if length d \<noteq> 64 then Inl (UpDigestLength d)
           else if \<not> list_all is_hex d then Inl (UpDigestChar d)
           else Inr d))"

definition digest_limit :: nat where
  "digest_limit = 4096"

definition fetch_sha256 :: "('w) fetcher \<Rightarrow> unicode \<Rightarrow> string \<Rightarrow> 'w \<Rightarrow> (update_error + string) \<times> 'w" where
  "fetch_sha256 get u url w =
     (case get url w of
        (None, w') \<Rightarrow> (Inl (UpNetwork url), w')
      | (Some a, w') \<Rightarrow>
          (if ha_status a \<noteq> 200 then Inl (UpStatus (ha_status a))
           else if ha_broken a \<and> length (ha_body a) < digest_limit then Inl UpRead
           else parse_digest u (take digest_limit (ha_body a)), w'))"

section \<open>Checks of the downloaded file\<close>

definition verify_sha256 :: "update_env \<Rightarrow> update_faults \<Rightarrow> string \<Rightarrow> string \<Rightarrow> files \<Rightarrow> update_error option" where
  "verify_sha256 E F path expected fs =
     (case gm_get fs path of
        None \<Rightarrow> Some UpOpen
      | Some b \<Rightarrow>
          if uf_hash F then Some UpOpen
          else if ue_sha256 E b \<noteq> to_lower (ue_unicode E) expected then Some (UpMismatch (ue_sha256 E b) expected)
          else None)"

definition binary_magics :: "string list" where
  "binary_magics =
     [[CHR 0x7F, CHR ''E'', CHR ''L'', CHR ''F''], [CHR 0xCF, CHR 0xFA, CHR 0xED, CHR 0xFE], [CHR 0xFE, CHR 0xED, CHR 0xFA, CHR 0xCF]]"

definition validate_binary :: "update_faults \<Rightarrow> string \<Rightarrow> files \<Rightarrow> update_error option" where
  "validate_binary F path fs =
     (case gm_get fs path of
        None \<Rightarrow> Some UpOpen
      | Some b \<Rightarrow>
          if uf_open F then Some UpOpen
          else if length b < 4 then Some UpRead
          else if take 4 b \<in> set binary_magics then None
          else Some (UpHeader (take 4 b)))"

definition version_matches :: "string \<Rightarrow> string \<Rightarrow> bool" where
  "version_matches a b \<longleftrightarrow> trim_prefix a ''v'' = trim_prefix b ''v''"

section \<open>The run\<close>

abbreviation check_mark :: string where "check_mark \<equiv> [CHR 0xE2, CHR 0x9C, CHR 0x93]"

definition asset_name :: "update_env \<Rightarrow> string" where
  "asset_name E = ''cloudy-'' @ ue_goos E @ ''-'' @ ue_goarch E"

definition asset_url :: "update_env \<Rightarrow> string \<Rightarrow> string" where
  "asset_url E tag = ''https://github.com/'' @ release_repo @ ''/releases/download/'' @ tag @ ''/'' @ asset_name E"

text \<open>From the downloaded file on: the digest, the header, the mode and the rename; whatever fails removes the
  file, except a panic.\<close>

definition install_asset ::
    "('w) fetcher \<Rightarrow> update_env \<Rightarrow> update_faults \<Rightarrow> string \<Rightarrow> string \<Rightarrow> files \<Rightarrow> 'w \<Rightarrow> update_error option \<times> files \<times> 'w" where
  "install_asset get E F url exe fs w =
     (let tmp = ue_tmp E in
      case fetch_sha256 get (ue_unicode E) (url @ ''.sha256'') w of
        (Inl e, w') \<Rightarrow> (Some e, if e = UpPanic then fs else remove_tmp F tmp fs, w')
      | (Inr expected, w') \<Rightarrow>
          (case verify_sha256 E F tmp expected fs of
             Some e \<Rightarrow> (Some e, remove_tmp F tmp fs, w')
           | None \<Rightarrow>
               (case validate_binary F tmp fs of
                  Some e \<Rightarrow> (Some e, remove_tmp F tmp fs, w')
                | None \<Rightarrow>
                    if uf_chmod F then (Some UpChmod, remove_tmp F tmp fs, w')
                    else if uf_rename F then (Some (UpRename exe), remove_tmp F tmp fs, w')
                    else (None, rename_file tmp exe fs, w'))))"

definition run_update ::
    "('w) fetcher \<Rightarrow> update_env \<Rightarrow> update_faults \<Rightarrow> files \<Rightarrow> 'w
     \<Rightarrow> (update_result \<times> update_error option \<times> string list) \<times> files \<times> 'w" where
  "run_update get E F fs w =
     (let r0 = \<lparr>ur_previous = ue_version E, ur_latest = [], ur_replaced = False, ur_path = []\<rparr> in
      if ue_goos E = ''windows'' then ((r0, Some UpWindows, []), fs, w)
      else
        (let log1 = [arrow @ '' checking latest release on GitHub'' @ [CHR 0xE2, CHR 0x80, CHR 0xA6]] in
         case fetch_latest_tag get (ue_tag E) w of
           (Inl e, w1) \<Rightarrow> ((r0, Some e, log1), fs, w1)
         | (Inr tag, w1) \<Rightarrow>
             (let r1 = r0\<lparr>ur_latest := tag\<rparr> in
              if version_matches (ue_version E) tag
              then ((r1, None, log1 @ [check_mark @ '' already on latest ('' @ tag @ ''); nothing to do.'']), fs, w1)
              else
                (case ue_exe E of
                   None \<Rightarrow> ((r1, Some UpExecutable, log1), fs, w1)
                 | Some p \<Rightarrow>
                     (let exe = (case ue_links E p of None \<Rightarrow> p | Some q \<Rightarrow> q);
                          r2 = r1\<lparr>ur_path := exe\<rparr>;
                          url = asset_url E tag;
                          log2 = log1 @ [arrow @ '' downloading '' @ url]
                      in case download_asset get F (ue_tmp E) url fs w1 of
                           (Some e, fs1, w2) \<Rightarrow> ((r2, Some e, log2), fs1, w2)
                         | (None, fs1, w2) \<Rightarrow>
                             (let log3 = log2 @ [arrow @ '' verifying SHA-256''] in
                              case install_asset get E F url exe fs1 w2 of
                                (Some e, fs2, w3) \<Rightarrow> ((r2, Some e, log3), fs2, w3)
                              | (None, fs2, w3) \<Rightarrow>
                                  ((r2\<lparr>ur_replaced := True\<rparr>, None,
                                    log3 @ [check_mark @ '' replaced '' @ exe,
                                            check_mark @ '' '' @ ue_version E @ '' '' @ arrow @ '' '' @ tag]), fs2, w3)))))))"

section \<open>Facts\<close>

lemma download_frame:
  assumes "download_asset get F tmp url fs w = (e, fs', w')"
  shows "q \<noteq> tmp \<Longrightarrow> gm_get fs' q = gm_get fs q"
    and "e = None \<Longrightarrow> \<exists>a. get url w = (Some a, w') \<and> ha_status a = 200 \<and> gm_get fs' tmp = Some (ha_body a)"
  using assms by (auto simp: download_asset_def remove_tmp_def file_simps split: option.splits prod.splits if_splits)

lemma install_frame:
  assumes "install_asset get E F url exe fs w = (e, fs', w')" "exe \<noteq> ue_tmp E"
  shows "q \<noteq> ue_tmp E \<Longrightarrow> q \<noteq> exe \<Longrightarrow> gm_get fs' q = gm_get fs q"
    and "e \<noteq> None \<Longrightarrow> gm_get fs' exe = gm_get fs exe"
  using assms
  by (auto simp: install_asset_def remove_tmp_def file_simps split: option.splits sum.splits prod.splits if_splits)

lemma install_verified:
  assumes "install_asset get E F url exe fs w = (None, fs', w')" "exe \<noteq> ue_tmp E"
  shows "\<exists>b d. gm_get fs (ue_tmp E) = Some b \<and> gm_get fs' exe = Some b \<and> gm_get fs' (ue_tmp E) = None \<and>
     fetch_sha256 get (ue_unicode E) (url @ ''.sha256'') w = (Inr d, w') \<and> ue_sha256 E b = to_lower (ue_unicode E) d \<and>
     take 4 b \<in> set binary_magics"
  using assms
  by (auto simp: install_asset_def verify_sha256_def validate_binary_def file_simps
      split: option.splits sum.splits prod.splits if_splits)

lemma digest_shape: "parse_digest u body = Inr d \<Longrightarrow> length d = 64 \<and> list_all is_hex d"
  by (auto simp: parse_digest_def Let_def split: list.splits if_splits)

lemma lower_hex: "list_all is_hex d \<Longrightarrow> to_lower u d = d"
proof -
  assume d: "list_all is_hex d"
  have "is_hex c \<Longrightarrow> lower_byte c = c \<and> byte c < 128" for c
    by (auto simp: is_hex_def is_digit_def lower_byte_def)
  then have "map lower_byte d = d" "is_ascii d" using d by (auto simp: list_all_iff is_ascii_def intro: map_idI)
  then show ?thesis by (simp add: to_lower_def)
qed

lemma fetched_digest:
  assumes "fetch_sha256 get u url w = (Inr d, w')"
  shows "\<exists>a. get url w = (Some a, w') \<and> ha_status a = 200 \<and> parse_digest u (take digest_limit (ha_body a)) = Inr d"
  using assms by (auto simp: fetch_sha256_def split: option.splits prod.splits if_splits)

text \<open>A checksum file without a field reaches the index of an empty list, and the download stays behind.\<close>

lemma blank_checksum:
  assumes "get (url @ ''.sha256'') w = (Some a, w')" "ha_status a = 200" "\<not> ha_broken a" "str_fields (take digest_limit (ha_body a)) = []"
  shows "install_asset get E F url exe fs w = (Some UpPanic, fs, w')"
  using assms by (simp add: install_asset_def fetch_sha256_def parse_digest_def)

end
