(* ===== verification/Secrets.thy ===== *)
theory Secrets
  imports Session_Log Go_Path Session_Facts
begin

text \<open>
  The secrets file (\<open>internal/secrets/store.go\<close>): loading it into the environment and adding an entry.
  The state is the files, the environment of the process and the names that count as loaded. The
  default buffer of \<open>bufio.Scanner\<close> takes lines of fewer than 65536 bytes; \<open>Load\<close> reports a longer one
  after the entries before it, \<open>Add\<close> does not look.
\<close>

section \<open>Lines\<close>

datatype secret_line =
    SecretBlank
  | SecretMalformed string
  | SecretNoKey string
  | SecretEntry string string

definition secret_line_of :: "string \<Rightarrow> secret_line" where
  "secret_line_of raw =
     (let l = trim_space raw in
      if l = [] \<or> has_prefix l ''#'' then SecretBlank
      else if CHR ''='' \<notin> set l then SecretMalformed l
      else (let k = trim_space (takeWhile (\<lambda>c. c \<noteq> CHR ''='') l); v = tl (dropWhile (\<lambda>c. c \<noteq> CHR ''='') l) in
            if k = [] then SecretNoKey l else SecretEntry k v))"

definition secret_entry :: "string \<Rightarrow> (string \<times> string) option" where
  "secret_entry raw = (case secret_line_of raw of SecretEntry k v \<Rightarrow> Some (k, v) | _ \<Rightarrow> None)"

definition max_token :: nat where
  "max_token = 65536"

text \<open>The lines a scanner gives before it stops, and whether it stopped at one that is too long.\<close>

definition scanned :: "string \<Rightarrow> string list" where
  "scanned b = map drop_cr (takeWhile (\<lambda>l. length l < max_token) (segments b))"

definition overlong :: "string \<Rightarrow> bool" where
  "overlong b \<longleftrightarrow> \<not> list_all (\<lambda>l. length l < max_token) (segments b)"

section \<open>State\<close>

record secret_state =
  sx_files :: files
  sx_env :: "string gomap"
  sx_loaded :: "string list"

datatype secret_error =
    SecretKey string
  | SecretValue string
  | SecretRead
  | SecretScan
  | SecretIo io_step

definition secrets_path :: "dirs_env \<Rightarrow> string" where
  "secrets_path d =
     (if cloudy_home d \<noteq> [] then path_join [cloudy_home d, ''secrets'']
      else if xdg_config_home d \<noteq> [] then path_join [xdg_config_home d, ''cloudy'', ''secrets'']
      else (case user_home d of None \<Rightarrow> path_join [''.cloudy'', ''secrets''] | Some h \<Rightarrow> path_join [h, ''.cloudy'', ''secrets'']))"

text \<open>\<open>os.Setenv\<close> refuses an empty name and a name or value with a zero byte, and a name with an equals sign;
  its error is ignored.\<close>

definition set_env :: "string \<Rightarrow> string \<Rightarrow> string gomap \<Rightarrow> string gomap" where
  "set_env k v env =
     (if k = [] \<or> CHR ''='' \<in> set k \<or> CHR 0x00 \<in> set k \<or> CHR 0x00 \<in> set v then env else gm_put k v env)"

definition load_entry :: "string \<times> string \<Rightarrow> secret_state \<Rightarrow> secret_state" where
  "load_entry kv st = st\<lparr>sx_env := set_env (fst kv) (snd kv) (sx_env st), sx_loaded := fst kv # sx_loaded st\<rparr>"

definition secrets_load :: "bool \<Rightarrow> string \<Rightarrow> secret_state \<Rightarrow> secret_error option \<times> secret_state" where
  "secrets_load rf path st =
     (case gm_get (sx_files st) path of
        None \<Rightarrow> (None, st)
      | Some b \<Rightarrow>
          if rf then (Some SecretRead, st)
          else (if overlong b then Some SecretScan else None,
                fold load_entry (List.map_filter secret_entry (scanned b)) (st\<lparr>sx_loaded := []\<rparr>)))"

section \<open>Adding\<close>

definition key_start :: "char \<Rightarrow> bool" where
  "key_start c \<longleftrightarrow> 65 \<le> (of_char c :: nat) \<and> (of_char c :: nat) \<le> 90 \<or> c = CHR ''_''"

definition key_char :: "char \<Rightarrow> bool" where
  "key_char c \<longleftrightarrow> key_start c \<or> is_digit c"

definition secret_key_ok :: "string \<Rightarrow> bool" where
  "secret_key_ok k \<longleftrightarrow> k \<noteq> [] \<and> key_start (hd k) \<and> list_all key_char (tl k)"

definition file_entries :: "string \<Rightarrow> string gomap" where
  "file_entries b = fold (\<lambda>(k, v). gm_put k v) (List.map_filter secret_entry (scanned b)) []"

definition render_entries :: "string gomap \<Rightarrow> string" where
  "render_entries m = concat (map (\<lambda>k. k @ ''='' @ (case gm_get m k of None \<Rightarrow> [] | Some v \<Rightarrow> v) @ [newline]) (gm_keys m))"

text \<open>The calls after the file is read are those of the session map's writer, in the same order.\<close>

definition secrets_add ::
    "faults \<Rightarrow> bool \<Rightarrow> string \<Rightarrow> string \<Rightarrow> string \<Rightarrow> string \<Rightarrow> secret_state \<Rightarrow> secret_error option \<times> secret_state" where
  "secrets_add f rf tmp path key v st =
     (if \<not> secret_key_ok key then (Some (SecretKey key), st)
      else if newline \<in> set v \<or> CHR 0x0D \<in> set v then (Some (SecretValue key), st)
      else if fl_mkdir f then (Some (SecretIo IoMkdir), st)
      else if gm_get (sx_files st) path \<noteq> None \<and> rf then (Some SecretRead, st)
      else
        (let old = (case gm_get (sx_files st) path of None \<Rightarrow> [] | Some b \<Rightarrow> file_entries b) in
         case session_map_write f tmp path (render_entries (gm_put key v old)) (sx_files st) of
           (Some e, fs) \<Rightarrow> (Some (SecretIo e), st\<lparr>sx_files := fs\<rparr>)
         | (None, fs) \<Rightarrow>
             (None, st\<lparr>sx_files := fs, sx_env := set_env key v (sx_env st), sx_loaded := key # sx_loaded st\<rparr>)))"

definition secrets_has :: "string \<Rightarrow> secret_state \<Rightarrow> bool" where
  "secrets_has k st \<longleftrightarrow> k \<in> set (sx_loaded st)"

section \<open>Trimming a line keeps what a line already is\<close>

lemma trim_space_fixed:
  "trim_space s = s \<longleftrightarrow> (\<forall>p \<in> set space_seqs. p \<noteq> [] \<longrightarrow> \<not> prefix p s \<and> \<not> suffix p s)"
proof
  assume s: "trim_space s = s"
  have l: "trim_left_space s = s"
  proof -
    have "length s \<le> length (trim_left_space s)"
      using prefix_length_le [OF trim_right_space_prefix [of "trim_left_space s"]] s by (simp add: trim_space_def)
    moreover obtain u where "s = u @ trim_left_space s"
      using strip_all_suffix [of space_seqs s] by (auto simp: trim_left_space_def suffix_def)
    ultimately show ?thesis by (cases u) (auto dest: arg_cong [of _ _ length])
  qed
  then have r: "trim_right_space s = s" using s by (simp add: trim_space_def)
  have "strip_one space_seqs s = None" using l by (metis trim_left_space_def strip_all_done)
  moreover have "strip_one (map rev space_seqs) (rev s) = None"
    using r unfolding trim_right_space_def by (metis rev_rev_ident strip_all_done)
  ultimately show "\<forall>p \<in> set space_seqs. p \<noteq> [] \<longrightarrow> \<not> prefix p s \<and> \<not> suffix p s"
    by (auto simp: strip_one_None suffix_to_prefix)
next
  assume "\<forall>p \<in> set space_seqs. p \<noteq> [] \<longrightarrow> \<not> prefix p s \<and> \<not> suffix p s"
  then have "strip_one space_seqs s = None" "strip_one (map rev space_seqs) (rev s) = None"
    by (auto simp: strip_one_None suffix_to_prefix)
  then show "trim_space s = s"
    by (simp add: trim_space_def trim_left_space_def trim_right_space_def strip_all_None)
qed

lemma equals_no_space: "p \<in> set space_seqs \<Longrightarrow> CHR ''='' \<notin> set p"
  using space_seq_not_solid [of p "CHR ''=''"] by (auto simp: solid_def)

lemma trimmed_entry:
  assumes "trim_space (k @ CHR ''='' # v) = k @ CHR ''='' # v" "CHR ''='' \<notin> set k"
  shows "trim_space (trim_space k @ CHR ''='' # v) = trim_space k @ CHR ''='' # v"
  unfolding trim_space_fixed
proof (intro ballI impI conjI)
  fix p
  assume p: "p \<in> set space_seqs" "p \<noteq> []"
  note eq = equals_no_space [OF p(1)]
  have fixed: "\<not> prefix p (k @ CHR ''='' # v)" "\<not> suffix p (k @ CHR ''='' # v)"
    using assms(1) p unfolding trim_space_fixed by auto
  show "\<not> prefix p (trim_space k @ CHR ''='' # v)"
  proof
    assume "prefix p (trim_space k @ CHR ''='' # v)"
    then have "prefix p (trim_space k)" using eq by (auto simp: prefix_append prefix_Cons)
    moreover have "trim_space (trim_space k) = trim_space k" by simp
    ultimately show False using p unfolding trim_space_fixed by auto
  qed
  show "\<not> suffix p (trim_space k @ CHR ''='' # v)"
  proof
    assume "suffix p (trim_space k @ CHR ''='' # v)"
    then have "suffix p v" using eq by (auto simp: suffix_append suffix_Cons)
    then have "suffix p (k @ CHR ''='' # v)" by (auto simp: suffix_append suffix_Cons)
    then show False using fixed by simp
  qed
qed

text \<open>
  What is written to the secrets file is what is read back: a file is the map of its entries, and
  adding an entry updates that map.
\<close>

section \<open>Entries that survive a rewrite\<close>

definition entry_line :: "string \<times> string \<Rightarrow> string" where
  "entry_line kv = fst kv @ CHR ''='' # snd kv"

definition good_entry :: "string \<times> string \<Rightarrow> bool" where
  "good_entry kv \<longleftrightarrow>
     secret_entry (entry_line kv) = Some kv \<and> drop_cr (entry_line kv) = entry_line kv \<and>
     newline \<notin> set (entry_line kv) \<and> length (entry_line kv) < max_token"

lemma space_chars: "[newline] \<in> set space_seqs" "[CHR 0x0D] \<in> set space_seqs"
proof -
  have "char_of (10 :: nat) = newline" "char_of (13 :: nat) = CHR 0x0D" by code_simp+
  then have "encode_rune 10 = [newline]" "encode_rune 13 = [CHR 0x0D]" by (simp_all add: encode_rune_def)
  moreover have "10 \<in> set space_codes" "13 \<in> set space_codes" by (simp_all add: space_codes_def)
  ultimately show "[newline] \<in> set space_seqs" "[CHR 0x0D] \<in> set space_seqs"
    unfolding space_seqs_def set_map by (metis imageI)+
qed

lemma drop_cr_trimmed: "trim_space l = l \<Longrightarrow> drop_cr l = l"
proof -
  assume "trim_space l = l"
  then have "\<not> suffix [CHR 0x0D] l" using space_chars(2) unfolding trim_space_fixed by auto
  then show ?thesis by (cases l rule: rev_cases) (auto simp: drop_cr_def)
qed

lemma entry_split:
  "CHR ''='' \<notin> set k \<Longrightarrow> takeWhile (\<lambda>c. c \<noteq> CHR ''='') (k @ CHR ''='' # v) = k"
  "CHR ''='' \<notin> set k \<Longrightarrow> dropWhile (\<lambda>c. c \<noteq> CHR ''='') (k @ CHR ''='' # v) = CHR ''='' # v"
proof -
  assume "CHR ''='' \<notin> set k"
  then have all: "\<forall>c \<in> set k. c \<noteq> CHR ''=''" by auto
  show "takeWhile (\<lambda>c. c \<noteq> CHR ''='') (k @ CHR ''='' # v) = k" using all by (simp add: takeWhile_append2)
  show "dropWhile (\<lambda>c. c \<noteq> CHR ''='') (k @ CHR ''='' # v) = CHR ''='' # v" using all by (simp add: dropWhile_append2)
qed

lemma entry_of_line:
  assumes "trim_space (k @ CHR ''='' # v) = k @ CHR ''='' # v" "CHR ''='' \<notin> set k" "trim_space k = k" "k \<noteq> []" "hd k \<noteq> CHR ''#''"
  shows "secret_entry (k @ CHR ''='' # v) = Some (k, v)"
  using assms by (cases k) (auto simp: secret_entry_def secret_line_of_def Let_def entry_split has_prefix_def)

lemma entry_parts:
  assumes "secret_entry raw = Some (k, v)"
  shows "\<exists>k'. trim_space raw = k' @ CHR ''='' # v \<and> CHR ''='' \<notin> set k' \<and> k = trim_space k' \<and> k \<noteq> [] \<and> hd (trim_space raw) \<noteq> CHR ''#''"
proof -
  define l where "l = trim_space raw"
  have l: "l \<noteq> []" "\<not> has_prefix l ''#''" "CHR ''='' \<in> set l" "k = trim_space (takeWhile (\<lambda>c. c \<noteq> CHR ''='') l)"
    "v = tl (dropWhile (\<lambda>c. c \<noteq> CHR ''='') l)" "k \<noteq> []"
    using assms by (auto simp: secret_entry_def secret_line_of_def Let_def l_def split: if_splits)
  obtain k' v' where kv: "l = k' @ CHR ''='' # v'" "CHR ''='' \<notin> set k'" using split_list_first [OF l(3)] by blast
  have "hd l \<noteq> CHR ''#''" using l(1,2) by (cases l) (auto simp: has_prefix_def)
  then have "trim_space raw = k' @ CHR ''='' # v \<and> CHR ''='' \<notin> set k' \<and> k = trim_space k' \<and> k \<noteq> [] \<and> hd (trim_space raw) \<noteq> CHR ''#''"
    using l(4-6) kv by (simp add: entry_split l_def [symmetric])
  then show ?thesis by blast
qed

lemma hd_trim_space: "trim_space k' \<noteq> [] \<Longrightarrow> trim_left_space k' = k' \<Longrightarrow> hd (trim_space k') = hd k'"
proof -
  assume k: "trim_space k' \<noteq> []" "trim_left_space k' = k'"
  then have "prefix (trim_space k') k'" using trim_right_space_prefix [of k'] by (simp add: trim_space_def)
  then show ?thesis using k(1) by (metis prefix_def hd_append2)
qed

lemma parsed_entry_good:
  assumes "secret_entry raw = Some kv" "newline \<notin> set raw" "length raw < max_token"
  shows "good_entry kv"
proof -
  obtain k v where kv: "kv = (k, v)" by fastforce
  obtain k' where k': "trim_space raw = k' @ CHR ''='' # v" "CHR ''='' \<notin> set k'" "k = trim_space k'" "k \<noteq> []"
    "hd (trim_space raw) \<noteq> CHR ''#''"
    using entry_parts assms(1) unfolding kv by blast
  have fixed: "trim_space (k' @ CHR ''='' # v) = k' @ CHR ''='' # v" using trim_space_idem [of raw] k'(1) by simp
  then have t: "trim_space (k @ CHR ''='' # v) = k @ CHR ''='' # v" using trimmed_entry k'(2,3) by blast
  have left: "trim_left_space k' = k'"
  proof -
    have "\<forall>p \<in> set space_seqs. p \<noteq> [] \<longrightarrow> \<not> prefix p k'"
      using fixed unfolding trim_space_fixed by (auto dest: prefix_order.trans)
    then show ?thesis by (simp add: trim_left_space_def strip_all_None strip_one_None)
  qed
  have ne: "k' \<noteq> []" using k'(3,4) trim_space_length [of "[]"] by (cases k') auto
  have "hd k = hd k'" using hd_trim_space left k'(3,4) by blast
  moreover have "hd k' = hd (trim_space raw)" using k'(1) ne by simp
  ultimately have hash: "hd k \<noteq> CHR ''#''" using k'(5) by simp
  obtain x y where kk: "k' = x @ k @ y" using trim_space_sublist [of k'] k'(3) by blast
  obtain a b where raw: "raw = a @ (k' @ CHR ''='' # v) @ b" using trim_space_sublist [of raw] k'(1) by metis
  have "set (k @ CHR ''='' # v) \<subseteq> set raw" "length (k @ CHR ''='' # v) \<le> length raw" using kk raw by auto
  then have "newline \<notin> set (k @ CHR ''='' # v)" "length (k @ CHR ''='' # v) < max_token" using assms(2,3) by auto
  moreover have "CHR ''='' \<notin> set k" using kk k'(2) by auto
  moreover have "trim_space k = k" using k'(3) by simp
  ultimately show ?thesis
    using entry_of_line [OF t] drop_cr_trimmed [OF t] k'(4) hash by (simp add: good_entry_def kv entry_line_def)
qed

lemma segments_no_newline: "l \<in> set (segments b) \<Longrightarrow> newline \<notin> set l"
  using split_byte_elems [of l newline b] by (auto simp: segments_def Let_def split: if_splits dest: in_set_butlastD)

lemma scanned_line: "l \<in> set (scanned b) \<Longrightarrow> newline \<notin> set l \<and> length l < max_token"
  unfolding scanned_def
  by (auto dest!: set_takeWhileD segments_no_newline simp: drop_cr_def dest: in_set_butlastD split: if_splits)

lemma fold_put_in: "(k, v) \<in> set (fold (\<lambda>(k, v). gm_put k v) kvs m) \<Longrightarrow> (k, v) \<in> set m \<or> (k, v) \<in> set kvs"
proof (induction kvs arbitrary: m)
  case (Cons x kvs)
  obtain a b where x: "x = (a, b)" by fastforce
  have "(k, v) \<in> set (gm_put a b m) \<or> (k, v) \<in> set kvs" using Cons by (simp add: x)
  then show ?case using set_gm_put_subset [of a b m] by (auto simp: x)
qed simp

lemma fold_put_wf: "gm_wf m \<Longrightarrow> gm_wf (fold (\<lambda>(k, v). gm_put k v) kvs m)"
  by (induction kvs arbitrary: m) auto

lemma file_entries_good: "gm_wf (file_entries b)" "kv \<in> set (file_entries b) \<Longrightarrow> good_entry kv"
proof -
  show "gm_wf (file_entries b)" unfolding file_entries_def by (rule fold_put_wf) simp
  assume "kv \<in> set (file_entries b)"
  then have "kv \<in> set (List.map_filter secret_entry (scanned b))"
    using fold_put_in [of "fst kv" "snd kv" "List.map_filter secret_entry (scanned b)" "[]"] by (auto simp: file_entries_def)
  then obtain l where "l \<in> set (scanned b)" "secret_entry l = Some kv"
    by (auto simp: List.map_filter_def)
  then show "good_entry kv" using parsed_entry_good scanned_line by blast
qed

section \<open>Reading back what is rendered\<close>

definition sorted_entries :: "string gomap \<Rightarrow> (string \<times> string) list" where
  "sorted_entries m = map (\<lambda>k. (k, case gm_get m k of None \<Rightarrow> [] | Some v \<Rightarrow> v)) (gm_keys m)"

lemma sorted_entries_set: "gm_wf m \<Longrightarrow> set (sorted_entries m) = set m"
proof -
  assume m: "gm_wf m"
  then have get: "map_of m k = Some v \<longleftrightarrow> (k, v) \<in> set m" for k v by (simp add: gm_wf_def)
  show ?thesis
  proof (intro set_eqI iffI)
    fix kv
    assume "kv \<in> set (sorted_entries m)"
    then obtain k v where "(k, v) \<in> set m" "kv = (k, case gm_get m k of None \<Rightarrow> [] | Some v \<Rightarrow> v)"
      by (auto simp: sorted_entries_def)
    then show "kv \<in> set m" using get [of k v] by simp
  next
    fix kv
    assume kv: "kv \<in> set m"
    obtain k v where "kv = (k, v)" by fastforce
    then show "kv \<in> set (sorted_entries m)"
      using kv get [of k v] by (force simp: sorted_entries_def)
  qed
qed

lemma sorted_entries_keys: "map fst (sorted_entries m) = gm_keys m"
  by (simp add: sorted_entries_def comp_def)

lemma render_lines: "render_entries m = concat (map (\<lambda>kv. entry_line kv @ [newline]) (sorted_entries m))"
  by (simp add: render_entries_def sorted_entries_def entry_line_def comp_def)

lemma segments_render:
  "(\<And>l. l \<in> set ls \<Longrightarrow> newline \<notin> set l) \<Longrightarrow> segments (concat (map (\<lambda>l. l @ [newline]) ls)) = ls"
proof -
  assume ls: "\<And>l. l \<in> set ls \<Longrightarrow> newline \<notin> set l"
  then have "split_byte newline (concat (map (\<lambda>l. l @ [newline]) ls)) = ls @ [[]]"
  proof (induction ls)
    case (Cons l ls)
    then show ?case
      using split_byte_snoc [of newline l "concat (map (\<lambda>l. l @ [newline]) ls)"] split_byte_absent [of newline l] by simp
  qed simp
  then show ?thesis by (simp add: segments_def)
qed

lemma map_filter_entries: "(\<And>kv. kv \<in> set kvs \<Longrightarrow> good_entry kv) \<Longrightarrow> List.map_filter secret_entry (map entry_line kvs) = kvs"
  by (induction kvs) (auto simp: good_entry_def)

lemma scanned_render:
  assumes "gm_wf m" "\<And>kv. kv \<in> set m \<Longrightarrow> good_entry kv"
  shows "List.map_filter secret_entry (scanned (render_entries m)) = sorted_entries m" "\<not> overlong (render_entries m)"
proof -
  let ?ls = "map entry_line (sorted_entries m)"
  have good: "kv \<in> set (sorted_entries m) \<Longrightarrow> good_entry kv" for kv using assms sorted_entries_set by auto
  have "render_entries m = concat (map (\<lambda>l. l @ [newline]) ?ls)" by (simp add: render_lines comp_def)
  moreover have "segments (concat (map (\<lambda>l. l @ [newline]) ?ls)) = ?ls"
    using good by (intro segments_render) (auto simp: good_entry_def)
  ultimately have seg: "segments (render_entries m) = ?ls" by simp
  have short: "\<forall>l \<in> set ?ls. length l < max_token" and cr: "map drop_cr ?ls = ?ls" using good by (auto simp: good_entry_def)
  have tw: "takeWhile (\<lambda>l. length l < max_token) ?ls = ?ls" using short by (simp only: takeWhile_eq_all_conv)
  show "List.map_filter secret_entry (scanned (render_entries m)) = sorted_entries m"
    unfolding scanned_def seg tw cr by (rule map_filter_entries) (rule good)
  show "\<not> overlong (render_entries m)" using short by (simp add: overlong_def seg list_all_iff)
qed

lemma entries_fold_put: "distinct (map fst kvs) \<Longrightarrow>
  map_of (fold (\<lambda>(k, v). gm_put k v) kvs m) k = (case map_of kvs k of None \<Rightarrow> map_of m k | Some v \<Rightarrow> Some v)"
proof (induction kvs arbitrary: m)
  case (Cons x kvs)
  obtain a b where x: "x = (a, b)" by fastforce
  have a: "map_of kvs a = None" using Cons.prems by (simp add: x map_of_eq_None_iff)
  have "map_of (fold (\<lambda>(k, v). gm_put k v) kvs (gm_put a b m)) k
      = (case map_of kvs k of None \<Rightarrow> map_of (gm_put a b m) k | Some v \<Rightarrow> Some v)"
    using Cons by simp
  then show ?case using a by (cases "k = a") (simp_all add: x gm_get_put split: option.split)
qed simp

lemma file_entries_render:
  assumes "gm_wf m" "\<And>kv. kv \<in> set m \<Longrightarrow> good_entry kv"
  shows "map_of (file_entries (render_entries m)) = map_of m"
proof
  fix k
  have d: "distinct (map fst (sorted_entries m))" using assms(1) by (simp add: sorted_entries_keys)
  have "map_of (sorted_entries m) k = map_of m k"
    using map_of_eqI [of "sorted_entries m" m] d assms(1) sorted_entries_set by (metis gm_wf_def map_of_inject_set)
  then show "map_of (file_entries (render_entries m)) k = map_of m k"
    using scanned_render(1) [OF assms] entries_fold_put [OF d, of "[]" k] by (simp add: file_entries_def split: option.split)
qed

section \<open>Adding and loading\<close>

definition stored :: "string \<Rightarrow> secret_state \<Rightarrow> string gomap" where
  "stored path st = (case gm_get (sx_files st) path of None \<Rightarrow> [] | Some b \<Rightarrow> file_entries b)"

lemma stored_good: "gm_wf (stored path st)" "kv \<in> set (stored path st) \<Longrightarrow> good_entry kv"
  by (auto simp: stored_def dest: file_entries_good(2) intro: file_entries_good(1) split: option.splits)

lemma add_writes:
  assumes "secrets_add f rf tmp path key v st = (None, st')" "tmp \<noteq> path"
  shows "gm_get (sx_files st') path = Some (render_entries (gm_put key v (stored path st)))"
    "q \<noteq> path \<Longrightarrow> q \<noteq> tmp \<Longrightarrow> gm_get (sx_files st') q = gm_get (sx_files st) q"
proof -
  obtain fs where w: "session_map_write f tmp path (render_entries (gm_put key v (stored path st))) (sx_files st) = (None, fs)"
    "sx_files st' = fs"
    using assms(1) by (auto simp: secrets_add_def stored_def Let_def split: if_splits option.splits prod.splits)
  show "gm_get (sx_files st') path = Some (render_entries (gm_put key v (stored path st)))"
    using session_file.target [OF assms(2), of f "render_entries (gm_put key v (stored path st))" "sx_files st"] w by simp
  show "q \<noteq> path \<Longrightarrow> q \<noteq> tmp \<Longrightarrow> gm_get (sx_files st') q = gm_get (sx_files st) q"
    using session_file.others [of q path tmp f "render_entries (gm_put key v (stored path st))" "sx_files st"] w by simp
qed

lemma put_good:
  assumes "good_entry (key, v)" "kv \<in> set (gm_put key v (stored path st))" shows "good_entry kv"
  using assms set_gm_put_subset [of key v "stored path st"] stored_good(2) by blast

text \<open>Adding updates the map of the entries.\<close>

lemma add_updates:
  assumes "secrets_add f rf tmp path key v st = (None, st')" "tmp \<noteq> path" "good_entry (key, v)"
  shows "map_of (stored path st') = (map_of (stored path st))(key \<mapsto> v)"
proof -
  let ?m = "gm_put key v (stored path st)"
  have "map_of (file_entries (render_entries ?m)) = map_of ?m"
    using put_good [OF assms(3)] stored_good(1) by (intro file_entries_render) auto
  then show ?thesis using add_writes(1) [OF assms(1,2)] by (simp add: stored_def [of path st'] update_conv')
qed

definition env_ok :: "string \<times> string \<Rightarrow> bool" where
  "env_ok kv \<longleftrightarrow> CHR 0x00 \<notin> set (fst kv) \<and> CHR 0x00 \<notin> set (snd kv)"

lemma load_env:
  assumes "distinct (map fst kvs)" "(k, v) \<in> set kvs" "k \<noteq> []" "CHR ''='' \<notin> set k" "env_ok (k, v)"
  shows "gm_get (sx_env (fold load_entry kvs st)) k = Some v"
  using assms(1,2)
proof (induction kvs arbitrary: st)
  case (Cons x kvs)
  have other: "k \<notin> fst ` set ys \<Longrightarrow> gm_get (sx_env (fold load_entry ys s)) k = gm_get (sx_env s) k" for ys s
    by (induction ys arbitrary: s) (auto simp: load_entry_def set_env_def gm_get_put)
  show ?case
  proof (cases "x = (k, v)")
    case True
    then have "k \<notin> fst ` set kvs" using Cons.prems(1) by auto
    then have "gm_get (sx_env (fold load_entry kvs (load_entry x st))) k = gm_get (sx_env (load_entry x st)) k" by (rule other)
    moreover have "gm_get (sx_env (load_entry x st)) k = Some v"
      using True assms(3-5) by (simp add: load_entry_def set_env_def env_ok_def gm_get_put)
    ultimately show ?thesis by simp
  next
    case False
    then show ?thesis using Cons by auto
  qed
qed simp

lemma good_key: "good_entry (k, v) \<Longrightarrow> k \<noteq> [] \<and> CHR ''='' \<notin> set k"
proof -
  assume "good_entry (k, v)"
  then have s: "secret_entry (k @ CHR ''='' # v) = Some (k, v)" by (simp add: good_entry_def entry_line_def)
  obtain k' where k': "CHR ''='' \<notin> set k'" "k = trim_space k'" "k \<noteq> []" using entry_parts [OF s] by blast
  obtain a b where "k' = a @ k @ b" using trim_space_sublist [of k'] k'(2) by metis
  then have "set k \<subseteq> set k'" by (metis set_append Un_upper1 Un_upper2 subset_trans)
  then show ?thesis using k'(1,3) by blast
qed

lemma added_is_loaded:
  assumes add: "secrets_add f rf tmp path key v st = (None, st1)" "tmp \<noteq> path" "good_entry (key, v)"
    and load: "secrets_load False path (st1\<lparr>sx_env := e0\<rparr>) = (r, st2)"
  shows "r = None" and "gm_get (gm_put key v (stored path st)) k = Some w \<Longrightarrow> env_ok (k, w) \<Longrightarrow> gm_get (sx_env st2) k = Some w"
proof -
  let ?m = "gm_put key v (stored path st)"
  have wf: "gm_wf ?m" using stored_good(1) by simp
  note good = put_good [OF add(3)]
  have f: "gm_get (sx_files (st1\<lparr>sx_env := e0\<rparr>)) path = Some (render_entries ?m)" using add_writes(1) [OF add(1,2)] by simp
  have r: "r = None" "st2 = fold load_entry (sorted_entries ?m) (st1\<lparr>sx_env := e0, sx_loaded := []\<rparr>)"
    using load f scanned_render [OF wf good] by (auto simp: secrets_load_def)
  have d: "distinct (map fst (sorted_entries ?m))" using wf by (simp add: sorted_entries_keys)
  show "r = None" by (rule r(1))
  assume k: "gm_get ?m k = Some w" "env_ok (k, w)"
  have kw: "(k, w) \<in> set ?m" using k(1) by (rule map_of_SomeD)
  show "gm_get (sx_env st2) k = Some w"
    unfolding r(2) using load_env [OF d] sorted_entries_set [OF wf] kw good_key [OF good [OF kw]] k(2) by blast
qed

text \<open>What lies behind a line that is too long is not read, so the rewrite loses it.\<close>

lemma overlong_hides:
  assumes "max_token \<le> length l" "newline \<notin> set l" "list_all (\<lambda>x. newline \<notin> set x) ls"
  shows "file_entries (concat (map (\<lambda>l. l @ [newline]) (l # ls))) = []"
proof -
  have "segments (concat (map (\<lambda>l. l @ [newline]) (l # ls))) = l # ls"
    using assms by (intro segments_render) (auto simp: list_all_iff)
  then show ?thesis using assms(1) by (simp add: file_entries_def scanned_def)
qed

end
