(* ===== verification/Host_Properties.thy ===== *)
theory Host_Properties
  imports K8s_Facts Self_Update Secrets Skills
begin

text \<open>Properties of the Kubernetes tools under a profile, of the self-update, of the secrets file and of the
  search for a skill's trigger.\<close>

section \<open>Kubernetes\<close>

lemma runs_reads: "hb_check (fst s) = chk \<Longrightarrow>
  \<exists>seen. snd (fold (\<lambda>call s. snd (k8s_tool E K call s)) calls s) = snd s @ seen \<and> list_all (read_ok chk) seen"
proof (induction calls arbitrary: s)
  case (Cons call calls)
  obtain H h where s: "s = (H, h)" by fastforce
  obtain H' h' where s': "snd (k8s_tool E K call s) = (H', h')" by fastforce
  obtain n1 where n1: "h' = h @ n1" "list_all (read_ok chk) n1" "hb_check H' = chk"
    using k8s_tool_reads [of chk E K call] Cons.prems s s' unfolding reads_ok_def by (metis fst_conv snd_conv)
  obtain n2 where "snd (fold (\<lambda>call s. snd (k8s_tool E K call s)) calls (H', h')) = h' @ n2" "list_all (read_ok chk) n2"
    using Cons.IH [of "(H', h')"] n1(3) by auto
  then show ?case using n1 s s' by (intro exI [of _ "n1 @ n2"]) simp
qed simp

text \<open>C5. Under a permission profile no sequence of Kubernetes tool calls reads in a namespace the profile
  denies or, where it lists the allowed ones, leaves out: every read is of a cluster-scoped resource, in
  the empty namespace, which stands for all of them, or in one that matches the profile.\<close>

theorem k8s_reads_permitted:
  assumes "apply_profile u reg (Some p) True = (reg', Some chk)"
  shows "\<exists>seen. snd (fold (\<lambda>call s. snd (k8s_tool E K call s)) calls (with_namespace_checker chk H, h)) = h @ seen \<and>
     (\<forall>r \<in> set seen. case read_namespace r of None \<Rightarrow> True
        | Some ns \<Rightarrow> ns = [] \<or> (\<not> match_any (ns_deny (p_namespaces p)) ns \<and>
            (ns_allow (p_namespaces p) = [] \<or> match_any (ns_allow (p_namespaces p)) ns)))"
proof -
  have chk: "chk = (\<lambda>ns. match_namespace (Some p) ns)" using assms by (simp add: apply_profile_def)
  have ok: "ns = [] \<or> (\<not> match_any (ns_deny (p_namespaces p)) ns \<and> (ns_allow (p_namespaces p) = [] \<or> match_any (ns_allow (p_namespaces p)) ns))"
    if "passes (Some chk) ns" for ns
    using that by (auto simp: passes_def chk match_namespace_def split: if_splits)
  have "hb_check (fst (with_namespace_checker chk H, h)) = Some chk" by (simp add: with_namespace_checker_def)
  from runs_reads [OF this, of E K calls] show ?thesis
    using ok by (fastforce simp: read_ok_def list_all_iff split: option.splits)
qed

definition ex_profile :: profile where
  "ex_profile = \<lparr>p_name = ''p'', p_description = [], p_contexts = [], p_namespaces = \<lparr>ns_allow = [], ns_deny = [''kube-*'']\<rparr>,
     p_tools = \<lparr>tl_allow = [], tl_deny = []\<rparr>,
     p_limits = \<lparr>max_log_lines = 0, max_profile_seconds = 0, max_tokens_per_session = 0, max_usd_per_day = 0\<rparr>,
     p_masking = \<lparr>key_regex = [], value_regex = []\<rparr>\<rparr>"

definition no_answer :: "'a answer" where
  "no_answer h = Inl (ApiFailed ''down'')"

definition ex_kube :: kube where
  "ex_kube = \<lparr>kb_pods = (\<lambda>h. Inr []), kb_pod = no_answer, kb_log = no_answer, kb_deployments = no_answer, kb_statefulsets = no_answer,
     kb_daemonsets = no_answer, kb_replicasets = no_answer, kb_revisions = no_answer, kb_jobs = no_answer, kb_cronjobs = no_answer,
     kb_services = no_answer, kb_ingresses = no_answer, kb_hpas = no_answer, kb_pdbs = no_answer, kb_netpols = no_answer,
     kb_nodes = no_answer, kb_namespaces = no_answer, kb_events = no_answer, kb_top_pods = no_answer, kb_top_nodes = no_answer,
     kb_dynamic = no_answer, kb_has_dynamic = (\<lambda>c. True), kb_connect = (\<lambda>c. None)\<rparr>"

definition ex_hub :: hub where
  "ex_hub = \<lparr>hb_clients = [], hb_default = ''prod'', hb_contexts = [''prod''], hb_check = None\<rparr>"

definition ex_k8s :: k8s_env where
  "ex_k8s = \<lparr>ke_clock = 0, ke_order = id, ke_quote = id, ke_sort_top = id, ke_sort_events = id, ke_number = id, ke_upper = id\<rparr>"

definition pods_in :: "string \<Rightarrow> k8s_call" where
  "pods_in ns = ListPods \<lparr>la_namespace = ns, la_label = [], la_field = [], la_limit = 0, la_context = []\<rparr>"

lemma ex_reads:
  "map read_namespace (snd (fold (\<lambda>call s. snd (k8s_tool ex_k8s ex_kube call s)) [pods_in ''kube-system'', pods_in ''shop'']
     (with_namespace_checker (\<lambda>ns. match_namespace (Some ex_profile) ns) ex_hub, []))) = [Some ''shop'']"
  by code_simp

theorem k8s_reads_permitted_witness:
  "\<exists>chk seen. apply_profile ascii_unicode None (Some ex_profile) True = (Inr None, Some chk) \<and>
     snd (fold (\<lambda>call s. snd (k8s_tool ex_k8s ex_kube call s)) [pods_in ''kube-system'', pods_in ''shop''] (with_namespace_checker chk ex_hub, [])) = seen \<and>
     map read_namespace seen = [Some ''shop''] \<and>
     list_all (\<lambda>r. case read_namespace r of None \<Rightarrow> True | Some ns \<Rightarrow> ns = [] \<or> \<not> match_any [''kube-*''] ns) seen"
proof -
  have a: "apply_profile ascii_unicode None (Some ex_profile) True = (Inr None, Some (\<lambda>ns. match_namespace (Some ex_profile) ns))"
    by (simp add: apply_profile_def filter_registry_def)
  have d: "ns_deny (p_namespaces ex_profile) = [''kube-*'']" by (simp add: ex_profile_def)
  show ?thesis
    using k8s_reads_permitted [OF a, of ex_k8s ex_kube "[pods_in ''kube-system'', pods_in ''shop'']" ex_hub "[]"] a ex_reads
    unfolding d by (fastforce simp: list_all_iff simp del: fold_simps match_any.simps split: option.splits)
qed

text \<open>C6. The change source does not ask the profile: on a namespace the check refuses, where a list tool answers
  with the refusal and reads nothing, it lists the deployments and reads on in that namespace.\<close>

theorem change_source_ignores_profile:
  assumes "check_namespace H (cq_namespace q) = Some e" "la_namespace a = cq_namespace q"
    and "hub_get K (cq_context q) H = (Inr c, H')"
  shows "k8s_tool E K (ListDeployments a) (H, h) = (Inr (text_view (ns_error_text e)), H, h) \<and>
     (\<exists>new. snd (snd (k8s_changes clock K q (H, h))) = h @ ReadIn c ''deployments'' (cq_namespace q) no_opts # new \<and>
        (\<forall>r \<in> set new. read_namespace r = Some (cq_namespace q)))"
proof -
  have "k8s_tool E K (ListDeployments a) (H, h) = (Inr (text_view (ns_error_text e)), H, h)"
    using assms(1,2) by (simp add: list_tool_def on_namespace_def deployments_spec_def)
  then show ?thesis using k8s_changes_reads [OF assms(3), of clock h] by (auto simp: list_all_iff)
qed

definition ex_query :: change_query where
  "ex_query = \<lparr>cq_workload = ''coredns'', cq_namespace = ''kube-system'', cq_context = [], cq_since = 0, cq_limit = 0\<rparr>"

theorem change_source_ignores_profile_witness:
  "\<exists>H new. H = with_namespace_checker (\<lambda>ns. match_namespace (Some ex_profile) ns) ex_hub \<and>
     check_namespace H ''kube-system'' = Some NamespaceDenied \<and>
     snd (snd (k8s_changes 0 ex_kube ex_query (H, []))) = ReadIn ''prod'' ''deployments'' ''kube-system'' no_opts # new"
proof -
  define H where "H = with_namespace_checker (\<lambda>ns. match_namespace (Some ex_profile) ns) ex_hub"
  have c: "check_namespace H (cq_namespace ex_query) = Some NamespaceDenied" unfolding H_def by code_simp
  have g: "hub_get ex_kube (cq_context ex_query) H = (Inr ''prod'', H\<lparr>hb_clients := [''prod'']\<rparr>)"
    by (simp add: H_def hub_get_def Let_def with_namespace_checker_def ex_hub_def ex_query_def ex_kube_def)
  have l: "la_namespace \<lparr>la_namespace = ''kube-system'', la_label = [], la_field = [], la_limit = 0, la_context = []\<rparr> = cq_namespace ex_query"
    by (simp add: ex_query_def)
  show ?thesis using change_source_ignores_profile [OF c l g, of ex_k8s "[]" 0] c H_def by (auto simp: ex_query_def)
qed

section \<open>Self-update\<close>

lemma run_update_path:
  assumes "run_update get E F fs w = ((r, e, lines), fs', w')" "ue_exe E = Some p" "exe = (case ue_links E p of None \<Rightarrow> p | Some q \<Rightarrow> q)"
  shows "(ur_path r = [] \<and> fs' = fs \<and> \<not> ur_replaced r) \<or>
    (ur_path r = exe \<and> \<not> version_matches (ue_version E) (ur_latest r) \<and>
     (\<exists>e1 fs1 w1 w2. download_asset get F (ue_tmp E) (asset_url E (ur_latest r)) fs w1 = (e1, fs1, w2) \<and>
        (if e1 = None then \<exists>e2. install_asset get E F (asset_url E (ur_latest r)) exe fs1 w2 = (e2, fs', w') \<and> e = e2 \<and> (ur_replaced r \<longleftrightarrow> e2 = None)
         else fs' = fs1 \<and> e = e1 \<and> \<not> ur_replaced r)))"
proof (cases "ue_goos E = ''windows''")
  case True
  then show ?thesis using assms(1) by (auto simp: run_update_def Let_def)
next
  case windows: False
  obtain t w1 where t: "fetch_latest_tag get (ue_tag E) w = (t, w1)" by fastforce
  show ?thesis
  proof (cases "\<exists>tag. t = Inr tag \<and> \<not> version_matches (ue_version E) tag")
    case False
    then show ?thesis using assms(1) windows t by (cases t) (auto simp: run_update_def Let_def)
  next
    case True
    then obtain tag where tag: "t = Inr tag" "\<not> version_matches (ue_version E) tag" by blast
    obtain e1 fs1 w2 where d: "download_asset get F (ue_tmp E) (asset_url E tag) fs w1 = (e1, fs1, w2)" by (metis prod_cases3)
    obtain e2 fs2 w3 where i: "install_asset get E F (asset_url E tag) exe fs1 w2 = (e2, fs2, w3)" by (metis prod_cases3)
    have "ur_latest r = tag \<and> ur_path r = exe \<and>
        (if e1 = None then fs' = fs2 \<and> w' = w3 \<and> e = e2 \<and> (ur_replaced r \<longleftrightarrow> e2 = None) else fs' = fs1 \<and> e = e1 \<and> \<not> ur_replaced r)"
      using assms(1) d i by (cases e1; cases e2) (auto simp: run_update_def Let_def windows t tag assms(2) assms(3) [symmetric])
    then show ?thesis using tag d i by (cases e1) auto
  qed
qed

text \<open>C12. A self-update changes at most the executable and its own temporary file. It reports a replacement only
  when the executable now is the downloaded asset of the release, whose SHA-256 is the digest the release
  publishes, with an executable's header; when it reports an error the executable is what it was.\<close>

theorem update_installs_verified:
  assumes run: "run_update get E F fs w = ((r, e, lines), fs', w')" and exe: "ue_exe E = Some p" "exe = (case ue_links E p of None \<Rightarrow> p | Some q \<Rightarrow> q)"
    and tmp: "exe \<noteq> ue_tmp E"
  shows "(\<forall>q. q \<noteq> exe \<longrightarrow> q \<noteq> ue_tmp E \<longrightarrow> gm_get fs' q = gm_get fs q) \<and>
    (\<not> ur_replaced r \<longrightarrow> gm_get fs' exe = gm_get fs exe) \<and> (e \<noteq> None \<longrightarrow> \<not> ur_replaced r) \<and>
    (ur_replaced r \<longrightarrow> (\<exists>a d w1 w2 ck.
       get (asset_url E (ur_latest r)) w1 = (Some a, w2) \<and> ha_status a = 200 \<and> gm_get fs' exe = Some (ha_body a) \<and>
       get (asset_url E (ur_latest r) @ ''.sha256'') w2 = (Some ck, w') \<and> parse_digest (ue_unicode E) (take digest_limit (ha_body ck)) = Inr d \<and>
       ue_sha256 E (ha_body a) = d \<and> length d = 64 \<and> take 4 (ha_body a) \<in> set binary_magics))"
  using run_update_path [OF run exe]
proof (elim disjE conjE exE)
  fix e1 fs1 w1 w2
  assume d: "download_asset get F (ue_tmp E) (asset_url E (ur_latest r)) fs w1 = (e1, fs1, w2)"
    and i: "if e1 = None then \<exists>e2. install_asset get E F (asset_url E (ur_latest r)) exe fs1 w2 = (e2, fs', w') \<and> e = e2 \<and> (ur_replaced r \<longleftrightarrow> e2 = None)
         else fs' = fs1 \<and> e = e1 \<and> \<not> ur_replaced r"
  show ?thesis
  proof (cases e1)
    case (Some x)
    then show ?thesis using i download_frame(1) [OF d] tmp by auto
  next
    case None
    then have ins: "install_asset get E F (asset_url E (ur_latest r)) exe fs1 w2 = (e, fs', w')" and rep: "ur_replaced r \<longleftrightarrow> e = None"
      using i by auto
    obtain a where a: "get (asset_url E (ur_latest r)) w1 = (Some a, w2)" "ha_status a = 200" "gm_get fs1 (ue_tmp E) = Some (ha_body a)"
      using download_frame(2) [OF d None] by blast
    have verified: "\<exists>a d w1 w2 ck.
       get (asset_url E (ur_latest r)) w1 = (Some a, w2) \<and> ha_status a = 200 \<and> gm_get fs' exe = Some (ha_body a) \<and>
       get (asset_url E (ur_latest r) @ ''.sha256'') w2 = (Some ck, w') \<and> parse_digest (ue_unicode E) (take digest_limit (ha_body ck)) = Inr d \<and>
       ue_sha256 E (ha_body a) = d \<and> length d = 64 \<and> take 4 (ha_body a) \<in> set binary_magics" if "ur_replaced r"
    proof -
      have none: "e = None" using rep that by simp
      obtain b d where b: "gm_get fs1 (ue_tmp E) = Some b" "gm_get fs' exe = Some b"
        "fetch_sha256 get (ue_unicode E) (asset_url E (ur_latest r) @ ''.sha256'') w2 = (Inr d, w')"
        "ue_sha256 E b = to_lower (ue_unicode E) d" "take 4 b \<in> set binary_magics"
        using install_verified [OF ins [unfolded none] tmp] by blast
      obtain s where s: "get (asset_url E (ur_latest r) @ ''.sha256'') w2 = (Some s, w')"
        "parse_digest (ue_unicode E) (take digest_limit (ha_body s)) = Inr d" using fetched_digest [OF b(3)] by blast
      then have "length d = 64" "to_lower (ue_unicode E) d = d" using digest_shape lower_hex by blast+
      then show ?thesis using a b s by (intro exI [of _ a] exI [of _ d] exI [of _ w1] exI [of _ w2] exI [of _ s]) simp
    qed
    show ?thesis
      using verified rep install_frame [OF ins tmp] download_frame(1) [OF d] tmp by auto
  qed
qed auto

lemma run_update_installs:
  assumes "ue_goos E \<noteq> ''windows''" "fetch_latest_tag get (ue_tag E) w = (Inr tag, w1)" "\<not> version_matches (ue_version E) tag"
    "ue_exe E = Some exe" "ue_links E exe = None" "download_asset get F (ue_tmp E) (asset_url E tag) fs w1 = (None, fs1, w2)"
    "install_asset get E F (asset_url E tag) exe fs1 w2 = (None, fs2, w3)"
  shows "\<exists>r l. run_update get E F fs w = ((r, None, l), fs2, w3) \<and> ur_replaced r"
  using assms by (simp add: run_update_def Let_def)

definition ex_digest :: string where
  "ex_digest = replicate 64 (CHR ''a'')"

lemma ex_parsed: "parse_digest ascii_unicode (take digest_limit ex_digest) = Inr ex_digest"
proof -
  have solid: "list_all solid ex_digest" by (simp add: ex_digest_def list_all_iff solid_def)
  have hex: "list_all is_hex ex_digest" by (simp add: ex_digest_def list_all_iff is_hex_def is_digit_def)
  have "strip_one space_seqs v = None" if "ex_digest = u @ v" "v \<noteq> []" for u v
  proof -
    have "list_all solid v" using solid unfolding that(1) by simp
    then show ?thesis using that(2) by (cases v) (simp_all add: strip_one_solid)
  qed
  then have "tight ex_digest" by (simp add: tight_def ex_digest_def)
  then have "str_fields ex_digest = [ex_digest]" using fields_join [of "[ex_digest]"] by simp
  moreover have "trim_space ex_digest = ex_digest" by (rule trim_space_solid) (simp_all add: ex_digest_def solid_def)
  moreover have "length ex_digest = 64" by (simp add: ex_digest_def)
  ultimately show ?thesis using lower_hex [OF hex] hex by (simp add: parse_digest_def digest_limit_def)
qed

definition ex_get :: "nat fetcher" where
  "ex_get url n =
     (Some \<lparr>ha_status = 200,
        ha_body = (if url = latest_url then ''v2'' else if has_suffix url ''.sha256'' then ex_digest
                   else hd binary_magics @ ''code''), ha_broken = False\<rparr>, Suc n)"

definition ex_update_env :: update_env where
  "ex_update_env = \<lparr>ue_goos = ''linux'', ue_goarch = ''amd64'', ue_version = ''v1'', ue_exe = Some ''/bin/cloudy'', ue_links = (\<lambda>p. None),
     ue_unicode = ascii_unicode, ue_tag = Some, ue_sha256 = (\<lambda>b. ex_digest), ue_tmp = ''/bin/.tmp''\<rparr>"

definition ex_faults :: update_faults where
  "ex_faults = \<lparr>uf_create = False, uf_write = None, uf_close = False, uf_hash = False, uf_open = False, uf_chmod = False,
     uf_rename = False, uf_remove = False\<rparr>"

lemma ex_replaced:
  "\<exists>r l fs n. run_update ex_get ex_update_env ex_faults [(''/bin/cloudy'', ''old'')] 0 = ((r, None, l), fs, n) \<and> ur_replaced r"
proof -
  have url: "asset_url ex_update_env ''v2'' \<noteq> latest_url" "\<not> has_suffix (asset_url ex_update_env ''v2'') ''.sha256''"
    "asset_url ex_update_env ''v2'' @ ''.sha256'' \<noteq> latest_url" "has_suffix (asset_url ex_update_env ''v2'' @ ''.sha256'') ''.sha256''"
    "version_matches ''v1'' ''v2'' = False" by code_simp+
  have d: "fetch_sha256 ex_get ascii_unicode (asset_url ex_update_env ''v2'' @ ''.sha256'') n = (Inr ex_digest, Suc n)" for n
    by (simp add: fetch_sha256_def ex_get_def url ex_parsed)
  have l: "to_lower ascii_unicode ex_digest = ex_digest"
    by (rule lower_hex) (simp add: ex_digest_def list_all_iff is_hex_def is_digit_def)
  define FS where "FS = gm_put ''/bin/.tmp'' (hd binary_magics @ ''code'') [(''/bin/cloudy'', ''old'')]"
  have FS: "gm_get FS ''/bin/.tmp'' = Some (hd binary_magics @ ''code'')" by (simp add: FS_def gm_get_put)
  have tag: "fetch_latest_tag ex_get (ue_tag ex_update_env) 0 = (Inr ''v2'', Suc 0)" by (simp add: fetch_latest_tag_def ex_get_def ex_update_env_def)
  have down: "download_asset ex_get ex_faults ''/bin/.tmp'' (asset_url ex_update_env ''v2'') [(''/bin/cloudy'', ''old'')] (Suc 0)
      = (None, FS, Suc (Suc 0))"
    by (simp add: download_asset_def ex_get_def url ex_faults_def FS_def)
  have e: "ue_goos ex_update_env \<noteq> ''windows''" "ue_version ex_update_env = ''v1''" "ue_exe ex_update_env = Some ''/bin/cloudy''" "ue_tmp ex_update_env = ''/bin/.tmp''"
    "ue_links ex_update_env ''/bin/cloudy'' = None" "ue_unicode ex_update_env = ascii_unicode" "ue_sha256 ex_update_env b = ex_digest" for b by (simp_all add: ex_update_env_def)
  have inst: "install_asset ex_get ex_update_env ex_faults (asset_url ex_update_env ''v2'') ''/bin/cloudy''
       FS (Suc (Suc 0))
      = (None, rename_file ''/bin/.tmp'' ''/bin/cloudy'' FS, Suc (Suc (Suc 0)))"
    by (simp add: install_asset_def Let_def e d l ex_faults_def verify_sha256_def validate_binary_def binary_magics_def FS [unfolded binary_magics_def])
  have v: "\<not> version_matches (ue_version ex_update_env) ''v2''" using url by (simp add: e)
  show ?thesis using run_update_installs [OF e(1) tag v e(3,5) down [folded e(4)] inst] by blast
qed

theorem update_installs_verified_witness:
  "\<exists>r l fs n. run_update ex_get ex_update_env ex_faults [(''/bin/cloudy'', ''old'')] 0 = ((r, None, l), fs, n) \<and> ur_replaced r \<and>
     (\<exists>b. gm_get fs ''/bin/cloudy'' = Some b \<and> length (ue_sha256 ex_update_env b) = 64 \<and> take 4 b \<in> set binary_magics)"
proof -
  obtain r l fs n where run: "run_update ex_get ex_update_env ex_faults [(''/bin/cloudy'', ''old'')] 0 = ((r, None, l), fs, n)" "ur_replaced r"
    using ex_replaced by blast
  have p: "ue_exe ex_update_env = Some ''/bin/cloudy''"
    "''/bin/cloudy'' = (case ue_links ex_update_env ''/bin/cloudy'' of None \<Rightarrow> ''/bin/cloudy'' | Some q \<Rightarrow> q)"
    "''/bin/cloudy'' \<noteq> ue_tmp ex_update_env" by (simp_all add: ex_update_env_def)
  from mp [OF conjunct2 [OF conjunct2 [OF conjunct2 [OF update_installs_verified [OF run(1) p]]]] run(2)]
  show ?thesis
  proof (elim exE conjE)
    fix a d
    assume a: "gm_get fs ''/bin/cloudy'' = Some (ha_body a)" "ue_sha256 ex_update_env (ha_body a) = d" "length d = 64"
      "take 4 (ha_body a) \<in> set binary_magics"
    have "length (ue_sha256 ex_update_env (ha_body a)) = 64" unfolding a(2) by (rule a(3))
    then show ?thesis using run a(1,4) by blast
  qed
qed

section \<open>Secrets\<close>

lemma key_char_range: "key_char c \<Longrightarrow> 48 \<le> byte c \<and> byte c \<le> 57 \<or> 65 \<le> byte c \<and> byte c \<le> 90 \<or> byte c = 95"
  by (auto simp: key_char_def key_start_def is_digit_def)

lemma key_entry_good:
  assumes key: "secret_key_ok key" and line: "trim_space (key @ CHR ''='' # v) = key @ CHR ''='' # v"
    and v: "newline \<notin> set v" and len: "length key + length v < max_token - 1"
  shows "good_entry (key, v)"
proof -
  have k: "key \<noteq> []" "list_all key_char key" using key by (cases key; auto simp: secret_key_ok_def key_char_def)+
  have r: "c \<in> set key \<Longrightarrow> 48 \<le> byte c \<and> byte c \<le> 57 \<or> 65 \<le> byte c \<and> byte c \<le> 90 \<or> byte c = 95" for c
    using k(2) key_char_range by (auto simp: list_all_iff)
  have no: "CHR ''='' \<notin> set key" "newline \<notin> set key" "hd key \<noteq> CHR ''#''"
    using r [of "CHR ''=''"] r [of newline] r [of "hd key"] k(1) hd_in_set [OF k(1)] by auto
  have "trim_space key = key"
    using r hd_in_set [OF k(1)] last_in_set [OF k(1)] by (intro trim_space_solid k) (fastforce simp: solid_def)+
  then have "secret_entry (key @ CHR ''='' # v) = Some (key, v)" using entry_of_line line no k(1) by blast
  then show ?thesis using drop_cr_trimmed [OF line] no(2) v len by (auto simp: good_entry_def entry_line_def max_token_def)
qed


definition ex_secrets :: secret_state where
  "ex_secrets = \<lparr>sx_files = [], sx_env = [], sx_loaded = []\<rparr>"

definition no_faults :: faults where
  "no_faults = \<lparr>fl_mkdir = False, fl_chmod_dir = False, fl_create = False, fl_write = None, fl_chmod = False, fl_close = False,
     fl_rename = False, fl_remove = False\<rparr>"


section \<open>Triggers\<close>

lemma trigger_scan_fuel:
  "trigger_scan f u input trigger idx = Some b \<Longrightarrow> f \<le> g \<Longrightarrow> trigger_scan g u input trigger idx = Some b"
proof (induction f arbitrary: g idx)
  case (Suc f)
  obtain g' where g: "g = Suc g'" "f \<le> g'" using Suc.prems(2) by (cases g) auto
  show ?case using Suc.prems(1) Suc.IH [OF _ g(2)] unfolding g(1)
    by (auto simp: Let_def split: if_splits option.splits)
qed simp

definition stands :: "string \<Rightarrow> string \<Rightarrow> nat \<Rightarrow> bool" where
  "stands input trigger i \<longleftrightarrow> i \<le> length input \<and> (\<exists>v. input = take i input @ trigger @ v)"

lemma stands_index: "index_str s trigger = Some i \<Longrightarrow> stands s trigger i"
  using index_str_Some by (auto simp: stands_def)

lemma stands_later:
  assumes "stands (drop n input) trigger i" "n \<le> length input" shows "stands input trigger (n + i)"
proof -
  obtain v where v: "drop n input = take i (drop n input) @ trigger @ v" using assms(1) by (auto simp: stands_def)
  have "input = take n input @ drop n input" by simp
  also have "\<dots> = take n input @ take i (drop n input) @ trigger @ v" using v by simp
  also have "\<dots> = take (n + i) input @ trigger @ v" by (simp add: take_add)
  finally show ?thesis using assms by (auto simp: stands_def)
qed

lemma trigger_scan_found:
  "trigger_scan f u input trigger idx = Some True \<Longrightarrow> stands input trigger idx \<Longrightarrow>
   \<exists>i. stands input trigger i \<and> (i = 0 \<or> is_trigger_boundary u (rune_before input i))"
proof (induction f arbitrary: idx)
  case (Suc f)
  show ?case
  proof (cases "idx = 0 \<or> is_trigger_boundary u (rune_before input idx)")
    case True
    then show ?thesis using Suc.prems(2) by blast
  next
    case False
    then obtain rel where rel: "idx + length trigger < length input" "index_str (drop (idx + length trigger) input) trigger = Some rel"
      "trigger_scan f u input trigger (idx + length trigger + rel) = Some True"
      using Suc.prems(1) by (auto simp: Let_def split: if_splits option.splits)
    then have "stands input trigger (idx + length trigger + rel)" using stands_later stands_index by (metis less_imp_le_nat)
    then show ?thesis using Suc.IH rel(3) by blast
  qed
qed simp

lemma stands_split: "stands input trigger i \<Longrightarrow> \<exists>pre post. input = pre @ trigger @ post \<and> length pre = i"
proof -
  assume "stands input trigger i"
  then obtain v where "i \<le> length input" "input = take i input @ trigger @ v" by (auto simp: stands_def)
  then show ?thesis by (intro exI [of _ "take i input"] exI [of _ v]) simp
qed

text \<open>C40. The search for a trigger without a separator ends: it needs no more steps than the text has bytes, however
  the loop is bounded beyond that; and what it finds stands at the start of the text or after a boundary.\<close>

theorem trigger_search_terminates:
  assumes "trigger \<noteq> []" "index_str input trigger = Some idx"
  shows "\<exists>b. (\<forall>fuel. length input < fuel \<longrightarrow> trigger_scan fuel u input trigger idx = Some b) \<and>
     (b \<longrightarrow> (\<exists>pre post. input = pre @ trigger @ post \<and> (pre = [] \<or> is_trigger_boundary u (rune_before input (length pre)))))"
proof -
  have "trigger_scan (Suc (length input)) u input trigger idx \<noteq> None"
    using trigger_scan_total [OF assms(1), of input "Suc (length input)" idx u] by simp
  then obtain b where b: "trigger_scan (Suc (length input)) u input trigger idx = Some b" by blast
  have found: "\<exists>pre post. input = pre @ trigger @ post \<and> (pre = [] \<or> is_trigger_boundary u (rune_before input (length pre)))" if b
  proof -
    have t: "b = True" using that by simp
    obtain i where i: "stands input trigger i" "i = 0 \<or> is_trigger_boundary u (rune_before input i)"
      using trigger_scan_found [OF b [unfolded t] stands_index [OF assms(2)]] by blast
    obtain pre post where "input = pre @ trigger @ post" "length pre = i" using stands_split [OF i(1)] by blast
    then show ?thesis using i(2) by auto
  qed
  show ?thesis using trigger_scan_fuel [OF b] found by (intro exI [of _ b]) simp
qed

theorem trigger_search_terminates_witness:
  "\<exists>b. trigger_scan 9 ascii_unicode ''p99 oom'' ''oom'' 4 = Some b \<and> b \<and> contains ''p99 oom'' ''oom''"
proof -
  have i: "index_str ''p99 oom'' ''oom'' = Some 4" by code_simp
  have run: "trigger_scan 9 ascii_unicode ''p99 oom'' ''oom'' 4 = Some True" by code_simp
  obtain b where b: "length ''p99 oom'' < 9 \<longrightarrow> trigger_scan 9 ascii_unicode ''p99 oom'' ''oom'' 4 = Some b"
    "b \<longrightarrow> (\<exists>pre post. ''p99 oom'' = pre @ ''oom'' @ post \<and> (pre = [] \<or> is_trigger_boundary ascii_unicode (rune_before ''p99 oom'' (length pre))))"
    using trigger_search_terminates [OF _ i, of ascii_unicode] by (simp only: list.distinct not_False_eq_True) metis
  then have "b" using run by simp
  then have "contains ''p99 oom'' ''oom''" unfolding contains_iff using b(2) by blast
  then show ?thesis using run by (intro exI [of _ True]) simp
qed

end
