(* ===== verification/Http_Check.thy ===== *)
theory Http_Check
  imports Log_Tools Correlate_Cause
begin

text \<open>
  The active probe (\<open>internal/core/tools/synthetic/http_check.go\<close>): one GET or HEAD with its redirects, over
  a transport that refuses other methods and whose dialer refuses link-local addresses. Parsing of URLs,
  the addresses of a host, the proxy of a URL, the answers and the clocks are parameters. The state is
  what the probe has done so far.
\<close>

section \<open>Addresses\<close>

text \<open>The dialer's control function is given the printed address: four bytes, or eight groups and a zone. An
  address with a zone is none for \<open>net.ParseIP\<close>.\<close>

datatype dial_address =
    IPv4 nat nat nat nat
  | IPv6 "nat list" string

definition mapped_v4 :: "nat list \<Rightarrow> bool" where
  "mapped_v4 gs \<longleftrightarrow> length gs = 8 \<and> take 5 gs = [0, 0, 0, 0, 0] \<and> gs ! 5 = 65535"

fun link_local :: "dial_address \<Rightarrow> bool" where
  "link_local (IPv4 a b c d) \<longleftrightarrow> a = 169 \<and> b = 254 \<or> a = 224 \<and> b = 0 \<and> c = 0"
| "link_local (IPv6 gs zone) \<longleftrightarrow>
     (if mapped_v4 gs then gs ! 6 = 43518 \<or> gs ! 6 = 57344 \<and> gs ! 7 < 256
      else gs \<noteq> [] \<and> (hd gs div 64 = 1018 \<or> hd gs div 256 = 255 \<and> hd gs mod 16 = 2))"

fun parsed_address :: "dial_address \<Rightarrow> dial_address option" where
  "parsed_address (IPv4 a b c d) = Some (IPv4 a b c d)"
| "parsed_address (IPv6 gs zone) = (if zone = [] then Some (IPv6 gs zone) else None)"

definition guarded_dial :: "dial_address \<Rightarrow> bool" where
  "guarded_dial a \<longleftrightarrow> (case parsed_address a of None \<Rightarrow> True | Some ip \<Rightarrow> \<not> link_local ip)"

section \<open>The probe's transport\<close>

datatype probe_event =
    Asked http_request
  | Dialed dial_address

record probe_net =
  pv_scheme :: "string \<Rightarrow> string option"
  pv_addresses :: "string \<Rightarrow> dial_address list"
  pv_proxy :: "string \<Rightarrow> string option"
  pv_connects :: "dial_address \<Rightarrow> bool"
  pv_answer :: "int option \<Rightarrow> probe_event list \<Rightarrow> transport_error + http_response"
  pv_redirect :: "string \<Rightarrow> string \<Rightarrow> string option"
  pv_cert :: "probe_event list \<Rightarrow> gotime option"
  pv_started :: gotime
  pv_answered :: gotime
  pv_error_text :: "http_error \<Rightarrow> string"
  pv_upper :: "string \<Rightarrow> string"

text \<open>The addresses of the host are tried in turn; a refused one counts as a failed one.\<close>

fun dial :: "probe_net \<Rightarrow> dial_address list \<Rightarrow> probe_event list \<Rightarrow> bool \<times> probe_event list" where
  "dial P [] h = (False, h)"
| "dial P (a # as) h =
     (if \<not> guarded_dial a then dial P as h
      else if pv_connects P a then (True, h @ [Dialed a])
      else dial P as (h @ [Dialed a]))"

text \<open>The default transport asks the environment for a proxy, whose address is dialed instead.\<close>

definition probe_send :: "probe_net \<Rightarrow> int option \<Rightarrow> (probe_event list, http_response) tripper" where
  "probe_send P deadline r h =
     (let h1 = h @ [Asked r]; u = hr_url r in
      if pv_scheme P u \<notin> {Some ''http'', Some ''https''} then (Inl (Inner ''unsupported protocol scheme''), h1)
      else (case dial P (pv_addresses P (case pv_proxy P u of None \<Rightarrow> u | Some p \<Rightarrow> p)) h1 of
              (False, h2) \<Rightarrow> (Inl (Inner ''dial''), h2)
            | (True, h2) \<Rightarrow> (pv_answer P deadline h2, h2)))"

definition guarded_transport :: "probe_net \<Rightarrow> int option \<Rightarrow> (probe_event list, http_response) tripper" where
  "guarded_transport P deadline = new_tripper (probe_send P deadline) None"

section \<open>One check\<close>

record check_args =
  hc_url :: string
  hc_method :: string
  hc_status :: int
  hc_timeout :: int

datatype check_error =
    CheckUrl
  | CheckScheme
  | CheckMethod string

record probe_result =
  pb_url :: string
  pb_method :: string
  pb_up :: bool
  pb_status :: int
  pb_expected :: bool
  pb_latency :: int
  pb_redirects :: nat
  pb_cert :: "int option"
  pb_error :: string

text \<open>Seconds become nanoseconds in 64 bits; a client whose timeout is not positive has none.\<close>

definition probe_timeout :: "int \<Rightarrow> int" where
  "probe_timeout s = (if 0 < s then min 30000000000 (wrap64 (s * 1000000000)) else 10000000000)"

definition probe_deadline :: "int \<Rightarrow> int option" where
  "probe_deadline s = (if 0 < probe_timeout s then Some (probe_timeout s) else None)"

definition probe_method :: "probe_net \<Rightarrow> string \<Rightarrow> check_error + string" where
  "probe_method P m =
     (let t = pv_upper P (trim_space m) in
      if t = [] then Inr ''GET'' else if t = ''GET'' \<or> t = ''HEAD'' then Inr t else Inl (CheckMethod t))"

definition requests_in :: "probe_event list \<Rightarrow> nat" where
  "requests_in h = length (filter (\<lambda>e. case e of Asked r \<Rightarrow> True | Dialed a \<Rightarrow> False) h)"

text \<open>The requests before the one that was last checked for a redirect: all when the redirects were too many.\<close>

definition redirects_seen :: "http_error + http_response \<Rightarrow> nat \<Rightarrow> nat" where
  "redirects_seen r n = (case r of Inl TooManyRedirects \<Rightarrow> n | _ \<Rightarrow> n - 1)"

definition verdict :: "probe_result \<Rightarrow> string" where
  "verdict r = (if \<not> pb_up r then ''DOWN'' else if \<not> pb_expected r then ''UNEXPECTED'' else ''UP'')"

definition probe_row :: "probe_result \<Rightarrow> string list" where
  "probe_row r =
     [pb_url r, verdict r, (if pb_up r then show_int (pb_status r) else em_dash), show_int (pb_latency r), show_nat (pb_redirects r),
      (case pb_cert r of None \<Rightarrow> em_dash | Some d \<Rightarrow> show_int d)]"

definition format_probe :: "probe_result \<Rightarrow> string" where
  "format_probe r =
     pb_method r @ '' '' @ pb_url r @ '' '' @ arrow @ '' '' @ verdict r @
     (if pb_up r
      then '' (status='' @ show_int (pb_status r) @ '', '' @ show_int (pb_latency r) @ ''ms'' @
           (if 0 < pb_redirects r then '', '' @ show_nat (pb_redirects r) @ '' redirect(s)'' else []) @
           (case pb_cert r of None \<Rightarrow> [] | Some d \<Rightarrow> '', cert expires in '' @ show_int d @ ''d'') @ '')'' @
           (if \<not> pb_expected r then '' '' @ em_dash @ '' status did not match expectation'' else [])
      else '' after '' @ show_int (pb_latency r) @ ''ms: '' @ pb_error r)"

definition probe_view :: "probe_result \<Rightarrow> observation" where
  "probe_view r =
     table_view (format_probe r) [''URL'', ''VERDICT'', ''STATUS'', ''LATENCY_MS'', ''REDIRECTS'', ''CERT_DAYS'']
       [AlignLeft, AlignLeft, AlignRight, AlignRight, AlignRight, AlignRight] [probe_row r]"

definition days_left :: "gotime \<Rightarrow> gotime \<Rightarrow> int" where
  "days_left clock t = (let d = t - clock in if 0 \<le> d then d div 86400000000000 else - (- d div 86400000000000))"

definition result_of_probe ::
    "probe_net \<Rightarrow> check_args \<Rightarrow> string \<Rightarrow> http_error + http_response \<Rightarrow> nat \<Rightarrow> probe_event list \<Rightarrow> probe_result" where
  "result_of_probe P a meth r n h =
     (let base = \<lparr>pb_url = hc_url a, pb_method = meth, pb_up = False, pb_status = 0, pb_expected = False,
                  pb_latency = (pv_answered P - pv_started P) div 1000000, pb_redirects = redirects_seen r n, pb_cert = None,
                  pb_error = []\<rparr> in
      case r of
        Inl e \<Rightarrow> base\<lparr>pb_error := pv_error_text P e\<rparr>
      | Inr p \<Rightarrow>
          base\<lparr>pb_up := True, pb_status := rp_status p,
               pb_expected := (if 0 < hc_status a then rp_status p = hc_status a else rp_status p div 100 = 2),
               pb_cert := map_option (days_left (pv_answered P)) (pv_cert P h)\<rparr>)"

definition http_check :: "probe_net \<Rightarrow> check_args \<Rightarrow> probe_event list \<Rightarrow> (check_error + observation) \<times> probe_event list" where
  "http_check P a h =
     (if hc_url a = [] then (Inl CheckUrl, h)
      else if pv_scheme P (hc_url a) \<notin> {Some ''http'', Some ''https''} then (Inl CheckScheme, h)
      else (case probe_method P (hc_method a) of
              Inl e \<Rightarrow> (Inl e, h)
            | Inr meth \<Rightarrow>
                (case follow max_redirects (pv_redirect P) (guarded_transport P (probe_deadline (hc_timeout a)))
                        \<lparr>hr_method = meth, hr_url = hc_url a, hr_headers = []\<rparr> h of
                   (r, h') \<Rightarrow> (Inr (probe_view (result_of_probe P a meth r (requests_in h' - requests_in h) h')), h'))))"

section \<open>What a check does\<close>

text \<open>An event a check may leave behind.\<close>

definition harmless :: "string \<Rightarrow> probe_event \<Rightarrow> bool" where
  "harmless meth e \<longleftrightarrow> (case e of Asked r \<Rightarrow> hr_method r = meth | Dialed a \<Rightarrow> guarded_dial a)"

lemma requests_in_append [simp]: "requests_in (h @ h') = requests_in h + requests_in h'"
  by (simp add: requests_in_def)

lemma requests_in_simps [simp]: "requests_in [] = 0" "requests_in (Asked r # h) = Suc (requests_in h)" "requests_in (Dialed a # h) = requests_in h"
  by (simp_all add: requests_in_def)

lemma dial_harmless: "\<exists>new. snd (dial P as h) = h @ new \<and> list_all (harmless m) new \<and> requests_in new = 0"
proof (induction P as h rule: dial.induct)
  case (2 P a as h)
  show ?case
  proof (cases "guarded_dial a \<and> \<not> pv_connects P a")
    case True
    then obtain new where "snd (dial P as (h @ [Dialed a])) = (h @ [Dialed a]) @ new" "list_all (harmless m) new" "requests_in new = 0"
      using "2.IH" by blast
    then show ?thesis using True by (intro exI [of _ "Dialed a # new"]) (simp add: harmless_def [of m "Dialed a"])
  next
    case False
    then show ?thesis using "2.IH" by (auto simp: harmless_def)
  qed
qed simp

lemma send_harmless: "\<exists>new. snd (probe_send P d r h) = h @ new \<and> list_all (harmless (hr_method r)) new \<and> requests_in new = 1"
proof -
  define as where "as = pv_addresses P (case pv_proxy P (hr_url r) of None \<Rightarrow> hr_url r | Some p \<Rightarrow> p)"
  obtain b h2 where d: "dial P as (h @ [Asked r]) = (b, h2)" by fastforce
  obtain new where new: "h2 = (h @ [Asked r]) @ new" "list_all (harmless (hr_method r)) new" "requests_in new = 0"
    using dial_harmless [of P as "h @ [Asked r]" "hr_method r"] d by auto
  show ?thesis
  proof (cases "pv_scheme P (hr_url r) \<in> {Some ''http'', Some ''https''}")
    case True
    then have "snd (probe_send P d r h) = h2"
      using d by (auto simp: probe_send_def as_def Let_def split: bool.split)
    then show ?thesis using new by (intro exI [of _ "Asked r # new"]) (simp add: harmless_def)
  next
    case False
    then show ?thesis by (intro exI [of _ "[Asked r]"]) (simp add: probe_send_def harmless_def)
  qed
qed

lemma follow_harmless:
  "hr_method r \<in> set allowed_methods \<Longrightarrow>
     \<exists>new. snd (follow n rsv (guarded_transport P d) r h) = h @ new \<and> list_all (harmless (hr_method r)) new \<and> requests_in new \<le> Suc n"
proof (induction n arbitrary: r h)
  case 0
  obtain x h1 where t: "guarded_transport P d r h = (x, h1)" by fastforce
  then have "probe_send P d r h = (x, h1)" using 0 by (simp add: guarded_transport_def new_tripper_def round_trip_def)
  then obtain new where "h1 = h @ new" "list_all (harmless (hr_method r)) new" "requests_in new = 1"
    using send_harmless [of P d r h] by auto
  then show ?case using t by (subst follow.simps) (auto split: sum.split option.split)
next
  case (Suc n)
  obtain x h1 where t: "guarded_transport P d r h = (x, h1)" by fastforce
  then have "probe_send P d r h = (x, h1)" using Suc.prems by (simp add: guarded_transport_def new_tripper_def round_trip_def)
  then obtain new where new: "h1 = h @ new" "list_all (harmless (hr_method r)) new" "requests_in new = 1"
    using send_harmless [of P d r h] by auto
  have more: "\<exists>all. snd (follow n rsv (guarded_transport P d) (r\<lparr>hr_url := u\<rparr>) h1) = h @ all \<and>
      list_all (harmless (hr_method r)) all \<and> requests_in all \<le> Suc (Suc n)" for u
  proof -
    obtain k where "snd (follow n rsv (guarded_transport P d) (r\<lparr>hr_url := u\<rparr>) h1) = h1 @ k"
      "list_all (harmless (hr_method r)) k" "requests_in k \<le> Suc n"
      using Suc.IH [of "r\<lparr>hr_url := u\<rparr>" h1] Suc.prems by auto
    then show ?thesis using new by (intro exI [of _ "new @ k"]) simp
  qed
  show ?case using t new more by (subst follow.simps) (auto split: sum.split option.split)
qed

lemma check_harmless:
  "\<exists>new. snd (http_check P a h) = h @ new \<and> requests_in new \<le> 10 \<and> (\<exists>m \<in> {''GET'', ''HEAD''}. list_all (harmless m) new)"
proof (cases "hc_url a = [] \<or> pv_scheme P (hc_url a) \<notin> {Some ''http'', Some ''https''}")
  case True
  then show ?thesis by (auto simp: http_check_def)
next
  case False
  show ?thesis
  proof (cases "probe_method P (hc_method a)")
    case (Inl e)
    then show ?thesis using False by (auto simp: http_check_def)
  next
    case (Inr meth)
    then have m: "meth \<in> {''GET'', ''HEAD''}" by (auto simp: probe_method_def Let_def split: if_splits)
    define r where "r = \<lparr>hr_method = meth, hr_url = hc_url a, hr_headers = []\<rparr>"
    have r: "hr_method r = meth" "hr_method r \<in> set allowed_methods" using m by (auto simp: r_def allowed_methods_def)
    obtain new where "snd (follow max_redirects (pv_redirect P) (guarded_transport P (probe_deadline (hc_timeout a))) r h) = h @ new"
      "list_all (harmless meth) new" "requests_in new \<le> 10"
      using follow_harmless [OF r(2), of max_redirects "pv_redirect P" P "probe_deadline (hc_timeout a)" h] r(1)
      by (auto simp: max_redirects_def)
    then show ?thesis using False Inr m by (auto simp: http_check_def r_def [symmetric] case_prod_unfold)
  qed
qed

text \<open>A timeout whose nanoseconds do not fit 64 bits leaves the client without one.\<close>

lemma probe_deadline_bounds: "0 < s \<Longrightarrow> s \<le> 9223372036 \<Longrightarrow> probe_deadline s = Some (min 30000000000 (s * 1000000000))"
  by (simp add: probe_deadline_def probe_timeout_def wrap64_def)

lemma probe_deadline_lost: "probe_deadline 9223372037 = None"
  by (simp add: probe_deadline_def probe_timeout_def wrap64_def)

end
