(* ===== verification/Prom_Anomaly.thy ===== *)
theory Prom_Anomaly
  imports Prom_Tools
begin

text \<open>
  Anomalies against a baseline (\<open>internal/core/tools/prom/anomaly.go\<close>): the points of a series before the
  evaluation window give mean and deviation, those in it are scored. Samples that are no finite number
  are dropped. The lemmas say which series is called anomalous.
\<close>

section \<open>Scores\<close>

definition mean_of :: "real list \<Rightarrow> real" where
  "mean_of xs = sum_list xs / real (length xs)"

definition deviation_of :: "real list \<Rightarrow> real" where
  "deviation_of xs = sqrt (sum_list (map (\<lambda>x. (x - mean_of xs) * (x - mean_of xs)) xs) / real (length xs))"

definition min_baseline_points :: nat where
  "min_baseline_points = 4"

record series_anomaly =
  sa_labels :: string
  sa_mean :: real
  sa_std :: real
  sa_count :: nat
  sa_peak :: real
  sa_max_z :: go_float
  sa_peak_at :: gotime
  sa_anomalous :: bool
  sa_insufficient :: bool

text \<open>The finite samples before a time, and those from it on.\<close>

definition baseline_values :: "real \<Rightarrow> (go_float \<times> go_float) list \<Rightarrow> real list" where
  "baseline_values start vs = List.map_filter (\<lambda>(t, v). case v of Fin x \<Rightarrow> if flt_less t (Fin start) then Some x else None | _ \<Rightarrow> None) vs"

definition eval_points :: "real \<Rightarrow> (go_float \<times> go_float) list \<Rightarrow> (go_float \<times> real) list" where
  "eval_points start vs = List.map_filter (\<lambda>(t, v). case v of Fin x \<Rightarrow> if flt_less t (Fin start) then None else Some (t, x) | _ \<Rightarrow> None) vs"

definition z_score :: "real \<Rightarrow> real \<Rightarrow> real \<Rightarrow> go_float" where
  "z_score mean std x = (if 0 < std then Fin \<bar>(x - mean) / std\<bar> else if x \<noteq> mean then PosInf else Fin 0)"

text \<open>The peak so far: score, value and time.\<close>

definition peak_step :: "real \<Rightarrow> real \<Rightarrow> (go_float \<times> real \<times> go_float) option \<Rightarrow> go_float \<times> real \<Rightarrow> (go_float \<times> real \<times> go_float) option" where
  "peak_step mean std best p =
     (let z = z_score mean std (snd p) in
      case best of
        None \<Rightarrow> Some (z, snd p, fst p)
      | Some (m, _) \<Rightarrow> if flt_less m z \<or> z = PosInf \<and> m \<noteq> PosInf then Some (z, snd p, fst p) else best)"

definition unix_to_time :: "prom_env \<Rightarrow> go_float \<Rightarrow> gotime" where
  "unix_to_time E t =
     unix_moment (to_int E t) (to_int E (case t of Fin r \<Rightarrow> Fin ((r - real_of_int (to_int E t)) * 1000000000) | _ \<Rightarrow> t))"

definition score_series :: "prom_env \<Rightarrow> real \<Rightarrow> real \<Rightarrow> prom_series \<Rightarrow> series_anomaly" where
  "score_series E start z s =
     (let base = baseline_values start (se_values s);
          blank = \<lparr>sa_labels = labels_string (pe_order E) (se_labels s), sa_mean = 0, sa_std = 0, sa_count = length base, sa_peak = 0,
                   sa_max_z = Fin 0, sa_peak_at = 0, sa_anomalous = False, sa_insufficient = True\<rparr>
      in if length base < min_baseline_points then blank
         else (let mean = mean_of base; std = deviation_of base; known = blank\<lparr>sa_mean := mean, sa_std := std\<rparr> in
               case foldl (peak_step mean std) None (eval_points start (se_values s)) of
                 None \<Rightarrow> known
               | Some (m, v, t) \<Rightarrow>
                   known\<lparr>sa_peak := v, sa_max_z := m, sa_peak_at := unix_to_time E t, sa_anomalous := \<not> flt_less m (Fin z),
                         sa_insufficient := False\<rparr>))"

text \<open>The scored series first, of those the anomalous ones, and by descending score: stable sorts, the last
  criterion first.\<close>

definition finite_part :: "go_float \<Rightarrow> real" where
  "finite_part x = (case x of Fin r \<Rightarrow> r | _ \<Rightarrow> 0)"

definition anomaly_order :: "series_anomaly list \<Rightarrow> series_anomaly list" where
  "anomaly_order ss =
     sort_key sa_insufficient (sort_key (\<lambda>s. \<not> sa_anomalous s)
       (sort_key (\<lambda>s. sa_max_z s \<noteq> PosInf) (sort_key (\<lambda>s. - finite_part (sa_max_z s)) ss)))"

definition score_anomalies :: "prom_env \<Rightarrow> gotime \<Rightarrow> real \<Rightarrow> prom_result \<Rightarrow> series_anomaly list" where
  "score_anomalies E eval_start z r =
     anomaly_order (map (score_series E (real_of_int (eval_start div 1000000000 - 62135596800)) z) (pr_matrix r))"

definition anomalies :: "series_anomaly list \<Rightarrow> nat" where
  "anomalies ss = length (filter sa_anomalous ss)"

section \<open>Rendering\<close>

abbreviation infinity_mark :: string where "infinity_mark \<equiv> [CHR 0xE2, CHR 0x88, CHR 0x9E]"

definition fmt_maybe :: "prom_env \<Rightarrow> bool \<Rightarrow> real \<Rightarrow> string" where
  "fmt_maybe E missing x = (if missing then em_dash else pe_float E ''%.4g'' (Fin x))"

definition z_string :: "prom_env \<Rightarrow> series_anomaly \<Rightarrow> string" where
  "z_string E s =
     (if sa_insufficient s then em_dash
      else if sa_max_z s = PosInf then infinity_mark
      else pe_float E ''%.2f'' (sa_max_z s))"

definition anomaly_row :: "prom_env \<Rightarrow> series_anomaly \<Rightarrow> string list" where
  "anomaly_row E s =
     (let bad = sa_insufficient s in
      [sa_labels s, fmt_maybe E bad (sa_mean s), fmt_maybe E bad (sa_std s), fmt_maybe E bad (sa_peak s), z_string E s,
       (if bad then em_dash else pe_rfc E (sa_peak_at s)),
       (if bad then ''insufficient baseline ('' @ show_nat (sa_count s) @ '' pts)''
        else if sa_anomalous s then ''ANOMALY'' else ''normal'')])"

definition anomaly_observation :: "prom_env \<Rightarrow> string \<Rightarrow> int \<Rightarrow> int \<Rightarrow> real \<Rightarrow> series_anomaly list \<Rightarrow> observation" where
  "anomaly_observation E q baseline eval z ss =
     (if ss = [] then text_view (''prom.anomaly: query='' @ pe_quote E q @ '' returned no series over the baseline+eval window'')
      else table_view
        (''prom.anomaly: query='' @ pe_quote E q @ '' baseline='' @ pe_duration E baseline @ '' eval='' @ pe_duration E eval @
         '' z>='' @ pe_float E ''%.4g'' (Fin z) @ '' '' @ arrow @ '' '' @ show_nat (anomalies ss) @ ''/'' @ show_nat (length ss) @
         '' series anomalous'')
        [''SERIES'', ''BASELINE_MEAN'', ''BASELINE_STD'', ''EVAL_PEAK'', ''MAX_Z'', ''PEAK_AT'', ''VERDICT'']
        [AlignLeft, AlignRight, AlignRight, AlignRight, AlignRight, AlignLeft, AlignLeft] (map (anomaly_row E) ss))"

section \<open>The tool\<close>

record anomaly_args =
  an_endpoint :: string
  an_query :: string
  an_baseline :: string
  an_eval :: string
  an_z :: real

definition int_quot :: "int \<Rightarrow> int \<Rightarrow> int" where
  "int_quot a b = (if 0 \<le> a then a div b else - (- a div b))"

definition anomaly_step :: "int \<Rightarrow> int" where
  "anomaly_step window = max 15000000000 (int_quot window 200)"

definition run_anomaly ::
    "prom_env \<Rightarrow> ('w) net \<Rightarrow> prom_decoders \<Rightarrow> ('w) prom_tool \<Rightarrow> anomaly_args \<Rightarrow> 'w \<Rightarrow> (prom_tool_error + observation) \<times> 'w" where
  "run_anomaly E N D t a w =
     (if an_query a = [] then (Inl (PtRequired ''prom.anomaly'' ''query''), w)
      else (case resolve_client ''prom.anomaly'' t (an_endpoint a) of
              Inl e \<Rightarrow> (Inl e, w)
            | Inr c \<Rightarrow>
                (let baseline = parse_duration_or (an_baseline a) 3600000000000; eval = parse_duration_or (an_eval a) 300000000000;
                     z = (if an_z a \<le> 0 then 3 else an_z a); eval_start = pe_clock E - eval; start = eval_start - baseline;
                     window = wrap64 (baseline + eval); step = anomaly_step window
                 in if 1000 < int_quot window step then (Inl PtTooLarge, w)
                    else observed ''prom.anomaly'' (\<lambda>r. anomaly_observation E (an_query a) baseline eval z (score_anomalies E eval_start z r))
                           (prom_query_range N D c (an_query a) start (pe_clock E) step w))))"

section \<open>What is anomalous\<close>

lemma int_div_less: "0 < s \<Longrightarrow> n < k * s \<Longrightarrow> n div s < k" for n s k :: int
proof (rule ccontr)
  assume pos: "0 < s" and less: "n < k * s" and "\<not> n div s < k"
  then have "k * s \<le> n div s * s" by (intro mult_right_mono) auto
  moreover have "n div s * s \<le> n" using pos div_mult_mod_eq [of n s] pos_mod_sign [of s n] by linarith
  ultimately show False using less by simp
qed

text \<open>A window is never too large: two hundred steps cover it.\<close>

lemma window_fits: "int_quot window (anomaly_step window) \<le> 200"
proof (cases "0 \<le> window")
  case True
  define s where "s = anomaly_step window"
  have s: "15000000000 \<le> s" "window div 200 \<le> s" using True by (auto simp: s_def anomaly_step_def int_quot_def)
  have "window div s \<le> 200"
  proof (cases "window < 3000000000000")
    case True
    then have "window < 201 * s" using s(1) by simp
    then have "window div s < 201" using s(1) int_div_less by simp
    then show ?thesis by simp
  next
    case False
    have "window = 200 * (window div 200) + window mod 200" by simp
    moreover have "window mod 200 < 200" by simp
    ultimately have "window < 200 * s + 200" using s(2) by linarith
    then have "window < 201 * s" using s(1) by simp
    then have "window div s < 201" using s(1) int_div_less by simp
    then show ?thesis by simp
  qed
  then show ?thesis using True by (simp add: int_quot_def s_def [symmetric])
next
  case False
  then have "anomaly_step window = 15000000000" by (simp add: anomaly_step_def int_quot_def pos_imp_zdiv_nonneg_iff)
  moreover have "0 \<le> - window div 15000000000" using False by (intro pos_imp_zdiv_nonneg_iff [THEN iffD2]) auto
  ultimately show ?thesis using False by (simp add: int_quot_def)
qed

definition deviates :: "real \<Rightarrow> real \<Rightarrow> real \<Rightarrow> real \<Rightarrow> bool" where
  "deviates z mean std x \<longleftrightarrow> (if 0 < std then z * std \<le> \<bar>x - mean\<bar> else x \<noteq> mean)"

lemma z_score_at_least: "0 < z \<Longrightarrow> \<not> flt_less (z_score mean std x) (Fin z) \<longleftrightarrow> deviates z mean std x"
  by (auto simp: z_score_def deviates_def abs_divide not_less pos_le_divide_eq)

lemma flt_less_z: "\<not> flt_less (z_score m s x) (Fin z) \<Longrightarrow> flt_less (z_score m s x) (z_score m s y) \<Longrightarrow> \<not> flt_less (z_score m s y) (Fin z)"
  by (auto simp: z_score_def split: if_splits)

lemma peak_reaches:
  "(case foldl (peak_step mean std) best ps of None \<Rightarrow> False | Some (m, _) \<Rightarrow> \<not> flt_less m (Fin z)) \<longleftrightarrow>
     (case best of None \<Rightarrow> False | Some (m, _) \<Rightarrow> \<not> flt_less m (Fin z)) \<or> (\<exists>p \<in> set ps. \<not> flt_less (z_score mean std (snd p)) (Fin z))"
  if "0 < z" "\<And>m v t. best = Some (m, v, t) \<Longrightarrow> \<exists>x. m = z_score mean std x"
  using that
proof (induction ps arbitrary: best)
  case (Cons p ps)
  let ?b = "peak_step mean std best p"
  have keep: "\<exists>x. m = z_score mean std x" if "?b = Some (m, v, t)" for m v t
    using that Cons.prems(2) by (auto simp: peak_step_def Let_def split: option.splits if_splits)
  have step: "(case ?b of None \<Rightarrow> False | Some (m, _) \<Rightarrow> \<not> flt_less m (Fin z)) \<longleftrightarrow>
     (case best of None \<Rightarrow> False | Some (m, _) \<Rightarrow> \<not> flt_less m (Fin z)) \<or> \<not> flt_less (z_score mean std (snd p)) (Fin z)"
  proof (cases best)
    case None
    then show ?thesis by (simp add: peak_step_def Let_def)
  next
    case (Some b)
    obtain m v t where b: "best = Some (m, v, t)" using Some by (cases b) auto
    obtain x where x: "m = z_score mean std x" using Cons.prems(2) [OF b] by blast
    show ?thesis
      using Cons.prems(1) unfolding b x by (auto simp: peak_step_def Let_def z_score_def split: if_splits)
  qed
  show ?case using Cons.IH [OF Cons.prems(1) keep] step by auto
qed simp

text \<open>Enough baseline, and a sample of the window outside the band around its mean.\<close>

definition leaves_band :: "real \<Rightarrow> real \<Rightarrow> (go_float \<times> go_float) list \<Rightarrow> bool" where
  "leaves_band start z vs \<longleftrightarrow>
     (let base = baseline_values start vs in
      min_baseline_points \<le> length base \<and> list_ex (\<lambda>p. deviates z (mean_of base) (deviation_of base) (snd p)) (eval_points start vs))"

lemma anomalous_iff:
  assumes "0 < z"
  shows "sa_anomalous (score_series E start z s) \<longleftrightarrow> leaves_band start z (se_values s)"
proof (cases "length (baseline_values start (se_values s)) < min_baseline_points")
  case True
  then show ?thesis by (simp add: score_series_def leaves_band_def Let_def)
next
  case False
  define m d ps where "m = mean_of (baseline_values start (se_values s))" "d = deviation_of (baseline_values start (se_values s))"
    "ps = eval_points start (se_values s)"
  have "sa_anomalous (score_series E start z s) \<longleftrightarrow>
      (case foldl (peak_step m d) None ps of None \<Rightarrow> False | Some (y, _) \<Rightarrow> \<not> flt_less y (Fin z))"
    using False by (simp add: score_series_def Let_def m_d_ps_def split: option.split)
  also have "\<dots> \<longleftrightarrow> (\<exists>p \<in> set ps. \<not> flt_less (z_score m d (snd p)) (Fin z))"
    by (subst peak_reaches) (use assms in auto)
  finally show ?thesis using False z_score_at_least [OF assms] by (simp add: leaves_band_def Let_def list_ex_iff m_d_ps_def)
qed

lemma baseline_mem: "x \<in> set (baseline_values start vs) \<longleftrightarrow> (\<exists>t. (t, Fin x) \<in> set vs \<and> flt_less t (Fin start))"
  by (force simp: baseline_values_def List.map_filter_def split: go_float.splits if_splits)

lemma eval_mem: "(t, x) \<in> set (eval_points start vs) \<longleftrightarrow> (t, Fin x) \<in> set vs \<and> \<not> flt_less t (Fin start)"
  by (force simp: eval_points_def List.map_filter_def split: go_float.splits if_splits)

lemma anomaly_order_set: "set (anomaly_order ss) = set ss"
  by (simp add: anomaly_order_def)

end
