(* ===== verification/Ops_Tools.thy ===== *)
theory Ops_Tools
  imports Log_Tools Correlate_Cause
begin

text \<open>The tools over Argo CD, Alertmanager, Prometheus rules, PagerDuty, RabbitMQ and Kafka.\<close>

section \<open>Argo CD\<close>

text \<open>
  The Argo CD tools (\<open>internal/core/tools/gitops/argocd.go\<close>): the applications with the most broken first,
  one application with its conditions and resources, and its history. The decoders are parameters.
\<close>

definition pick_argo :: "('w) api_client gomap \<Rightarrow> string \<Rightarrow> pick_error + ('w) api_client" where
  "pick_argo m name = pick_endpoint m name ''gitops'' ''argo cd endpoint''"

subsection \<open>Applications\<close>

record argo_app_raw =
  ar_name :: string
  ar_namespace :: string
  ar_project :: string
  ar_repo :: string
  ar_path :: string
  ar_target :: string
  ar_sync :: string
  ar_revision :: string
  ar_health :: string
  ar_finished :: string
  ar_deployed :: "string list"

record argo_app =
  aa_name :: string
  aa_namespace :: string
  aa_project :: string
  aa_sync :: string
  aa_health :: string
  aa_target :: string
  aa_repo :: string
  aa_path :: string
  aa_revision :: string
  aa_synced :: string

text \<open>The end of the last operation, or else the last entry of the history.\<close>

definition flatten_argo_app :: "argo_app_raw \<Rightarrow> argo_app" where
  "flatten_argo_app r =
     \<lparr>aa_name = ar_name r, aa_namespace = ar_namespace r, aa_project = ar_project r, aa_sync = ar_sync r, aa_health = ar_health r,
      aa_target = ar_target r, aa_repo = ar_repo r, aa_path = ar_path r, aa_revision = ar_revision r,
      aa_synced = (if ar_finished r = [] \<and> ar_deployed r \<noteq> [] then last (ar_deployed r) else ar_finished r)\<rparr>"

definition app_health_rank :: "argo_app \<Rightarrow> int" where
  "app_health_rank a =
     - ((if aa_sync a = ''OutOfSync'' then 10 else if aa_sync a = ''Unknown'' then 20 else 0) +
        (if aa_health a = ''Degraded'' then 5 else if aa_health a = ''Missing'' then 7
         else if aa_health a = ''Progressing'' then 3 else if aa_health a = ''Unknown'' then 2 else 0))"

text \<open>Two stable sorts: by name, then by rank.\<close>

definition argo_order :: "argo_app list \<Rightarrow> argo_app list" where
  "argo_order as = sort_key app_health_rank (sort_key aa_name as)"

definition parse_argo_apps :: "argo_app_raw list \<Rightarrow> argo_app list" where
  "parse_argo_apps rs = argo_order (map flatten_argo_app rs)"

definition short_sha :: "string \<Rightarrow> string" where
  "short_sha s = take 8 s"

definition argo_row :: "argo_app \<Rightarrow> string list" where
  "argo_row a = [aa_name a, aa_project a, aa_sync a, aa_health a, short_sha (aa_revision a), aa_synced a]"

definition argo_line :: "argo_app \<Rightarrow> string" where
  "argo_line a =
     ''  '' @ aa_name a @ '' ['' @ aa_sync a @ ''/'' @ aa_health a @ ''] '' @ aa_target a @ '' @ '' @ short_sha (aa_revision a) @ [newline]"

definition format_argo_apps :: "argo_app list \<Rightarrow> nat \<Rightarrow> string" where
  "format_argo_apps as n =
     (if as = [] then ''(no Argo CD applications)''
      else show_nat (length as) @ '' apps (out_of_sync='' @ show_nat (length (filter (\<lambda>a. aa_sync a = ''OutOfSync'') as)) @
           '' degraded='' @ show_nat (length (filter (\<lambda>a. aa_health a = ''Degraded'' \<or> aa_health a = ''Missing'') as)) @
           '') showing '' @ show_nat (min n (length as)) @ [newline] @ concat (map argo_line (take n as)))"

definition argo_headers :: "string list" where
  "argo_headers = [''NAME'', ''PROJECT'', ''SYNC'', ''HEALTH'', ''REVISION'', ''LAST_SYNC'']"

record argo_list_args =
  al_name :: string
  al_project :: string
  al_limit :: int

definition argo_list_apps ::
    "('w) net \<Rightarrow> (string \<Rightarrow> argo_app_raw list option) \<Rightarrow> ('w) api_client gomap \<Rightarrow> argo_list_args \<Rightarrow> 'w \<Rightarrow> (query_error + observation) \<times> 'w" where
  "argo_list_apps N dec cs a =
     (let n = nat (clamp_or 50 500 (al_limit a)) in
      run_query N ''gitops.argo_list_apps'' None (pick_argo cs (al_name a)) ''/api/v1/applications'' (opt_param ''projects'' (al_project a)) dec
        (\<lambda>rs. let as = parse_argo_apps rs in table_view (format_argo_apps as n) argo_headers [] (map argo_row (take n as))))"

subsection \<open>One application\<close>

definition app_path :: "string \<Rightarrow> string" where
  "app_path app = ''/api/v1/applications/'' @ path_escape app"

definition resource_line :: "string \<times> string \<times> string \<times> string \<Rightarrow> string" where
  "resource_line r =
     (case r of (kind, name, status, health) \<Rightarrow>
        ''  '' @ kind @ ''/'' @ name @ '' sync='' @ status @ '' health='' @ health @ [newline])"

definition format_argo_status ::
    "argo_app \<Rightarrow> (string \<times> string) list \<Rightarrow> (string \<times> string \<times> string \<times> string) list \<Rightarrow> string" where
  "format_argo_status a conds rs =
     ''app='' @ aa_name a @ '' project='' @ aa_project a @ '' namespace='' @ aa_namespace a @ [newline] @
     ''  sync='' @ aa_sync a @ '' health='' @ aa_health a @ '' target='' @ aa_target a @ '' revision='' @ short_sha (aa_revision a) @
     '' last_sync='' @ aa_synced a @ [newline] @
     ''  repo='' @ aa_repo a @ '' path='' @ aa_path a @ [newline] @
     (if conds = [] then []
      else ''conditions:'' @ [newline] @ concat (map (\<lambda>(t, msg). ''  ['' @ t @ ''] '' @ msg @ [newline]) conds)) @
     (if rs = [] then []
      else ''resources:'' @ [newline] @
           (if 50 < length rs then ''  (showing first 50 of '' @ show_nat (length rs) @ '')'' @ [newline] else []) @
           concat (map resource_line (take 50 rs)))"

text \<open>Conditions and resources are decoded apart; when that fails they are left out as they decoded so far.\<close>

definition argo_app_status ::
    "('w) net \<Rightarrow> (string \<Rightarrow> argo_app_raw option) \<Rightarrow> (string \<Rightarrow> (string \<times> string) list \<times> (string \<times> string \<times> string \<times> string) list)
     \<Rightarrow> ('w) api_client gomap \<Rightarrow> string \<Rightarrow> string \<Rightarrow> 'w \<Rightarrow> (query_error + observation) \<times> 'w" where
  "argo_app_status N dec details cs name app =
     run_query N ''gitops.argo_app_status'' (needs ''gitops.argo_app_status'' ''app'' app) (pick_argo cs name) (app_path app) []
       (\<lambda>body. map_option (\<lambda>r. (r, details body)) (dec body))
       (\<lambda>(r, conds, rs). text_view (format_argo_status (flatten_argo_app r) conds rs))"

subsection \<open>History\<close>

text \<open>An entry is its revision, its time and its repository; the newest is last in the answer and first here.\<close>

definition history_row :: "nat \<times> string \<times> string \<times> string \<Rightarrow> string list" where
  "history_row e = (case e of (i, revision, deployed, repo) \<Rightarrow> [show_nat i, short_sha revision, deployed, repo])"

definition history_line :: "nat \<times> string \<times> string \<times> string \<Rightarrow> string" where
  "history_line e =
     (case e of (i, revision, deployed, repo) \<Rightarrow> ''  #'' @ show_nat i @ '' '' @ short_sha revision @ '' @ '' @ deployed @ [newline])"

definition format_argo_history :: "string \<Rightarrow> (string \<times> string \<times> string) list \<Rightarrow> nat \<Rightarrow> string" where
  "format_argo_history app es n =
     (if es = [] then ''app='' @ app @ '': no recorded sync history''
      else ''app='' @ app @ '' history='' @ show_nat (length es) @ '' (showing '' @ show_nat (min n (length es)) @ '', newest first)'' @ [newline] @
           concat (map history_line (List.enumerate 0 (take n es))))"

definition argo_app_history ::
    "('w) net \<Rightarrow> (string \<Rightarrow> (string \<times> string \<times> string) list option) \<Rightarrow> ('w) api_client gomap \<Rightarrow> string \<Rightarrow> string \<Rightarrow> int \<Rightarrow> 'w
     \<Rightarrow> (query_error + observation) \<times> 'w" where
  "argo_app_history N dec cs name app lmt =
     (let n = nat (clamp_or 50 200 lmt) in
      run_query N ''gitops.argo_app_history'' (needs ''gitops.argo_app_history'' ''app'' app) (pick_argo cs name) (app_path app) []
        (\<lambda>body. map_option rev (dec body))
        (\<lambda>es. table_view (format_argo_history app es n) [''#'', ''REVISION'', ''DEPLOYED_AT'', ''SOURCE''] []
           (map history_row (List.enumerate 0 (take n es)))))"

subsection \<open>Facts\<close>

lemma argo_order_set: "set (argo_order as) = set as" "length (argo_order as) = length as"
  by (simp_all add: argo_order_def)

lemma argo_order_broken_first: "sorted (map app_health_rank (argo_order as))"
  by (simp add: argo_order_def)

section \<open>Alerts and on-call\<close>

text \<open>
  The alert tools (\<open>internal/core/tools/alert/alertmanager.go\<close>, \<open>prom_rules.go\<close>) and the on-call tools
  (\<open>internal/core/tools/oncall/pagerduty.go\<close>): alerts, silences and rules with the firing ones first,
  incidents, and who is on call. Decoders, RFC 3339 and quoting are parameters.
\<close>

definition label_of :: "string gomap \<Rightarrow> string \<Rightarrow> string" where
  "label_of m k = (case gm_get m k of None \<Rightarrow> [] | Some v \<Rightarrow> v)"

subsection \<open>Alerts\<close>

definition pick_am :: "('w) api_client gomap \<Rightarrow> string \<Rightarrow> pick_error + ('w) api_client" where
  "pick_am m name = pick_endpoint m name ''alert'' ''alertmanager endpoint''"

record am_alert =
  am_labels :: "string gomap"
  am_annotations :: "string gomap"
  am_starts :: string
  am_ends :: string
  am_state :: string
  am_silenced :: "string list"
  am_inhibited :: "string list"

definition state_rank :: "string \<Rightarrow> nat" where
  "state_rank s = (if s = ''active'' then 0 else if s = ''suppressed'' then 1 else 2)"

definition alert_order :: "am_alert list \<Rightarrow> am_alert list" where
  "alert_order as = sort_key (\<lambda>a. state_rank (am_state a)) (sort_key (\<lambda>a. label_of (am_labels a) ''alertname'') as)"

text \<open>The first of the usual labels with a value, or the first other label.\<close>

definition pick_instance_label :: "string gomap \<Rightarrow> string" where
  "pick_instance_label m =
     (case List.find (\<lambda>k. label_of m k \<noteq> []) [''instance'', ''pod'', ''service'', ''job'', ''namespace''] of
        Some k \<Rightarrow> label_of m k
      | None \<Rightarrow>
          (case filter (\<lambda>k. k \<noteq> ''alertname'' \<and> k \<noteq> ''severity'') (gm_keys m) of
             [] \<Rightarrow> []
           | k # _ \<Rightarrow> k @ ''='' @ label_of m k))"

definition if_non_empty :: "string \<Rightarrow> string \<Rightarrow> string" where
  "if_non_empty pre s = (if s = [] then [] else pre @ s)"

definition alert_row :: "am_alert \<Rightarrow> string list" where
  "alert_row a =
     [am_state a, label_of (am_labels a) ''alertname'', label_of (am_labels a) ''severity'', pick_instance_label (am_labels a), am_starts a]"

definition alert_summary :: "am_alert \<Rightarrow> string" where
  "alert_summary a =
     (let s = label_of (am_annotations a) ''summary'' in if s = [] then label_of (am_annotations a) ''description'' else s)"

definition alert_line :: "am_alert \<Rightarrow> string" where
  "alert_line a =
     ''  ['' @ am_state a @ ''] '' @ label_of (am_labels a) ''alertname'' @ '' sev='' @ label_of (am_labels a) ''severity'' @
     '' on '' @ pick_instance_label (am_labels a) @ if_non_empty ('' '' @ em_dash @ '' '') (alert_summary a) @ [newline]"

definition format_alerts :: "am_alert list \<Rightarrow> nat \<Rightarrow> string" where
  "format_alerts as n =
     (if as = [] then ''(no active alerts)''
      else show_nat (length as) @ '' alerts (firing='' @ show_nat (length (filter (\<lambda>a. am_state a = ''active'') as)) @
           '' suppressed='' @ show_nat (length (filter (\<lambda>a. am_state a = ''suppressed'') as)) @ '')'' @
           (if n < length as then '', showing top '' @ show_nat n else []) @ [newline] @ concat (map alert_line (take n as)))"

definition list_active ::
    "('w) net \<Rightarrow> (string \<Rightarrow> am_alert list option) \<Rightarrow> ('w) api_client gomap \<Rightarrow> string \<Rightarrow> int \<Rightarrow> 'w \<Rightarrow> (query_error + observation) \<times> 'w" where
  "list_active N dec cs name lmt =
     (let n = nat (clamp_or 50 500 lmt) in
      run_query N ''alert.list_active'' None (pick_am cs name) ''/api/v2/alerts'' [] dec
        (\<lambda>rs. let as = alert_order rs in
           table_view (format_alerts as n) [''STATE'', ''ALERTNAME'', ''SEVERITY'', ''INSTANCE'', ''STARTS_AT''] [] (map alert_row (take n as))))"

subsection \<open>Silences\<close>

record am_matcher =
  mt_name :: string
  mt_value :: string
  mt_regex :: bool
  mt_equal :: bool

record am_silence =
  si_id :: string
  si_matchers :: "am_matcher list"
  si_starts :: string
  si_ends :: string
  si_creator :: string
  si_comment :: string
  si_state :: string

definition silence_state_rank :: "string \<Rightarrow> nat" where
  "silence_state_rank s = (if s = ''active'' then 0 else if s = ''pending'' then 1 else if s = ''expired'' then 2 else 3)"

definition silence_order :: "am_silence list \<Rightarrow> am_silence list" where
  "silence_order ss = sort_key (\<lambda>s. silence_state_rank (si_state s)) ss"

definition matcher_operator :: "am_matcher \<Rightarrow> string" where
  "matcher_operator m =
     (if mt_regex m then (if mt_equal m then ''=~'' else ''!~'') else (if mt_equal m then ''='' else ''!=''))"

definition render_matchers :: "gofmt \<Rightarrow> am_matcher list \<Rightarrow> string" where
  "render_matchers F ms = join (map (\<lambda>m. mt_name m @ matcher_operator m @ fmt_q F (mt_value m)) ms) '',''"

definition silence_row :: "gofmt \<Rightarrow> am_silence \<Rightarrow> string list" where
  "silence_row F s = [si_state s, render_matchers F (si_matchers s), si_creator s, si_comment s, si_ends s]"

definition silence_line :: "gofmt \<Rightarrow> am_silence \<Rightarrow> string" where
  "silence_line F s =
     ''  ['' @ si_state s @ ''] '' @ render_matchers F (si_matchers s) @ '' by '' @ si_creator s @ '' until '' @ si_ends s @
     '' '' @ em_dash @ '' '' @ si_comment s @ [newline]"

definition format_silences :: "gofmt \<Rightarrow> am_silence list \<Rightarrow> nat \<Rightarrow> string" where
  "format_silences F ss n =
     (if ss = [] then ''(no silences)''
      else show_nat (length ss) @ '' silences (showing '' @ show_nat (min n (length ss)) @ '')'' @ [newline] @
           concat (map (silence_line F) (take n ss)))"

definition list_silences ::
    "('w) net \<Rightarrow> gofmt \<Rightarrow> (string \<Rightarrow> am_silence list option) \<Rightarrow> ('w) api_client gomap \<Rightarrow> string \<Rightarrow> int \<Rightarrow> 'w
     \<Rightarrow> (query_error + observation) \<times> 'w" where
  "list_silences N F dec cs name lmt =
     (let n = nat (clamp_or 50 500 lmt) in
      run_query N ''alert.list_silences'' None (pick_am cs name) ''/api/v2/silences'' [] dec
        (\<lambda>rs. let ss = silence_order rs in
           table_view (format_silences F ss n) [''STATE'', ''MATCHERS'', ''CREATOR'', ''COMMENT'', ''ENDS_AT''] []
             (map (silence_row F) (take n ss))))"

subsection \<open>Rules\<close>

definition pick_prom_rules :: "('w) api_client gomap \<Rightarrow> string \<Rightarrow> pick_error + ('w) api_client" where
  "pick_prom_rules m name = pick_endpoint m name ''alert'' ''prometheus endpoint''"

record prom_rule_raw =
  rr_type :: string
  rr_name :: string
  rr_query :: string
  rr_labels :: "string gomap"
  rr_state :: string
  rr_active :: "string list"

record prom_rule =
  pl_group :: string
  pl_file :: string
  pl_type :: string
  pl_name :: string
  pl_query :: string
  pl_labels :: "string gomap"
  pl_state :: string
  pl_active_at :: string
  pl_active :: nat

definition rule_type :: "string \<Rightarrow> string" where
  "rule_type t = (if t = ''alerting'' then ''alert'' else if t = ''recording'' then ''record'' else t)"

definition rule_wanted :: "string \<Rightarrow> string \<Rightarrow> bool" where
  "rule_wanted wanted t \<longleftrightarrow> (wanted = ''alert'' \<longrightarrow> t = ''alert'') \<and> (wanted = ''record'' \<longrightarrow> t = ''record'')"

definition flatten_rule :: "string \<Rightarrow> string \<Rightarrow> prom_rule_raw \<Rightarrow> prom_rule" where
  "flatten_rule grp path r =
     \<lparr>pl_group = grp, pl_file = path, pl_type = rule_type (rr_type r), pl_name = rr_name r, pl_query = rr_query r, pl_labels = rr_labels r,
      pl_state = rr_state r, pl_active_at = (case rr_active r of [] \<Rightarrow> [] | t # _ \<Rightarrow> t), pl_active = length (rr_active r)\<rparr>"

definition rule_state_rank :: "string \<Rightarrow> nat" where
  "rule_state_rank s = (if s = ''firing'' then 0 else if s = ''pending'' then 1 else if s = ''inactive'' then 2 else 3)"

definition rule_order :: "prom_rule list \<Rightarrow> prom_rule list" where
  "rule_order rs = sort_key (\<lambda>r. rule_state_rank (pl_state r)) (sort_key pl_name rs)"

text \<open>An answer is its status and its groups; another status than success is an error.\<close>

definition parse_prom_rules :: "string \<Rightarrow> string \<times> (string \<times> string \<times> prom_rule_raw list) list \<Rightarrow> prom_rule list option" where
  "parse_prom_rules wanted answer =
     (case answer of (status, groups) \<Rightarrow>
        if status \<noteq> [] \<and> status \<noteq> ''success'' then None
        else Some (rule_order (concat (map (\<lambda>(grp, path, rs).
               map (flatten_rule grp path) (filter (\<lambda>r. rule_wanted wanted (rule_type (rr_type r))) rs)) groups))))"

definition short_query :: "string \<Rightarrow> string" where
  "short_query q =
     (let one = (if newline \<in> set q then takeWhile (\<lambda>c. c \<noteq> newline) q @ '' '' @ three_dots else q) in
      if 120 < length one then take 117 one @ ''...'' else one)"

definition rule_row :: "prom_rule \<Rightarrow> string list" where
  "rule_row r = [pl_type r, pl_name r, pl_state r, label_of (pl_labels r) ''severity'', pl_group r, show_nat (pl_active r)]"

definition rule_line :: "prom_rule \<Rightarrow> string" where
  "rule_line r =
     ''  ['' @ pl_type r @ ''/'' @ (if pl_state r = [] then ''-'' else pl_state r) @ ''] '' @ pl_name r @ '' sev='' @
     label_of (pl_labels r) ''severity'' @ '' group='' @ pl_group r @ '' active='' @ show_nat (pl_active r) @ '' :: '' @
     short_query (pl_query r) @ [newline]"

definition format_rules :: "prom_rule list \<Rightarrow> nat \<Rightarrow> string" where
  "format_rules rs n =
     (if rs = [] then ''(no rules)''
      else show_nat (length rs) @ '' rules (showing '' @ show_nat (min n (length rs)) @ '')'' @ [newline] @ concat (map rule_line (take n rs)))"

definition list_rules ::
    "('w) net \<Rightarrow> unicode \<Rightarrow> (string \<Rightarrow> (string \<times> (string \<times> string \<times> prom_rule_raw list) list) option) \<Rightarrow> ('w) api_client gomap
     \<Rightarrow> string \<Rightarrow> string \<Rightarrow> int \<Rightarrow> 'w \<Rightarrow> (query_error + observation) \<times> 'w" where
  "list_rules N u dec cs name kind lmt =
     (let n = nat (clamp_or 50 500 lmt); wanted = (let t = to_lower u kind in if t = [] then ''alert'' else t) in
      run_query N ''alert.list_rules'' None (pick_prom_rules cs name) ''/api/v1/rules''
        (if wanted = ''alert'' \<or> wanted = ''record'' then [(''type'', [wanted])] else [])
        (\<lambda>body. Option.bind (dec body) (parse_prom_rules wanted))
        (\<lambda>rs. table_view (format_rules rs n) [''TYPE'', ''NAME'', ''STATE'', ''SEVERITY'', ''GROUP'', ''ACTIVE''] [] (map rule_row (take n rs))))"

subsection \<open>Incidents\<close>

definition pick_pd :: "('w) api_client gomap \<Rightarrow> string \<Rightarrow> pick_error + ('w) api_client" where
  "pick_pd m name = pick_endpoint m name ''oncall'' ''pagerduty account''"

record pd_incident =
  pd_number :: int
  pd_title :: string
  pd_status :: string
  pd_urgency :: string
  pd_service :: string
  pd_assignees :: "string list"
  pd_created :: string

record pd_page =
  pg_more :: bool
  pg_whole :: "int option"

definition incident_statuses :: "unicode \<Rightarrow> string \<Rightarrow> string list" where
  "incident_statuses u s =
     (let t = to_lower u (trim_space s) in
      if t = ''triggered'' then [''triggered'']
      else if t = ''acknowledged'' \<or> t = ''acked'' then [''acknowledged'']
      else if t = ''all'' then []
      else [''triggered'', ''acknowledged''])"

definition incident_rank :: "pd_incident \<Rightarrow> int" where
  "incident_rank i =
     (if pd_status i = ''triggered'' then 2 else 0) + (if map lower_byte (pd_urgency i) = ''high'' then 1 else 0)"

definition newer_than :: "(string \<Rightarrow> gotime option) \<Rightarrow> string \<Rightarrow> string \<Rightarrow> bool" where
  "newer_than rfc a b =
     (case (rfc a, rfc b) of (Some x, Some y) \<Rightarrow> y < x | _ \<Rightarrow> b < a)"

text \<open>The comparison the incidents are sorted with: not a strict weak order when only some times parse, so the
  result of \<open>sort.SliceStable\<close> is a parameter of the comparison.\<close>

definition incident_before :: "(string \<Rightarrow> gotime option) \<Rightarrow> pd_incident \<Rightarrow> pd_incident \<Rightarrow> bool" where
  "incident_before rfc i j =
     (if incident_rank i \<noteq> incident_rank j then incident_rank j < incident_rank i
      else newer_than rfc (pd_created i) (pd_created j))"

definition assignee :: "pd_incident \<Rightarrow> string" where
  "assignee i = (case pd_assignees i of [] \<Rightarrow> [] | a # _ \<Rightarrow> a)"

definition truncation_note :: "nat \<Rightarrow> pd_page \<Rightarrow> string" where
  "truncation_note shown p =
     (if \<not> pg_more p \<and> (case pg_whole p of None \<Rightarrow> True | Some t \<Rightarrow> t \<le> int shown) then []
      else (case pg_whole p of
              Some t \<Rightarrow> ''(showing '' @ show_nat shown @ '' of '' @ show_int t @ ''; more results not fetched)'' @ [newline]
            | None \<Rightarrow> ''(showing '' @ show_nat shown @ ''; more results not fetched)'' @ [newline]))"

definition incident_row :: "pd_incident \<Rightarrow> string list" where
  "incident_row i = [show_int (pd_number i), pd_status i, pd_urgency i, pd_service i, assignee i, pd_title i]"

definition pd_incident_line :: "pd_incident \<Rightarrow> string" where
  "pd_incident_line i =
     ''  #'' @ show_int (pd_number i) @ '' ['' @ pd_status i @ ''/'' @ pd_urgency i @ ''] '' @ pd_service i @ '' '' @ em_dash @ '' '' @
     pd_title i @ '' ('' @ assignee i @ '')'' @ [newline]"

definition format_incidents :: "pd_incident list \<Rightarrow> pd_page \<Rightarrow> string" where
  "format_incidents is p =
     (if is = [] then ''(no matching PagerDuty incidents)''
      else show_nat (length is) @ '' incident(s) (triggered='' @ show_nat (length (filter (\<lambda>i. pd_status i = ''triggered'') is)) @
           '' acknowledged='' @ show_nat (length (filter (\<lambda>i. pd_status i = ''acknowledged'') is)) @ '')'' @ [newline] @
           truncation_note (length is) p @ concat (map pd_incident_line is))"

definition incident_params :: "unicode \<Rightarrow> string \<Rightarrow> int \<Rightarrow> url_values" where
  "incident_params u statuses lmt =
     [(''limit'', [show_int (clamp_or 25 100 lmt)]), (''sort_by'', [''created_at:desc''])] @
     (if incident_statuses u statuses = [] then [] else [(''statuses[]'', incident_statuses u statuses)])"

definition list_incidents ::
    "('w) net \<Rightarrow> unicode \<Rightarrow> (string \<Rightarrow> gotime option) \<Rightarrow> ((pd_incident \<Rightarrow> pd_incident \<Rightarrow> bool) \<Rightarrow> pd_incident list \<Rightarrow> pd_incident list)
     \<Rightarrow> (string \<Rightarrow> (pd_incident list \<times> pd_page) option) \<Rightarrow> ('w) api_client gomap \<Rightarrow> string \<Rightarrow> string \<Rightarrow> int \<Rightarrow> 'w
     \<Rightarrow> (query_error + observation) \<times> 'w" where
  "list_incidents N u rfc sorter dec cs name statuses lmt =
     run_query N ''oncall.list_incidents'' None (pick_pd cs name) ''/incidents'' (incident_params u statuses lmt) dec
       (\<lambda>(rs, p). let is = sorter (incident_before rfc) rs in
          table_view (format_incidents is p) [''#'', ''STATUS'', ''URGENCY'', ''SERVICE'', ''ASSIGNEE'', ''TITLE''] [] (map incident_row is))"

subsection \<open>On call\<close>

record pd_oncall =
  oc_user :: string
  oc_policy :: string
  oc_schedule :: string
  oc_level :: int

definition oncall_order :: "pd_oncall list \<Rightarrow> pd_oncall list" where
  "oncall_order os = sort_key oc_policy (sort_key oc_level os)"

definition parse_oncalls :: "int \<Rightarrow> pd_oncall list \<Rightarrow> pd_oncall list" where
  "parse_oncalls least os = oncall_order (filter (\<lambda>x. \<not> (0 < least \<and> oc_level x < least)) os)"

definition oncall_row :: "pd_oncall \<Rightarrow> string list" where
  "oncall_row x = [oc_user x, oc_policy x, show_int (oc_level x), oc_schedule x]"

definition oncall_line :: "pd_oncall \<Rightarrow> string" where
  "oncall_line x =
     ''  L'' @ show_int (oc_level x) @ '' '' @ oc_user x @ '' '' @ em_dash @ '' '' @ oc_policy x @ '' via '' @
     (if oc_schedule x = [] then ''(direct)'' else oc_schedule x) @ [newline]"

definition format_oncalls :: "pd_oncall list \<Rightarrow> pd_page \<Rightarrow> string" where
  "format_oncalls os p =
     (if os = [] then ''(no one currently on call for the requested scope)''
      else show_nat (length os) @ '' on-call assignment(s)'' @ [newline] @ truncation_note (length os) p @ concat (map oncall_line os))"

definition who_is_oncall ::
    "('w) net \<Rightarrow> (string \<Rightarrow> (pd_oncall list \<times> pd_page) option) \<Rightarrow> ('w) api_client gomap \<Rightarrow> string \<Rightarrow> string \<Rightarrow> int \<Rightarrow> 'w
     \<Rightarrow> (query_error + observation) \<times> 'w" where
  "who_is_oncall N dec cs name policy least =
     run_query N ''oncall.who_is_oncall'' None (pick_pd cs name) ''/oncalls''
       ([(''limit'', [''100''])] @ opt_param ''escalation_policy_ids[]'' policy) dec
       (\<lambda>(rs, p). let os = parse_oncalls least rs in
          table_view (format_oncalls os p) [''USER'', ''ESCALATION_POLICY'', ''LEVEL'', ''SCHEDULE''] [] (map oncall_row os))"

section \<open>Queues\<close>

text \<open>
  The queue tools (\<open>internal/core/tools/queue/client.go\<close>, \<open>rabbitmq.go\<close>, \<open>kafka.go\<close>): the clients of the
  configured endpoints, RabbitMQ queues by backlog and Kafka consumer groups by lag. The answers of the
  Kafka admin library, JSON decoding, quoting and percentages are parameters. The lemmas show that a
  queue or group in trouble is never filtered out and that the counts of the report are complete.
\<close>

subsection \<open>Clients\<close>

record queue_endpoint =
  qe_name :: string
  qe_kind :: string
  qe_url :: string
  qe_user :: string
  qe_pass_env :: string
  qe_brokers :: string
  qe_mechanism :: string
  qe_sasl_user :: string
  qe_tls :: bool

datatype sasl = NoSasl | SaslPlain string string | Sasl256 string string | Sasl512 string string

record kafka_client =
  kf_endpoint :: string
  kf_seeds :: "string list"
  kf_tls :: bool
  kf_sasl :: sasl

record ('w) queue_clients =
  qc_rabbit :: "('w) api_client gomap"
  qc_kafka :: "kafka_client gomap"

datatype queue_skip =
    SkipRabbit string
  | SkipKafka string
  | SkipBrokers string
  | SkipSasl string string
  | SkipMechanism string string
  | SkipNoKind string
  | SkipKind string string
  | SkipApi string api_error

definition split_brokers :: "string \<Rightarrow> string list" where
  "split_brokers s = filter (\<lambda>b. b \<noteq> []) (map trim_space (split_byte (CHR '','') s))"

definition new_kafka_client :: "unicode \<Rightarrow> queue_endpoint \<Rightarrow> string \<Rightarrow> queue_skip + kafka_client" where
  "new_kafka_client u ep password =
     (let seeds = split_brokers (qe_brokers ep); mech = to_lower u (qe_mechanism ep); user = qe_sasl_user ep;
          client = (\<lambda>s. \<lparr>kf_endpoint = qe_name ep, kf_seeds = seeds, kf_tls = qe_tls ep, kf_sasl = s\<rparr>)
      in if seeds = [] then Inl (SkipBrokers (qe_name ep))
         else if mech \<noteq> [] \<and> (user = [] \<or> password = []) then Inl (SkipSasl (qe_name ep) (qe_mechanism ep))
         else if mech = [] then Inr (client NoSasl)
         else if mech = ''plain'' then Inr (client (SaslPlain user password))
         else if mech = ''scram-sha-256'' then Inr (client (Sasl256 user password))
         else if mech = ''scram-sha-512'' then Inr (client (Sasl512 user password))
         else Inl (SkipMechanism (qe_name ep) (qe_mechanism ep)))"

definition build_queue_client ::
    "('w) net \<Rightarrow> unicode \<Rightarrow> queue_endpoint \<Rightarrow> ('w) queue_clients \<times> queue_skip list \<Rightarrow> ('w) queue_clients \<times> queue_skip list" where
  "build_queue_client N u ep acc =
     (case acc of (c, skips) \<Rightarrow>
        let kind = to_lower u (qe_kind ep) in
        if kind = ''rabbitmq''
        then (if qe_name ep = [] \<or> qe_url ep = [] then (c, skips @ [SkipRabbit (qe_name ep)])
              else (case new_api_client N (qe_name ep) (qe_url ep)
                           \<lparr>au_bearer_env = [], au_basic_user = qe_user ep, au_basic_pass_env = qe_pass_env ep, au_token_env = [],
                            au_token_scheme = []\<rparr> of
                      Inl e \<Rightarrow> (c, skips @ [SkipApi (qe_name ep) e])
                    | Inr cl \<Rightarrow> (c\<lparr>qc_rabbit := gm_put (qe_name ep) cl (qc_rabbit c)\<rparr>, skips)))
        else if kind = ''kafka''
        then (if qe_name ep = [] \<or> qe_brokers ep = [] then (c, skips @ [SkipKafka (qe_name ep)])
              else (case new_kafka_client u ep (if qe_pass_env ep = [] then [] else nt_env N (qe_pass_env ep)) of
                      Inl e \<Rightarrow> (c, skips @ [e])
                    | Inr k \<Rightarrow> (c\<lparr>qc_kafka := gm_put (qe_name ep) k (qc_kafka c)\<rparr>, skips)))
        else if kind = [] then (c, skips @ [SkipNoKind (qe_name ep)])
        else (c, skips @ [SkipKind (qe_name ep) (qe_kind ep)]))"

definition build_queue_clients :: "('w) net \<Rightarrow> unicode \<Rightarrow> queue_endpoint list \<Rightarrow> ('w) queue_clients \<times> queue_skip list" where
  "build_queue_clients N u eps = fold (build_queue_client N u) eps (\<lparr>qc_rabbit = [], qc_kafka = []\<rparr>, [])"

definition queue_clients_empty :: "('w) queue_clients \<Rightarrow> bool" where
  "queue_clients_empty c \<longleftrightarrow> qc_rabbit c = [] \<and> qc_kafka c = []"

datatype queue_error =
    NoQueueEndpoint string string
  | QueueEndpointRequired string nat
  | QueueApi api_error
  | QueueBody
  | QueueGroups string
  | QueueLag string

definition pick_queue :: "string \<Rightarrow> 'v gomap \<Rightarrow> string \<Rightarrow> queue_error + 'v" where
  "pick_queue kind m name =
     (if name \<noteq> [] then (case gm_get m name of None \<Rightarrow> Inl (NoQueueEndpoint kind name) | Some c \<Rightarrow> Inr c)
      else (case m of [(k, c)] \<Rightarrow> Inr c | _ \<Rightarrow> Inl (QueueEndpointRequired kind (length m))))"

subsection \<open>Rendering\<close>

definition flag_suffix :: "string \<Rightarrow> string" where
  "flag_suffix f = (if f = [] then [] else '' | '' @ f)"

definition more_line :: "'a list \<Rightarrow> nat \<Rightarrow> string" where
  "more_line xs n = (if n < length xs then three_dots @ ''and '' @ show_nat (length xs - n) @ '' more (raise limit)'' @ [newline] else [])"

subsection \<open>RabbitMQ\<close>

record rabbit_queue =
  rq_name :: string
  rq_vhost :: string
  rq_messages :: int
  rq_ready :: int
  rq_unacked :: int
  rq_consumers :: int
  rq_util :: "real option"

definition queue_flag :: "rabbit_queue \<Rightarrow> string" where
  "queue_flag q =
     (if 0 < rq_ready q \<and> rq_consumers q = 0 then ''NO CONSUMER''
      else if 0 < rq_ready q \<and> 0 < rq_consumers q \<and> (case rq_util q of None \<Rightarrow> True | Some x \<Rightarrow> x < 1 / 2) then ''FALLING BEHIND''
      else [])"

definition kept_queues :: "int \<Rightarrow> rabbit_queue list \<Rightarrow> rabbit_queue list" where
  "kept_queues least qs = filter (\<lambda>q. least \<le> rq_messages q \<or> queue_flag q \<noteq> []) qs"

definition queue_order :: "rabbit_queue list \<Rightarrow> rabbit_queue list" where
  "queue_order qs = sort_key (\<lambda>q. - rq_messages q) (sort_key (\<lambda>q. - rq_unacked q) qs)"

definition with_flag :: "('a \<Rightarrow> string) \<Rightarrow> string \<Rightarrow> 'a list \<Rightarrow> nat" where
  "with_flag f s xs = length (filter (\<lambda>x. f x = s) xs)"

definition queue_line :: "(real \<Rightarrow> string) \<Rightarrow> rabbit_queue \<Rightarrow> string" where
  "queue_line pct q =
     rq_vhost q @ ''/'' @ rq_name q @ '' | ready='' @ show_int (rq_ready q) @ '' unacked='' @ show_int (rq_unacked q) @
     '' consumers='' @ show_int (rq_consumers q) @ '' util='' @ (case rq_util q of None \<Rightarrow> em_dash | Some x \<Rightarrow> pct (x * 100) @ ''%'') @
     flag_suffix (queue_flag q) @ [newline]"

definition render_rabbit :: "gofmt \<Rightarrow> (real \<Rightarrow> string) \<Rightarrow> string \<Rightarrow> rabbit_queue list \<Rightarrow> int \<Rightarrow> nat \<Rightarrow> string" where
  "render_rabbit F pct endpoint qs least n =
     (let kept = queue_order (kept_queues least qs);
          stuck = with_flag queue_flag ''NO CONSUMER'' kept; behind = with_flag queue_flag ''FALLING BEHIND'' kept
      in trim_newlines
        (show_nat (length kept) @ '' queue(s) on '' @ fmt_q F endpoint @ '' (ranked by backlog)'' @
         (if 0 < least then '', min_messages='' @ show_int least @ '' (flagged queues always shown)'' else []) @ [newline] @
         (if 0 < stuck \<or> 0 < behind
          then warning_sign @ '' '' @ show_nat stuck @ '' queue(s) backlogged with no consumer; '' @ show_nat behind @
               '' queue(s) with consumers falling behind'' @ [newline]
          else []) @
         concat (map (queue_line pct) (take n kept)) @ more_line kept n))"

definition rabbit_columns :: string where
  "rabbit_columns = ''name,vhost,state,messages,messages_ready,messages_unacknowledged,consumers,consumer_utilisation''"

record rabbit_args =
  ra_endpoint_name :: string
  ra_vhost :: string
  ra_least :: int
  ra_limit :: int

definition limit_or_20 :: "int \<Rightarrow> nat" where
  "limit_or_20 n = nat (if n \<le> 0 then 20 else n)"

definition rabbitmq_queues ::
    "('w) net \<Rightarrow> gofmt \<Rightarrow> (real \<Rightarrow> string) \<Rightarrow> (string \<Rightarrow> rabbit_queue list option) \<Rightarrow> ('w) api_client gomap \<Rightarrow> rabbit_args \<Rightarrow> 'w
     \<Rightarrow> (queue_error + observation) \<times> 'w" where
  "rabbitmq_queues N F pct dec cs a w =
     (case pick_queue ''rabbitmq'' cs (ra_endpoint_name a) of
        Inl e \<Rightarrow> (Inl e, w)
      | Inr c \<Rightarrow>
          (case api_raw_get N c (''/api/queues'' @ (if ra_vhost a = [] then [] else ''/'' @ path_escape (ra_vhost a)))
                  [(''columns'', [rabbit_columns])] w of
             (Inl e, w') \<Rightarrow> (Inl (QueueApi e), w')
           | (Inr body, w') \<Rightarrow>
               (case dec body of
                  None \<Rightarrow> (Inl QueueBody, w')
                | Some qs \<Rightarrow> (Inr (text_view (render_rabbit F pct (ac_name c) qs (ra_least a) (limit_or_20 (ra_limit a)))), w'))))"

subsection \<open>Kafka\<close>

text \<open>A group as the admin library describes it: an error, or the lag in all and by topic.\<close>

record lag_row =
  lr_group :: string
  lr_state :: string
  lr_members :: nat
  lr_lag :: "string + (int \<times> (string \<times> int) list)"

definition lag_total :: "lag_row \<Rightarrow> int" where
  "lag_total r = (case lr_lag r of Inl _ \<Rightarrow> 0 | Inr (n, _) \<Rightarrow> n)"

definition lag_failed :: "lag_row \<Rightarrow> bool" where
  "lag_failed r = (case lr_lag r of Inl _ \<Rightarrow> True | Inr _ \<Rightarrow> False)"

definition row_flag :: "lag_row \<Rightarrow> string" where
  "row_flag r = (if \<not> lag_failed r \<and> lr_members r = 0 \<and> 0 < lag_total r then ''NO ACTIVE CONSUMER'' else [])"

definition kept_groups :: "int \<Rightarrow> lag_row list \<Rightarrow> lag_row list" where
  "kept_groups least rs = filter (\<lambda>r. lag_failed r \<or> least \<le> lag_total r \<or> row_flag r \<noteq> []) rs"

definition group_order :: "lag_row list \<Rightarrow> lag_row list" where
  "group_order rs = sort_key (\<lambda>r. \<not> lag_failed r) (sort_key (\<lambda>r. - lag_total r) rs)"

definition top_topics :: "(string \<times> int) list \<Rightarrow> string" where
  "top_topics ts =
     (if ts = [] then em_dash
      else join (map (\<lambda>(t, n). t @ ''='' @ show_int n) (take 3 (sort_key (\<lambda>t. - snd t) ts))) '' '')"

definition lag_line :: "lag_row \<Rightarrow> string" where
  "lag_line r =
     (case lr_lag r of
        Inl e \<Rightarrow> lr_group r @ '' | state='' @ lr_state r @ '' | lag unavailable: '' @ e @ [newline]
      | Inr (n, ts) \<Rightarrow>
          lr_group r @ '' | state='' @ lr_state r @ '' | members='' @ show_nat (lr_members r) @ '' | lag='' @ show_int n @
          flag_suffix (row_flag r) @ '' | top: '' @ top_topics ts @ [newline])"

definition render_kafka :: "gofmt \<Rightarrow> string \<Rightarrow> lag_row list \<Rightarrow> int \<Rightarrow> nat \<Rightarrow> string" where
  "render_kafka F endpoint rs least0 n =
     (let least = max 0 least0; kept = group_order (kept_groups least rs); orphaned = with_flag row_flag ''NO ACTIVE CONSUMER'' kept in
      trim_newlines
        (show_nat (length kept) @ '' consumer group(s) on '' @ fmt_q F endpoint @ '' (ranked by lag)'' @
         (if 0 < least then '', min_lag='' @ show_int least @ '' (orphaned groups always shown)'' else []) @ [newline] @
         (if 0 < orphaned then warning_sign @ '' '' @ show_nat orphaned @ '' group(s) with lag but no active consumer'' @ [newline] else []) @
         concat (map lag_line (take n kept)) @ more_line kept n))"

record ('w) kafka_admin =
  ka_groups :: "kafka_client \<Rightarrow> 'w \<Rightarrow> (string + string list) \<times> 'w"
  ka_lag :: "kafka_client \<Rightarrow> string list \<Rightarrow> 'w \<Rightarrow> (string + lag_row list) \<times> 'w"

record kafka_args =
  kf_endpoint_name :: string
  kf_group :: string
  kf_least :: int
  kf_limit :: int

definition kafka_lag_of ::
    "('w) kafka_admin \<Rightarrow> gofmt \<Rightarrow> kafka_client \<Rightarrow> kafka_args \<Rightarrow> string list \<Rightarrow> 'w \<Rightarrow> (queue_error + observation) \<times> 'w" where
  "kafka_lag_of A F c a groups w =
     (if groups = [] then (Inr (text_view (''no consumer groups found on '' @ fmt_q F (kf_endpoint c))), w)
      else (case ka_lag A c groups w of
              (Inl e, w') \<Rightarrow> (Inl (QueueLag e), w')
            | (Inr rs, w') \<Rightarrow> (Inr (text_view (render_kafka F (kf_endpoint c) rs (kf_least a) (limit_or_20 (kf_limit a)))), w')))"

definition kafka_consumer_lag ::
    "('w) kafka_admin \<Rightarrow> gofmt \<Rightarrow> kafka_client gomap \<Rightarrow> kafka_args \<Rightarrow> 'w \<Rightarrow> (queue_error + observation) \<times> 'w" where
  "kafka_consumer_lag A F cs a w =
     (case pick_queue ''kafka'' cs (kf_endpoint_name a) of
        Inl e \<Rightarrow> (Inl e, w)
      | Inr c \<Rightarrow>
          if kf_group a \<noteq> [] then kafka_lag_of A F c a [kf_group a] w
          else (case ka_groups A c w of
                  (Inl e, w') \<Rightarrow> (Inl (QueueGroups e), w')
                | (Inr gs, w') \<Rightarrow> kafka_lag_of A F c a gs w'))"

subsection \<open>Facts\<close>

lemma with_flag_order:
  "with_flag f s (queue_order qs) = with_flag f s qs" "with_flag g s (group_order rs) = with_flag g s rs"
  by (simp_all add: with_flag_def queue_order_def group_order_def filter_sort)

text \<open>The threshold drops no flagged queue, so the counts are those of all queues.\<close>

lemma flagged_counts:
  assumes "s \<noteq> []"
  shows "with_flag queue_flag s (queue_order (kept_queues least qs)) = with_flag queue_flag s qs"
    and "with_flag row_flag s (group_order (kept_groups least rs)) = with_flag row_flag s rs"
proof -
  show "with_flag queue_flag s (queue_order (kept_queues least qs)) = with_flag queue_flag s qs"
    unfolding with_flag_order using assms by (auto simp: with_flag_def kept_queues_def intro!: arg_cong [of _ _ length] filter_cong)
  show "with_flag row_flag s (group_order (kept_groups least rs)) = with_flag row_flag s rs"
    unfolding with_flag_order using assms by (auto simp: with_flag_def kept_groups_def intro!: arg_cong [of _ _ length] filter_cong)
qed

text \<open>Groups whose lag is unknown come first.\<close>

lemma failed_first: "sorted (map (\<lambda>r. \<not> lag_failed r) (group_order rs))"
  by (simp add: group_order_def)

end
