(* ===== verification/Symptom_Sources.thy ===== *)
theory Symptom_Sources
  imports Trace_Tools Prom_Budget Cloud_Sources Perm_Mask
begin

text \<open>
  The events the configured backends contribute to a workload's timeline
  (\<open>internal/core/tools/correlate/log_source.go\<close>, \<open>trace_source.go\<close>, \<open>metric_source.go\<close>, \<open>budget_source.go\<close>,
  \<open>argo_source.go\<close>) and the searches of the trace clients they use. The clock, the decoders, RFC 3339 and
  the rendering of floats are parameters; decoded answers are tuples of the fields the code reads.
\<close>

section \<open>Environment\<close>

record source_env =
  se_clock :: gotime
  se_fmt :: gofmt
  se_unicode :: unicode
  se_rfc :: "gotime \<Rightarrow> string"
  se_rfc_parse :: "string \<Rightarrow> gotime option"
  se_int :: "string \<Rightarrow> int option"
  se_float4 :: "go_float \<Rightarrow> string"
  se_float1 :: "real \<Rightarrow> string"
  se_odd :: "go_float \<Rightarrow> gotime"

datatype source_error =
    SourcePick pick_error
  | SourceApi string api_error
  | SourceDecode string
  | SourceProm prom_error

abbreviation epoch_ns :: int where "epoch_ns \<equiv> 62135596800000000000"

text \<open>One read through a client, decoded.\<close>

definition read_decoded ::
    "('w) net \<Rightarrow> string \<Rightarrow> ('w) api_client \<Rightarrow> string \<Rightarrow> url_values \<Rightarrow> (string \<Rightarrow> 'p option) \<Rightarrow> 'w \<Rightarrow> (source_error + 'p) \<times> 'w" where
  "read_decoded N what c path params dec w =
     (case api_raw_get N c path params w of
        (Inl e, w') \<Rightarrow> (Inl (SourceApi what e), w')
      | (Inr body, w') \<Rightarrow> (case dec body of None \<Rightarrow> (Inl (SourceDecode what), w') | Some p \<Rightarrow> (Inr p, w')))"

text \<open>With the default endpoint of a backend, or the error of having none.\<close>

definition with_default ::
    "'c gomap \<Rightarrow> string \<Rightarrow> ('c \<Rightarrow> 'w \<Rightarrow> (source_error + 'p) \<times> 'w) \<Rightarrow> 'w \<Rightarrow> (source_error + 'p) \<times> 'w" where
  "with_default cs kind f w =
     (case pick_default_endpoint cs ''correlate'' kind of Inl e \<Rightarrow> (Inl (SourcePick e), w) | Inr (_, c) \<Rightarrow> f c w)"

text \<open>Both parts in turn; the first error is the answer and drops what the first part found.\<close>

definition in_turn ::
    "bool \<Rightarrow> ('w \<Rightarrow> (source_error + change_event list) \<times> 'w) \<Rightarrow> bool \<Rightarrow> ('w \<Rightarrow> (source_error + change_event list) \<times> 'w)
     \<Rightarrow> 'w \<Rightarrow> (source_error + change_event list) \<times> 'w" where
  "in_turn on1 f1 on2 f2 w =
     (case (if on1 then f1 w else (Inr [], w)) of
        (Inl e, w1) \<Rightarrow> (Inl e, w1)
      | (Inr es1, w1) \<Rightarrow>
          (case (if on2 then f2 w1 else (Inr [], w1)) of
             (Inl e, w2) \<Rightarrow> (Inl e, w2)
           | (Inr es2, w2) \<Rightarrow> (Inr (es1 @ es2), w2)))"

definition symptom :: "gotime \<Rightarrow> string \<Rightarrow> string \<Rightarrow> string \<Rightarrow> string \<Rightarrow> change_event" where
  "symptom t kind source workload summary =
     \<lparr>cv_time = t, cv_kind = kind, cv_target = workload, cv_summary = summary, cv_before = [], cv_after = [], cv_source = source\<rparr>"

section \<open>Logs\<close>

record ('w) log_clients =
  lc_loki :: "('w) api_client gomap"
  lc_es :: "('w) api_client gomap"

text \<open>The source exists too with only a Docker hub, and then has nothing to say.\<close>

definition new_log_source :: "('w) log_clients \<Rightarrow> bool \<Rightarrow> ('w) log_clients option" where
  "new_log_source cs has_docker = (if lc_loki cs = [] \<and> lc_es cs = [] \<and> \<not> has_docker then None else Some cs)"

definition is_error_line :: "unicode \<Rightarrow> string \<Rightarrow> bool" where
  "is_error_line u line \<longleftrightarrow>
     trim_space line \<noteq> [] \<and>
     (let l = to_lower u line in contains l ''error'' \<or> contains l ''fatal'' \<or> contains l ''panic'' \<or> contains l ''level=error'')"

text \<open>A line whose timestamp is no number is dropped.\<close>

definition timestamped :: "(string \<Rightarrow> int option) \<Rightarrow> (string \<times> string) list list \<Rightarrow> (gotime \<times> string) list" where
  "timestamped int_of streams =
     List.map_filter (\<lambda>(ts, line). map_option (\<lambda>ns. (epoch_ns + ns, line)) (int_of ts)) (concat streams)"

definition error_scan :: "unicode \<Rightarrow> (gotime \<times> string) list \<Rightarrow> gotime \<times> nat" where
  "error_scan u ls =
     foldl (\<lambda>(earliest, n) (t, line).
        if \<not> is_error_line u line then (earliest, n)
        else (if earliest = zero_time \<or> t < earliest then t else earliest, Suc n)) (zero_time, 0) ls"

definition log_error_events :: "unicode \<Rightarrow> (gotime \<times> string) list \<Rightarrow> string \<Rightarrow> change_event list" where
  "log_error_events u ls workload =
     (case error_scan u ls of (earliest, n) \<Rightarrow>
        if n = 0 then []
        else [symptom earliest ''log_error'' ''log'' workload (show_nat n @ '' error line(s) in window'')])"

definition loki_selector :: "gofmt \<Rightarrow> change_query \<Rightarrow> string" where
  "loki_selector F q =
     ''{app='' @ fmt_q F (cq_workload q) @
     (if cq_namespace q \<noteq> [] then '', namespace='' @ fmt_q F (cq_namespace q) else []) @ ''}'' @
     '' |~ \"(?i)(error|fatal|panic)\"''"

definition second_nanos :: "gotime \<Rightarrow> string" where
  "second_nanos t = show_int (wrap64 (unix_seconds t * 1000000000))"

definition loki_events ::
    "('w) net \<Rightarrow> source_env \<Rightarrow> (string \<Rightarrow> (string \<times> string) list list option) \<Rightarrow> ('w) api_client gomap \<Rightarrow> change_query
     \<Rightarrow> gotime \<Rightarrow> gotime \<Rightarrow> 'w \<Rightarrow> (source_error + change_event list) \<times> 'w" where
  "loki_events N E dec cs q start end_t =
     with_default cs ''loki endpoint'' (\<lambda>c w.
       (case read_decoded N ''log_source: loki'' c ''/loki/api/v1/query_range''
               [(''query'', [loki_selector (se_fmt E) q]), (''start'', [second_nanos start]), (''end'', [second_nanos end_t]),
                (''limit'', [''5000''])] dec w of
          (r, w') \<Rightarrow> (map_sum id (\<lambda>streams. log_error_events (se_unicode E) (timestamped (se_int E) streams) (cq_workload q)) r, w')))"

definition es_error_query :: "source_env \<Rightarrow> change_query \<Rightarrow> gotime \<Rightarrow> gotime \<Rightarrow> string" where
  "es_error_query E q start end_t =
     join ([''@timestamp:['' @ se_rfc E start @ '' TO '' @ se_rfc E end_t @ '']'',
            ''(level:ERROR OR level:FATAL OR level:error OR level:fatal)'', fmt_q (se_fmt E) (cq_workload q)] @
           (if cq_namespace q \<noteq> [] then [''kubernetes.namespace_name:'' @ fmt_q (se_fmt E) (cq_namespace q)] else [])) '' AND ''"

text \<open>The text of each hit's timestamp field, when it has one; one that does not parse is dropped.\<close>

definition es_times :: "source_env \<Rightarrow> string option list \<Rightarrow> gotime list" where
  "es_times E hits = List.map_filter (\<lambda>h. Option.bind h (se_rfc_parse E)) hits"

definition es_log_error_events :: "gotime list \<Rightarrow> string \<Rightarrow> change_event list" where
  "es_log_error_events ts workload =
     (case ts of
        [] \<Rightarrow> []
      | t # rest \<Rightarrow>
          [symptom (foldl (\<lambda>e x. if x < e then x else e) t rest) ''log_error'' ''log'' workload
             (show_nat (length ts) @ '' error log(s) in window'')])"

definition es_events ::
    "('w) net \<Rightarrow> source_env \<Rightarrow> (string \<Rightarrow> string option list option) \<Rightarrow> ('w) api_client gomap \<Rightarrow> change_query
     \<Rightarrow> gotime \<Rightarrow> gotime \<Rightarrow> 'w \<Rightarrow> (source_error + change_event list) \<times> 'w" where
  "es_events N E dec cs q start end_t =
     with_default cs ''elasticsearch endpoint'' (\<lambda>c w.
       (case read_decoded N ''log_source: es'' c ''/_all/_search''
               [(''q'', [es_error_query E q start end_t]), (''size'', [''5000'']), (''sort'', [''@timestamp:asc'']),
                (''_source'', [''@timestamp''])] dec w of
          (r, w') \<Rightarrow> (map_sum id (\<lambda>hits. es_log_error_events (es_times E hits) (cq_workload q)) r, w')))"

definition log_changes ::
    "('w) net \<Rightarrow> source_env \<Rightarrow> (string \<Rightarrow> (string \<times> string) list list option) \<Rightarrow> (string \<Rightarrow> string option list option) \<Rightarrow> ('w) log_clients
     \<Rightarrow> change_query \<Rightarrow> 'w \<Rightarrow> (source_error + change_event list) \<times> 'w" where
  "log_changes N E dec_loki dec_es cs q =
     (let since = (if cq_since q = 0 then hour_ns else cq_since q); start = se_clock E - since in
      in_turn (lc_loki cs \<noteq> []) (loki_events N E dec_loki (lc_loki cs) q start (se_clock E))
              (lc_es cs \<noteq> []) (es_events N E dec_es (lc_es cs) q start (se_clock E)))"

section \<open>Traces\<close>

record ('w) trace_clients =
  tc_jaeger :: "('w) api_client gomap"
  tc_tempo :: "('w) api_client gomap"

definition new_trace_symptom_source :: "('w) trace_clients \<Rightarrow> ('w) trace_clients option" where
  "new_trace_symptom_source cs = (if tc_jaeger cs = [] \<and> tc_tempo cs = [] then None else Some cs)"

record trace_summary =
  tm_start :: gotime
  tm_duration :: int
  tm_error :: bool
  tm_label :: string

text \<open>The last \<open>error\<close> tag with a boolean or text decides.\<close>

definition error_tag :: "(string \<times> json) list \<Rightarrow> bool" where
  "error_tag tags =
     foldl (\<lambda>b (k, v). if k = ''error'' then (case v of JBool x \<Rightarrow> x | JStr s \<Rightarrow> s = ''true'' | _ \<Rightarrow> b) else b) False tags"

definition jaeger_spans :: "(string \<times> int \<times> int \<times> (string \<times> json) list) list list \<Rightarrow> trace_summary list" where
  "jaeger_spans ts =
     map (\<lambda>(what, start, d, tags).
        \<lparr>tm_start = epoch_ns + start * 1000, tm_duration = wrap64 (d * 1000), tm_error = error_tag tags, tm_label = what\<rparr>) (concat ts)"

definition unix_micro :: "gotime \<Rightarrow> string" where
  "unix_micro t = show_int (wrap64 ((t - epoch_ns) div 1000))"

definition search_error_spans ::
    "('w) net \<Rightarrow> (string \<Rightarrow> (string \<times> int \<times> int \<times> (string \<times> json) list) list list option) \<Rightarrow> ('w) api_client
     \<Rightarrow> string \<Rightarrow> string \<Rightarrow> gotime \<Rightarrow> gotime \<Rightarrow> int \<Rightarrow> 'w \<Rightarrow> (source_error + trace_summary list) \<times> 'w" where
  "search_error_spans N dec c service tags start end_t n w =
     (case read_decoded N ''trace.jaeger search spans'' c ''/api/traces''
             ([(''service'', [service]), (''start'', [unix_micro start]), (''end'', [unix_micro end_t]),
               (''limit'', [show_int (if n \<le> 0 then 20 else n)])] @ opt_param ''tags'' tags) dec w of
        (r, w') \<Rightarrow> (map_sum id jaeger_spans r, w'))"

text \<open>A Tempo summary without a label of its own is called a trace.\<close>

definition tempo_label :: "string \<Rightarrow> string \<Rightarrow> string" where
  "tempo_label service name = (if name \<noteq> [] then name else if service \<noteq> [] then service else ''trace'')"

definition tempo_summaries :: "(string \<Rightarrow> int option) \<Rightarrow> (string \<times> string \<times> string \<times> int) list \<Rightarrow> trace_summary list" where
  "tempo_summaries int_of ts =
     List.map_filter (\<lambda>(service, name, start, ms).
        map_option (\<lambda>ns. \<lparr>tm_start = epoch_ns + ns, tm_duration = wrap64 (ms * 1000000), tm_error = False, tm_label = tempo_label service name\<rparr>)
          (int_of start)) ts"

definition search_traces ::
    "('w) net \<Rightarrow> source_env \<Rightarrow> (string \<Rightarrow> (string \<times> string \<times> string \<times> int) list option) \<Rightarrow> ('w) api_client
     \<Rightarrow> string \<Rightarrow> gotime \<Rightarrow> gotime \<Rightarrow> int \<Rightarrow> 'w \<Rightarrow> (source_error + trace_summary list) \<times> 'w" where
  "search_traces N E dec c traceql start end_t n w =
     (case read_decoded N ''trace.tempo search'' c ''/api/search''
             [(''q'', [traceql]), (''start'', [show_int (unix_seconds start)]), (''end'', [show_int (unix_seconds end_t)]),
              (''limit'', [show_int (if n \<le> 0 then 20 else n)])] dec w of
        (r, w') \<Rightarrow> (map_sum id (tempo_summaries (se_int E)) r, w'))"

definition slow_limit :: int where
  "slow_limit = 1000000000"

definition millis_of :: "int \<Rightarrow> string" where
  "millis_of d = show_int (if 0 \<le> d then d div 1000000 else - (- d div 1000000))"

definition earliest_of :: "trace_summary list \<Rightarrow> (gotime \<times> trace_summary) option" where
  "earliest_of ts = foldl (\<lambda>b t. earlier b (tm_start t) t) None ts"

definition failed_event :: "string \<Rightarrow> string \<Rightarrow> nat \<Rightarrow> trace_summary \<Rightarrow> change_event" where
  "failed_event what workload n t =
     symptom (tm_start t) ''trace_error'' ''trace'' workload
       (tm_label t @ '' failed ('' @ millis_of (tm_duration t) @ ''ms); '' @ show_nat n @ '' error '' @ what @ ''(s) in window'')"

definition slow_event :: "string \<Rightarrow> trace_summary \<Rightarrow> change_event" where
  "slow_event workload t =
     symptom (tm_start t) ''trace_slow'' ''trace'' workload
       (tm_label t @ '' slow ('' @ millis_of (tm_duration t) @ ''ms > '' @ millis_of slow_limit @ ''ms threshold)'')"

definition span_symptoms :: "trace_summary list \<Rightarrow> string \<Rightarrow> change_event list" where
  "span_symptoms ts workload =
     (let bad = filter tm_error ts; slow = filter (\<lambda>t. \<not> tm_error t \<and> slow_limit < tm_duration t) ts in
      (case earliest_of bad of None \<Rightarrow> [] | Some (_, t) \<Rightarrow> [failed_event ''span'' workload (length bad) t]) @
      (case earliest_of slow of None \<Rightarrow> [] | Some (_, t) \<Rightarrow> [slow_event workload t]))"

definition tempo_symptoms :: "trace_summary list \<Rightarrow> trace_summary list \<Rightarrow> string \<Rightarrow> change_event list" where
  "tempo_symptoms bad slow workload =
     (case earliest_of bad of None \<Rightarrow> [] | Some (_, t) \<Rightarrow> [failed_event ''trace'' workload (length bad) t]) @
     (case earliest_of slow of None \<Rightarrow> [] | Some (_, t) \<Rightarrow> [slow_event workload t])"

definition tempo_traceql :: "gofmt \<Rightarrow> change_query \<Rightarrow> string \<Rightarrow> string" where
  "tempo_traceql F q extra =
     ''{ '' @ join ([''resource.service.name='' @ fmt_q F (cq_workload q)] @
        (if cq_namespace q \<noteq> [] then [''resource.k8s.namespace.name='' @ fmt_q F (cq_namespace q)] else []) @
        (if extra \<noteq> [] then [extra] else [])) '' && '' @ '' }''"

definition jaeger_events ::
    "('w) net \<Rightarrow> (string \<Rightarrow> (string \<times> int \<times> int \<times> (string \<times> json) list) list list option) \<Rightarrow> ('w) api_client gomap \<Rightarrow> change_query
     \<Rightarrow> gotime \<Rightarrow> gotime \<Rightarrow> 'w \<Rightarrow> (source_error + change_event list) \<times> 'w" where
  "jaeger_events N dec cs q start end_t =
     with_default cs ''jaeger endpoint'' (\<lambda>c w.
       (case search_error_spans N dec c (cq_workload q) ''{\"error\":\"true\"}'' start end_t 100 w of
          (r, w') \<Rightarrow> (map_sum id (\<lambda>ts. span_symptoms ts (cq_workload q)) r, w')))"

definition tempo_events ::
    "('w) net \<Rightarrow> source_env \<Rightarrow> (string \<Rightarrow> (string \<times> string \<times> string \<times> int) list option) \<Rightarrow> ('w) api_client gomap \<Rightarrow> change_query
     \<Rightarrow> gotime \<Rightarrow> gotime \<Rightarrow> 'w \<Rightarrow> (source_error + change_event list) \<times> 'w" where
  "tempo_events N E dec cs q start end_t =
     with_default cs ''tempo endpoint'' (\<lambda>c w.
       (case search_traces N E dec c (tempo_traceql (se_fmt E) q ''status = error'') start end_t 100 w of
          (Inl e, w1) \<Rightarrow> (Inl e, w1)
        | (Inr bad, w1) \<Rightarrow>
            (case search_traces N E dec c
                    (tempo_traceql (se_fmt E) q (''duration > '' @ millis_of slow_limit @ ''ms && status != error'')) start end_t 100 w1 of
               (r, w2) \<Rightarrow> (map_sum id (\<lambda>slow. tempo_symptoms bad slow (cq_workload q)) r, w2))))"

definition trace_symptom_changes ::
    "('w) net \<Rightarrow> source_env \<Rightarrow> (string \<Rightarrow> (string \<times> int \<times> int \<times> (string \<times> json) list) list list option)
     \<Rightarrow> (string \<Rightarrow> (string \<times> string \<times> string \<times> int) list option) \<Rightarrow> ('w) trace_clients
     \<Rightarrow> change_query \<Rightarrow> 'w \<Rightarrow> (source_error + change_event list) \<times> 'w" where
  "trace_symptom_changes N E dec_jaeger dec_tempo cs q =
     (let window = (if cq_since q \<le> 0 then hour_ns else cq_since q); start = se_clock E - window in
      in_turn (tc_jaeger cs \<noteq> []) (jaeger_events N dec_jaeger (tc_jaeger cs) q start (se_clock E))
              (tc_tempo cs \<noteq> []) (tempo_events N E dec_tempo (tc_tempo cs) q start (se_clock E)))"

text \<open>
  The sources over Prometheus and Argo CD (\<open>internal/core/tools/correlate/metric_source.go\<close>,
  \<open>budget_source.go\<close>, \<open>argo_source.go\<close>): the first breach of a threshold, a fast burn of the error budget at
  the time of asking, and the deployments of an application.
\<close>

section \<open>Breach of a threshold\<close>

record ('w) metric_source =
  ms_clients :: "('w) prom_client gomap"
  ms_query :: string
  ms_threshold :: real

definition new_metric_source :: "('w) prom_client gomap \<Rightarrow> string \<Rightarrow> real \<Rightarrow> ('w) metric_source option" where
  "new_metric_source cs q th =
     (if q = [] \<or> cs = [] then None else Some \<lparr>ms_clients = cs, ms_query = q, ms_threshold = th\<rparr>)"

text \<open>Whole seconds and the fraction in nanoseconds; Go leaves open what a timestamp that is no number becomes.\<close>

definition sample_time :: "source_env \<Rightarrow> go_float \<Rightarrow> gotime" where
  "sample_time E x =
     (case x of Fin s \<Rightarrow> epoch_time (trunc s) + trunc ((s - real_of_int (trunc s)) * 1000000000) | _ \<Rightarrow> se_odd E x)"

definition peak_of :: "go_float option \<Rightarrow> go_float \<Rightarrow> go_float option" where
  "peak_of p v = (case p of None \<Rightarrow> Some v | Some m \<Rightarrow> if flt_less m v then Some v else p)"

definition breach_of :: "source_env \<Rightarrow> real \<Rightarrow> (gotime \<times> go_float) option \<Rightarrow> go_float \<times> go_float \<Rightarrow> (gotime \<times> go_float) option" where
  "breach_of E th b p = (if flt_less (Fin th) (snd p) then earlier b (sample_time E (fst p)) (snd p) else b)"

definition metric_breach_events :: "source_env \<Rightarrow> prom_result \<Rightarrow> real \<Rightarrow> string \<Rightarrow> change_event list" where
  "metric_breach_events E r th q =
     (let ps = concat (map se_values (pr_matrix r)) in
      case foldl (breach_of E th) None ps of
        None \<Rightarrow> []
      | Some (t, v) \<Rightarrow>
          (let peak = (case foldl peak_of None (map snd ps) of None \<Rightarrow> Fin 0 | Some p \<Rightarrow> p) in
           [(symptom t ''metric_breach'' ''metric'' q
              (''metric exceeded threshold '' @ se_float4 E (Fin th) @ '' (breach value '' @ se_float4 E v @ '', peak '' @ se_float4 E peak @ '')''))
              \<lparr>cv_after := se_float4 E v\<rparr>]))"

definition metric_step :: "int \<Rightarrow> int" where
  "metric_step window = max 15000000000 (window div 200)"

definition metric_changes ::
    "('w) net \<Rightarrow> source_env \<Rightarrow> prom_decoders \<Rightarrow> ('w) metric_source \<Rightarrow> change_query \<Rightarrow> 'w \<Rightarrow> (source_error + change_event list) \<times> 'w" where
  "metric_changes N E D m q =
     with_default (ms_clients m) ''prometheus endpoint'' (\<lambda>c w.
       (let window = (if cq_since q \<le> 0 then hour_ns else cq_since q) in
        case prom_query_range N D c (ms_query m) (se_clock E - window) (se_clock E) (metric_step window) w of
          (Inl e, w') \<Rightarrow> (Inl (SourceProm e), w')
        | (Inr r, w') \<Rightarrow> (Inr (metric_breach_events E r (ms_threshold m) (ms_query m)), w')))"

section \<open>Fast burn\<close>

record ('w) burn_source =
  bs_clients :: "('w) prom_client gomap"
  bs_query :: string
  bs_target :: real

definition new_burn_source :: "('w) prom_client gomap \<Rightarrow> string \<Rightarrow> real \<Rightarrow> ('w) burn_source option" where
  "new_burn_source cs q target =
     (if q = [] \<or> target \<le> 0 \<or> 1 \<le> target \<or> cs = [] then None
      else Some \<lparr>bs_clients = cs, bs_query = q, bs_target = target\<rparr>)"

definition fast_burn :: real where
  "fast_burn = 144 / 10"

text \<open>A scalar, or a vector of one sample, when finite.\<close>

definition instant_scalar :: "prom_result \<Rightarrow> real option" where
  "instant_scalar r =
     (case pr_scalar r of
        Some s \<Rightarrow> fin_value (ps_value s)
      | None \<Rightarrow> (case pr_vector r of [s] \<Rightarrow> fin_value (ps_value s) | _ \<Rightarrow> None))"

definition burn_query ::
    "('w) net \<Rightarrow> source_env \<Rightarrow> prom_decoders \<Rightarrow> ('w) prom_client \<Rightarrow> ('w) burn_source \<Rightarrow> string \<Rightarrow> 'w
     \<Rightarrow> (source_error + real option) \<times> 'w" where
  "burn_query N E D c b window w =
     (case prom_query N D c (ratio_query (bs_query b) window) (se_clock E) w of
        (Inl e, w') \<Rightarrow> (Inl (SourceProm e), w')
      | (Inr r, w') \<Rightarrow> (Inr (map_option (\<lambda>v. v / (1 - bs_target b)) (instant_scalar r)), w'))"

definition burn_event :: "source_env \<Rightarrow> string \<Rightarrow> real \<Rightarrow> real \<Rightarrow> change_event" where
  "burn_event E q short long =
     (symptom (se_clock E) ''budget_burn'' ''slo'' q
        (''error budget burning fast (burn 5m='' @ se_float1 E short @ times_sign @ '' 1h='' @ se_float1 E long @ times_sign @
         '', threshold '' @ se_float1 E fast_burn @ times_sign @ '')''))
        \<lparr>cv_after := se_float1 E long @ times_sign\<rparr>"

definition burn_changes ::
    "('w) net \<Rightarrow> source_env \<Rightarrow> prom_decoders \<Rightarrow> ('w) burn_source \<Rightarrow> change_query \<Rightarrow> 'w \<Rightarrow> (source_error + change_event list) \<times> 'w" where
  "burn_changes N E D b q =
     with_default (bs_clients b) ''prometheus endpoint'' (\<lambda>c w.
       (case burn_query N E D c b ''5m'' w of
          (Inl e, w1) \<Rightarrow> (Inl e, w1)
        | (Inr None, w1) \<Rightarrow> (Inr [], w1)
        | (Inr (Some short), w1) \<Rightarrow>
            if short < fast_burn then (Inr [], w1)
            else (case burn_query N E D c b ''1h'' w1 of
                    (Inl e, w2) \<Rightarrow> (Inl e, w2)
                  | (Inr None, w2) \<Rightarrow> (Inr [], w2)
                  | (Inr (Some long), w2) \<Rightarrow>
                      (Inr (if long < fast_burn then [] else [burn_event E (bs_query b) short long]), w2))))"

section \<open>Deployments of Argo CD\<close>

text \<open>Newest first: the last entry of the history comes first.\<close>

definition app_history ::
    "('w) net \<Rightarrow> (string \<Rightarrow> (string \<times> string \<times> string) list option) \<Rightarrow> ('w) api_client \<Rightarrow> string \<Rightarrow> 'w
     \<Rightarrow> (source_error + (string \<times> string \<times> string) list) \<times> 'w" where
  "app_history N dec c app w =
     (case read_decoded N ''argo'' c (''/api/v1/applications/'' @ path_escape app) [] dec w of
        (r, w') \<Rightarrow> (map_sum id rev r, w'))"

definition sync_event :: "source_env \<Rightarrow> string \<Rightarrow> gotime option \<Rightarrow> string \<times> string \<times> string \<Rightarrow> change_event option" where
  "sync_event E app cutoff entry =
     (case entry of (revision, deployed, repo) \<Rightarrow>
        (case se_rfc_parse E deployed of
           None \<Rightarrow> None
         | Some t \<Rightarrow>
             if (case cutoff of None \<Rightarrow> False | Some c \<Rightarrow> t < c) then None
             else Some \<lparr>cv_time = t, cv_kind = ''sync'', cv_target = app,
                        cv_summary = (if repo = [] then ''argo sync'' else ''argo sync from '' @ repo),
                        cv_before = [], cv_after = revision, cv_source = ''argo''\<rparr>))"

definition argo_changes ::
    "('w) net \<Rightarrow> source_env \<Rightarrow> (string \<Rightarrow> (string \<times> string \<times> string) list option) \<Rightarrow> ('w) api_client gomap \<Rightarrow> change_query
     \<Rightarrow> 'w \<Rightarrow> (source_error + change_event list) \<times> 'w" where
  "argo_changes N E dec cs q =
     with_default cs ''argo cd endpoint'' (\<lambda>c w.
       (case app_history N dec c (cq_workload q) w of
          (r, w') \<Rightarrow>
            (map_sum id (List.map_filter (sync_event E (cq_workload q) (if 0 < cq_since q then Some (se_clock E - cq_since q) else None))) r, w')))"

end
