(* ===== verification/Signal_Properties.thy ===== *)
theory Signal_Properties
  imports Http_Check Prom_Anomaly Ops_Tools Symptom_Sources
begin

text \<open>Properties of the active probe, of the anomaly verdict, of the queue tools and of the symptoms that logs,
  traces and metrics contribute to a timeline.\<close>

section \<open>The probe\<close>

text \<open>C16. A check leaves only GET requests or only HEAD requests behind, at most ten of them, redirects
  included, and dials only addresses the guard lets through; so whatever the URL, the redirects and the
  resolver say, nothing under 169.254 is dialed, the metadata service of the clouds included.\<close>

theorem probe_guarded:
  "\<exists>new. snd (http_check P a h) = h @ new \<and> requests_in new \<le> 10 \<and> (\<exists>m \<in> {''GET'', ''HEAD''}. list_all (harmless m) new) \<and>
     Dialed (IPv4 169 254 c d) \<notin> set new"
proof -
  obtain new where new: "snd (http_check P a h) = h @ new" "requests_in new \<le> 10" "\<exists>m \<in> {''GET'', ''HEAD''}. list_all (harmless m) new"
    using check_harmless [of P a h] by blast
  have "\<not> harmless m (Dialed (IPv4 169 254 c d))" for m by (simp add: harmless_def guarded_dial_def)
  then have "Dialed (IPv4 169 254 c d) \<notin> set new" using new(3) by (auto simp: list_all_iff)
  then show ?thesis using new by blast
qed

text \<open>The guard parses the printed address, and an address with a zone does not parse: a link-local address of
  version six with its zone is let through.\<close>

lemma zoned_link_local_dialed:
  "link_local (IPv6 [65152, 0, 0, 0, 0, 0, 0, 1] ''eth0'') \<and> guarded_dial (IPv6 [65152, 0, 0, 0, 0, 0, 0, 1] ''eth0'') \<and>
   \<not> guarded_dial (IPv6 [65152, 0, 0, 0, 0, 0, 0, 1] [])"
  by (simp add: guarded_dial_def mapped_v4_def)

section \<open>Anomalies\<close>


definition ex_anomaly_series :: prom_series where
  "ex_anomaly_series =
     \<lparr>se_labels = [], se_values = [(Fin 0, Fin 5), (Fin 1, Fin 5), (Fin 2, NaN), (Fin 3, Fin 5), (Fin 4, Fin 5), (Fin 9, NaN), (Fin 10, Fin 6)]\<rparr>"

definition ex_anomaly_env :: prom_env where
  "ex_anomaly_env =
     \<lparr>pe_order = id, pe_clock = 0, pe_rfc_parse = (\<lambda>s. None), pe_rfc = (\<lambda>t. []), pe_float = (\<lambda>f x. []), pe_duration = (\<lambda>d. []),
      pe_quote = id, pe_odd = (\<lambda>x. 0)\<rparr>"


section \<open>Queues\<close>

text \<open>A threshold hides no queue without consumer and no orphaned group from the counts of the report.\<close>

lemma flagged_never_filtered:
  "s \<noteq> [] \<Longrightarrow> with_flag queue_flag s (queue_order (kept_queues least qs)) = with_flag queue_flag s qs \<and>
     with_flag row_flag s (group_order (kept_groups least rs)) = with_flag row_flag s rs"
  by (simp add: flagged_counts)

section \<open>Symptoms\<close>

definition least_step :: "gotime option \<Rightarrow> gotime \<Rightarrow> gotime option" where
  "least_step b t = Some (case b of None \<Rightarrow> t | Some x \<Rightarrow> if t < x then t else x)"

lemma least_from: "foldl least_step (Some x) ts = Some (Min (insert x (set ts)))"
proof (induction ts arbitrary: x)
  case (Cons t ts)
  have "least_step (Some x) t = Some (min x t)" by (simp add: least_step_def min_def)
  then show ?case using Cons.IH [of "min x t"] by (cases "ts = []") (simp_all add: min.assoc)
qed simp

lemma least_fold: "foldl least_step None ts = (if ts = [] then None else Some (Min (set ts)))"
  by (cases ts) (simp_all add: least_step_def [of None] least_from)

text \<open>At most one event, at the earliest of the times.\<close>

definition onset :: "change_event list \<Rightarrow> gotime list \<Rightarrow> bool" where
  "onset es ts \<longleftrightarrow> map cv_time es = (if ts = [] then [] else [Min (set ts)])"

lemma onset_fold: "onset es ts \<longleftrightarrow> map cv_time es = (case foldl least_step None ts of None \<Rightarrow> [] | Some t \<Rightarrow> [t])"
  by (simp add: onset_def least_fold)

definition breach_times :: "source_env \<Rightarrow> real \<Rightarrow> (go_float \<times> go_float) list \<Rightarrow> gotime list" where
  "breach_times E th ps = map (\<lambda>p. sample_time E (fst p)) (filter (\<lambda>p. flt_less (Fin th) (snd p)) ps)"

lemma fst_earlier: "map_option fst (earlier b t x) = least_step (map_option fst b) t"
  by (auto simp: earlier_def least_step_def split: option.split)

lemma breach_fold: "map_option fst (foldl (breach_of E th) b ps) = foldl least_step (map_option fst b) (breach_times E th ps)"
  by (induction ps arbitrary: b) (simp_all add: breach_times_def breach_of_def fst_earlier)

lemma earliest_fold: "map_option fst (foldl (\<lambda>b t. earlier b (tm_start t) t) b ts) = foldl least_step (map_option fst b) (map tm_start ts)"
  by (induction ts arbitrary: b) (simp_all add: fst_earlier)

lemma scan_fold:
  "list_all (\<lambda>l. fst l \<noteq> zero_time) ls \<Longrightarrow>
     foldl (\<lambda>(earliest, n) (t, line). if \<not> is_error_line u line then (earliest, n)
        else (if earliest = zero_time \<or> t < earliest then t else earliest, Suc n)) s ls =
     (case foldl least_step (if fst s = zero_time then None else Some (fst s)) (map fst (filter (\<lambda>l. is_error_line u (snd l)) ls)) of
        None \<Rightarrow> zero_time | Some t \<Rightarrow> t, snd s + length (filter (\<lambda>l. is_error_line u (snd l)) ls))"
proof (induction ls arbitrary: s)
  case Nil
  then show ?case by (cases s) simp
next
  case (Cons l ls)
  obtain e n where s: "s = (e, n)" by fastforce
  obtain t line where l: "l = (t, line)" by fastforce
  have "t \<noteq> zero_time" using Cons.prems l by simp
  then show ?case using Cons by (auto simp: s l least_step_def)
qed

lemma onset_metric: "onset (metric_breach_events E r th q) (breach_times E th (concat (map se_values (pr_matrix r))))"
proof -
  let ?ps = "concat (map se_values (pr_matrix r))"
  have "foldl least_step None (breach_times E th ?ps) = map_option fst (foldl (breach_of E th) None ?ps)"
    using breach_fold [of E th None ?ps] by simp
  then show ?thesis by (simp add: onset_fold metric_breach_events_def Let_def symptom_def split: option.split)
qed

lemma onset_logs:
  assumes "list_all (\<lambda>l. fst l \<noteq> zero_time) ls"
  shows "onset (log_error_events u ls w) (map fst (filter (\<lambda>l. is_error_line u (snd l)) ls))"
proof -
  let ?bad = "filter (\<lambda>l. is_error_line u (snd l)) ls"
  have "error_scan u ls = (if ?bad = [] then zero_time else Min (set (map fst ?bad)), length ?bad)"
    using scan_fold [OF assms, of u "(zero_time, 0)"] by (simp add: error_scan_def least_fold)
  then show ?thesis by (simp add: onset_def log_error_events_def symptom_def)
qed

lemma onset_spans:
  "onset (filter (\<lambda>e. cv_kind e = ''trace_error'') (span_symptoms ts w)) (map tm_start (filter tm_error ts))"
  "onset (filter (\<lambda>e. cv_kind e = ''trace_slow'') (span_symptoms ts w))
     (map tm_start (filter (\<lambda>t. \<not> tm_error t \<and> slow_limit < tm_duration t) ts))"
proof -
  have at: "map_option fst (earliest_of xs) = foldl least_step None (map tm_start xs)" for xs
    using earliest_fold [of None xs] by (simp add: earliest_of_def)
  have start: "t = tm_start x" if "earliest_of xs = Some (t, x)" for xs t x
  proof -
    have "foldl (\<lambda>b t. earlier b (tm_start t) t) b xs = Some (t, x) \<Longrightarrow> (case b of None \<Rightarrow> True | Some (t, x) \<Rightarrow> t = tm_start x) \<Longrightarrow> t = tm_start x" for b
      by (induction xs arbitrary: b) (auto simp: earlier_def split: option.splits if_splits)
    from this [of None] that show ?thesis by (simp add: earliest_of_def)
  qed
  show "onset (filter (\<lambda>e. cv_kind e = ''trace_error'') (span_symptoms ts w)) (map tm_start (filter tm_error ts))"
    "onset (filter (\<lambda>e. cv_kind e = ''trace_slow'') (span_symptoms ts w))
     (map tm_start (filter (\<lambda>t. \<not> tm_error t \<and> slow_limit < tm_duration t) ts))"
    by (auto simp: onset_fold span_symptoms_def Let_def failed_event_def slow_event_def symptom_def at [symmetric] dest: start split: option.split)
qed



end
