(* ===== verification/Spec2Isabelle.thy ===== *)
theory Spec2Isabelle
  imports Agent_Properties Tool_Properties Provider_Properties Chat_Properties Store_Properties Connector_Properties
    Diagnosis_Properties Query_Properties Host_Properties Signal_Properties
begin

text \<open>
  A verification library for cloudy, an agent that answers operations questions by letting a language
  model call read-only diagnostic tools.

  The program. A run of the agent (\<open>internal/core/agent/agent.go\<close>) sends a conversation to a model
  provider (\<open>internal/core/llm\<close>), streams the answer, executes the tool calls in it against a tool
  registry (\<open>internal/core/tools\<close>) and repeats, under a step budget and a wall-clock limit. A chain of
  hooks (\<open>hook*.go\<close>) refuses repeated calls, caps tokens and cost, limits arguments, summarises logs,
  masks secrets and asks the operator before a high-risk tool runs. A permission profile
  (\<open>internal/permission\<close>) filters the registry and configures masking; an active skill
  (\<open>internal/core/skills\<close>) adds a prompt and narrows the tools. Network access of the tools goes
  through a read-only transport (\<open>internal/transport\<close>). The same agent also runs behind chat platforms
  (\<open>internal/chatops\<close>): events are admitted, deduplicated, queued and answered, and a conversation
  resumes its session through a map on disk.

  Conventions. A Go string is a HOL \<open>string\<close>, a list of bytes; \<open>Go_Text\<close> and \<open>Go_Utf8\<close> model the parts
  of \<open>strings\<close>, \<open>unicode/utf8\<close> and \<open>strconv\<close> the program uses. A struct is a record, a Go map an
  association list with distinct keys (\<open>gomap\<close>), an error or a panic a value of a sum. Times are
  nanoseconds since the Go zero time. \<open>int\<close> is unbounded: the counters it is used for stay far from
  2^63. \<open>float64\<close> is \<open>real\<close>, rounding is not modelled. Operations under a mutex are single steps.
  Whatever lies outside the sources is a parameter: the model provider, the tools, the clock, the
  operator, the regular-expression engine, the JSON and YAML codecs, SHA-256, the faults of the file
  system, the iteration order of a map, the choice of a \<open>select\<close>. A theorem that needs something of a
  parameter says so in its hypotheses.

  Theories and what they model:
  \<^item> \<open>Cloudy_Prelude\<close>, \<open>Go_Text\<close>, \<open>Go_Utf8\<close>, \<open>Go_Space\<close>: the shared vocabulary, the locales \<open>keyed_store\<close> and
    \<open>step_invariant\<close>, and the string functions.
  \<^item> \<open>Registry_Map\<close>: \<open>internal/registry\<close>. \<open>Llm_Types\<close>: \<open>llm/provider.go\<close>, \<open>context_window.go\<close>, \<open>args.go\<close>.
  \<^item> \<open>Tool_Catalog\<close>, \<open>Tool_Catalog_Facts\<close>: \<open>tools/registry.go\<close>, \<open>risk.go\<close>, \<open>helpers.go\<close>; the catalog
    invariant and its preservation by every operation; the locale \<open>glob_list\<close> shared with permissions.
  \<^item> \<open>Perm_Filter\<close>, \<open>Perm_Mask\<close>: \<open>internal/permission\<close>; \<open>MaskHistory\<close> over an explicit store of slices.
  \<^item> \<open>Agent_Text\<close>: rendering, truncating and summarising observations. \<open>Agent_Hooks\<close>:
    the hooks and what each guarantees. \<open>Skills\<close>: \<open>core/skills\<close>. \<open>Agent_Prompt\<close>: options, \<open>New\<close> and the system
    prompt. \<open>Agent_Loop\<close>: \<open>Run\<close>. The registries of a run are addresses of a store, because \<open>ToolsFor\<close>
    writes aliases through the pointer that the approval hook also holds.
  \<^item> \<open>Agent_Facts\<close>, \<open>Agent_Policy\<close>, \<open>Agent_Claims\<close>: frame conditions of a run (locale \<open>rt_frame\<close>), its
    transcript, its errors, the cost caps, the approval gate, the hook chain. \<open>Agent_Scenario\<close> is a
    concrete run used for instances.
  \<^item> \<open>Agent_Tools\<close>: the tools a run calls, as one world. \<open>Llm_Breaker\<close>: \<open>circuit.go\<close>, \<open>fallback.go\<close>.
    \<open>Transport_Guard\<close>: \<open>internal/transport\<close>.
  \<^item> \<open>Go_Path\<close>: \<open>path/filepath\<close>, trimming, hexadecimal. \<open>Atomic_File\<close>: the four writers that
    replace a file, as interpretations of one contract. \<open>Profile_Files\<close>: profiles on disk and the active
    marker. \<open>Env_Memory\<close>: \<open>internal/memory\<close> and the tool that records a fact.
  \<^item> \<open>Session_Log\<close>, \<open>Session_Facts\<close>: \<open>internal/session\<close>. \<open>Incident_Card\<close>, \<open>Incident_Store\<close>,
    \<open>Incident_Retrieve\<close> with \<open>Incident_Facts\<close>, \<open>Incident_Claims\<close>: \<open>internal/incidentmemory\<close> and
    \<open>agent/incident_memory.go\<close>; the store refines a map from ids to cards. \<open>Store_Scenario\<close>: instances.
  \<^item> \<open>Chat_Policy\<close>, \<open>Chat_Service\<close>, \<open>Chat_Format\<close>: \<open>internal/chatops\<close>; the service is a transition system
    over which the invariant is proved by rule induction; the mention guards are interpretations of
    one contract over a replacement table. \<open>Chat_Adapters\<close>, \<open>Chat_Poller\<close>, \<open>Chat_Delivery\<close>,
    \<open>Connector_Facts\<close>: the configuration of the connectors, the HTTP handlers with their signatures, the
    Telegram poller, the deliveries.
  \<^item> \<open>Correlate_Cause\<close>, \<open>Correlate_Facts\<close>: \<open>tools/change\<close> and \<open>tools/correlate\<close>, timeline and causes.
    \<open>Cloud_Exec\<close>, \<open>Cloud_Aws\<close>, \<open>Cloud_Tools\<close>, \<open>Cloud_Sources\<close>: \<open>tools/cloud\<close>, the allowlisted command
    lines, every tool of the group and its two timeline sources; \<open>Cloud_Facts\<close>, \<open>Cloud_Source_Facts\<close>: which
    commands are run (locale \<open>command_policy\<close>, for read-only commands and for commands without foreign
    flags) and where the symptoms lie.
  \<^item> \<open>Http_Api\<close>: \<open>clients/httpapi\<close>, one HTTP client with its credentials, redirects and body cap; the
    transports are interpretations of \<open>read_tripper\<close>. \<open>Prom_Client\<close>: \<open>clients/prom\<close>. \<open>Go_Number\<close>:
    floats with their infinities and NaN, durations and windows. \<open>Log_Tools\<close>, \<open>Trace_Tools\<close>: \<open>tools/log\<close>,
    \<open>tools/trace\<close>. \<open>Prom_Tools\<close>, \<open>Sparkline\<close>: the query tools and the sparkline they draw. \<open>Prom_Budget\<close>: the
    error budget, in the state monad over the cache of ratios; the cache changes only the number of queries.
    \<open>Prom_Anomaly\<close>: scores against a baseline. \<open>Symptom_Sources\<close>: the symptoms logs, traces, metrics, the error
    budget and Argo CD contribute to a timeline. \<open>Http_Check\<close>: \<open>tools/synthetic\<close>, the probe with its guarded
    dialer. \<open>Ops_Tools\<close>: \<open>tools/gitops\<close>, \<open>tools/alert\<close>, \<open>tools/oncall\<close>, \<open>tools/queue\<close>.
  \<^item> \<open>K8s_Hub\<close>, \<open>K8s_Tools\<close>, \<open>K8s_Inspect\<close>: \<open>clients/k8s\<close>, every tool of \<open>tools/k8s\<close> and the change source over
    the same clients; \<open>K8s_Facts\<close>: in which namespaces they read.
  \<^item> \<open>Self_Update\<close>: \<open>internal/selfupdate\<close>. \<open>Secrets\<close>: \<open>internal/secrets\<close>, a file that is the map of
    its entries.
  \<^item> \<open>Agent_Properties\<close>, \<open>Tool_Properties\<close>, \<open>Provider_Properties\<close>, \<open>Chat_Properties\<close>,
    \<open>Store_Properties\<close>, \<open>Connector_Properties\<close>, \<open>Diagnosis_Properties\<close>, \<open>Query_Properties\<close>,
    \<open>Host_Properties\<close>, \<open>Signal_Properties\<close>: the properties, numbered, each with an instance.

  Bounds and fuel. The loop of \<open>Run\<close> counts its steps down, so it is total. \<open>contains_trigger\<close> is given
  one unit of fuel per byte of the input and never runs out for a non-empty trigger. The chain of the
  fallback provider and the runes of a string are consumed by a decreasing measure.

  Polling a Logs Insights query is given the 30 polls of the code. An HTTP client follows at most ten
  requests per call, as Go's does. A scanner stops at a line of 65536 bytes, Go's default.

  Not modelled: the provider adapters (wire formats of third-party APIs), the remaining groups of
  diagnostic tools (each a parameter of the loop) and the detectors that decide which groups are
  offered, the terminal UI and command line, most of the configuration and setup, discovery, and
  port forwarding.
\<close>

end
